(* ===== verification/Prelude.thy ===== *)
theory Prelude
  imports Main "HOL-Library.Char_ord" "HOL-Library.List_Lexorder"
begin

text \<open>
  What the components share.

  \<^item> The types of the model: milliseconds are integers, JavaScript strings are lists of code
    units below 256.
  \<^item> Asynchronous operations that may throw: a function from the state to an outcome
    (\<open>Inl\<close> the error that was thrown, \<open>Inr\<close> the value that was returned) and the state
    left behind. The state is kept in the error case too, because a TypeScript method that
    throws does not roll back the writes it has already made.
  \<^item> The string functions of the language that the sources use (\<open>trim\<close>, \<open>includes\<close>,
    \<open>startsWith\<close>, \<open>endsWith\<close>, \<open>split\<close>, \<open>toLowerCase\<close>).
  \<^item> The SQL statements that the libSQL stores execute, on tables kept as lists of rows:
    \<open>INSERT\<close> into a table with a primary key, \<open>UPDATE ... WHERE\<close> with the number
    of affected rows, \<open>DELETE ... WHERE\<close> and \<open>SELECT\<close> by key.
\<close>

named_theorems op_simps "outcomes of operations that may throw"
named_theorems sql_simps "effect of the SQL statements on tables"
named_theorems js_simps "string functions of the language"

section \<open>Types\<close>

type_synonym ms = int

type_synonym ('s, 'e, 'a) op = "'s \<Rightarrow> ('e + 'a) \<times> 's"

section \<open>Operations that may throw\<close>

definition ret :: "'a \<Rightarrow> ('s, 'e, 'a) op" where
  "ret x s = (Inr x, s)"

definition throw :: "'e \<Rightarrow> ('s, 'e, 'a) op" where
  "throw e s = (Inl e, s)"

definition and_then :: "('s, 'e, 'a) op \<Rightarrow> ('a \<Rightarrow> ('s, 'e, 'b) op) \<Rightarrow> ('s, 'e, 'b) op" where
  "and_then m f s = (case m s of (Inl e, s') \<Rightarrow> (Inl e, s') | (Inr x, s') \<Rightarrow> f x s')"

definition try_catch :: "('s, 'e, 'a) op \<Rightarrow> ('e \<Rightarrow> ('s, 'f, 'a) op) \<Rightarrow> ('s, 'f, 'a) op" where
  "try_catch m h s = (case m s of (Inl e, s') \<Rightarrow> h e s' | (Inr x, s') \<Rightarrow> (Inr x, s'))"

lemma ret_apply [op_simps, simp]: "ret x s = (Inr x, s)"
  by (simp add: ret_def)

lemma throw_apply [op_simps, simp]: "throw e s = (Inl e, s)"
  by (simp add: throw_def)

lemma and_then_Inr [op_simps]:
  "and_then m f s = (Inr y, t) \<longleftrightarrow> (\<exists>x s'. m s = (Inr x, s') \<and> f x s' = (Inr y, t))"
  by (auto simp: and_then_def split: prod.splits sum.splits)

lemma and_then_InrE:
  assumes "and_then m f s = (Inr y, t)"
  obtains x s' where "m s = (Inr x, s')" and "f x s' = (Inr y, t)"
  using assms by (auto simp: and_then_Inr)

lemma and_then_Inl [op_simps]:
  "and_then m f s = (Inl e, t) \<longleftrightarrow>
     m s = (Inl e, t) \<or> (\<exists>x s'. m s = (Inr x, s') \<and> f x s' = (Inl e, t))"
  by (auto simp: and_then_def split: prod.splits sum.splits)

lemma and_then_step:
  "m s = (Inr x, s') \<Longrightarrow> and_then m f s = f x s'"
  "m s = (Inl e, s') \<Longrightarrow> and_then m f s = (Inl e, s')"
  by (simp_all add: and_then_def)

text \<open>A predicate of the state that both parts of a sequence keep is kept by the sequence.\<close>

lemma and_then_keeps:
  assumes "P (snd (m s))"
    and "\<And>x s'. m s = (Inr x, s') \<Longrightarrow> P s' \<Longrightarrow> P (snd (f x s'))"
  shows "P (snd (and_then m f s))"
  using assms by (auto simp: and_then_def split: prod.splits sum.splits)

section \<open>Strings\<close>

text \<open>
  \<open>String.prototype.trim\<close> removes white space and line terminators; of the code units below
  256 these are 9 to 13, 32 and 160.
\<close>

definition js_ws :: "char \<Rightarrow> bool" where
  "js_ws c \<longleftrightarrow> (let n = of_char c in (9 \<le> n \<and> n \<le> 13) \<or> n = 32 \<or> n = (160::nat))"

definition js_trim_start :: "string \<Rightarrow> string" where
  "js_trim_start s = dropWhile js_ws s"

definition js_trim :: "string \<Rightarrow> string" where
  "js_trim s = rev (dropWhile js_ws (rev (js_trim_start s)))"

definition js_startsWith :: "string \<Rightarrow> string \<Rightarrow> bool" where
  "js_startsWith s p \<longleftrightarrow> take (length p) s = p"

definition js_endsWith :: "string \<Rightarrow> string \<Rightarrow> bool" where
  "js_endsWith s p \<longleftrightarrow> js_startsWith (rev s) (rev p)"

fun js_includes :: "string \<Rightarrow> string \<Rightarrow> bool" where
  "js_includes [] p \<longleftrightarrow> p = []"
| "js_includes (c # cs) p \<longleftrightarrow> js_startsWith (c # cs) p \<or> js_includes cs p"

text \<open>\<open>split\<close> by a separator of one code unit: never the empty list.\<close>

fun js_split :: "char \<Rightarrow> string \<Rightarrow> string list" where
  "js_split d [] = [[]]"
| "js_split d (c # cs) =
     (if c = d then [] # js_split d cs
      else case js_split d cs of [] \<Rightarrow> [[c]] | w # ws \<Rightarrow> (c # w) # ws)"

fun js_join :: "string \<Rightarrow> string list \<Rightarrow> string" where
  "js_join d [] = []"
| "js_join d [w] = w"
| "js_join d (w # v # ws) = w @ d @ js_join d (v # ws)"

definition js_lower_char :: "char \<Rightarrow> char" where
  "js_lower_char c =
     (let n = of_char c :: nat
      in if (65 \<le> n \<and> n \<le> 90) \<or> (192 \<le> n \<and> n \<le> 222 \<and> n \<noteq> 215) then char_of (n + 32) else c)"

definition js_toLowerCase :: "string \<Rightarrow> string" where
  "js_toLowerCase s = map js_lower_char s"

text \<open>Character classes of the regular expressions in the sources.\<close>

definition is_digit :: "char \<Rightarrow> bool" where
  "is_digit c \<longleftrightarrow> (let n = of_char c :: nat in 48 \<le> n \<and> n \<le> 57)"

definition is_lower :: "char \<Rightarrow> bool" where
  "is_lower c \<longleftrightarrow> (let n = of_char c :: nat in 97 \<le> n \<and> n \<le> 122)"

definition is_upper :: "char \<Rightarrow> bool" where
  "is_upper c \<longleftrightarrow> (let n = of_char c :: nat in 65 \<le> n \<and> n \<le> 90)"

definition is_alpha :: "char \<Rightarrow> bool" where
  "is_alpha c \<longleftrightarrow> is_lower c \<or> is_upper c"

definition is_alnum :: "char \<Rightarrow> bool" where
  "is_alnum c \<longleftrightarrow> is_alpha c \<or> is_digit c"

lemma js_startsWith_iff [js_simps]: "js_startsWith s p \<longleftrightarrow> (\<exists>r. s = p @ r)"
  unfolding js_startsWith_def by (metis append_take_drop_id append_eq_conv_conj)

lemma js_includes_iff [js_simps]: "js_includes s p \<longleftrightarrow> (\<exists>l r. s = l @ p @ r)"
proof (induction s)
  case Nil
  then show ?case by simp
next
  case (Cons c cs)
  have "(\<exists>l r. c # cs = l @ p @ r) \<longleftrightarrow>
        (\<exists>r. c # cs = p @ r) \<or> (\<exists>l r. cs = l @ p @ r)"
    by (metis append_Cons append_Nil append_eq_Cons_conv)
  with Cons show ?case by (simp add: js_startsWith_iff)
qed

lemma js_split_ne [simp]: "js_split d s \<noteq> []"
  by (induction s) (auto split: list.splits)

lemma js_split_no_sep: "d \<notin> set s \<Longrightarrow> js_split d s = [s]"
  by (induction s) auto

lemma js_split_append:
  "d \<notin> set s \<Longrightarrow> js_split d (s @ d # t) = s # js_split d t"
  by (induction s) auto

lemma js_split_join:
  "ws \<noteq> [] \<Longrightarrow> (\<forall>w \<in> set ws. d \<notin> set w) \<Longrightarrow> js_split d (js_join [d] ws) = ws"
  by (induction "[d]" ws rule: js_join.induct) (auto simp: js_split_no_sep js_split_append)

lemma js_join_split: "js_join [d] (js_split d s) = s"
proof (induction s)
  case (Cons c s)
  obtain w ws where w: "js_split d s = w # ws" by (cases "js_split d s") auto
  with Cons show ?case by (cases ws) auto
qed simp

lemma set_js_split: "w \<in> set (js_split d s) \<Longrightarrow> d \<notin> set w"
  by (induction s arbitrary: w) (auto split: list.splits if_splits)

text \<open>Trimming: the result neither starts nor ends with white space, and trimming again changes nothing.\<close>

lemma dropWhile_fixed: "\<not> P (hd xs) \<Longrightarrow> xs \<noteq> [] \<Longrightarrow> dropWhile P xs = xs"
  by (cases xs) auto

lemma js_trim_ends:
  assumes "js_trim s \<noteq> []"
  shows "\<not> js_ws (hd (js_trim s))" and "\<not> js_ws (last (js_trim s))"
proof -
  let ?u = "dropWhile js_ws s"
  let ?v = "dropWhile js_ws (rev ?u)"
  have v: "js_trim s = rev ?v" by (simp add: js_trim_def js_trim_start_def)
  with assms have vne: "?v \<noteq> []" by simp
  then show "\<not> js_ws (last (js_trim s))"
    unfolding v by (simp add: last_rev hd_dropWhile)
  obtain w where w: "rev ?u = w @ ?v" by (metis takeWhile_dropWhile_id)
  then have "?u = rev ?v @ rev w" by (metis rev_append rev_rev_ident)
  moreover have "?u \<noteq> []" using vne by (metis dropWhile.simps(1) rev.simps(1))
  then have "\<not> js_ws (hd ?u)" by (rule hd_dropWhile)
  ultimately show "\<not> js_ws (hd (js_trim s))"
    unfolding v using vne by (metis hd_append2 rev_is_Nil_conv)
qed

lemma js_trim_idem [simp]: "js_trim (js_trim s) = js_trim s"
proof (cases "js_trim s = []")
  case True
  then show ?thesis by (metis dropWhile.simps(1) js_trim_def js_trim_start_def rev.simps(1))
next
  case False
  with js_trim_ends [OF False] show ?thesis
    unfolding js_trim_def [of "js_trim s"] js_trim_start_def
    by (simp add: dropWhile_fixed hd_rev)
qed

lemma js_trim_set: "set (js_trim s) \<subseteq> set s"
  by (auto simp: js_trim_def js_trim_start_def dest!: set_dropWhileD)

section \<open>SQL tables\<close>

text \<open>
  A table is the list of its rows in insertion order. \<open>INSERT\<close> fails (\<open>None\<close>) when a row
  with the same primary key exists; \<open>UPDATE\<close> and \<open>DELETE\<close> return the new table and the
  number of rows the \<open>WHERE\<close> clause selected.
\<close>

definition sql_get :: "('r \<Rightarrow> 'k) \<Rightarrow> 'k \<Rightarrow> 'r list \<Rightarrow> 'r option" where
  "sql_get key k t = find (\<lambda>r. key r = k) t"

definition sql_insert :: "('r \<Rightarrow> 'k) \<Rightarrow> 'r \<Rightarrow> 'r list \<Rightarrow> 'r list option" where
  "sql_insert key r t = (if key r \<in> key ` set t then None else Some (t @ [r]))"

definition sql_update :: "('r \<Rightarrow> bool) \<Rightarrow> ('r \<Rightarrow> 'r) \<Rightarrow> 'r list \<Rightarrow> 'r list \<times> nat" where
  "sql_update p f t = (map (\<lambda>r. if p r then f r else r) t, length (filter p t))"

definition sql_delete :: "('r \<Rightarrow> bool) \<Rightarrow> 'r list \<Rightarrow> 'r list \<times> nat" where
  "sql_delete p t = (filter (\<lambda>r. \<not> p r) t, length (filter p t))"

text \<open>The primary key constraint: no two rows have the same key.\<close>

definition keyed :: "('r \<Rightarrow> 'k) \<Rightarrow> 'r list \<Rightarrow> bool" where
  "keyed key t \<longleftrightarrow> distinct (map key t)"

lemma find_Some_D: "find p xs = Some x \<Longrightarrow> p x \<and> x \<in> set xs"
  by (induction xs) (auto split: if_splits)

lemma sql_get_Nil [sql_simps, simp]: "sql_get key k [] = None"
  by (simp add: sql_get_def)

lemma sql_get_Cons [sql_simps, simp]:
  "sql_get key k (r # t) = (if key r = k then Some r else sql_get key k t)"
  by (simp add: sql_get_def)

lemma sql_get_Some_key: "sql_get key k t = Some r \<Longrightarrow> key r = k \<and> r \<in> set t"
  by (induction t) (auto split: if_splits)

lemma sql_get_None: "sql_get key k t = None \<longleftrightarrow> k \<notin> key ` set t"
  by (induction t) auto

lemma sql_get_append:
  "sql_get key k (t @ u) = (case sql_get key k t of None \<Rightarrow> sql_get key k u | Some r \<Rightarrow> Some r)"
  by (induction t) auto

lemma sql_get_mem: "keyed key t \<Longrightarrow> r \<in> set t \<Longrightarrow> sql_get key (key r) t = Some r"
  by (induction t) (auto simp: keyed_def rev_image_eqI)

lemma sql_get_insert [sql_simps]:
  assumes "sql_insert key r t = Some u"
  shows "sql_get key k u = (if k = key r then Some r else sql_get key k t)"
proof -
  from assms have u: "u = t @ [r]" and n: "key r \<notin> key ` set t"
    by (auto simp: sql_insert_def split: if_splits)
  then show ?thesis
    using sql_get_None [of key "key r" t]
    by (auto simp: sql_get_append split: option.splits)
qed

lemma sql_insert_None_iff [sql_simps]: "sql_insert key r t = None \<longleftrightarrow> sql_get key (key r) t \<noteq> None"
  by (auto simp: sql_insert_def sql_get_None)

lemma sql_get_update [sql_simps]:
  assumes "\<And>r. key (f r) = key r"
  shows "sql_get key k (fst (sql_update p f t)) =
         map_option (\<lambda>r. if p r then f r else r) (sql_get key k t)"
  by (induction t) (auto simp: sql_update_def assms)

lemma sql_get_delete_key [sql_simps]:
  "sql_get key k (fst (sql_delete (\<lambda>r. key r = j) t)) = (if k = j then None else sql_get key k t)"
  by (induction t) (auto simp: sql_delete_def)

lemma keyed_Nil [simp]: "keyed key []"
  by (simp add: keyed_def)

lemma keyed_insert: "keyed key t \<Longrightarrow> sql_insert key r t = Some u \<Longrightarrow> keyed key u"
  by (auto simp: keyed_def sql_insert_def split: if_splits)

lemma keyed_update:
  assumes "\<And>r. key (f r) = key r" and "keyed key t"
  shows "keyed key (fst (sql_update p f t))"
proof -
  have "map key (fst (sql_update p f t)) = map key t"
    by (auto simp: sql_update_def assms(1))
  with assms(2) show ?thesis by (simp add: keyed_def)
qed

lemma keyed_filter: "keyed key t \<Longrightarrow> keyed key (filter p t)"
  by (simp add: keyed_def distinct_map_filter)

lemma keyed_delete: "keyed key t \<Longrightarrow> keyed key (fst (sql_delete p t))"
  by (simp add: sql_delete_def keyed_filter)

text \<open>
  A \<open>WHERE\<close> clause that fixes the primary key selects at most one row; whether it selected one
  is whether the row of that key satisfies the rest of the clause.
\<close>

lemma filter_key_count:
  assumes "keyed key t" and "\<And>r. p r \<Longrightarrow> key r = k"
  shows "length (filter p t) =
         (case sql_get key k t of None \<Rightarrow> 0 | Some r \<Rightarrow> if p r then 1 else 0)"
  using assms(1)
proof (induction t)
  case Nil
  then show ?case by simp
next
  case (Cons r t)
  then have tl: "keyed key t" and fresh: "key r \<notin> key ` set t"
    by (auto simp: keyed_def)
  show ?case
  proof (cases "key r = k")
    case True
    have "filter p t = []"
      unfolding filter_empty_conv using True fresh assms(2) by (metis image_eqI)
    with True show ?thesis by simp
  next
    case False
    with Cons.IH [OF tl] assms(2) show ?thesis by (auto split: option.splits)
  qed
qed

lemma sql_update_affected [sql_simps]:
  assumes "keyed key t" and "\<And>r. p r \<Longrightarrow> key r = k"
  shows "snd (sql_update p f t) = 1 \<longleftrightarrow> (\<exists>r. sql_get key k t = Some r \<and> p r)"
  using filter_key_count [OF assms] by (auto simp: sql_update_def split: option.splits if_splits)

lemma sql_delete_affected [sql_simps]:
  assumes "keyed key t" and "\<And>r. p r \<Longrightarrow> key r = k"
  shows "snd (sql_delete p t) = 1 \<longleftrightarrow> (\<exists>r. sql_get key k t = Some r \<and> p r)"
  using filter_key_count [OF assms] by (auto simp: sql_delete_def split: option.splits if_splits)

lemma sql_update_none: "snd (sql_update p f t) = 0 \<Longrightarrow> fst (sql_update p f t) = t"
  by (auto simp: sql_update_def filter_empty_conv intro: map_idI)

end
