(* ===== verification/Json.thy ===== *)
theory Json
  imports Prelude "HOL-Library.AList"
begin

text \<open>
  JavaScript values as the sources read them from JSON texts and environment variables, and the
  conversions of the language between them: \<open>String(v)\<close>, \<open>Number(v)\<close>, decimal output.

  Objects are the list of their own properties in insertion order; an object never has two
  properties of the same name (\<open>jwf\<close>). Numbers are the integers that \<open>z.number().int()\<close> of
  the schema library accepts, those of magnitude at most \<open>Number.MAX_SAFE_INTEGER\<close>: \<open>js_Number\<close>
  reads the number grammar of the language and rounds to the nearest double, and is \<open>None\<close> where
  the double is no such integer (\<open>NaN\<close>, an infinity, a fraction, too large).
\<close>

datatype json = JNull | JBool bool | JNum int | JStr string | JArr "json list" | JObj "(string \<times> json) list"

fun jfield :: "string \<Rightarrow> json \<Rightarrow> json option" where
  "jfield k (JObj fs) = map_of fs k"
| "jfield k _ = None"

fun jis_obj :: "json \<Rightarrow> bool" where
  "jis_obj (JObj _) \<longleftrightarrow> True"
| "jis_obj _ \<longleftrightarrow> False"

text \<open>The value at a path of property names.\<close>

fun jget :: "string list \<Rightarrow> json \<Rightarrow> json option" where
  "jget [] j = Some j"
| "jget (k # p) j = (case jfield k j of None \<Rightarrow> None | Some v \<Rightarrow> jget p v)"

text \<open>Property names are distinct, at every depth.\<close>

fun jwf :: "json \<Rightarrow> bool" where
  "jwf (JObj fs) \<longleftrightarrow> distinct (map fst fs) \<and> (\<forall>kv \<in> set fs. jwf (snd kv))"
| "jwf (JArr xs) \<longleftrightarrow> (\<forall>x \<in> set xs. jwf x)"
| "jwf _ \<longleftrightarrow> True"

section \<open>Numbers as text\<close>

definition digit_char :: "int \<Rightarrow> char" where
  "digit_char n = char_of (nat (48 + n))"

function js_show_nat :: "int \<Rightarrow> string" where
  "js_show_nat n = (if n < 10 then [digit_char n] else js_show_nat (n div 10) @ [digit_char (n mod 10)])"
  by pat_completeness auto
termination by (relation "measure nat") auto

declare js_show_nat.simps [simp del]

definition js_show_int :: "int \<Rightarrow> string" where
  "js_show_int n = (if n < 0 then CHR ''-'' # js_show_nat (- n) else js_show_nat n)"

definition js_show_bool :: "bool \<Rightarrow> string" where
  "js_show_bool b = (if b then ''true'' else ''false'')"

text \<open>The value of a digit of a base up to 16; 16 for any other code unit.\<close>

definition digit_value :: "char \<Rightarrow> int" where
  "digit_value c =
     (let n = of_char c :: int
      in if is_digit c then n - 48 else if 97 \<le> n \<and> n \<le> 102 then n - 87 else if 65 \<le> n \<and> n \<le> 70 then n - 55 else 16)"

definition read_digits :: "int \<Rightarrow> string \<Rightarrow> int" where
  "read_digits b ds = foldl (\<lambda>n c. b * n + digit_value c) 0 ds"

definition read_nat :: "int \<Rightarrow> string \<Rightarrow> int option" where
  "read_nat b ds = (if ds \<noteq> [] \<and> list_all (\<lambda>c. digit_value c < b) ds then Some (read_digits b ds) else None)"

text \<open>An optional sign in front of an unsigned reader.\<close>

definition js_signed :: "(string \<Rightarrow> int option) \<Rightarrow> string \<Rightarrow> int option" where
  "js_signed f s =
     (if s \<noteq> [] \<and> hd s = CHR ''-'' then map_option uminus (f (tl s))
      else if s \<noteq> [] \<and> hd s = CHR ''+'' then f (tl s)
      else f s)"

definition decimal_exponent :: "string \<Rightarrow> int option" where
  "decimal_exponent s =
     (if s = [] then Some 0
      else if hd s = CHR ''e'' \<or> hd s = CHR ''E'' then js_signed (read_nat 10) (tl s)
      else None)"

text \<open>An unsigned decimal literal as numerator and denominator.\<close>

definition js_decimal :: "string \<Rightarrow> (int \<times> int) option" where
  "js_decimal s =
     (let whole = takeWhile is_digit s;
          rest = dropWhile is_digit s;
          (frac, tail) = (if rest \<noteq> [] \<and> hd rest = CHR ''.'' then (takeWhile is_digit (tl rest), dropWhile is_digit (tl rest))
                          else ([], rest))
      in if whole = [] \<and> frac = [] then None
         else case decimal_exponent tail of
                None \<Rightarrow> None
              | Some e \<Rightarrow>
                  let m = read_digits 10 (whole @ frac); e' = e - int (length frac)
                  in if 0 \<le> e' then Some (m * 10 ^ nat e', 1) else Some (m, 10 ^ nat (- e')))"

definition MAX_SAFE_INTEGER :: int where
  "MAX_SAFE_INTEGER = 9007199254740991"

function bit_length :: "int \<Rightarrow> nat" where
  "bit_length n = (if n \<le> 0 then 0 else Suc (bit_length (n div 2)))"
  by pat_completeness auto
termination by (relation "measure nat") auto

declare bit_length.simps [simp del]

definition round_half_even :: "int \<Rightarrow> int \<Rightarrow> int" where
  "round_half_even n d =
     (let q = n div d; r = n mod d in if 2 * r < d \<or> (2 * r = d \<and> even q) then q else q + 1)"

text \<open>The double nearest to \<open>m / d\<close> (not negative), where it is a safe integer.\<close>

definition double_int :: "int \<Rightarrow> int \<Rightarrow> int option" where
  "double_int m d =
     (let q = m div d
      in if m = 0 then Some 0
         else if q = 0 then if m * 2 ^ 1075 \<le> d then Some 0 else if (d - m) * 2 ^ 54 \<le> d then Some 1 else None
         else if bit_length q > 53 then None
         else let k = 53 - bit_length q;
                  r = round_half_even (m * 2 ^ k) d
              in if r mod 2 ^ k = 0 \<and> r div 2 ^ k \<le> MAX_SAFE_INTEGER then Some (r div 2 ^ k) else None)"

definition js_unsigned :: "string \<Rightarrow> int option" where
  "js_unsigned s = (case js_decimal s of None \<Rightarrow> None | Some (m, d) \<Rightarrow> double_int m d)"

definition radix_of :: "char \<Rightarrow> int option" where
  "radix_of c =
     (if c = CHR ''x'' \<or> c = CHR ''X'' then Some 16
      else if c = CHR ''o'' \<or> c = CHR ''O'' then Some 8
      else if c = CHR ''b'' \<or> c = CHR ''B'' then Some 2 else None)"

definition radix_literal :: "string \<Rightarrow> (int \<times> string) option" where
  "radix_literal s =
     (case s of z # c # ds \<Rightarrow> if z = CHR ''0'' then map_option (\<lambda>b. (b, ds)) (radix_of c) else None | _ \<Rightarrow> None)"

text \<open>\<open>Number(s)\<close> of a string.\<close>

definition js_Number :: "string \<Rightarrow> int option" where
  "js_Number s =
     (let t = js_trim s
      in if t = [] then Some 0
         else case radix_literal t of
                Some (b, ds) \<Rightarrow>
                  (case read_nat b ds of None \<Rightarrow> None | Some m \<Rightarrow> double_int m 1)
              | None \<Rightarrow> js_signed js_unsigned t)"

text \<open>\<open>String(v)\<close>; inside an array \<open>null\<close> is the empty text.\<close>

fun js_String :: "json \<Rightarrow> string" where
  "js_String JNull = ''null''"
| "js_String (JBool b) = js_show_bool b"
| "js_String (JNum n) = js_show_int n"
| "js_String (JStr s) = s"
| "js_String (JArr xs) = js_join '','' (map (\<lambda>x. if x = JNull then [] else js_String x) xs)"
| "js_String (JObj _) = ''[object Object]''"

definition js_toNumber :: "json \<Rightarrow> int option" where
  "js_toNumber j =
     (case j of
        JNull \<Rightarrow> Some 0
      | JBool b \<Rightarrow> Some (if b then 1 else 0)
      | JNum n \<Rightarrow> if \<bar>n\<bar> \<le> MAX_SAFE_INTEGER then Some n else None
      | JStr s \<Rightarrow> js_Number s
      | JArr xs \<Rightarrow> js_Number (js_String j)
      | JObj _ \<Rightarrow> None)"

section \<open>Decimal output is read back\<close>

lemma of_char_digit_char: "0 \<le> n \<Longrightarrow> n < 10 \<Longrightarrow> (of_char (digit_char n) :: nat) = nat (48 + n)"
  by (simp add: digit_char_def of_char_of)

lemma is_digit_char [simp]: "0 \<le> n \<Longrightarrow> n < 10 \<Longrightarrow> is_digit (digit_char n)"
  by (simp add: is_digit_def of_char_digit_char Let_def) arith

lemma digit_value_char [simp]:
  assumes "0 \<le> n" "n < 10"
  shows "digit_value (digit_char n) = n"
proof -
  have "(of_char (digit_char n) :: int) = int (of_char (digit_char n))" by (simp only: of_nat_of_char)
  also have "\<dots> = 48 + n" using assms by (simp add: of_char_digit_char)
  finally show ?thesis using assms by (simp add: digit_value_def)
qed

lemma read_digits_snoc: "read_digits b (ds @ [c]) = b * read_digits b ds + digit_value c"
  by (simp add: read_digits_def)

lemma js_show_nat_ne [simp]: "js_show_nat n \<noteq> []"
  by (subst js_show_nat.simps) simp

lemma js_show_nat_digits: "0 \<le> n \<Longrightarrow> c \<in> set (js_show_nat n) \<Longrightarrow> is_digit c"
proof (induction n arbitrary: c rule: js_show_nat.induct)
  case (1 n)
  then show ?case by (subst (asm) (2) js_show_nat.simps) (auto split: if_splits)
qed

lemma read_show_nat: "0 \<le> n \<Longrightarrow> read_digits 10 (js_show_nat n) = n"
proof (induction n rule: js_show_nat.induct)
  case (1 n)
  show ?case
  proof (cases "n < 10")
    case True
    with 1 show ?thesis by (subst js_show_nat.simps) (simp add: read_digits_def)
  next
    case False
    with 1 show ?thesis by (subst js_show_nat.simps) (simp add: read_digits_snoc)
  qed
qed

lemma digit_not_ws: "is_digit c \<Longrightarrow> \<not> js_ws c"
  by (auto simp: is_digit_def js_ws_def Let_def)

lemma digit_neq:
  assumes "is_digit c"
  shows "c \<noteq> CHR ''-''" "c \<noteq> CHR ''+''" "c \<noteq> CHR ''.''" "c \<noteq> CHR ''x''" "c \<noteq> CHR ''X''" "c \<noteq> CHR ''o''"
    "c \<noteq> CHR ''O''" "c \<noteq> CHR ''b''" "c \<noteq> CHR ''B''" "c \<noteq> CHR ''=''" "c \<noteq> CHR ''#''" "c \<noteq> CHR ''[''"
    "c \<noteq> CHR 0x22" "c \<noteq> CHR 0x27" "c \<noteq> CHR 0x0A"
  using assms by (auto simp: is_digit_def)

lemma js_trim_id: "s = [] \<or> (\<not> js_ws (hd s) \<and> \<not> js_ws (last s)) \<Longrightarrow> js_trim s = s"
  by (cases "s = []") (auto simp: js_trim_def js_trim_start_def dropWhile_fixed hd_rev)

lemma takeWhile_all: "(\<And>c. c \<in> set s \<Longrightarrow> P c) \<Longrightarrow> takeWhile P s = s \<and> dropWhile P s = []"
  by (induction s) auto

lemma js_decimal_digits:
  assumes "s \<noteq> []" and "\<And>c. c \<in> set s \<Longrightarrow> is_digit c"
  shows "js_decimal s = Some (read_digits 10 s, 1)"
proof -
  have t: "takeWhile is_digit s = s" "dropWhile is_digit s = []"
    using takeWhile_all [of s is_digit] assms(2) by auto
  show ?thesis unfolding js_decimal_def t Let_def using assms(1) by (simp add: decimal_exponent_def)
qed

lemma bit_length_le: "n < 2 ^ k \<Longrightarrow> bit_length n \<le> k"
proof (induction k arbitrary: n)
  case 0
  then show ?case by (simp add: bit_length.simps)
next
  case (Suc k)
  show ?case
  proof (cases "n \<le> 0")
    case True
    then show ?thesis by (simp add: bit_length.simps)
  next
    case False
    from Suc.prems have "n div 2 < 2 ^ k" by simp
    from Suc.IH [OF this] False show ?thesis by (subst bit_length.simps) simp
  qed
qed

lemma double_int_nat: "0 \<le> m \<Longrightarrow> m \<le> MAX_SAFE_INTEGER \<Longrightarrow> double_int m 1 = Some m"
  unfolding double_int_def round_half_even_def MAX_SAFE_INTEGER_def Let_def
  using bit_length_le [of m 53] by simp

lemma js_unsigned_show: "0 \<le> n \<Longrightarrow> n \<le> MAX_SAFE_INTEGER \<Longrightarrow> js_unsigned (js_show_nat n) = Some n"
  using js_show_nat_digits [of n]
  by (simp add: js_unsigned_def js_decimal_digits read_show_nat double_int_nat)

lemma radix_literal_digits: "(\<And>c. c \<in> set s \<Longrightarrow> is_digit c) \<Longrightarrow> radix_literal s = None"
  using digit_neq by (auto simp: radix_literal_def radix_of_def split: list.splits)

lemma js_Number_show:
  assumes "\<bar>n\<bar> \<le> MAX_SAFE_INTEGER"
  shows "js_Number (js_show_int n) = Some n"
proof (cases "n < 0")
  case True
  let ?d = "js_show_nat (- n)"
  have "radix_literal (CHR ''-'' # ?d) = None" by (auto simp: radix_literal_def split: list.splits)
  moreover have "js_trim (CHR ''-'' # ?d) = CHR ''-'' # ?d"
    using True digit_not_ws js_show_nat_digits [of "- n" "last ?d"]
    by (intro js_trim_id) (auto simp: js_ws_def)
  ultimately show ?thesis
    using True assms by (simp add: js_Number_def js_show_int_def js_signed_def js_unsigned_show)
next
  case False
  let ?d = "js_show_nat n"
  have d: "?d \<noteq> []" "\<And>c. c \<in> set ?d \<Longrightarrow> is_digit c" using False js_show_nat_digits [of n] by auto
  have t: "js_trim ?d = ?d"
    using digit_not_ws d(1) d(2) [of "hd ?d"] d(2) [of "last ?d"] by (intro js_trim_id) auto
  have "hd ?d \<noteq> CHR ''-''" "hd ?d \<noteq> CHR ''+''" using digit_neq d(2) [of "hd ?d"] by auto
  moreover have "radix_literal ?d = None" by (rule radix_literal_digits) (rule d(2))
  ultimately have "js_Number ?d = js_unsigned ?d"
    using d(1) by (simp add: js_Number_def t js_signed_def)
  with False assms show ?thesis by (simp add: js_show_int_def js_unsigned_show)
qed

end
