(* ===== verification/AuthTypes.thy ===== *)
theory AuthTypes
  imports Prelude
begin

text \<open>
  The data of the \<open>auth\<close> context (\<open>src/src/contexts/auth/types.ts\<close>, \<open>user-store.ts\<close>,
  \<open>session-store.ts\<close>, \<open>errors.ts\<close>): repository roles with the order of
  \<open>ROLE_RANK\<close>, users, role assignments, sessions, and the errors the services throw.
\<close>

section \<open>Repository roles\<close>

datatype repo_role = Reader | Writer | Admin

fun ROLE_RANK :: "repo_role \<Rightarrow> nat" where
  "ROLE_RANK Reader = 1"
| "ROLE_RANK Writer = 2"
| "ROLE_RANK Admin = 3"

text \<open>
  Every gate of the sources compares \<open>ROLE_RANK[role]\<close> with \<open>ROLE_RANK[minimum]\<close>; the
  comparison is a linear order on roles, so the library's order reasoning applies to it.
\<close>

lemma ROLE_RANK_inj: "ROLE_RANK a = ROLE_RANK b \<Longrightarrow> a = b"
  by (cases a; cases b) simp_all

instantiation repo_role :: linorder
begin

definition less_eq_repo_role :: "repo_role \<Rightarrow> repo_role \<Rightarrow> bool" where
  "less_eq_repo_role a b \<longleftrightarrow> ROLE_RANK a \<le> ROLE_RANK b"

definition less_repo_role :: "repo_role \<Rightarrow> repo_role \<Rightarrow> bool" where
  "less_repo_role a b \<longleftrightarrow> ROLE_RANK a < ROLE_RANK b"

instance
  by standard (auto simp: less_eq_repo_role_def less_repo_role_def ROLE_RANK_inj)

end

lemma Reader_least [simp]: "Reader \<le> r"
  by (cases r) (simp_all add: less_eq_repo_role_def)

lemma Admin_greatest [simp]: "r \<le> Admin"
  by (cases r) (simp_all add: less_eq_repo_role_def)

lemma role_le_simps [simp]:
  "\<not> Writer \<le> Reader" "\<not> Admin \<le> Reader" "\<not> Admin \<le> Writer"
  by (simp_all add: less_eq_repo_role_def)

section \<open>Records\<close>

record user_record =
  u_username :: string
  u_passwordHash :: string
  u_createdAt :: ms
  u_createdBy :: string
  u_active :: bool
  u_lastLoginAt :: "ms option"
  u_isGlobalAdmin :: bool
  u_canCreateRepos :: bool

record legacy_user =
  l_username :: string
  l_passwordHash :: string

record repo_role_assignment =
  ra_username :: string
  ra_repoId :: string
  ra_role :: repo_role
  ra_grantedAt :: ms
  ra_grantedBy :: string

record stored_session =
  se_username :: string
  se_createdAt :: ms
  se_expiresAt :: ms

record access_token_claims =
  cl_sub :: string
  cl_iat :: int
  cl_exp :: int

record login_result =
  lr_username :: string
  lr_accessToken :: string
  lr_refreshToken :: string
  lr_expiresInSeconds :: int
  lr_isGlobalAdmin :: bool
  lr_canCreateRepos :: "bool option"

record user_summary =
  us_username :: string
  us_createdAt :: ms
  us_createdBy :: string
  us_active :: bool
  us_lastLoginAt :: "ms option"
  us_activeSessions :: nat
  us_isGlobalAdmin :: bool
  us_canCreateRepos :: bool

datatype setup_reason = NotConfigured | UsersExist | BootstrapEnvConfigured

record setup_status =
  st_eligible :: bool
  st_reason :: setup_reason

section \<open>Errors\<close>

text \<open>
  One constructor per error class of \<open>errors.ts\<close>; \<open>SqlConstraintError\<close> is the error the
  libSQL client raises when a statement violates a constraint of the table, and
  \<open>OtherError\<close> any other exception (a token that does not verify, for example).
\<close>

datatype auth_error =
    InvalidCredentialsError
  | TooManyLoginAttemptsError ms
  | SessionNotFoundError
  | SessionExpiredError
  | UserInactiveError string
  | UserAlreadyExistsError string
  | UserNotFoundError string
  | UserHasActiveSessionsError string
  | SetupAlreadyConfiguredError string
  | InvalidRepoRoleError string
  | RepoRoleAssignmentNotFoundError string string
  | SqlConstraintError
  | OtherError string

end
