(* ===== verification/UserStore.thy ===== *)
theory UserStore
  imports AuthTypes
begin

text \<open>
  The persistence port of users and repository roles (\<open>contexts/auth/user-store.ts\<close>) and its
  libSQL implementation (\<open>libsql-user-store.ts\<close>) over the tables \<open>users\<close> (primary key
  \<open>username\<close>) and \<open>repo_roles\<close> (primary key \<open>(username, repo_id)\<close>, foreign key
  \<open>username REFERENCES users ON DELETE CASCADE\<close>).

  The locale \<open>user_port\<close> states what the services rely on; \<open>libsql_users\<close> interprets it on the
  libSQL model. Whether SQLite enforces the foreign key depends on a pragma the sources do not
  set, so it is a parameter \<open>fk\<close> of the model and every fact holds for both values.
\<close>

section \<open>The port\<close>

record 'u user_store =
  users_count :: "'u \<Rightarrow> nat"
  users_list :: "'u \<Rightarrow> user_record list"
  users_getByUsername :: "string \<Rightarrow> 'u \<Rightarrow> user_record option"
  users_create :: "user_record \<Rightarrow> ('u, auth_error, unit) op"
  users_setActive :: "string \<Rightarrow> bool \<Rightarrow> 'u \<Rightarrow> bool \<times> 'u"
  users_delete :: "string \<Rightarrow> 'u \<Rightarrow> bool \<times> 'u"
  users_updateLastLogin :: "string \<Rightarrow> ms \<Rightarrow> 'u \<Rightarrow> bool \<times> 'u"
  users_tryCreateFirstUser :: "user_record \<Rightarrow> 'u \<Rightarrow> bool \<times> 'u"
  users_legacyUsers :: "'u \<Rightarrow> legacy_user list"
  users_getRepoRole :: "string \<Rightarrow> string \<Rightarrow> 'u \<Rightarrow> repo_role option"
  users_listRepoRoles :: "string \<Rightarrow> 'u \<Rightarrow> repo_role_assignment list"
  users_upsertRepoRole :: "repo_role_assignment \<Rightarrow> ('u, auth_error, unit) op"
  users_deleteRepoRole :: "string \<Rightarrow> string \<Rightarrow> 'u \<Rightarrow> bool \<times> 'u"
  users_setGlobalAdmin :: "string \<Rightarrow> bool \<Rightarrow> 'u \<Rightarrow> bool \<times> 'u"
  users_setCanCreateRepos :: "string \<Rightarrow> bool \<Rightarrow> 'u \<Rightarrow> bool \<times> 'u"

section \<open>LibsqlUserStore\<close>

text \<open>
  The state is the two tables and the read-only legacy users of the constructor. Booleans are
  stored as 0 and 1; the model keeps the booleans, as \<open>rowToUser\<close> reads them back.
\<close>

record user_db =
  db_users :: "user_record list"
  db_roles :: "repo_role_assignment list"
  db_legacy :: "legacy_user list"

definition role_key :: "repo_role_assignment \<Rightarrow> string \<times> string" where
  "role_key a = (ra_username a, ra_repoId a)"

definition sql_users_count :: "user_db \<Rightarrow> nat" where
  "sql_users_count db = length (db_users db)"

definition sql_users_list :: "user_db \<Rightarrow> user_record list" where
  "sql_users_list db = sort_key u_createdAt (sort_key u_username (db_users db))"

definition sql_users_get :: "string \<Rightarrow> user_db \<Rightarrow> user_record option" where
  "sql_users_get username db = sql_get u_username username (db_users db)"

definition sql_users_create :: "user_record \<Rightarrow> (user_db, auth_error, unit) op" where
  "sql_users_create user db =
     (case sql_insert u_username user (db_users db) of
        None \<Rightarrow> (Inl SqlConstraintError, db)
      | Some t \<Rightarrow> (Inr (), db\<lparr>db_users := t\<rparr>))"

text \<open>\<open>UPDATE users SET ... WHERE username = ?\<close>, answering \<open>rowsAffected === 1\<close>.\<close>

definition sql_users_update ::
  "(user_record \<Rightarrow> user_record) \<Rightarrow> string \<Rightarrow> user_db \<Rightarrow> bool \<times> user_db" where
  "sql_users_update f username db =
     (let (t, n) = sql_update (\<lambda>u. u_username u = username) f (db_users db)
      in (n = 1, db\<lparr>db_users := t\<rparr>))"

definition sql_users_setGlobalAdmin :: "string \<Rightarrow> bool \<Rightarrow> user_db \<Rightarrow> bool \<times> user_db" where
  "sql_users_setGlobalAdmin username b = sql_users_update (\<lambda>u. u\<lparr>u_isGlobalAdmin := b\<rparr>) username"

definition sql_users_setCanCreateRepos :: "string \<Rightarrow> bool \<Rightarrow> user_db \<Rightarrow> bool \<times> user_db" where
  "sql_users_setCanCreateRepos username b = sql_users_update (\<lambda>u. u\<lparr>u_canCreateRepos := b\<rparr>) username"

definition sql_users_setActive :: "string \<Rightarrow> bool \<Rightarrow> user_db \<Rightarrow> bool \<times> user_db" where
  "sql_users_setActive username b = sql_users_update (\<lambda>u. u\<lparr>u_active := b\<rparr>) username"

definition sql_users_updateLastLogin :: "string \<Rightarrow> ms \<Rightarrow> user_db \<Rightarrow> bool \<times> user_db" where
  "sql_users_updateLastLogin username at = sql_users_update (\<lambda>u. u\<lparr>u_lastLoginAt := Some at\<rparr>) username"

definition sql_users_delete :: "bool \<Rightarrow> string \<Rightarrow> user_db \<Rightarrow> bool \<times> user_db" where
  "sql_users_delete fk username db =
     (let (t, n) = sql_delete (\<lambda>u. u_username u = username) (db_users db);
          roles = (if fk then filter (\<lambda>a. ra_username a \<noteq> username) (db_roles db) else db_roles db)
      in (n = 1, db\<lparr>db_users := t, db_roles := roles\<rparr>))"

text \<open>\<open>INSERT ... SELECT ... WHERE NOT EXISTS (SELECT 1 FROM users LIMIT 1)\<close>: one atomic statement.\<close>

definition sql_users_tryCreateFirstUser :: "user_record \<Rightarrow> user_db \<Rightarrow> bool \<times> user_db" where
  "sql_users_tryCreateFirstUser user db =
     (if db_users db = [] then (True, db\<lparr>db_users := [user]\<rparr>) else (False, db))"

definition sql_users_getRepoRole :: "string \<Rightarrow> string \<Rightarrow> user_db \<Rightarrow> repo_role option" where
  "sql_users_getRepoRole username repoId db =
     map_option ra_role (sql_get role_key (username, repoId) (db_roles db))"

definition sql_users_listRepoRoles :: "string \<Rightarrow> user_db \<Rightarrow> repo_role_assignment list" where
  "sql_users_listRepoRoles repoId db =
     sort_key ra_username (filter (\<lambda>a. ra_repoId a = repoId) (db_roles db))"

text \<open>
  \<open>INSERT ... ON CONFLICT(username, repo_id) DO UPDATE\<close>: the insertion of a new row is refused when
  the foreign key is enforced and the user does not exist.
\<close>

definition sql_users_upsertRepoRole :: "bool \<Rightarrow> repo_role_assignment \<Rightarrow> (user_db, auth_error, unit) op" where
  "sql_users_upsertRepoRole fk a db =
     (case sql_insert role_key a (db_roles db) of
        Some t \<Rightarrow>
          if fk \<and> sql_users_get (ra_username a) db = None then (Inl SqlConstraintError, db)
          else (Inr (), db\<lparr>db_roles := t\<rparr>)
      | None \<Rightarrow>
          (Inr (), db\<lparr>db_roles := fst (sql_update (\<lambda>r. role_key r = role_key a)
             (\<lambda>r. r\<lparr>ra_role := ra_role a, ra_grantedAt := ra_grantedAt a, ra_grantedBy := ra_grantedBy a\<rparr>)
             (db_roles db))\<rparr>))"

definition sql_users_deleteRepoRole :: "string \<Rightarrow> string \<Rightarrow> user_db \<Rightarrow> bool \<times> user_db" where
  "sql_users_deleteRepoRole username repoId db =
     (let (t, n) = sql_delete (\<lambda>a. role_key a = (username, repoId)) (db_roles db)
      in (n = 1, db\<lparr>db_roles := t\<rparr>))"

definition libsqlUserStore :: "bool \<Rightarrow> user_db user_store" where
  "libsqlUserStore fk =
     \<lparr>users_count = sql_users_count, users_list = sql_users_list,
      users_getByUsername = sql_users_get, users_create = sql_users_create,
      users_setActive = sql_users_setActive, users_delete = sql_users_delete fk,
      users_updateLastLogin = sql_users_updateLastLogin,
      users_tryCreateFirstUser = sql_users_tryCreateFirstUser,
      users_legacyUsers = db_legacy, users_getRepoRole = sql_users_getRepoRole,
      users_listRepoRoles = sql_users_listRepoRoles,
      users_upsertRepoRole = sql_users_upsertRepoRole fk,
      users_deleteRepoRole = sql_users_deleteRepoRole,
      users_setGlobalAdmin = sql_users_setGlobalAdmin,
      users_setCanCreateRepos = sql_users_setCanCreateRepos\<rparr>"

lemma libsqlUserStore_sel [simp]:
  "users_count (libsqlUserStore fk) = sql_users_count"
  "users_list (libsqlUserStore fk) = sql_users_list"
  "users_getByUsername (libsqlUserStore fk) = sql_users_get"
  "users_create (libsqlUserStore fk) = sql_users_create"
  "users_setActive (libsqlUserStore fk) = sql_users_setActive"
  "users_delete (libsqlUserStore fk) = sql_users_delete fk"
  "users_updateLastLogin (libsqlUserStore fk) = sql_users_updateLastLogin"
  "users_tryCreateFirstUser (libsqlUserStore fk) = sql_users_tryCreateFirstUser"
  "users_legacyUsers (libsqlUserStore fk) = db_legacy"
  "users_getRepoRole (libsqlUserStore fk) = sql_users_getRepoRole"
  "users_listRepoRoles (libsqlUserStore fk) = sql_users_listRepoRoles"
  "users_upsertRepoRole (libsqlUserStore fk) = sql_users_upsertRepoRole fk"
  "users_deleteRepoRole (libsqlUserStore fk) = sql_users_deleteRepoRole"
  "users_setGlobalAdmin (libsqlUserStore fk) = sql_users_setGlobalAdmin"
  "users_setCanCreateRepos (libsqlUserStore fk) = sql_users_setCanCreateRepos"
  by (simp_all add: libsqlUserStore_def)

text \<open>The tables satisfy their declared constraints.\<close>

definition user_db_ok :: "user_db \<Rightarrow> bool" where
  "user_db_ok db \<longleftrightarrow> keyed u_username (db_users db) \<and> keyed role_key (db_roles db)"

section \<open>What the port promises\<close>

text \<open>An update of one user: it answers whether the user exists and changes nothing else.\<close>

definition updates_user ::
  "'u user_store \<Rightarrow> ('u \<Rightarrow> bool) \<Rightarrow> string \<Rightarrow> (user_record \<Rightarrow> user_record) \<Rightarrow> 'u \<Rightarrow> bool \<times> 'u \<Rightarrow> bool" where
  "updates_user us invar k f s r \<longleftrightarrow>
     invar (snd r) \<and> fst r = (users_getByUsername us k s \<noteq> None) \<and>
     (\<forall>j. users_getByUsername us j (snd r) =
        (if j = k then map_option f (users_getByUsername us j s) else users_getByUsername us j s)) \<and>
     (\<forall>j i. users_getRepoRole us j i (snd r) = users_getRepoRole us j i s) \<and>
     users_legacyUsers us (snd r) = users_legacyUsers us s"

locale user_port =
  fixes us :: "'u user_store" and uinvar :: "'u \<Rightarrow> bool"
  assumes get_key: "uinvar s \<Longrightarrow> users_getByUsername us k s = Some u \<Longrightarrow> u_username u = k"
    and list_iff: "uinvar s \<Longrightarrow> u \<in> set (users_list us s) \<longleftrightarrow> users_getByUsername us (u_username u) s = Some u"
    and list_distinct: "uinvar s \<Longrightarrow> distinct (users_list us s)"
    and count_list: "uinvar s \<Longrightarrow> users_count us s = length (users_list us s)"
    and create_law: "uinvar s \<Longrightarrow>
      (if users_getByUsername us (u_username u) s = None
       then \<exists>s'. users_create us u s = (Inr (), s') \<and> uinvar s' \<and>
              (\<forall>k. users_getByUsername us k s' =
                 (if k = u_username u then Some u else users_getByUsername us k s)) \<and>
              (\<forall>j i. users_getRepoRole us j i s' = users_getRepoRole us j i s)
       else users_create us u s = (Inl SqlConstraintError, s))"
    and setActive_law: "uinvar s \<Longrightarrow>
      updates_user us uinvar k (\<lambda>u. u\<lparr>u_active := b\<rparr>) s (users_setActive us k b s)"
    and setGlobalAdmin_law: "uinvar s \<Longrightarrow>
      updates_user us uinvar k (\<lambda>u. u\<lparr>u_isGlobalAdmin := b\<rparr>) s (users_setGlobalAdmin us k b s)"
    and setCanCreateRepos_law: "uinvar s \<Longrightarrow>
      updates_user us uinvar k (\<lambda>u. u\<lparr>u_canCreateRepos := b\<rparr>) s (users_setCanCreateRepos us k b s)"
    and updateLastLogin_law: "uinvar s \<Longrightarrow>
      updates_user us uinvar k (\<lambda>u. u\<lparr>u_lastLoginAt := Some t\<rparr>) s (users_updateLastLogin us k t s)"
    and delete_law: "uinvar s \<Longrightarrow>
      uinvar (snd (users_delete us k s)) \<and>
      fst (users_delete us k s) = (users_getByUsername us k s \<noteq> None) \<and>
      (\<forall>j. users_getByUsername us j (snd (users_delete us k s)) =
         (if j = k then None else users_getByUsername us j s)) \<and>
      (\<forall>j i. j \<noteq> k \<longrightarrow> users_getRepoRole us j i (snd (users_delete us k s)) = users_getRepoRole us j i s)"
    and tryFirst_law: "uinvar s \<Longrightarrow>
      uinvar (snd (users_tryCreateFirstUser us u s)) \<and>
      fst (users_tryCreateFirstUser us u s) = (\<forall>k. users_getByUsername us k s = None) \<and>
      (if \<forall>k. users_getByUsername us k s = None
       then \<forall>k. users_getByUsername us k (snd (users_tryCreateFirstUser us u s)) =
              (if k = u_username u then Some u else None)
       else snd (users_tryCreateFirstUser us u s) = s)"
    and upsert_law: "uinvar s \<Longrightarrow> users_upsertRepoRole us a s = (r, s') \<Longrightarrow>
      uinvar s' \<and> (case r of
        Inl e \<Rightarrow> s' = s \<and> users_getByUsername us (ra_username a) s = None
      | Inr _ \<Rightarrow>
          (\<forall>k. users_getByUsername us k s' = users_getByUsername us k s) \<and>
          (\<forall>j i. users_getRepoRole us j i s' =
             (if j = ra_username a \<and> i = ra_repoId a then Some (ra_role a)
              else users_getRepoRole us j i s)))"
    and deleteRole_law: "uinvar s \<Longrightarrow>
      uinvar (snd (users_deleteRepoRole us k i s)) \<and>
      fst (users_deleteRepoRole us k i s) = (users_getRepoRole us k i s \<noteq> None) \<and>
      (\<forall>j. users_getByUsername us j (snd (users_deleteRepoRole us k i s)) = users_getByUsername us j s) \<and>
      (\<forall>j i'. users_getRepoRole us j i' (snd (users_deleteRepoRole us k i s)) =
         (if j = k \<and> i' = i then None else users_getRepoRole us j i' s))"
    and listRoles_iff: "uinvar s \<Longrightarrow>
      (\<exists>a \<in> set (users_listRepoRoles us i s). ra_username a = j \<and> ra_role a = role) \<longleftrightarrow>
      users_getRepoRole us j i s = Some role"

section \<open>The libSQL store keeps the promises\<close>

lemma user_db_ok_update:
  assumes "user_db_ok db" and "\<And>u. u_username (f u) = u_username u"
  shows "user_db_ok (snd (sql_users_update f k db))"
  using assms keyed_update [of u_username f "db_users db" "\<lambda>u. u_username u = k"]
  by (auto simp: user_db_ok_def sql_users_update_def split: prod.splits)

lemma sql_users_update_updates:
  assumes ok: "user_db_ok db" and f: "\<And>u. u_username (f u) = u_username u"
  shows "updates_user (libsqlUserStore fk) user_db_ok k f db (sql_users_update f k db)"
proof -
  let ?p = "\<lambda>u. u_username u = k"
  from ok have "keyed u_username (db_users db)" by (simp add: user_db_ok_def)
  then have one: "snd (sql_update ?p f (db_users db)) = 1 \<longleftrightarrow> sql_users_get k db \<noteq> None"
    using sql_update_affected [of u_username "db_users db" ?p k f]
    by (auto simp: sql_users_get_def dest: sql_get_Some_key)
  have get: "sql_users_get j (snd (sql_users_update f k db)) =
      (if j = k then map_option f (sql_users_get j db) else sql_users_get j db)" for j
    using sql_get_update [of u_username f j ?p "db_users db", OF f]
    by (cases "sql_get u_username j (db_users db)")
       (auto simp: sql_users_get_def sql_users_update_def dest: sql_get_Some_key split: prod.splits)
  show ?thesis
    using one get user_db_ok_update [OF ok f]
    by (auto simp: updates_user_def sql_users_update_def sql_users_getRepoRole_def split: prod.splits)
qed

lemma sql_get_Some_iff:
  "keyed key t \<Longrightarrow> sql_get key k t = Some r \<longleftrightarrow> r \<in> set t \<and> key r = k"
  by (auto dest: sql_get_Some_key sql_get_mem)

lemma sql_delete_law:
  assumes "user_db_ok s"
  shows "user_db_ok (snd (sql_users_delete fk k s))"
    and "fst (sql_users_delete fk k s) = (sql_users_get k s \<noteq> None)"
    and "sql_users_get j (snd (sql_users_delete fk k s)) = (if j = k then None else sql_users_get j s)"
    and "j \<noteq> k \<Longrightarrow> sql_users_getRepoRole j i (snd (sql_users_delete fk k s)) = sql_users_getRepoRole j i s"
proof -
  have ku: "keyed u_username (db_users s)" and kr: "keyed role_key (db_roles s)"
    using assms by (auto simp: user_db_ok_def)
  show "user_db_ok (snd (sql_users_delete fk k s))"
    using ku kr keyed_delete [OF ku, of "\<lambda>u. u_username u = k"]
    by (auto simp: user_db_ok_def sql_users_delete_def keyed_filter split: prod.splits)
  show "fst (sql_users_delete fk k s) = (sql_users_get k s \<noteq> None)"
    using sql_delete_affected [OF ku, of "\<lambda>u. u_username u = k" k]
    by (auto simp: sql_users_delete_def sql_users_get_def dest: sql_get_Some_key split: prod.splits)
  show "sql_users_get j (snd (sql_users_delete fk k s)) = (if j = k then None else sql_users_get j s)"
    using sql_get_delete_key [of u_username j k "db_users s"]
    by (auto simp: sql_users_delete_def sql_users_get_def split: prod.splits)
  have "sql_get role_key (j, i) (filter (\<lambda>a. ra_username a \<noteq> k) t) = sql_get role_key (j, i) t"
    if "j \<noteq> k" for t
    using that by (induction t) (auto simp: role_key_def)
  then show "j \<noteq> k \<Longrightarrow> sql_users_getRepoRole j i (snd (sql_users_delete fk k s)) = sql_users_getRepoRole j i s"
    by (auto simp: sql_users_delete_def sql_users_getRepoRole_def split: prod.splits)
qed

lemma sql_upsert_law:
  assumes ok: "user_db_ok s" and up: "sql_users_upsertRepoRole fk a s = (r, s')"
  shows "user_db_ok s' \<and> (case r of
        Inl e \<Rightarrow> s' = s \<and> sql_users_get (ra_username a) s = None
      | Inr _ \<Rightarrow>
          (\<forall>k. sql_users_get k s' = sql_users_get k s) \<and>
          (\<forall>j i. sql_users_getRepoRole j i s' =
             (if j = ra_username a \<and> i = ra_repoId a then Some (ra_role a)
              else sql_users_getRepoRole j i s)))"
proof (cases "sql_insert role_key a (db_roles s)")
  case (Some t)
  then show ?thesis
    using up ok sql_get_insert [OF Some] keyed_insert [OF _ Some]
    by (auto simp: sql_users_upsertRepoRole_def user_db_ok_def sql_users_get_def
        sql_users_getRepoRole_def role_key_def split: if_splits)
next
  case None
  let ?f = "\<lambda>r. r\<lparr>ra_role := ra_role a, ra_grantedAt := ra_grantedAt a, ra_grantedBy := ra_grantedBy a\<rparr>"
  let ?p = "\<lambda>r. role_key r = role_key a"
  have key: "role_key (?f r) = role_key r" for r :: repo_role_assignment by (simp add: role_key_def)
  from None have there: "sql_get role_key (role_key a) (db_roles s) \<noteq> None"
    by (simp add: sql_insert_None_iff)
  from up None have s': "r = Inr ()" "s' = s\<lparr>db_roles := fst (sql_update ?p ?f (db_roles s))\<rparr>"
    by (auto simp: sql_users_upsertRepoRole_def)
  have "sql_users_getRepoRole j i s' =
      (if j = ra_username a \<and> i = ra_repoId a then Some (ra_role a) else sql_users_getRepoRole j i s)"
    for j i
  proof (cases "(j, i) = role_key a")
    case True
    with there obtain r where "sql_get role_key (j, i) (db_roles s) = Some r" "role_key r = (j, i)"
      by (auto dest: sql_get_Some_key)
    with True show ?thesis
      using sql_get_update [of role_key ?f "(j, i)" ?p "db_roles s", OF key]
      by (simp add: s' sql_users_getRepoRole_def role_key_def)
  next
    case False
    then show ?thesis
      using sql_get_update [of role_key ?f "(j, i)" ?p "db_roles s", OF key]
      by (cases "sql_get role_key (j, i) (db_roles s)")
         (auto simp: s' sql_users_getRepoRole_def role_key_def dest: sql_get_Some_key)
  qed
  moreover have "user_db_ok s'"
    using ok keyed_update [of role_key ?f "db_roles s" ?p, OF key] by (simp add: s' user_db_ok_def)
  ultimately show ?thesis by (auto simp: s' sql_users_get_def)
qed

lemma sql_deleteRole_law:
  assumes "user_db_ok s"
  shows "user_db_ok (snd (sql_users_deleteRepoRole k i s))"
    and "fst (sql_users_deleteRepoRole k i s) = (sql_users_getRepoRole k i s \<noteq> None)"
    and "sql_users_get j (snd (sql_users_deleteRepoRole k i s)) = sql_users_get j s"
    and "sql_users_getRepoRole j i' (snd (sql_users_deleteRepoRole k i s)) =
         (if j = k \<and> i' = i then None else sql_users_getRepoRole j i' s)"
proof -
  have kr: "keyed role_key (db_roles s)" using assms by (simp add: user_db_ok_def)
  show "user_db_ok (snd (sql_users_deleteRepoRole k i s))"
    using assms keyed_delete [OF kr, of "\<lambda>a. role_key a = (k, i)"]
    by (auto simp: user_db_ok_def sql_users_deleteRepoRole_def split: prod.splits)
  show "fst (sql_users_deleteRepoRole k i s) = (sql_users_getRepoRole k i s \<noteq> None)"
    using sql_delete_affected [OF kr, of "\<lambda>a. role_key a = (k, i)" "(k, i)"]
    by (auto simp: sql_users_deleteRepoRole_def sql_users_getRepoRole_def
        dest: sql_get_Some_key split: prod.splits)
  show "sql_users_get j (snd (sql_users_deleteRepoRole k i s)) = sql_users_get j s"
    by (simp add: sql_users_deleteRepoRole_def sql_users_get_def split: prod.splits)
  show "sql_users_getRepoRole j i' (snd (sql_users_deleteRepoRole k i s)) =
         (if j = k \<and> i' = i then None else sql_users_getRepoRole j i' s)"
    using sql_get_delete_key [of role_key "(j, i')" "(k, i)" "db_roles s"]
    by (auto simp: sql_users_deleteRepoRole_def sql_users_getRepoRole_def split: prod.splits)
qed

lemma sql_listRoles_iff:
  assumes "user_db_ok s"
  shows "(\<exists>a \<in> set (sql_users_listRepoRoles i s). ra_username a = j \<and> ra_role a = role) \<longleftrightarrow>
         sql_users_getRepoRole j i s = Some role"
  using assms
  by (auto simp: user_db_ok_def sql_users_listRepoRoles_def sql_users_getRepoRole_def
      sql_get_Some_iff role_key_def)

lemma sql_tryFirst_law:
  assumes "user_db_ok s"
  shows "user_db_ok (snd (sql_users_tryCreateFirstUser u s))"
    and "fst (sql_users_tryCreateFirstUser u s) = (\<forall>k. sql_users_get k s = None)"
    and "if \<forall>k. sql_users_get k s = None
         then \<forall>k. sql_users_get k (snd (sql_users_tryCreateFirstUser u s)) = (if k = u_username u then Some u else None)
         else snd (sql_users_tryCreateFirstUser u s) = s"
proof -
  have e: "(\<forall>k. sql_users_get k s = None) \<longleftrightarrow> db_users s = []"
    by (auto simp: sql_users_get_def sql_get_None)
  show "user_db_ok (snd (sql_users_tryCreateFirstUser u s))"
    using assms by (auto simp: user_db_ok_def sql_users_tryCreateFirstUser_def keyed_def)
  show "fst (sql_users_tryCreateFirstUser u s) = (\<forall>k. sql_users_get k s = None)"
    by (simp add: e sql_users_tryCreateFirstUser_def)
  show "if \<forall>k. sql_users_get k s = None
        then \<forall>k. sql_users_get k (snd (sql_users_tryCreateFirstUser u s)) = (if k = u_username u then Some u else None)
        else snd (sql_users_tryCreateFirstUser u s) = s"
    by (simp add: e) (simp add: sql_users_tryCreateFirstUser_def sql_users_get_def)
qed

lemma sql_create_law:
  assumes "user_db_ok s"
  shows "if sql_users_get (u_username u) s = None
       then \<exists>s'. sql_users_create u s = (Inr (), s') \<and> user_db_ok s' \<and>
              (\<forall>k. sql_users_get k s' = (if k = u_username u then Some u else sql_users_get k s)) \<and>
              (\<forall>j i. sql_users_getRepoRole j i s' = sql_users_getRepoRole j i s)
       else sql_users_create u s = (Inl SqlConstraintError, s)"
proof (cases "sql_insert u_username u (db_users s)")
  case None
  then show ?thesis
    using sql_insert_None_iff [of u_username u "db_users s"]
    by (auto simp: sql_users_create_def sql_users_get_def)
next
  case (Some t)
  then have "sql_users_get (u_username u) s = None"
    using sql_insert_None_iff [of u_username u "db_users s"] by (auto simp: sql_users_get_def)
  then show ?thesis
    using assms sql_get_insert [OF Some] keyed_insert [OF _ Some] Some
    by (auto simp: sql_users_create_def sql_users_get_def sql_users_getRepoRole_def user_db_ok_def)
qed

interpretation libsql_users: user_port "libsqlUserStore fk" user_db_ok for fk
proof (unfold_locales, goal_cases)
  case (1 s k u) then show ?case by (auto simp: sql_users_get_def dest: sql_get_Some_key)
next
  case (2 s u) then show ?case
    by (auto simp: user_db_ok_def sql_users_list_def sql_users_get_def sql_get_Some_iff)
next
  case (3 s) then show ?case
    by (auto simp: user_db_ok_def sql_users_list_def keyed_def distinct_map)
next
  case (4 s) then show ?case by (simp add: sql_users_count_def sql_users_list_def)
next
  case (5 s u) then show ?case unfolding libsqlUserStore_sel by (rule sql_create_law)
next
  case (6 s k b) then show ?case by (simp add: sql_users_setActive_def sql_users_update_updates)
next
  case (7 s k b) then show ?case by (simp add: sql_users_setGlobalAdmin_def sql_users_update_updates)
next
  case (8 s k b) then show ?case by (simp add: sql_users_setCanCreateRepos_def sql_users_update_updates)
next
  case (9 s k t) then show ?case by (simp add: sql_users_updateLastLogin_def sql_users_update_updates)
next
  case (10 s k) then show ?case by (simp add: sql_delete_law)
next
  case (11 s u) then show ?case using sql_tryFirst_law [of s u] by simp
next
  case (12 s a r s') then show ?case unfolding libsqlUserStore_sel by (rule sql_upsert_law)
next
  case (13 s k i) then show ?case by (simp add: sql_deleteRole_law)
next
  case (14 s i j role) then show ?case using sql_listRoles_iff [of s i j role] by simp
qed

end
