(* ===== verification/Sessions.thy ===== *)
theory Sessions
  imports AuthTypes
begin

text \<open>
  Refresh-token sessions. The persistence port \<open>SessionStore\<close> (\<open>session-store.ts\<close>) is a
  record of functions over an arbitrary store state, as the TypeScript interface is; the
  libSQL implementation (\<open>libsql-session-store.ts\<close>) is one such record over the
  \<open>sessions\<close> table. \<open>SlidingWindowSessionManager\<close> (\<open>session-manager.ts\<close>) is written
  against the port. The locale \<open>session_port\<close> states what the port promises; the sliding
  window and the finality of expiry and revocation are proved inside it and reach the
  libSQL model through its interpretation.
\<close>

section \<open>The persistence port\<close>

record 's session_store =
  store_create :: "string \<Rightarrow> string \<Rightarrow> ms \<Rightarrow> ms \<Rightarrow> ('s, auth_error, unit) op"
  store_get :: "string \<Rightarrow> 's \<Rightarrow> stored_session option"
  store_touch :: "string \<Rightarrow> ms \<Rightarrow> 's \<Rightarrow> 's"
  store_revoke :: "string \<Rightarrow> 's \<Rightarrow> 's"
  store_countActive :: "string \<Rightarrow> ms \<Rightarrow> 's \<Rightarrow> nat"

section \<open>SlidingWindowSessionManager\<close>

text \<open>
  \<open>now\<close> is the injected clock; where a method reads it twice the model takes the two readings.
  The token is the value \<open>randomBytes(32).toString('base64url')\<close> drew; \<open>dateNow\<close> is the
  store's own \<open>Date.now()\<close>.
\<close>

definition createSession ::
  "'s session_store \<Rightarrow> int \<Rightarrow> string \<Rightarrow> string \<Rightarrow> ms \<Rightarrow> ms \<Rightarrow> ('s, auth_error, string) op" where
  "createSession st ttlSeconds username refreshToken now dateNow =
     and_then (store_create st refreshToken username (now + ttlSeconds * 1000) dateNow)
       (\<lambda>_. ret refreshToken)"

definition assertActive :: "'s session_store \<Rightarrow> string \<Rightarrow> ms \<Rightarrow> ('s, auth_error, unit) op" where
  "assertActive st refreshToken now s =
     (case store_get st refreshToken s of
        None \<Rightarrow> (Inl SessionNotFoundError, s)
      | Some session \<Rightarrow>
          if now > se_expiresAt session then (Inl SessionExpiredError, s) else (Inr (), s))"

definition usernameFor :: "'s session_store \<Rightarrow> string \<Rightarrow> ms \<Rightarrow> ('s, auth_error, string) op" where
  "usernameFor st refreshToken now s =
     (case store_get st refreshToken s of
        None \<Rightarrow> (Inl SessionNotFoundError, s)
      | Some session \<Rightarrow>
          if now > se_expiresAt session then (Inl SessionExpiredError, s)
          else (Inr (se_username session), s))"

definition keepAlive ::
  "'s session_store \<Rightarrow> int \<Rightarrow> string \<Rightarrow> ms \<Rightarrow> ms \<Rightarrow> ('s, auth_error, unit) op" where
  "keepAlive st ttlSeconds refreshToken now now' =
     and_then (assertActive st refreshToken now)
       (\<lambda>_ s. (Inr (), store_touch st refreshToken (now' + ttlSeconds * 1000) s))"

definition revoke :: "'s session_store \<Rightarrow> string \<Rightarrow> ('s, auth_error, unit) op" where
  "revoke st refreshToken s = (Inr (), store_revoke st refreshToken s)"

section \<open>The libSQL session store\<close>

record session_row =
  sr_token :: string
  sr_username :: string
  sr_createdAt :: ms
  sr_expiresAt :: ms

definition sess_create ::
  "string \<Rightarrow> string \<Rightarrow> ms \<Rightarrow> ms \<Rightarrow> (session_row list, auth_error, unit) op" where
  "sess_create refreshToken username expiresAt dateNow t =
     (case sql_insert sr_token
             \<lparr>sr_token = refreshToken, sr_username = username,
              sr_createdAt = dateNow, sr_expiresAt = expiresAt\<rparr> t of
        None \<Rightarrow> (Inl SqlConstraintError, t)
      | Some t' \<Rightarrow> (Inr (), t'))"

definition row_session :: "session_row \<Rightarrow> stored_session" where
  "row_session r = \<lparr>se_username = sr_username r, se_createdAt = sr_createdAt r,
                    se_expiresAt = sr_expiresAt r\<rparr>"

definition sess_get :: "string \<Rightarrow> session_row list \<Rightarrow> stored_session option" where
  "sess_get refreshToken t = map_option row_session (sql_get sr_token refreshToken t)"

definition sess_touch :: "string \<Rightarrow> ms \<Rightarrow> session_row list \<Rightarrow> session_row list" where
  "sess_touch refreshToken newExpiresAt t =
     fst (sql_update (\<lambda>r. sr_token r = refreshToken) (\<lambda>r. r\<lparr>sr_expiresAt := newExpiresAt\<rparr>) t)"

definition sess_revoke :: "string \<Rightarrow> session_row list \<Rightarrow> session_row list" where
  "sess_revoke refreshToken t = fst (sql_delete (\<lambda>r. sr_token r = refreshToken) t)"

definition sess_countActive :: "string \<Rightarrow> ms \<Rightarrow> session_row list \<Rightarrow> nat" where
  "sess_countActive username now t =
     length (filter (\<lambda>r. sr_username r = username \<and> sr_expiresAt r \<ge> now) t)"

definition libsqlSessionStore :: "session_row list session_store" where
  "libsqlSessionStore =
     \<lparr>store_create = sess_create, store_get = sess_get, store_touch = sess_touch,
      store_revoke = sess_revoke, store_countActive = sess_countActive\<rparr>"

lemma libsqlSessionStore_sel [simp]:
  "store_create libsqlSessionStore = sess_create"
  "store_get libsqlSessionStore = sess_get"
  "store_touch libsqlSessionStore = sess_touch"
  "store_revoke libsqlSessionStore = sess_revoke"
  "store_countActive libsqlSessionStore = sess_countActive"
  by (simp_all add: libsqlSessionStore_def)

section \<open>Traffic on sessions\<close>

text \<open>
  What clients do to sessions over time: create one (with a fresh random token), extend one,
  revoke one. Each event carries the clock readings of the call.
\<close>

datatype session_event =
    EvCreate string string ms ms
  | EvKeepAlive string ms ms
  | EvRevoke string

fun session_step ::
  "'s session_store \<Rightarrow> int \<Rightarrow> session_event \<Rightarrow> 's \<Rightarrow> 's" where
  "session_step st ttl (EvCreate user tok now dn) s = snd (createSession st ttl user tok now dn s)"
| "session_step st ttl (EvKeepAlive tok now now') s = snd (keepAlive st ttl tok now now' s)"
| "session_step st ttl (EvRevoke tok) s = snd (revoke st tok s)"

fun session_run :: "'s session_store \<Rightarrow> int \<Rightarrow> session_event list \<Rightarrow> 's \<Rightarrow> 's" where
  "session_run st ttl [] s = s"
| "session_run st ttl (e # es) s = session_run st ttl es (session_step st ttl e s)"

fun ev_creates :: "string \<Rightarrow> session_event \<Rightarrow> bool" where
  "ev_creates tok (EvCreate user tok' now dn) \<longleftrightarrow> tok' = tok"
| "ev_creates tok _ \<longleftrightarrow> False"

fun ev_from :: "ms \<Rightarrow> session_event \<Rightarrow> bool" where
  "ev_from t (EvKeepAlive tok now now') \<longleftrightarrow> t \<le> now"
| "ev_from t _ \<longleftrightarrow> True"

text \<open>A session is dead at time \<open>t\<close> when the store has no such token or it has expired by \<open>t\<close>.\<close>

definition session_dead :: "'s session_store \<Rightarrow> string \<Rightarrow> ms \<Rightarrow> 's \<Rightarrow> bool" where
  "session_dead st tok t s \<longleftrightarrow>
     (case store_get st tok s of None \<Rightarrow> True | Some x \<Rightarrow> t > se_expiresAt x)"

lemma assertActive_state [simp]: "snd (assertActive st tok now s) = s"
  by (auto simp: assertActive_def split: option.splits)

lemma usernameFor_state [simp]: "snd (usernameFor st tok now s) = s"
  by (auto simp: usernameFor_def split: option.splits)

lemma assertActive_Inr:
  "assertActive st tok now s = (Inr (), s') \<longleftrightarrow>
     s' = s \<and> (\<exists>x. store_get st tok s = Some x \<and> now \<le> se_expiresAt x)"
  by (auto simp: assertActive_def split: option.splits)

lemma usernameFor_Inr:
  "usernameFor st tok now s = (Inr u, s') \<longleftrightarrow>
     s' = s \<and> (\<exists>x. store_get st tok s = Some x \<and> now \<le> se_expiresAt x \<and> u = se_username x)"
  by (auto simp: usernameFor_def split: option.splits)

lemma keepAlive_Inr:
  "keepAlive st ttl tok now now' s = (Inr (), s') \<longleftrightarrow>
     (\<exists>x. store_get st tok s = Some x \<and> now \<le> se_expiresAt x) \<and>
     s' = store_touch st tok (now' + ttl * 1000) s"
  by (auto simp: keepAlive_def and_then_Inr assertActive_Inr)

lemma keepAlive_state:
  "snd (keepAlive st ttl tok now now' s) =
     (case store_get st tok s of
        None \<Rightarrow> s
      | Some x \<Rightarrow> if now \<le> se_expiresAt x then store_touch st tok (now' + ttl * 1000) s else s)"
  by (auto simp: keepAlive_def and_then_def assertActive_def split: option.splits)

lemma createSession_state:
  "snd (createSession st ttl user tok now dn s) = snd (store_create st tok user (now + ttl * 1000) dn s)"
  by (auto simp: createSession_def and_then_def split: prod.splits sum.splits)

lemmas session_state_simps = keepAlive_state createSession_state revoke_def

section \<open>What the port promises, and what the manager makes of it\<close>

locale session_port =
  fixes st :: "'s session_store" and invar :: "'s \<Rightarrow> bool"
  assumes create_fresh:
      "invar s \<Longrightarrow> store_get st tok s = None \<Longrightarrow>
       \<exists>s'. store_create st tok u e d s = (Inr (), s') \<and> invar s' \<and>
            (\<forall>k. store_get st k s' =
                 (if k = tok then Some \<lparr>se_username = u, se_createdAt = d, se_expiresAt = e\<rparr>
                  else store_get st k s))"
    and create_taken:
      "invar s \<Longrightarrow> store_get st tok s \<noteq> None \<Longrightarrow>
       store_create st tok u e d s = (Inl SqlConstraintError, s)"
    and get_touch:
      "invar s \<Longrightarrow> store_get st k (store_touch st tok e s) =
         (if k = tok then map_option (\<lambda>x. x\<lparr>se_expiresAt := e\<rparr>) (store_get st k s)
          else store_get st k s)"
    and get_revoke:
      "invar s \<Longrightarrow> store_get st k (store_revoke st tok s) =
         (if k = tok then None else store_get st k s)"
    and invar_touch: "invar s \<Longrightarrow> invar (store_touch st tok e s)"
    and invar_revoke: "invar s \<Longrightarrow> invar (store_revoke st tok s)"
begin

lemma invar_create: "invar s \<Longrightarrow> invar (snd (store_create st tok u e d s))"
  using create_fresh [of s tok u e d] create_taken [of s tok u e d]
  by (cases "store_get st tok s") auto

lemma invar_step: "invar s \<Longrightarrow> invar (session_step st ttl ev s)"
  by (cases ev)
     (auto simp: session_state_simps invar_touch invar_revoke invar_create split: option.splits)

lemma invar_run: "invar s \<Longrightarrow> invar (session_run st ttl es s)"
  by (induction es arbitrary: s) (auto intro: invar_step)

text \<open>Extending a session makes its expiry the clock reading plus the time to live, and touches no other session.\<close>

lemma get_keepAlive:
  assumes "invar s" and "keepAlive st ttl tok now now' s = (Inr (), s')"
  shows "store_get st k s' =
    (if k = tok then map_option (\<lambda>x. x\<lparr>se_expiresAt := now' + ttl * 1000\<rparr>) (store_get st k s)
     else store_get st k s)"
  using assms by (auto simp: keepAlive_Inr get_touch)

lemma keepAlive_window:
  assumes "invar s" and "keepAlive st ttl tok now now' s = (Inr (), s')"
  shows "fst (assertActive st tok t s') = Inr () \<longleftrightarrow> t \<le> now' + ttl * 1000"
    and "k \<noteq> tok \<Longrightarrow> store_get st k s' = store_get st k s"
proof -
  from assms obtain x where "store_get st tok s = Some x"
    by (auto simp: keepAlive_Inr)
  with get_keepAlive [OF assms, of tok]
  have "store_get st tok s' = Some (x\<lparr>se_expiresAt := now' + ttl * 1000\<rparr>)" by simp
  then show "fst (assertActive st tok t s') = Inr () \<longleftrightarrow> t \<le> now' + ttl * 1000"
    by (auto simp: assertActive_def)
  show "k \<noteq> tok \<Longrightarrow> store_get st k s' = store_get st k s"
    using get_keepAlive [OF assms, of k] by simp
qed

lemma get_create:
  assumes "invar s"
  shows "store_get st k (snd (store_create st tok u e d s)) =
    (if k = tok \<and> store_get st tok s = None
     then Some \<lparr>se_username = u, se_createdAt = d, se_expiresAt = e\<rparr> else store_get st k s)"
proof (cases "store_get st tok s")
  case None
  with create_fresh [OF assms None, of u e d] show ?thesis by auto
next
  case (Some x)
  with create_taken [OF assms, of tok u e d] show ?thesis by simp
qed

lemma dead_step:
  assumes "invar s" and "session_dead st tok t s"
    and "\<not> ev_creates tok ev" and "ev_from t ev"
  shows "session_dead st tok t (session_step st ttl ev s)"
proof (cases ev)
  case (EvCreate user tok' now dn)
  with assms(1,2,3) show ?thesis
    by (auto simp: session_state_simps session_dead_def get_create)
next
  case (EvKeepAlive tok' now now')
  with assms show ?thesis
    by (auto simp: session_state_simps session_dead_def get_touch split: option.splits)
next
  case (EvRevoke tok')
  with assms(1,2) show ?thesis
    by (auto simp: session_state_simps session_dead_def get_revoke split: option.splits)
qed

lemma dead_run:
  assumes "invar s" and "session_dead st tok t s"
    and "list_all (\<lambda>e. \<not> ev_creates tok e \<and> ev_from t e) es"
  shows "session_dead st tok t (session_run st ttl es s)"
  using assms
proof (induction es arbitrary: s)
  case Nil
  then show ?case by simp
next
  case (Cons e es)
  then show ?case by (simp add: dead_step invar_step)
qed

lemma revoke_dead: "invar s \<Longrightarrow> session_dead st tok t (snd (revoke st tok s))"
  by (simp add: revoke_def session_dead_def get_revoke)

end

section \<open>The libSQL store keeps the promises\<close>

lemma sess_get_create:
  "sess_get tok t = None \<Longrightarrow>
   sess_create tok u e d t = (Inr (), t @ [\<lparr>sr_token = tok, sr_username = u, sr_createdAt = d, sr_expiresAt = e\<rparr>])"
  by (simp add: sess_create_def sess_get_def sql_insert_def sql_get_None)

interpretation libsql_sessions: session_port libsqlSessionStore "keyed sr_token"
proof (unfold_locales, goal_cases)
  case (1 s tok u e d)
  let ?r = "\<lparr>sr_token = tok, sr_username = u, sr_createdAt = d, sr_expiresAt = e\<rparr>"
  from 1(2) have ins: "sql_insert sr_token ?r s = Some (s @ [?r])"
    by (simp add: sess_get_def sql_insert_def sql_get_None)
  show ?case
    using sql_get_insert [OF ins] keyed_insert [OF 1(1) ins]
    by (auto simp: sess_create_def ins sess_get_def row_session_def)
next
  case (2 s tok u e d)
  then show ?case
    by (auto simp: sess_create_def sess_get_def sql_insert_def sql_get_None split: option.splits)
next
  case (3 s k tok e)
  show ?case
    by (cases "sql_get sr_token k s")
       (auto simp: sess_get_def sess_touch_def sql_get_update row_session_def dest: sql_get_Some_key)
next
  case (4 s k tok)
  then show ?case by (simp add: sess_get_def sess_revoke_def sql_get_delete_key)
next
  case (5 s tok e)
  then show ?case by (simp add: sess_touch_def keyed_update)
next
  case (6 s tok)
  then show ?case by (simp add: sess_revoke_def keyed_delete)
qed

section \<open>Properties\<close>

text \<open>
  A session is a sliding window. When \<open>keepAlive\<close> succeeds on the libSQL store, the session
  is active from then on exactly until the clock reading plus the time to live, it still belongs
  to the same user, and no other session has changed.
\<close>

theorem keepAlive_slides:
  assumes "keyed sr_token t"
    and "keepAlive libsqlSessionStore ttl tok now now' t = (Inr (), t')"
  shows "(\<forall>at. fst (assertActive libsqlSessionStore tok at t') = Inr () \<longleftrightarrow> at \<le> now' + ttl * 1000)
    \<and> (\<exists>u. fst (usernameFor libsqlSessionStore tok now t) = Inr u \<and>
           (\<forall>at. fst (usernameFor libsqlSessionStore tok at t') =
                 (if at \<le> now' + ttl * 1000 then Inr u else Inl SessionExpiredError)))
    \<and> (\<forall>k. k \<noteq> tok \<longrightarrow> sess_get k t' = sess_get k t)"
proof -
  from assms(2) obtain x where x: "sess_get tok t = Some x" "now \<le> se_expiresAt x"
    by (auto simp: keepAlive_Inr)
  with libsql_sessions.get_keepAlive [OF assms, of tok]
  have x': "sess_get tok t' = Some (x\<lparr>se_expiresAt := now' + ttl * 1000\<rparr>)" by simp
  show ?thesis
    using libsql_sessions.keepAlive_window [OF assms] x x' by (simp add: usernameFor_def)
qed

theorem keepAlive_slides_witness:
  "let t = [\<lparr>sr_token = ''a'', sr_username = ''ann'', sr_createdAt = 0, sr_expiresAt = 5000\<rparr>];
       t' = [\<lparr>sr_token = ''a'', sr_username = ''ann'', sr_createdAt = 0, sr_expiresAt = 64001\<rparr>]
   in keepAlive libsqlSessionStore 60 ''a'' 4000 4001 t = (Inr (), t') \<and>
      fst (assertActive libsqlSessionStore ''a'' 64001 t') = Inr () \<and>
      fst (assertActive libsqlSessionStore ''a'' 64002 t') \<noteq> Inr ()"
proof -
  let ?t = "[\<lparr>sr_token = ''a'', sr_username = ''ann'', sr_createdAt = 0, sr_expiresAt = 5000\<rparr>]"
  let ?t' = "[\<lparr>sr_token = ''a'', sr_username = ''ann'', sr_createdAt = 0, sr_expiresAt = 64001\<rparr>]"
  have "keyed sr_token ?t" by (simp add: keyed_def)
  moreover have "keepAlive libsqlSessionStore 60 ''a'' 4000 4001 ?t = (Inr (), ?t')"
    by (simp add: keepAlive_Inr sess_get_def sess_touch_def sql_update_def row_session_def)
  ultimately show ?thesis using keepAlive_slides [of ?t 60 "''a''" 4000 4001 ?t'] by simp
qed

text \<open>
  Expiry and revocation are final. Once a refresh token is unknown to the libSQL store or its
  session has expired at time \<open>at\<close>, no sequence of session creations (of other tokens),
  extensions and revocations that happen from then on makes it usable again: after any such
  sequence the token names no user and cannot be extended at any later time.
\<close>

theorem dead_session_stays_dead:
  assumes "keyed sr_token t" and "session_dead libsqlSessionStore tok at t"
    and "list_all (\<lambda>e. \<not> ev_creates tok e \<and> ev_from at e) es" and "at \<le> later"
  shows "fst (usernameFor libsqlSessionStore tok later (session_run libsqlSessionStore ttl es t)) \<in>
           {Inl SessionNotFoundError, Inl SessionExpiredError}
    \<and> keepAlive libsqlSessionStore ttl tok later later' (session_run libsqlSessionStore ttl es t) \<in>
           {(e, session_run libsqlSessionStore ttl es t) |e.
              e \<in> {Inl SessionNotFoundError, Inl SessionExpiredError}}"
  using libsql_sessions.dead_run [OF assms(1,2,3), of ttl] assms(4)
  by (auto simp: session_dead_def usernameFor_def keepAlive_def and_then_def assertActive_def
      split: option.splits)

theorem dead_session_stays_dead_witness:
  "let t = [\<lparr>sr_token = ''a'', sr_username = ''ann'', sr_createdAt = 0, sr_expiresAt = 5000\<rparr>];
       es = [EvCreate ''bob'' ''b'' 5001 5001, EvKeepAlive ''a'' 5001 5001, EvRevoke ''b'']
   in fst (usernameFor libsqlSessionStore ''a'' 5001 (session_run libsqlSessionStore 60 es t)) \<in>
        {Inl SessionNotFoundError, Inl SessionExpiredError}"
  using dead_session_stays_dead
    [of "[\<lparr>sr_token = ''a'', sr_username = ''ann'', sr_createdAt = 0, sr_expiresAt = 5000\<rparr>]"
        "''a''" 5001
        "[EvCreate ''bob'' ''b'' 5001 5001, EvKeepAlive ''a'' 5001 5001, EvRevoke ''b'']" 5001 60 0]
  by (simp add: keyed_def session_dead_def sess_get_def row_session_def)

end
