(* ===== verification/RateLimiter.thy ===== *)
theory RateLimiter
  imports AuthTypes
begin

text \<open>
  The two fixed-window attempt limiters: \<open>LoginRateLimiter\<close>
  (\<open>contexts/auth/login-rate-limiter.ts\<close>, which throws) and \<open>BootstrapRateLimiter\<close>
  (\<open>contexts/tls-discovery/bootstrap-rate-limiter.ts\<close>, which answers a boolean). They are
  separate copies of one design, so the locale \<open>fixed_window\<close> states the contract, the bound on
  accepted attempts is proved once in it, and both copies interpret it.

  Every method reads the clock itself; the model passes each reading.
\<close>

section \<open>State\<close>

record window_state =
  w_count :: int
  w_windowStartedAt :: ms

type_synonym attempts = "string \<rightharpoonup> window_state"

section \<open>LoginRateLimiter\<close>

definition login_assertAllowed ::
  "int \<Rightarrow> ms \<Rightarrow> string \<Rightarrow> ms \<Rightarrow> ms \<Rightarrow> (attempts, auth_error, unit) op" where
  "login_assertAllowed maxAttempts windowMs key now now' s =
     (case s key of
        None \<Rightarrow> (Inr (), s)
      | Some state \<Rightarrow>
          if now - w_windowStartedAt state \<ge> windowMs then (Inr (), s(key := None))
          else if w_count state \<ge> maxAttempts
               then (Inl (TooManyLoginAttemptsError (windowMs - (now' - w_windowStartedAt state))), s)
               else (Inr (), s))"

definition login_recordAttempt :: "ms \<Rightarrow> string \<Rightarrow> ms \<Rightarrow> attempts \<Rightarrow> attempts" where
  "login_recordAttempt windowMs key currentNow s =
     (case s key of
        None \<Rightarrow> s(key \<mapsto> \<lparr>w_count = 1, w_windowStartedAt = currentNow\<rparr>)
      | Some state \<Rightarrow>
          if currentNow - w_windowStartedAt state \<ge> windowMs
          then s(key \<mapsto> \<lparr>w_count = 1, w_windowStartedAt = currentNow\<rparr>)
          else s(key \<mapsto> state\<lparr>w_count := w_count state + 1\<rparr>))"

section \<open>BootstrapRateLimiter\<close>

definition bootstrap_isAllowed :: "int \<Rightarrow> ms \<Rightarrow> string \<Rightarrow> ms \<Rightarrow> attempts \<Rightarrow> bool \<times> attempts" where
  "bootstrap_isAllowed maxAttempts windowMs key now s =
     (case s key of
        None \<Rightarrow> (True, s)
      | Some state \<Rightarrow>
          if now - w_windowStartedAt state \<ge> windowMs then (True, s(key := None))
          else (w_count state < maxAttempts, s))"

definition bootstrap_recordAttempt :: "ms \<Rightarrow> string \<Rightarrow> ms \<Rightarrow> attempts \<Rightarrow> attempts" where
  "bootstrap_recordAttempt windowMs key currentNow s =
     (case s key of
        None \<Rightarrow> s(key \<mapsto> \<lparr>w_count = 1, w_windowStartedAt = currentNow\<rparr>)
      | Some state \<Rightarrow>
          if currentNow - w_windowStartedAt state \<ge> windowMs
          then s(key \<mapsto> \<lparr>w_count = 1, w_windowStartedAt = currentNow\<rparr>)
          else s(key \<mapsto> state\<lparr>w_count := w_count state + 1\<rparr>))"

section \<open>Sequences of attempts\<close>

text \<open>
  The callers (\<open>AuthService.login\<close>, \<open>GET /bootstrap/certificate\<close>) ask the guard and, if it lets
  them pass, record the attempt at once; there is no suspension point in between. An attempt is
  its key, the reading of the guard and the reading of the recorder. The run returns the
  recorded attempts.
\<close>

type_synonym attempt = "string \<times> ms \<times> ms"

type_synonym guard_fn = "string \<Rightarrow> ms \<Rightarrow> attempts \<Rightarrow> bool \<times> attempts"

fun limiter_run ::
  "guard_fn \<Rightarrow> (string \<Rightarrow> ms \<Rightarrow> attempts \<Rightarrow> attempts) \<Rightarrow> attempt list \<Rightarrow> attempts \<Rightarrow> (string \<times> ms) list" where
  "limiter_run g r [] s = []"
| "limiter_run g r ((k, t1, t2) # es) s =
     (case g k t1 s of
        (True, s') \<Rightarrow> (k, t2) # limiter_run g r es (r k t2 s')
      | (False, s') \<Rightarrow> limiter_run g r es s')"

text \<open>The clock does not run backwards.\<close>

fun clocked :: "ms \<Rightarrow> attempt list \<Rightarrow> bool" where
  "clocked t [] \<longleftrightarrow> True"
| "clocked t ((k, t1, t2) # es) \<longleftrightarrow> t \<le> t1 \<and> t1 \<le> t2 \<and> clocked t2 es"

definition accepted_in :: "string \<Rightarrow> ms \<Rightarrow> ms \<Rightarrow> (string \<times> ms) list \<Rightarrow> nat" where
  "accepted_in k lo hi as = length (filter (\<lambda>(k', t). k' = k \<and> lo \<le> t \<and> t < hi) as)"

definition login_guard :: "int \<Rightarrow> ms \<Rightarrow> guard_fn" where
  "login_guard maxAttempts windowMs key now s =
     (case login_assertAllowed maxAttempts windowMs key now now s of
        (Inr _, s') \<Rightarrow> (True, s')
      | (Inl _, s') \<Rightarrow> (False, s'))"

section \<open>The contract of a fixed window\<close>

definition window_expired :: "ms \<Rightarrow> ms \<Rightarrow> window_state \<Rightarrow> bool" where
  "window_expired windowMs t w \<longleftrightarrow> t - w_windowStartedAt w \<ge> windowMs"

definition nonneg :: "attempts \<Rightarrow> bool" where
  "nonneg s \<longleftrightarrow> (\<forall>k w. s k = Some w \<longrightarrow> 0 \<le> w_count w)"

lemma nonneg_empty [simp]: "nonneg Map.empty"
  by (simp add: nonneg_def)

lemma clocked_mono: "clocked t es \<Longrightarrow> u \<le> t \<Longrightarrow> clocked u es"
  by (cases es) auto

lemma accepted_in_simps [simp]:
  "accepted_in k lo hi [] = 0"
  "accepted_in k lo hi ((k', t) # as) =
     (if k' = k \<and> lo \<le> t \<and> t < hi then 1 else 0) + accepted_in k lo hi as"
  by (simp_all add: accepted_in_def)

locale fixed_window =
  fixes maxAttempts :: int and windowMs :: ms
    and g :: guard_fn and r :: "string \<Rightarrow> ms \<Rightarrow> attempts \<Rightarrow> attempts"
  assumes guard_passes:
      "fst (g k t s) \<longleftrightarrow>
        (case s k of None \<Rightarrow> True | Some w \<Rightarrow> window_expired windowMs t w \<or> w_count w < maxAttempts)"
    and guard_state:
      "snd (g k t s) =
        (case s k of None \<Rightarrow> s | Some w \<Rightarrow> if window_expired windowMs t w then s(k := None) else s)"
    and record_state:
      "r k t s =
        (case s k of
           None \<Rightarrow> s(k \<mapsto> \<lparr>w_count = 1, w_windowStartedAt = t\<rparr>)
         | Some w \<Rightarrow>
             s(k \<mapsto> (if window_expired windowMs t w then \<lparr>w_count = 1, w_windowStartedAt = t\<rparr>
                     else w\<lparr>w_count := w_count w + 1\<rparr>)))"
    and max_pos: "1 \<le> maxAttempts"
    and window_pos: "0 < windowMs"
begin

text \<open>What is left of the budget of the window that is open for \<open>k\<close>.\<close>

definition budget :: "string \<Rightarrow> attempts \<Rightarrow> nat" where
  "budget k s = (case s k of None \<Rightarrow> nat maxAttempts | Some w \<Rightarrow> nat (maxAttempts - w_count w))"

lemma run_step:
  "limiter_run g r ((k, t1, t2) # es) s =
    (if fst (g k t1 s) then (k, t2) # limiter_run g r es (r k t2 (snd (g k t1 s)))
     else limiter_run g r es (snd (g k t1 s)))"
  by (auto split: prod.splits bool.splits)

lemma other_key:
  "k' \<noteq> k \<Longrightarrow> r k' t2 (snd (g k' t1 s)) k = s k" "k' \<noteq> k \<Longrightarrow> snd (g k' t1 s) k = s k"
  by (auto simp: guard_state record_state split: option.splits)

text \<open>
  After an accepted attempt the window of the key is either the one that was open, with one more
  attempt, or a new one that starts at the recorder's reading.
\<close>

lemma accepted_window:
  assumes "fst (g k t1 s)" "t1 \<le> t2"
  shows "(\<exists>w. s k = Some w \<and> w_count w < maxAttempts \<and> \<not> window_expired windowMs t2 w \<and>
            r k t2 (snd (g k t1 s)) k = Some (w\<lparr>w_count := w_count w + 1\<rparr>)) \<or>
         (\<forall>w. s k = Some w \<longrightarrow> window_expired windowMs t2 w) \<and>
            r k t2 (snd (g k t1 s)) k = Some \<lparr>w_count = 1, w_windowStartedAt = t2\<rparr>"
  using assms
  by (auto simp: guard_passes guard_state record_state window_expired_def split: option.splits)

lemma rejected_window: "\<not> fst (g k t s) \<Longrightarrow> snd (g k t s) = s"
  by (auto simp: guard_passes guard_state window_expired_def split: option.splits if_splits)

text \<open>Attempts from \<open>hi\<close> on are outside every interval that ends there.\<close>

lemma accepted_late:
  "clocked t0 es \<Longrightarrow> hi \<le> t0 \<Longrightarrow> accepted_in k lo hi (limiter_run g r es s) = 0"
proof (induction es arbitrary: s t0)
  case (Cons e es)
  obtain k' t1 t2 where e: "e = (k', t1, t2)" by (cases e)
  with Cons.prems have "clocked t2 es" "hi \<le> t2" by auto
  with Cons.IH [OF this] show ?case by (auto simp: e split: prod.splits bool.splits)
qed simp

text \<open>Until the window that started at or after \<open>lo\<close> ends, only its budget is left.\<close>

lemma accepted_current_window:
  assumes "clocked t0 es" and "s k = Some w" and "lo \<le> w_windowStartedAt w"
  shows "accepted_in k lo' (lo + windowMs) (limiter_run g r es s) \<le> budget k s"
  using assms
proof (induction es arbitrary: s w t0)
  case Nil
  then show ?case by simp
next
  case (Cons e es)
  obtain k' t1 t2 where e: "e = (k', t1, t2)" by (cases e)
  let ?s = "r k' t2 (snd (g k' t1 s))"
  from Cons.prems(1) e have cl: "clocked t2 es" and t12: "t1 \<le> t2" by auto
  show ?case
  proof (cases "fst (g k' t1 s)")
    case False
    with Cons.IH [where s = s and w = w, OF cl Cons.prems(2,3)] rejected_window [OF False]
    show ?thesis by (simp add: e run_step del: limiter_run.simps)
  next
    case True
    consider "k' \<noteq> k" | "k' = k" by blast
    then show ?thesis
    proof cases
      case 1
      then have "?s k = Some w" using Cons.prems(2) by (simp add: other_key)
      with Cons.IH [where s = ?s and w = w, OF cl this Cons.prems(3)] 1 True Cons.prems(2) show ?thesis
        by (simp add: e run_step budget_def del: limiter_run.simps)
    next
      case 2
      from accepted_window [OF True t12] Cons.prems(2) 2
      consider "w_count w < maxAttempts" "?s k = Some (w\<lparr>w_count := w_count w + 1\<rparr>)"
        | "window_expired windowMs t2 w" "?s k = Some \<lparr>w_count = 1, w_windowStartedAt = t2\<rparr>"
        by auto
      then show ?thesis
      proof cases
        case 1
        then have "lo \<le> w_windowStartedAt (w\<lparr>w_count := w_count w + 1\<rparr>)"
          using Cons.prems(3) by simp
        from Cons.IH [where s = ?s, OF cl 1(2) this] 1 True 2 Cons.prems(2) show ?thesis
          by (auto simp: e run_step budget_def simp del: limiter_run.simps)
      next
        case old: 2
        from old(1) Cons.prems(3) have "lo + windowMs \<le> t2" by (simp add: window_expired_def)
        with accepted_late [OF cl this] True show ?thesis
          by (simp add: e run_step del: limiter_run.simps)
      qed
    qed
  qed
qed

text \<open>From time \<open>lo\<close> on, one old window and one new window can contribute.\<close>

lemma accepted_from:
  assumes "clocked t0 es" and "lo \<le> t0"
  shows "accepted_in k lo (lo + windowMs) (limiter_run g r es s) \<le> budget k s + nat maxAttempts"
  using assms
proof (induction es arbitrary: s t0)
  case Nil
  then show ?case by simp
next
  case (Cons e es)
  obtain k' t1 t2 where e: "e = (k', t1, t2)" by (cases e)
  let ?s = "r k' t2 (snd (g k' t1 s))"
  from Cons.prems e have cl: "clocked t2 es" and t12: "t1 \<le> t2" and lo: "lo \<le> t2" by auto
  note IH = Cons.IH [OF cl lo]
  show ?case
  proof (cases "fst (g k' t1 s)")
    case False
    with IH [of s] rejected_window [OF False] show ?thesis
      by (simp add: e run_step del: limiter_run.simps)
  next
    case True
    show ?thesis
    proof (cases "k' = k")
      case False
      with IH [of ?s] True show ?thesis
        by (simp add: e run_step budget_def other_key del: limiter_run.simps)
    next
      case same: True
      from accepted_window [OF True t12] same
      consider w where "s k = Some w" "w_count w < maxAttempts" "?s k = Some (w\<lparr>w_count := w_count w + 1\<rparr>)"
        | "?s k = Some \<lparr>w_count = 1, w_windowStartedAt = t2\<rparr>"
        by auto
      then show ?thesis
      proof cases
        case 1
        with IH [of ?s] True same show ?thesis
          by (auto simp: e run_step budget_def simp del: limiter_run.simps)
      next
        case 2
        have "accepted_in k lo (lo + windowMs) (limiter_run g r es ?s) \<le> budget k ?s"
          using accepted_current_window [where s = ?s, OF cl 2] lo by simp
        moreover have "budget k ?s + 1 \<le> nat maxAttempts"
          using max_pos 2 by (simp add: budget_def Suc_le_eq nat_less_eq_zless)
        ultimately show ?thesis using True
          by (auto simp: e run_step simp del: limiter_run.simps)
      qed
    qed
  qed
qed

lemma budget_le: "(\<forall>w. s k = Some w \<longrightarrow> 0 \<le> w_count w) \<Longrightarrow> budget k s \<le> nat maxAttempts"
  by (auto simp: budget_def split: option.splits)

lemma nonneg_step: "nonneg s \<Longrightarrow> nonneg (snd (g k t s))" "nonneg s \<Longrightarrow> nonneg (r k t' s)"
  by (force simp: nonneg_def guard_state record_state split: option.splits if_splits)+

lemma accepted_bound:
  assumes "clocked t0 es" and "nonneg s"
  shows "accepted_in k lo (lo + windowMs) (limiter_run g r es s) \<le> 2 * nat maxAttempts"
  using assms
proof (induction es arbitrary: s t0)
  case Nil
  then show ?case by simp
next
  case (Cons e es)
  obtain k' t1 t2 where e: "e = (k', t1, t2)" by (cases e)
  from Cons.prems e have cl: "clocked t2 es" and t12: "t1 \<le> t2" by auto
  show ?case
  proof (cases "lo \<le> t1")
    case True
    then have "clocked t1 (e # es)" using cl t12 e by simp
    from accepted_from [OF this True, of k s] budget_le [of s k] Cons.prems(2) show ?thesis
      by (auto simp: nonneg_def)
  next
    case False
    show ?thesis
    proof (cases "fst (g k' t1 s) \<and> k' = k \<and> lo \<le> t2")
      case False
      with Cons.IH [OF cl] Cons.prems(2) show ?thesis
        by (auto simp: e run_step nonneg_step simp del: limiter_run.simps)
    next
      case new: True
      let ?s = "r k' t2 (snd (g k' t1 s))"
      from new accepted_window [OF _ t12, of k' s] Cons.prems(2)
      have b: "budget k ?s + 1 \<le> nat maxAttempts"
        using max_pos by (fastforce simp: budget_def nonneg_def Suc_le_eq nat_less_eq_zless)
      have "clocked t2 es \<Longrightarrow> lo \<le> t2 \<Longrightarrow> accepted_in k lo (lo + windowMs) (limiter_run g r es ?s)
              \<le> budget k ?s + nat maxAttempts"
        by (rule accepted_from)
      with cl new b show ?thesis by (auto simp: e run_step simp del: limiter_run.simps)
    qed
  qed
qed

end

section \<open>Both limiters keep the contract\<close>

lemma login_fixed_window:
  "1 \<le> m \<Longrightarrow> 0 < w \<Longrightarrow> fixed_window m w (login_guard m w) (login_recordAttempt w)"
  by unfold_locales
     (auto simp: login_guard_def login_assertAllowed_def login_recordAttempt_def window_expired_def
       split: option.splits)

lemma bootstrap_fixed_window:
  "1 \<le> m \<Longrightarrow> 0 < w \<Longrightarrow> fixed_window m w (bootstrap_isAllowed m w) (bootstrap_recordAttempt w)"
  by unfold_locales
     (auto simp: bootstrap_isAllowed_def bootstrap_recordAttempt_def window_expired_def
       split: option.splits)

text \<open>
  The instances the server creates: \<open>create-auth-service.ts\<close> allows 5 login attempts per minute,
  \<open>certificate-bootstrap.router.ts\<close> 20 requests per minute.
\<close>

definition DEFAULT_MAX_LOGIN_ATTEMPTS :: int where "DEFAULT_MAX_LOGIN_ATTEMPTS = 5"
definition DEFAULT_LOGIN_ATTEMPT_WINDOW_MS :: ms where "DEFAULT_LOGIN_ATTEMPT_WINDOW_MS = 60000"
definition MAX_REQUESTS_PER_WINDOW :: int where "MAX_REQUESTS_PER_WINDOW = 20"
definition WINDOW_MS :: ms where "WINDOW_MS = 60000"

interpretation login_window: fixed_window DEFAULT_MAX_LOGIN_ATTEMPTS DEFAULT_LOGIN_ATTEMPT_WINDOW_MS
  "login_guard DEFAULT_MAX_LOGIN_ATTEMPTS DEFAULT_LOGIN_ATTEMPT_WINDOW_MS"
  "login_recordAttempt DEFAULT_LOGIN_ATTEMPT_WINDOW_MS"
  by (rule login_fixed_window)
     (simp_all add: DEFAULT_MAX_LOGIN_ATTEMPTS_def DEFAULT_LOGIN_ATTEMPT_WINDOW_MS_def)

interpretation bootstrap_window: fixed_window MAX_REQUESTS_PER_WINDOW WINDOW_MS
  "bootstrap_isAllowed MAX_REQUESTS_PER_WINDOW WINDOW_MS" "bootstrap_recordAttempt WINDOW_MS"
  by (rule bootstrap_fixed_window) (simp_all add: MAX_REQUESTS_PER_WINDOW_def WINDOW_MS_def)

section \<open>Properties\<close>

text \<open>
  Brute force is bounded. However many login attempts arrive for however many user names, in
  any interval of length \<open>windowMs\<close> at most twice \<open>maxAttempts\<close> of them get past the limiter for one
  user name (a full window may end and a full one begin inside the interval), provided the clock
  does not run backwards.
\<close>

theorem login_attempts_bounded:
  assumes "1 \<le> maxAttempts" and "0 < windowMs" and "clocked t0 es"
  shows "accepted_in user lo (lo + windowMs)
           (limiter_run (login_guard maxAttempts windowMs) (login_recordAttempt windowMs) es Map.empty)
         \<le> 2 * nat maxAttempts"
  by (rule fixed_window.accepted_bound [OF login_fixed_window [OF assms(1,2)] assms(3)]) simp

theorem login_attempts_bounded_witness:
  "accepted_in ''ann'' 50 150
     (limiter_run (login_guard 2 100) (login_recordAttempt 100)
        [(''ann'', 0, 0), (''ann'', 60, 60), (''ann'', 70, 70), (''bob'', 80, 80), (''ann'', 101, 102)]
        Map.empty) \<le> 4"
  using login_attempts_bounded
    [of 2 100 0 "[(''ann'', 0, 0), (''ann'', 60, 60), (''ann'', 70, 70), (''bob'', 80, 80), (''ann'', 101, 102)]"
        "''ann''" 50]
  by simp

text \<open>
  The refusal of the login limiter is exact: it refuses iff the window of that user is open and
  full, leaves the counters alone, and the delay it announces is the true one, i.e. the same
  request is refused at every moment before that delay has passed and let through from then on.
\<close>

theorem login_refusal_exact:
  assumes "login_assertAllowed maxAttempts windowMs key now now s = (Inl e, s')"
  shows "s' = s \<and> (\<exists>retry. e = TooManyLoginAttemptsError retry \<and> 0 < retry \<and>
    (\<forall>t. (fst (login_assertAllowed maxAttempts windowMs key t t s) = Inr ()) = (now + retry \<le> t)))"
  using assms
  by (auto simp: login_assertAllowed_def split: option.splits if_splits)

theorem login_refusal_exact_witness:
  "\<exists>retry. fst (login_assertAllowed 2 100 ''ann'' 30 30
                 [''ann'' \<mapsto> \<lparr>w_count = 2, w_windowStartedAt = 10\<rparr>])
           = Inl (TooManyLoginAttemptsError retry) \<and> 0 < retry"
  using login_refusal_exact
    [of 2 100 "''ann''" 30 "[''ann'' \<mapsto> \<lparr>w_count = 2, w_windowStartedAt = 10\<rparr>]"
        "TooManyLoginAttemptsError 80" "[''ann'' \<mapsto> \<lparr>w_count = 2, w_windowStartedAt = 10\<rparr>]"]
  by (simp add: login_assertAllowed_def)

end
