(* ===== verification/AuthService.thy ===== *)
theory AuthService
  imports UserStore Sessions RateLimiter
begin

text \<open>
  \<open>AuthService\<close> (\<open>contexts/auth/auth.service.ts\<close>) with the password and token helpers it calls
  (\<open>password-authenticator.ts\<close>, \<open>jwt-issuer.ts\<close>). The service is written against the two ports,
  as its constructor takes them; \<open>Bun.password\<close> and \<open>jose\<close> are parameters of the environment.

  Each method takes the clock as a function: \<open>tm i\<close> is the i-th reading during that call.
\<close>

section \<open>Environment and state\<close>

record jwt_payload =
  jp_sub :: "string option"
  jp_iat :: "int option"
  jp_exp :: "int option"

record ('u, 's) auth_env =
  ae_us :: "'u user_store"
  ae_st :: "'s session_store"
  ae_accessTokenTtlSeconds :: int
  ae_sessionTtlSeconds :: int
  ae_maxLoginAttempts :: int
  ae_loginAttemptWindowMs :: ms
  ae_bootstrapAdminConfigured :: bool
  ae_hash :: "string \<Rightarrow> string"
  ae_pwVerify :: "string \<Rightarrow> string \<Rightarrow> auth_error + bool"
  ae_sign :: "string \<Rightarrow> int \<Rightarrow> int \<Rightarrow> auth_error + string"
  ae_jwtVerify :: "string \<Rightarrow> auth_error + jwt_payload"

record ('u, 's) auth_state =
  au_attempts :: attempts
  au_users :: 'u
  au_sessions :: 's

type_synonym ('u, 's, 'a) auth_op = "(('u, 's) auth_state, auth_error, 'a) op"

text \<open>Calls of the collaborators, each on its own part of the state.\<close>

definition on_attempts :: "(attempts, auth_error, 'a) op \<Rightarrow> ('u, 's, 'a) auth_op" where
  "on_attempts m s = (case m (au_attempts s) of (r, x) \<Rightarrow> (r, s\<lparr>au_attempts := x\<rparr>))"

definition on_users :: "('u, auth_error, 'a) op \<Rightarrow> ('u, 's, 'a) auth_op" where
  "on_users m s = (case m (au_users s) of (r, x) \<Rightarrow> (r, s\<lparr>au_users := x\<rparr>))"

definition on_sessions :: "('s, auth_error, 'a) op \<Rightarrow> ('u, 's, 'a) auth_op" where
  "on_sessions m s = (case m (au_sessions s) of (r, x) \<Rightarrow> (r, s\<lparr>au_sessions := x\<rparr>))"

definition users_do :: "('u \<Rightarrow> bool \<times> 'u) \<Rightarrow> ('u, 's, bool) auth_op" where
  "users_do m = on_users (\<lambda>u. (Inr (fst (m u)), snd (m u)))"

definition pure_result :: "auth_error + 'a \<Rightarrow> ('u, 's, 'a) auth_op" where
  "pure_result r s = (r, s)"

section \<open>Passwords and tokens\<close>

definition DUMMY_HASH_FOR_TIMING_PARITY :: string where
  "DUMMY_HASH_FOR_TIMING_PARITY =
     ''$argon2id$v=19$m=65536,t=2,p=1$AAAAAAAAAAAAAAAAAAAAAA$AAAAAAAAAAAAAAAAAAAAAAAAAAAAAAAAAAAAAAAAAAA''"

definition verifyCredentials ::
  "(string \<Rightarrow> string \<Rightarrow> auth_error + bool) \<Rightarrow> string \<Rightarrow> string \<Rightarrow> legacy_user list \<Rightarrow> auth_error + string" where
  "verifyCredentials pwVerify username plainPassword users =
     (let user = find (\<lambda>c. l_username c = username) users;
          hashToCompare = (case user of Some u \<Rightarrow> l_passwordHash u | None \<Rightarrow> DUMMY_HASH_FOR_TIMING_PARITY)
      in case pwVerify plainPassword hashToCompare of
           Inl e \<Rightarrow> Inl e
         | Inr isValid \<Rightarrow>
             (case user of
                None \<Rightarrow> Inl InvalidCredentialsError
              | Some u \<Rightarrow> if isValid then Inr (l_username u) else Inl InvalidCredentialsError))"

definition issueAccessToken ::
  "(string \<Rightarrow> int \<Rightarrow> int \<Rightarrow> auth_error + string) \<Rightarrow> string \<Rightarrow> int \<Rightarrow> ms \<Rightarrow> auth_error + string" where
  "issueAccessToken sign username ttlSeconds dateNow =
     (let now = dateNow div 1000 in sign username now (now + ttlSeconds))"

definition verifyAccessToken ::
  "(string \<Rightarrow> auth_error + jwt_payload) \<Rightarrow> string \<Rightarrow> auth_error + access_token_claims" where
  "verifyAccessToken jwtVerify token =
     (case jwtVerify token of
        Inl e \<Rightarrow> Inl e
      | Inr payload \<Rightarrow>
          (case (jp_sub payload, jp_iat payload, jp_exp payload) of
             (Some sub, Some iat, Some exp) \<Rightarrow>
               if sub = [] then Inl (OtherError ''Access token is missing required claims'')
               else Inr \<lparr>cl_sub = sub, cl_iat = iat, cl_exp = exp\<rparr>
           | _ \<Rightarrow> Inl (OtherError ''Access token is missing required claims'')))"

section \<open>Login and sessions\<close>

text \<open>
  The user a login is checked against, and its \<open>canCreateRepos\<close>: the records built for legacy and
  unknown users leave that field out, so it is undefined there.
\<close>

definition findUserForLogin ::
  "('u, 's) auth_env \<Rightarrow> string \<Rightarrow> ('u, 's) auth_state \<Rightarrow> user_record \<times> bool option" where
  "findUserForLogin E username s =
     (case users_getByUsername (ae_us E) username (au_users s) of
        Some dbUser \<Rightarrow> (dbUser, Some (u_canCreateRepos dbUser))
      | None \<Rightarrow>
          (case find (\<lambda>c. l_username c = username) (users_legacyUsers (ae_us E) (au_users s)) of
             Some legacyUser \<Rightarrow>
               (\<lparr>u_username = l_username legacyUser, u_passwordHash = l_passwordHash legacyUser,
                 u_createdAt = 0, u_createdBy = ''legacy-env'', u_active = True,
                 u_lastLoginAt = None, u_isGlobalAdmin = False, u_canCreateRepos = False\<rparr>, None)
           | None \<Rightarrow>
               (\<lparr>u_username = username, u_passwordHash = [], u_createdAt = 0,
                 u_createdBy = ''unknown'', u_active = True, u_lastLoginAt = None,
                 u_isGlobalAdmin = False, u_canCreateRepos = False\<rparr>, None)))"

definition auth_login ::
  "('u, 's) auth_env \<Rightarrow> string \<Rightarrow> string \<Rightarrow> string \<Rightarrow> (nat \<Rightarrow> ms) \<Rightarrow> ('u, 's, login_result) auth_op" where
  "auth_login E username password token tm =
     and_then (on_attempts (login_assertAllowed (ae_maxLoginAttempts E) (ae_loginAttemptWindowMs E)
                 username (tm 0) (tm 1))) (\<lambda>_.
     and_then (on_attempts (\<lambda>a. (Inr (), login_recordAttempt (ae_loginAttemptWindowMs E) username (tm 2) a))) (\<lambda>_.
     and_then (\<lambda>s. (Inr (findUserForLogin E username s), s)) (\<lambda>(user, canCreateRepos).
       if \<not> u_active user then throw (UserInactiveError username)
       else
     and_then (pure_result (verifyCredentials (ae_pwVerify E) username password
                 [\<lparr>l_username = u_username user, l_passwordHash = u_passwordHash user\<rparr>])) (\<lambda>name.
     and_then (users_do (users_updateLastLogin (ae_us E) name (tm 3))) (\<lambda>_.
     and_then (pure_result (issueAccessToken (ae_sign E) name (ae_accessTokenTtlSeconds E) (tm 4))) (\<lambda>accessToken.
     and_then (on_sessions (createSession (ae_st E) (ae_sessionTtlSeconds E) name token (tm 5) (tm 6))) (\<lambda>refreshToken.
     ret \<lparr>lr_username = name, lr_accessToken = accessToken, lr_refreshToken = refreshToken,
          lr_expiresInSeconds = ae_accessTokenTtlSeconds E, lr_isGlobalAdmin = u_isGlobalAdmin user,
          lr_canCreateRepos = canCreateRepos\<rparr>)))))))"

definition auth_keepAlive :: "('u, 's) auth_env \<Rightarrow> string \<Rightarrow> (nat \<Rightarrow> ms) \<Rightarrow> ('u, 's, unit) auth_op" where
  "auth_keepAlive E refreshToken tm =
     on_sessions (keepAlive (ae_st E) (ae_sessionTtlSeconds E) refreshToken (tm 0) (tm 1))"

definition auth_refresh :: "('u, 's) auth_env \<Rightarrow> string \<Rightarrow> (nat \<Rightarrow> ms) \<Rightarrow> ('u, 's, login_result) auth_op" where
  "auth_refresh E refreshToken tm =
     and_then (on_sessions (usernameFor (ae_st E) refreshToken (tm 0))) (\<lambda>username.
     and_then (on_sessions (keepAlive (ae_st E) (ae_sessionTtlSeconds E) refreshToken (tm 1) (tm 2))) (\<lambda>_.
     and_then (pure_result (issueAccessToken (ae_sign E) username (ae_accessTokenTtlSeconds E) (tm 3))) (\<lambda>accessToken s.
     let user = users_getByUsername (ae_us E) username (au_users s)
     in (Inr \<lparr>lr_username = username, lr_accessToken = accessToken, lr_refreshToken = refreshToken,
              lr_expiresInSeconds = ae_accessTokenTtlSeconds E,
              lr_isGlobalAdmin = (case user of Some u \<Rightarrow> u_isGlobalAdmin u | None \<Rightarrow> False),
              lr_canCreateRepos = Some (case user of Some u \<Rightarrow> u_canCreateRepos u | None \<Rightarrow> False)\<rparr>, s))))"

definition auth_assertSessionActive :: "('u, 's) auth_env \<Rightarrow> string \<Rightarrow> ms \<Rightarrow> ('u, 's, unit) auth_op" where
  "auth_assertSessionActive E refreshToken now = on_sessions (assertActive (ae_st E) refreshToken now)"

definition auth_logout :: "('u, 's) auth_env \<Rightarrow> string \<Rightarrow> ('u, 's, unit) auth_op" where
  "auth_logout E refreshToken = on_sessions (revoke (ae_st E) refreshToken)"

section \<open>Users\<close>

definition buildUserRecord ::
  "('u, 's) auth_env \<Rightarrow> string \<Rightarrow> string \<Rightarrow> string \<Rightarrow> bool \<Rightarrow> bool \<Rightarrow> ms \<Rightarrow> user_record" where
  "buildUserRecord E username password createdBy isGlobalAdmin canCreateRepos now =
     \<lparr>u_username = username, u_passwordHash = ae_hash E password, u_createdAt = now,
      u_createdBy = createdBy, u_active = True, u_lastLoginAt = None,
      u_isGlobalAdmin = isGlobalAdmin, u_canCreateRepos = canCreateRepos\<rparr>"

record create_user_input =
  ci_username :: string
  ci_password :: string
  ci_createdBy :: string
  ci_isGlobalAdmin :: "bool option"
  ci_canCreateRepos :: "bool option"

definition auth_createUser ::
  "('u, 's) auth_env \<Rightarrow> create_user_input \<Rightarrow> ms \<Rightarrow> ('u, 's, user_record) auth_op" where
  "auth_createUser E input now s =
     (case users_getByUsername (ae_us E) (ci_username input) (au_users s) of
        Some _ \<Rightarrow> (Inl (UserAlreadyExistsError (ci_username input)), s)
      | None \<Rightarrow>
          (let record = buildUserRecord E (ci_username input) (ci_password input) (ci_createdBy input)
                 (case ci_isGlobalAdmin input of Some b \<Rightarrow> b | None \<Rightarrow> False)
                 (case ci_canCreateRepos input of Some b \<Rightarrow> b | None \<Rightarrow> True) now
           in and_then (on_users (users_create (ae_us E) record)) (\<lambda>_. ret record) s))"

definition auth_listUsers :: "('u, 's) auth_env \<Rightarrow> ms \<Rightarrow> ('u, 's) auth_state \<Rightarrow> user_summary list" where
  "auth_listUsers E now s =
     map (\<lambda>u. \<lparr>us_username = u_username u, us_createdAt = u_createdAt u, us_createdBy = u_createdBy u,
               us_active = u_active u, us_lastLoginAt = u_lastLoginAt u,
               us_activeSessions = store_countActive (ae_st E) (u_username u) now (au_sessions s),
               us_isGlobalAdmin = u_isGlobalAdmin u, us_canCreateRepos = u_canCreateRepos u\<rparr>)
         (users_list (ae_us E) (au_users s))"

text \<open>The pattern of the single-user updates: \<open>UserNotFoundError\<close> unless a row was changed.\<close>

definition update_or_not_found ::
  "string \<Rightarrow> ('u \<Rightarrow> bool \<times> 'u) \<Rightarrow> ('u, 's, unit) auth_op" where
  "update_or_not_found username m =
     and_then (users_do m) (\<lambda>updated. if updated then ret () else throw (UserNotFoundError username))"

definition auth_deactivateUser :: "('u, 's) auth_env \<Rightarrow> string \<Rightarrow> ('u, 's, unit) auth_op" where
  "auth_deactivateUser E username = update_or_not_found username (users_setActive (ae_us E) username False)"

definition auth_reactivateUser :: "('u, 's) auth_env \<Rightarrow> string \<Rightarrow> ('u, 's, unit) auth_op" where
  "auth_reactivateUser E username = update_or_not_found username (users_setActive (ae_us E) username True)"

definition auth_deleteUser :: "('u, 's) auth_env \<Rightarrow> string \<Rightarrow> ms \<Rightarrow> ('u, 's, unit) auth_op" where
  "auth_deleteUser E username now s =
     (if store_countActive (ae_st E) username now (au_sessions s) > 0
      then (Inl (UserHasActiveSessionsError username), s)
      else update_or_not_found username (users_delete (ae_us E) username) s)"

definition auth_setGlobalAdmin :: "('u, 's) auth_env \<Rightarrow> string \<Rightarrow> bool \<Rightarrow> ('u, 's, unit) auth_op" where
  "auth_setGlobalAdmin E username b = update_or_not_found username (users_setGlobalAdmin (ae_us E) username b)"

definition auth_setCanCreateRepos :: "('u, 's) auth_env \<Rightarrow> string \<Rightarrow> bool \<Rightarrow> ('u, 's, unit) auth_op" where
  "auth_setCanCreateRepos E username b =
     update_or_not_found username (users_setCanCreateRepos (ae_us E) username b)"

definition auth_isGlobalAdmin :: "('u, 's) auth_env \<Rightarrow> string \<Rightarrow> ('u, 's) auth_state \<Rightarrow> bool" where
  "auth_isGlobalAdmin E username s =
     (case users_getByUsername (ae_us E) username (au_users s) of Some u \<Rightarrow> u_isGlobalAdmin u | None \<Rightarrow> False)"

definition auth_canUserCreateRepos :: "('u, 's) auth_env \<Rightarrow> string \<Rightarrow> ('u, 's) auth_state \<Rightarrow> bool" where
  "auth_canUserCreateRepos E username s =
     (case users_getByUsername (ae_us E) username (au_users s) of
        None \<Rightarrow> False
      | Some u \<Rightarrow> u_isGlobalAdmin u \<or> u_canCreateRepos u)"

section \<open>First administrator\<close>

definition auth_getSetupStatus :: "('u, 's) auth_env \<Rightarrow> ('u, 's) auth_state \<Rightarrow> setup_status" where
  "auth_getSetupStatus E s =
     (if ae_bootstrapAdminConfigured E then \<lparr>st_eligible = False, st_reason = BootstrapEnvConfigured\<rparr>
      else if users_count (ae_us E) (au_users s) = 0 then \<lparr>st_eligible = True, st_reason = NotConfigured\<rparr>
      else \<lparr>st_eligible = False, st_reason = UsersExist\<rparr>)"

text \<open>The part of \<open>setupFirstAdmin\<close> after the status check, which other requests may precede.\<close>

definition setup_commit ::
  "('u, 's) auth_env \<Rightarrow> string \<Rightarrow> string \<Rightarrow> ms \<Rightarrow> ('u, 's, user_record) auth_op" where
  "setup_commit E username password now =
     (let record = buildUserRecord E username password ''setup-wizard'' True True now
      in and_then (users_do (users_tryCreateFirstUser (ae_us E) record)) (\<lambda>created.
           if created then ret record
           else throw (SetupAlreadyConfiguredError ''Initial admin setup is no longer available'')))"

definition auth_setupFirstAdmin ::
  "('u, 's) auth_env \<Rightarrow> string \<Rightarrow> string \<Rightarrow> ms \<Rightarrow> ('u, 's, user_record) auth_op" where
  "auth_setupFirstAdmin E username password now s =
     (if \<not> st_eligible (auth_getSetupStatus E s)
      then (Inl (SetupAlreadyConfiguredError ''Initial admin setup is no longer available''), s)
      else setup_commit E username password now s)"

definition auth_ensureBootstrapAdmin ::
  "('u, 's) auth_env \<Rightarrow> (string \<times> string) option \<Rightarrow> ms \<Rightarrow> ('u, 's, unit) auth_op" where
  "auth_ensureBootstrapAdmin E credentials now s =
     (case credentials of
        None \<Rightarrow> (Inr (), s)
      | Some (username, password) \<Rightarrow>
          if users_count (ae_us E) (au_users s) > 0
          then (case users_getByUsername (ae_us E) username (au_users s) of
                  None \<Rightarrow> (Inr (), s)
                | Some existing \<Rightarrow>
                    if \<not> u_isGlobalAdmin existing
                    then and_then (users_do (users_setGlobalAdmin (ae_us E) username True)) (\<lambda>_. ret ()) s
                    else (Inr (), s))
          else (let record = buildUserRecord E username password ''bootstrap-env'' True True now
                in and_then (users_do (users_tryCreateFirstUser (ae_us E) record)) (\<lambda>created.
                     if created then ret ()
                     else throw (SetupAlreadyConfiguredError
                            ''Bootstrap admin could not be created because setup already completed'')) s))"

section \<open>Repository roles\<close>

definition auth_getRepoRole :: "('u, 's) auth_env \<Rightarrow> string \<Rightarrow> string \<Rightarrow> ('u, 's) auth_state \<Rightarrow> repo_role option" where
  "auth_getRepoRole E username repoId s = users_getRepoRole (ae_us E) username repoId (au_users s)"

definition auth_listRepoRoles ::
  "('u, 's) auth_env \<Rightarrow> string \<Rightarrow> ('u, 's) auth_state \<Rightarrow> repo_role_assignment list" where
  "auth_listRepoRoles E repoId s = users_listRepoRoles (ae_us E) repoId (au_users s)"

definition assertUserExists :: "('u, 's) auth_env \<Rightarrow> string \<Rightarrow> ('u, 's, unit) auth_op" where
  "assertUserExists E username s =
     (case users_getByUsername (ae_us E) username (au_users s) of
        Some _ \<Rightarrow> (Inr (), s)
      | None \<Rightarrow>
          if \<exists>c \<in> set (users_legacyUsers (ae_us E) (au_users s)). l_username c = username
          then (Inr (), s) else (Inl (UserNotFoundError username), s))"

fun parse_role :: "string \<Rightarrow> repo_role option" where
  "parse_role r = (if r = ''reader'' then Some Reader else if r = ''writer'' then Some Writer
                   else if r = ''admin'' then Some Admin else None)"

definition auth_grantRepoRole ::
  "('u, 's) auth_env \<Rightarrow> string \<Rightarrow> string \<Rightarrow> string \<Rightarrow> string \<Rightarrow> ms \<Rightarrow> ('u, 's, repo_role_assignment) auth_op" where
  "auth_grantRepoRole E username repoId role grantedBy now =
     and_then (assertUserExists E username) (\<lambda>_.
       case parse_role role of
         None \<Rightarrow> throw (InvalidRepoRoleError role)
       | Some r \<Rightarrow>
           (let assignment = \<lparr>ra_username = username, ra_repoId = repoId, ra_role = r,
                              ra_grantedAt = now, ra_grantedBy = grantedBy\<rparr>
            in and_then (on_users (users_upsertRepoRole (ae_us E) assignment)) (\<lambda>_. ret assignment)))"

definition auth_revokeRepoRole :: "('u, 's) auth_env \<Rightarrow> string \<Rightarrow> string \<Rightarrow> ('u, 's, unit) auth_op" where
  "auth_revokeRepoRole E username repoId =
     and_then (users_do (users_deleteRepoRole (ae_us E) username repoId)) (\<lambda>deleted.
       if deleted then ret () else throw (RepoRoleAssignmentNotFoundError username repoId))"

definition auth_grantRepoAdminToCreator ::
  "('u, 's) auth_env \<Rightarrow> string \<Rightarrow> string \<Rightarrow> ms \<Rightarrow> ('u, 's, repo_role_assignment) auth_op" where
  "auth_grantRepoAdminToCreator E repoId username now =
     auth_grantRepoRole E username repoId ''admin'' ''repo-bootstrap'' now"

definition auth_backfillOrphanedRepoAdmin ::
  "('u, 's) auth_env \<Rightarrow> string \<Rightarrow> string \<Rightarrow> ms \<Rightarrow> ('u, 's, repo_role_assignment option) auth_op" where
  "auth_backfillOrphanedRepoAdmin E repoId bootstrapAdminUsername now s =
     (if auth_listRepoRoles E repoId s \<noteq> [] then (Inr None, s)
      else case users_getByUsername (ae_us E) bootstrapAdminUsername (au_users s) of
             None \<Rightarrow> (Inr None, s)
           | Some _ \<Rightarrow>
               and_then (auth_grantRepoRole E bootstrapAdminUsername repoId ''admin''
                           ''orphaned-repo-backfill'' now) (\<lambda>a. ret (Some a)) s)"

section \<open>All calls of the service\<close>

datatype auth_call =
    CLogin string string string "nat \<Rightarrow> ms"
  | CKeepAlive string "nat \<Rightarrow> ms"
  | CRefresh string "nat \<Rightarrow> ms"
  | CLogout string
  | CCreateUser create_user_input ms
  | CDeactivate string
  | CReactivate string
  | CDelete string ms
  | CSetGlobalAdmin string bool
  | CSetCanCreateRepos string bool
  | CSetup string string ms
  | CBootstrap "(string \<times> string) option" ms
  | CGrantRole string string string string ms
  | CRevokeRole string string
  | CBackfill string string ms

fun auth_exec :: "('u, 's) auth_env \<Rightarrow> auth_call \<Rightarrow> ('u, 's) auth_state \<Rightarrow> ('u, 's) auth_state" where
  "auth_exec E (CLogin u p tok tm) s = snd (auth_login E u p tok tm s)"
| "auth_exec E (CKeepAlive tok tm) s = snd (auth_keepAlive E tok tm s)"
| "auth_exec E (CRefresh tok tm) s = snd (auth_refresh E tok tm s)"
| "auth_exec E (CLogout tok) s = snd (auth_logout E tok s)"
| "auth_exec E (CCreateUser inp t) s = snd (auth_createUser E inp t s)"
| "auth_exec E (CDeactivate u) s = snd (auth_deactivateUser E u s)"
| "auth_exec E (CReactivate u) s = snd (auth_reactivateUser E u s)"
| "auth_exec E (CDelete u t) s = snd (auth_deleteUser E u t s)"
| "auth_exec E (CSetGlobalAdmin u b) s = snd (auth_setGlobalAdmin E u b s)"
| "auth_exec E (CSetCanCreateRepos u b) s = snd (auth_setCanCreateRepos E u b s)"
| "auth_exec E (CSetup u p t) s = snd (auth_setupFirstAdmin E u p t s)"
| "auth_exec E (CBootstrap c t) s = snd (auth_ensureBootstrapAdmin E c t s)"
| "auth_exec E (CGrantRole u i r g t) s = snd (auth_grantRepoRole E u i r g t s)"
| "auth_exec E (CRevokeRole u i) s = snd (auth_revokeRepoRole E u i s)"
| "auth_exec E (CBackfill i b t) s = snd (auth_backfillOrphanedRepoAdmin E i b t s)"

text \<open>The calls that can take the flag of a global administrator from an account, or the account itself.\<close>

fun withdraws :: "auth_call \<Rightarrow> bool" where
  "withdraws (CDelete u t) \<longleftrightarrow> True"
| "withdraws (CSetGlobalAdmin u b) \<longleftrightarrow> \<not> b"
| "withdraws _ \<longleftrightarrow> False"

section \<open>Racing setup requests\<close>

text \<open>
  \<open>setupFirstAdmin\<close> awaits between its status check and its insertion, so requests interleave
  there: client \<open>i\<close> checks, and later commits.
\<close>

datatype setup_phase = SpStart | SpChecked | SpDone "auth_error + user_record"

inductive setup_step ::
  "('u, 's) auth_env \<Rightarrow> (nat \<Rightarrow> string) \<Rightarrow> (nat \<Rightarrow> string) \<Rightarrow>
   setup_phase list \<times> ('u, 's) auth_state \<Rightarrow> setup_phase list \<times> ('u, 's) auth_state \<Rightarrow> bool"
  for E user pw where
  check: "i < length ps \<Longrightarrow> ps ! i = SpStart \<Longrightarrow>
    setup_step E user pw (ps, s)
      (ps[i := if st_eligible (auth_getSetupStatus E s) then SpChecked
               else SpDone (Inl (SetupAlreadyConfiguredError ''Initial admin setup is no longer available''))], s)"
| commit: "i < length ps \<Longrightarrow> ps ! i = SpChecked \<Longrightarrow>
    setup_commit E (user i) (pw i) now s = (r, s') \<Longrightarrow>
    setup_step E user pw (ps, s) (ps[i := SpDone r], s')"

inductive_cases setup_stepE: "setup_step E user pw x y"

fun sp_won :: "setup_phase \<Rightarrow> bool" where
  "sp_won (SpDone (Inr _)) \<longleftrightarrow> True"
| "sp_won _ \<longleftrightarrow> False"

definition setup_winners :: "setup_phase list \<Rightarrow> nat" where
  "setup_winners ps = length (filter sp_won ps)"

section \<open>Facts about the calls\<close>

lemma on_part_apply [op_simps]:
  "on_attempts m s = (fst (m (au_attempts s)), s\<lparr>au_attempts := snd (m (au_attempts s))\<rparr>)"
  "on_users n s = (fst (n (au_users s)), s\<lparr>au_users := snd (n (au_users s))\<rparr>)"
  "on_sessions k s = (fst (k (au_sessions s)), s\<lparr>au_sessions := snd (k (au_sessions s))\<rparr>)"
  by (simp_all add: on_attempts_def on_users_def on_sessions_def split: prod.splits)

lemma users_do_apply [op_simps, simp]:
  "users_do m s = (Inr (fst (m (au_users s))), s\<lparr>au_users := snd (m (au_users s))\<rparr>)"
  by (simp add: users_do_def on_part_apply)

lemma pure_result_apply [op_simps, simp]: "pure_result r s = (r, s)"
  by (simp add: pure_result_def)

lemma update_or_not_found_apply [op_simps]:
  "update_or_not_found k m s =
     (if fst (m (au_users s)) then Inr () else Inl (UserNotFoundError k),
      s\<lparr>au_users := snd (m (au_users s))\<rparr>)"
  by (simp add: update_or_not_found_def and_then_def)

lemma setup_commit_apply [op_simps]:
  "setup_commit E u p now s =
     (let record = buildUserRecord E u p ''setup-wizard'' True True now;
          r = users_tryCreateFirstUser (ae_us E) record (au_users s)
      in (if fst r then Inr record
          else Inl (SetupAlreadyConfiguredError ''Initial admin setup is no longer available''),
          s\<lparr>au_users := snd r\<rparr>))"
  by (simp add: setup_commit_def and_then_def Let_def)

lemma verifyCredentials_single:
  "verifyCredentials v name pw [\<lparr>l_username = u, l_passwordHash = h\<rparr>] = Inr x \<longleftrightarrow>
     u = name \<and> x = name \<and> v pw h = Inr True"
  by (auto simp: verifyCredentials_def split: sum.splits)

lemma createSession_token: "fst (createSession st ttl u tok t t' x) = Inr y \<Longrightarrow> y = tok"
  by (auto simp: createSession_def and_then_def split: prod.splits sum.splits)

lemma findUserForLogin_attempts [simp]:
  "findUserForLogin E u (s\<lparr>au_attempts := a\<rparr>) = findUserForLogin E u s"
  by (simp add: findUserForLogin_def split: option.splits)

text \<open>
  A call that succeeds in the limiter, finds an active user and verifies the password: the
  conditions under which \<open>login\<close> returns, and what it returns.
\<close>

lemma login_Inr:
  assumes "auth_login E username password tok tm s = (Inr r, s')"
  shows "\<exists>user ccr at.
    fst (login_assertAllowed (ae_maxLoginAttempts E) (ae_loginAttemptWindowMs E) username (tm 0) (tm 1)
           (au_attempts s)) = Inr () \<and>
    findUserForLogin E username s = (user, ccr) \<and> u_active user \<and> u_username user = username \<and>
    ae_pwVerify E password (u_passwordHash user) = Inr True \<and>
    issueAccessToken (ae_sign E) username (ae_accessTokenTtlSeconds E) (tm 4) = Inr at \<and>
    r = \<lparr>lr_username = username, lr_accessToken = at, lr_refreshToken = tok,
         lr_expiresInSeconds = ae_accessTokenTtlSeconds E, lr_isGlobalAdmin = u_isGlobalAdmin user,
         lr_canCreateRepos = ccr\<rparr> \<and>
    fst (createSession (ae_st E) (ae_sessionTtlSeconds E) username tok (tm 5) (tm 6) (au_sessions s)) = Inr tok \<and>
    au_sessions s' =
      snd (createSession (ae_st E) (ae_sessionTtlSeconds E) username tok (tm 5) (tm 6) (au_sessions s)) \<and>
    au_users s' = snd (users_updateLastLogin (ae_us E) username (tm 3) (au_users s))"
proof -
  obtain user ccr where f: "findUserForLogin E username s = (user, ccr)" by fastforce
  show ?thesis
    using assms
    by (auto simp: auth_login_def and_then_Inr on_part_apply f verifyCredentials_single
        dest: createSession_token split: if_splits)
qed

text \<open>Every login that the limiter lets pass is counted, whatever becomes of it.\<close>

lemma login_attempts:
  "au_attempts (snd (auth_login E username password tok tm s)) =
    (case login_assertAllowed (ae_maxLoginAttempts E) (ae_loginAttemptWindowMs E) username (tm 0) (tm 1)
            (au_attempts s) of
       (Inr _, a) \<Rightarrow> login_recordAttempt (ae_loginAttemptWindowMs E) username (tm 2) a
     | (Inl _, a) \<Rightarrow> a)"
  by (auto simp: auth_login_def and_then_def on_part_apply split: prod.splits sum.splits)

locale auth_ports = user_port "ae_us E" uinvar + session_port "ae_st E" sinvar
  for E :: "('u, 's) auth_env" and uinvar and sinvar
begin

definition ainvar :: "('u, 's) auth_state \<Rightarrow> bool" where
  "ainvar s \<longleftrightarrow> uinvar (au_users s) \<and> sinvar (au_sessions s)"

lemma uinvar_upds [simp]:
  assumes "uinvar s"
  shows
  "uinvar (snd (users_setActive (ae_us E) k b s))"
  "uinvar (snd (users_setGlobalAdmin (ae_us E) k b s))"
  "uinvar (snd (users_setCanCreateRepos (ae_us E) k b s))"
  "uinvar (snd (users_updateLastLogin (ae_us E) k t s))"
  "uinvar (snd (users_delete (ae_us E) k s))"
  "uinvar (snd (users_tryCreateFirstUser (ae_us E) u s))"
  "uinvar (snd (users_deleteRepoRole (ae_us E) k j s))"
  "uinvar (snd (users_upsertRepoRole (ae_us E) a s))"
  "uinvar (snd (users_create (ae_us E) u s))"
proof -
  note i = assms
  note laws = setActive_law [OF i] setGlobalAdmin_law [OF i] setCanCreateRepos_law [OF i]
    updateLastLogin_law [OF i]
  show "uinvar (snd (users_setActive (ae_us E) k b s))"
    "uinvar (snd (users_setGlobalAdmin (ae_us E) k b s))"
    "uinvar (snd (users_setCanCreateRepos (ae_us E) k b s))"
    "uinvar (snd (users_updateLastLogin (ae_us E) k t s))"
    using laws unfolding updates_user_def by blast+
  show "uinvar (snd (users_delete (ae_us E) k s))" using delete_law [OF i] by blast
  show "uinvar (snd (users_tryCreateFirstUser (ae_us E) u s))" using tryFirst_law [OF i] by blast
  show "uinvar (snd (users_deleteRepoRole (ae_us E) k j s))" using deleteRole_law [OF i] by blast
  show "uinvar (snd (users_upsertRepoRole (ae_us E) a s))"
    using upsert_law [OF i, of a] by (metis prod.collapse)
  show "uinvar (snd (users_create (ae_us E) u s))"
    using create_law [OF i, of u] i by (metis snd_conv)
qed

lemma sinvar_upds [simp]:
  "sinvar x \<Longrightarrow> sinvar (snd (keepAlive (ae_st E) ttl tok t t' x))"
  "sinvar x \<Longrightarrow> sinvar (snd (createSession (ae_st E) ttl u tok t t' x))"
  "sinvar x \<Longrightarrow> sinvar (snd (revoke (ae_st E) tok x))"
  using invar_step [of x ttl "EvKeepAlive tok t t'"] invar_step [of x ttl "EvCreate u tok t t'"]
    invar_step [of x ttl "EvRevoke tok"]
  by simp_all

lemma ainvar_step: "ainvar s \<Longrightarrow> ainvar (auth_exec E c s)"
proof (cases c)
  case (CGrantRole u i r g t)
  assume "ainvar s"
  then show ?thesis
    by (auto simp: CGrantRole ainvar_def auth_grantRepoRole_def assertUserExists_def and_then_def
        on_part_apply Let_def split: option.splits prod.splits sum.splits)
next
  case (CBackfill i b t)
  assume "ainvar s"
  then show ?thesis
    by (auto simp: CBackfill ainvar_def auth_backfillOrphanedRepoAdmin_def auth_grantRepoRole_def
        assertUserExists_def and_then_def on_part_apply Let_def split: option.splits prod.splits sum.splits)
qed (auto simp: ainvar_def auth_login_def auth_keepAlive_def auth_refresh_def auth_logout_def
      auth_createUser_def auth_deactivateUser_def auth_reactivateUser_def auth_deleteUser_def
      auth_setGlobalAdmin_def auth_setCanCreateRepos_def auth_setupFirstAdmin_def
      auth_ensureBootstrapAdmin_def auth_revokeRepoRole_def update_or_not_found_apply
      setup_commit_apply and_then_def on_part_apply Let_def
      split: option.splits prod.splits sum.splits)

text \<open>Every other call leaves the global administrators what they are.\<close>

definition admin_in :: "string \<Rightarrow> 'u \<Rightarrow> bool" where
  "admin_in k db \<longleftrightarrow> (case users_getByUsername (ae_us E) k db of Some u \<Rightarrow> u_isGlobalAdmin u | None \<Rightarrow> False)"

lemma admin_in_update:
  "updates_user (ae_us E) uinvar j f db r \<Longrightarrow> admin_in k db \<Longrightarrow> (\<And>u. u_isGlobalAdmin u \<Longrightarrow> u_isGlobalAdmin (f u)) \<Longrightarrow>
   admin_in k (snd r)"
  by (auto simp: updates_user_def admin_in_def split: option.splits)

lemma admin_in_upds:
  assumes i: "uinvar db" and a: "admin_in k db"
  shows "admin_in k (snd (users_setActive (ae_us E) j b db))"
    "admin_in k (snd (users_setGlobalAdmin (ae_us E) j True db))"
    "admin_in k (snd (users_setCanCreateRepos (ae_us E) j b db))"
    "admin_in k (snd (users_updateLastLogin (ae_us E) j t db))"
    "admin_in k (snd (users_tryCreateFirstUser (ae_us E) u db))"
    "admin_in k (snd (users_deleteRepoRole (ae_us E) j r db))"
    "admin_in k (snd (users_upsertRepoRole (ae_us E) x db))"
    "admin_in k (snd (users_create (ae_us E) u db))"
proof -
  show "admin_in k (snd (users_setActive (ae_us E) j b db))"
    by (rule admin_in_update [OF setActive_law [OF i] a]) simp
  show "admin_in k (snd (users_setGlobalAdmin (ae_us E) j True db))"
    by (rule admin_in_update [OF setGlobalAdmin_law [OF i] a]) simp
  show "admin_in k (snd (users_setCanCreateRepos (ae_us E) j b db))"
    by (rule admin_in_update [OF setCanCreateRepos_law [OF i] a]) simp
  show "admin_in k (snd (users_updateLastLogin (ae_us E) j t db))"
    by (rule admin_in_update [OF updateLastLogin_law [OF i] a]) simp
  show "admin_in k (snd (users_tryCreateFirstUser (ae_us E) u db))"
    using tryFirst_law [OF i, of u] a by (auto simp: admin_in_def split: if_splits option.splits)
  show "admin_in k (snd (users_deleteRepoRole (ae_us E) j r db))"
    using deleteRole_law [OF i, of j r] a by (simp add: admin_in_def)
  show "admin_in k (snd (users_upsertRepoRole (ae_us E) x db))"
    using upsert_law [OF i, of x "fst (users_upsertRepoRole (ae_us E) x db)" "snd (users_upsertRepoRole (ae_us E) x db)"] a
    by (auto simp: admin_in_def split: sum.splits)
  show "admin_in k (snd (users_create (ae_us E) u db))"
  proof (cases "users_getByUsername (ae_us E) (u_username u) db")
    case None
    with a have "k \<noteq> u_username u" by (auto simp: admin_in_def)
    with None create_law [OF i, of u] a show ?thesis by (auto simp: admin_in_def)
  next
    case (Some v)
    with create_law [OF i, of u] a show ?thesis by simp
  qed
qed

lemma isGlobalAdmin_in: "auth_isGlobalAdmin E k s \<longleftrightarrow> admin_in k (au_users s)"
  by (simp add: auth_isGlobalAdmin_def admin_in_def split: option.splits)

lemma admin_step:
  assumes "ainvar s" and "\<not> withdraws c" and "auth_isGlobalAdmin E k s"
  shows "auth_isGlobalAdmin E k (auth_exec E c s)"
proof -
  have i: "uinvar (au_users s)" using assms(1) by (simp add: ainvar_def)
  note a = assms(3) [unfolded isGlobalAdmin_in]
  note [simp] = admin_in_upds [OF i a] a
  show ?thesis
  proof (cases c)
    case (CGrantRole u i r g t)
    then show ?thesis
      by (auto simp: isGlobalAdmin_in auth_grantRepoRole_def assertUserExists_def and_then_def
          on_part_apply Let_def split: option.splits prod.splits sum.splits)
  next
    case (CBackfill i b t)
    then show ?thesis
      by (auto simp: isGlobalAdmin_in auth_backfillOrphanedRepoAdmin_def auth_grantRepoRole_def
          assertUserExists_def and_then_def on_part_apply Let_def split: option.splits prod.splits sum.splits)
  qed (use assms(2) in \<open>auto simp: isGlobalAdmin_in auth_login_def auth_keepAlive_def auth_refresh_def auth_logout_def
      auth_createUser_def auth_deactivateUser_def auth_reactivateUser_def
      auth_setGlobalAdmin_def auth_setCanCreateRepos_def auth_setupFirstAdmin_def
      auth_ensureBootstrapAdmin_def auth_revokeRepoRole_def update_or_not_found_apply
      setup_commit_apply and_then_def on_part_apply Let_def
      split: option.splits prod.splits sum.splits\<close>)
qed

text \<open>With an unused refresh token, \<open>login\<close> succeeds exactly under the conditions of \<open>login_Inr\<close>.\<close>

lemma login_returns:
  assumes "sinvar (au_sessions s)" and "store_get (ae_st E) tok (au_sessions s) = None"
    and "fst (login_assertAllowed (ae_maxLoginAttempts E) (ae_loginAttemptWindowMs E) username
                (tm 0) (tm 1) (au_attempts s)) = Inr ()"
    and "findUserForLogin E username s = (user, ccr)" "u_active user" "u_username user = username"
    and "ae_pwVerify E password (u_passwordHash user) = Inr True"
    and "issueAccessToken (ae_sign E) username (ae_accessTokenTtlSeconds E) (tm 4) = Inr at"
  shows "\<exists>r s'. auth_login E username password tok tm s = (Inr r, s')"
proof -
  from create_fresh [OF assms(1,2)] obtain x where
    "store_create (ae_st E) tok username (tm 5 + ae_sessionTtlSeconds E * 1000) (tm 6) (au_sessions s) = (Inr (), x)"
    by blast
  then have "createSession (ae_st E) (ae_sessionTtlSeconds E) username tok (tm 5) (tm 6) (au_sessions s) = (Inr tok, x)"
    by (simp add: createSession_def and_then_def)
  moreover have "verifyCredentials (ae_pwVerify E) username password
      [\<lparr>l_username = u_username user, l_passwordHash = u_passwordHash user\<rparr>] = Inr username"
    using assms(6,7) by (simp add: verifyCredentials_single)
  ultimately show ?thesis
    using assms(3,4,5,8) by (simp add: auth_login_def and_then_def on_part_apply)
qed

lemma isGlobalAdmin_list:
  "ainvar s \<Longrightarrow> (\<exists>u \<in> set (users_list (ae_us E) (au_users s)). u_isGlobalAdmin u) \<longleftrightarrow> (\<exists>k. auth_isGlobalAdmin E k s)"
proof -
  assume "ainvar s"
  then have u: "uinvar (au_users s)" by (simp add: ainvar_def)
  have adm: "auth_isGlobalAdmin E k s \<longleftrightarrow>
      (\<exists>u. users_getByUsername (ae_us E) k (au_users s) = Some u \<and> u_isGlobalAdmin u)" for k
    by (auto simp: auth_isGlobalAdmin_def split: option.splits)
  show ?thesis unfolding adm using list_iff [OF u] get_key [OF u] by blast
qed

lemma count_zero_iff: "ainvar s \<Longrightarrow>
  users_count (ae_us E) (au_users s) = 0 \<longleftrightarrow> (\<forall>k. users_getByUsername (ae_us E) k (au_users s) = None)"
proof -
  assume i: "ainvar s"
  then have u: "uinvar (au_users s)" by (simp add: ainvar_def)
  have "users_count (ae_us E) (au_users s) = 0 \<longleftrightarrow> set (users_list (ae_us E) (au_users s)) = {}"
    using count_list [OF u] by simp
  also have "\<dots> \<longleftrightarrow> (\<forall>k. users_getByUsername (ae_us E) k (au_users s) = None)"
  proof
    assume e: "set (users_list (ae_us E) (au_users s)) = {}"
    show "\<forall>k. users_getByUsername (ae_us E) k (au_users s) = None"
    proof (rule allI, rule ccontr)
      fix k assume "users_getByUsername (ae_us E) k (au_users s) \<noteq> None"
      then obtain v where "users_getByUsername (ae_us E) k (au_users s) = Some v" by auto
      then have "v \<in> set (users_list (ae_us E) (au_users s))"
        using list_iff [OF u, of v] get_key [OF u, of k v] by simp
      with e show False by simp
    qed
  qed (use list_iff [OF u] in \<open>simp add: set_eq_iff\<close>)
  finally show ?thesis .
qed

text \<open>Racing setups: a winner fills the user table, and a filled table admits no further winner.\<close>

definition setup_inv :: "setup_phase list \<times> ('u, 's) auth_state \<Rightarrow> bool" where
  "setup_inv x \<longleftrightarrow> ainvar (snd x) \<and> setup_winners (fst x) \<le> 1 \<and>
     (setup_winners (fst x) = 1 \<longrightarrow> (\<exists>k. auth_isGlobalAdmin E k (snd x)))"

lemma setup_winners_update:
  "i < length ps \<Longrightarrow> \<not> sp_won (ps ! i) \<Longrightarrow>
   setup_winners (ps[i := p]) = setup_winners ps + (if sp_won p then 1 else 0)"
proof (induction ps arbitrary: i)
  case (Cons q ps)
  then show ?case by (cases i) (auto simp: setup_winners_def)
qed simp

lemma setup_commit_result:
  assumes "ainvar s" and "setup_commit E u p now s = (r, s')"
  shows "ainvar s'"
    and "case r of
      Inr rec \<Rightarrow> (\<forall>k. users_getByUsername (ae_us E) k (au_users s) = None) \<and>
                 rec = buildUserRecord E u p ''setup-wizard'' True True now \<and>
                 (\<forall>k. users_getByUsername (ae_us E) k (au_users s') = (if k = u then Some rec else None))
    | Inl e \<Rightarrow> s' = s \<and> (\<exists>k. users_getByUsername (ae_us E) k (au_users s) \<noteq> None)"
proof -
  let ?rec = "buildUserRecord E u p ''setup-wizard'' True True now"
  have i: "uinvar (au_users s)" using assms(1) by (simp add: ainvar_def)
  show "ainvar s'" using assms by (auto simp: setup_commit_apply Let_def ainvar_def)
  have n: "u_username ?rec = u" by (simp add: buildUserRecord_def)
  show "case r of
      Inr rec \<Rightarrow> (\<forall>k. users_getByUsername (ae_us E) k (au_users s) = None) \<and>
                 rec = buildUserRecord E u p ''setup-wizard'' True True now \<and>
                 (\<forall>k. users_getByUsername (ae_us E) k (au_users s') = (if k = u then Some rec else None))
    | Inl e \<Rightarrow> s' = s \<and> (\<exists>k. users_getByUsername (ae_us E) k (au_users s) \<noteq> None)"
    using assms(2) tryFirst_law [OF i, of ?rec] n
    by (fastforce simp: setup_commit_apply Let_def split: if_splits)
qed

lemma setup_inv_step: "setup_inv x \<Longrightarrow> setup_step E user pw x y \<Longrightarrow> setup_inv y"
proof (erule setup_stepE, goal_cases)
  case (1 i ps s)
  then show ?case by (auto simp: setup_inv_def setup_winners_update)
next
  case (2 i ps now s r s')
  then have inv: "ainvar s" by (simp add: setup_inv_def)
  note res = setup_commit_result [OF inv 2(6)]
  show ?case
  proof (cases r)
    case (Inl e)
    with 2 res show ?thesis by (auto simp: setup_inv_def setup_winners_update)
  next
    case (Inr rec)
    with res have "\<forall>k. users_getByUsername (ae_us E) k (au_users s) = None"
      and adm: "users_getByUsername (ae_us E) (user i) (au_users s') = Some rec" "u_isGlobalAdmin rec"
      by (auto simp: buildUserRecord_def)
    then have "\<nexists>k. auth_isGlobalAdmin E k s" by (simp add: auth_isGlobalAdmin_def)
    moreover have "auth_isGlobalAdmin E (user i) s'" using adm by (simp add: auth_isGlobalAdmin_def)
    ultimately show ?thesis using 2 res(1) Inr by (auto simp: setup_inv_def setup_winners_update)
  qed
qed

lemma setup_inv_run:
  "(setup_step E user pw)\<^sup>*\<^sup>* x y \<Longrightarrow> setup_inv x \<Longrightarrow> setup_inv y"
  by (induction rule: rtranclp_induct) (auto intro: setup_inv_step)

end

section \<open>The service as the server wires it\<close>

text \<open>
  \<open>createAuthService\<close> (\<open>create-auth-service.ts\<close>) hands the service the libSQL stores and the
  default limits; everything else of the environment is configuration.
\<close>

type_synonym auth_db = "(user_db, session_row list) auth_state"

definition createAuthEnv ::
  "bool \<Rightarrow> (user_db, session_row list) auth_env \<Rightarrow> (user_db, session_row list) auth_env" where
  "createAuthEnv fk cfg =
     cfg\<lparr>ae_us := libsqlUserStore fk, ae_st := libsqlSessionStore,
         ae_maxLoginAttempts := DEFAULT_MAX_LOGIN_ATTEMPTS,
         ae_loginAttemptWindowMs := DEFAULT_LOGIN_ATTEMPT_WINDOW_MS\<rparr>"

lemma createAuthEnv_sel [simp]:
  "ae_us (createAuthEnv fk cfg) = libsqlUserStore fk"
  "ae_st (createAuthEnv fk cfg) = libsqlSessionStore"
  "ae_maxLoginAttempts (createAuthEnv fk cfg) = DEFAULT_MAX_LOGIN_ATTEMPTS"
  "ae_loginAttemptWindowMs (createAuthEnv fk cfg) = DEFAULT_LOGIN_ATTEMPT_WINDOW_MS"
  "ae_accessTokenTtlSeconds (createAuthEnv fk cfg) = ae_accessTokenTtlSeconds cfg"
  "ae_sessionTtlSeconds (createAuthEnv fk cfg) = ae_sessionTtlSeconds cfg"
  "ae_bootstrapAdminConfigured (createAuthEnv fk cfg) = ae_bootstrapAdminConfigured cfg"
  "ae_hash (createAuthEnv fk cfg) = ae_hash cfg"
  "ae_pwVerify (createAuthEnv fk cfg) = ae_pwVerify cfg"
  "ae_sign (createAuthEnv fk cfg) = ae_sign cfg"
  "ae_jwtVerify (createAuthEnv fk cfg) = ae_jwtVerify cfg"
  by (simp_all add: createAuthEnv_def)

text \<open>The tables of both databases satisfy their primary keys.\<close>

definition auth_ok :: "auth_db \<Rightarrow> bool" where
  "auth_ok s \<longleftrightarrow> user_db_ok (au_users s) \<and> keyed sr_token (au_sessions s)"

interpretation libsql_auth: auth_ports "createAuthEnv fk cfg" user_db_ok "keyed sr_token" for fk cfg
proof -
  show "auth_ports (createAuthEnv fk cfg) user_db_ok (keyed sr_token)"
    unfolding auth_ports_def createAuthEnv_sel
    using libsql_users.user_port_axioms libsql_sessions.session_port_axioms by blast
qed

lemma libsql_auth_invar: "libsql_auth.ainvar = auth_ok"
  by (simp add: fun_eq_iff libsql_auth.ainvar_def auth_ok_def)

fun auth_run :: "('u, 's) auth_env \<Rightarrow> auth_call list \<Rightarrow> ('u, 's) auth_state \<Rightarrow> ('u, 's) auth_state" where
  "auth_run E [] s = s"
| "auth_run E (c # cs) s = auth_run E cs (auth_exec E c s)"

lemma auth_ok_run: "auth_ok s \<Longrightarrow> auth_ok (auth_run (createAuthEnv fk cfg) cs s)"
  by (induction cs arbitrary: s) (auto intro: libsql_auth.ainvar_step [unfolded libsql_auth_invar])

lemma createAuthEnv_get:
  "users_getByUsername (ae_us (createAuthEnv fk cfg)) = sql_users_get"
  by simp

text \<open>A concrete environment and database, on which the properties are exercised.\<close>

definition sample_cfg :: "(user_db, session_row list) auth_env" where
  "sample_cfg =
     \<lparr>ae_us = libsqlUserStore True, ae_st = libsqlSessionStore, ae_accessTokenTtlSeconds = 900,
      ae_sessionTtlSeconds = 60, ae_maxLoginAttempts = 5, ae_loginAttemptWindowMs = 60000,
      ae_bootstrapAdminConfigured = False, ae_hash = (\<lambda>p. ''h:'' @ p),
      ae_pwVerify = (\<lambda>p h. Inr (h = ''h:'' @ p)), ae_sign = (\<lambda>u i e. Inr (''jwt:'' @ u)),
      ae_jwtVerify = (\<lambda>t. if take 4 t = ''jwt:''
         then Inr \<lparr>jp_sub = Some (drop 4 t), jp_iat = Some 0, jp_exp = Some 900\<rparr>
         else Inl (OtherError ''bad token''))\<rparr>"

definition sample_user :: "string \<Rightarrow> bool \<Rightarrow> user_record" where
  "sample_user name admin =
     \<lparr>u_username = name, u_passwordHash = ''h:pw'', u_createdAt = 0, u_createdBy = ''setup-wizard'',
      u_active = True, u_lastLoginAt = None, u_isGlobalAdmin = admin, u_canCreateRepos = True\<rparr>"

definition sample_db :: auth_db where
  "sample_db =
     \<lparr>au_attempts = Map.empty,
      au_users = \<lparr>db_users = [sample_user ''ann'' True, sample_user ''bob'' False], db_roles = [], db_legacy = []\<rparr>,
      au_sessions = []\<rparr>"

lemma sample_ok [simp]: "auth_ok sample_db"
  by (simp add: auth_ok_def sample_db_def user_db_ok_def keyed_def sample_user_def)

lemma sample_cfg_sel [simp]:
  "ae_accessTokenTtlSeconds sample_cfg = 900" "ae_sessionTtlSeconds sample_cfg = 60"
  "ae_bootstrapAdminConfigured sample_cfg = False" "ae_hash sample_cfg p = ''h:'' @ p"
  "ae_pwVerify sample_cfg p h = Inr (h = ''h:'' @ p)" "ae_sign sample_cfg u i e = Inr (''jwt:'' @ u)"
  "ae_jwtVerify sample_cfg t =
     (if take 4 t = ''jwt:'' then Inr \<lparr>jp_sub = Some (drop 4 t), jp_iat = Some 0, jp_exp = Some 900\<rparr>
      else Inl (OtherError ''bad token''))"
  by (simp_all add: sample_cfg_def)

lemma sample_db_sel [simp]:
  "au_attempts sample_db = Map.empty" "au_sessions sample_db = []"
  "db_legacy (au_users sample_db) = []" "db_roles (au_users sample_db) = []"
  "sql_users_get name (au_users sample_db) =
     (if name = ''ann'' then Some (sample_user ''ann'' True)
      else if name = ''bob'' then Some (sample_user ''bob'' False) else None)"
  by (simp_all add: sample_db_def sql_users_get_def sample_user_def)

lemma sample_user_sel [simp]:
  "u_username (sample_user n b) = n" "u_passwordHash (sample_user n b) = ''h:pw''"
  "u_active (sample_user n b) = True" "u_isGlobalAdmin (sample_user n b) = b"
  "u_canCreateRepos (sample_user n b) = True"
  by (simp_all add: sample_user_def)

section \<open>Facts behind the role properties\<close>

lemma assertUserExists_cases:
  "assertUserExists E name s = (Inr (), s) \<or>
   assertUserExists E name s = (Inl (UserNotFoundError name), s) \<and>
   users_getByUsername (ae_us E) name (au_users s) = None"
  by (auto simp: assertUserExists_def split: option.splits)

lemma grant_result:
  assumes "auth_ok s"
  shows "auth_grantRepoRole (createAuthEnv fk cfg) name repo role by now s = (Inr a, s') \<Longrightarrow>
      parse_role role = Some (ra_role a) \<and>
      (\<forall>j i. sql_users_getRepoRole j i (au_users s') =
         (if j = name \<and> i = repo then parse_role role else sql_users_getRepoRole j i (au_users s)))"
    and "auth_grantRepoRole (createAuthEnv fk cfg) name repo role by now s = (Inl e, s') \<Longrightarrow>
      s' = s \<and> (parse_role role = None \<or> sql_users_get name (au_users s) = None)"
proof -
  let ?E = "createAuthEnv fk cfg"
  have ok: "user_db_ok (au_users s)" using assms by (simp add: auth_ok_def)
  consider (nouser) "assertUserExists ?E name s = (Inl (UserNotFoundError name), s)"
      "sql_users_get name (au_users s) = None"
    | (norole) "parse_role role = None" "assertUserExists ?E name s = (Inr (), s)"
    | (up) r where "parse_role role = Some r" "assertUserExists ?E name s = (Inr (), s)"
    using assertUserExists_cases [of ?E name s] by (cases "parse_role role") auto
  then have "(auth_grantRepoRole ?E name repo role by now s = (Inr a, s') \<longrightarrow>
      parse_role role = Some (ra_role a) \<and>
      (\<forall>j i. sql_users_getRepoRole j i (au_users s') =
         (if j = name \<and> i = repo then parse_role role else sql_users_getRepoRole j i (au_users s)))) \<and>
      (auth_grantRepoRole ?E name repo role by now s = (Inl e, s') \<longrightarrow>
      s' = s \<and> (parse_role role = None \<or> sql_users_get name (au_users s) = None))"
  proof cases
    case nouser
    then show ?thesis by (auto simp: auth_grantRepoRole_def and_then_def simp del: parse_role.simps)
  next
    case norole
    then show ?thesis by (auto simp: auth_grantRepoRole_def and_then_def simp del: parse_role.simps)
  next
    case (up r)
    let ?a = "\<lparr>ra_username = name, ra_repoId = repo, ra_role = r, ra_grantedAt = now, ra_grantedBy = by\<rparr>"
    obtain q t where q: "sql_users_upsertRepoRole fk ?a (au_users s) = (q, t)" by fastforce
    show ?thesis
      using up q sql_upsert_law [OF ok q]
      by (cases q) (auto simp: auth_grantRepoRole_def and_then_def on_part_apply Let_def simp del: parse_role.simps)
  qed
  then show "auth_grantRepoRole (createAuthEnv fk cfg) name repo role by now s = (Inr a, s') \<Longrightarrow>
      parse_role role = Some (ra_role a) \<and>
      (\<forall>j i. sql_users_getRepoRole j i (au_users s') =
         (if j = name \<and> i = repo then parse_role role else sql_users_getRepoRole j i (au_users s)))"
    and "auth_grantRepoRole (createAuthEnv fk cfg) name repo role by now s = (Inl e, s') \<Longrightarrow>
      s' = s \<and> (parse_role role = None \<or> sql_users_get name (au_users s) = None)"
    by (simp_all del: parse_role.simps)
qed

lemma revoke_result:
  assumes "auth_ok s"
  shows "auth_revokeRepoRole (createAuthEnv fk cfg) name repo s = (r, s') \<Longrightarrow>
      (if sql_users_getRepoRole name repo (au_users s) = None
       then r = Inl (RepoRoleAssignmentNotFoundError name repo) else r = Inr ()) \<and>
      (\<forall>j i. sql_users_getRepoRole j i (au_users s') =
         (if j = name \<and> i = repo then None else sql_users_getRepoRole j i (au_users s)))"
  using assms
  by (auto simp: auth_revokeRepoRole_def and_then_def auth_ok_def sql_deleteRole_law split: if_splits)

lemma backfill_governed:
  assumes "auth_ok s"
  shows "(\<exists>j. sql_users_getRepoRole j repo (au_users s) \<noteq> None) \<Longrightarrow>
      auth_backfillOrphanedRepoAdmin (createAuthEnv fk cfg) repo name now s = (Inr None, s)"
  using sql_listRoles_iff [of "au_users s" repo] assms
  by (fastforce simp: auth_backfillOrphanedRepoAdmin_def auth_listRepoRoles_def auth_ok_def)

section \<open>Properties\<close>

text \<open>
  C9. Login is exactly as strict as it should be. On the libSQL stores, with a refresh token that
  is not in use, \<open>login\<close> returns iff the limiter admits the attempt, the account it finds for the
  name (the stored one, or a legacy one) is active, its password hash verifies and the token can be
  signed; for a name no account has, it never returns (provided an empty hash verifies nothing).
\<close>

theorem login_iff:
  assumes "auth_ok s" and "sess_get tok (au_sessions s) = None"
    and "\<And>p. ae_pwVerify cfg p [] \<noteq> Inr True"
  shows "(\<exists>r. fst (auth_login (createAuthEnv fk cfg) name password tok tm s) = Inr r) \<longleftrightarrow>
    fst (login_assertAllowed DEFAULT_MAX_LOGIN_ATTEMPTS DEFAULT_LOGIN_ATTEMPT_WINDOW_MS name
           (tm 0) (tm 1) (au_attempts s)) = Inr () \<and>
    (\<exists>hash. ae_pwVerify cfg password hash = Inr True \<and>
       (case sql_users_get name (au_users s) of
          Some u \<Rightarrow> u_active u \<and> hash = u_passwordHash u
        | None \<Rightarrow> \<exists>l. find (\<lambda>l. l_username l = name) (db_legacy (au_users s)) = Some l \<and>
                     hash = l_passwordHash l)) \<and>
    (\<exists>at. issueAccessToken (ae_sign cfg) name (ae_accessTokenTtlSeconds cfg) (tm 4) = Inr at)"
  (is "?L \<longleftrightarrow> ?A \<and> ?H \<and> ?I")
proof -
  let ?E = "createAuthEnv fk cfg"
  obtain user ccr where f: "findUserForLogin ?E name s = (user, ccr)" by fastforce
  have user: "u_active user \<and> u_username user = name \<and> ae_pwVerify cfg password (u_passwordHash user) = Inr True \<longleftrightarrow> ?H"
    using f assms(3)
    by (auto simp: findUserForLogin_def sql_users_get_def dest: sql_get_Some_key find_Some_D
        split: option.splits)
  have "?L \<longleftrightarrow> (\<exists>r s'. auth_login ?E name password tok tm s = (Inr r, s'))"
    by (metis fst_conv prod.collapse)
  also have "\<dots> \<longleftrightarrow> ?A \<and> (u_active user \<and> u_username user = name \<and>
      ae_pwVerify cfg password (u_passwordHash user) = Inr True) \<and> ?I"
    using login_Inr [of ?E name password tok tm s] f
      libsql_auth.login_returns [where s = s and tok = tok and fk = fk and cfg = cfg and username = name
        and tm = tm and user = user and ccr = ccr and password = password] assms(1,2)
    by (fastforce simp: auth_ok_def)
  finally show ?thesis unfolding user .
qed

theorem login_iff_witness:
  "\<exists>r. fst (auth_login (createAuthEnv True sample_cfg) ''bob'' ''pw'' ''tok'' (\<lambda>i. 0) sample_db) = Inr r"
  using login_iff [of sample_db "''tok''" sample_cfg True "''bob''" "''pw''" "\<lambda>i. 0"]
  by (simp add: sess_get_def login_assertAllowed_def issueAccessToken_def)

text \<open>
  A successful login creates exactly one session: the returned refresh token, owned by the
  user, valid for the configured time to live; no other session, no role and no account field
  except the time of the last login changes, and the attempt has been counted.
\<close>

theorem login_effect:
  assumes "auth_ok s" and "sess_get tok (au_sessions s) = None"
    and "auth_login (createAuthEnv fk cfg) name password tok tm s = (Inr r, s')"
  shows "lr_refreshToken r = tok \<and> lr_username r = name
    \<and> (\<forall>k. sess_get k (au_sessions s') =
         (if k = tok then Some \<lparr>se_username = name, se_createdAt = tm 6,
                                se_expiresAt = tm 5 + ae_sessionTtlSeconds cfg * 1000\<rparr>
          else sess_get k (au_sessions s)))
    \<and> (\<forall>k. sql_users_get k (au_users s') =
         (if k = name then map_option (\<lambda>u. u\<lparr>u_lastLoginAt := Some (tm 3)\<rparr>) (sql_users_get k (au_users s))
          else sql_users_get k (au_users s)))
    \<and> (\<forall>k i. sql_users_getRepoRole k i (au_users s') = sql_users_getRepoRole k i (au_users s))"
proof -
  have ok: "user_db_ok (au_users s)" "keyed sr_token (au_sessions s)"
    using assms(1) by (simp_all add: auth_ok_def)
  note L = login_Inr [OF assms(3), unfolded createAuthEnv_sel libsqlUserStore_sel]
  from L have r: "lr_refreshToken r = tok" "lr_username r = name" by auto
  from L have se: "au_sessions s' = snd (createSession libsqlSessionStore (ae_sessionTtlSeconds cfg)
      name tok (tm 5) (tm 6) (au_sessions s))"
    and us: "au_users s' = snd (sql_users_updateLastLogin name (tm 3) (au_users s))" by blast+
  have up: "updates_user (libsqlUserStore fk) user_db_ok name (\<lambda>u. u\<lparr>u_lastLoginAt := Some (tm 3)\<rparr>)
      (au_users s) (sql_users_updateLastLogin name (tm 3) (au_users s))"
    using libsql_users.updateLastLogin_law [OF ok(1)] by simp
  show ?thesis
    using r up libsql_sessions.get_create [OF ok(2), of _ tok name _ "tm 6"] assms(2)
    by (auto simp: se us createSession_state updates_user_def)
qed

theorem login_effect_witness:
  "\<exists>r s'. auth_login (createAuthEnv True sample_cfg) ''bob'' ''pw'' ''tok'' (\<lambda>i. int i) sample_db = (Inr r, s') \<and>
     sess_get ''tok'' (au_sessions s') =
       Some \<lparr>se_username = ''bob'', se_createdAt = 6, se_expiresAt = 60005\<rparr>"
proof -
  obtain r s' where eq:
    "auth_login (createAuthEnv True sample_cfg) ''bob'' ''pw'' ''tok'' (\<lambda>i. int i) sample_db = (Inr r, s')"
    by (simp add: auth_login_def and_then_def on_part_apply login_assertAllowed_def findUserForLogin_def
        verifyCredentials_def issueAccessToken_def createSession_def sess_create_def
        sql_insert_def)
  have "sess_get ''tok'' (au_sessions sample_db) = None" by (simp add: sess_get_def)
  from login_effect [OF sample_ok this eq] eq show ?thesis by auto
qed

text \<open>
  No call of the service breaks the tables. From consistent tables, after any sequence of
  logins, refreshes, logouts, user, setup, bootstrap and role calls with any arguments, no two
  users share a name, no two role assignments share a user and repository, and no two sessions
  share a token.
\<close>

theorem auth_tables_consistent:
  assumes "auth_ok s"
  shows "auth_ok (auth_run (createAuthEnv fk cfg) cs s)"
  using assms by (rule auth_ok_run)

theorem auth_tables_consistent_witness:
  "auth_ok (auth_run (createAuthEnv True sample_cfg)
     [CGrantRole ''bob'' ''r'' ''writer'' ''ann'' 1, CDelete ''bob'' 2] sample_db)"
  by (rule auth_tables_consistent) simp

text \<open>
  C23. At most one of any number of racing setup requests wins. From any user database, however the
  status checks and the insertions of the requests interleave, at most one request reports
  success, and when one has, a global administrator exists.
\<close>

theorem setup_race_single_winner:
  assumes "auth_ok s"
    and "(setup_step (createAuthEnv fk cfg) user pw)\<^sup>*\<^sup>* (replicate n SpStart, s) (ps, s')"
  shows "setup_winners ps \<le> 1 \<and>
    (setup_winners ps = 1 \<longrightarrow> (\<exists>k. auth_isGlobalAdmin (createAuthEnv fk cfg) k s'))"
proof -
  have "setup_winners (replicate n SpStart) = 0" by (simp add: setup_winners_def)
  then have "libsql_auth.setup_inv fk cfg (replicate n SpStart, s)"
    using assms(1) by (simp add: libsql_auth.setup_inv_def libsql_auth_invar)
  from libsql_auth.setup_inv_run [OF assms(2) this] show ?thesis
    by (simp add: libsql_auth.setup_inv_def)
qed

theorem setup_race_single_winner_witness:
  "let E = createAuthEnv True sample_cfg;
       s = sample_db\<lparr>au_users := \<lparr>db_users = [], db_roles = [], db_legacy = []\<rparr>\<rparr>
   in \<exists>ps s'. (setup_step E (\<lambda>i. ''root'') (\<lambda>i. ''pw''))\<^sup>*\<^sup>* (replicate 2 SpStart, s) (ps, s') \<and>
        setup_winners ps = 1 \<and> (\<exists>k. auth_isGlobalAdmin E k s')"
proof -
  let ?E = "createAuthEnv True sample_cfg"
  let ?s = "sample_db\<lparr>au_users := \<lparr>db_users = [], db_roles = [], db_legacy = []\<rparr>\<rparr>"
  let ?R = "setup_step ?E (\<lambda>i. ''root'') (\<lambda>i. ''pw'')"
  let ?rec = "buildUserRecord ?E ''root'' ''pw'' ''setup-wizard'' True True 7"
  let ?s' = "?s\<lparr>au_users := \<lparr>db_users = [?rec], db_roles = [], db_legacy = []\<rparr>\<rparr>"
  have 1: "?R ([SpStart, SpStart], ?s) ([SpChecked, SpStart], ?s)"
    using setup_step.check [of 0 "[SpStart, SpStart]" ?E _ _ ?s]
    by (simp add: auth_getSetupStatus_def sql_users_count_def)
  have 2: "?R ([SpChecked, SpStart], ?s) ([SpChecked, SpChecked], ?s)"
    using setup_step.check [of 1 "[SpChecked, SpStart]" ?E _ _ ?s]
    by (simp add: auth_getSetupStatus_def sql_users_count_def)
  have 3: "?R ([SpChecked, SpChecked], ?s) ([SpDone (Inr ?rec), SpChecked], ?s')"
    using setup_step.commit [of 0 "[SpChecked, SpChecked]" ?E "\<lambda>i. ''root''" "\<lambda>i. ''pw''" 7 ?s "Inr ?rec" ?s']
    by (simp add: setup_commit_apply sql_users_tryCreateFirstUser_def Let_def)
  have run: "?R\<^sup>*\<^sup>* (replicate 2 SpStart, ?s) ([SpDone (Inr ?rec), SpChecked], ?s')"
    unfolding numeral_2_eq_2 replicate.simps
    by (rule converse_rtranclp_into_rtranclp, rule 1, rule converse_rtranclp_into_rtranclp, rule 2,
        rule r_into_rtranclp, rule 3)
  have ok: "auth_ok ?s" by (simp add: auth_ok_def user_db_ok_def sample_db_def)
  have one: "setup_winners [SpDone (Inr ?rec), SpChecked] = 1" by (simp add: setup_winners_def)
  from setup_race_single_winner [OF ok run] one
  have "\<exists>k. auth_isGlobalAdmin ?E k ?s'" by blast
  with run one show ?thesis unfolding Let_def by blast
qed

text \<open>
  The configured bootstrap administrator is never locked out. When \<open>ensureBootstrapAdmin\<close> runs
  with credentials, it succeeds; afterwards the account is a global administrator if it existed
  or if there was no user at all; an existing account keeps its password and every other field,
  and when users exist no account is added.
\<close>

theorem bootstrap_admin_ensured:
  assumes "auth_ok s"
  shows "\<exists>s'. auth_ensureBootstrapAdmin (createAuthEnv fk cfg) (Some (name, password)) now s = (Inr (), s') \<and>
    (if \<forall>k. sql_users_get k (au_users s) = None
     then \<forall>k. sql_users_get k (au_users s') =
            (if k = name then Some (buildUserRecord (createAuthEnv fk cfg) name password ''bootstrap-env'' True True now)
             else None)
     else \<forall>k. sql_users_get k (au_users s') =
            (if k = name then map_option (\<lambda>u. u\<lparr>u_isGlobalAdmin := True\<rparr>) (sql_users_get k (au_users s))
             else sql_users_get k (au_users s)))"
proof -
  let ?rec = "buildUserRecord (createAuthEnv fk cfg) name password ''bootstrap-env'' True True now"
  have ok: "user_db_ok (au_users s)" using assms by (simp add: auth_ok_def)
  have cnt: "sql_users_count (au_users s) = 0 \<longleftrightarrow> (\<forall>k. sql_users_get k (au_users s) = None)"
    using libsql_auth.count_zero_iff [of s fk cfg] assms by (simp add: libsql_auth_invar)
  have upd: "updates_user (libsqlUserStore fk) user_db_ok name (\<lambda>u. u\<lparr>u_isGlobalAdmin := True\<rparr>) (au_users s)
      (sql_users_setGlobalAdmin name True (au_users s))"
    using libsql_users.setGlobalAdmin_law [OF ok] by simp
  have first: "u_username ?rec = name" by (simp add: buildUserRecord_def)
  show ?thesis
  proof (cases "\<forall>k. sql_users_get k (au_users s) = None")
    case True
    with cnt first sql_tryFirst_law [OF ok, of ?rec] show ?thesis
      by (auto simp: auth_ensureBootstrapAdmin_def and_then_def Let_def)
  next
    case False
    with cnt have pos: "sql_users_count (au_users s) > 0" by blast
    show ?thesis
    proof (cases "sql_users_get name (au_users s)")
      case None
      with False pos show ?thesis by (auto simp: auth_ensureBootstrapAdmin_def)
    next
      case (Some u)
      with False pos upd show ?thesis
        by (auto simp: auth_ensureBootstrapAdmin_def and_then_def updates_user_def)
    qed
  qed
qed

theorem bootstrap_admin_ensured_witness:
  "\<exists>s'. auth_ensureBootstrapAdmin (createAuthEnv True sample_cfg) (Some (''bob'', ''x'')) 9 sample_db = (Inr (), s') \<and>
        sql_users_get ''bob'' (au_users s') = Some (sample_user ''bob'' True)"
proof -
  have "\<not> (\<forall>k. sql_users_get k (au_users sample_db) = None)"
    by (auto intro: exI [of _ "''ann''"])
  with bootstrap_admin_ensured [OF sample_ok, of True sample_cfg "''bob''" "''x''" 9]
  obtain s' where "auth_ensureBootstrapAdmin (createAuthEnv True sample_cfg) (Some (''bob'', ''x'')) 9 sample_db = (Inr (), s')"
    and "\<forall>k. sql_users_get k (au_users s') =
      (if k = ''bob'' then map_option (\<lambda>u. u\<lparr>u_isGlobalAdmin := True\<rparr>) (sql_users_get k (au_users sample_db))
       else sql_users_get k (au_users sample_db))"
    by (simp only: if_False) blast
  then show ?thesis by (simp add: sample_user_def)
qed

text \<open>
  Repository roles are a map that only the role calls change: after a successful grant the user
  has exactly the granted role on that repository, after a successful revocation none; the two
  fail, changing nothing, exactly for unknown users or roles and for absent assignments; and the
  break-glass backfill acts only on a repository with no assignment at all.
\<close>

theorem repo_roles_map:
  assumes "auth_ok s"
  shows "(\<forall>a s'. auth_grantRepoRole (createAuthEnv fk cfg) name repo role by now s = (Inr a, s') \<longrightarrow>
      parse_role role = Some (ra_role a) \<and>
      (\<forall>j i. sql_users_getRepoRole j i (au_users s') =
         (if j = name \<and> i = repo then parse_role role else sql_users_getRepoRole j i (au_users s))))
    \<and> (\<forall>e s'. auth_grantRepoRole (createAuthEnv fk cfg) name repo role by now s = (Inl e, s') \<longrightarrow>
      s' = s \<and> (parse_role role = None \<or> sql_users_get name (au_users s) = None))
    \<and> (\<forall>r s'. auth_revokeRepoRole (createAuthEnv fk cfg) name repo s = (r, s') \<longrightarrow>
      (if sql_users_getRepoRole name repo (au_users s) = None
       then r = Inl (RepoRoleAssignmentNotFoundError name repo) else r = Inr ()) \<and>
      (\<forall>j i. sql_users_getRepoRole j i (au_users s') =
         (if j = name \<and> i = repo then None else sql_users_getRepoRole j i (au_users s))))
    \<and> ((\<exists>j. sql_users_getRepoRole j repo (au_users s) \<noteq> None) \<longrightarrow>
      auth_backfillOrphanedRepoAdmin (createAuthEnv fk cfg) repo name now s = (Inr None, s))"
  by (intro conjI allI impI)
     (erule grant_result [OF assms, THEN conjunct1] grant_result [OF assms, THEN conjunct2, rule_format]
       revoke_result [OF assms, THEN conjunct1] revoke_result [OF assms, THEN conjunct2, rule_format]
       backfill_governed [OF assms])+

theorem repo_roles_map_witness:
  "\<exists>a s'. auth_grantRepoRole (createAuthEnv True sample_cfg) ''bob'' ''r'' ''writer'' ''ann'' 3 sample_db = (Inr a, s') \<and>
     sql_users_getRepoRole ''bob'' ''r'' (au_users s') = Some Writer"
proof -
  obtain a s' where g:
    "auth_grantRepoRole (createAuthEnv True sample_cfg) ''bob'' ''r'' ''writer'' ''ann'' 3 sample_db = (Inr a, s')"
    by (simp add: auth_grantRepoRole_def assertUserExists_def and_then_def on_part_apply
        sql_users_upsertRepoRole_def sql_insert_def Let_def)
  with repo_roles_map [OF sample_ok, of True sample_cfg "''bob''" "''r''" "''writer''" "''ann''" 3] show ?thesis
    by auto
qed

end
