(* ===== verification/Http.thy ===== *)
theory Http
  imports Json AuthService
begin

text \<open>
  What the HTTP routers share: JSON request bodies and the \<open>zod\<close> checks the routers apply to them,
  responses with their status, body and cookie, and the authentication of the bearer token
  (\<open>authenticateBearerToken\<close> of \<open>contexts/auth/auth.router.ts\<close>, used by every router).

  A handler is an operation on the state that returns a response; an error it does not catch is
  thrown to the framework.
\<close>

text \<open>\<open>z.string().min(lo).max(hi)\<close> on a required field.\<close>

definition z_string :: "nat \<Rightarrow> nat \<Rightarrow> string \<Rightarrow> json \<Rightarrow> string option" where
  "z_string lo hi k j =
     (case jfield k j of Some (JStr s) \<Rightarrow> if lo \<le> length s \<and> length s \<le> hi then Some s else None | _ \<Rightarrow> None)"

text \<open>The same on an optional field: outer \<open>None\<close> is a failed parse, inner \<open>None\<close> an absent field.\<close>

definition z_opt_string :: "nat \<Rightarrow> string \<Rightarrow> json \<Rightarrow> string option option" where
  "z_opt_string lo k j =
     (case jfield k j of
        None \<Rightarrow> Some None
      | Some (JStr s) \<Rightarrow> if lo \<le> length s then Some (Some s) else None
      | Some _ \<Rightarrow> None)"

definition z_opt_bool :: "string \<Rightarrow> json \<Rightarrow> bool option option" where
  "z_opt_bool k j =
     (case jfield k j of None \<Rightarrow> Some None | Some (JBool b) \<Rightarrow> Some (Some b) | Some _ \<Rightarrow> None)"

text \<open>\<open>await c.req.json().catch(() => null)\<close>: an unparsable body is \<open>null\<close>.\<close>

definition body_or_null :: "json option \<Rightarrow> json" where
  "body_or_null b = (case b of Some j \<Rightarrow> j | None \<Rightarrow> JNull)"

datatype cookie_action = NoCookie | SetCookie string bool | DeleteCookie

record 'b response =
  rs_status :: nat
  rs_body :: 'b
  rs_cookie :: cookie_action

definition reply :: "nat \<Rightarrow> 'b \<Rightarrow> 'b response" where
  "reply status body = \<lparr>rs_status = status, rs_body = body, rs_cookie = NoCookie\<rparr>"

lemma reply_sel [simp]:
  "rs_status (reply n b) = n" "rs_body (reply n b) = b" "rs_cookie (reply n b) = NoCookie"
  by (simp_all add: reply_def)

definition authenticateBearerToken ::
  "string option \<Rightarrow> (string \<Rightarrow> auth_error + jwt_payload) \<Rightarrow> string option" where
  "authenticateBearerToken authHeader jwtVerify =
     (case authHeader of
        None \<Rightarrow> None
      | Some h \<Rightarrow>
          if \<not> js_startsWith h ''Bearer '' then None
          else let token = js_trim (drop 7 h)
               in if token = [] then None
                  else case verifyAccessToken jwtVerify token of
                         Inl _ \<Rightarrow> None
                       | Inr claims \<Rightarrow> Some (cl_sub claims))"

text \<open>
  A caller is recognised only through a token that the verifier accepts, and the name is the
  non-empty subject of that token.
\<close>

lemma authenticate_Some:
  assumes "authenticateBearerToken h v = Some user"
  shows "user \<noteq> []" and "\<exists>hd token payload. h = Some hd \<and> js_startsWith hd ''Bearer '' \<and>
    token = js_trim (drop 7 hd) \<and> token \<noteq> [] \<and> v token = Inr payload \<and> jp_sub payload = Some user"
  using assms
  by (auto simp: authenticateBearerToken_def verifyAccessToken_def Let_def
      split: option.splits if_splits sum.splits)

end
