(* ===== verification/AuthRouter.thy ===== *)
theory AuthRouter
  imports Http
begin

text \<open>
  The routes of \<open>contexts/auth/auth.router.ts\<close>: setup, login, session and user management. One
  definition per route; each is the whole handler, from the parsing of the body to the response.
\<close>

section \<open>Requests, bodies and schemas\<close>

record http_request =
  rq_authorization :: "string option"
  rq_forwardedProto :: "string option"
  rq_urlIsHttps :: bool
  rq_origin :: "string option"
  rq_host :: "string option"
  rq_cookie :: "string option"
  rq_json :: "json option"

datatype auth_body =
    ABError string
  | ABInvalid
  | ABSetup setup_status
  | ABSetupDone setup_reason
  | ABUserCreated string ms
  | ABUser string ms bool bool bool
  | ABLogin login_result
  | ABOk
  | ABUsers "user_summary list"

type_synonym ('u, 's) auth_handler = "('u, 's, auth_body response) auth_op"

definition loginBodySchema :: "json \<Rightarrow> (string \<times> string) option" where
  "loginBodySchema j =
     (case (z_string 1 256 ''username'' j, z_string 1 1024 ''password'' j) of
        (Some u, Some p) \<Rightarrow> Some (u, p)
      | _ \<Rightarrow> None)"

definition createUserSchema :: "json \<Rightarrow> (string \<times> string \<times> bool option) option" where
  "createUserSchema j =
     (case (z_string 1 256 ''username'' j, z_string 8 1024 ''password'' j, z_opt_bool ''canCreateRepos'' j) of
        (Some u, Some p, Some c) \<Rightarrow> Some (u, p, c)
      | _ \<Rightarrow> None)"

definition sessionTokenBodySchema :: "json \<Rightarrow> string option option" where
  "sessionTokenBodySchema j = (if jis_obj j then z_opt_string 1 ''refreshToken'' j else None)"

definition isRequestHttps :: "http_request \<Rightarrow> bool" where
  "isRequestHttps c =
     (case rq_forwardedProto c of
        Some p \<Rightarrow> if p = [] then rq_urlIsHttps c
                  else js_toLowerCase (js_trim (hd (js_split CHR '','' p))) = ''https''
      | None \<Rightarrow> rq_urlIsHttps c)"

definition refreshCookie :: "http_request \<Rightarrow> string \<Rightarrow> bool \<Rightarrow> cookie_action" where
  "refreshCookie c token secure = SetCookie token (secure \<and> isRequestHttps c)"

text \<open>\<open>urlHost\<close> is \<open>new URL(_).host\<close>, \<open>None\<close> when the constructor throws.\<close>

definition isSameOriginOrNoOrigin :: "(string \<Rightarrow> string option) \<Rightarrow> http_request \<Rightarrow> bool" where
  "isSameOriginOrNoOrigin urlHost c =
     (case rq_origin c of
        None \<Rightarrow> True
      | Some origin \<Rightarrow>
          if origin = [] then True
          else case rq_host c of
                 None \<Rightarrow> False
               | Some host \<Rightarrow> if host = [] then False
                              else (case urlHost origin of Some oh \<Rightarrow> oh = host | None \<Rightarrow> False))"

fun err_message :: "auth_error \<Rightarrow> string" where
  "err_message (UserNotFoundError u) = ''User '' @ u @ '' was not found''"
| "err_message (UserAlreadyExistsError u) = ''User '' @ u @ '' already exists''"
| "err_message (UserHasActiveSessionsError u) = ''User '' @ u @ '' still has active sessions''"
| "err_message (SetupAlreadyConfiguredError m) = m"
| "err_message (UserInactiveError u) = ''User '' @ u @ '' is deactivated''"
| "err_message (InvalidRepoRoleError r) = ''Invalid repo role \"'' @ r @ ''\": expected reader, writer, or admin''"
| "err_message (RepoRoleAssignmentNotFoundError u r) =
     ''Repo role assignment not found for user '' @ u @ '' on repo '' @ r"
| "err_message (OtherError m) = m"
| "err_message InvalidCredentialsError = ''Invalid username or password''"
| "err_message SessionNotFoundError = ''Session not found or already revoked''"
| "err_message SessionExpiredError = ''Session has expired due to inactivity''"
| "err_message _ = []"

section \<open>Setup and login\<close>

definition get_setup_status :: "('u, 's) auth_env \<Rightarrow> ('u, 's) auth_handler" where
  "get_setup_status E s =
     (let status = auth_getSetupStatus E s
      in (Inr (reply (if st_eligible status then 200 else 404) (ABSetup status)), s))"

definition post_setup :: "('u, 's) auth_env \<Rightarrow> http_request \<Rightarrow> ms \<Rightarrow> ('u, 's) auth_handler" where
  "post_setup E c now s =
     (let status = auth_getSetupStatus E s in
      if \<not> st_eligible status then (Inr (reply 404 (ABSetupDone (st_reason status))), s)
      else case createUserSchema (body_or_null (rq_json c)) of
             None \<Rightarrow> (Inr (reply 400 ABInvalid), s)
           | Some (username, password, _) \<Rightarrow>
               (case auth_setupFirstAdmin E username password now s of
                  (Inr user, s') \<Rightarrow> (Inr (reply 201 (ABUserCreated (u_username user) (u_createdAt user))), s')
                | (Inl (SetupAlreadyConfiguredError m), s') \<Rightarrow> (Inr (reply 404 (ABError m)), s')
                | (Inl (UserAlreadyExistsError u), s') \<Rightarrow>
                    (Inr (reply 409 (ABError (err_message (UserAlreadyExistsError u)))), s')
                | (Inl e, s') \<Rightarrow> (Inl e, s')))"

definition post_login ::
  "('u, 's) auth_env \<Rightarrow> bool \<Rightarrow> http_request \<Rightarrow> string \<Rightarrow> (nat \<Rightarrow> ms) \<Rightarrow> ('u, 's) auth_handler" where
  "post_login E secureCookies c token tm s =
     (case loginBodySchema (body_or_null (rq_json c)) of
        None \<Rightarrow> (Inr (reply 400 ABInvalid), s)
      | Some (username, password) \<Rightarrow>
          (case auth_login E username password token tm s of
             (Inr result, s') \<Rightarrow>
               (Inr (reply 200 (ABLogin result)
                       \<lparr>rs_cookie := refreshCookie c (lr_refreshToken result) secureCookies\<rparr>), s')
           | (Inl InvalidCredentialsError, s') \<Rightarrow> (Inr (reply 401 (ABError ''Invalid credentials'')), s')
           | (Inl (UserInactiveError u), s') \<Rightarrow> (Inr (reply 401 (ABError ''Invalid credentials'')), s')
           | (Inl (TooManyLoginAttemptsError r), s') \<Rightarrow>
               (Inr (reply 429 (ABError ''Too many attempts, try again later'')), s')
           | (Inl e, s') \<Rightarrow> (Inl e, s')))"

section \<open>Sessions\<close>

text \<open>The token of the body, else the cookie (an empty one is no token).\<close>

definition presentedToken :: "http_request \<Rightarrow> string option \<Rightarrow> string option" where
  "presentedToken c bodyToken =
     (case bodyToken of
        Some t \<Rightarrow> Some t
      | None \<Rightarrow> (case rq_cookie c of Some t \<Rightarrow> if t = [] then None else Some t | None \<Rightarrow> None))"

definition post_refresh ::
  "('u, 's) auth_env \<Rightarrow> (string \<Rightarrow> string option) \<Rightarrow> bool \<Rightarrow> http_request \<Rightarrow> (nat \<Rightarrow> ms) \<Rightarrow> ('u, 's) auth_handler" where
  "post_refresh E urlHost secureCookies c tm s =
     (case sessionTokenBodySchema (case rq_json c of Some j \<Rightarrow> j | None \<Rightarrow> JObj []) of
        None \<Rightarrow> (Inr (reply 400 ABInvalid), s)
      | Some bodyToken \<Rightarrow>
          (case presentedToken c bodyToken of
             None \<Rightarrow> (Inr (reply 401 (ABError ''No active session'')), s)
           | Some refreshToken \<Rightarrow>
               if bodyToken = None \<and> \<not> isSameOriginOrNoOrigin urlHost c
               then (Inr (reply 403 (ABError ''Cross-origin request rejected'')), s)
               else case auth_refresh E refreshToken tm s of
                      (Inr result, s') \<Rightarrow>
                        (Inr (reply 200 (ABLogin result)
                                \<lparr>rs_cookie := refreshCookie c (lr_refreshToken result) secureCookies\<rparr>), s')
                    | (Inl e, s') \<Rightarrow>
                        if e = SessionNotFoundError \<or> e = SessionExpiredError
                        then (Inr (reply 401 (ABError ''Session not found or expired'')
                                     \<lparr>rs_cookie := DeleteCookie\<rparr>), s')
                        else (Inl e, s')))"

definition post_keepAlive ::
  "('u, 's) auth_env \<Rightarrow> (string \<Rightarrow> string option) \<Rightarrow> http_request \<Rightarrow> (nat \<Rightarrow> ms) \<Rightarrow> ('u, 's) auth_handler" where
  "post_keepAlive E urlHost c tm s =
     (case sessionTokenBodySchema (body_or_null (rq_json c)) of
        None \<Rightarrow> (Inr (reply 400 ABInvalid), s)
      | Some bodyToken \<Rightarrow>
          (case presentedToken c bodyToken of
             None \<Rightarrow> (Inr (reply 400 ABInvalid), s)
           | Some refreshToken \<Rightarrow>
               if bodyToken = None \<and> \<not> isSameOriginOrNoOrigin urlHost c
               then (Inr (reply 403 (ABError ''Cross-origin request rejected'')), s)
               else case auth_keepAlive E refreshToken tm s of
                      (Inr _, s') \<Rightarrow> (Inr (reply 200 ABOk), s')
                    | (Inl e, s') \<Rightarrow>
                        if e = SessionNotFoundError \<or> e = SessionExpiredError
                        then (Inr (reply 401 (ABError ''Session not found or expired'')), s')
                        else (Inl e, s')))"

definition post_logout ::
  "('u, 's) auth_env \<Rightarrow> (string \<Rightarrow> string option) \<Rightarrow> http_request \<Rightarrow> ('u, 's) auth_handler" where
  "post_logout E urlHost c s =
     (case sessionTokenBodySchema (body_or_null (rq_json c)) of
        None \<Rightarrow> (Inr (reply 400 ABInvalid), s)
      | Some bodyToken \<Rightarrow>
          (let refreshToken = presentedToken c bodyToken in
           if bodyToken = None \<and> refreshToken \<noteq> None \<and> \<not> isSameOriginOrNoOrigin urlHost c
           then (Inr (reply 403 (ABError ''Cross-origin request rejected'')), s)
           else let s' = (case refreshToken of Some t \<Rightarrow> snd (auth_logout E t s) | None \<Rightarrow> s)
                in (Inr (reply 200 ABOk \<lparr>rs_cookie := DeleteCookie\<rparr>), s')))"

section \<open>User management\<close>

text \<open>
  Each of the nine routes opens with the same two checks: the bearer token must name a caller
  (401), and that caller must be a global administrator (403).
\<close>

definition globalAdminGate ::
  "('u, 's) auth_env \<Rightarrow> http_request \<Rightarrow> (string \<Rightarrow> ('u, 's) auth_handler) \<Rightarrow> ('u, 's) auth_handler" where
  "globalAdminGate E c inner s =
     (case authenticateBearerToken (rq_authorization c) (ae_jwtVerify E) of
        None \<Rightarrow> (Inr (reply 401 (ABError ''Unauthorized'')), s)
      | Some caller \<Rightarrow>
          if \<not> auth_isGlobalAdmin E caller s
          then (Inr (reply 403 (ABError ''Global admin access required'')), s)
          else inner caller s)"

definition get_users :: "('u, 's) auth_env \<Rightarrow> http_request \<Rightarrow> ms \<Rightarrow> ('u, 's) auth_handler" where
  "get_users E c now =
     globalAdminGate E c (\<lambda>_ s. (Inr (reply 200 (ABUsers (auth_listUsers E now s))), s))"

definition post_users :: "('u, 's) auth_env \<Rightarrow> http_request \<Rightarrow> ms \<Rightarrow> ('u, 's) auth_handler" where
  "post_users E c now =
     globalAdminGate E c (\<lambda>username s.
       case createUserSchema (body_or_null (rq_json c)) of
         None \<Rightarrow> (Inr (reply 400 ABInvalid), s)
       | Some (u, p, ccr) \<Rightarrow>
           (case auth_createUser E \<lparr>ci_username = u, ci_password = p, ci_createdBy = username,
                                    ci_isGlobalAdmin = None, ci_canCreateRepos = ccr\<rparr> now s of
              (Inr user, s') \<Rightarrow>
                (Inr (reply 201 (ABUser (u_username user) (u_createdAt user) True
                                   (u_isGlobalAdmin user) (u_canCreateRepos user))), s')
            | (Inl (UserAlreadyExistsError n), s') \<Rightarrow>
                (Inr (reply 409 (ABError (err_message (UserAlreadyExistsError n)))), s')
            | (Inl e, s') \<Rightarrow> (Inl e, s')))"

text \<open>The common end of the single-user routes: 200, or 404 for \<open>UserNotFoundError\<close>.\<close>

definition okOr404 :: "('u, 's, unit) auth_op \<Rightarrow> ('u, 's) auth_handler" where
  "okOr404 m s =
     (case m s of
        (Inr _, s') \<Rightarrow> (Inr (reply 200 ABOk), s')
      | (Inl (UserNotFoundError u), s') \<Rightarrow> (Inr (reply 404 (ABError (err_message (UserNotFoundError u)))), s')
      | (Inl e, s') \<Rightarrow> (Inl e, s'))"

definition post_deactivate :: "('u, 's) auth_env \<Rightarrow> http_request \<Rightarrow> string \<Rightarrow> ('u, 's) auth_handler" where
  "post_deactivate E c username = globalAdminGate E c (\<lambda>_. okOr404 (auth_deactivateUser E username))"

definition post_reactivate :: "('u, 's) auth_env \<Rightarrow> http_request \<Rightarrow> string \<Rightarrow> ('u, 's) auth_handler" where
  "post_reactivate E c username = globalAdminGate E c (\<lambda>_. okOr404 (auth_reactivateUser E username))"

definition delete_user :: "('u, 's) auth_env \<Rightarrow> http_request \<Rightarrow> string \<Rightarrow> ms \<Rightarrow> ('u, 's) auth_handler" where
  "delete_user E c username now =
     globalAdminGate E c (\<lambda>_ s.
       case auth_deleteUser E username now s of
         (Inr _, s') \<Rightarrow> (Inr (reply 200 ABOk), s')
       | (Inl (UserHasActiveSessionsError u), s') \<Rightarrow>
           (Inr (reply 409 (ABError (err_message (UserHasActiveSessionsError u)))), s')
       | (Inl (UserNotFoundError u), s') \<Rightarrow> (Inr (reply 404 (ABError (err_message (UserNotFoundError u)))), s')
       | (Inl e, s') \<Rightarrow> (Inl e, s'))"

definition post_globalAdmin :: "('u, 's) auth_env \<Rightarrow> http_request \<Rightarrow> string \<Rightarrow> ('u, 's) auth_handler" where
  "post_globalAdmin E c username = globalAdminGate E c (\<lambda>_. okOr404 (auth_setGlobalAdmin E username True))"

text \<open>
  The route that withdraws the flag awaits twice before it writes: what the gate reads, the count of the
  administrators, which only a caller who withdraws their own flag needs, and the update. Its three parts:
\<close>

definition demote_gate ::
  "('u, 's) auth_env \<Rightarrow> http_request \<Rightarrow> ('u, 's) auth_state \<Rightarrow> auth_body response + string" where
  "demote_gate E c s =
     (case authenticateBearerToken (rq_authorization c) (ae_jwtVerify E) of
        None \<Rightarrow> Inl (reply 401 (ABError ''Unauthorized''))
      | Some caller \<Rightarrow>
          if \<not> auth_isGlobalAdmin E caller s then Inl (reply 403 (ABError ''Global admin access required''))
          else Inr caller)"

definition demote_count ::
  "('u, 's) auth_env \<Rightarrow> string \<Rightarrow> string \<Rightarrow> ms \<Rightarrow> ('u, 's) auth_state \<Rightarrow> auth_body response option" where
  "demote_count E caller target now s =
     (if target = caller \<and> length (filter us_isGlobalAdmin (auth_listUsers E now s)) \<le> 1
      then Some (reply 409 (ABError ''Cannot remove the last remaining global admin''))
      else None)"

definition demote_update :: "('u, 's) auth_env \<Rightarrow> string \<Rightarrow> ('u, 's) auth_handler" where
  "demote_update E target = okOr404 (auth_setGlobalAdmin E target False)"

definition delete_globalAdmin :: "('u, 's) auth_env \<Rightarrow> http_request \<Rightarrow> string \<Rightarrow> ms \<Rightarrow> ('u, 's) auth_handler" where
  "delete_globalAdmin E c target now s =
     (case demote_gate E c s of
        Inl r \<Rightarrow> (Inr r, s)
      | Inr caller \<Rightarrow>
          (case demote_count E caller target now s of
             Some r \<Rightarrow> (Inr r, s)
           | None \<Rightarrow> demote_update E target s))"

definition post_canCreateRepos :: "('u, 's) auth_env \<Rightarrow> http_request \<Rightarrow> string \<Rightarrow> ('u, 's) auth_handler" where
  "post_canCreateRepos E c username = globalAdminGate E c (\<lambda>_. okOr404 (auth_setCanCreateRepos E username True))"

definition delete_canCreateRepos :: "('u, 's) auth_env \<Rightarrow> http_request \<Rightarrow> string \<Rightarrow> ('u, 's) auth_handler" where
  "delete_canCreateRepos E c username = globalAdminGate E c (\<lambda>_. okOr404 (auth_setCanCreateRepos E username False))"

datatype admin_route =
    RListUsers ms | RCreateUser ms | RDeactivate string | RReactivate string | RDeleteUser string ms
  | RGrantGlobalAdmin string | RRevokeGlobalAdmin string ms | RGrantCreateRepos string | RRevokeCreateRepos string

fun admin_handle :: "('u, 's) auth_env \<Rightarrow> admin_route \<Rightarrow> http_request \<Rightarrow> ('u, 's) auth_handler" where
  "admin_handle E (RListUsers now) c = get_users E c now"
| "admin_handle E (RCreateUser now) c = post_users E c now"
| "admin_handle E (RDeactivate u) c = post_deactivate E c u"
| "admin_handle E (RReactivate u) c = post_reactivate E c u"
| "admin_handle E (RDeleteUser u now) c = delete_user E c u now"
| "admin_handle E (RGrantGlobalAdmin u) c = post_globalAdmin E c u"
| "admin_handle E (RRevokeGlobalAdmin u now) c = delete_globalAdmin E c u now"
| "admin_handle E (RGrantCreateRepos u) c = post_canCreateRepos E c u"
| "admin_handle E (RRevokeCreateRepos u) c = delete_canCreateRepos E c u"

section \<open>Requests that overlap\<close>

text \<open>
  Requests to withdraw the flag, each at one of its suspension points, and what else the service does in
  between: a call of any other route or hook.
\<close>

datatype demotion =
    DmStart http_request string
  | DmGated string string
  | DmCounted string
  | DmDone "auth_error + auth_body response"

fun demotion_step ::
  "('u, 's) auth_env \<Rightarrow> ms \<Rightarrow> demotion \<Rightarrow> ('u, 's) auth_state \<Rightarrow> demotion \<times> ('u, 's) auth_state" where
  "demotion_step E now (DmStart c target) s =
     (case demote_gate E c s of Inl r \<Rightarrow> DmDone (Inr r) | Inr caller \<Rightarrow> DmGated caller target, s)"
| "demotion_step E now (DmGated caller target) s =
     (case demote_count E caller target now s of Some r \<Rightarrow> DmDone (Inr r) | None \<Rightarrow> DmCounted target, s)"
| "demotion_step E now (DmCounted target) s = (case demote_update E target s of (r, s') \<Rightarrow> (DmDone r, s'))"
| "demotion_step E now (DmDone r) s = (DmDone r, s)"

fun under_way :: "demotion \<Rightarrow> bool" where
  "under_way (DmGated caller target) \<longleftrightarrow> True"
| "under_way (DmCounted target) \<longleftrightarrow> True"
| "under_way _ \<longleftrightarrow> False"

datatype admin_event = Arrives http_request string | Continues nat ms | OtherCall auth_call

type_synonym ('u, 's) demotions = "demotion list \<times> ('u, 's) auth_state"

fun after_event :: "('u, 's) auth_env \<Rightarrow> admin_event \<Rightarrow> ('u, 's) demotions \<Rightarrow> ('u, 's) demotions" where
  "after_event E (Arrives c target) (ds, s) = (ds @ [DmStart c target], s)"
| "after_event E (Continues i now) (ds, s) =
     (if i < length ds then (case demotion_step E now (ds ! i) s of (d, s') \<Rightarrow> (ds[i := d], s')) else (ds, s))"
| "after_event E (OtherCall k) (ds, s) = (ds, auth_exec E k s)"

fun after_events :: "('u, 's) auth_env \<Rightarrow> admin_event list \<Rightarrow> ('u, 's) demotions \<Rightarrow> ('u, 's) demotions" where
  "after_events E [] x = x"
| "after_events E (e # es) x = after_events E es (after_event E e x)"

text \<open>
  No request continues while another one is under way, and what else happens withdraws no flag and
  deletes no account.
\<close>

fun one_at_a_time :: "('u, 's) auth_env \<Rightarrow> admin_event list \<Rightarrow> ('u, 's) demotions \<Rightarrow> bool" where
  "one_at_a_time E [] x \<longleftrightarrow> True"
| "one_at_a_time E (e # es) x \<longleftrightarrow>
     (case e of
        Arrives c target \<Rightarrow> True
      | Continues i now \<Rightarrow> list_all (\<lambda>j. j = i \<or> \<not> under_way (fst x ! j)) [0..<length (fst x)]
      | OtherCall k \<Rightarrow> \<not> withdraws k) \<and>
     one_at_a_time E es (after_event E e x)"

text \<open>Without an interruption the steps are the handler.\<close>

lemma demotion_steps_alone:
  "(case delete_globalAdmin E c target now s of (r, s') \<Rightarrow> (DmDone r, s')) =
   (case demotion_step E t (DmStart c target) s of (d, s1) \<Rightarrow>
    case demotion_step E now d s1 of (d', s2) \<Rightarrow> demotion_step E t' d' s2)"
  by (auto simp: delete_globalAdmin_def split: sum.splits option.splits prod.splits)

section \<open>The gate\<close>

lemma delete_globalAdmin_gated:
  "delete_globalAdmin E c target now =
     globalAdminGate E c (\<lambda>caller s.
       if target = caller \<and> length (filter us_isGlobalAdmin (auth_listUsers E now s)) \<le> 1
       then (Inr (reply 409 (ABError ''Cannot remove the last remaining global admin'')), s)
       else okOr404 (auth_setGlobalAdmin E target False) s)"
  by (simp add: fun_eq_iff delete_globalAdmin_def globalAdminGate_def demote_gate_def demote_count_def demote_update_def
      split: option.splits)

lemmas admin_route_defs =
  get_users_def post_users_def post_deactivate_def post_reactivate_def delete_user_def
  post_globalAdmin_def delete_globalAdmin_gated post_canCreateRepos_def delete_canCreateRepos_def

text \<open>Every user-management route is the gate around some handler.\<close>

lemma admin_handle_gate: "\<exists>inner. admin_handle E r c = globalAdminGate E c inner"
  by (cases r) (auto simp: admin_route_defs)

lemma globalAdminGate_cases:
  "snd (globalAdminGate E c inner s) = s \<or>
   (\<exists>caller. authenticateBearerToken (rq_authorization c) (ae_jwtVerify E) = Some caller \<and>
      auth_isGlobalAdmin E caller s)"
  by (auto simp: globalAdminGate_def split: option.splits)

section \<open>Administrators that remain\<close>

definition has_admin :: "user_db \<Rightarrow> bool" where
  "has_admin db \<longleftrightarrow> (\<exists>u \<in> set (db_users db). u_isGlobalAdmin u)"

lemma has_admin_iff:
  "user_db_ok db \<Longrightarrow> has_admin db \<longleftrightarrow> (\<exists>k u. sql_users_get k db = Some u \<and> u_isGlobalAdmin u)"
  by (auto simp: has_admin_def user_db_ok_def sql_users_get_def sql_get_Some_iff)

lemma admin_count:
  "length (filter us_isGlobalAdmin (auth_listUsers (createAuthEnv fk cfg) now s)) =
   length (filter u_isGlobalAdmin (db_users (au_users s)))"
proof -
  have "length (filter us_isGlobalAdmin (auth_listUsers (createAuthEnv fk cfg) now s)) =
        length (filter u_isGlobalAdmin (sql_users_list (au_users s)))"
    by (simp add: auth_listUsers_def filter_map comp_def)
  also have "\<dots> = length (filter u_isGlobalAdmin (db_users (au_users s)))"
    by (simp add: sql_users_list_def filter_sort)
  finally show ?thesis .
qed

text \<open>A second administrator exists when the count is not at most one.\<close>

lemma another_admin:
  assumes "user_db_ok db" and "\<not> length (filter u_isGlobalAdmin (db_users db)) \<le> 1"
  shows "\<exists>k u. k \<noteq> me \<and> sql_users_get k db = Some u \<and> u_isGlobalAdmin u"
proof -
  let ?as = "filter u_isGlobalAdmin (db_users db)"
  have d: "distinct (map u_username ?as)"
    using assms(1) by (simp add: user_db_ok_def keyed_def distinct_map_filter)
  from assms(2) obtain a b r where as: "?as = a # b # r"
    by (metis One_nat_def Suc_le_mono impossible_Cons le0 length_Cons list.size(3) neq_Nil_conv)
  with d have ne: "u_username a \<noteq> u_username b" by simp
  have mem: "a \<in> set ?as" "b \<in> set ?as" using as by auto
  then have "sql_users_get (u_username a) db = Some a" "sql_users_get (u_username b) db = Some b"
    "u_isGlobalAdmin a" "u_isGlobalAdmin b"
    using assms(1) by (auto simp: user_db_ok_def sql_users_get_def sql_get_mem)
  with ne show ?thesis by (metis (full_types))
qed

lemma okOr404_state: "snd (okOr404 m s) = snd (m s)"
  by (auto simp: okOr404_def split: prod.splits sum.splits auth_error.splits)

text \<open>Updating one user keeps every administrator but, at most, that user.\<close>

lemma updates_user_keeps_admin:
  assumes "updates_user (libsqlUserStore fk) user_db_ok k f db r"
    and "sql_users_get j db = Some u" "u_isGlobalAdmin u"
    and "j \<noteq> k \<or> (\<forall>u. u_isGlobalAdmin (f u) = u_isGlobalAdmin u)"
  shows "\<exists>j u. sql_users_get j (snd r) = Some u \<and> u_isGlobalAdmin u"
proof -
  from assms have "sql_users_get j (snd r) = Some (if j = k then f u else u)"
    by (auto simp: updates_user_def)
  with assms(3,4) show ?thesis by (cases "j = k") auto
qed

lemma admin_route_keeps_admin:
  assumes ok: "auth_ok s" and adm: "auth_isGlobalAdmin (createAuthEnv fk cfg) caller s"
  shows "has_admin (au_users (snd (auth_setGlobalAdmin (createAuthEnv fk cfg) u True s)))"
    and "has_admin (au_users (snd (auth_deactivateUser (createAuthEnv fk cfg) u s)))"
    and "has_admin (au_users (snd (auth_reactivateUser (createAuthEnv fk cfg) u s)))"
    and "has_admin (au_users (snd (auth_setCanCreateRepos (createAuthEnv fk cfg) u b s)))"
    and "u \<noteq> caller \<or> \<not> length (filter u_isGlobalAdmin (db_users (au_users s))) \<le> 1 \<Longrightarrow>
         has_admin (au_users (snd (auth_setGlobalAdmin (createAuthEnv fk cfg) u False s)))"
proof -
  let ?E = "createAuthEnv fk cfg"
  have uok: "user_db_ok (au_users s)" using ok by (simp add: auth_ok_def)
  from adm obtain a where a: "sql_users_get caller (au_users s) = Some a" "u_isGlobalAdmin a"
    by (auto simp: auth_isGlobalAdmin_def split: option.splits)
  note laws = libsql_users.setGlobalAdmin_law [OF uok, where fk = fk, unfolded libsqlUserStore_sel]
    libsql_users.setActive_law [OF uok, where fk = fk, unfolded libsqlUserStore_sel]
    libsql_users.setCanCreateRepos_law [OF uok, where fk = fk, unfolded libsqlUserStore_sel]
  have hi: "user_db_ok db \<Longrightarrow> \<exists>j v. sql_users_get j db = Some v \<and> u_isGlobalAdmin v \<Longrightarrow> has_admin db" for db
    by (simp add: has_admin_iff)
  have upd_ok: "user_db_ok (snd (sql_users_setGlobalAdmin u b' (au_users s)))"
    "user_db_ok (snd (sql_users_setActive u b' (au_users s)))"
    "user_db_ok (snd (sql_users_setCanCreateRepos u b' (au_users s)))" for b'
    using laws by (auto simp: updates_user_def)
  show "has_admin (au_users (snd (auth_deactivateUser ?E u s)))"
    "has_admin (au_users (snd (auth_reactivateUser ?E u s)))"
    "has_admin (au_users (snd (auth_setCanCreateRepos ?E u b s)))"
    using updates_user_keeps_admin [OF laws(2) a] updates_user_keeps_admin [OF laws(3) a] upd_ok
    by (auto simp: auth_deactivateUser_def auth_reactivateUser_def auth_setCanCreateRepos_def
        update_or_not_found_apply has_admin_iff)
  have "sql_users_get caller (snd (sql_users_setGlobalAdmin u True (au_users s))) =
      (if caller = u then Some (a\<lparr>u_isGlobalAdmin := True\<rparr>) else Some a)"
    using laws(1) [of u True] a by (auto simp: updates_user_def)
  then have "\<exists>j v. sql_users_get j (snd (sql_users_setGlobalAdmin u True (au_users s))) = Some v \<and> u_isGlobalAdmin v"
    using a(2) by (intro exI [of _ caller]) simp
  from hi [OF upd_ok(1) this]
  show "has_admin (au_users (snd (auth_setGlobalAdmin ?E u True s)))"
    by (simp add: auth_setGlobalAdmin_def update_or_not_found_apply)
  assume "u \<noteq> caller \<or> \<not> length (filter u_isGlobalAdmin (db_users (au_users s))) \<le> 1"
  then obtain k w where "k \<noteq> u" "sql_users_get k (au_users s) = Some w" "u_isGlobalAdmin w"
  proof
    assume "u \<noteq> caller"
    with a that [of caller a] show thesis by simp
  next
    assume "\<not> length (filter u_isGlobalAdmin (db_users (au_users s))) \<le> 1"
    from another_admin [OF uok this, of u] that show thesis by blast
  qed
  then show "has_admin (au_users (snd (auth_setGlobalAdmin ?E u False s)))"
    using updates_user_keeps_admin [OF laws(1) [of u False]] upd_ok
    by (auto simp: auth_setGlobalAdmin_def update_or_not_found_apply has_admin_iff)
qed

lemma createUser_keeps_admin:
  assumes "auth_ok s" and "has_admin (au_users s)"
  shows "has_admin (au_users (snd (auth_createUser (createAuthEnv fk cfg) i now s)))"
  using assms
  by (auto simp: auth_createUser_def and_then_def on_part_apply sql_users_create_def sql_insert_def
      has_admin_def Let_def split: option.splits if_splits)

lemma createUser_reply_state:
  "snd (case m of (Inr user, s') \<Rightarrow> (Inr (f user), s')
        | (Inl (UserAlreadyExistsError n), s') \<Rightarrow> (Inr (g n), s')
        | (Inl e, s') \<Rightarrow> (Inl e, s')) = snd m"
  by (auto split: prod.splits sum.splits auth_error.splits)

lemma caller_has_admin:
  "auth_isGlobalAdmin (createAuthEnv fk cfg) caller s \<Longrightarrow> has_admin (au_users s)"
  by (auto simp: auth_isGlobalAdmin_def has_admin_def sql_users_get_def
      dest!: sql_get_Some_key split: option.splits)

text \<open>
  The other user-management routes, deletion apart, never leave the server without an administrator, nor does
  the one that withdraws the flag when nothing comes in between.
\<close>

lemma route_keeps_an_admin:
  assumes "auth_ok s" and "has_admin (au_users s)" and "\<And>u t. r \<noteq> RDeleteUser u t"
  shows "has_admin (au_users (snd (admin_handle (createAuthEnv fk cfg) r c s)))"
proof -
  let ?E = "createAuthEnv fk cfg"
  consider (out) "snd (admin_handle ?E r c s) = s"
    | (admin) caller where "authenticateBearerToken (rq_authorization c) (ae_jwtVerify cfg) = Some caller"
        "auth_isGlobalAdmin ?E caller s"
  proof -
    from admin_handle_gate [of ?E r c] obtain inner where "admin_handle ?E r c = globalAdminGate ?E c inner"
      by blast
    then show ?thesis using out admin globalAdminGate_cases [of ?E c inner s] by auto
  qed
  then show ?thesis
  proof cases
    case out
    with assms(2) show ?thesis by simp
  next
    case (admin caller)
    note keep = admin_route_keeps_admin [OF assms(1) admin(2)]
    have gate: "globalAdminGate ?E c inner s = inner caller s" for inner
      using admin by (simp add: globalAdminGate_def)
    show ?thesis
      using assms keep createUser_keeps_admin [OF assms(1,2), of fk cfg]
      by (cases r) (auto simp: admin_route_defs gate okOr404_state admin_count
          createUser_reply_state split: option.splits)
  qed
qed

text \<open>
  The invariant of overlapping requests: at most one is under way; a caller that passed the gate is still
  an administrator, and after the count there is one besides the target.
\<close>

definition demotion_safe :: "('u, 's) auth_env \<Rightarrow> ('u, 's) auth_state \<Rightarrow> demotion \<Rightarrow> bool" where
  "demotion_safe E s d \<longleftrightarrow>
     (case d of
        DmGated caller target \<Rightarrow> auth_isGlobalAdmin E caller s
      | DmCounted target \<Rightarrow> \<exists>k. k \<noteq> target \<and> auth_isGlobalAdmin E k s
      | _ \<Rightarrow> True)"

definition demotions_inv :: "(user_db, session_row list) auth_env \<Rightarrow> (user_db, session_row list) demotions \<Rightarrow> bool" where
  "demotions_inv E x \<longleftrightarrow>
     (case x of (ds, s) \<Rightarrow>
       auth_ok s \<and> (\<exists>k. auth_isGlobalAdmin E k s) \<and> list_all (demotion_safe E s) ds \<and>
       (\<forall>i j. i < length ds \<and> j < length ds \<and> under_way (ds ! i) \<and> under_way (ds ! j) \<longrightarrow> i = j))"

lemma not_under_way_safe: "\<not> under_way d \<Longrightarrow> demotion_safe E s d"
  by (cases d) (auto simp: demotion_safe_def)

lemma has_admin_caller:
  "auth_ok s \<Longrightarrow> has_admin (au_users s) \<longleftrightarrow> (\<exists>k. auth_isGlobalAdmin (createAuthEnv fk cfg) k s)"
  by (auto simp: has_admin_iff auth_ok_def auth_isGlobalAdmin_def split: option.splits)

lemma demotion_step_safe:
  fixes fk cfg
  defines "E \<equiv> createAuthEnv fk cfg"
  assumes ok: "auth_ok s" and adm: "\<exists>k. auth_isGlobalAdmin E k s" and safe: "demotion_safe E s d"
    and run: "demotion_step E now d s = (d', s')"
  shows "auth_ok s' \<and> (\<exists>k. auth_isGlobalAdmin E k s') \<and> demotion_safe E s' d' \<and> (under_way d' \<or> s' = s \<or> under_way d)"
proof (cases d)
  case (DmStart c target)
  with run adm ok show ?thesis
    by (auto simp: demotion_safe_def demote_gate_def split: option.splits if_splits)
next
  case (DmDone r)
  with run adm ok safe show ?thesis by auto
next
  case (DmGated caller target)
  with safe have c: "auth_isGlobalAdmin E caller s" by (simp add: demotion_safe_def)
  have other: "\<exists>k. k \<noteq> target \<and> auth_isGlobalAdmin E k s" if "demote_count E caller target now s = None"
  proof (cases "target = caller")
    case False
    with c show ?thesis by (intro exI [of _ caller]) simp
  next
    case True
    have uok: "user_db_ok (au_users s)" using ok by (simp add: auth_ok_def)
    from True that have "\<not> length (filter u_isGlobalAdmin (db_users (au_users s))) \<le> 1"
      by (simp add: demote_count_def E_def admin_count split: if_splits)
    from another_admin [OF uok this, of target] show ?thesis
      by (auto simp: E_def auth_isGlobalAdmin_def)
  qed
  from run DmGated have s': "s' = s" by auto
  have "demotion_safe E s d'"
    using run DmGated other by (auto simp: demotion_safe_def split: option.splits)
  with s' ok adm DmGated show ?thesis by auto
next
  case (DmCounted target)
  with safe obtain k where k: "k \<noteq> target" "auth_isGlobalAdmin E k s" by (auto simp: demotion_safe_def)
  have uok: "user_db_ok (au_users s)" using ok by (simp add: auth_ok_def)
  have s': "s' = snd (auth_setGlobalAdmin E target False s)" and d': "\<not> under_way d'"
    using run DmCounted okOr404_state [of "auth_setGlobalAdmin E target False" s]
    by (auto simp: demote_update_def split: prod.splits)
  have "auth_ok s'"
    using libsql_auth.ainvar_step [unfolded libsql_auth_invar, OF ok, of fk cfg "CSetGlobalAdmin target False"]
    by (simp add: s' E_def)
  moreover have "auth_isGlobalAdmin E k s'"
    using libsql_users.setGlobalAdmin_law [OF uok, where fk = fk and k = target and b = False, unfolded libsqlUserStore_sel] k
    by (simp add: s' E_def auth_setGlobalAdmin_def update_or_not_found_apply updates_user_def auth_isGlobalAdmin_def)
  ultimately show ?thesis using not_under_way_safe [OF d'] DmCounted by auto
qed

lemma demotions_inv_event:
  assumes inv: "demotions_inv (createAuthEnv fk cfg) x" and "one_at_a_time (createAuthEnv fk cfg) [e] x"
  shows "demotions_inv (createAuthEnv fk cfg) (after_event (createAuthEnv fk cfg) e x)"
proof -
  let ?E = "createAuthEnv fk cfg"
  obtain ds s where x: "x = (ds, s)" by (cases x)
  note inv = inv [unfolded x demotions_inv_def prod.case]
  show ?thesis
  proof (cases e)
    case (Arrives c target)
    with inv show ?thesis
      by (auto simp: x demotions_inv_def demotion_safe_def nth_append less_Suc_eq split: if_splits)
  next
    case (OtherCall k)
    with assms(2) have k: "\<not> withdraws k" by simp
    have adm: "auth_isGlobalAdmin ?E u s \<Longrightarrow> auth_isGlobalAdmin ?E u (auth_exec ?E k s)" for u
      using libsql_auth.admin_step [unfolded libsql_auth_invar, of s k fk cfg u] inv k by blast
    have "auth_ok (auth_exec ?E k s)"
      using libsql_auth.ainvar_step [unfolded libsql_auth_invar] inv by blast
    moreover have "demotion_safe ?E s d \<Longrightarrow> demotion_safe ?E (auth_exec ?E k s) d" for d
      using adm by (cases d) (auto simp: demotion_safe_def)
    ultimately show ?thesis
      using inv adm by (auto simp: x OtherCall demotions_inv_def list_all_iff)
  next
    case (Continues i now)
    show ?thesis
    proof (cases "i < length ds")
      case False
      with inv show ?thesis by (simp add: x Continues demotions_inv_def)
    next
      case i: True
      obtain d s' where d: "demotion_step ?E now (ds ! i) s = (d, s')" by fastforce
      have idle: "\<not> under_way (ds ! j)" if "j < length ds" "j \<noteq> i" for j
        using assms(2) that by (auto simp: x Continues list_all_iff)
      from inv i have "demotion_safe ?E s (ds ! i)" by (simp add: list_all_length)
      from demotion_step_safe [OF _ _ this d] inv
      have n: "auth_ok s'" "\<exists>k. auth_isGlobalAdmin ?E k s'" "demotion_safe ?E s' d" by auto
      have "demotion_safe ?E s' (ds[i := d] ! j)" if "j < length ds" for j
        using n(3) idle that not_under_way_safe by (cases "j = i") auto
      moreover have "a = i" if "a < length ds" "under_way (ds[i := d] ! a)" for a
        using idle that by (cases "a = i") auto
      ultimately show ?thesis
        using n(1,2) i d by (auto simp: x Continues demotions_inv_def list_all_length)
    qed
  qed
qed

lemma demotions_inv_events:
  "demotions_inv (createAuthEnv fk cfg) x \<Longrightarrow> one_at_a_time (createAuthEnv fk cfg) es x \<Longrightarrow>
   demotions_inv (createAuthEnv fk cfg) (after_events (createAuthEnv fk cfg) es x)"
proof (induction es arbitrary: x)
  case (Cons e es)
  then have "one_at_a_time (createAuthEnv fk cfg) [e] x" by simp
  from demotions_inv_event [OF Cons.prems(1) this] Cons show ?case by simp
qed simp

section \<open>Properties\<close>

text \<open>
  C8. User management is closed to everyone but global administrators. For each of the nine routes,
  whatever the path parameters and the body: without a token that verifies the answer is 401, with
  one whose subject is not a global administrator (a repository admin included) it is 403, and in
  both cases nothing at all changes.
\<close>

theorem user_management_gated:
  "(authenticateBearerToken (rq_authorization c) (ae_jwtVerify E) = None \<longrightarrow>
      (\<exists>b. admin_handle E r c s = (Inr (reply 401 b), s))) \<and>
   (\<forall>caller. authenticateBearerToken (rq_authorization c) (ae_jwtVerify E) = Some caller \<and>
      \<not> auth_isGlobalAdmin E caller s \<longrightarrow> (\<exists>b. admin_handle E r c s = (Inr (reply 403 b), s)))"
proof -
  obtain inner where "admin_handle E r c = globalAdminGate E c inner"
    using admin_handle_gate by blast
  then show ?thesis by (auto simp: globalAdminGate_def)
qed

definition sample_request :: "string \<Rightarrow> http_request" where
  "sample_request user =
     \<lparr>rq_authorization = Some (''Bearer jwt:'' @ user), rq_forwardedProto = None, rq_urlIsHttps = False,
      rq_origin = None, rq_host = Some ''h'', rq_cookie = None, rq_json = None\<rparr>"

lemma sample_authenticated:
  "authenticateBearerToken (rq_authorization (sample_request ''ann'')) (ae_jwtVerify sample_cfg) = Some ''ann''"
  "authenticateBearerToken (rq_authorization (sample_request ''bob'')) (ae_jwtVerify sample_cfg) = Some ''bob''"
  by (simp_all add: sample_request_def authenticateBearerToken_def js_startsWith_def verifyAccessToken_def
      js_trim_def js_trim_start_def js_ws_def)

theorem user_management_gated_witness:
  "\<exists>b. admin_handle (createAuthEnv True sample_cfg) (RDeleteUser ''ann'' 0) (sample_request ''bob'') sample_db =
       (Inr (reply 403 b), sample_db)"
  using user_management_gated [of "sample_request ''bob''" "createAuthEnv True sample_cfg" "RDeleteUser ''ann'' 0" sample_db]
    sample_authenticated(2)
  by (simp add: auth_isGlobalAdmin_def)

text \<open>
  C38. While requests to withdraw the flag of a global administrator do not overlap, one remains. Such requests
  arrive and continue at their suspension points in any order, mixed with any other calls of the service;
  as long as no request continues while another one is between its gate and its answer, and no account
  is deleted, a server that has a global administrator has one after every event: the caller of the request
  that is under way, or, once the administrators have been counted, one besides its target.
\<close>

theorem admin_routes_keep_an_admin:
  assumes "auth_ok s" and "has_admin (au_users s)" and "one_at_a_time (createAuthEnv fk cfg) es ([], s)"
  shows "has_admin (au_users (snd (after_events (createAuthEnv fk cfg) es ([], s))))"
proof -
  have "demotions_inv (createAuthEnv fk cfg) ([], s)"
    using assms(1,2) has_admin_caller [OF assms(1), of fk cfg] by (simp add: demotions_inv_def)
  from demotions_inv_events [OF this assms(3)] show ?thesis
    using has_admin_caller [of _ fk cfg] by (auto simp: demotions_inv_def split: prod.splits)
qed

definition two_admins :: auth_db where
  "two_admins = sample_db\<lparr>au_users := (au_users sample_db)\<lparr>db_users := [sample_user ''ann'' True, sample_user ''bob'' True]\<rparr>\<rparr>"

definition turns :: "admin_event list" where
  "turns =
     [Arrives (sample_request ''bob'') ''ann'', Arrives (sample_request ''bob'') ''bob'', Continues 0 1, OtherCall (CDeactivate ''ann''),
      Continues 0 2, Continues 0 3, Continues 1 4, Continues 1 5]"

theorem admin_routes_keep_an_admin_witness:
  "let x = after_events (createAuthEnv True sample_cfg) turns ([], two_admins)
   in has_admin (au_users (snd x)) \<and> fst x ! 1 = DmDone (Inr (reply 409 (ABError ''Cannot remove the last remaining global admin'')))"
proof -
  have "auth_ok two_admins" "has_admin (au_users two_admins)"
    by (simp_all add: two_admins_def auth_ok_def user_db_ok_def keyed_def has_admin_def)
  moreover have "one_at_a_time (createAuthEnv True sample_cfg) turns ([], two_admins)" by code_simp
  ultimately have "has_admin (au_users (snd (after_events (createAuthEnv True sample_cfg) turns ([], two_admins))))"
    by (rule admin_routes_keep_an_admin)
  moreover have "fst (after_events (createAuthEnv True sample_cfg) turns ([], two_admins)) ! 1 =
      DmDone (Inr (reply 409 (ABError ''Cannot remove the last remaining global admin'')))" by code_simp
  ultimately show ?thesis by (simp add: Let_def)
qed

text \<open>
  Requests that overlap can remove every administrator. Two of them withdraw each other's flag, or each
  their own: both requests pass the gate, and in the second case both count two administrators, before
  either writes. Both are answered with 200, and nobody is left who could manage users, while the setup
  stays closed because there are accounts.
\<close>

theorem overlapping_demotions:
  "let E = createAuthEnv True sample_cfg; a = sample_request ''ann''; b = sample_request ''bob'';
       steps = [Continues 0 1, Continues 1 1, Continues 0 2, Continues 1 2, Continues 0 3, Continues 1 3];
       cross = after_events E ([Arrives a ''bob'', Arrives b ''ann''] @ steps) ([], two_admins);
       own = after_events E ([Arrives a ''ann'', Arrives b ''bob''] @ steps) ([], two_admins)
   in has_admin (au_users two_admins) \<and>
      fst cross = [DmDone (Inr (reply 200 ABOk)), DmDone (Inr (reply 200 ABOk))] \<and> \<not> has_admin (au_users (snd cross)) \<and>
      fst own = [DmDone (Inr (reply 200 ABOk)), DmDone (Inr (reply 200 ABOk))] \<and> \<not> has_admin (au_users (snd own)) \<and>
      \<not> st_eligible (auth_getSetupStatus E (snd own))"
  by code_simp

text \<open>
  The deletion route has no such guard: a server whose only account is its global administrator
  can be left without any by that administrator deleting the account (with no session open), and
  the unauthenticated setup is then open again to anyone.
\<close>

theorem delete_user_can_remove_last_admin:
  "let E = createAuthEnv True sample_cfg;
       s = sample_db\<lparr>au_users := (au_users sample_db)\<lparr>db_users := [sample_user ''ann'' True]\<rparr>\<rparr>;
       (r, s') = admin_handle E (RDeleteUser ''ann'' 0) (sample_request ''ann'') s
   in has_admin (au_users s) \<and> r = Inr (reply 200 ABOk) \<and> \<not> has_admin (au_users s') \<and>
      st_eligible (auth_getSetupStatus E s')"
  using sample_authenticated(1)
  by (simp add: delete_user_def globalAdminGate_def auth_isGlobalAdmin_def sql_users_get_def
      auth_deleteUser_def sess_countActive_def update_or_not_found_apply sql_users_delete_def
      sql_delete_def has_admin_def auth_getSetupStatus_def sql_users_count_def)

text \<open>
  Cookies cannot be used across sites. When the token comes from the cookie and not from the
  body, and the request names an origin that is not the host it was sent to, then refresh,
  keep-alive and logout are refused (400 for an invalid body, 403 otherwise) and no session changes.
\<close>

theorem cross_origin_cookie_refused:
  assumes "rq_cookie c = Some tok" and "tok \<noteq> []"
    and "\<not> isSameOriginOrNoOrigin urlHost c"
    and "\<forall>t. sessionTokenBodySchema (case rq_json c of Some j \<Rightarrow> j | None \<Rightarrow> JObj []) \<noteq> Some (Some t)"
  shows "post_refresh E urlHost secure c tm s \<in> {(Inr (reply st b), s) |st b. st \<in> {400, 403}}
    \<and> post_keepAlive E urlHost c tm s \<in> {(Inr (reply st b), s) |st b. st \<in> {400, 403}}
    \<and> post_logout E urlHost c s \<in> {(Inr (reply st b), s) |st b. st \<in> {400, 403}}"
  using assms
  by (cases "rq_json c")
     (auto simp: post_refresh_def post_keepAlive_def post_logout_def presentedToken_def body_or_null_def
       sessionTokenBodySchema_def Let_def split: option.splits)

theorem cross_origin_cookie_refused_witness:
  "let c = sample_request ''ann'' \<lparr>rq_cookie := Some ''tok'', rq_origin := Some ''http://evil'', rq_json := Some (JObj [])\<rparr>
   in post_logout (createAuthEnv True sample_cfg) (\<lambda>_. Some ''evil'') c sample_db \<in>
        {(Inr (reply st b), sample_db) |st b. st \<in> {400, 403}}"
  using cross_origin_cookie_refused
    [of "sample_request ''ann'' \<lparr>rq_cookie := Some ''tok'', rq_origin := Some ''http://evil'', rq_json := Some (JObj [])\<rparr>"
        "''tok''" "\<lambda>_. Some ''evil''" "createAuthEnv True sample_cfg" True "\<lambda>_. 0" sample_db]
  by (simp add: isSameOriginOrNoOrigin_def sample_request_def sessionTokenBodySchema_def z_opt_string_def)

text \<open>
  Deactivation does not reach running sessions: \<open>refresh\<close> looks at the session only, so for every
  open session it returns a new access token and extends the session, also when the account has
  been deactivated or deleted in the meantime.
\<close>

theorem refresh_ignores_deactivation:
  assumes "keyed sr_token (au_sessions s)" and "sess_get tok (au_sessions s) = Some x"
    and "tm 0 \<le> se_expiresAt x" and "tm 1 \<le> se_expiresAt x"
    and "issueAccessToken (ae_sign cfg) (se_username x) (ae_accessTokenTtlSeconds cfg) (tm 3) = Inr at"
  shows "\<exists>r s'. auth_refresh (createAuthEnv fk cfg) tok tm s = (Inr r, s') \<and>
    lr_username r = se_username x \<and> lr_accessToken r = at \<and>
    sess_get tok (au_sessions s') = Some (x\<lparr>se_expiresAt := tm 2 + ae_sessionTtlSeconds cfg * 1000\<rparr>)"
  using assms libsql_sessions.get_touch [OF assms(1), of tok tok]
  by (simp add: auth_refresh_def and_then_def on_part_apply usernameFor_def keepAlive_def assertActive_def Let_def)

theorem refresh_ignores_deactivation_witness:
  "let E = createAuthEnv True sample_cfg;
       s = sample_db\<lparr>au_sessions := [\<lparr>sr_token = ''tok'', sr_username = ''bob'', sr_createdAt = 0, sr_expiresAt = 9\<rparr>]\<rparr>;
       s1 = snd (auth_deactivateUser E ''bob'' s)
   in \<exists>r s2. auth_refresh E ''tok'' (\<lambda>_. 5) s1 = (Inr r, s2) \<and> lr_accessToken r = ''jwt:bob''"
proof -
  let ?E = "createAuthEnv True sample_cfg"
  let ?s = "sample_db\<lparr>au_sessions := [\<lparr>sr_token = ''tok'', sr_username = ''bob'', sr_createdAt = 0, sr_expiresAt = 9\<rparr>]\<rparr>"
  let ?s1 = "snd (auth_deactivateUser ?E ''bob'' ?s)"
  have "au_sessions ?s1 = au_sessions ?s"
    by (simp add: auth_deactivateUser_def update_or_not_found_apply)
  then show ?thesis
    using refresh_ignores_deactivation [of ?s1 "''tok''" "\<lparr>se_username = ''bob'', se_createdAt = 0, se_expiresAt = 9\<rparr>"
        "\<lambda>_. 5" sample_cfg "''jwt:bob''" True]
    by (auto simp: keyed_def sess_get_def row_session_def issueAccessToken_def Let_def)
qed

end
