(* ===== verification/Tickets.thy ===== *)
theory Tickets
  imports AuthTypes
begin

text \<open>
  Ephemeral transfer tickets (\<open>contexts/transfer\<close>): the persistence port \<open>TicketStore\<close>
  (\<open>ticket-store.ts\<close>), its libSQL implementation (\<open>libsql-ticket-store.ts\<close>) and
  \<open>TicketService\<close> (\<open>ticket.service.ts\<close>). A ticket is issued, activated once, renewed while
  active, and closed or expired.

  The locale \<open>ticket_port\<close> states what the service relies on. The single use of a ticket is
  proved for arbitrary sequences of store statements, hence for every interleaving of the
  service's methods, each of which is such a sequence.
\<close>

section \<open>Data\<close>

datatype transfer_operation = Push | Pull

datatype sync_mode = SchemaOnly | SchemaAndData

datatype ticket_status = TIssued | TActive | TClosed | TExpired

text \<open>The fields may be undefined (\<open>None\<close>); \<open>tables\<close> may in addition be null (\<open>Some None\<close>).\<close>

record push_ticket_sync_options =
  so_mode :: "sync_mode option"
  so_tables :: "string list option option"
  so_dryRun :: "bool option"

record ticket =
  tk_id :: string
  tk_username :: string
  tk_operation :: transfer_operation
  tk_repo :: string
  tk_status :: ticket_status
  tk_issuedAt :: ms
  tk_expiresAt :: ms
  tk_syncOptions :: "push_ticket_sync_options option"

datatype ticket_error =
    TicketNotFoundError
  | TicketExpiredError
  | TicketOperationMismatchError
  | TicketAlreadyConsumedError
  | TicketRoleRevokedError
  | TicketSqlError

record 't ticket_store =
  tks_create :: "ticket \<Rightarrow> ('t, ticket_error, unit) op"
  tks_get :: "string \<Rightarrow> 't \<Rightarrow> ticket option"
  tks_activate :: "string \<Rightarrow> transfer_operation \<Rightarrow> string \<Rightarrow> ms \<Rightarrow> 't \<Rightarrow> bool \<times> 't"
  tks_renew :: "string \<Rightarrow> ms \<Rightarrow> ms \<Rightarrow> 't \<Rightarrow> bool \<times> 't"
  tks_close :: "string \<Rightarrow> 't \<Rightarrow> bool \<times> 't"
  tks_reapExpired :: "ms \<Rightarrow> 't \<Rightarrow> nat \<times> 't"

section \<open>LibsqlTicketStore\<close>

definition sql_tk_create :: "ticket \<Rightarrow> (ticket list, ticket_error, unit) op" where
  "sql_tk_create ticket t =
     (case sql_insert tk_id ticket t of None \<Rightarrow> (Inl TicketSqlError, t) | Some t' \<Rightarrow> (Inr (), t'))"

definition sql_tk_get :: "string \<Rightarrow> ticket list \<Rightarrow> ticket option" where
  "sql_tk_get ticketId t = sql_get tk_id ticketId t"

definition sql_tk_activate :: "string \<Rightarrow> transfer_operation \<Rightarrow> string \<Rightarrow> ms \<Rightarrow> ticket list \<Rightarrow> bool \<times> ticket list" where
  "sql_tk_activate ticketId operation repo now t =
     (let (t', n) = sql_update (\<lambda>r. tk_id r = ticketId \<and> tk_operation r = operation \<and> tk_repo r = repo \<and>
                                    tk_status r = TIssued \<and> tk_expiresAt r > now)
                      (\<lambda>r. r\<lparr>tk_status := TActive\<rparr>) t
      in (n = 1, t'))"

definition sql_tk_renew :: "string \<Rightarrow> ms \<Rightarrow> ms \<Rightarrow> ticket list \<Rightarrow> bool \<times> ticket list" where
  "sql_tk_renew ticketId newExpiresAt now t =
     (let (t', n) = sql_update (\<lambda>r. tk_id r = ticketId \<and> tk_status r = TActive \<and> tk_expiresAt r > now)
                      (\<lambda>r. r\<lparr>tk_expiresAt := newExpiresAt\<rparr>) t
      in (n = 1, t'))"

definition sql_tk_close :: "string \<Rightarrow> ticket list \<Rightarrow> bool \<times> ticket list" where
  "sql_tk_close ticketId t =
     (let (t', n) = sql_update (\<lambda>r. tk_id r = ticketId \<and> tk_status r = TActive)
                      (\<lambda>r. r\<lparr>tk_status := TClosed\<rparr>) t
      in (n = 1, t'))"

definition sql_tk_reapExpired :: "ms \<Rightarrow> ticket list \<Rightarrow> nat \<times> ticket list" where
  "sql_tk_reapExpired now t =
     (let (t', n) = sql_update (\<lambda>r. tk_status r \<in> {TIssued, TActive} \<and> tk_expiresAt r \<le> now)
                      (\<lambda>r. r\<lparr>tk_status := TExpired\<rparr>) t
      in (n, t'))"

definition libsqlTicketStore :: "ticket list ticket_store" where
  "libsqlTicketStore =
     \<lparr>tks_create = sql_tk_create, tks_get = sql_tk_get, tks_activate = sql_tk_activate,
      tks_renew = sql_tk_renew, tks_close = sql_tk_close, tks_reapExpired = sql_tk_reapExpired\<rparr>"

lemma libsqlTicketStore_sel [simp]:
  "tks_create libsqlTicketStore = sql_tk_create" "tks_get libsqlTicketStore = sql_tk_get"
  "tks_activate libsqlTicketStore = sql_tk_activate" "tks_renew libsqlTicketStore = sql_tk_renew"
  "tks_close libsqlTicketStore = sql_tk_close" "tks_reapExpired libsqlTicketStore = sql_tk_reapExpired"
  by (simp_all add: libsqlTicketStore_def)

section \<open>TicketService\<close>

fun MINIMUM_ROLE_FOR_OPERATION :: "transfer_operation \<Rightarrow> repo_role" where
  "MINIMUM_ROLE_FOR_OPERATION Push = Writer"
| "MINIMUM_ROLE_FOR_OPERATION Pull = Reader"

type_synonym repo_role_verifier = "string \<Rightarrow> string \<Rightarrow> repo_role option"

text \<open>
  The two readings of the clock are \<open>now\<close> and \<open>now'\<close>; \<open>newId\<close> is the value the random generator drew.
\<close>

definition issueTicket ::
  "'t ticket_store \<Rightarrow> int \<Rightarrow> string \<Rightarrow> transfer_operation \<Rightarrow> string \<Rightarrow> push_ticket_sync_options option \<Rightarrow>
   string \<Rightarrow> ms \<Rightarrow> ms \<Rightarrow> ('t, ticket_error, ticket) op" where
  "issueTicket st ttlSeconds username operation repo syncOptions newId now now' =
     (let ticket = \<lparr>tk_id = newId, tk_username = username, tk_operation = operation, tk_repo = repo,
                    tk_status = TIssued, tk_issuedAt = now, tk_expiresAt = now' + ttlSeconds * 1000,
                    tk_syncOptions = (if operation = Push then syncOptions else None)\<rparr>
      in and_then (tks_create st ticket) (\<lambda>_. ret ticket))"

text \<open>The role is insufficient when there is none or its rank is below the minimum.\<close>

definition role_insufficient :: "repo_role option \<Rightarrow> repo_role \<Rightarrow> bool" where
  "role_insufficient role minimumRole \<longleftrightarrow>
     (case role of None \<Rightarrow> True | Some r \<Rightarrow> ROLE_RANK r < ROLE_RANK minimumRole)"

definition assertRoleStillSufficient ::
  "repo_role_verifier option \<Rightarrow> string \<Rightarrow> transfer_operation \<Rightarrow> string \<Rightarrow> ('t, ticket_error, unit) op" where
  "assertRoleStillSufficient verifyRepoRole username operation repo =
     (case verifyRepoRole of
        None \<Rightarrow> ret ()
      | Some v \<Rightarrow>
          if role_insufficient (v username repo) (MINIMUM_ROLE_FOR_OPERATION operation)
          then throw TicketRoleRevokedError else ret ())"

definition consumeTicket ::
  "'t ticket_store \<Rightarrow> repo_role_verifier option \<Rightarrow> string \<Rightarrow> transfer_operation \<Rightarrow> string \<Rightarrow> ms \<Rightarrow>
   ('t, ticket_error, ticket) op" where
  "consumeTicket st verifyRepoRole ticketId operation repo now s =
     (let preCheck =
            (case tks_get st ticketId s of
               Some p \<Rightarrow> if tk_operation p = operation \<and> tk_repo p = repo
                         then assertRoleStillSufficient verifyRepoRole (tk_username p) operation repo
                         else ret ()
             | None \<Rightarrow> ret ())
      in and_then preCheck (\<lambda>_ s.
           case tks_activate st ticketId operation repo now s of
             (True, s') \<Rightarrow>
               (case tks_get st ticketId s' of
                  None \<Rightarrow> (Inl TicketNotFoundError, s')
                | Some ticket \<Rightarrow> (Inr ticket, s'))
           | (False, s') \<Rightarrow>
               (case tks_get st ticketId s' of
                  None \<Rightarrow> (Inl TicketNotFoundError, s')
                | Some ticket \<Rightarrow>
                    if tk_expiresAt ticket \<le> now then (Inl TicketExpiredError, s')
                    else if tk_operation ticket \<noteq> operation \<or> tk_repo ticket \<noteq> repo
                         then (Inl TicketOperationMismatchError, s')
                         else (Inl TicketAlreadyConsumedError, s'))) s)"

definition renewTicket ::
  "'t ticket_store \<Rightarrow> repo_role_verifier option \<Rightarrow> int \<Rightarrow> string \<Rightarrow> ms \<Rightarrow> ('t, ticket_error, ms) op" where
  "renewTicket st verifyRepoRole ttlSeconds ticketId now s =
     (let newExpiresAt = now + ttlSeconds * 1000;
          check =
            (case tks_get st ticketId s of
               Some x \<Rightarrow> assertRoleStillSufficient verifyRepoRole (tk_username x) (tk_operation x) (tk_repo x)
             | None \<Rightarrow> ret ())
      in and_then check (\<lambda>_ s.
           case tks_renew st ticketId newExpiresAt now s of
             (True, s') \<Rightarrow> (Inr newExpiresAt, s')
           | (False, s') \<Rightarrow>
               (case tks_get st ticketId s' of
                  Some ticket \<Rightarrow> if tk_status ticket \<noteq> TActive then (Inl TicketNotFoundError, s')
                                 else (Inl TicketExpiredError, s')
                | None \<Rightarrow> (Inl TicketNotFoundError, s'))) s)"

definition closeTicket :: "'t ticket_store \<Rightarrow> string \<Rightarrow> ('t, ticket_error, unit) op" where
  "closeTicket st ticketId s =
     (case tks_close st ticketId s of
        (True, s') \<Rightarrow> (Inr (), s')
      | (False, s') \<Rightarrow> (Inl TicketNotFoundError, s'))"

section \<open>Sequences of store statements\<close>

datatype tk_stmt =
    SCreate ticket
  | SActivate string transfer_operation string ms
  | SRenew string ms ms
  | SClose string
  | SReap ms

text \<open>The new table, and the id of the ticket the statement has activated, if it has.\<close>

fun tk_exec :: "tk_stmt \<Rightarrow> ticket list \<Rightarrow> ticket list \<times> string option" where
  "tk_exec (SCreate x) t = (snd (sql_tk_create x t), None)"
| "tk_exec (SActivate i p r now) t =
     (snd (sql_tk_activate i p r now t), if fst (sql_tk_activate i p r now t) then Some i else None)"
| "tk_exec (SRenew i e now) t = (snd (sql_tk_renew i e now t), None)"
| "tk_exec (SClose i) t = (snd (sql_tk_close i t), None)"
| "tk_exec (SReap now) t = (snd (sql_tk_reapExpired now t), None)"

fun tk_run :: "tk_stmt list \<Rightarrow> ticket list \<Rightarrow> ticket list \<times> string list" where
  "tk_run [] t = (t, [])"
| "tk_run (e # es) t =
     (let (t', a) = tk_exec e t; (t'', as) = tk_run es t'
      in (t'', (case a of Some i \<Rightarrow> i # as | None \<Rightarrow> as)))"

fun status_rank :: "ticket_status \<Rightarrow> nat" where
  "status_rank TIssued = 0"
| "status_rank TActive = 1"
| "status_rank TClosed = 2"
| "status_rank TExpired = 2"

section \<open>What the port promises\<close>

text \<open>A conditional update of one ticket: it reports whether the ticket satisfied the condition, and only then changes it.\<close>

definition tk_updates ::
  "'t ticket_store \<Rightarrow> ('t \<Rightarrow> bool) \<Rightarrow> string \<Rightarrow> (ticket \<Rightarrow> bool) \<Rightarrow> (ticket \<Rightarrow> ticket) \<Rightarrow> 't \<Rightarrow> bool \<times> 't \<Rightarrow> bool" where
  "tk_updates st invar i p f s r \<longleftrightarrow>
     invar (snd r) \<and> fst r = (\<exists>x. tks_get st i s = Some x \<and> p x) \<and>
     (\<forall>j. tks_get st j (snd r) =
        (if j = i then map_option (\<lambda>x. if p x then f x else x) (tks_get st j s) else tks_get st j s))"

text \<open>The outcome of \<open>consumeTicket\<close> as a decision on the stored ticket.\<close>

definition consume_decision ::
  "repo_role_verifier option \<Rightarrow> transfer_operation \<Rightarrow> string \<Rightarrow> ms \<Rightarrow> ticket option \<Rightarrow> ticket_error + ticket" where
  "consume_decision v opn repo now x =
     (case x of
        None \<Rightarrow> Inl TicketNotFoundError
      | Some x \<Rightarrow>
          if tk_operation x = opn \<and> tk_repo x = repo \<and>
             (\<exists>f. v = Some f \<and> role_insufficient (f (tk_username x) repo) (MINIMUM_ROLE_FOR_OPERATION opn))
          then Inl TicketRoleRevokedError
          else if tk_expiresAt x \<le> now then Inl TicketExpiredError
          else if tk_operation x \<noteq> opn \<or> tk_repo x \<noteq> repo then Inl TicketOperationMismatchError
          else if tk_status x \<noteq> TIssued then Inl TicketAlreadyConsumedError
          else Inr (x\<lparr>tk_status := TActive\<rparr>))"

text \<open>The same for \<open>renewTicket\<close>.\<close>

definition renew_decision :: "repo_role_verifier option \<Rightarrow> ms \<Rightarrow> ticket option \<Rightarrow> ticket_error option" where
  "renew_decision v now x =
     (case x of
        None \<Rightarrow> Some TicketNotFoundError
      | Some x \<Rightarrow>
          if \<exists>f. v = Some f \<and>
               role_insufficient (f (tk_username x) (tk_repo x)) (MINIMUM_ROLE_FOR_OPERATION (tk_operation x))
          then Some TicketRoleRevokedError
          else if tk_status x \<noteq> TActive then Some TicketNotFoundError
          else if tk_expiresAt x \<le> now then Some TicketExpiredError
          else None)"

lemma assertRole_apply:
  "assertRoleStillSufficient v u opn repo s =
     (if \<exists>f. v = Some f \<and> role_insufficient (f u repo) (MINIMUM_ROLE_FOR_OPERATION opn)
      then Inl TicketRoleRevokedError else Inr (), s)"
  by (auto simp: assertRoleStillSufficient_def split: option.splits)

locale ticket_port =
  fixes st :: "'t ticket_store" and invar :: "'t \<Rightarrow> bool"
  assumes get_id: "invar s \<Longrightarrow> tks_get st i s = Some x \<Longrightarrow> tk_id x = i"
    and create_law: "invar s \<Longrightarrow>
      (if tks_get st (tk_id x) s = None
       then \<exists>s'. tks_create st x s = (Inr (), s') \<and> invar s' \<and>
              (\<forall>j. tks_get st j s' = (if j = tk_id x then Some x else tks_get st j s))
       else tks_create st x s = (Inl TicketSqlError, s))"
    and activate_law: "invar s \<Longrightarrow>
      tk_updates st invar i
        (\<lambda>x. tk_operation x = opn \<and> tk_repo x = repo \<and> tk_status x = TIssued \<and> tk_expiresAt x > now)
        (\<lambda>x. x\<lparr>tk_status := TActive\<rparr>) s (tks_activate st i opn repo now s)"
    and renew_law: "invar s \<Longrightarrow>
      tk_updates st invar i (\<lambda>x. tk_status x = TActive \<and> tk_expiresAt x > now)
        (\<lambda>x. x\<lparr>tk_expiresAt := e\<rparr>) s (tks_renew st i e now s)"
    and close_law: "invar s \<Longrightarrow>
      tk_updates st invar i (\<lambda>x. tk_status x = TActive) (\<lambda>x. x\<lparr>tk_status := TClosed\<rparr>) s (tks_close st i s)"
begin

lemma consume_correct:
  assumes "invar s"
  shows "fst (consumeTicket st v i opn repo now s) = consume_decision v opn repo now (tks_get st i s)"
    and "invar (snd (consumeTicket st v i opn repo now s))"
    and "tks_get st j (snd (consumeTicket st v i opn repo now s)) =
      (case consume_decision v opn repo now (tks_get st i s) of
         Inr x \<Rightarrow> if j = i then Some x else tks_get st j s
       | Inl _ \<Rightarrow> tks_get st j s)"
proof -
  obtain b s1 where a: "tks_activate st i opn repo now s = (b, s1)" by fastforce
  let ?p = "\<lambda>x. tk_operation x = opn \<and> tk_repo x = repo \<and> tk_status x = TIssued \<and> tk_expiresAt x > now"
  have b: "b = (\<exists>x. tks_get st i s = Some x \<and> ?p x)" and i1: "invar s1"
    and get: "tks_get st j s1 = (if j = i then map_option (\<lambda>x. if ?p x then x\<lparr>tk_status := TActive\<rparr> else x) (tks_get st j s)
                else tks_get st j s)" for j
    using activate_law [OF assms, of i opn repo now] by (simp_all add: tk_updates_def a)
  have "fst (consumeTicket st v i opn repo now s) = consume_decision v opn repo now (tks_get st i s) \<and>
    invar (snd (consumeTicket st v i opn repo now s)) \<and>
    tks_get st j (snd (consumeTicket st v i opn repo now s)) =
      (case consume_decision v opn repo now (tks_get st i s) of
         Inr x \<Rightarrow> if j = i then Some x else tks_get st j s
       | Inl _ \<Rightarrow> tks_get st j s)"
  proof (cases "tks_get st i s")
    case None
    with b get i1 show ?thesis
      by (simp add: consumeTicket_def consume_decision_def and_then_def a)
  next
    case (Some x)
    show ?thesis
    proof (cases "tk_operation x = opn \<and> tk_repo x = repo \<and>
        (\<exists>f. v = Some f \<and> role_insufficient (f (tk_username x) repo) (MINIMUM_ROLE_FOR_OPERATION opn))")
      case True
      with Some assms show ?thesis
        by (auto simp: consumeTicket_def consume_decision_def and_then_def assertRole_apply)
    next
      case False
      then have "consumeTicket st v i opn repo now s =
          (if ?p x then (Inr (x\<lparr>tk_status := TActive\<rparr>), s1)
           else if tk_expiresAt x \<le> now then (Inl TicketExpiredError, s1)
           else if tk_operation x \<noteq> opn \<or> tk_repo x \<noteq> repo then (Inl TicketOperationMismatchError, s1)
           else (Inl TicketAlreadyConsumedError, s1))"
        using Some b get [of i]
        by (cases "tk_operation x = opn \<and> tk_repo x = repo")
           (simp_all add: consumeTicket_def and_then_def assertRole_apply a split: bool.split)
      with False Some i1 get [of j] show ?thesis by (auto simp: consume_decision_def)
    qed
  qed
  then show "fst (consumeTicket st v i opn repo now s) = consume_decision v opn repo now (tks_get st i s)"
    "invar (snd (consumeTicket st v i opn repo now s))"
    "tks_get st j (snd (consumeTicket st v i opn repo now s)) =
      (case consume_decision v opn repo now (tks_get st i s) of
         Inr x \<Rightarrow> if j = i then Some x else tks_get st j s
       | Inl _ \<Rightarrow> tks_get st j s)" by simp_all
qed

lemma renew_correct:
  assumes "invar s"
  shows "fst (renewTicket st v ttl i now s) =
      (case renew_decision v now (tks_get st i s) of Some e \<Rightarrow> Inl e | None \<Rightarrow> Inr (now + ttl * 1000))"
    and "tks_get st j (snd (renewTicket st v ttl i now s)) =
      (if j = i \<and> renew_decision v now (tks_get st i s) = None
       then map_option (\<lambda>x. x\<lparr>tk_expiresAt := now + ttl * 1000\<rparr>) (tks_get st i s) else tks_get st j s)"
proof -
  let ?e = "now + ttl * 1000"
  obtain b s1 where a: "tks_renew st i ?e now s = (b, s1)" by fastforce
  let ?p = "\<lambda>x. tk_status x = TActive \<and> tk_expiresAt x > now"
  have b: "b = (\<exists>x. tks_get st i s = Some x \<and> ?p x)"
    and get: "tks_get st j s1 = (if j = i then map_option (\<lambda>x. if ?p x then x\<lparr>tk_expiresAt := ?e\<rparr> else x) (tks_get st j s)
                else tks_get st j s)" for j
    using renew_law [OF assms, of i now ?e] by (simp_all add: tk_updates_def a)
  have "fst (renewTicket st v ttl i now s) =
      (case renew_decision v now (tks_get st i s) of Some e \<Rightarrow> Inl e | None \<Rightarrow> Inr ?e) \<and>
    tks_get st j (snd (renewTicket st v ttl i now s)) =
      (if j = i \<and> renew_decision v now (tks_get st i s) = None
       then map_option (\<lambda>x. x\<lparr>tk_expiresAt := ?e\<rparr>) (tks_get st i s) else tks_get st j s)"
  proof (cases "tks_get st i s")
    case None
    with b get show ?thesis by (simp add: renewTicket_def renew_decision_def and_then_def a)
  next
    case (Some x)
    show ?thesis
    proof (cases "\<exists>f. v = Some f \<and>
        role_insufficient (f (tk_username x) (tk_repo x)) (MINIMUM_ROLE_FOR_OPERATION (tk_operation x))")
      case True
      with Some show ?thesis by (auto simp: renewTicket_def renew_decision_def and_then_def assertRole_apply)
    next
      case False
      with Some b get [of i] have "renewTicket st v ttl i now s =
          (if ?p x then (Inr ?e, s1) else if tk_status x \<noteq> TActive then (Inl TicketNotFoundError, s1)
           else (Inl TicketExpiredError, s1))"
        by (simp add: renewTicket_def and_then_def assertRole_apply a split: bool.split)
      with False Some get [of j] show ?thesis by (auto simp: renew_decision_def)
    qed
  qed
  then show "fst (renewTicket st v ttl i now s) =
      (case renew_decision v now (tks_get st i s) of Some e \<Rightarrow> Inl e | None \<Rightarrow> Inr ?e)"
    "tks_get st j (snd (renewTicket st v ttl i now s)) =
      (if j = i \<and> renew_decision v now (tks_get st i s) = None
       then map_option (\<lambda>x. x\<lparr>tk_expiresAt := ?e\<rparr>) (tks_get st i s) else tks_get st j s)" by simp_all
qed

end

section \<open>The libSQL store keeps the promises\<close>

lemma tk_sql_update_law:
  assumes k: "keyed tk_id t" and f: "\<And>x. tk_id (f x) = tk_id x"
    and q: "\<And>x. q x = (tk_id x = i \<and> p x)"
  shows "tk_updates libsqlTicketStore (keyed tk_id) i p f t
    (snd (sql_update q f t) = 1, fst (sql_update q f t))"
proof -
  have "snd (sql_update q f t) = 1 \<longleftrightarrow> (\<exists>x. sql_get tk_id i t = Some x \<and> q x)"
    by (rule sql_update_affected [OF k]) (simp add: q)
  then have aff: "snd (sql_update q f t) = 1 \<longleftrightarrow> (\<exists>x. sql_tk_get i t = Some x \<and> p x)"
    by (auto simp: q sql_tk_get_def dest: sql_get_Some_key)
  have get: "sql_tk_get j (fst (sql_update q f t)) =
      (if j = i then map_option (\<lambda>x. if p x then f x else x) (sql_tk_get j t) else sql_tk_get j t)" for j
    unfolding sql_tk_get_def sql_get_update [of tk_id f, OF f]
    by (cases "sql_get tk_id j t") (auto simp: q dest: sql_get_Some_key)
  show ?thesis using aff get keyed_update [of tk_id f t q, OF f k] by (simp add: tk_updates_def)
qed

interpretation libsql_tickets: ticket_port libsqlTicketStore "keyed tk_id"
proof (unfold_locales, goal_cases)
  case (1 s i x) then show ?case by (auto simp: sql_tk_get_def dest: sql_get_Some_key)
next
  case (2 s x)
  show ?case
  proof (cases "sql_insert tk_id x s")
    case None
    then show ?thesis using sql_insert_None_iff [of tk_id x s] by (simp add: sql_tk_create_def sql_tk_get_def)
  next
    case (Some t)
    then have "sql_tk_get (tk_id x) s = None"
      using sql_insert_None_iff [of tk_id x s] by (auto simp: sql_tk_get_def)
    then show ?thesis
      using 2 sql_get_insert [OF Some] keyed_insert [OF 2 Some] Some
      by (auto simp: sql_tk_create_def sql_tk_get_def)
  qed
next
  case (3 s i opn repo now)
  show ?case
    using tk_sql_update_law [OF 3, where i = i and f = "\<lambda>x. x\<lparr>tk_status := TActive\<rparr>"
      and q = "\<lambda>r. tk_id r = i \<and> tk_operation r = opn \<and> tk_repo r = repo \<and> tk_status r = TIssued \<and> now < tk_expiresAt r"
      and p = "\<lambda>r. tk_operation r = opn \<and> tk_repo r = repo \<and> tk_status r = TIssued \<and> now < tk_expiresAt r"]
    by (simp add: sql_tk_activate_def split_def Let_def)
next
  case (4 s i now e)
  show ?case
    using tk_sql_update_law [OF 4, where i = i and f = "\<lambda>x. x\<lparr>tk_expiresAt := e\<rparr>"
      and q = "\<lambda>r. tk_id r = i \<and> tk_status r = TActive \<and> now < tk_expiresAt r"
      and p = "\<lambda>r. tk_status r = TActive \<and> now < tk_expiresAt r"]
    by (simp add: sql_tk_renew_def split_def Let_def)
next
  case (5 s i)
  show ?case
    using tk_sql_update_law [OF 5, where i = i and f = "\<lambda>x. x\<lparr>tk_status := TClosed\<rparr>"
      and q = "\<lambda>r. tk_id r = i \<and> tk_status r = TActive" and p = "\<lambda>r. tk_status r = TActive"]
    by (simp add: sql_tk_close_def split_def Let_def)
qed

section \<open>One activation per ticket\<close>

lemma tk_get_updates:
  "tk_updates libsqlTicketStore (keyed tk_id) i p f t r \<Longrightarrow>
   sql_tk_get j (snd r) =
     (if j = i then map_option (\<lambda>x. if p x then f x else x) (sql_tk_get j t) else sql_tk_get j t)"
  by (simp add: tk_updates_def)

lemmas tk_laws =
  libsql_tickets.activate_law [unfolded libsqlTicketStore_sel]
  libsql_tickets.renew_law [unfolded libsqlTicketStore_sel]
  libsql_tickets.close_law [unfolded libsqlTicketStore_sel]

lemma tk_reap_get:
  "sql_tk_get j (snd (sql_tk_reapExpired now t)) =
     map_option (\<lambda>x. if tk_status x \<in> {TIssued, TActive} \<and> tk_expiresAt x \<le> now
                     then x\<lparr>tk_status := TExpired\<rparr> else x) (sql_tk_get j t)"
  using sql_get_update [of tk_id "\<lambda>x. x\<lparr>tk_status := TExpired\<rparr>" j]
  by (simp add: sql_tk_reapExpired_def sql_tk_get_def split_def Let_def)

lemma tk_exec_keyed: "keyed tk_id t \<Longrightarrow> keyed tk_id (fst (tk_exec e t))"
proof (cases e)
  case (SCreate x)
  assume "keyed tk_id t"
  then show ?thesis using SCreate libsql_tickets.create_law [of t x] by (auto split: if_splits)
next
  case (SReap now)
  assume "keyed tk_id t"
  then show ?thesis
    using SReap keyed_update [of tk_id "\<lambda>x. x\<lparr>tk_status := TExpired\<rparr>" t]
    by (simp add: sql_tk_reapExpired_def split_def Let_def)
qed (use tk_laws in \<open>auto simp: tk_updates_def\<close>)

text \<open>
  One statement on an existing ticket: its identity stays, its status does not go back, and it is
  activated only out of the status \<open>issued\<close>, which it thereby leaves.
\<close>

definition tk_evolves :: "ticket \<Rightarrow> ticket \<Rightarrow> bool" where
  "tk_evolves x y \<longleftrightarrow>
     tk_id y = tk_id x \<and> tk_username y = tk_username x \<and> tk_operation y = tk_operation x \<and>
     tk_repo y = tk_repo x \<and> tk_issuedAt y = tk_issuedAt x \<and> tk_syncOptions y = tk_syncOptions x \<and>
     status_rank (tk_status x) \<le> status_rank (tk_status y)"

lemma tk_evolves_refl [simp]: "tk_evolves x x"
  by (simp add: tk_evolves_def)

lemma tk_evolves_trans: "tk_evolves x y \<Longrightarrow> tk_evolves y z \<Longrightarrow> tk_evolves x z"
  by (simp add: tk_evolves_def)

lemma tk_exec_evolves:
  assumes k: "keyed tk_id t" and x: "sql_tk_get i t = Some x"
  shows "\<exists>y. sql_tk_get i (fst (tk_exec e t)) = Some y \<and> tk_evolves x y \<and>
    (snd (tk_exec e t) = Some i \<longrightarrow> status_rank (tk_status x) = 0 \<and> 0 < status_rank (tk_status y))"
proof (cases e)
  case (SCreate z)
  show ?thesis
  proof (cases "sql_tk_get (tk_id z) t")
    case None
    with libsql_tickets.create_law [OF k, of z] obtain s' where s': "sql_tk_create z t = (Inr (), s')"
      "\<forall>j. sql_tk_get j s' = (if j = tk_id z then Some z else sql_tk_get j t)" by auto
    from None x have "i \<noteq> tk_id z" by auto
    with s' x SCreate show ?thesis by simp
  next
    case (Some y)
    with libsql_tickets.create_law [OF k, of z] x SCreate show ?thesis by simp
  qed
next
  case (SActivate j opn repo now)
  then show ?thesis
    using tk_laws(1) [OF k, of j opn repo now] x by (auto simp: tk_updates_def tk_evolves_def)
next
  case (SRenew j ex now)
  then show ?thesis using tk_laws(2) [OF k, of j now ex] x by (auto simp: tk_updates_def tk_evolves_def)
next
  case (SClose j)
  then show ?thesis using tk_laws(3) [OF k, of j] x by (auto simp: tk_updates_def tk_evolves_def)
next
  case (SReap now)
  then show ?thesis using x by (auto simp: tk_reap_get tk_evolves_def)
qed

lemma tk_exec_absent:
  assumes k: "keyed tk_id t" and x: "sql_tk_get i t = None"
  shows "snd (tk_exec e t) \<noteq> Some i"
  using tk_laws(1) [OF k] x by (cases e) (auto simp: tk_updates_def)

lemma tk_run_Cons:
  "tk_run (e # es) t =
    (fst (tk_run es (fst (tk_exec e t))),
     (case snd (tk_exec e t) of Some i \<Rightarrow> i # snd (tk_run es (fst (tk_exec e t))) | None \<Rightarrow> snd (tk_run es (fst (tk_exec e t)))))"
  by (simp add: split_def Let_def)

lemma tk_run_evolves:
  "keyed tk_id t \<Longrightarrow> sql_tk_get i t = Some x \<Longrightarrow>
   \<exists>y. sql_tk_get i (fst (tk_run es t)) = Some y \<and> tk_evolves x y"
proof (induction es arbitrary: t x)
  case (Cons e es)
  from tk_exec_evolves [OF Cons.prems, of e] obtain z
    where z: "sql_tk_get i (fst (tk_exec e t)) = Some z" "tk_evolves x z" by blast
  from Cons.IH [OF tk_exec_keyed [OF Cons.prems(1)] z(1)] obtain y
    where "sql_tk_get i (fst (tk_run es (fst (tk_exec e t)))) = Some y" "tk_evolves z y" by blast
  with tk_evolves_trans [OF z(2)] show ?case unfolding tk_run_Cons by auto
qed simp

lemma tk_run_activations:
  "keyed tk_id t \<Longrightarrow>
   length (filter (\<lambda>j. j = i) (snd (tk_run es t))) \<le>
     (case sql_tk_get i t of Some x \<Rightarrow> if status_rank (tk_status x) = 0 then 1 else 0 | None \<Rightarrow> 1)"
proof (induction es arbitrary: t)
  case (Cons e es)
  let ?t = "fst (tk_exec e t)"
  note IH = Cons.IH [OF tk_exec_keyed [OF Cons.prems], of e]
  show ?case
  proof (cases "sql_tk_get i t")
    case None
    with tk_exec_absent [OF Cons.prems None, of e] IH show ?thesis
      by (auto simp: tk_run_Cons simp del: tk_run.simps split: option.splits if_splits)
  next
    case (Some x)
    from tk_exec_evolves [OF Cons.prems Some, of e] obtain y where
      y: "sql_tk_get i ?t = Some y" "status_rank (tk_status x) \<le> status_rank (tk_status y)"
        "snd (tk_exec e t) = Some i \<longrightarrow> status_rank (tk_status x) = 0 \<and> 0 < status_rank (tk_status y)"
      by (auto simp: tk_evolves_def)
    with IH Some show ?thesis
      by (auto simp: tk_run_Cons simp del: tk_run.simps split: option.splits if_splits)
  qed
qed (auto split: option.splits)

section \<open>Properties\<close>

text \<open>
  C4. A ticket is a single-use credential. In every sequence of ticket statements (issue, activate,
  renew, close, reap, of any tickets, in any order, so under every interleaving of concurrent
  requests) each ticket is activated at most once.
\<close>

theorem ticket_single_use:
  assumes "keyed tk_id t"
  shows "length (filter (\<lambda>j. j = i) (snd (tk_run es t))) \<le> 1"
  using tk_run_activations [OF assms, of i es] by (auto split: option.splits if_splits)

definition sample_ticket :: ticket where
  "sample_ticket = \<lparr>tk_id = ''t1'', tk_username = ''bob'', tk_operation = Push, tk_repo = ''r'',
     tk_status = TIssued, tk_issuedAt = 0, tk_expiresAt = 100, tk_syncOptions = None\<rparr>"

theorem ticket_single_use_witness:
  "let es = [SActivate ''t1'' Push ''r'' 5, SActivate ''t1'' Push ''r'' 6, SClose ''t1'', SActivate ''t1'' Push ''r'' 7]
   in length (filter (\<lambda>j. j = ''t1'') (snd (tk_run es [sample_ticket]))) \<le> 1"
  unfolding Let_def by (rule ticket_single_use) (simp add: keyed_def)

text \<open>
  What a ticket authorises never changes and its life only goes forward: over any sequence of
  statements an issued ticket stays in the table with the same owner, operation, repository and
  options, and its status moves from issued over active to closed or expired, never back.
\<close>

theorem ticket_lifecycle_forward:
  assumes "keyed tk_id t" and "sql_tk_get i t = Some x"
  shows "\<exists>y. sql_tk_get i (fst (tk_run es t)) = Some y \<and> tk_evolves x y"
  using assms by (rule tk_run_evolves)

theorem ticket_lifecycle_forward_witness:
  "\<exists>y. sql_tk_get ''t1'' (fst (tk_run [SActivate ''t1'' Push ''r'' 5, SReap 200] [sample_ticket])) = Some y \<and>
       tk_evolves sample_ticket y"
  by (rule ticket_lifecycle_forward) (simp_all add: keyed_def sql_tk_get_def sample_ticket_def)

text \<open>
  C10. Consumption decides exactly on the stored ticket and the current role. \<open>consumeTicket\<close> returns the
  ticket, now active, iff it exists, was issued for this operation and repository, has not
  expired, has not been used, and its owner's role is still sufficient now; otherwise it throws
  the error of the first condition that fails and no ticket has changed.
\<close>

theorem consume_exact:
  assumes "keyed tk_id t"
  shows "fst (consumeTicket libsqlTicketStore v i opn repo now t) = consume_decision v opn repo now (sql_tk_get i t)
    \<and> (\<forall>j. sql_tk_get j (snd (consumeTicket libsqlTicketStore v i opn repo now t)) =
        (case consume_decision v opn repo now (sql_tk_get i t) of
           Inr x \<Rightarrow> if j = i then Some x else sql_tk_get j t
         | Inl _ \<Rightarrow> sql_tk_get j t))"
  using libsql_tickets.consume_correct(1,3) [OF assms, unfolded libsqlTicketStore_sel] by blast

theorem consume_exact_witness:
  "fst (consumeTicket libsqlTicketStore (Some (\<lambda>u r. Some Writer)) ''t1'' Push ''r'' 5 [sample_ticket]) =
     Inr (sample_ticket\<lparr>tk_status := TActive\<rparr>) \<and>
   fst (consumeTicket libsqlTicketStore (Some (\<lambda>u r. Some Reader)) ''t1'' Push ''r'' 5 [sample_ticket]) =
     Inl TicketRoleRevokedError"
  using consume_exact [of "[sample_ticket]" "Some (\<lambda>u r. Some Writer)" "''t1''" Push "''r''" 5]
    consume_exact [of "[sample_ticket]" "Some (\<lambda>u r. Some Reader)" "''t1''" Push "''r''" 5]
  by (simp add: keyed_def consume_decision_def sql_tk_get_def sample_ticket_def role_insufficient_def)

text \<open>
  A heartbeat extends exactly the active, unexpired tickets whose owner still has the role: then
  the expiry becomes the clock reading plus the time to live, and in every other case
  \<open>renewTicket\<close> throws the error of the first failing condition and no ticket has changed.
\<close>

theorem renew_exact:
  assumes "keyed tk_id t"
  shows "fst (renewTicket libsqlTicketStore v ttl i now t) =
      (case renew_decision v now (sql_tk_get i t) of Some e \<Rightarrow> Inl e | None \<Rightarrow> Inr (now + ttl * 1000))
    \<and> (\<forall>j. sql_tk_get j (snd (renewTicket libsqlTicketStore v ttl i now t)) =
        (if j = i \<and> renew_decision v now (sql_tk_get i t) = None
         then map_option (\<lambda>x. x\<lparr>tk_expiresAt := now + ttl * 1000\<rparr>) (sql_tk_get i t)
         else sql_tk_get j t))"
  using libsql_tickets.renew_correct [OF assms] by simp

theorem renew_exact_witness:
  "fst (renewTicket libsqlTicketStore None 60 ''t1'' 5 [sample_ticket\<lparr>tk_status := TActive\<rparr>]) = Inr 60005"
  using renew_exact [of "[sample_ticket\<lparr>tk_status := TActive\<rparr>]" None 60 "''t1''" 5]
  by (simp add: keyed_def renew_decision_def sql_tk_get_def sample_ticket_def)

end
