(* ===== verification/TransferRouter.thy ===== *)
theory TransferRouter
  imports Http Tickets
begin

text \<open>
  The HTTP routes that issue and close transfer tickets (\<open>contexts/transfer/transfer.router.ts\<close>),
  and the wiring of \<open>create-ticket-service.ts\<close>: the role verifier of the ticket service is a live
  read of the role table through \<open>AuthService.getRepoRole\<close>.
\<close>

section \<open>Request bodies\<close>

fun json_strings :: "nat \<Rightarrow> nat \<Rightarrow> json list \<Rightarrow> string list option" where
  "json_strings lo hi [] = Some []"
| "json_strings lo hi (JStr s # js) =
     (if lo \<le> length s \<and> length s \<le> hi then map_option ((#) s) (json_strings lo hi js) else None)"
| "json_strings lo hi (_ # js) = None"

definition sync_mode_schema :: "json option \<Rightarrow> sync_mode option option" where
  "sync_mode_schema j =
     (case j of
        None \<Rightarrow> Some None
      | Some (JStr s) \<Rightarrow> if s = ''schema_only'' then Some (Some SchemaOnly)
                        else if s = ''schema_and_data'' then Some (Some SchemaAndData) else None
      | Some _ \<Rightarrow> None)"

definition sync_tables_schema :: "json option \<Rightarrow> string list option option option" where
  "sync_tables_schema j =
     (case j of
        None \<Rightarrow> Some None
      | Some JNull \<Rightarrow> Some (Some None)
      | Some (JArr js) \<Rightarrow> if length js \<le> 256 then map_option (\<lambda>ts. Some (Some ts)) (json_strings 1 128 js) else None
      | Some _ \<Rightarrow> None)"

text \<open>
  \<open>syncOptionsSchema\<close>: an absent \<open>sync\<close> is undefined (inner \<open>None\<close>); the parsed object already has the
  shape that \<open>toPushTicketSyncOptions\<close> copies field by field.
\<close>

definition syncOptionsSchema :: "json option \<Rightarrow> push_ticket_sync_options option option" where
  "syncOptionsSchema j =
     (case j of
        None \<Rightarrow> Some None
      | Some (JObj fs) \<Rightarrow>
          (case (sync_mode_schema (map_of fs ''mode''), sync_tables_schema (map_of fs ''tables''),
                 z_opt_bool ''dryRun'' (JObj fs)) of
             (Some m, Some ts, Some d) \<Rightarrow> Some (Some \<lparr>so_mode = m, so_tables = ts, so_dryRun = d\<rparr>)
           | _ \<Rightarrow> None)
      | Some _ \<Rightarrow> None)"

record issue_body =
  ib_operation :: transfer_operation
  ib_repo :: string
  ib_sync :: "push_ticket_sync_options option"

definition issueTicketBodySchema :: "json \<Rightarrow> issue_body option" where
  "issueTicketBodySchema j =
     (case (jfield ''operation'' j, z_string 1 512 ''repo'' j, syncOptionsSchema (jfield ''sync'' j)) of
        (Some (JStr opn), Some repo, Some sync) \<Rightarrow>
          if opn = ''push'' then Some \<lparr>ib_operation = Push, ib_repo = repo, ib_sync = sync\<rparr>
          else if opn = ''pull'' then Some \<lparr>ib_operation = Pull, ib_repo = repo, ib_sync = sync\<rparr>
          else None
      | _ \<Rightarrow> None)"

definition ticketIdBodySchema :: "json \<Rightarrow> string option" where
  "ticketIdBodySchema j = z_string 1 512 ''ticketId'' j"

definition toPushTicketSyncOptions :: "push_ticket_sync_options option \<Rightarrow> push_ticket_sync_options option" where
  "toPushTicketSyncOptions sync =
     (case sync of
        None \<Rightarrow> None
      | Some x \<Rightarrow> Some \<lparr>so_mode = so_mode x, so_tables = so_tables x, so_dryRun = so_dryRun x\<rparr>)"

section \<open>Routes\<close>

datatype transfer_body =
    TBError string
  | TBTicket string transfer_operation string ms "push_ticket_sync_options option"
  | TBOk

fun role_name :: "repo_role \<Rightarrow> string" where
  "role_name Reader = ''reader''"
| "role_name Writer = ''writer''"
| "role_name Admin = ''admin''"

text \<open>The router's own copy of the bearer authentication.\<close>

definition transfer_authenticate :: "string option \<Rightarrow> (string \<Rightarrow> auth_error + jwt_payload) \<Rightarrow> string option" where
  "transfer_authenticate authHeader jwtVerify =
     (case authHeader of
        None \<Rightarrow> None
      | Some h \<Rightarrow>
          if \<not> js_startsWith h ''Bearer '' then None
          else let token = js_trim (drop 7 h)
               in if token = [] then None
                  else case verifyAccessToken jwtVerify token of
                         Inl _ \<Rightarrow> None
                       | Inr claims \<Rightarrow> Some (cl_sub claims))"

text \<open>The handlers read the authentication state \<open>a\<close> and work on the ticket store.\<close>

definition post_push_ticket ::
  "('u, 's) auth_env \<Rightarrow> ('u, 's) auth_state \<Rightarrow> 't ticket_store \<Rightarrow> int \<Rightarrow> string option \<Rightarrow> json option \<Rightarrow>
   string \<Rightarrow> ms \<Rightarrow> ms \<Rightarrow> ('t, ticket_error, transfer_body response) op" where
  "post_push_ticket E a st ttl authHeader body newId now now' s =
     (case transfer_authenticate authHeader (ae_jwtVerify E) of
        None \<Rightarrow> (Inr (reply 401 (TBError ''Unauthorized'')), s)
      | Some username \<Rightarrow>
          (case issueTicketBodySchema (body_or_null body) of
             None \<Rightarrow> (Inr (reply 400 (TBError ''Invalid request body'')), s)
           | Some data \<Rightarrow>
               (let minimumRole = MINIMUM_ROLE_FOR_OPERATION (ib_operation data);
                    role = auth_getRepoRole E username (ib_repo data) a
                in if role_insufficient role minimumRole
                   then (Inr (reply 403 (TBError (''User '' @ username @ '' lacks '' @ role_name minimumRole @
                                '' access to repo '' @ ib_repo data))), s)
                   else let syncOptions = (if ib_operation data = Push then toPushTicketSyncOptions (ib_sync data) else None)
                        in and_then (issueTicket st ttl username (ib_operation data) (ib_repo data) syncOptions newId now now')
                             (\<lambda>ticket. ret (reply 201 (TBTicket (tk_id ticket) (tk_operation ticket) (tk_repo ticket)
                                (tk_expiresAt ticket) (tk_syncOptions ticket)))) s)))"

definition post_session_close ::
  "('u, 's) auth_env \<Rightarrow> 't ticket_store \<Rightarrow> string option \<Rightarrow> json option \<Rightarrow> ('t, ticket_error, transfer_body response) op" where
  "post_session_close E st authHeader body s =
     (case transfer_authenticate authHeader (ae_jwtVerify E) of
        None \<Rightarrow> (Inr (reply 401 (TBError ''Unauthorized'')), s)
      | Some username \<Rightarrow>
          (case ticketIdBodySchema (body_or_null body) of
             None \<Rightarrow> (Inr (reply 400 (TBError ''Invalid request body'')), s)
           | Some ticketId \<Rightarrow>
               (case closeTicket st ticketId s of
                  (Inr _, s') \<Rightarrow> (Inr (reply 200 TBOk), s')
                | (Inl TicketNotFoundError, s') \<Rightarrow> (Inr (reply 404 (TBError ''Ticket not found or not active'')), s')
                | (Inl e, s') \<Rightarrow> (Inl e, s'))))"

text \<open>\<open>createTicketService\<close>: roles are verified by a read of the current role table.\<close>

definition liveRoleVerifier :: "('u, 's) auth_env \<Rightarrow> ('u, 's) auth_state \<Rightarrow> repo_role_verifier option" where
  "liveRoleVerifier E a = Some (\<lambda>username repoId. auth_getRepoRole E username repoId a)"

lemma transfer_authenticate_eq: "transfer_authenticate = authenticateBearerToken"
  by (simp add: fun_eq_iff transfer_authenticate_def authenticateBearerToken_def)

lemma role_insufficient_iff: "role_insufficient role m \<longleftrightarrow> \<not> (\<exists>r. role = Some r \<and> m \<le> r)"
  by (auto simp: role_insufficient_def less_eq_repo_role_def split: option.splits)

definition issued_ticket ::
  "int \<Rightarrow> string \<Rightarrow> issue_body \<Rightarrow> string \<Rightarrow> ms \<Rightarrow> ms \<Rightarrow> ticket" where
  "issued_ticket ttl user data newId now now' =
     \<lparr>tk_id = newId, tk_username = user, tk_operation = ib_operation data, tk_repo = ib_repo data,
      tk_status = TIssued, tk_issuedAt = now, tk_expiresAt = now' + ttl * 1000,
      tk_syncOptions = (if ib_operation data = Push then ib_sync data else None)\<rparr>"

lemma toPushTicketSyncOptions_id [simp]: "toPushTicketSyncOptions x = x"
  by (cases x) (simp_all add: toPushTicketSyncOptions_def)

lemma sql_tk_create_apply:
  "sql_tk_create x t = (if sql_tk_get (tk_id x) t = None then (Inr (), t @ [x]) else (Inl TicketSqlError, t))"
  by (auto simp: sql_tk_create_def sql_insert_def sql_tk_get_def sql_get_None)

lemma post_push_ticket_apply:
  assumes "authenticateBearerToken h (ae_jwtVerify E) = Some user"
    and "issueTicketBodySchema (body_or_null body) = Some data"
    and "\<not> role_insufficient (auth_getRepoRole E user (ib_repo data) a) (MINIMUM_ROLE_FOR_OPERATION (ib_operation data))"
  shows "post_push_ticket E a libsqlTicketStore ttl h body newId now now' t =
    (let x = issued_ticket ttl user data newId now now'
     in if sql_tk_get newId t = None
        then (Inr (reply 201 (TBTicket newId (ib_operation data) (ib_repo data) (tk_expiresAt x) (tk_syncOptions x))), t @ [x])
        else (Inl TicketSqlError, t))"
  using assms
  by (simp add: post_push_ticket_def transfer_authenticate_eq issueTicket_def Let_def and_then_def
      issued_ticket_def sql_tk_create_apply)

lemma post_push_ticket_refused:
  assumes "\<nexists>user data. authenticateBearerToken h (ae_jwtVerify E) = Some user \<and>
      issueTicketBodySchema (body_or_null body) = Some data \<and>
      \<not> role_insufficient (auth_getRepoRole E user (ib_repo data) a) (MINIMUM_ROLE_FOR_OPERATION (ib_operation data))"
  shows "\<exists>n b. post_push_ticket E a st ttl h body newId now now' t = (Inr (reply n b), t) \<and> n \<in> {400, 401, 403}"
  using assms
  by (auto simp: post_push_ticket_def transfer_authenticate_eq Let_def split: option.splits)

section \<open>Properties\<close>

text \<open>
  C39. Tickets are issued only to those who may use them. Exactly when the caller is authenticated, the
  body is valid, the caller's role on the repository covers the operation (writer for push, reader
  for pull) and the drawn id is unused, the issuing route answers 201 and adds one ticket: for
  the caller, with the operation and repository of the body, expiring after the time to live. In
  every other case no ticket is created.
\<close>

theorem ticket_issuance_gated:
  "(\<exists>b x. post_push_ticket E a libsqlTicketStore ttl h body newId now now' t = (Inr (reply 201 b), t @ [x]) \<and>
      (\<exists>user data r. authenticateBearerToken h (ae_jwtVerify E) = Some user \<and>
         issueTicketBodySchema (body_or_null body) = Some data \<and>
         auth_getRepoRole E user (ib_repo data) a = Some r \<and>
         MINIMUM_ROLE_FOR_OPERATION (ib_operation data) \<le> r \<and>
         x = issued_ticket ttl user data newId now now' \<and> sql_tk_get newId t = None)) \<or>
   (snd (post_push_ticket E a libsqlTicketStore ttl h body newId now now' t) = t \<and>
    \<not> (\<exists>user data r. authenticateBearerToken h (ae_jwtVerify E) = Some user \<and>
         issueTicketBodySchema (body_or_null body) = Some data \<and>
         auth_getRepoRole E user (ib_repo data) a = Some r \<and>
         MINIMUM_ROLE_FOR_OPERATION (ib_operation data) \<le> r \<and> sql_tk_get newId t = None))"
proof (cases "\<exists>user data. authenticateBearerToken h (ae_jwtVerify E) = Some user \<and>
      issueTicketBodySchema (body_or_null body) = Some data \<and>
      \<not> role_insufficient (auth_getRepoRole E user (ib_repo data) a) (MINIMUM_ROLE_FOR_OPERATION (ib_operation data))")
  case True
  then obtain user data where u: "authenticateBearerToken h (ae_jwtVerify E) = Some user"
    "issueTicketBodySchema (body_or_null body) = Some data"
    "\<not> role_insufficient (auth_getRepoRole E user (ib_repo data) a) (MINIMUM_ROLE_FOR_OPERATION (ib_operation data))"
    by blast
  then show ?thesis
    using post_push_ticket_apply [OF u, of ttl newId now now' t]
    by (cases "sql_tk_get newId t") (auto simp: role_insufficient_iff Let_def)
next
  case False
  then have "snd (post_push_ticket E a libsqlTicketStore ttl h body newId now now' t) = t"
    using post_push_ticket_refused [OF False, of libsqlTicketStore ttl newId now now' t] by auto
  then show ?thesis using False by (intro disjI2) (auto simp: role_insufficient_iff)
qed

text \<open>
  Revoking a role takes effect on tickets that are already issued. When an administrator has
  successfully revoked a user's role on a repository, then from that database state no ticket of
  this user for this repository can be consumed or renewed, and the attempt changes no ticket.
\<close>

theorem revoked_role_stops_tickets:
  assumes "auth_ok s" and "keyed tk_id t"
    and "auth_revokeRepoRole (createAuthEnv fk cfg) user repo s = (Inr (), s')"
    and "sql_tk_get i t = Some x" and "tk_username x = user" and "tk_repo x = repo"
  shows "fst (consumeTicket libsqlTicketStore (liveRoleVerifier (createAuthEnv fk cfg) s') i (tk_operation x) repo now t)
      = Inl TicketRoleRevokedError
    \<and> fst (renewTicket libsqlTicketStore (liveRoleVerifier (createAuthEnv fk cfg) s') ttl i now t)
      = Inl TicketRoleRevokedError
    \<and> (\<forall>j. sql_tk_get j (snd (consumeTicket libsqlTicketStore (liveRoleVerifier (createAuthEnv fk cfg) s')
               i (tk_operation x) repo now t)) = sql_tk_get j t)"
proof -
  let ?E = "createAuthEnv fk cfg"
  have gone: "auth_getRepoRole ?E user repo s' = None"
    using revoke_result [OF assms(1,3)] by (simp add: auth_getRepoRole_def)
  then have dec: "consume_decision (liveRoleVerifier ?E s') (tk_operation x) repo now (sql_tk_get i t) = Inl TicketRoleRevokedError"
    "renew_decision (liveRoleVerifier ?E s') now (sql_tk_get i t) = Some TicketRoleRevokedError"
    using assms(4,5,6)
    by (simp_all add: consume_decision_def renew_decision_def liveRoleVerifier_def role_insufficient_def)
  note c = libsql_tickets.consume_correct [OF assms(2), unfolded libsqlTicketStore_sel]
  note r = libsql_tickets.renew_correct [OF assms(2), unfolded libsqlTicketStore_sel]
  show ?thesis using c(1,3) r(1) dec by simp
qed

theorem revoked_role_stops_tickets_witness:
  "let E = createAuthEnv True sample_cfg;
       s = sample_db\<lparr>au_users := (au_users sample_db)\<lparr>db_roles := [\<lparr>ra_username = ''bob'', ra_repoId = ''r'',
             ra_role = Writer, ra_grantedAt = 0, ra_grantedBy = ''ann''\<rparr>]\<rparr>\<rparr>;
       s' = snd (auth_revokeRepoRole E ''bob'' ''r'' s)
   in fst (consumeTicket libsqlTicketStore (liveRoleVerifier E s') ''t1'' Push ''r'' 5 [sample_ticket]) =
        Inl TicketRoleRevokedError"
proof -
  let ?E = "createAuthEnv True sample_cfg"
  let ?s = "sample_db\<lparr>au_users := (au_users sample_db)\<lparr>db_roles := [\<lparr>ra_username = ''bob'', ra_repoId = ''r'',
             ra_role = Writer, ra_grantedAt = 0, ra_grantedBy = ''ann''\<rparr>]\<rparr>\<rparr>"
  have ok: "auth_ok ?s" using sample_ok by (simp add: auth_ok_def user_db_ok_def keyed_def)
  obtain s' where r: "auth_revokeRepoRole ?E ''bob'' ''r'' ?s = (Inr (), s')"
    by (simp add: auth_revokeRepoRole_def and_then_def sql_users_deleteRepoRole_def sql_delete_def role_key_def)
  have k: "keyed tk_id [sample_ticket]" by (simp add: keyed_def)
  from revoked_role_stops_tickets [OF ok k r, of "''t1''" sample_ticket 5 0] r show ?thesis
    by (simp add: sql_tk_get_def sample_ticket_def)
qed

end
