(* ===== verification/RepoStore.thy ===== *)
theory RepoStore
  imports Tickets
begin

text \<open>
  The registry of provisioned repositories (\<open>contexts/versioning\<close>): the records of \<open>types.ts\<close> and
  \<open>errors.ts\<close>, the persistence port \<open>RepoStore\<close> (\<open>repo-store.ts\<close>), its libSQL implementation
  (\<open>libsql-repo-store.ts\<close>) and \<open>RepoProvisioningService\<close> (\<open>repo-provisioning.service.ts\<close>).

  The locale \<open>repo_port\<close> states what the services rely on; it is interpreted on the libSQL tables.
  The file system and the \<open>dolt\<close> binary are a state of their own, \<open>'w\<close>, that only the injected
  function \<open>runDoltInit\<close> changes.
\<close>

section \<open>Data\<close>

record repo_record =
  rp_repoId :: string
  rp_doltPath :: string
  rp_createdAt :: ms
  rp_createdBy :: string

record sync_preference =
  sp_mode :: sync_mode
  sp_requestedTables :: "string list option"
  sp_createdAt :: ms
  sp_updatedAt :: ms

text \<open>Conflicts of a merge; a row is an object from column names to values or null.\<close>

record merge_conflict_row =
  mr_fromRootIsh :: "string option"
  mr_base :: "(string \<times> string option) list"
  mr_ours :: "(string \<times> string option) list"
  mr_theirs :: "(string \<times> string option) list"
  mr_ourDiffType :: "string option"
  mr_theirDiffType :: "string option"
  mr_conflictId :: "string option"

text \<open>The count is a JavaScript number, \<open>None\<close> for \<open>NaN\<close>.\<close>

record merge_conflict_table =
  mt_table :: string
  mt_count :: "nat option"
  mt_conflicts :: "merge_conflict_row list"

text \<open>The error classes carry their message; \<open>PlainError\<close> is the language's own \<open>Error\<close>.\<close>

datatype versioning_error =
    RepoAlreadyProvisionedError string
  | RepoNotFoundError string
  | RepoProvisioningFailedError string
  | InvalidRepoIdError string
  | CommitFailedError string
  | SyncPreferenceConflictError string
  | InvalidBranchNameError string
  | InvalidCommitReferenceError string
  | InvalidPaginationLimitError string
  | BranchAlreadyExistsError string
  | BranchNotFoundError string
  | ProtectedBranchError string
  | RepoAccessDeniedError string
  | NonFastForwardError string string string
  | MergeConflictError string "merge_conflict_table list" string string
  | CommitImportError string string
  | PlainError string

fun error_message :: "versioning_error \<Rightarrow> string" where
  "error_message (RepoAlreadyProvisionedError m) = m"
| "error_message (RepoNotFoundError m) = m"
| "error_message (RepoProvisioningFailedError m) = m"
| "error_message (InvalidRepoIdError m) = m"
| "error_message (CommitFailedError m) = m"
| "error_message (SyncPreferenceConflictError m) = m"
| "error_message (InvalidBranchNameError m) = m"
| "error_message (InvalidCommitReferenceError m) = m"
| "error_message (InvalidPaginationLimitError m) = m"
| "error_message (BranchAlreadyExistsError m) = m"
| "error_message (BranchNotFoundError m) = m"
| "error_message (ProtectedBranchError m) = m"
| "error_message (RepoAccessDeniedError m) = m"
| "error_message (NonFastForwardError m base currentHead) = m"
| "error_message (MergeConflictError m conflicts sourceBranch targetBranch) = m"
| "error_message (CommitImportError command stderr) =
     ''dolt '' @ command @ '' failed during commit import: '' @
     (if js_trim stderr = [] then ''(no stderr)'' else js_trim stderr)"
| "error_message (PlainError m) = m"

record 'd repo_store =
  rst_create :: "repo_record \<Rightarrow> ('d, versioning_error, unit) op"
  rst_get :: "string \<Rightarrow> 'd \<Rightarrow> repo_record option"
  rst_list :: "'d \<Rightarrow> repo_record list"
  rst_getSyncPreference :: "string \<Rightarrow> 'd \<Rightarrow> sync_preference option"
  rst_upsertSyncPreference :: "string \<Rightarrow> sync_preference \<Rightarrow> ('d, versioning_error, unit) op"

section \<open>LibsqlRepoStore\<close>

text \<open>
  The tables \<open>repos\<close> and \<open>repo_sync_preferences\<close>; a row of the latter is the key with the record.
  The list of tables is written with \<open>JSON.stringify\<close> and read with \<open>JSON.parse\<close>, which give back
  the same list of strings.
\<close>

record repo_db =
  rd_repos :: "repo_record list"
  rd_prefs :: "(string \<times> sync_preference) list"

definition sql_rp_create :: "repo_record \<Rightarrow> (repo_db, versioning_error, unit) op" where
  "sql_rp_create r d =
     (case sql_insert rp_repoId r (rd_repos d) of
        None \<Rightarrow> (Inl (PlainError ''UNIQUE constraint failed: repos.repo_id''), d)
      | Some t \<Rightarrow> (Inr (), d\<lparr>rd_repos := t\<rparr>))"

definition sql_rp_get :: "string \<Rightarrow> repo_db \<Rightarrow> repo_record option" where
  "sql_rp_get repoId d = sql_get rp_repoId repoId (rd_repos d)"

definition sql_rp_list :: "repo_db \<Rightarrow> repo_record list" where
  "sql_rp_list d = rd_repos d"

definition sql_rp_getSyncPreference :: "string \<Rightarrow> repo_db \<Rightarrow> sync_preference option" where
  "sql_rp_getSyncPreference repoId d = map_option snd (sql_get fst repoId (rd_prefs d))"

text \<open>
  \<open>INSERT ... ON CONFLICT(repo_id) DO UPDATE\<close>: on a conflict every column but \<open>created_at\<close> is
  replaced. With foreign keys enforced (\<open>fk\<close>) the row must name a repository.
\<close>

definition sql_rp_upsertSyncPreference :: "bool \<Rightarrow> string \<Rightarrow> sync_preference \<Rightarrow> (repo_db, versioning_error, unit) op" where
  "sql_rp_upsertSyncPreference fk repoId p d =
     (if fk \<and> sql_get rp_repoId repoId (rd_repos d) = None
      then (Inl (PlainError ''FOREIGN KEY constraint failed''), d)
      else case sql_insert fst (repoId, p) (rd_prefs d) of
             Some t \<Rightarrow> (Inr (), d\<lparr>rd_prefs := t\<rparr>)
           | None \<Rightarrow>
               (Inr (), d\<lparr>rd_prefs := fst (sql_update (\<lambda>r. fst r = repoId)
                    (\<lambda>r. (fst r, p\<lparr>sp_createdAt := sp_createdAt (snd r)\<rparr>)) (rd_prefs d))\<rparr>))"

definition libsqlRepoStore :: "bool \<Rightarrow> repo_db repo_store" where
  "libsqlRepoStore fk =
     \<lparr>rst_create = sql_rp_create, rst_get = sql_rp_get, rst_list = sql_rp_list,
      rst_getSyncPreference = sql_rp_getSyncPreference,
      rst_upsertSyncPreference = sql_rp_upsertSyncPreference fk\<rparr>"

lemma libsqlRepoStore_sel [simp]:
  "rst_create (libsqlRepoStore fk) = sql_rp_create" "rst_get (libsqlRepoStore fk) = sql_rp_get"
  "rst_list (libsqlRepoStore fk) = sql_rp_list"
  "rst_getSyncPreference (libsqlRepoStore fk) = sql_rp_getSyncPreference"
  "rst_upsertSyncPreference (libsqlRepoStore fk) = sql_rp_upsertSyncPreference fk"
  by (simp_all add: libsqlRepoStore_def)

definition repo_db_ok :: "repo_db \<Rightarrow> bool" where
  "repo_db_ok d \<longleftrightarrow> keyed rp_repoId (rd_repos d) \<and> keyed fst (rd_prefs d)"

section \<open>RepoProvisioningService\<close>

text \<open>\<open>/^[a-zA-Z0-9_-]{1,64}$/\<close>\<close>

definition VALID_REPO_ID :: "string \<Rightarrow> bool" where
  "VALID_REPO_ID s \<longleftrightarrow>
     1 \<le> length s \<and> length s \<le> 64 \<and> list_all (\<lambda>c. is_alnum c \<or> c = CHR ''_'' \<or> c = CHR ''-'') s"

definition invalid_repo_id :: "string \<Rightarrow> versioning_error" where
  "invalid_repo_id repoId = InvalidRepoIdError
     (''Invalid repoId \"'' @ repoId @ ''\": must be 1-64 characters, letters/digits/dash/underscore only'')"

text \<open>\<open>join\<close> of \<open>node:path\<close> on a normalised directory and a segment without separators and dots.\<close>

definition path_join :: "string \<Rightarrow> string \<Rightarrow> string" where
  "path_join root segment =
     (if root = [] then segment
      else if js_endsWith root ''/'' then root @ segment else root @ ''/'' @ segment)"

record ('d, 'w) repo_env =
  re_store :: "'d repo_store"
  re_runDoltInit :: "string \<Rightarrow> ('w, string, unit) op"
  re_rootPath :: string

definition provision ::
  "('d, 'w) repo_env \<Rightarrow> string \<Rightarrow> string \<Rightarrow> ms \<Rightarrow> ('d \<times> 'w, versioning_error, repo_record) op" where
  "provision E repoId createdBy now = (\<lambda>(d, w).
     if \<not> VALID_REPO_ID repoId then (Inl (invalid_repo_id repoId), d, w)
     else case rst_get (re_store E) repoId d of
            Some existing \<Rightarrow>
              (Inl (RepoAlreadyProvisionedError (''repoId \"'' @ repoId @ ''\" is already provisioned'')), d, w)
          | None \<Rightarrow>
              (let doltPath = path_join (re_rootPath E) repoId
               in case re_runDoltInit E doltPath w of
                    (Inl message, w') \<Rightarrow>
                      (Inl (RepoProvisioningFailedError
                         (''Failed to provision Dolt repo for \"'' @ repoId @ ''\": '' @ message)), d, w')
                  | (Inr _, w') \<Rightarrow>
                      (let record = \<lparr>rp_repoId = repoId, rp_doltPath = doltPath, rp_createdAt = now,
                                     rp_createdBy = createdBy\<rparr>
                       in case rst_create (re_store E) record d of
                            (Inl e, d') \<Rightarrow> (Inl e, d', w')
                          | (Inr _, d') \<Rightarrow> (Inr record, d', w'))))"

definition provisioning_get :: "('d, 'w) repo_env \<Rightarrow> string \<Rightarrow> 'd \<Rightarrow> repo_record option" where
  "provisioning_get E repoId d = rst_get (re_store E) repoId d"

definition provisioning_list :: "('d, 'w) repo_env \<Rightarrow> 'd \<Rightarrow> repo_record list" where
  "provisioning_list E d = rst_list (re_store E) d"

definition isProvisionable :: "string \<Rightarrow> bool" where
  "isProvisionable repoId = VALID_REPO_ID repoId"

section \<open>What the services rely on\<close>

text \<open>
  The laws of the port: a created repository is found under its id and nothing else changes, an id
  is created at most once, and the preference of a repository is the last one written, with the
  creation time of the first.
\<close>

definition merged_preference :: "sync_preference option \<Rightarrow> sync_preference \<Rightarrow> sync_preference" where
  "merged_preference old p = (case old of None \<Rightarrow> p | Some q \<Rightarrow> p\<lparr>sp_createdAt := sp_createdAt q\<rparr>)"

locale repo_port =
  fixes st :: "'d repo_store" and ok :: "'d \<Rightarrow> bool"
  assumes create_new: "ok d \<Longrightarrow> rst_get st (rp_repoId r) d = None \<Longrightarrow>
      \<exists>d'. rst_create st r d = (Inr (), d') \<and> ok d' \<and>
        (\<forall>k. rst_get st k d' = (if k = rp_repoId r then Some r else rst_get st k d)) \<and>
        (\<forall>k. rst_getSyncPreference st k d' = rst_getSyncPreference st k d)"
    and upsert_known: "ok d \<Longrightarrow> rst_get st repoId d \<noteq> None \<Longrightarrow>
      \<exists>d'. rst_upsertSyncPreference st repoId p d = (Inr (), d') \<and> ok d' \<and>
        (\<forall>k. rst_get st k d' = rst_get st k d) \<and>
        (\<forall>k. rst_getSyncPreference st k d' =
           (if k = repoId then Some (merged_preference (rst_getSyncPreference st repoId d) p)
            else rst_getSyncPreference st k d))"
begin

lemma provision_new:
  assumes "re_store E = st" "ok d" "VALID_REPO_ID repoId" "rst_get st repoId d = None"
    and "re_runDoltInit E (path_join (re_rootPath E) repoId) w = (Inr (), w')"
  obtains d' where "provision E repoId createdBy now (d, w) =
      (Inr \<lparr>rp_repoId = repoId, rp_doltPath = path_join (re_rootPath E) repoId, rp_createdAt = now,
            rp_createdBy = createdBy\<rparr>, d', w')"
    and "ok d'"
    and "\<And>k. rst_get st k d' =
      (if k = repoId then Some \<lparr>rp_repoId = repoId, rp_doltPath = path_join (re_rootPath E) repoId,
         rp_createdAt = now, rp_createdBy = createdBy\<rparr> else rst_get st k d)"
proof -
  let ?r = "\<lparr>rp_repoId = repoId, rp_doltPath = path_join (re_rootPath E) repoId, rp_createdAt = now,
            rp_createdBy = createdBy\<rparr>"
  have "rst_get st (rp_repoId ?r) d = None" using assms(4) by simp
  from create_new [OF assms(2) this] obtain d' where c: "rst_create st ?r d = (Inr (), d')" "ok d'"
    and g: "\<And>k. rst_get st k d' = (if k = repoId then Some ?r else rst_get st k d)"
    by auto
  show thesis
    by (rule that [OF _ c(2) g]) (use assms c(1) in \<open>simp add: provision_def Let_def\<close>)
qed

text \<open>A failed provisioning leaves the registry as it was.\<close>

lemma provision_failed:
  assumes "re_store E = st" "ok d" "provision E repoId createdBy now (d, w) = (Inl e, d', w')"
  shows "d' = d"
proof (cases "VALID_REPO_ID repoId \<and> rst_get st repoId d = None")
  case False
  with assms show ?thesis by (auto simp: provision_def split: option.splits if_splits)
next
  case True
  let ?r = "\<lparr>rp_repoId = repoId, rp_doltPath = path_join (re_rootPath E) repoId, rp_createdAt = now,
            rp_createdBy = createdBy\<rparr>"
  from create_new [OF assms(2), of ?r] True obtain d1 where "rst_create st ?r d = (Inr (), d1)"
    by auto
  with True assms show ?thesis
    by (auto simp: provision_def Let_def split: prod.splits sum.splits)
qed

end

lemma sql_get_update_key:
  "sql_get fst k (fst (sql_update (\<lambda>r. fst r = j) (\<lambda>r. (fst r, f r)) t)) =
     (if k = j then map_option (\<lambda>r. (fst r, f r)) (sql_get fst k t) else sql_get fst k t)"
  by (induction t) (auto simp: sql_update_def)

interpretation libsql_repos: repo_port "libsqlRepoStore fk" repo_db_ok
proof (unfold_locales, goal_cases)
  case (1 d r)
  then obtain t where t: "sql_insert rp_repoId r (rd_repos d) = Some t"
    by (cases "sql_insert rp_repoId r (rd_repos d)") (auto simp: sql_insert_None_iff sql_rp_get_def)
  then show ?case
    using 1 by (auto simp: sql_rp_create_def sql_rp_get_def sql_rp_getSyncPreference_def repo_db_ok_def
        sql_get_insert [OF t] keyed_insert [OF _ t])
next
  case (2 d repoId p)
  show ?case
  proof (cases "sql_insert fst (repoId, p) (rd_prefs d)")
    case None
    then have "sql_get fst repoId (rd_prefs d) \<noteq> None" by (simp add: sql_insert_None_iff)
    then obtain q where q: "sql_get fst repoId (rd_prefs d) = Some q" by auto
    show ?thesis
      using 2 None q
      by (auto simp: sql_rp_upsertSyncPreference_def sql_rp_get_def sql_rp_getSyncPreference_def
          repo_db_ok_def sql_get_update_key merged_preference_def intro!: keyed_update)
  next
    case (Some t)
    then have "sql_get fst repoId (rd_prefs d) = None"
      using sql_insert_None_iff [of fst "(repoId, p)" "rd_prefs d"]
      by (cases "sql_get fst repoId (rd_prefs d)") auto
    with 2 Some show ?thesis
      by (auto simp: sql_rp_upsertSyncPreference_def sql_rp_get_def sql_rp_getSyncPreference_def
          repo_db_ok_def sql_get_insert [OF Some] merged_preference_def keyed_insert [OF _ Some])
  qed
qed

section \<open>Provisioned paths\<close>

lemma valid_repo_id_chars:
  assumes "VALID_REPO_ID s"
  shows "s \<noteq> []" "CHR ''/'' \<notin> set s" "CHR ''.'' \<notin> set s"
proof -
  have "\<And>c. c \<in> set s \<Longrightarrow> is_alnum c \<or> c = CHR ''_'' \<or> c = CHR ''-''"
    using assms by (auto simp: VALID_REPO_ID_def list_all_iff)
  moreover have "\<not> is_alnum CHR ''/''" "\<not> is_alnum CHR ''.''" by code_simp+
  ultimately show "s \<noteq> []" "CHR ''/'' \<notin> set s" "CHR ''.'' \<notin> set s"
    using assms by (force simp: VALID_REPO_ID_def)+
qed

lemma path_join_inj: "path_join root a = path_join root b \<Longrightarrow> a = b"
  by (auto simp: path_join_def split: if_splits)

text \<open>Every path of the registry is the root joined with the valid id it is stored under.\<close>

definition registry_ok :: "string \<Rightarrow> repo_db \<Rightarrow> bool" where
  "registry_ok root d \<longleftrightarrow> repo_db_ok d \<and>
     (\<forall>r \<in> set (rd_repos d). VALID_REPO_ID (rp_repoId r) \<and> rp_doltPath r = path_join root (rp_repoId r))"

lemma registry_ok_iff:
  "registry_ok root d \<longleftrightarrow> repo_db_ok d \<and>
     (\<forall>k r. sql_rp_get k d = Some r \<longrightarrow> VALID_REPO_ID k \<and> rp_repoId r = k \<and> rp_doltPath r = path_join root k)"
  (is "?l \<longleftrightarrow> ?ok \<and> ?r")
proof (cases ?ok)
  case True
  then have k: "keyed rp_repoId (rd_repos d)" by (simp add: repo_db_ok_def)
  have "?l \<Longrightarrow> ?r"
    by (auto simp: registry_ok_def sql_rp_get_def dest!: sql_get_Some_key)
  moreover have "?r \<Longrightarrow> ?l"
    using True sql_get_mem [OF k] by (simp add: registry_ok_def sql_rp_get_def)
  ultimately show ?thesis using True by blast
qed (simp add: registry_ok_def)

text \<open>What a successful provisioning found and what it left.\<close>

abbreviation new_repo :: "('d, 'w) repo_env \<Rightarrow> string \<Rightarrow> string \<Rightarrow> ms \<Rightarrow> repo_record" where
  "new_repo E repoId createdBy now \<equiv>
     \<lparr>rp_repoId = repoId, rp_doltPath = path_join (re_rootPath E) repoId, rp_createdAt = now, rp_createdBy = createdBy\<rparr>"

lemma provision_created:
  assumes "re_store E = libsqlRepoStore fk" and db: "repo_db_ok d"
    and p: "provision E repoId createdBy now (d, w) = (Inr r, d', w')"
  shows "VALID_REPO_ID repoId" and "sql_rp_get repoId d = None" and "r = new_repo E repoId createdBy now"
    and "repo_db_ok d'" and "sql_rp_get k d' = (if k = repoId then Some r else sql_rp_get k d)"
proof -
  from p assms(1) show v: "VALID_REPO_ID repoId" "sql_rp_get repoId d = None"
    by (auto simp: provision_def Let_def split: prod.splits sum.splits option.splits if_splits)
  from p assms(1) have i: "re_runDoltInit E (path_join (re_rootPath E) repoId) w = (Inr (), w')"
    by (auto simp: provision_def Let_def split: prod.splits sum.splits option.splits if_splits)
  have g: "rst_get (libsqlRepoStore fk) repoId d = None" using v(2) by simp
  obtain d1 where "provision E repoId createdBy now (d, w) = (Inr (new_repo E repoId createdBy now), d1, w')" "repo_db_ok d1"
    "\<And>k. sql_rp_get k d1 = (if k = repoId then Some (new_repo E repoId createdBy now) else sql_rp_get k d)"
    by (rule libsql_repos.provision_new [OF assms(1) db v(1) g i, of createdBy now]) simp
  with p show "r = new_repo E repoId createdBy now" "repo_db_ok d'"
    "sql_rp_get k d' = (if k = repoId then Some r else sql_rp_get k d)"
    by simp_all
qed

lemma provision_keeps_registry:
  assumes "re_store E = libsqlRepoStore fk" and ok: "registry_ok (re_rootPath E) d"
  shows "registry_ok (re_rootPath E) (fst (snd (provision E repoId createdBy now (d, w))))"
proof (cases "provision E repoId createdBy now (d, w)")
  case (fields res d' w')
  have db: "repo_db_ok d" using ok by (simp add: registry_ok_def)
  show ?thesis
  proof (cases res)
    case (Inl e)
    with fields libsql_repos.provision_failed [OF assms(1) db] ok show ?thesis by fastforce
  next
    case (Inr r)
    with provision_created [OF assms(1) db, of repoId createdBy now w r d' w'] fields ok show ?thesis
      by (auto simp: registry_ok_iff split: if_splits)
  qed
qed

end
