(* ===== verification/DoltCli.thy ===== *)
theory DoltCli
  imports RepoStore
begin

text \<open>
  What the modules that shell out to the \<open>dolt\<close> binary share. The binary is a parameter: a function
  from the argument vector and the state of the repositories to an exit code, the two output streams
  and the new state. \<open>Bun.$\<close> quotes every interpolated value as one argument and \<open>Bun.spawn\<close>
  takes the arguments as an array, so a command is the list of its arguments.

  The theory holds \<open>dolt init\<close> (\<open>dolt-cli.ts\<close>), the CSV reader that \<open>dolt-log-cli.ts\<close>,
  \<open>dolt-diff-cli.ts\<close> and \<open>dolt-merge-cli.ts\<close> each contain, the checks on branch names, table
  names and commit hashes, and the reader of the current branch.
\<close>

named_theorems cli_simps "outcomes of calls of the dolt binary"

section \<open>Calling the binary\<close>

record cli_result =
  cr_exitCode :: nat
  cr_stdout :: string
  cr_stderr :: string

type_synonym 'w dolt = "string list \<Rightarrow> 'w \<Rightarrow> cli_result \<times> 'w"

text \<open>Every command names the repository first.\<close>

definition data_dir :: "string \<Rightarrow> string list \<Rightarrow> string list" where
  "data_dir doltPath args = ''--data-dir'' # doltPath # args"

definition sql_csv :: "string \<Rightarrow> string list" where
  "sql_csv query = [''sql'', ''-q'', query, ''-r'', ''csv'']"

definition trimStdErr :: "cli_result \<Rightarrow> string" where
  "trimStdErr r = js_trim (cr_stderr r)"

definition trimStdOut :: "cli_result \<Rightarrow> string" where
  "trimStdOut r = js_trim (cr_stdout r)"

text \<open>
  The recurring shape \<open>const r = await $`dolt ...`; if (r.exitCode !== 0) throw new Error(...)\<close>.
\<close>

definition dolt_checked ::
  "'w dolt \<Rightarrow> string \<Rightarrow> string list \<Rightarrow> (cli_result \<Rightarrow> string) \<Rightarrow> ('w, versioning_error, cli_result) op" where
  "dolt_checked dolt doltPath args message w =
     (let (r, w') = dolt (data_dir doltPath args) w
      in if cr_exitCode r \<noteq> 0 then (Inl (PlainError (message r)), w') else (Inr r, w'))"

lemma dolt_checked_Inr [cli_simps]:
  "dolt_checked dolt p args m w = (Inr r, w') \<longleftrightarrow>
     dolt (data_dir p args) w = (r, w') \<and> cr_exitCode r = 0"
  by (auto simp: dolt_checked_def split_def Let_def prod_eq_iff)

lemma dolt_checked_Inl [cli_simps]:
  "dolt_checked dolt p args m w = (Inl e, w') \<longleftrightarrow>
     (\<exists>r. dolt (data_dir p args) w = (r, w') \<and> cr_exitCode r \<noteq> 0 \<and> e = PlainError (m r))"
  by (auto simp: dolt_checked_def split_def Let_def prod_eq_iff)

text \<open>Decimal notation of a natural number.\<close>

fun js_of_nat :: "nat \<Rightarrow> string" where
  "js_of_nat n = (if n < 10 then [char_of (48 + n)] else js_of_nat (n div 10) @ [char_of (48 + n mod 10)])"

declare js_of_nat.simps [simp del]

definition runDoltInit :: "'w dolt \<Rightarrow> string \<Rightarrow> ('w, string, unit) op" where
  "runDoltInit dolt doltPath w =
     (let (result, w') = dolt (data_dir doltPath [''init'']) w
      in if cr_exitCode result \<noteq> 0
         then (Inl (''dolt init exited with code '' @ js_of_nat (cr_exitCode result) @ '': '' @ trimStdErr result), w')
         else (Inr (), w'))"

section \<open>Names\<close>

text \<open>\<open>/^[A-Za-z0-9_][A-Za-z0-9_.\-/]{0,127}$/\<close>\<close>

definition VALID_BRANCH :: "string \<Rightarrow> bool" where
  "VALID_BRANCH s \<longleftrightarrow>
     (case s of
        [] \<Rightarrow> False
      | c # cs \<Rightarrow> (is_alnum c \<or> c = CHR ''_'') \<and> length cs \<le> 127 \<and>
          list_all (\<lambda>d. is_alnum d \<or> d = CHR ''_'' \<or> d = CHR ''.'' \<or> d = CHR ''-'' \<or> d = CHR ''/'') cs)"

text \<open>\<open>/^[A-Za-z_][A-Za-z0-9_]*$/\<close>\<close>

definition VALID_TABLE :: "string \<Rightarrow> bool" where
  "VALID_TABLE s \<longleftrightarrow>
     (case s of [] \<Rightarrow> False | c # cs \<Rightarrow> (is_alpha c \<or> c = CHR ''_'') \<and> list_all (\<lambda>d. is_alnum d \<or> d = CHR ''_'') cs)"

text \<open>\<open>/^[0-9a-z]{32}$/\<close>\<close>

definition VALID_COMMIT_HASH :: "string \<Rightarrow> bool" where
  "VALID_COMMIT_HASH s \<longleftrightarrow> length s = 32 \<and> list_all (\<lambda>c. is_digit c \<or> is_lower c) s"

definition branch_name_ok :: "string \<Rightarrow> bool" where
  "branch_name_ok b \<longleftrightarrow>
     js_trim b = b \<and> VALID_BRANCH b \<and> \<not> js_includes b ''..'' \<and> \<not> js_startsWith b ''/'' \<and> \<not> js_endsWith b ''/''"

text \<open>\<open>assertSafeBranchName\<close>, \<open>assertSafeTableName\<close>, \<open>assertSafeCommitHash\<close> of the CLI modules.\<close>

definition assertSafeBranchName :: "string \<Rightarrow> ('w, versioning_error, unit) op" where
  "assertSafeBranchName branchName =
     (if branch_name_ok branchName then ret () else throw (PlainError (''Unsafe branch name: '' @ branchName)))"

definition assertSafeTableName :: "string \<Rightarrow> ('w, versioning_error, unit) op" where
  "assertSafeTableName tableName =
     (if VALID_TABLE tableName then ret () else throw (PlainError (''Unsafe table name: '' @ tableName)))"

definition assertSafeCommitHash :: "string \<Rightarrow> ('w, versioning_error, unit) op" where
  "assertSafeCommitHash commitHash =
     (if VALID_COMMIT_HASH commitHash then ret () else throw (PlainError (''Unsafe commit hash: '' @ commitHash)))"

section \<open>CSV\<close>

fun parse_csv_chars :: "string list \<Rightarrow> string \<Rightarrow> bool \<Rightarrow> string \<Rightarrow> string list" where
  "parse_csv_chars values current inQuotes [] = values @ [current]"
| "parse_csv_chars values current inQuotes (c # cs) =
     (if c = CHR 0x22
      then (if inQuotes \<and> cs \<noteq> [] \<and> hd cs = CHR 0x22
            then parse_csv_chars values (current @ [CHR 0x22]) inQuotes (tl cs)
            else parse_csv_chars values current (\<not> inQuotes) cs)
      else if c = CHR '','' \<and> \<not> inQuotes then parse_csv_chars (values @ [current]) [] inQuotes cs
      else parse_csv_chars values (current @ [c]) inQuotes cs)"

definition parseCsvLine :: "string \<Rightarrow> string list" where
  "parseCsvLine line = parse_csv_chars [] [] False line"

text \<open>
  A row is an object: assigning to a key that exists replaces its value in place.
\<close>

type_synonym csv_row = "(string \<times> string) list"

fun obj_set :: "'k \<Rightarrow> 'v \<Rightarrow> ('k \<times> 'v) list \<Rightarrow> ('k \<times> 'v) list" where
  "obj_set k v [] = [(k, v)]"
| "obj_set k v ((j, u) # row) = (if j = k then (k, v) # row else (j, u) # obj_set k v row)"

lemma map_of_obj_set [simp]: "map_of (obj_set k v row) = (map_of row)(k \<mapsto> v)"
  by (induction row) auto

fun csv_record :: "string list \<Rightarrow> string list \<Rightarrow> csv_row \<Rightarrow> csv_row" where
  "csv_record [] values row = row"
| "csv_record (h # hs) values row =
     csv_record hs (tl values) (obj_set h (case values of [] \<Rightarrow> [] | v # _ \<Rightarrow> v) row)"

definition csv_lines :: "string \<Rightarrow> string list" where
  "csv_lines stdout = filter (\<lambda>l. l \<noteq> []) (map js_trim (js_split (CHR 0x0A) (js_trim stdout)))"

definition parseCsv :: "string \<Rightarrow> csv_row list" where
  "parseCsv stdout =
     (case csv_lines stdout of
        headerLine # dataLine # dataLines \<Rightarrow>
          (let headers = parseCsvLine headerLine
           in map (\<lambda>line. csv_record headers (parseCsvLine line) []) (dataLine # dataLines))
      | _ \<Rightarrow> [])"

text \<open>
  \<open>value.toUpperCase() === 'NULL'\<close>: of the strings of code units below 256, those whose letters in
  lower case are \<open>null\<close>.
\<close>

definition toNullable :: "string option \<Rightarrow> string option" where
  "toNullable value =
     (case value of
        None \<Rightarrow> None
      | Some v \<Rightarrow> if v = [] \<or> js_toLowerCase v = ''null'' then None else Some v)"

section \<open>The current branch\<close>

definition readCurrentBranchName :: "'w dolt \<Rightarrow> string \<Rightarrow> ('w, versioning_error, string) op" where
  "readCurrentBranchName dolt doltPath =
     and_then (dolt_checked dolt doltPath [''branch'']
        (\<lambda>r. ''dolt current branch lookup failed: '' @ trimStdErr r))
     (\<lambda>result. case find (\<lambda>l. js_startsWith l ''* '') (map js_trim (js_split (CHR 0x0A) (cr_stdout result))) of
         None \<Rightarrow> throw (PlainError ''Could not determine current branch from dolt branch output'')
       | Some current \<Rightarrow> ret (js_trim (drop 2 current)))"

definition latest_hash_query :: string where
  "latest_hash_query = ''SELECT commit_hash FROM dolt_log ORDER BY date DESC LIMIT 1''"

section \<open>The CSV reader inverts the usual quoting\<close>

text \<open>
  A field is written as it is when it has no comma, quote or line break, and otherwise between
  quotes with every quote doubled; a writer may also quote a field that does not need it.
\<close>

fun csv_double :: "string \<Rightarrow> string" where
  "csv_double [] = []"
| "csv_double (c # cs) = (if c = CHR 0x22 then CHR 0x22 # CHR 0x22 # csv_double cs else c # csv_double cs)"

definition csv_plain :: "string \<Rightarrow> bool" where
  "csv_plain f \<longleftrightarrow> CHR 0x22 \<notin> set f \<and> CHR '','' \<notin> set f"

definition csv_written :: "string \<Rightarrow> string \<Rightarrow> bool" where
  "csv_written f e \<longleftrightarrow> (e = f \<and> csv_plain f) \<or> e = CHR 0x22 # csv_double f @ [CHR 0x22]"

lemma parse_csv_plain:
  "csv_plain f \<Longrightarrow> parse_csv_chars vs cur False (f @ rest) = parse_csv_chars vs (cur @ f) False rest"
  by (induction f arbitrary: cur) (auto simp: csv_plain_def)

lemma parse_csv_double:
  assumes "rest = [] \<or> hd rest \<noteq> CHR 0x22"
  shows "parse_csv_chars vs cur True (csv_double f @ CHR 0x22 # rest) = parse_csv_chars vs (cur @ f) False rest"
  using assms
proof (induction f arbitrary: cur)
  case (Cons c f)
  then show ?case by (cases "c = CHR 0x22") simp_all
qed auto

lemma parse_csv_written:
  assumes "csv_written f e" and "rest = [] \<or> hd rest \<noteq> CHR 0x22"
  shows "parse_csv_chars vs [] False (e @ rest) = parse_csv_chars vs f False rest"
  using assms(1) unfolding csv_written_def
proof
  assume "e = f \<and> csv_plain f"
  then show ?thesis using parse_csv_plain [of f vs "[]" rest] by simp
next
  assume "e = CHR 0x22 # csv_double f @ [CHR 0x22]"
  then show ?thesis using parse_csv_double [OF assms(2), of vs "[]" f] by simp
qed

lemma parse_csv_fields:
  "list_all2 csv_written fs es \<Longrightarrow> fs \<noteq> [] \<Longrightarrow> parse_csv_chars vs [] False (js_join '','' es) = vs @ fs"
proof (induction es arbitrary: fs vs rule: induct_list012)
  case (2 e)
  then obtain f where "fs = [f]" "csv_written f e" by (auto simp: list_all2_Cons2)
  then show ?case using parse_csv_written [of f e "[]" vs] by simp
next
  case (3 e e' es)
  then obtain f gs where fs: "fs = f # gs" "csv_written f e" "list_all2 csv_written gs (e' # es)" "gs \<noteq> []"
    by (auto simp: list_all2_Cons2)
  have "parse_csv_chars vs [] False (js_join '','' (e # e' # es)) =
    parse_csv_chars vs f False (CHR '','' # js_join '','' (e' # es))"
    using parse_csv_written [OF fs(2), of "CHR '','' # js_join '','' (e' # es)" vs] by simp
  also have "\<dots> = parse_csv_chars (vs @ [f]) [] False (js_join '','' (e' # es))" by simp
  also have "\<dots> = vs @ fs" using 3(2) [OF fs(3) fs(4)] fs(1) by simp
  finally show ?case .
qed auto

text \<open>
  Reading a line of CSV is the inverse of writing it: whatever fields a row has, and whichever of
  them the writer chose to quote, \<open>parseCsvLine\<close> returns exactly these fields.
\<close>

theorem csv_line_roundtrip:
  assumes "row \<noteq> []" and "list_all2 csv_written row written"
  shows "parseCsvLine (js_join '','' written) = row"
  unfolding parseCsvLine_def using parse_csv_fields [OF assms(2,1), of "[]"] by simp

lemma csv_line_roundtrip_witness:
  "parseCsvLine (js_join '','' [''a b'', ''\"x, \"\"y\"\"\"'', []]) = [''a b'', ''x, \"y\"'', []]"
  by (rule csv_line_roundtrip) code_simp+

end
