(* ===== verification/Licensing.thy ===== *)
theory Licensing
  imports Http DoltCli
begin

text \<open>
  The license (\<open>contexts/licensing\<close>): the format of the key and the checks on its payload
  (\<open>license-parser.ts\<close>, \<open>types.ts\<close>, \<open>errors.ts\<close>), the signature (\<open>ed25519.ts\<close>), the comparison of the
  clock with the commit history (\<open>anti-tamper.ts\<close>, \<open>dolt-commit-log.reader.ts\<close>) and the validation at
  boot (\<open>license-validator.service.ts\<close>).

  Bytes are lists of characters. Parameters are \<open>JSON.parse\<close> of decoded bytes, \<open>Date.parse\<close> (\<open>None\<close> is
  \<open>NaN\<close>), \<open>toISOString\<close>, \<open>createPublicKey\<close> of a PEM text or of the raw bytes behind the
  DER prefix (\<open>Inl\<close> is the message of what it throws) and the verification of a signature (\<open>None\<close> when
  it throws). JSON numbers are integers.
\<close>

section \<open>Data\<close>

datatype tier = Community | Enterprise

record addons_config =
  ac_official :: "string list"
  ac_communityAddonsEnabled :: bool
  ac_maxCommunityAddons :: "int option"

record license_payload =
  lp_licensee :: string
  lp_tier :: tier
  lp_seats :: int
  lp_addons :: "addons_config option"
  lp_issuedAt :: string
  lp_expiresAt :: "string option"
  lp_nonce :: string

datatype license_error =
    LicenseMalformedError string
  | LicenseSignatureInvalidError string
  | LicenseExpiredError string
  | ClockRollbackDetectedError string
  | LicenseOtherError string

fun license_message :: "license_error \<Rightarrow> string" where
  "license_message (LicenseMalformedError m) = m"
| "license_message (LicenseSignatureInvalidError m) = m"
| "license_message (LicenseExpiredError m) = m"
| "license_message (ClockRollbackDetectedError m) = m"
| "license_message (LicenseOtherError m) = m"

datatype validation_result = LicenseValid license_payload | LicenseInvalid string

text \<open>\<open>node:crypto\<close>: building a key from a PEM text or from raw bytes, and verifying a signature.\<close>

record 'k crypto_env =
  cy_pemKey :: "string \<Rightarrow> string + 'k"
  cy_rawKey :: "string \<Rightarrow> string + 'k"
  cy_verify :: "string \<Rightarrow> 'k \<Rightarrow> string \<Rightarrow> bool option"

record ('w, 'k) license_env =
  li_licenseKey :: string
  li_publicKeyMaterial :: string
  li_clockToleranceMs :: ms
  li_dolt :: "'w dolt"
  li_doltRepoPath :: string
  li_jsonParse :: "string \<Rightarrow> json option"
  li_dateParse :: "string \<Rightarrow> ms option"
  li_toISOString :: "ms \<Rightarrow> string"
  li_crypto :: "'k crypto_env"

section \<open>Base64\<close>

definition is_base64url :: "char \<Rightarrow> bool" where
  "is_base64url c \<longleftrightarrow> is_alnum c \<or> c = CHR ''_'' \<or> c = CHR ''-''"

text \<open>\<open>/^[A-Za-z0-9_-]+$/\<close>\<close>

definition BASE64URL_PATTERN :: "string \<Rightarrow> bool" where
  "BASE64URL_PATTERN s \<longleftrightarrow> s \<noteq> [] \<and> list_all is_base64url s"

text \<open>The value of a digit of either alphabet; \<open>Buffer.from\<close> accepts both.\<close>

definition b64_value :: "char \<Rightarrow> nat" where
  "b64_value c =
     (let n = of_char c :: nat
      in if is_upper c then n - 65 else if is_lower c then n - 71 else if is_digit c then n + 4
         else if c = CHR ''-'' \<or> c = CHR ''+'' then 62 else 63)"

text \<open>Four digits are three bytes; an incomplete group gives the whole bytes it holds.\<close>

fun b64_bytes :: "nat list \<Rightarrow> nat list" where
  "b64_bytes (a # b # c # d # r) =
     (4 * a + b div 16) # (16 * (b mod 16) + c div 4) # (64 * (c mod 4) + d) # b64_bytes r"
| "b64_bytes [a, b, c] = [4 * a + b div 16, 16 * (b mod 16) + c div 4]"
| "b64_bytes [a, b] = [4 * a + b div 16]"
| "b64_bytes _ = []"

definition base64url_decode :: "string \<Rightarrow> string" where
  "base64url_decode s = map char_of (b64_bytes (map b64_value s))"

section \<open>license-parser.ts\<close>

definition assertLicensee :: "json \<Rightarrow> license_error + string" where
  "assertLicensee v =
     (case jfield ''licensee'' v of
        Some (JStr (c # cs)) \<Rightarrow> Inr (c # cs)
      | _ \<Rightarrow> Inl (LicenseMalformedError ''License payload missing a valid \"licensee\"''))"

definition assertTier :: "json \<Rightarrow> license_error + tier" where
  "assertTier v =
     (let bad = Inl (LicenseMalformedError ''License payload \"tier\" must be \"community\" or \"enterprise\"'')
      in case jfield ''tier'' v of
           Some (JStr t) \<Rightarrow> if t = ''community'' then Inr Community else if t = ''enterprise'' then Inr Enterprise else bad
         | _ \<Rightarrow> bad)"

definition assertSeats :: "json \<Rightarrow> license_error + int" where
  "assertSeats v =
     (let bad = Inl (LicenseMalformedError ''License payload \"seats\" must be a positive number'')
      in case jfield ''seats'' v of Some (JNum n) \<Rightarrow> if n < 1 then bad else Inr n | _ \<Rightarrow> bad)"

fun json_str :: "json \<Rightarrow> string option" where
  "json_str (JStr s) = Some s"
| "json_str _ = None"

definition assertAddons :: "json \<Rightarrow> license_error + addons_config option" where
  "assertAddons v =
     (case jfield ''addons'' v of
        None \<Rightarrow> Inr None
      | Some (JObj fs) \<Rightarrow>
          (case jfield ''official'' (JObj fs) of
             Some (JArr names) \<Rightarrow>
               if list_all (\<lambda>n. json_str n \<noteq> None) names
               then case jfield ''communityAddonsEnabled'' (JObj fs) of
                      Some (JBool enabled) \<Rightarrow>
                        (case jfield ''maxCommunityAddons'' (JObj fs) of
                           Some JNull \<Rightarrow>
                             Inr (Some \<lparr>ac_official = map (the \<circ> json_str) names, ac_communityAddonsEnabled = enabled,
                                        ac_maxCommunityAddons = None\<rparr>)
                         | Some (JNum n) \<Rightarrow>
                             if n \<ge> 0
                             then Inr (Some \<lparr>ac_official = map (the \<circ> json_str) names, ac_communityAddonsEnabled = enabled,
                                             ac_maxCommunityAddons = Some n\<rparr>)
                             else Inl (LicenseMalformedError ''License payload \"addons.maxCommunityAddons\" must be a non-negative number or null'')
                         | _ \<Rightarrow> Inl (LicenseMalformedError ''License payload \"addons.maxCommunityAddons\" must be a non-negative number or null''))
                    | _ \<Rightarrow> Inl (LicenseMalformedError ''License payload \"addons.communityAddonsEnabled\" must be a boolean'')
               else Inl (LicenseMalformedError ''License payload \"addons.official\" must be an array of strings'')
           | _ \<Rightarrow> Inl (LicenseMalformedError ''License payload \"addons.official\" must be an array of strings''))
      | Some _ \<Rightarrow> Inl (LicenseMalformedError ''License payload \"addons\" must be an object when present''))"

definition assertIssuedAt :: "(string \<Rightarrow> ms option) \<Rightarrow> json \<Rightarrow> license_error + string" where
  "assertIssuedAt dateParse v =
     (let bad = Inl (LicenseMalformedError ''License payload \"issuedAt\" must be a valid ISO 8601 date'')
      in case jfield ''issuedAt'' v of Some (JStr s) \<Rightarrow> if dateParse s = None then bad else Inr s | _ \<Rightarrow> bad)"

definition assertExpiresAt :: "(string \<Rightarrow> ms option) \<Rightarrow> json \<Rightarrow> license_error + string option" where
  "assertExpiresAt dateParse v =
     (let bad = Inl (LicenseMalformedError ''License payload \"expiresAt\" must be a valid ISO 8601 date'')
      in case jfield ''expiresAt'' v of
           None \<Rightarrow> Inr None
         | Some (JStr s) \<Rightarrow> if dateParse s = None then bad else Inr (Some s)
         | Some _ \<Rightarrow> bad)"

definition assertNonce :: "json \<Rightarrow> license_error + string" where
  "assertNonce v =
     (case jfield ''nonce'' v of
        Some (JStr (c # cs)) \<Rightarrow> Inr (c # cs)
      | _ \<Rightarrow> Inl (LicenseMalformedError ''License payload missing a valid \"nonce\"''))"

fun jis_arr :: "json \<Rightarrow> bool" where
  "jis_arr (JArr _) \<longleftrightarrow> True"
| "jis_arr _ \<longleftrightarrow> False"

text \<open>Sequencing of checks: the first that fails throws.\<close>

definition check_then :: "'e + 'a \<Rightarrow> ('a \<Rightarrow> 'e + 'b) \<Rightarrow> 'e + 'b" where
  "check_then r f = (case r of Inl e \<Rightarrow> Inl e | Inr x \<Rightarrow> f x)"

lemma check_then_Inr: "check_then r f = Inr y \<longleftrightarrow> (\<exists>x. r = Inr x \<and> f x = Inr y)"
  by (auto simp: check_then_def split: sum.splits)

definition assertIsLicensePayload :: "(string \<Rightarrow> ms option) \<Rightarrow> json \<Rightarrow> license_error + license_payload" where
  "assertIsLicensePayload dateParse v =
     (if \<not> (jis_obj v \<or> jis_arr v) then Inl (LicenseMalformedError ''License payload must be a JSON object'')
      else check_then (assertLicensee v) (\<lambda>licensee.
           check_then (assertTier v) (\<lambda>tr.
           check_then (assertSeats v) (\<lambda>seats.
           check_then (assertAddons v) (\<lambda>addons.
           check_then (assertIssuedAt dateParse v) (\<lambda>issuedAt.
           check_then (assertExpiresAt dateParse v) (\<lambda>expiresAt.
           check_then (assertNonce v) (\<lambda>nonce.
           Inr \<lparr>lp_licensee = licensee, lp_tier = tr, lp_seats = seats, lp_addons = addons,
                lp_issuedAt = issuedAt, lp_expiresAt = expiresAt, lp_nonce = nonce\<rparr>))))))))"

record parsed_key =
  pk_payloadBytes :: string
  pk_payload :: license_payload
  pk_signature :: string

definition parseLicenseKey :: "(string \<Rightarrow> json option) \<Rightarrow> (string \<Rightarrow> ms option) \<Rightarrow> string \<Rightarrow> license_error + parsed_key" where
  "parseLicenseKey jsonParse dateParse licenseKey =
     (let parts = js_split (CHR ''.'') licenseKey
      in case parts of
           [payloadPart, signaturePart] \<Rightarrow>
             if \<not> BASE64URL_PATTERN payloadPart \<or> \<not> BASE64URL_PATTERN signaturePart
             then Inl (LicenseMalformedError ''License key segments must be valid base64url'')
             else let payloadBytes = base64url_decode payloadPart; signature = base64url_decode signaturePart
                  in (case jsonParse payloadBytes of
                        None \<Rightarrow> Inl (LicenseMalformedError ''License payload is not valid JSON'')
                      | Some parsedJson \<Rightarrow>
                          check_then (assertIsLicensePayload dateParse parsedJson) (\<lambda>payload.
                          Inr \<lparr>pk_payloadBytes = payloadBytes, pk_payload = payload, pk_signature = signature\<rparr>))
         | _ \<Rightarrow> Inl (LicenseMalformedError (''License key must have the form \"<payload>.<signature>\", got '' @
                  js_of_nat (length parts) @ '' segment(s)'')))"

definition resolveLicenseAddonsConfig :: "license_payload \<Rightarrow> addons_config" where
  "resolveLicenseAddonsConfig payload =
     (case lp_addons payload of
        Some a \<Rightarrow> a
      | None \<Rightarrow>
          if lp_tier payload = Community
          then \<lparr>ac_official = [], ac_communityAddonsEnabled = True, ac_maxCommunityAddons = Some 10\<rparr>
          else \<lparr>ac_official = [], ac_communityAddonsEnabled = True, ac_maxCommunityAddons = None\<rparr>)"

section \<open>ed25519.ts\<close>

definition ED25519_RAW_KEY_LENGTH :: nat where "ED25519_RAW_KEY_LENGTH = 32"

text \<open>\<open>Buffer.from(s, 'base64')\<close> stops at the padding and skips characters outside the alphabets.\<close>

definition base64_decode :: "string \<Rightarrow> string" where
  "base64_decode s =
     base64url_decode (filter (\<lambda>c. is_base64url c \<or> c = CHR ''+'' \<or> c = CHR ''/'') (takeWhile (\<lambda>c. c \<noteq> CHR ''='') s))"

definition loadEd25519PublicKey :: "'k crypto_env \<Rightarrow> string \<Rightarrow> license_error + 'k" where
  "loadEd25519PublicKey Y publicKeyMaterial =
     (let trimmed = js_trim publicKeyMaterial;
          built = map_sum LicenseOtherError id
      in if js_startsWith trimmed ''-----BEGIN'' then built (cy_pemKey Y trimmed)
         else let raw = base64_decode trimmed
              in if length raw \<noteq> ED25519_RAW_KEY_LENGTH
                 then Inl (LicenseOtherError (''Invalid Ed25519 public key: expected '' @ js_of_nat ED25519_RAW_KEY_LENGTH @
                        '' raw bytes (base64-encoded), got '' @ js_of_nat (length raw)))
                 else built (cy_rawKey Y raw))"

text \<open>A signature that makes the verification throw counts as false.\<close>

definition verifyEd25519Signature :: "'k crypto_env \<Rightarrow> string \<Rightarrow> string \<Rightarrow> string \<Rightarrow> license_error + bool" where
  "verifyEd25519Signature Y payload signature publicKeyMaterial =
     check_then (loadEd25519PublicKey Y publicKeyMaterial) (\<lambda>key.
     Inr (case cy_verify Y payload key signature of Some b \<Rightarrow> b | None \<Rightarrow> False))"

section \<open>anti-tamper.ts and dolt-commit-log.reader.ts\<close>

definition assertNoClockRollback ::
  "(ms \<Rightarrow> string) \<Rightarrow> ms \<Rightarrow> ms option \<Rightarrow> ms \<Rightarrow> license_error + unit" where
  "assertNoClockRollback toISO now latestCommitTimestamp toleranceMs =
     (case latestCommitTimestamp of
        None \<Rightarrow> Inr ()
      | Some latest \<Rightarrow>
          (let driftMs = latest - now
           in if driftMs > toleranceMs
              then Inl (ClockRollbackDetectedError
                (''System clock ('' @ toISO now @ '') is behind the latest Dolt commit ('' @ toISO latest @ '') by '' @
                 js_of_nat (nat driftMs) @ ''ms, exceeding the allowed tolerance of '' @ js_of_nat (nat toleranceMs) @
                 ''ms. Refusing to boot (possible clock manipulation).''))
              else Inr ()))"

fun replace_first :: "char \<Rightarrow> char \<Rightarrow> string \<Rightarrow> string" where
  "replace_first a b [] = []"
| "replace_first a b (c # cs) = (if c = a then b # cs else c # replace_first a b cs)"

definition parseDoltLogDate :: "(string \<Rightarrow> ms option) \<Rightarrow> string \<Rightarrow> license_error + ms" where
  "parseDoltLogDate dateParse rawValue =
     (case dateParse (replace_first (CHR '' '') (CHR ''T'') rawValue @ ''Z'') of
        None \<Rightarrow> Inl (LicenseOtherError (''Unexpected value read from dolt_log.date: \"'' @ rawValue @ ''\"''))
      | Some t \<Rightarrow> Inr t)"

definition latest_date_query :: string where
  "latest_date_query = ''select `date` from dolt_log order by `date` desc limit 1''"

definition getLatestCommitTimestamp :: "('w, 'k) license_env \<Rightarrow> ('w, license_error, ms option) op" where
  "getLatestCommitTimestamp L w =
     (let (result, w') = li_dolt L (data_dir (li_doltRepoPath L) (sql_csv latest_date_query)) w
      in if cr_exitCode result \<noteq> 0
         then (Inl (LicenseOtherError (''dolt CLI exited with code '' @ js_of_nat (cr_exitCode result) @
                '' while reading dolt_log: '' @ trimStdErr result)), w')
         else case filter (\<lambda>l. l \<noteq> []) (map js_trim (js_split (CHR 0x0A) (cr_stdout result))) of
                _ # dataLine # _ \<Rightarrow> (map_sum id Some (parseDoltLogDate (li_dateParse L) dataLine), w')
              | _ \<Rightarrow> (Inr None, w'))"

section \<open>LicenseValidatorService\<close>

text \<open>The clock is read for the expiry (\<open>now\<close>) and again for the comparison with the history (\<open>now'\<close>).\<close>

definition validate_checks ::
  "('w, 'k) license_env \<Rightarrow> ms \<Rightarrow> ms \<Rightarrow> ('w, license_error, license_payload) op" where
  "validate_checks L now now' =
     and_then (\<lambda>w. (parseLicenseKey (li_jsonParse L) (li_dateParse L) (li_licenseKey L), w)) (\<lambda>parsed.
     and_then (\<lambda>w. (verifyEd25519Signature (li_crypto L) (pk_payloadBytes parsed) (pk_signature parsed) (li_publicKeyMaterial L), w)) (\<lambda>signatureValid.
     if \<not> signatureValid then throw (LicenseSignatureInvalidError ''License signature verification failed'')
     else and_then (case lp_expiresAt (pk_payload parsed) of
             Some (c # cs) \<Rightarrow>
               (case li_dateParse L (c # cs) of
                  Some expiresAtMs \<Rightarrow> if now > expiresAtMs then throw (LicenseExpiredError (''License expired at '' @ c # cs)) else ret ()
                | None \<Rightarrow> ret ())
           | _ \<Rightarrow> ret ()) (\<lambda>_.
          and_then (getLatestCommitTimestamp L) (\<lambda>latest.
          and_then (\<lambda>w. (assertNoClockRollback (li_toISOString L) now' latest (li_clockToleranceMs L), w)) (\<lambda>_.
          ret (pk_payload parsed))))))"

definition validateOnBoot :: "('w, 'k) license_env \<Rightarrow> ms \<Rightarrow> ms \<Rightarrow> 'w \<Rightarrow> validation_result \<times> 'w" where
  "validateOnBoot L now now' w =
     (case validate_checks L now now' w of
        (Inr license, w') \<Rightarrow> (LicenseValid license, w')
      | (Inl e, w') \<Rightarrow> (LicenseInvalid (license_message e), w'))"

section \<open>Properties\<close>

text \<open>What is known of a payload that passed the checks.\<close>

definition payload_ok :: "(string \<Rightarrow> ms option) \<Rightarrow> license_payload \<Rightarrow> bool" where
  "payload_ok dateParse p \<longleftrightarrow>
     lp_licensee p \<noteq> [] \<and> 1 \<le> lp_seats p \<and> lp_nonce p \<noteq> [] \<and> dateParse (lp_issuedAt p) \<noteq> None \<and>
     (case lp_expiresAt p of None \<Rightarrow> True | Some e \<Rightarrow> dateParse e \<noteq> None) \<and>
     (case lp_addons p of None \<Rightarrow> True | Some a \<Rightarrow> (case ac_maxCommunityAddons a of None \<Rightarrow> True | Some n \<Rightarrow> 0 \<le> n))"

lemma assert_fields:
  "assertLicensee v = Inr x1 \<Longrightarrow> x1 \<noteq> []"
  "assertSeats v = Inr x2 \<Longrightarrow> 1 \<le> x2"
  "assertNonce v = Inr x3 \<Longrightarrow> x3 \<noteq> []"
  "assertIssuedAt dp v = Inr x4 \<Longrightarrow> dp x4 \<noteq> None"
  "assertExpiresAt dp v = Inr (Some x5) \<Longrightarrow> dp x5 \<noteq> None"
  "assertAddons v = Inr (Some x6) \<Longrightarrow> ac_maxCommunityAddons x6 = Some n \<Longrightarrow> 0 \<le> n"
  by (auto simp: assertLicensee_def assertSeats_def assertNonce_def assertIssuedAt_def assertExpiresAt_def
      assertAddons_def Let_def split: option.splits json.splits list.splits if_splits)

text \<open>
  The parser only returns well-formed payloads: a licensee, at least one seat, a nonce, dates that
  parse and a non-negative bound on community addons.
\<close>

theorem license_payload_typed:
  assumes "parseLicenseKey jsonParse dateParse key = Inr k"
  shows "payload_ok dateParse (pk_payload k)"
proof -
  obtain v where "assertIsLicensePayload dateParse v = Inr (pk_payload k)"
    using assms by (auto simp: parseLicenseKey_def check_then_Inr Let_def split: list.splits option.splits if_splits)
  then obtain x1 t x2 x6 x4 x5 x3 where f: "assertLicensee v = Inr x1" "assertSeats v = Inr x2" "assertAddons v = Inr x6"
      "assertIssuedAt dateParse v = Inr x4" "assertExpiresAt dateParse v = Inr x5" "assertNonce v = Inr x3"
    and k: "\<lparr>lp_licensee = x1, lp_tier = t, lp_seats = x2, lp_addons = x6,
      lp_issuedAt = x4, lp_expiresAt = x5, lp_nonce = x3\<rparr> = pk_payload k"
    by (auto simp: assertIsLicensePayload_def check_then_Inr split: if_splits)
  have "\<exists>t. dateParse e = Some t" if "x5 = Some e" for e
    using assert_fields(5) [of dateParse v e] f(5) that by auto
  moreover have "0 \<le> n" if "x6 = Some a" "ac_maxCommunityAddons a = Some n" for a n
    using assert_fields(6) [of v a n] f(3) that by simp
  ultimately show ?thesis
    using assert_fields(1-4) f(1,2,4,6) by (simp add: k [symmetric] payload_ok_def split: option.split)
qed

text \<open>A key whose payload is the object below; the dates are those the parser accepts.\<close>

definition demo_payload :: json where
  "demo_payload = JObj [(''licensee'', JStr ''acme''), (''tier'', JStr ''enterprise''), (''seats'', JNum 5),
     (''addons'', JObj [(''official'', JArr [JStr ''audit'']), (''communityAddonsEnabled'', JBool True), (''maxCommunityAddons'', JNum 3)]),
     (''issuedAt'', JStr ''2026-01-01''), (''expiresAt'', JStr ''2027-01-01''), (''nonce'', JStr ''n1'')]"

theorem license_payload_typed_witness:
  "case parseLicenseKey (\<lambda>s. if s = ''{}'' then Some demo_payload else None) (\<lambda>d. if d = [] then None else Some 1) ''e30.AAEC'' of
     Inr k \<Rightarrow> payload_ok (\<lambda>d. if d = [] then None else Some 1) (pk_payload k) \<and> lp_seats (pk_payload k) = 5
   | Inl _ \<Rightarrow> False"
proof -
  let ?dp = "\<lambda>d :: string. if d = [] then None else Some (1 :: ms)"
  let ?jp = "\<lambda>s. if s = ''{}'' then Some demo_payload else None"
  have ran: "case parseLicenseKey ?jp ?dp ''e30.AAEC'' of Inr k \<Rightarrow> lp_seats (pk_payload k) = 5 | Inl _ \<Rightarrow> False"
    by code_simp
  then obtain k where k: "parseLicenseKey ?jp ?dp ''e30.AAEC'' = Inr k" by (auto split: sum.splits)
  show ?thesis using ran license_payload_typed [OF k] by (simp only: k sum.case)
qed

lemma split_two:
  "js_split d s = [a, b] \<longleftrightarrow> s = a @ d # b \<and> d \<notin> set a \<and> d \<notin> set b"
proof
  assume h: "js_split d s = [a, b]"
  then have "s = js_join [d] [a, b]" using js_join_split [of d s] by simp
  moreover have "d \<notin> set a" "d \<notin> set b" using set_js_split [of _ d s] h by auto
  ultimately show "s = a @ d # b \<and> d \<notin> set a \<and> d \<notin> set b" by simp
qed (simp add: js_split_append js_split_no_sep)

lemma base64url_no_dot: "BASE64URL_PATTERN s \<Longrightarrow> CHR ''.'' \<notin> set s"
proof -
  have "\<not> is_base64url CHR ''.''" by code_simp
  then show "BASE64URL_PATTERN s \<Longrightarrow> CHR ''.'' \<notin> set s" by (auto simp: BASE64URL_PATTERN_def list_all_iff)
qed

lemma parseLicenseKey_Inr:
  "parseLicenseKey jp dp key = Inr k \<longleftrightarrow>
     (\<exists>p s v. key = p @ ''.'' @ s \<and> BASE64URL_PATTERN p \<and> BASE64URL_PATTERN s \<and> jp (base64url_decode p) = Some v \<and>
        assertIsLicensePayload dp v = Inr (pk_payload k) \<and> pk_payloadBytes k = base64url_decode p \<and>
        pk_signature k = base64url_decode s)" (is "?l \<longleftrightarrow> ?r")
proof
  assume ?l
  then obtain p s v where "js_split (CHR ''.'') key = [p, s]" "BASE64URL_PATTERN p" "BASE64URL_PATTERN s"
    "jp (base64url_decode p) = Some v" "assertIsLicensePayload dp v = Inr (pk_payload k)"
    "pk_payloadBytes k = base64url_decode p" "pk_signature k = base64url_decode s"
    by (auto simp: parseLicenseKey_def check_then_Inr Let_def split: list.splits option.splits if_splits)
  then show ?r unfolding split_two by auto
next
  assume ?r
  then obtain p s v where h: "key = p @ ''.'' @ s" "BASE64URL_PATTERN p" "BASE64URL_PATTERN s" "jp (base64url_decode p) = Some v"
    "assertIsLicensePayload dp v = Inr (pk_payload k)" "pk_payloadBytes k = base64url_decode p" "pk_signature k = base64url_decode s"
    by blast
  then have "js_split (CHR ''.'') key = [p, s]" by (simp add: split_two base64url_no_dot)
  with h show ?l by (simp add: parseLicenseKey_def check_then_def Let_def)
qed

text \<open>The license has not expired, and the clock is not behind the history by more than the tolerance.\<close>

definition not_expired :: "('w, 'k) license_env \<Rightarrow> license_payload \<Rightarrow> ms \<Rightarrow> bool" where
  "not_expired L p now \<longleftrightarrow>
     (case lp_expiresAt p of None \<Rightarrow> True
      | Some e \<Rightarrow> e = [] \<or> (case li_dateParse L e of None \<Rightarrow> True | Some t \<Rightarrow> now \<le> t))"

lemma expiry_step:
  "(case lp_expiresAt p of
      Some (c # cs) \<Rightarrow>
        (case li_dateParse L (c # cs) of
           Some t \<Rightarrow> if now > t then throw (LicenseExpiredError (''License expired at '' @ c # cs)) else ret ()
         | None \<Rightarrow> ret ())
    | _ \<Rightarrow> ret ()) w = (Inr u, w') \<longleftrightarrow> not_expired L p now \<and> w' = w"
  by (auto simp: not_expired_def split: option.splits list.splits)

lemma boot_validation_iff:
  "fst (validateOnBoot L now now' w) = LicenseValid p \<longleftrightarrow>
   (\<exists>body sig v key latest w'. li_licenseKey L = body @ ''.'' @ sig \<and> BASE64URL_PATTERN body \<and> BASE64URL_PATTERN sig \<and>
      li_jsonParse L (base64url_decode body) = Some v \<and> assertIsLicensePayload (li_dateParse L) v = Inr p \<and>
      loadEd25519PublicKey (li_crypto L) (li_publicKeyMaterial L) = Inr key \<and>
      cy_verify (li_crypto L) (base64url_decode body) key (base64url_decode sig) = Some True \<and>
      not_expired L p now \<and>
      getLatestCommitTimestamp L w = (Inr latest, w') \<and>
      (case latest of None \<Rightarrow> True | Some t \<Rightarrow> t - now' \<le> li_clockToleranceMs L))"
proof -
  have roll: "assertNoClockRollback f now' latest tol = Inr u \<longleftrightarrow> (case latest of None \<Rightarrow> True | Some t \<Rightarrow> t - now' \<le> tol)" for f latest tol u
    by (auto simp: assertNoClockRollback_def Let_def split: option.splits)
  have ver: "verifyEd25519Signature (li_crypto L) a b m = Inr True \<longleftrightarrow>
      (\<exists>key. loadEd25519PublicKey (li_crypto L) m = Inr key \<and> cy_verify (li_crypto L) a key b = Some True)" for a b m
    by (auto simp: verifyEd25519Signature_def check_then_Inr split: option.splits)
  have "fst (validateOnBoot L now now' w) = LicenseValid p \<longleftrightarrow> (\<exists>w'. validate_checks L now now' w = (Inr p, w'))"
    by (auto simp: validateOnBoot_def split: prod.splits sum.splits)
  also have "\<dots> \<longleftrightarrow> (\<exists>k latest w'. parseLicenseKey (li_jsonParse L) (li_dateParse L) (li_licenseKey L) = Inr k \<and> pk_payload k = p \<and>
      verifyEd25519Signature (li_crypto L) (pk_payloadBytes k) (pk_signature k) (li_publicKeyMaterial L) = Inr True \<and>
      not_expired L p now \<and> getLatestCommitTimestamp L w = (Inr latest, w') \<and>
      (case latest of None \<Rightarrow> True | Some t \<Rightarrow> t - now' \<le> li_clockToleranceMs L))"
    unfolding validate_checks_def by (auto simp: and_then_Inr expiry_step roll split: if_splits)
  also have "\<dots> \<longleftrightarrow> (\<exists>body sig v key latest w'. li_licenseKey L = body @ ''.'' @ sig \<and> BASE64URL_PATTERN body \<and> BASE64URL_PATTERN sig \<and>
      li_jsonParse L (base64url_decode body) = Some v \<and> assertIsLicensePayload (li_dateParse L) v = Inr p \<and>
      loadEd25519PublicKey (li_crypto L) (li_publicKeyMaterial L) = Inr key \<and>
      cy_verify (li_crypto L) (base64url_decode body) key (base64url_decode sig) = Some True \<and> not_expired L p now \<and>
      getLatestCommitTimestamp L w = (Inr latest, w') \<and>
      (case latest of None \<Rightarrow> True | Some t \<Rightarrow> t - now' \<le> li_clockToleranceMs L))" (is "?l \<longleftrightarrow> ?r")
  proof
    assume ?l
    then show ?r unfolding parseLicenseKey_Inr ver by metis
  next
    assume ?r
    then obtain body sig v key latest w' where h: "li_licenseKey L = body @ ''.'' @ sig" "BASE64URL_PATTERN body" "BASE64URL_PATTERN sig"
      "li_jsonParse L (base64url_decode body) = Some v" "assertIsLicensePayload (li_dateParse L) v = Inr p"
      "loadEd25519PublicKey (li_crypto L) (li_publicKeyMaterial L) = Inr key"
      "cy_verify (li_crypto L) (base64url_decode body) key (base64url_decode sig) = Some True" "not_expired L p now"
      "getLatestCommitTimestamp L w = (Inr latest, w')" "case latest of None \<Rightarrow> True | Some t \<Rightarrow> t - now' \<le> li_clockToleranceMs L"
      by blast
    let ?k = "\<lparr>pk_payloadBytes = base64url_decode body, pk_payload = p, pk_signature = base64url_decode sig\<rparr>"
    have "parseLicenseKey (li_jsonParse L) (li_dateParse L) (li_licenseKey L) = Inr ?k"
      unfolding parseLicenseKey_Inr using h by auto
    with h ver show ?l by (intro exI [of _ ?k] exI [of _ latest] exI [of _ w']) auto
  qed
  finally show ?thesis .
qed

text \<open>
  C14. The license is accepted exactly when the key has two base64url segments, the first decodes to a
  well-formed payload, the configured public key verifies the second as its signature, the expiry
  has not passed, the history could be read, and the clock is not behind its latest commit by more
  than the tolerance. Every other case, errors of the key, of the binary and of the verification
  included, is a refusal.
\<close>

theorem license_valid_iff:
  "fst (validateOnBoot L now now' w) = LicenseValid p \<longleftrightarrow>
   (\<exists>body sig v key latest w'. li_licenseKey L = body @ ''.'' @ sig \<and> BASE64URL_PATTERN body \<and> BASE64URL_PATTERN sig \<and>
      li_jsonParse L (base64url_decode body) = Some v \<and> assertIsLicensePayload (li_dateParse L) v = Inr p \<and>
      loadEd25519PublicKey (li_crypto L) (li_publicKeyMaterial L) = Inr key \<and>
      cy_verify (li_crypto L) (base64url_decode body) key (base64url_decode sig) = Some True \<and>
      not_expired L p now \<and>
      getLatestCommitTimestamp L w = (Inr latest, w') \<and>
      (case latest of None \<Rightarrow> True | Some t \<Rightarrow> t - now' \<le> li_clockToleranceMs L))"
  by (rule boot_validation_iff)

end
