(* ===== verification/AddonTrust.thy ===== *)
theory AddonTrust
  imports Licensing AuthRouter
begin

text \<open>
  Trust in the authors of community addons (\<open>contexts/addons\<close>): the port and its libSQL store
  (\<open>addon-trust-store.ts\<close>, \<open>libsql-addon-trust-store.ts\<close>) and the routes by which a global
  administrator lists, registers and revokes keys (\<open>addons.router.ts\<close>).

  The store is specified as a map from addon names to records, and the routes as steps on that map.
\<close>

section \<open>AddonTrustStore\<close>

record addon_trust_record =
  tr_addonName :: string
  tr_authorPublicKey :: string
  tr_trustedAt :: ms
  tr_trustedBy :: string

record 't trust_store =
  ts_trust :: "addon_trust_record \<Rightarrow> 't \<Rightarrow> 't"
  ts_getTrustedKey :: "string \<Rightarrow> 't \<Rightarrow> addon_trust_record option"
  ts_revokeTrust :: "string \<Rightarrow> 't \<Rightarrow> 't"
  ts_listTrusted :: "'t \<Rightarrow> addon_trust_record list"

section \<open>LibsqlAddonTrustStore\<close>

type_synonym trust_db = "addon_trust_record list"

text \<open>\<open>INSERT ... ON CONFLICT(addon_name) DO UPDATE\<close> of every other column.\<close>

definition sql_ts_trust :: "addon_trust_record \<Rightarrow> trust_db \<Rightarrow> trust_db" where
  "sql_ts_trust r t =
     (case sql_insert tr_addonName r t of
        Some t' \<Rightarrow> t'
      | None \<Rightarrow> fst (sql_update (\<lambda>x. tr_addonName x = tr_addonName r)
          (\<lambda>x. x\<lparr>tr_authorPublicKey := tr_authorPublicKey r, tr_trustedAt := tr_trustedAt r,
                 tr_trustedBy := tr_trustedBy r\<rparr>) t))"

definition sql_ts_getTrustedKey :: "string \<Rightarrow> trust_db \<Rightarrow> addon_trust_record option" where
  "sql_ts_getTrustedKey addonName t = sql_get tr_addonName addonName t"

definition sql_ts_revokeTrust :: "string \<Rightarrow> trust_db \<Rightarrow> trust_db" where
  "sql_ts_revokeTrust addonName t = fst (sql_delete (\<lambda>r. tr_addonName r = addonName) t)"

definition sql_ts_listTrusted :: "trust_db \<Rightarrow> addon_trust_record list" where
  "sql_ts_listTrusted t = t"

definition libsqlAddonTrustStore :: "trust_db trust_store" where
  "libsqlAddonTrustStore =
     \<lparr>ts_trust = sql_ts_trust, ts_getTrustedKey = sql_ts_getTrustedKey,
      ts_revokeTrust = sql_ts_revokeTrust, ts_listTrusted = sql_ts_listTrusted\<rparr>"

lemma libsqlAddonTrustStore_sel [simp]:
  "ts_trust libsqlAddonTrustStore = sql_ts_trust"
  "ts_getTrustedKey libsqlAddonTrustStore = sql_ts_getTrustedKey"
  "ts_revokeTrust libsqlAddonTrustStore = sql_ts_revokeTrust"
  "ts_listTrusted libsqlAddonTrustStore = sql_ts_listTrusted"
  by (simp_all add: libsqlAddonTrustStore_def)

section \<open>addons.router.ts\<close>

text \<open>Base64 with the standard alphabet and padding, as \<open>toString('base64')\<close> writes it.\<close>

definition b64_digit :: "nat \<Rightarrow> char" where
  "b64_digit n =
     (if n < 26 then char_of (n + 65) else if n < 52 then char_of (n + 71) else if n < 62 then char_of (n - 4)
      else if n = 62 then CHR ''+'' else CHR ''/'')"

fun b64_encode :: "nat list \<Rightarrow> string" where
  "b64_encode (a # b # c # r) =
     b64_digit (a div 4) # b64_digit (16 * (a mod 4) + b div 16) # b64_digit (4 * (b mod 16) + c div 64) #
     b64_digit (c mod 64) # b64_encode r"
| "b64_encode [a, b] =
     [b64_digit (a div 4), b64_digit (16 * (a mod 4) + b div 16), b64_digit (4 * (b mod 16)), CHR ''='']"
| "b64_encode [a] = [b64_digit (a div 4), b64_digit (16 * (a mod 4)), CHR ''='', CHR ''='']"
| "b64_encode [] = []"

definition toString_base64 :: "string \<Rightarrow> string" where
  "toString_base64 bytes = b64_encode (map of_char bytes)"

definition isValidRawEd25519PublicKeyBase64 :: "string \<Rightarrow> bool" where
  "isValidRawEd25519PublicKeyBase64 value =
     (let decoded = base64_decode value in length decoded = 32 \<and> toString_base64 decoded = value)"

text \<open>\<open>/^[a-z0-9][a-z0-9-]*$/\<close>\<close>

definition kebab_case :: "string \<Rightarrow> bool" where
  "kebab_case s \<longleftrightarrow>
     (case s of [] \<Rightarrow> False
      | c # cs \<Rightarrow> (is_lower c \<or> is_digit c) \<and> list_all (\<lambda>d. is_lower d \<or> is_digit d \<or> d = CHR ''-'') cs)"

definition trustRequestSchema :: "json \<Rightarrow> (string \<times> string) option" where
  "trustRequestSchema j =
     (case (z_string 1 128 ''addonName'' j, jfield ''authorPublicKey'' j) of
        (Some name, Some (JStr key)) \<Rightarrow>
          if kebab_case name \<and> isValidRawEd25519PublicKeyBase64 key then Some (name, key) else None
      | _ \<Rightarrow> None)"

datatype addons_body = ADError string | ADTrusted "addon_trust_record list" | ADOk

type_synonym ('u, 's, 't) addons_state = "('u, 's) auth_state \<times> 't"

definition addons_authenticate :: "string option \<Rightarrow> (string \<Rightarrow> auth_error + jwt_payload) \<Rightarrow> string option" where
  "addons_authenticate authHeader jwtVerify =
     (case authHeader of
        None \<Rightarrow> None
      | Some h \<Rightarrow>
          if \<not> js_startsWith h ''Bearer '' then None
          else let token = js_trim (drop 7 h)
               in if token = [] then None
                  else case verifyAccessToken jwtVerify token of
                         Inl _ \<Rightarrow> None
                       | Inr claims \<Rightarrow> Some (cl_sub claims))"

text \<open>The two checks that open every route.\<close>

definition addons_gate ::
  "('u, 's) auth_env \<Rightarrow> http_request \<Rightarrow> (string \<Rightarrow> 't \<Rightarrow> addons_body response \<times> 't) \<Rightarrow>
   ('u, 's, 't) addons_state \<Rightarrow> addons_body response \<times> ('u, 's, 't) addons_state" where
  "addons_gate E c inner s =
     (case addons_authenticate (rq_authorization c) (ae_jwtVerify E) of
        None \<Rightarrow> (reply 401 (ADError ''Unauthorized''), s)
      | Some username \<Rightarrow>
          if \<not> auth_isGlobalAdmin E username (fst s) then (reply 403 (ADError ''Global admin access required''), s)
          else let (r, t) = inner username (snd s) in (r, fst s, t))"

definition get_trust ::
  "('u, 's) auth_env \<Rightarrow> 't trust_store \<Rightarrow> http_request \<Rightarrow> ('u, 's, 't) addons_state \<Rightarrow>
   addons_body response \<times> ('u, 's, 't) addons_state" where
  "get_trust E st c = addons_gate E c (\<lambda>_ t. (reply 200 (ADTrusted (ts_listTrusted st t)), t))"

definition post_trust ::
  "('u, 's) auth_env \<Rightarrow> 't trust_store \<Rightarrow> http_request \<Rightarrow> ms \<Rightarrow> ('u, 's, 't) addons_state \<Rightarrow>
   addons_body response \<times> ('u, 's, 't) addons_state" where
  "post_trust E st c dateNow = addons_gate E c (\<lambda>username t.
     case trustRequestSchema (body_or_null (rq_json c)) of
       None \<Rightarrow> (reply 400 (ADError ''Invalid request body''), t)
     | Some (name, key) \<Rightarrow>
         (reply 200 ADOk,
          ts_trust st \<lparr>tr_addonName = name, tr_authorPublicKey = key, tr_trustedAt = dateNow, tr_trustedBy = username\<rparr> t))"

definition post_revoke ::
  "('u, 's) auth_env \<Rightarrow> 't trust_store \<Rightarrow> http_request \<Rightarrow> ('u, 's, 't) addons_state \<Rightarrow>
   addons_body response \<times> ('u, 's, 't) addons_state" where
  "post_revoke E st c = addons_gate E c (\<lambda>_ t.
     case z_string 1 128 ''addonName'' (body_or_null (rq_json c)) of
       None \<Rightarrow> (reply 400 (ADError ''Invalid request body''), t)
     | Some name \<Rightarrow> (reply 200 ADOk, ts_revokeTrust st name t))"

datatype addons_route = GetTrust | PostTrust ms | PostRevoke

fun addons_handle ::
  "('u, 's) auth_env \<Rightarrow> 't trust_store \<Rightarrow> addons_route \<Rightarrow> http_request \<Rightarrow> ('u, 's, 't) addons_state \<Rightarrow>
   addons_body response \<times> ('u, 's, 't) addons_state" where
  "addons_handle E st GetTrust c s = get_trust E st c s"
| "addons_handle E st (PostTrust dateNow) c s = post_trust E st c dateNow s"
| "addons_handle E st PostRevoke c s = post_revoke E st c s"

section \<open>The store as a map\<close>

text \<open>
  What a request means for the map of trusted keys: nothing, unless the caller is a global
  administrator and the body is valid.
\<close>

definition trust_spec ::
  "('u, 's) auth_env \<Rightarrow> ('u, 's) auth_state \<Rightarrow> addons_route \<times> http_request \<Rightarrow>
   (string \<rightharpoonup> addon_trust_record) \<Rightarrow> (string \<rightharpoonup> addon_trust_record)" where
  "trust_spec E a = (\<lambda>(route, c) m.
     case authenticateBearerToken (rq_authorization c) (ae_jwtVerify E) of
       None \<Rightarrow> m
     | Some user \<Rightarrow>
         if \<not> auth_isGlobalAdmin E user a then m
         else case route of
                GetTrust \<Rightarrow> m
              | PostTrust now \<Rightarrow>
                  (case trustRequestSchema (body_or_null (rq_json c)) of
                     None \<Rightarrow> m
                   | Some (name, key) \<Rightarrow>
                       m(name \<mapsto> \<lparr>tr_addonName = name, tr_authorPublicKey = key, tr_trustedAt = now, tr_trustedBy = user\<rparr>))
              | PostRevoke \<Rightarrow>
                  (case z_string 1 128 ''addonName'' (body_or_null (rq_json c)) of
                     None \<Rightarrow> m
                   | Some name \<Rightarrow> m(name := None)))"

definition addons_run ::
  "('u, 's) auth_env \<Rightarrow> 't trust_store \<Rightarrow> (addons_route \<times> http_request) list \<Rightarrow> ('u, 's, 't) addons_state \<Rightarrow>
   ('u, 's, 't) addons_state" where
  "addons_run E st = fold (\<lambda>(route, c) s. snd (addons_handle E st route c s))"

lemma addons_authenticate_eq: "addons_authenticate = authenticateBearerToken"
  by (simp add: fun_eq_iff addons_authenticate_def authenticateBearerToken_def)

locale trust_port =
  fixes st :: "'t trust_store" and ok :: "'t \<Rightarrow> bool"
  assumes trust_ok: "ok t \<Longrightarrow> ok (ts_trust st r t)"
    and revoke_ok: "ok t \<Longrightarrow> ok (ts_revokeTrust st name t)"
    and get_trust_eq: "ok t \<Longrightarrow> ts_getTrustedKey st k (ts_trust st r t) =
      (if k = tr_addonName r then Some r else ts_getTrustedKey st k t)"
    and get_revoke: "ok t \<Longrightarrow> ts_getTrustedKey st k (ts_revokeTrust st name t) =
      (if k = name then None else ts_getTrustedKey st k t)"
    and list_eq: "ok t \<Longrightarrow> r \<in> set (ts_listTrusted st t) \<longleftrightarrow> ts_getTrustedKey st (tr_addonName r) t = Some r"
begin

definition abs_trust :: "'t \<Rightarrow> string \<Rightarrow> addon_trust_record option" where
  "abs_trust t = (\<lambda>k. ts_getTrustedKey st k t)"

lemma abs_trust_steps:
  assumes "ok t"
  shows "abs_trust (ts_trust st r t) = (abs_trust t)(tr_addonName r \<mapsto> r)"
    and "abs_trust (ts_revokeTrust st name t) = (abs_trust t)(name := None)"
  using assms by (auto simp: abs_trust_def get_trust_eq get_revoke)

lemma handle_refines:
  assumes "ok t" and "addons_handle E st route c (a, t) = (r, s')"
  shows "fst s' = a" and "ok (snd s')" and "abs_trust (snd s') = trust_spec E a (route, c) (abs_trust t)"
  using assms
  by (cases route; auto simp: get_trust_def post_trust_def post_revoke_def addons_gate_def addons_authenticate_eq
      trust_spec_def abs_trust_steps trust_ok revoke_ok Let_def split: option.splits if_splits prod.splits)+

lemma run_refines:
  assumes "ok t"
  shows "fst (addons_run E st reqs (a, t)) = a \<and> ok (snd (addons_run E st reqs (a, t))) \<and>
         abs_trust (snd (addons_run E st reqs (a, t))) = fold (trust_spec E a) reqs (abs_trust t)"
  using assms
proof (induction reqs arbitrary: t)
  case Nil
  then show ?case by (simp add: addons_run_def)
next
  case (Cons req reqs)
  obtain route c where req: "req = (route, c)" by (cases req)
  obtain r s' where h: "addons_handle E st route c (a, t) = (r, s')" by (cases "addons_handle E st route c (a, t)")
  obtain t' where s': "s' = (a, t')" using handle_refines(1) [OF Cons.prems h] by (cases s') auto
  have run: "addons_run E st ((route, c) # reqs) (a, t) = addons_run E st reqs (a, t')"
    by (simp add: addons_run_def h s')
  show ?case
    using Cons.IH [of t'] handle_refines [OF Cons.prems h] by (simp add: run req s')
qed

end

lemma sql_ts_trust_get:
  assumes "keyed tr_addonName t"
  shows "sql_get tr_addonName k (sql_ts_trust r t) = (if k = tr_addonName r then Some r else sql_get tr_addonName k t)"
proof (cases "sql_insert tr_addonName r t")
  case None
  let ?f = "\<lambda>x. x\<lparr>tr_authorPublicKey := tr_authorPublicKey r, tr_trustedAt := tr_trustedAt r, tr_trustedBy := tr_trustedBy r\<rparr>"
  let ?p = "\<lambda>x. tr_addonName x = tr_addonName r"
  from None obtain q where q: "sql_get tr_addonName (tr_addonName r) t = Some q"
    by (auto simp: sql_insert_None_iff)
  have "sql_get tr_addonName k (fst (sql_update ?p ?f t)) =
      map_option (\<lambda>x. if ?p x then ?f x else x) (sql_get tr_addonName k t)"
    by (rule sql_get_update) simp
  with None q sql_get_Some_key [OF q] show ?thesis
    by (auto simp: sql_ts_trust_def dest!: sql_get_Some_key split: option.splits intro!: option.map_ident_strong)
next
  case (Some u)
  then show ?thesis by (simp add: sql_ts_trust_def sql_get_insert)
qed

lemma sql_ts_trust_keyed: "keyed tr_addonName t \<Longrightarrow> keyed tr_addonName (sql_ts_trust r t)"
  by (auto simp: sql_ts_trust_def keyed_insert intro!: keyed_update split: option.splits)

interpretation libsql_trust: trust_port libsqlAddonTrustStore "keyed tr_addonName"
  by unfold_locales
    (auto simp: sql_ts_trust_get sql_ts_trust_keyed sql_ts_getTrustedKey_def sql_ts_revokeTrust_def
      sql_ts_listTrusted_def keyed_delete sql_get_delete_key sql_get_mem dest: sql_get_Some_key)

section \<open>Properties\<close>

text \<open>
  C12. The trust store behind the routes refines a map from addon names to records: after any sequence
  of requests the key found for an addon is the one the specification gives, in which only valid
  requests of global administrators count, a registration replaces the key and a revocation removes
  it; the list of trusted records is the graph of that map.
\<close>

theorem trust_store_refines:
  "let t = snd (addons_run E libsqlAddonTrustStore reqs (a, [])); m = fold (trust_spec E a) reqs Map.empty
   in (\<forall>name. sql_ts_getTrustedKey name t = m name) \<and>
      set (sql_ts_listTrusted t) = {r. m (tr_addonName r) = Some r}"
proof -
  let ?t = "snd (addons_run E libsqlAddonTrustStore reqs (a, []))"
  have r: "keyed tr_addonName ?t" "libsql_trust.abs_trust ?t = fold (trust_spec E a) reqs (libsql_trust.abs_trust [])"
    using libsql_trust.run_refines [of "[]" E reqs a] by simp_all
  have "libsql_trust.abs_trust [] = Map.empty"
    by (simp add: libsql_trust.abs_trust_def sql_ts_getTrustedKey_def)
  with r(2) have m: "sql_ts_getTrustedKey name ?t = fold (trust_spec E a) reqs Map.empty name" for name
    by (metis libsql_trust.abs_trust_def libsqlAddonTrustStore_sel(2))
  then show ?thesis
    using libsql_trust.list_eq [OF r(1)] by (auto simp: Let_def)
qed

text \<open>Base64: what is written is read back.\<close>

definition b64_code :: "nat \<Rightarrow> nat" where
  "b64_code n = (if n < 26 then n + 65 else if n < 52 then n + 71 else if n < 62 then n - 4 else if n = 62 then 43 else 47)"

lemma of_char_b64_digit: "of_char (b64_digit n) = b64_code n"
  by (simp add: b64_digit_def b64_code_def of_char_of)

lemma b64_digit_neq: "b64_digit n \<noteq> c" if "b64_code n \<noteq> of_char c"
  using that of_char_b64_digit [of n] by auto

definition is_base64 :: "char \<Rightarrow> bool" where
  "is_base64 c \<longleftrightarrow> is_base64url c \<or> c = CHR ''+'' \<or> c = CHR ''/''"

lemma b64_digit_props [simp]:
  "is_base64 (b64_digit n)" "b64_digit n \<noteq> CHR ''=''" "b64_digit n \<noteq> CHR ''-''" "\<not> js_ws (b64_digit n)"
proof -
  show "is_base64 (b64_digit n)"
  proof (cases "n < 62")
    case True
    then show ?thesis
      by (auto simp: is_base64_def is_base64url_def is_alnum_def is_alpha_def is_upper_def is_lower_def is_digit_def
          of_char_b64_digit b64_code_def Let_def)
  next
    case False
    then show ?thesis by (simp add: is_base64_def b64_digit_def)
  qed
  show "b64_digit n \<noteq> CHR ''=''"
    by (rule b64_digit_neq) (auto simp: b64_code_def)
  show "b64_digit n \<noteq> CHR ''-''"
    by (rule b64_digit_neq) (auto simp: b64_code_def)
  show "\<not> js_ws (b64_digit n)"
    by (auto simp: js_ws_def of_char_b64_digit b64_code_def Let_def)
qed

lemma b64_value_digit [simp]: "n < 64 \<Longrightarrow> b64_value (b64_digit n) = n"
proof (cases "n < 62")
  case True
  then show ?thesis
    by (auto simp: b64_value_def is_upper_def is_lower_def is_digit_def of_char_b64_digit b64_code_def Let_def)
next
  case False
  assume "n < 64"
  with False have "n = 62 \<or> n = 63" by auto
  moreover have "b64_value CHR ''+'' = 62" "b64_value CHR ''/'' = 63" by code_simp+
  ultimately show ?thesis by (auto simp: b64_digit_def)
qed

text \<open>The digits that the reader keeps.\<close>

definition b64_chars :: "string \<Rightarrow> string" where
  "b64_chars s = filter (\<lambda>c. is_base64url c \<or> c = CHR ''+'' \<or> c = CHR ''/'') (takeWhile (\<lambda>c. c \<noteq> CHR ''='') s)"

lemma b64_chars_simps [simp]:
  "b64_chars [] = []" "b64_chars (CHR ''='' # s) = []" "b64_chars (b64_digit n # s) = b64_digit n # b64_chars s"
  using b64_digit_props(1,2) [of n] by (auto simp: b64_chars_def is_base64_def)

lemma b64_group:
  fixes a b c :: nat
  assumes "a < 256" "b < 256" "c < 256"
  shows "4 * (a div 4) + (16 * (a mod 4) + b div 16) div 16 = a"
    and "16 * ((16 * (a mod 4) + b div 16) mod 16) + (4 * (b mod 16) + c div 64) div 4 = b"
    and "64 * ((4 * (b mod 16) + c div 64) mod 4) + c mod 64 = c"
    and "a div 4 < 64" "16 * (a mod 4) + b div 16 < 64" "4 * (b mod 16) + c div 64 < 64"
proof -
  have y: "a div 4 < 64" "b div 16 < 16" "c div 64 < 4"
    using assms by (simp_all add: div_less_iff_less_mult)
  have m: "a mod 4 < 4" "b mod 16 < 16" by simp_all
  have d: "(16 * (a mod 4) + b div 16) div 16 = a mod 4" "(16 * (a mod 4) + b div 16) mod 16 = b div 16"
    "(4 * (b mod 16) + c div 64) div 4 = b mod 16" "(4 * (b mod 16) + c div 64) mod 4 = c div 64"
    using y by simp_all
  show "4 * (a div 4) + (16 * (a mod 4) + b div 16) div 16 = a"
    and "16 * ((16 * (a mod 4) + b div 16) mod 16) + (4 * (b mod 16) + c div 64) div 4 = b"
    and "64 * ((4 * (b mod 16) + c div 64) mod 4) + c mod 64 = c"
    unfolding d by simp_all
  show "a div 4 < 64" "16 * (a mod 4) + b div 16 < 64" "4 * (b mod 16) + c div 64 < 64"
    using y m by linarith+
qed

lemma b64_bytes_encode: "\<forall>n \<in> set ns. n < 256 \<Longrightarrow> b64_bytes (map b64_value (b64_chars (b64_encode ns))) = ns"
proof (induction ns rule: b64_encode.induct)
  case (1 a b c r)
  then have "a < 256" "b < 256" "c < 256" by simp_all
  note g = b64_group [OF this]
  have "c mod 64 < 64" by simp
  moreover have "b64_bytes (map b64_value (b64_chars (b64_encode r))) = r" using 1 by simp
  ultimately show ?case
    using g by (simp only: b64_encode.simps b64_chars_simps list.map b64_value_digit b64_bytes.simps)
next
  case (2 a b)
  then have "a < 256" "b < 256" "(0 :: nat) < 256" by simp_all
  from b64_group [OF this] show ?case by simp
next
  case (3 a)
  then have "a < 256" "(0 :: nat) < 256" "(0 :: nat) < 256" by simp_all
  from b64_group [OF this] show ?case by simp
qed simp

lemma base64_roundtrip: "base64_decode (toString_base64 bytes) = bytes"
proof -
  have "b64_bytes (map b64_value (b64_chars (toString_base64 bytes))) = map of_char bytes"
    unfolding toString_base64_def by (rule b64_bytes_encode) auto
  then show ?thesis by (simp add: base64_decode_def base64url_decode_def b64_chars_def)
qed

lemma js_ws_pad [simp]: "\<not> js_ws CHR ''=''"
  by code_simp

lemma b64_encode_chars: "c \<in> set (b64_encode ns) \<Longrightarrow> c \<noteq> CHR ''-'' \<and> \<not> js_ws c"
  by (induction ns rule: b64_encode.induct) auto

lemma js_trim_clean:
  assumes "\<And>c. c \<in> set s \<Longrightarrow> \<not> js_ws c"
  shows "js_trim s = s"
proof -
  have "dropWhile js_ws u = u" if "set u = set s" for u
    using assms that by (cases u) auto
  then show ?thesis by (simp add: js_trim_def js_trim_start_def)
qed

text \<open>
  A key that passes the check of the trust route is the base64 text of exactly 32 bytes, and the
  verifier reads these same bytes: it neither takes the text for a PEM block nor refuses it for its
  length.
\<close>

theorem trusted_key_readable:
  "isValidRawEd25519PublicKeyBase64 key \<longleftrightarrow>
   (\<exists>bytes. length bytes = 32 \<and> key = toString_base64 bytes \<and>
      loadEd25519PublicKey Y key = map_sum LicenseOtherError id (cy_rawKey Y bytes))"
proof
  assume v: "isValidRawEd25519PublicKeyBase64 key"
  let ?b = "base64_decode key"
  from v have b: "length ?b = 32" "toString_base64 ?b = key"
    by (simp_all add: isValidRawEd25519PublicKeyBase64_def Let_def)
  have chars: "c \<noteq> CHR ''-'' \<and> \<not> js_ws c" if "c \<in> set key" for c
    using that b(2) b64_encode_chars [of c "map of_char ?b"] by (simp add: toString_base64_def)
  then have trim: "js_trim key = key" by (intro js_trim_clean) simp
  have "\<not> js_startsWith key ''-----BEGIN''"
    using chars by (cases key) (auto simp: js_startsWith_def)
  then have "loadEd25519PublicKey Y key = map_sum LicenseOtherError id (cy_rawKey Y ?b)"
    by (simp add: loadEd25519PublicKey_def trim b(1) ED25519_RAW_KEY_LENGTH_def Let_def)
  with b show "\<exists>bytes. length bytes = 32 \<and> key = toString_base64 bytes \<and>
      loadEd25519PublicKey Y key = map_sum LicenseOtherError id (cy_rawKey Y bytes)"
    by (intro exI [of _ ?b]) simp
qed (auto simp: isValidRawEd25519PublicKeyBase64_def base64_roundtrip)

end
