(* ===== verification/Addons.thy ===== *)
theory Addons
  imports AddonTrust
begin

text \<open>
  Loading and running addons: the manifest schema and the capabilities of the SDK
  (\<open>packages/addon-sdk/src\<close>), the loader (\<open>addon-loader.ts\<close>, \<open>addon-signature.ts\<close>), the discovery at
  boot (\<open>addon-discovery.ts\<close>) and the circuit breaker around the routes of an addon
  (\<open>addon-circuit-breaker.ts\<close>).

  The file system, \<open>import()\<close> and \<open>JSON.parse\<close> are parameters; reading a file and importing a module
  act on the world, so two reads of one path may differ. The long dash in messages is written \<open>-\<close>.
\<close>

section \<open>packages/addon-sdk\<close>

definition ADDON_CAPABILITIES :: "string list" where
  "ADDON_CAPABILITIES = [''http:route'', ''db:read'', ''db:write'', ''nas:read'']"

definition isAddonCapability :: "string \<Rightarrow> bool" where
  "isAddonCapability value = (value \<in> set ADDON_CAPABILITIES)"

definition RESERVED_OFFICIAL_NAME_PREFIXES :: "string list" where
  "RESERVED_OFFICIAL_NAME_PREFIXES = [''deltix-'', ''official-'']"

datatype addon_tier = OfficialAddon | CommunityAddon

record addon_manifest =
  am_name :: string
  am_version :: string
  am_tier :: addon_tier
  am_entrypoint :: string
  am_capabilities :: "string list"
  am_authorPublicKey :: "string option"

text \<open>\<open>z.string().min(1)\<close>\<close>

definition z_nonempty :: "string \<Rightarrow> json \<Rightarrow> string option" where
  "z_nonempty k j = (case jfield k j of Some (JStr (c # cs)) \<Rightarrow> Some (c # cs) | _ \<Rightarrow> None)"

definition z_tier :: "json \<Rightarrow> addon_tier option" where
  "z_tier j =
     (case jfield ''tier'' j of
        Some (JStr t) \<Rightarrow> if t = ''official'' then Some OfficialAddon else if t = ''community'' then Some CommunityAddon else None
      | _ \<Rightarrow> None)"

definition z_capabilities :: "json \<Rightarrow> string list option" where
  "z_capabilities j =
     (case jfield ''capabilities'' j of
        Some (JArr cs) \<Rightarrow>
          if list_all (\<lambda>c. case json_str c of Some s \<Rightarrow> isAddonCapability s | None \<Rightarrow> False) cs
          then Some (map (the \<circ> json_str) cs) else None
      | _ \<Rightarrow> None)"

definition addonManifestSchema :: "json \<Rightarrow> addon_manifest option" where
  "addonManifestSchema j =
     (case (z_nonempty ''name'' j, z_nonempty ''version'' j, z_tier j, z_nonempty ''entrypoint'' j,
            z_capabilities j, z_opt_string 1 ''authorPublicKey'' j) of
        (Some name, Some version, Some tr, Some entrypoint, Some capabilities, Some authorPublicKey) \<Rightarrow>
          if tr = OfficialAddon \<or> \<not> list_ex (js_startsWith name) RESERVED_OFFICIAL_NAME_PREFIXES
          then Some \<lparr>am_name = name, am_version = version, am_tier = tr, am_entrypoint = entrypoint,
                     am_capabilities = capabilities, am_authorPublicKey = authorPublicKey\<rparr>
          else None
      | _ \<Rightarrow> None)"

section \<open>addon-signature.ts and paths\<close>

definition SEPARATOR :: string where
  "SEPARATOR = [CHR 0x00] @ ''DELTIX-ADDON'' @ [CHR 0x00]"

definition buildSignedPayload :: "string \<Rightarrow> string \<Rightarrow> string" where
  "buildSignedPayload manifestBytes entrypointBytes = manifestBytes @ SEPARATOR @ entrypointBytes"

text \<open>
  \<open>join\<close> of \<open>node:path\<close>: empty and \<open>.\<close> segments vanish, \<open>..\<close> removes the segment before it.
\<close>

fun norm_segments :: "bool \<Rightarrow> string list \<Rightarrow> string list \<Rightarrow> string list" where
  "norm_segments absolute acc [] = rev acc"
| "norm_segments absolute acc (s # ss) =
     (if s = [] \<or> s = ''.'' then norm_segments absolute acc ss
      else if s = ''..''
      then (case acc of
              [] \<Rightarrow> norm_segments absolute (if absolute then [] else [s]) ss
            | t # ts \<Rightarrow> if t = ''..'' then norm_segments absolute (s # acc) ss else norm_segments absolute ts ss)
      else norm_segments absolute (s # acc) ss)"

definition node_join :: "string \<Rightarrow> string \<Rightarrow> string" where
  "node_join a b =
     (let joined = js_join ''/'' (filter (\<lambda>s. s \<noteq> []) [a, b]);
          absolute = js_startsWith joined ''/'';
          body = js_join ''/'' (norm_segments absolute [] (js_split (CHR ''/'') joined))
      in if joined = [] then ''.''
         else if body = [] then (if absolute then ''/'' else if js_endsWith joined ''/'' then ''./'' else ''.'')
         else (if absolute then ''/'' else []) @ body @ (if js_endsWith joined ''/'' then ''/'' else []))"

section \<open>addon-loader.ts\<close>

datatype addon_error =
    AddonManifestInvalidError string
  | AddonCapabilityDeniedError string
  | AddonSignatureInvalidError string
  | AddonNotTrustedError string
  | AddonLicenseDeniedError string
  | AddonLimitExceededError string
  | AddonOtherError string

text \<open>
  \<open>Inl\<close> of a read or an import is the message of the error that was thrown; an imported module whose
  default export has no \<open>activate\<close> function is \<open>None\<close>. The message of a failed \<open>safeParse\<close> is
  \<open>ld_zodMessage\<close>.
\<close>

record ('t, 'w, 'k, 'm) addon_deps =
  ld_officialPublicKey :: string
  ld_trustStore :: "'t trust_store"
  ld_addonsConfig :: addons_config
  ld_freeOfficialAddons :: "string list"
  ld_readFile :: "string \<Rightarrow> ('w, string, string) op"
  ld_import :: "string \<Rightarrow> ('w, string, 'm option) op"
  ld_jsonParse :: "string \<Rightarrow> json option"
  ld_zodMessage :: "json \<Rightarrow> string"
  ld_crypto :: "'k crypto_env"

record 'm loaded_addon =
  la_manifest :: addon_manifest
  la_module :: 'm

definition manifest_path :: "string \<Rightarrow> string" where
  "manifest_path addonDir = node_join addonDir ''addon.manifest.json''"

text \<open>An operation of the file system whose error is translated.\<close>

definition io_or :: "('w, string, 'a) op \<Rightarrow> (string \<Rightarrow> addon_error) \<Rightarrow> ('w, addon_error, 'a) op" where
  "io_or m f = try_catch m (\<lambda>e. throw (f e))"

definition readAndValidateManifest ::
  "('t, 'w, 'k, 'm) addon_deps \<Rightarrow> string \<Rightarrow> ('w, addon_error, addon_manifest) op" where
  "readAndValidateManifest D addonDir =
     and_then (io_or (ld_readFile D (manifest_path addonDir))
        (\<lambda>_. AddonManifestInvalidError (''Missing addon.manifest.json at '' @ manifest_path addonDir))) (\<lambda>raw.
     case ld_jsonParse D raw of
       None \<Rightarrow> throw (AddonManifestInvalidError (''addon.manifest.json at '' @ manifest_path addonDir @ '' is not valid JSON''))
     | Some parsedJson \<Rightarrow>
         (case addonManifestSchema parsedJson of
            None \<Rightarrow> throw (AddonManifestInvalidError (''addon.manifest.json at '' @ manifest_path addonDir @
                      '' failed validation: '' @ ld_zodMessage D parsedJson))
          | Some manifest \<Rightarrow> ret manifest))"

definition assertClosedCapabilities :: "addon_manifest \<Rightarrow> ('w, addon_error, unit) op" where
  "assertClosedCapabilities manifest =
     (case find (\<lambda>c. \<not> isAddonCapability c) (am_capabilities manifest) of
        None \<Rightarrow> ret ()
      | Some capability \<Rightarrow> throw (AddonCapabilityDeniedError (''Addon \"'' @ am_name manifest @
          ''\" requested unknown capability \"'' @ capability @ ''\" - refusing to load'')))"

definition readSignatureFile ::
  "('t, 'w, 'k, 'm) addon_deps \<Rightarrow> string \<Rightarrow> addon_manifest \<Rightarrow> ('w, addon_error, string) op" where
  "readSignatureFile D signaturePath manifest =
     io_or (ld_readFile D signaturePath) (\<lambda>_. AddonSignatureInvalidError
       (''Addon \"'' @ am_name manifest @ ''\" is missing its signature file at '' @ signaturePath))"

text \<open>A key that cannot be read makes the verification throw.\<close>

definition verify_or ::
  "'k crypto_env \<Rightarrow> string \<Rightarrow> string \<Rightarrow> string \<Rightarrow> addon_error \<Rightarrow> ('w, addon_error, unit) op" where
  "verify_or Y payload signature key refusal =
     (case verifyEd25519Signature Y payload signature key of
        Inl e \<Rightarrow> throw (AddonOtherError (license_message e))
      | Inr ok \<Rightarrow> if ok then ret () else throw refusal)"

definition verifySignature ::
  "('t, 'w, 'k, 'm) addon_deps \<Rightarrow> addon_manifest \<Rightarrow> string \<Rightarrow> string \<Rightarrow> string \<Rightarrow> 't \<Rightarrow> ('w, addon_error, unit) op" where
  "verifySignature D manifest manifestBytes entrypointBytes addonDir t =
     (let signaturePath = node_join addonDir ''addon.sig''; payload = buildSignedPayload manifestBytes entrypointBytes
      in if am_tier manifest = OfficialAddon
         then and_then (readSignatureFile D signaturePath manifest) (\<lambda>signature.
              verify_or (ld_crypto D) payload signature (ld_officialPublicKey D) (AddonSignatureInvalidError
                (''Official addon \"'' @ am_name manifest @ ''\" failed signature verification against the Deltix key'')))
         else case ts_getTrustedKey (ld_trustStore D) (am_name manifest) t of
                None \<Rightarrow> throw (AddonNotTrustedError (''Community addon \"'' @ am_name manifest @
                  ''\" has no TOFU trust record - an admin must register its author's public key before it can load''))
              | Some trusted \<Rightarrow>
                  and_then (readSignatureFile D signaturePath manifest) (\<lambda>signature.
                  verify_or (ld_crypto D) payload signature (tr_authorPublicKey trusted) (AddonSignatureInvalidError
                    (''Community addon \"'' @ am_name manifest @
                     ''\" signature does not match its trusted author key (key rotated without re-trust, or tampered package)''))))"

definition enforceLicenseRules :: "('t, 'w, 'k, 'm) addon_deps \<Rightarrow> addon_manifest \<Rightarrow> ('w, addon_error, unit) op" where
  "enforceLicenseRules D manifest =
     (if am_tier manifest = OfficialAddon
      then if am_name manifest \<notin> set (ld_freeOfficialAddons D) \<and>
              am_name manifest \<notin> set (ac_official (ld_addonsConfig D))
           then throw (AddonLicenseDeniedError (''Official addon \"'' @ am_name manifest @ ''\" is not authorized by this license''))
           else ret ()
      else if \<not> ac_communityAddonsEnabled (ld_addonsConfig D)
           then throw (AddonLicenseDeniedError (''Community addons are disabled by this license - refusing to load \"'' @
                  am_name manifest @ ''\"''))
           else ret ())"

text \<open>Everything up to the import; then the import itself.\<close>

definition check_addon ::
  "('t, 'w, 'k, 'm) addon_deps \<Rightarrow> string \<Rightarrow> 't \<Rightarrow> ('w, addon_error, addon_manifest) op" where
  "check_addon D addonDir t =
     and_then (readAndValidateManifest D addonDir) (\<lambda>manifest.
     and_then (assertClosedCapabilities manifest) (\<lambda>_.
     and_then (io_or (ld_readFile D (manifest_path addonDir)) AddonOtherError) (\<lambda>manifestBytes.
     and_then (io_or (ld_readFile D (node_join addonDir (am_entrypoint manifest))) AddonOtherError) (\<lambda>entrypointBytes.
     and_then (verifySignature D manifest manifestBytes entrypointBytes addonDir t) (\<lambda>_.
     and_then (enforceLicenseRules D manifest) (\<lambda>_.
     ret manifest))))))"

definition loadAddon ::
  "('t, 'w, 'k, 'm) addon_deps \<Rightarrow> string \<Rightarrow> 't \<Rightarrow> ('w, addon_error, 'm loaded_addon) op" where
  "loadAddon D addonDir t =
     and_then (check_addon D addonDir t) (\<lambda>manifest.
     and_then (io_or (ld_import D (node_join addonDir (am_entrypoint manifest))) AddonOtherError) (\<lambda>imported.
     case imported of
       None \<Rightarrow> throw (AddonManifestInvalidError (''Addon \"'' @ am_name manifest @
                 ''\" entrypoint must default-export an object with an activate() function''))
     | Some m \<Rightarrow> ret \<lparr>la_manifest = manifest, la_module = m\<rparr>))"

definition assertWithinCommunityAddonLimit :: "nat \<Rightarrow> addons_config \<Rightarrow> ('w, addon_error, unit) op" where
  "assertWithinCommunityAddonLimit communityAddonCount addonsConfig =
     (case ac_maxCommunityAddons addonsConfig of
        None \<Rightarrow> ret ()
      | Some n \<Rightarrow>
          if int communityAddonCount > n
          then throw (AddonLimitExceededError (''This license allows at most '' @ js_of_nat (nat n) @
                 '' community addon(s), but '' @ js_of_nat communityAddonCount @ '' were discovered''))
          else ret ())"

section \<open>addon-discovery.ts\<close>

text \<open>\<open>unknown\<close> is \<open>None\<close>. The peeks run concurrently; they only read, and the order of reads is that of the list.\<close>

definition peekTier :: "('t, 'w, 'k, 'm) addon_deps \<Rightarrow> string \<Rightarrow> 'w \<Rightarrow> addon_tier option \<times> 'w" where
  "peekTier D addonDir w =
     (case ld_readFile D (manifest_path addonDir) w of
        (Inl _, w') \<Rightarrow> (None, w')
      | (Inr raw, w') \<Rightarrow> (case ld_jsonParse D raw of None \<Rightarrow> None | Some j \<Rightarrow> z_tier j, w'))"

fun peek_all :: "('t, 'w, 'k, 'm) addon_deps \<Rightarrow> string list \<Rightarrow> 'w \<Rightarrow> addon_tier option list \<times> 'w" where
  "peek_all D [] w = ([], w)"
| "peek_all D (d # ds) w =
     (let (t, w') = peekTier D d w; (ts, w'') = peek_all D ds w' in (t # ts, w''))"

record 'm discovery_result =
  dr_loaded :: "'m loaded_addon list"
  dr_failures :: "(string \<times> addon_error) list"

fun load_all :: "('t, 'w, 'k, 'm) addon_deps \<Rightarrow> 't \<Rightarrow> string list \<Rightarrow> 'w \<Rightarrow> 'm discovery_result \<times> 'w" where
  "load_all D t [] w = (\<lparr>dr_loaded = [], dr_failures = []\<rparr>, w)"
| "load_all D t (d # ds) w =
     (let (r, w') = loadAddon D d t w; (rest, w'') = load_all D t ds w'
      in case r of
           Inr a \<Rightarrow> (rest\<lparr>dr_loaded := a # dr_loaded rest\<rparr>, w'')
         | Inl e \<Rightarrow> (rest\<lparr>dr_failures := (d, e) # dr_failures rest\<rparr>, w''))"

definition addon_dirs :: "string \<Rightarrow> string list" where
  "addon_dirs addonPathsCsv = filter (\<lambda>p. p \<noteq> []) (map js_trim (js_split (CHR '','') addonPathsCsv))"

definition discoverAndLoadAddons ::
  "('t, 'w, 'k, 'm) addon_deps \<Rightarrow> string \<Rightarrow> 't \<Rightarrow> ('w, addon_error, 'm discovery_result) op" where
  "discoverAndLoadAddons D addonPathsCsv t =
     and_then (\<lambda>w. map_prod Inr id (peek_all D (addon_dirs addonPathsCsv) w)) (\<lambda>tiers.
     and_then (assertWithinCommunityAddonLimit (length (filter (\<lambda>x. x = Some CommunityAddon) tiers)) (ld_addonsConfig D)) (\<lambda>_ w.
     map_prod Inr id (load_all D t (addon_dirs addonPathsCsv) w)))"

section \<open>addon-circuit-breaker.ts\<close>

text \<open>
  A request to a wrapped handler first looks whether the addon is disabled and then, possibly while
  other requests are in flight, settles with a response or an error.
\<close>

record breaker =
  cb_failureCounts :: "string \<Rightarrow> nat option"
  cb_disabled :: "string set"

definition cb_isDisabled :: "string \<Rightarrow> breaker \<Rightarrow> bool" where
  "cb_isDisabled addonName b \<longleftrightarrow> addonName \<in> cb_disabled b"

definition recordFailure :: "nat \<Rightarrow> string \<Rightarrow> breaker \<Rightarrow> breaker" where
  "recordFailure maxConsecutiveFailures addonName b =
     (let count = (case cb_failureCounts b addonName of Some n \<Rightarrow> n | None \<Rightarrow> 0) + 1;
          b' = b\<lparr>cb_failureCounts := (cb_failureCounts b)(addonName \<mapsto> count)\<rparr>
      in if count \<ge> maxConsecutiveFailures then b'\<lparr>cb_disabled := insert addonName (cb_disabled b')\<rparr> else b')"

text \<open>\<open>wrap\<close>: the entry of a request (\<open>Some\<close> is the response without calling the handler) and its end.\<close>

definition wrap_enter :: "string \<Rightarrow> breaker \<Rightarrow> (nat \<times> string) option" where
  "wrap_enter addonName b =
     (if addonName \<in> cb_disabled b then Some (503, ''Addon disabled after repeated failures'') else None)"

definition wrap_settle :: "nat \<Rightarrow> string \<Rightarrow> 'r option \<Rightarrow> breaker \<Rightarrow> ('r + nat \<times> string) \<times> breaker" where
  "wrap_settle maxConsecutiveFailures addonName outcome b =
     (case outcome of
        Some response \<Rightarrow> (Inl response, b\<lparr>cb_failureCounts := (cb_failureCounts b)(addonName \<mapsto> 0)\<rparr>)
      | None \<Rightarrow> (Inr (500, ''Addon route handler failed''), recordFailure maxConsecutiveFailures addonName b))"

section \<open>What is loaded\<close>

text \<open>The key a package must be signed with, and what the license says of it.\<close>

definition signing_key :: "('t, 'w, 'k, 'm) addon_deps \<Rightarrow> 't \<Rightarrow> addon_manifest \<Rightarrow> string option" where
  "signing_key D t m =
     (if am_tier m = OfficialAddon then Some (ld_officialPublicKey D)
      else map_option tr_authorPublicKey (ts_getTrustedKey (ld_trustStore D) (am_name m) t))"

definition licensed :: "('t, 'w, 'k, 'm) addon_deps \<Rightarrow> addon_manifest \<Rightarrow> bool" where
  "licensed D m \<longleftrightarrow>
     (if am_tier m = OfficialAddon
      then am_name m \<in> set (ld_freeOfficialAddons D) \<union> set (ac_official (ld_addonsConfig D))
      else ac_communityAddonsEnabled (ld_addonsConfig D))"

definition files_fixed :: "('t, 'w, 'k, 'm) addon_deps \<Rightarrow> (string \<Rightarrow> string option) \<Rightarrow> bool" where
  "files_fixed D fs \<longleftrightarrow>
     (\<forall>p w. ld_readFile D p w = (case fs p of Some b \<Rightarrow> Inr b | None \<Rightarrow> Inl ''ENOENT'', w))"

lemma io_or_Inr [op_simps]: "io_or m f w = (Inr x, w') \<longleftrightarrow> m w = (Inr x, w')"
  by (auto simp: io_or_def try_catch_def split: prod.splits sum.splits)

lemma files_fixed_read: "files_fixed D fs \<Longrightarrow> ld_readFile D p w = (Inr x, w') \<longleftrightarrow> fs p = Some x \<and> w' = w"
  by (auto simp: files_fixed_def split: option.splits)

lemma schema_capabilities: "addonManifestSchema j = Some m \<Longrightarrow> list_all isAddonCapability (am_capabilities m)"
  by (auto simp: addonManifestSchema_def z_capabilities_def list_all_iff split: option.splits if_splits json.splits)

lemma schema_tier: "addonManifestSchema j = Some m \<Longrightarrow> z_tier j = Some (am_tier m)"
  by (auto simp: addonManifestSchema_def split: option.splits if_splits)

lemma assertClosedCapabilities_Inr [op_simps]:
  "assertClosedCapabilities m w = (Inr u, w') \<longleftrightarrow> list_all isAddonCapability (am_capabilities m) \<and> w' = w"
  by (auto simp: assertClosedCapabilities_def list_all_iff find_None_iff split: option.splits dest: find_Some_D)

lemma enforceLicenseRules_Inr [op_simps]:
  "enforceLicenseRules D m w = (Inr u, w') \<longleftrightarrow> licensed D m \<and> w' = w"
  by (auto simp: enforceLicenseRules_def licensed_def)

lemma verify_or_Inr [op_simps]:
  "verify_or Y p s k e w = (Inr u, w') \<longleftrightarrow> verifyEd25519Signature Y p s k = Inr True \<and> w' = w"
  by (auto simp: verify_or_def split: sum.splits)

lemma verifySignature_Inr:
  "verifySignature D m mb eb dir t w = (Inr u, w') \<longleftrightarrow>
     (\<exists>key sig. signing_key D t m = Some key \<and> ld_readFile D (node_join dir ''addon.sig'') w = (Inr sig, w') \<and>
        verifyEd25519Signature (ld_crypto D) (buildSignedPayload mb eb) sig key = Inr True)"
  by (auto simp: verifySignature_def signing_key_def readSignatureFile_def op_simps Let_def split: option.splits if_splits)

lemma readAndValidateManifest_Inr:
  "readAndValidateManifest D dir w = (Inr m, w') \<longleftrightarrow>
     (\<exists>raw j. ld_readFile D (manifest_path dir) w = (Inr raw, w') \<and> ld_jsonParse D raw = Some j \<and>
        addonManifestSchema j = Some m)"
  by (auto simp: readAndValidateManifest_def op_simps split: option.splits)

text \<open>The package of a directory passes the checks of the loader and has this manifest.\<close>

definition admissible :: "('t, 'w, 'k, 'm) addon_deps \<Rightarrow> (string \<Rightarrow> string option) \<Rightarrow> 't \<Rightarrow> string \<Rightarrow> addon_manifest \<Rightarrow> bool" where
  "admissible D fs t dir m \<longleftrightarrow>
     (\<exists>manifestBytes j code sig key.
        fs (manifest_path dir) = Some manifestBytes \<and> ld_jsonParse D manifestBytes = Some j \<and> addonManifestSchema j = Some m \<and>
        fs (node_join dir (am_entrypoint m)) = Some code \<and> fs (node_join dir ''addon.sig'') = Some sig \<and>
        signing_key D t m = Some key \<and>
        verifyEd25519Signature (ld_crypto D) (buildSignedPayload manifestBytes code) sig key = Inr True \<and> licensed D m)"

lemma check_addon_Inr:
  assumes fx: "files_fixed D fs"
  shows "check_addon D dir t w = (Inr m, w') \<longleftrightarrow> admissible D fs t dir m \<and> w' = w"
proof
  assume "check_addon D dir t w = (Inr m, w')"
  then show "admissible D fs t dir m \<and> w' = w"
    unfolding check_addon_def
    by (elim and_then_InrE)
      (auto simp: readAndValidateManifest_Inr verifySignature_Inr files_fixed_read [OF fx] op_simps admissible_def)
next
  assume "admissible D fs t dir m \<and> w' = w"
  then obtain mb j code sig key where h: "fs (manifest_path dir) = Some mb" "ld_jsonParse D mb = Some j"
    "addonManifestSchema j = Some m" "fs (node_join dir (am_entrypoint m)) = Some code" "fs (node_join dir ''addon.sig'') = Some sig"
    "signing_key D t m = Some key" "verifyEd25519Signature (ld_crypto D) (buildSignedPayload mb code) sig key = Inr True"
    "licensed D m" and w: "w' = w"
    by (auto simp: admissible_def)
  show "check_addon D dir t w = (Inr m, w')"
    unfolding check_addon_def
    using h schema_capabilities [OF h(3)] by (auto simp: and_then_Inr readAndValidateManifest_Inr verifySignature_Inr files_fixed_read [OF fx] io_or_Inr
        enforceLicenseRules_Inr assertClosedCapabilities_Inr w)
qed

lemma loadAddon_Inr:
  assumes "files_fixed D fs"
  shows "loadAddon D dir t w = (Inr a, w') \<longleftrightarrow>
    admissible D fs t dir (la_manifest a) \<and>
    ld_import D (node_join dir (am_entrypoint (la_manifest a))) w = (Inr (Some (la_module a)), w')"
  unfolding loadAddon_def
  by (cases a) (auto simp: and_then_Inr io_or_Inr check_addon_Inr [OF assms] split: option.splits)

text \<open>
  C24. While the files do not change, an addon is loaded exactly when its manifest parses and satisfies
  the schema, the signature over manifest and code verifies under the key of its tier (the vendor's
  for official addons, the registered author's for community addons), the license allows it, and
  the import gives a module with an \<open>activate\<close> function.
\<close>

theorem addon_admission_exact:
  assumes "files_fixed D fs"
  shows "loadAddon D dir t w = (Inr a, w') \<longleftrightarrow>
    admissible D fs t dir (la_manifest a) \<and>
    ld_import D (node_join dir (am_entrypoint (la_manifest a))) w = (Inr (Some (la_module a)), w')"
  by (rule loadAddon_Inr [OF assms])

text \<open>A community addon in \<open>/opt/clock\<close>, signed with the key that is registered for its author.\<close>

definition demo_manifest :: json where
  "demo_manifest = JObj [(''name'', JStr ''clock''), (''version'', JStr ''1''), (''tier'', JStr ''community''),
     (''entrypoint'', JStr ''./main.js''), (''capabilities'', JArr [JStr ''http:route''])]"

definition demo_files :: "string \<Rightarrow> string option" where
  "demo_files p =
     (if p = ''/opt/clock/addon.manifest.json'' then Some ''M''
      else if p = ''/opt/clock/main.js'' then Some ''code''
      else if p = ''/opt/clock/addon.sig'' then Some ''sig'' else None)"

definition demo_key :: string where
  "demo_key = ''AAAAAAAAAAAAAAAAAAAAAAAAAAAAAAAAAAAAAAAAAAA=''"

definition demo_deps :: "(trust_db, unit, string, string) addon_deps" where
  "demo_deps =
     \<lparr>ld_officialPublicKey = [], ld_trustStore = libsqlAddonTrustStore,
      ld_addonsConfig = \<lparr>ac_official = [], ac_communityAddonsEnabled = True, ac_maxCommunityAddons = Some 1\<rparr>,
      ld_freeOfficialAddons = [],
      ld_readFile = (\<lambda>p w. (case demo_files p of Some b \<Rightarrow> Inr b | None \<Rightarrow> Inl ''ENOENT'', w)),
      ld_import = (\<lambda>p w. (Inr (Some p), w)),
      ld_jsonParse = (\<lambda>s. if s = ''M'' then Some demo_manifest else None), ld_zodMessage = (\<lambda>_. []),
      ld_crypto = \<lparr>cy_pemKey = Inr, cy_rawKey = Inr,
        cy_verify = (\<lambda>p k s. Some (p = buildSignedPayload ''M'' ''code'' \<and> k = replicate 32 (CHR 0x00) \<and> s = ''sig''))\<rparr>\<rparr>"

definition demo_trust :: trust_db where
  "demo_trust = [\<lparr>tr_addonName = ''clock'', tr_authorPublicKey = demo_key, tr_trustedAt = 0, tr_trustedBy = ''ann''\<rparr>]"

definition demo_loaded :: "string loaded_addon" where
  "demo_loaded =
     \<lparr>la_manifest = \<lparr>am_name = ''clock'', am_version = ''1'', am_tier = CommunityAddon, am_entrypoint = ''./main.js'',
        am_capabilities = [''http:route''], am_authorPublicKey = None\<rparr>, la_module = ''/opt/clock/main.js''\<rparr>"

lemma demo_fixed: "files_fixed demo_deps demo_files"
  by (simp add: files_fixed_def demo_deps_def)

theorem addon_admission_exact_witness:
  "loadAddon demo_deps ''/opt/clock'' demo_trust () = (Inr demo_loaded, ()) \<and>
   admissible demo_deps demo_files demo_trust ''/opt/clock'' (la_manifest demo_loaded)"
proof -
  have "loadAddon demo_deps ''/opt/clock'' demo_trust () = (Inr demo_loaded, ())" by code_simp
  with addon_admission_exact [OF demo_fixed, of "''/opt/clock''" demo_trust "()" demo_loaded "()"] show ?thesis by blast
qed

text \<open>
  \<open>import()\<close> happens only after every check has passed: either the checks end with a manifest, or
  the outcome of loading and the world it leaves are the same whatever importing would do.
\<close>

theorem addon_import_guarded:
  "(\<exists>m w'. check_addon D dir t w = (Inr m, w')) \<or>
   (\<forall>imp. loadAddon (D\<lparr>ld_import := imp\<rparr>) dir t w = loadAddon D dir t w)"
proof -
  have same: "check_addon (D\<lparr>ld_import := imp\<rparr>) dir t = check_addon D dir t" for imp
  proof -
    let ?D = "D\<lparr>ld_import := imp\<rparr>"
    have "readAndValidateManifest ?D = readAndValidateManifest D" "readSignatureFile ?D = readSignatureFile D"
      by (simp_all add: fun_eq_iff readAndValidateManifest_def readSignatureFile_def cong: option.case_cong)
    moreover from this have "verifySignature ?D = verifySignature D"
      by (intro ext) (simp add: verifySignature_def cong: option.case_cong if_cong)
    moreover have "enforceLicenseRules ?D = enforceLicenseRules D"
      by (intro ext) (simp add: enforceLicenseRules_def)
    ultimately show ?thesis by (simp add: check_addon_def)
  qed
  show ?thesis
  proof (cases "check_addon D dir t w")
    case (Pair r w')
    then show ?thesis by (cases r) (simp_all add: loadAddon_def same and_then_def)
  qed
qed

text \<open>Two signed payloads are equal only if manifests and code are, because JSON text has no NUL.\<close>

lemma signed_payload_inject:
  assumes "CHR 0x00 \<notin> set m" "CHR 0x00 \<notin> set m'" "buildSignedPayload m e = buildSignedPayload m' e'"
  shows "m = m' \<and> e = e'"
proof -
  have "takeWhile (\<lambda>c. c \<noteq> CHR 0x00) (buildSignedPayload x y) = x" if "CHR 0x00 \<notin> set x" for x y
    using that by (auto simp: buildSignedPayload_def SEPARATOR_def takeWhile_append)
  with assms have "m = m'" by metis
  with assms(3) show ?thesis by (simp add: buildSignedPayload_def)
qed

section \<open>The limit on community addons\<close>

definition file_tier :: "('t, 'w, 'k, 'm) addon_deps \<Rightarrow> (string \<Rightarrow> string option) \<Rightarrow> string \<Rightarrow> addon_tier option" where
  "file_tier D fs dir =
     (case fs (manifest_path dir) of
        None \<Rightarrow> None
      | Some raw \<Rightarrow> (case ld_jsonParse D raw of None \<Rightarrow> None | Some j \<Rightarrow> z_tier j))"

lemma peek_all_fixed: "files_fixed D fs \<Longrightarrow> peek_all D dirs w = (map (file_tier D fs) dirs, w)"
  by (induction dirs) (auto simp: files_fixed_def peekTier_def file_tier_def split: option.splits)

lemma admissible_tier: "admissible D fs t dir m \<Longrightarrow> file_tier D fs dir = Some (am_tier m)"
  by (auto simp: admissible_def file_tier_def schema_tier)

definition community :: "'m loaded_addon \<Rightarrow> bool" where
  "community a \<longleftrightarrow> am_tier (la_manifest a) = CommunityAddon"

lemma load_all_community:
  assumes "files_fixed D fs"
  shows "length (filter community (dr_loaded (fst (load_all D t dirs w)))) \<le>
         length (filter (\<lambda>x. x = Some CommunityAddon) (map (file_tier D fs) dirs))"
proof (induction dirs arbitrary: w)
  case (Cons d ds)
  obtain r w' where l: "loadAddon D d t w = (r, w')" by (cases "loadAddon D d t w")
  obtain rest w'' where rest: "load_all D t ds w' = (rest, w'')" by (cases "load_all D t ds w'")
  have ih: "length (filter community (dr_loaded rest)) \<le> length (filter (\<lambda>x. x = Some CommunityAddon) (map (file_tier D fs) ds))"
    using Cons.IH [of w'] rest by simp
  show ?case
  proof (cases r)
    case (Inl e)
    with l rest ih show ?thesis by simp
  next
    case (Inr a)
    then have "admissible D fs t d (la_manifest a)" using l loadAddon_Inr [OF assms] by blast
    then have "file_tier D fs d = Some (am_tier (la_manifest a))" by (rule admissible_tier)
    moreover have "community a \<longleftrightarrow> am_tier (la_manifest a) = CommunityAddon" by (simp add: community_def)
    ultimately show ?thesis using l rest ih Inr by auto
  qed
qed simp

lemma load_all_total: "length (dr_loaded (fst (load_all D t dirs w))) + length (dr_failures (fst (load_all D t dirs w))) = length dirs"
  by (induction dirs arbitrary: w) (auto simp: split_def Let_def split: sum.splits)

text \<open>
  A discovery that ends (files fixed) has loaded at most as many community addons as the license
  allows, and every configured directory is accounted for, as a loaded addon or as a failure.
\<close>

theorem community_limit_respected:
  assumes "files_fixed D fs" and "discoverAndLoadAddons D csv t w = (Inr r, w')"
    and "ac_maxCommunityAddons (ld_addonsConfig D) = Some n"
  shows "int (length (filter community (dr_loaded r))) \<le> n \<and>
         length (dr_loaded r) + length (dr_failures r) = length (addon_dirs csv)"
proof -
  let ?dirs = "addon_dirs csv"
  have lim: "int (length (filter (\<lambda>x. x = Some CommunityAddon) (map (file_tier D fs) ?dirs))) \<le> n"
    and r: "r = fst (load_all D t ?dirs w)"
    using assms(2,3)
    by (auto simp: discoverAndLoadAddons_def and_then_Inr peek_all_fixed [OF assms(1)] assertWithinCommunityAddonLimit_def
        map_prod_def split_def split: if_splits)
  show ?thesis
    using lim load_all_community [OF assms(1), of t ?dirs w] load_all_total [of D t ?dirs w] by (simp add: r)
qed

theorem community_limit_respected_witness:
  "case discoverAndLoadAddons demo_deps ''/opt/clock, /opt/none,'' demo_trust () of
     (Inr r, _) \<Rightarrow> int (length (filter community (dr_loaded r))) \<le> 1 \<and> length (dr_loaded r) = 1 \<and> length (dr_failures r) = 1
   | _ \<Rightarrow> False"
proof -
  let ?run = "discoverAndLoadAddons demo_deps ''/opt/clock, /opt/none,'' demo_trust ()"
  have one: "case ?run of (Inr r, _) \<Rightarrow> length (dr_loaded r) = 1 | _ \<Rightarrow> False" by code_simp
  then obtain r where r: "?run = (Inr r, ())" by (auto split: prod.splits sum.splits)
  have mx: "ac_maxCommunityAddons (ld_addonsConfig demo_deps) = Some 1" by (simp add: demo_deps_def)
  have "length (addon_dirs ''/opt/clock, /opt/none,'') = 2" by code_simp
  with community_limit_respected [OF demo_fixed r mx] one show ?thesis unfolding r by simp
qed

section \<open>The circuit breaker\<close>

text \<open>Calls that ended, in order: the addon and whether its handler answered.\<close>

definition cb_run :: "nat \<Rightarrow> (string \<times> bool) list \<Rightarrow> breaker" where
  "cb_run mx calls =
     fold (\<lambda>(name, answered) b. snd (wrap_settle mx name (if answered then Some () else None) b)) calls
       \<lparr>cb_failureCounts = Map.empty, cb_disabled = {}\<rparr>"

text \<open>The failures of an addon since it last answered.\<close>

definition failure_streak :: "string \<Rightarrow> (string \<times> bool) list \<Rightarrow> nat" where
  "failure_streak name calls = length (takeWhile (\<lambda>c. \<not> snd c) (filter (\<lambda>c. fst c = name) (rev calls)))"

lemma cb_run_snoc: "cb_run mx (calls @ [(name, answered)]) =
    snd (wrap_settle mx name (if answered then Some () else None) (cb_run mx calls))"
  by (simp add: cb_run_def)

lemma failure_streak_snoc:
  "failure_streak name (calls @ [(n, answered)]) =
     (if n = name then if answered then 0 else Suc (failure_streak name calls) else failure_streak name calls)"
  by (simp add: failure_streak_def)

lemma cb_counts: "(case cb_failureCounts (cb_run mx calls) name of Some k \<Rightarrow> k | None \<Rightarrow> 0) = failure_streak name calls"
proof (induction calls rule: rev_induct)
  case Nil
  then show ?case by (simp add: cb_run_def failure_streak_def)
next
  case (snoc c calls)
  obtain n answered where c: "c = (n, answered)" by (cases c)
  from snoc show ?case
    by (auto simp: c cb_run_snoc failure_streak_snoc wrap_settle_def recordFailure_def Let_def)
qed

text \<open>
  C13. An addon is disabled exactly if at some point its latest \<open>maxConsecutiveFailures\<close> calls had all
  failed (at least one), and it then stays disabled: a request is answered 503 without reaching the
  handler. Calls of other addons do not count.
\<close>

theorem breaker_opens_exactly:
  "wrap_enter name (cb_run mx calls) \<noteq> None \<longleftrightarrow>
   (\<exists>before after. calls = before @ [(name, False)] @ after \<and> mx \<le> Suc (failure_streak name before))"
proof (induction calls rule: rev_induct)
  case Nil
  then show ?case by (simp add: cb_run_def wrap_enter_def)
next
  case (snoc c calls)
  obtain n answered where c: "c = (n, answered)" by (cases c)
  let ?open = "\<lambda>cs. \<exists>before after. cs = before @ [(name, False)] @ after \<and> mx \<le> Suc (failure_streak name before)"
  have split: "?open (calls @ [c]) \<longleftrightarrow> ?open calls \<or> c = (name, False) \<and> mx \<le> Suc (failure_streak name calls)"
  proof
    assume "?open (calls @ [c])"
    then obtain b a where h: "calls @ [c] = b @ [(name, False)] @ a" "mx \<le> Suc (failure_streak name b)" by blast
    then show "?open calls \<or> c = (name, False) \<and> mx \<le> Suc (failure_streak name calls)"
      by (cases a rule: rev_cases) auto
  qed (metis append.assoc append_Nil2)
  have "name \<in> cb_disabled (cb_run mx (calls @ [c])) \<longleftrightarrow>
      name \<in> cb_disabled (cb_run mx calls) \<or> c = (name, False) \<and> mx \<le> Suc (failure_streak name calls)"
    using cb_counts [of mx calls name] by (auto simp: c cb_run_snoc wrap_settle_def recordFailure_def Let_def)
  with snoc show ?case unfolding split by (simp add: wrap_enter_def split: if_splits)
qed

end
