(* ===== verification/SyncPlan.thy ===== *)
theory SyncPlan
  imports DoltCli
begin

text \<open>
  Selective synchronisation (\<open>contexts/versioning\<close>): the foreign keys that \<open>dolt\<close> reports
  (\<open>dolt-foreign-key-reader.ts\<close>), the closure of a selection of tables under them and the
  preferences stored per repository (\<open>sync-preference.service.ts\<close>, \<open>sync-preference-types.ts\<close>),
  and the payload derived for a push (\<open>push-payload-planner.ts\<close>).

  The state of an operation is the pair of the store and the world of the \<open>dolt\<close> binary.
\<close>

section \<open>Operations on a part of the state\<close>

definition on_store :: "('d, 'e, 'a) op \<Rightarrow> ('d \<times> 'w, 'e, 'a) op" where
  "on_store f s = (let (r, d') = f (fst s) in (r, d', snd s))"

definition on_world :: "('w, 'e, 'a) op \<Rightarrow> ('d \<times> 'w, 'e, 'a) op" where
  "on_world f s = (let (r, w') = f (snd s) in (r, fst s, w'))"

lemma on_store_apply [op_simps]: "on_store f (d, w) = (fst (f d), snd (f d), w)"
  by (simp add: on_store_def split_def Let_def)

lemma on_world_apply [op_simps]: "on_world f (d, w) = (fst (f w), d, snd (f w))"
  by (simp add: on_world_def split_def Let_def)

text \<open>Running an operation on every element in order, stopping at the first error.\<close>

fun for_each :: "('a \<Rightarrow> ('s, 'e, 'b) op) \<Rightarrow> 'a list \<Rightarrow> ('s, 'e, 'b list) op" where
  "for_each f [] = ret []"
| "for_each f (x # xs) = and_then (f x) (\<lambda>y. and_then (for_each f xs) (\<lambda>ys. ret (y # ys)))"

section \<open>Foreign keys\<close>

record fk_edge =
  fk_tableName :: string
  fk_referencedTableName :: string
  fk_constraintName :: string

definition fk_query :: string where
  "fk_query = ''SELECT TABLE_NAME, REFERENCED_TABLE_NAME, CONSTRAINT_NAME '' @
     ''FROM information_schema.KEY_COLUMN_USAGE '' @
     ''WHERE TABLE_SCHEMA = DATABASE() AND REFERENCED_TABLE_NAME IS NOT NULL '' @
     ''GROUP BY TABLE_NAME, REFERENCED_TABLE_NAME, CONSTRAINT_NAME '' @
     ''ORDER BY TABLE_NAME, REFERENCED_TABLE_NAME, CONSTRAINT_NAME''"

text \<open>One row of the catalog; a missing or empty column is rejected.\<close>

definition fk_row :: "string \<Rightarrow> ('w, versioning_error, fk_edge) op" where
  "fk_row line =
     (case map js_trim (js_split (CHR '','') line) of
        tableName # referencedTableName # constraintName # _ \<Rightarrow>
          if tableName = [] \<or> referencedTableName = [] \<or> constraintName = []
          then throw (PlainError ''Unexpected foreign key catalog row returned by dolt sql'')
          else and_then (assertSafeTableName tableName) (\<lambda>_.
               and_then (assertSafeTableName referencedTableName) (\<lambda>_.
               ret \<lparr>fk_tableName = tableName, fk_referencedTableName = referencedTableName,
                    fk_constraintName = constraintName\<rparr>))
      | _ \<Rightarrow> throw (PlainError ''Unexpected foreign key catalog row returned by dolt sql''))"

definition readForeignKeyEdges :: "'w dolt \<Rightarrow> string \<Rightarrow> ('w, versioning_error, fk_edge list) op" where
  "readForeignKeyEdges dolt doltPath =
     and_then (dolt_checked dolt doltPath (sql_csv fk_query)
        (\<lambda>r. ''dolt sql (foreign keys) failed: '' @ trimStdErr r))
     (\<lambda>result.
        let lines = filter (\<lambda>l. l \<noteq> []) (js_split (CHR 0x0A) (js_trim (cr_stdout result)))
        in if length lines \<le> 1 then ret [] else for_each fk_row (tl lines))"

section \<open>Closure of a selection\<close>

definition uniqueSorted :: "string list \<Rightarrow> string list" where
  "uniqueSorted values = sort (remdups values)"

definition invalidTableError :: "string \<Rightarrow> versioning_error" where
  "invalidTableError table = InvalidRepoIdError
     (''Invalid table name \"'' @ table @
      ''\": must start with a letter/underscore and contain only letters, digits, or underscores'')"

definition normalizeTables :: "string list option \<Rightarrow> versioning_error + string list option" where
  "normalizeTables tables =
     (case tables of
        None \<Rightarrow> Inr None
      | Some ts \<Rightarrow>
          (let normalized = filter (\<lambda>t. t \<noteq> []) (map js_trim ts)
           in if normalized = [] then Inr None
              else case find (\<lambda>t. \<not> VALID_TABLE t) normalized of
                     Some t \<Rightarrow> Inl (invalidTableError t)
                   | None \<Rightarrow> Inr (Some (uniqueSorted normalized))))"

text \<open>The map \<open>byTable\<close>, one entry per table in the order of first occurrence.\<close>

definition by_table :: "fk_edge list \<Rightarrow> (string \<times> string list) list" where
  "by_table edges =
     fold (\<lambda>e m. let lst = (case map_of m (fk_tableName e) of None \<Rightarrow> [] | Some l \<Rightarrow> l)
                 in obj_set (fk_tableName e) (uniqueSorted (lst @ [fk_referencedTableName e])) m) edges []"

text \<open>The inner loop over the dependencies of one table, and the loop over the queue.\<close>

fun add_deps :: "string list \<Rightarrow> string list \<Rightarrow> string list \<Rightarrow> string list \<times> string list" where
  "add_deps [] resolved queue = (resolved, queue)"
| "add_deps (dep # deps) resolved queue =
     (if dep \<in> set resolved then add_deps deps resolved queue
      else add_deps deps (resolved @ [dep]) (queue @ [dep]))"

lemma add_deps_set:
  "set (fst (add_deps deps r q)) = set r \<union> set deps"
  "set (snd (add_deps deps r q)) = set q \<union> (set deps - set r)"
  by (induction deps r q rule: add_deps.induct) auto

lemma add_deps_distinct: "distinct r \<Longrightarrow> distinct (fst (add_deps deps r q))"
  by (induction deps r q rule: add_deps.induct) auto

lemma add_deps_same: "set deps \<subseteq> set r \<Longrightarrow> add_deps deps r q = (r, q)"
  by (induction deps r q rule: add_deps.induct) auto

function closure_loop :: "(string \<times> string list) list \<Rightarrow> string list \<Rightarrow> string list \<Rightarrow> string list" where
  "closure_loop byTable resolved [] = resolved"
| "closure_loop byTable resolved (table # queue) =
     (if table = [] then closure_loop byTable resolved queue
      else let deps = (case map_of byTable table of None \<Rightarrow> [] | Some l \<Rightarrow> l);
               (resolved', queue') = add_deps deps resolved queue
           in closure_loop byTable resolved' queue')"
  by pat_completeness auto

text \<open>
  A step either resolves a new table, of which there are finitely many, or only shortens the queue.
\<close>

definition unresolved :: "(string \<times> string list) list \<Rightarrow> string list \<Rightarrow> nat" where
  "unresolved byTable resolved = card (\<Union> (set ` snd ` set byTable) - set resolved)"

lemma deps_sub: "(case map_of m t of None \<Rightarrow> [] | Some l \<Rightarrow> l) = ds \<Longrightarrow> set ds \<subseteq> \<Union> (set ` snd ` set m)"
  by (force split: option.splits dest: map_of_SomeD)

lemma add_deps_progress:
  assumes "set deps \<subseteq> \<Union> (set ` snd ` set m)"
  shows "unresolved m (fst (add_deps deps r q)) < unresolved m r \<or> add_deps deps r q = (r, q)"
proof (cases "set deps \<subseteq> set r")
  case True
  then show ?thesis by (simp add: add_deps_same)
next
  case False
  then have "\<Union> (set ` snd ` set m) - set (fst (add_deps deps r q)) \<subset> \<Union> (set ` snd ` set m) - set r"
    using assms by (auto simp: add_deps_set)
  then show ?thesis unfolding unresolved_def by (intro disjI1 psubset_card_mono) auto
qed

termination closure_loop
proof (relation "measures [\<lambda>(m, r, q). unresolved m r, \<lambda>(m, r, q). length q]", goal_cases)
  case (3 m r t q deps x r' q')
  then show ?case
    using add_deps_progress [OF deps_sub, of m t deps r q] by (cases "add_deps deps r q") auto
qed auto

definition computeClosure :: "string list \<Rightarrow> fk_edge list \<Rightarrow> string list" where
  "computeClosure requestedTables edges =
     sort (closure_loop (by_table edges) (rev (remdups (rev requestedTables))) requestedTables)"

section \<open>SyncPreferenceService\<close>

record sync_record =
  sr_repoId :: string
  sr_pref :: sync_preference

record sync_plan =
  pl_mode :: sync_mode
  pl_requestedTables :: "string list option"
  pl_resolvedTables :: "string list option"
  pl_autoIncludedTables :: "string list"

record push_validation =
  pv_repoId :: string
  pv_mode :: sync_mode
  pv_requestedTables :: "string list option"
  pv_resolvedTables :: "string list option"
  pv_autoIncludedTables :: "string list"
  pv_dryRun :: bool

record ('d, 'w) sync_svc =
  ss_store :: "'d repo_store"
  ss_readForeignKeyEdges :: "string \<Rightarrow> ('w, versioning_error, fk_edge list) op"

definition sync_requireRepo :: "('d, 'w) sync_svc \<Rightarrow> string \<Rightarrow> ('d \<times> 'w, versioning_error, repo_record) op" where
  "sync_requireRepo S repoId s =
     (if \<not> VALID_REPO_ID repoId then (Inl (invalid_repo_id repoId), s)
      else case rst_get (ss_store S) repoId (fst s) of
             None \<Rightarrow> (Inl (RepoNotFoundError (''Repo not found: '' @ repoId)), s)
           | Some repo \<Rightarrow> (Inr repo, s))"

definition sync_get :: "('d, 'w) sync_svc \<Rightarrow> string \<Rightarrow> ('d \<times> 'w, versioning_error, sync_record option) op" where
  "sync_get S repoId s =
     (if \<not> VALID_REPO_ID repoId then (Inl (invalid_repo_id repoId), s)
      else (Inr (map_option (\<lambda>p. \<lparr>sr_repoId = repoId, sr_pref = p\<rparr>)
                   (rst_getSyncPreference (ss_store S) repoId (fst s))), s))"

definition buildPlan :: "sync_mode \<Rightarrow> string list option \<Rightarrow> fk_edge list \<Rightarrow> sync_plan" where
  "buildPlan mode requestedTables edges =
     (case requestedTables of
        None \<Rightarrow> \<lparr>pl_mode = mode, pl_requestedTables = None, pl_resolvedTables = None, pl_autoIncludedTables = []\<rparr>
      | Some ts \<Rightarrow>
          (let resolved = computeClosure ts edges
           in \<lparr>pl_mode = mode, pl_requestedTables = Some ts, pl_resolvedTables = Some resolved,
               pl_autoIncludedTables = filter (\<lambda>t. t \<notin> set ts) resolved\<rparr>))"

definition assertNoExcludedDependencies :: "sync_plan \<Rightarrow> ('s, versioning_error, unit) op" where
  "assertNoExcludedDependencies plan =
     (if pl_autoIncludedTables plan \<noteq> [] \<and> pl_requestedTables plan \<noteq> None
      then throw (SyncPreferenceConflictError
        (''Requested tables require additional FK dependencies: '' @ js_join '', '' (pl_autoIncludedTables plan) @
         ''. Re-run with the full closure or use dry-run preview first.''))
      else ret ())"

definition edges_for :: "('d, 'w) sync_svc \<Rightarrow> repo_record \<Rightarrow> string list option \<Rightarrow>
    ('d \<times> 'w, versioning_error, fk_edge list) op" where
  "edges_for S repo tables =
     (if tables \<noteq> None then on_world (ss_readForeignKeyEdges S (rp_doltPath repo)) else ret [])"

definition of_sum :: "'e + 'a \<Rightarrow> ('s, 'e, 'a) op" where
  "of_sum r s = (r, s)"

definition sync_preview ::
  "('d, 'w) sync_svc \<Rightarrow> string \<Rightarrow> sync_mode \<Rightarrow> string list option \<Rightarrow> ('d \<times> 'w, versioning_error, sync_plan) op" where
  "sync_preview S repoId mode tables =
     and_then (sync_requireRepo S repoId) (\<lambda>repo.
     and_then (of_sum (normalizeTables tables)) (\<lambda>normalizedTables.
     and_then (edges_for S repo normalizedTables) (\<lambda>edges.
     ret (buildPlan mode normalizedTables edges))))"

definition sync_upsert ::
  "('d, 'w) sync_svc \<Rightarrow> string \<Rightarrow> sync_mode \<Rightarrow> string list option \<Rightarrow> ms \<Rightarrow> ('d \<times> 'w, versioning_error, sync_record) op" where
  "sync_upsert S repoId mode tables now =
     and_then (sync_requireRepo S repoId) (\<lambda>repo.
     and_then (of_sum (normalizeTables tables)) (\<lambda>normalizedTables.
     and_then (edges_for S repo normalizedTables) (\<lambda>edges.
     let plan = buildPlan mode normalizedTables edges
     in and_then (assertNoExcludedDependencies plan) (\<lambda>_.
        let pref = \<lparr>sp_mode = pl_mode plan, sp_requestedTables = pl_requestedTables plan,
                    sp_createdAt = now, sp_updatedAt = now\<rparr>
        in and_then (on_store (rst_upsertSyncPreference (ss_store S) repoId pref)) (\<lambda>_.
           ret \<lparr>sr_repoId = repoId, sr_pref = pref\<rparr>)))))"

text \<open>What an override leaves undefined is taken from the stored preference.\<close>

definition effective_mode :: "push_ticket_sync_options option \<Rightarrow> sync_preference option \<Rightarrow> sync_mode" where
  "effective_mode overrides stored =
     (case Option.bind overrides so_mode of
        Some m \<Rightarrow> m
      | None \<Rightarrow> (case stored of Some p \<Rightarrow> sp_mode p | None \<Rightarrow> SchemaAndData))"

definition effective_tables :: "push_ticket_sync_options option \<Rightarrow> sync_preference option \<Rightarrow> string list option" where
  "effective_tables overrides stored =
     (case Option.bind overrides so_tables of
        None \<Rightarrow> (case stored of Some p \<Rightarrow> sp_requestedTables p | None \<Rightarrow> None)
      | Some ts \<Rightarrow> ts)"

definition validatePushOptions ::
  "('d, 'w) sync_svc \<Rightarrow> string \<Rightarrow> push_ticket_sync_options option \<Rightarrow>
   ('d \<times> 'w, versioning_error, push_validation) op" where
  "validatePushOptions S repoId overrides =
     and_then (sync_requireRepo S repoId) (\<lambda>repo s.
     let stored = rst_getSyncPreference (ss_store S) repoId (fst s);
         mode = effective_mode overrides stored
     in and_then (of_sum (normalizeTables (effective_tables overrides stored))) (\<lambda>requestedTables.
        let dryRun = (case Option.bind overrides so_dryRun of Some b \<Rightarrow> b | None \<Rightarrow> False)
        in and_then (edges_for S repo requestedTables) (\<lambda>edges.
           let plan = buildPlan mode requestedTables edges
           in and_then (assertNoExcludedDependencies plan) (\<lambda>_.
              ret \<lparr>pv_repoId = repoId, pv_mode = pl_mode plan, pv_requestedTables = pl_requestedTables plan,
                   pv_resolvedTables = pl_resolvedTables plan,
                   pv_autoIncludedTables = pl_autoIncludedTables plan, pv_dryRun = dryRun\<rparr>))) s)"

section \<open>The payload of a push\<close>

text \<open>
  The file system calls of \<open>planPushPayload\<close> are parameters; \<open>dirname\<close> of an absolute path is
  what precedes its last separator.
\<close>

record 'w file_ops =
  fo_mkdir :: "string \<Rightarrow> 'w \<Rightarrow> 'w"
  fo_readText :: "string \<Rightarrow> 'w \<Rightarrow> string"
  fo_write :: "string \<Rightarrow> string \<Rightarrow> 'w \<Rightarrow> 'w"
  fo_rm :: "string \<Rightarrow> 'w \<Rightarrow> 'w"

definition path_dirname :: "string \<Rightarrow> string" where
  "path_dirname p = rev (tl (dropWhile (\<lambda>c. c \<noteq> CHR ''/'') (rev p)))"

record planned_payload =
  pp_stagingPath :: string
  pp_createdDerivedPath :: bool

definition plan_table ::
  "'w dolt \<Rightarrow> 'w file_ops \<Rightarrow> string \<Rightarrow> sync_mode \<Rightarrow> string \<Rightarrow> string \<Rightarrow> ('w, versioning_error, string list) op" where
  "plan_table dolt F repoRoot mode derivedPath table =
     and_then (assertSafeTableName table) (\<lambda>_.
     and_then (dolt_checked dolt repoRoot [''schema'', ''export'', table]
        (\<lambda>r. ''dolt schema export failed for '' @ table @ '': '' @ trimStdErr r)) (\<lambda>schema.
     if mode = SchemaAndData
     then let rowsPath = derivedPath @ ''.'' @ table @ ''.rows.sql''
          in and_then (dolt_checked dolt repoRoot [''table'', ''export'', ''-r'', ''sql'', table, rowsPath]
               (\<lambda>r. ''dolt table export failed for '' @ table @ '': '' @ trimStdErr r))
             (\<lambda>_ w. (Inr [trimStdOut schema, js_trim (fo_readText F rowsPath w)], fo_rm F rowsPath w))
     else ret [trimStdOut schema]))"

definition planPushPayload ::
  "'w dolt \<Rightarrow> 'w file_ops \<Rightarrow> string \<Rightarrow> string \<Rightarrow> string \<Rightarrow> push_validation \<Rightarrow> ('w, versioning_error, planned_payload) op" where
  "planPushPayload dolt F repoId originalStagingPath repoRoot options w =
     (if pv_dryRun options \<or> (pv_mode options = SchemaAndData \<and> pv_resolvedTables options = None)
      then (Inr \<lparr>pp_stagingPath = originalStagingPath, pp_createdDerivedPath = False\<rparr>, w)
      else
        let derivedPath = path_join (path_dirname originalStagingPath) (repoId @ ''.sync-plan.sql'');
            tables = (case pv_resolvedTables options of None \<Rightarrow> [] | Some ts \<Rightarrow> ts)
        in and_then (for_each (plan_table dolt F repoRoot (pv_mode options) derivedPath) tables)
             (\<lambda>statements w'.
                let text = js_trim_start (js_join [CHR 0x0A] [[], js_join [CHR 0x0A, CHR 0x0A] (filter (\<lambda>t. t \<noteq> []) (concat statements))])
                in (Inr \<lparr>pp_stagingPath = derivedPath, pp_createdDerivedPath = True\<rparr>,
                    fo_write F derivedPath (text @ [CHR 0x0A]) w'))
             (fo_mkdir F (path_dirname derivedPath) w))"

section \<open>The closure is exact\<close>

text \<open>The dependencies the loop follows: from a named table to the tables its foreign keys reference.\<close>

definition fk_rel :: "fk_edge list \<Rightarrow> (string \<times> string) set" where
  "fk_rel edges = {(fk_tableName e, fk_referencedTableName e) | e. e \<in> set edges \<and> fk_tableName e \<noteq> []}"

definition deps_of :: "(string \<times> string list) list \<Rightarrow> string \<Rightarrow> string list" where
  "deps_of m t = (case map_of m t of None \<Rightarrow> [] | Some l \<Rightarrow> l)"

lemma set_uniqueSorted [simp]: "set (uniqueSorted xs) = set xs"
  by (simp add: uniqueSorted_def)

lemma uniqueSorted_sorted: "sorted (uniqueSorted xs)" "distinct (uniqueSorted xs)"
  by (simp_all add: uniqueSorted_def)

lemma deps_of_by_table: "set (deps_of (by_table edges) t) = fk_referencedTableName ` {e \<in> set edges. fk_tableName e = t}"
proof -
  define f :: "fk_edge \<Rightarrow> (string \<times> string list) list \<Rightarrow> (string \<times> string list) list" where
    "f = (\<lambda>e m. let lst = (case map_of m (fk_tableName e) of None \<Rightarrow> [] | Some l \<Rightarrow> l)
                 in obj_set (fk_tableName e) (uniqueSorted (lst @ [fk_referencedTableName e])) m)"
  have "set (deps_of (fold f edges m) t) =
    set (deps_of m t) \<union> fk_referencedTableName ` {e \<in> set edges. fk_tableName e = t}" for m
  proof (induction edges arbitrary: m)
    case (Cons e es)
    have "set (deps_of (f e m) t) = set (deps_of m t) \<union> (if fk_tableName e = t then {fk_referencedTableName e} else {})"
      by (auto simp: f_def deps_of_def Let_def split: option.splits)
    with Cons [of "f e m"] show ?case by auto
  qed simp
  from this [of "[]"] show ?thesis by (simp add: by_table_def f_def deps_of_def)
qed

definition table_rel :: "(string \<times> string list) list \<Rightarrow> (string \<times> string) set" where
  "table_rel m = {(t, u). t \<noteq> [] \<and> u \<in> set (deps_of m t)}"

lemma table_rel_by_table: "table_rel (by_table edges) = fk_rel edges"
  by (auto simp: table_rel_def deps_of_by_table fk_rel_def)

lemma closure_loop_set:
  assumes "set q \<subseteq> set r" and "table_rel m `` (set r - set q) \<subseteq> set r"
  shows "set (closure_loop m r q) = (table_rel m)\<^sup>* `` set r"
  using assms
proof (induction m r q rule: closure_loop.induct)
  case (1 m r)
  then show ?case by (simp add: Image_closed_trancl)
next
  case (2 m r t q)
  show ?case
  proof (cases "t = []")
    case True
    have "table_rel m `` (set r - set q) \<subseteq> set r"
      using 2(4) True by (auto simp: table_rel_def)
    with 2(1,3) True show ?thesis by simp
  next
    case False
    let ?d = "deps_of m t"
    obtain r' q' where a: "add_deps ?d r q = (r', q')" by fastforce
    then have s: "set r' = set r \<union> set ?d" "set q' = set q \<union> (set ?d - set r)"
      using add_deps_set [of ?d r q] by simp_all
    have "table_rel m `` (set r' - set q') \<subseteq> set r'"
      using 2(4) by (auto simp: s table_rel_def)
    moreover have "set q' \<subseteq> set r'" using 2(3) by (auto simp: s)
    ultimately have "set (closure_loop m r' q') = (table_rel m)\<^sup>* `` set r'"
      using 2(2) [OF False refl _ refl] a by (simp add: deps_of_def)
    also have "\<dots> = (table_rel m)\<^sup>* `` set r"
    proof -
      have "set ?d \<subseteq> (table_rel m)\<^sup>* `` set r"
        using 2(3) False by (auto simp: table_rel_def)
      then have "(table_rel m)\<^sup>* `` set ?d \<subseteq> (table_rel m)\<^sup>* `` set r"
        by (blast intro: rtrancl_trans)
      then show ?thesis by (auto simp: s)
    qed
    finally show ?thesis using False a by (simp add: deps_of_def)
  qed
qed

lemma closure_loop_distinct: "distinct r \<Longrightarrow> distinct (closure_loop m r q)"
proof (induction m r q rule: closure_loop.induct)
  case (2 m r t q)
  then show ?case by (auto simp: Let_def split_def add_deps_distinct)
qed simp

text \<open>
  C11. The tables \<open>computeClosure\<close> returns are exactly those reachable from the requested ones over
  foreign keys, each once and in ascending order; the work list always runs empty, also on cyclic
  foreign keys.
\<close>

theorem fk_closure_exact:
  "set (computeClosure requested edges) = (fk_rel edges)\<^sup>* `` set requested \<and>
   sorted (computeClosure requested edges) \<and> distinct (computeClosure requested edges)"
  unfolding computeClosure_def
  by (simp add: closure_loop_set closure_loop_distinct table_rel_by_table)

section \<open>Accepted selections\<close>

lemma normalizeTables_Some:
  assumes "normalizeTables tables = Inr (Some ts)"
  shows "sorted ts" "distinct ts" "ts \<noteq> []" "\<And>t. t \<in> set ts \<Longrightarrow> VALID_TABLE t"
proof -
  obtain xs where "ts = uniqueSorted xs" "xs \<noteq> []" "find (\<lambda>t. \<not> VALID_TABLE t) xs = None"
    using assms by (auto simp: normalizeTables_def Let_def split: option.splits if_splits)
  then show "sorted ts" "distinct ts" "ts \<noteq> []" "\<And>t. t \<in> set ts \<Longrightarrow> VALID_TABLE t"
    by (simp_all add: uniqueSorted_sorted find_None_iff flip: set_empty)
qed

lemma computeClosure_set: "set (computeClosure ts edges) = (fk_rel edges)\<^sup>* `` set ts"
  unfolding computeClosure_def by (simp add: closure_loop_set table_rel_by_table)

lemma computeClosure_closed:
  assumes "fk_rel edges `` set ts \<subseteq> set ts" "sorted ts" "distinct ts"
  shows "computeClosure ts edges = ts"
proof (rule sorted_distinct_set_unique)
  show "set (computeClosure ts edges) = set ts"
    using assms(1) by (simp add: computeClosure_set Image_closed_trancl)
qed (use assms in \<open>simp_all add: computeClosure_def closure_loop_distinct\<close>)

lemma extra_tables_iff:
  "filter (\<lambda>t. t \<notin> set ts) (computeClosure ts edges) = [] \<longleftrightarrow> fk_rel edges `` set ts \<subseteq> set ts"
proof
  assume "filter (\<lambda>t. t \<notin> set ts) (computeClosure ts edges) = []"
  then have "(fk_rel edges)\<^sup>* `` set ts \<subseteq> set ts"
    by (auto simp: filter_empty_conv computeClosure_set)
  then show "fk_rel edges `` set ts \<subseteq> set ts" by blast
next
  assume "fk_rel edges `` set ts \<subseteq> set ts"
  then show "filter (\<lambda>t. t \<notin> set ts) (computeClosure ts edges) = []"
    by (simp add: filter_empty_conv computeClosure_set Image_closed_trancl)
qed

lemma requireRepo_found [op_simps]:
  "VALID_REPO_ID repoId \<Longrightarrow> rst_get (ss_store S) repoId d = Some repo \<Longrightarrow>
     sync_requireRepo S repoId (d, w) = (Inr repo, d, w)"
  by (simp add: sync_requireRepo_def)

text \<open>
  A selection of tables is accepted for a push exactly when it is closed under the foreign keys of
  the repository; it is then passed on as it is, without duplicates and in ascending order, every
  name a plain identifier. Otherwise the push is refused with the list of the missing tables. The
  store is unchanged in both cases.
\<close>

theorem push_selection_closed:
  assumes "VALID_REPO_ID repoId" and "rst_get (ss_store S) repoId d = Some repo"
    and sel: "normalizeTables (effective_tables overrides (rst_getSyncPreference (ss_store S) repoId d)) = Inr (Some ts)"
    and "ss_readForeignKeyEdges S (rp_doltPath repo) w = (Inr edges, w')"
  shows "validatePushOptions S repoId overrides (d, w) =
      (if fk_rel edges `` set ts \<subseteq> set ts
       then (Inr \<lparr>pv_repoId = repoId,
                  pv_mode = effective_mode overrides (rst_getSyncPreference (ss_store S) repoId d),
                  pv_requestedTables = Some ts, pv_resolvedTables = Some ts, pv_autoIncludedTables = [],
                  pv_dryRun = (case Option.bind overrides so_dryRun of Some b \<Rightarrow> b | None \<Rightarrow> False)\<rparr>, d, w')
       else (Inl (SyncPreferenceConflictError
               (''Requested tables require additional FK dependencies: '' @
                js_join '', '' (filter (\<lambda>t. t \<notin> set ts) (computeClosure ts edges)) @
                ''. Re-run with the full closure or use dry-run preview first.'')), d, w')) \<and>
     sorted ts \<and> distinct ts \<and> (\<forall>t \<in> set ts. VALID_TABLE t)"
proof -
  note norm = normalizeTables_Some [OF sel]
  have e: "edges_for S repo (Some ts) (d, w) = (Inr edges, d, w')"
    using assms(4) by (simp add: edges_for_def on_world_apply)
  have v: "validatePushOptions S repoId overrides (d, w) =
    and_then (assertNoExcludedDependencies
        (buildPlan (effective_mode overrides (rst_getSyncPreference (ss_store S) repoId d)) (Some ts) edges))
      (\<lambda>_. ret \<lparr>pv_repoId = repoId, pv_mode = effective_mode overrides (rst_getSyncPreference (ss_store S) repoId d),
                pv_requestedTables = Some ts, pv_resolvedTables = Some (computeClosure ts edges),
                pv_autoIncludedTables = filter (\<lambda>t. t \<notin> set ts) (computeClosure ts edges),
                pv_dryRun = (case Option.bind overrides so_dryRun of Some b \<Rightarrow> b | None \<Rightarrow> False)\<rparr>) (d, w')"
    using assms(1-3) e
    by (simp add: validatePushOptions_def and_then_step requireRepo_found of_sum_def Let_def buildPlan_def)
  show ?thesis
    using extra_tables_iff [of ts edges] computeClosure_closed [of edges ts] norm
    by (auto simp: v assertNoExcludedDependencies_def buildPlan_def and_then_def Let_def)
qed

definition sample_repo :: repo_record where
  "sample_repo = \<lparr>rp_repoId = ''demo'', rp_doltPath = ''/r/demo'', rp_createdAt = 1, rp_createdBy = ''ana''\<rparr>"

definition sample_repo_db :: repo_db where
  "sample_repo_db = \<lparr>rd_repos = [sample_repo], rd_prefs = []\<rparr>"

definition sample_edges :: "fk_edge list" where
  "sample_edges = [\<lparr>fk_tableName = ''orders'', fk_referencedTableName = ''users'', fk_constraintName = ''fk1''\<rparr>]"

definition sample_sync :: "(repo_db, unit) sync_svc" where
  "sample_sync = \<lparr>ss_store = libsqlRepoStore True, ss_readForeignKeyEdges = (\<lambda>_. ret sample_edges)\<rparr>"

lemma push_selection_closed_witness:
  "fst (validatePushOptions sample_sync ''demo''
     (Some \<lparr>so_mode = None, so_tables = Some (Some ['' orders'']), so_dryRun = None\<rparr>) (sample_repo_db, ())) =
   Inl (SyncPreferenceConflictError ''Requested tables require additional FK dependencies: users. Re-run with the full closure or use dry-run preview first.'')"
proof -
  have "\<not> fk_rel sample_edges `` set [''orders''] \<subseteq> set [''orders'']"
    by (auto simp: fk_rel_def sample_edges_def)
  moreover have "filter (\<lambda>t. t \<notin> set [''orders'']) (computeClosure [''orders''] sample_edges) = [''users'']"
    by code_simp
  moreover have "VALID_REPO_ID ''demo''" "rst_get (ss_store sample_sync) ''demo'' sample_repo_db = Some sample_repo"
    "normalizeTables (effective_tables (Some \<lparr>so_mode = None, so_tables = Some (Some ['' orders'']), so_dryRun = None\<rparr>)
       (rst_getSyncPreference (ss_store sample_sync) ''demo'' sample_repo_db)) = Inr (Some [''orders''])"
    by code_simp+
  moreover have "ss_readForeignKeyEdges sample_sync (rp_doltPath sample_repo) () = (Inr sample_edges, ())"
    by (simp add: sample_sync_def)
  ultimately show ?thesis
    using push_selection_closed [of "''demo''" sample_sync sample_repo_db sample_repo
        "Some \<lparr>so_mode = None, so_tables = Some (Some ['' orders'']), so_dryRun = None\<rparr>" "[''orders'']" "()" sample_edges "()"]
    by simp
qed

lemma edges_for_keeps: "edges_for S repo nt s = (r, s') \<Longrightarrow> fst s' = fst s"
  by (cases s) (auto simp: edges_for_def on_world_apply split: if_splits)

lemma assertNoExcluded_keeps: "assertNoExcludedDependencies plan s = (r, s') \<Longrightarrow> s' = s"
  by (auto simp: assertNoExcludedDependencies_def split: if_splits)

text \<open>
  A preference that was saved is the one later pushes read, and the record that \<open>upsert\<close>
  returns is the stored one except for its creation time: a second \<open>upsert\<close> reports the current
  time as \<open>createdAt\<close> while the table keeps the first one.
\<close>

theorem sync_preference_roundtrip:
  assumes "ss_store S = libsqlRepoStore fk" and "repo_db_ok d"
    and "sync_upsert S repoId mode tables now (d, w) = (Inr saved, d', w')"
  shows "repo_db_ok d' \<and> normalizeTables tables = Inr (sp_requestedTables (sr_pref saved)) \<and>
     sync_get S repoId (d', w') =
       (Inr (Some (saved\<lparr>sr_pref := merged_preference (sql_rp_getSyncPreference repoId d) (sr_pref saved)\<rparr>)), d', w') \<and>
     (\<forall>k. k \<noteq> repoId \<longrightarrow> sync_get S k (d', w') = (fst (sync_get S k (d, w)), d', w'))"
proof -
  obtain repo s1 nt s2 edges s3 u4 s4 u5 s5 where
      c1: "sync_requireRepo S repoId (d, w) = (Inr repo, s1)" and
      c2: "of_sum (normalizeTables tables) s1 = (Inr nt, s2)" and
      c3: "edges_for S repo nt s2 = (Inr edges, s3)" and
      c4: "assertNoExcludedDependencies (buildPlan mode nt edges) s3 = (Inr u4, s4)" and
      c5: "on_store (rst_upsertSyncPreference (ss_store S) repoId
             \<lparr>sp_mode = pl_mode (buildPlan mode nt edges),
              sp_requestedTables = pl_requestedTables (buildPlan mode nt edges),
              sp_createdAt = now, sp_updatedAt = now\<rparr>) s4 = (Inr u5, s5)" and
      c6: "saved = \<lparr>sr_repoId = repoId, sr_pref =
             \<lparr>sp_mode = pl_mode (buildPlan mode nt edges),
              sp_requestedTables = pl_requestedTables (buildPlan mode nt edges),
              sp_createdAt = now, sp_updatedAt = now\<rparr>\<rparr> \<and> s5 = (d', w')"
    using assms(3) unfolding sync_upsert_def Let_def by (elim and_then_InrE) (rule that, assumption+, simp)
  have r: "VALID_REPO_ID repoId" "sql_rp_get repoId d = Some repo" "s1 = (d, w)"
    using c1 assms(1) by (auto simp: sync_requireRepo_def split: if_splits option.splits)
  have n: "normalizeTables tables = Inr nt" "s2 = (d, w)" using c2 r(3) by (simp_all add: of_sum_def)
  obtain w1 where s4: "s4 = (d, w1)"
    using edges_for_keeps [OF c3] assertNoExcluded_keeps [OF c4] n(2) by (cases s3) auto
  let ?pref = "\<lparr>sp_mode = mode, sp_requestedTables = nt, sp_createdAt = now, sp_updatedAt = now\<rparr>"
  have p: "pl_mode (buildPlan mode nt edges) = mode" "pl_requestedTables (buildPlan mode nt edges) = nt"
    by (simp_all add: buildPlan_def Let_def split: option.splits)
  obtain d1 where u: "sql_rp_upsertSyncPreference fk repoId ?pref d = (Inr (), d1)" "repo_db_ok d1"
    "\<And>k. sql_rp_getSyncPreference k d1 =
        (if k = repoId then Some (merged_preference (sql_rp_getSyncPreference repoId d) ?pref)
         else sql_rp_getSyncPreference k d)"
    using libsql_repos.upsert_known [OF assms(2), where repoId = repoId and fk = fk and p = ?pref] r(2) by auto
  from c5 c6 have "saved = \<lparr>sr_repoId = repoId, sr_pref = ?pref\<rparr>" "d' = d1" "w' = w1"
    using assms(1) by (auto simp: s4 p u(1) on_store_apply)
  with u n(1) r(1) assms(1) show ?thesis by (auto simp: sync_get_def)
qed

lemma sync_preference_roundtrip_witness:
  "fst (sync_get sample_sync ''demo'' (snd (sync_upsert sample_sync ''demo'' SchemaOnly (Some [''users'']) 7 (sample_repo_db, ())))) =
   Inr (Some \<lparr>sr_repoId = ''demo'', sr_pref = \<lparr>sp_mode = SchemaOnly, sp_requestedTables = Some [''users''], sp_createdAt = 7, sp_updatedAt = 7\<rparr>\<rparr>)"
proof -
  define saved where "saved = \<lparr>sr_repoId = ''demo'', sr_pref = \<lparr>sp_mode = SchemaOnly, sp_requestedTables = Some [''users''], sp_createdAt = (7::int), sp_updatedAt = 7\<rparr>\<rparr>"
  obtain d' where u: "sync_upsert sample_sync ''demo'' SchemaOnly (Some [''users'']) 7 (sample_repo_db, ()) = (Inr saved, d', ())"
  proof -
    have "fst (sync_upsert sample_sync ''demo'' SchemaOnly (Some [''users'']) 7 (sample_repo_db, ())) = Inr saved"
      unfolding saved_def by code_simp
    then show thesis using that 
      by (cases "sync_upsert sample_sync ''demo'' SchemaOnly (Some [''users'']) 7 (sample_repo_db, ())") auto
  qed
  have "ss_store sample_sync = libsqlRepoStore True" by (simp add: sample_sync_def)
  moreover have "repo_db_ok sample_repo_db" by code_simp
  moreover have "sql_rp_getSyncPreference ''demo'' sample_repo_db = None" by code_simp
  ultimately have "sync_get sample_sync ''demo'' (d', ()) = (Inr (Some saved), d', ())"
    using sync_preference_roundtrip [OF _ _ u] by (simp add: merged_preference_def)
  then show ?thesis by (simp add: u saved_def)
qed

text \<open>
  With the mode \<open>schema_only\<close> and no selection of tables the payload that replaces the upload is a
  single line break, whatever the repository holds: nothing of the uploaded file is kept.
\<close>

theorem schema_only_push_is_empty:
  assumes "pv_mode options = SchemaOnly" and "pv_resolvedTables options = None" and "\<not> pv_dryRun options"
  shows "planPushPayload dolt F repoId staging root options w =
     (let derived = path_join (path_dirname staging) (repoId @ ''.sync-plan.sql'')
      in (Inr \<lparr>pp_stagingPath = derived, pp_createdDerivedPath = True\<rparr>,
          fo_write F derived [CHR 0x0A] (fo_mkdir F (path_dirname derived) w)))"
proof -
  have "js_trim_start [CHR 0x0A] = []" by code_simp
  with assms show ?thesis
    by (simp add: planPushPayload_def Let_def and_then_def)
qed

lemma schema_only_push_is_empty_witness:
  "planPushPayload (\<lambda>_ w. (\<lparr>cr_exitCode = 0, cr_stdout = ''x'', cr_stderr = []\<rparr>, w))
     \<lparr>fo_mkdir = (\<lambda>_ w. w), fo_readText = (\<lambda>_ w. w), fo_write = (\<lambda>_ text _. text), fo_rm = (\<lambda>_ w. w)\<rparr>
     ''demo'' ''/s/upload'' ''/r/demo''
     \<lparr>pv_repoId = ''demo'', pv_mode = SchemaOnly, pv_requestedTables = None, pv_resolvedTables = None,
      pv_autoIncludedTables = [], pv_dryRun = False\<rparr> ''old'' =
   (Inr \<lparr>pp_stagingPath = ''/s/demo.sync-plan.sql'', pp_createdDerivedPath = True\<rparr>, [CHR 0x0A])"
proof -
  have "path_join (path_dirname ''/s/upload'') (''demo'' @ ''.sync-plan.sql'') = ''/s/demo.sync-plan.sql''"
    by code_simp
  then show ?thesis by (simp add: schema_only_push_is_empty)
qed

end
