(* ===== verification/Mutex.thy ===== *)
theory Mutex
  imports Prelude
begin

text \<open>
  \<open>RepoBranchMutex\<close> (\<open>contexts/versioning/repo-branch-mutex.ts\<close>): the lock that serialises the branch
  and merge operations of one repository, built from a chain of promises per repository.

  A promise is what the code builds it from: one already resolved, the promise \<open>current\<close> of a call
  (resolved by its \<open>release\<close>), or \<open>previous.then(() => current)\<close>. A step of the machine is the
  synchronous prologue of \<open>runExclusive\<close> up to \<open>await previous\<close>, the continuation after that
  \<open>await\<close>, or the \<open>finally\<close> block after the action has returned or thrown.
\<close>

section \<open>Model\<close>

datatype promise = Resolved | Current nat | Then promise promise

datatype phase = Awaiting | Running | Released

record mutex_call =
  mc_repo :: string
  mc_previous :: promise
  mc_phase :: phase

record mutex =
  mx_tails :: "string \<rightharpoonup> promise"
  mx_calls :: "mutex_call list"

definition mutex_init :: mutex where
  "mutex_init = \<lparr>mx_tails = Map.empty, mx_calls = []\<rparr>"

fun resolved :: "mutex_call list \<Rightarrow> promise \<Rightarrow> bool" where
  "resolved cs Resolved \<longleftrightarrow> True"
| "resolved cs (Current i) \<longleftrightarrow> i < length cs \<and> mc_phase (cs ! i) = Released"
| "resolved cs (Then p q) \<longleftrightarrow> resolved cs p \<and> resolved cs q"

text \<open>The prologue: the call reads the tail of its repository and appends its own promise to it.\<close>

definition mx_call :: "string \<Rightarrow> mutex \<Rightarrow> mutex" where
  "mx_call repoId M =
     (let previous = (case mx_tails M repoId of None \<Rightarrow> Resolved | Some p \<Rightarrow> p);
          current = Current (length (mx_calls M))
      in \<lparr>mx_tails = (mx_tails M)(repoId \<mapsto> Then previous current),
          mx_calls = mx_calls M @ [\<lparr>mc_repo = repoId, mc_previous = previous, mc_phase = Awaiting\<rparr>]\<rparr>)"

definition mx_can_enter :: "nat \<Rightarrow> mutex \<Rightarrow> bool" where
  "mx_can_enter i M \<longleftrightarrow> i < length (mx_calls M) \<and> mc_phase (mx_calls M ! i) = Awaiting \<and>
     resolved (mx_calls M) (mc_previous (mx_calls M ! i))"

definition set_phase :: "nat \<Rightarrow> phase \<Rightarrow> mutex_call list \<Rightarrow> mutex_call list" where
  "set_phase i p cs = cs[i := (cs ! i)\<lparr>mc_phase := p\<rparr>]"

definition mx_enter :: "nat \<Rightarrow> mutex \<Rightarrow> mutex" where
  "mx_enter i M = M\<lparr>mx_calls := set_phase i Running (mx_calls M)\<rparr>"

text \<open>
  The \<open>finally\<close> block: \<open>release()\<close>, then the entry is deleted if the tail is the call's own
  \<open>current\<close> promise.
\<close>

definition mx_release :: "nat \<Rightarrow> mutex \<Rightarrow> mutex" where
  "mx_release i M =
     (let repoId = mc_repo (mx_calls M ! i)
      in \<lparr>mx_tails = (if mx_tails M repoId = Some (Current i) then (mx_tails M)(repoId := None) else mx_tails M),
          mx_calls = set_phase i Released (mx_calls M)\<rparr>)"

datatype mx_event = Call string | Enter nat | Release nat

inductive mx_step :: "mutex \<Rightarrow> mx_event \<Rightarrow> mutex \<Rightarrow> bool" where
  step_call: "mx_step M (Call repoId) (mx_call repoId M)"
| step_enter: "mx_can_enter i M \<Longrightarrow> mx_step M (Enter i) (mx_enter i M)"
| step_release: "i < length (mx_calls M) \<Longrightarrow> mc_phase (mx_calls M ! i) = Running \<Longrightarrow>
    mx_step M (Release i) (mx_release i M)"

inductive mx_run :: "mutex \<Rightarrow> mx_event list \<Rightarrow> mutex \<Rightarrow> bool" where
  run_nil: "mx_run M [] M"
| run_cons: "mx_step M e M' \<Longrightarrow> mx_run M' es M'' \<Longrightarrow> mx_run M (e # es) M''"

inductive_cases mx_stepE: "mx_step M e M'"

section \<open>Invariant\<close>

text \<open>
  The promise a call awaits is the chain of the calls of the same repository before it, and the tail
  is the chain of all of them.
\<close>

definition repo_calls :: "mutex_call list \<Rightarrow> string \<Rightarrow> nat \<Rightarrow> nat list" where
  "repo_calls cs repoId n = filter (\<lambda>j. mc_repo (cs ! j) = repoId) [0..<n]"

definition chain :: "nat list \<Rightarrow> promise" where
  "chain ixs = foldl (\<lambda>p j. Then p (Current j)) Resolved ixs"

definition mx_linked :: "mutex \<Rightarrow> bool" where
  "mx_linked M \<longleftrightarrow>
     (\<forall>i < length (mx_calls M). mc_previous (mx_calls M ! i) = chain (repo_calls (mx_calls M) (mc_repo (mx_calls M ! i)) i)) \<and>
     (\<forall>r. mx_tails M r = (if repo_calls (mx_calls M) r (length (mx_calls M)) = [] then None
                         else Some (chain (repo_calls (mx_calls M) r (length (mx_calls M))))))"

definition mx_ordered :: "mutex \<Rightarrow> bool" where
  "mx_ordered M \<longleftrightarrow>
     (\<forall>j < length (mx_calls M). mc_phase (mx_calls M ! j) \<noteq> Awaiting \<longrightarrow>
        (\<forall>i < j. mc_repo (mx_calls M ! i) = mc_repo (mx_calls M ! j) \<longrightarrow> mc_phase (mx_calls M ! i) = Released))"

lemma chain_snoc [simp]: "chain (ixs @ [j]) = Then (chain ixs) (Current j)"
  by (simp add: chain_def)

lemma chain_Nil [simp]: "chain [] = Resolved"
  by (simp add: chain_def)

lemma chain_single [simp]: "chain [j] = Then Resolved (Current j)"
  by (simp add: chain_def)

lemma chain_not_Current [simp]: "chain ixs \<noteq> Current j"
  by (cases ixs rule: rev_cases) simp_all

lemma resolved_chain: "resolved cs (chain ixs) \<longleftrightarrow> (\<forall>j \<in> set ixs. j < length cs \<and> mc_phase (cs ! j) = Released)"
  by (induction ixs rule: rev_induct) auto

lemma length_set_phase [simp]: "length (set_phase i p cs) = length cs"
  by (simp add: set_phase_def)

lemma nth_set_phase: "i < length cs \<Longrightarrow> set_phase i p cs ! j = (if i = j then (cs ! j)\<lparr>mc_phase := p\<rparr> else cs ! j)"
  by (simp add: set_phase_def)

lemma set_phase_same [simp]:
  assumes "i < length cs"
  shows "mc_repo (set_phase i p cs ! j) = mc_repo (cs ! j)"
    and "mc_previous (set_phase i p cs ! j) = mc_previous (cs ! j)"
  using assms by (simp_all add: nth_set_phase)

lemma repo_calls_set_phase [simp]: "i < length cs \<Longrightarrow> repo_calls (set_phase i p cs) r n = repo_calls cs r n"
  by (simp add: repo_calls_def)

lemma repo_calls_append: "n \<le> length cs \<Longrightarrow> repo_calls (cs @ [c]) r n = repo_calls cs r n"
  by (auto simp: repo_calls_def nth_append intro!: filter_cong)

lemma repo_calls_Suc:
  "repo_calls (cs @ [c]) r (Suc (length cs)) = repo_calls cs r (length cs) @ (if mc_repo c = r then [length cs] else [])"
  using repo_calls_append [of "length cs" cs c r] by (simp add: repo_calls_def)

lemma mx_linked_call: "mx_linked M \<Longrightarrow> mx_linked (mx_call repoId M)"
  by (auto simp: mx_linked_def mx_call_def Let_def repo_calls_append repo_calls_Suc nth_append less_Suc_eq)

lemma mx_linked_set_phase:
  "mx_linked M \<Longrightarrow> i < length (mx_calls M) \<Longrightarrow> mx_linked (M\<lparr>mx_calls := set_phase i p (mx_calls M)\<rparr>)"
  by (simp add: mx_linked_def)

text \<open>The tail is never a \<open>current\<close> promise, so the deletion in the \<open>finally\<close> block never happens.\<close>

lemma mx_release_linked:
  assumes "mx_linked M"
  shows "mx_release i M = M\<lparr>mx_calls := set_phase i Released (mx_calls M)\<rparr>"
proof -
  have "mx_tails M r \<noteq> Some (Current i)" for r
    using assms by (simp add: mx_linked_def)
  then show ?thesis by (simp add: mx_release_def Let_def)
qed

lemma mx_linked_step: "mx_step M e M' \<Longrightarrow> mx_linked M \<Longrightarrow> mx_linked M'"
  by (cases rule: mx_step.cases)
    (auto simp: mx_linked_call mx_linked_set_phase mx_enter_def mx_release_linked mx_can_enter_def)

text \<open>A call may enter exactly when every earlier call of its repository has released.\<close>

lemma mx_can_enter_iff:
  assumes "mx_linked M"
  shows "mx_can_enter i M \<longleftrightarrow> i < length (mx_calls M) \<and> mc_phase (mx_calls M ! i) = Awaiting \<and>
    (\<forall>j < i. mc_repo (mx_calls M ! j) = mc_repo (mx_calls M ! i) \<longrightarrow> mc_phase (mx_calls M ! j) = Released)"
  using assms by (auto simp: mx_can_enter_def mx_linked_def resolved_chain repo_calls_def)

lemma mx_ordered_step:
  assumes "mx_step M e M'" "mx_linked M" "mx_ordered M"
  shows "mx_ordered M'"
  using assms(1)
proof (cases rule: mx_step.cases)
  case (step_call repoId)
  with assms(3) show ?thesis by (auto simp: mx_ordered_def mx_call_def Let_def nth_append)
next
  case (step_enter i)
  then have i: "i < length (mx_calls M)"
    "\<And>j. j < i \<Longrightarrow> mc_repo (mx_calls M ! j) = mc_repo (mx_calls M ! i) \<Longrightarrow> mc_phase (mx_calls M ! j) = Released"
    "mc_phase (mx_calls M ! i) = Awaiting"
    using mx_can_enter_iff [OF assms(2)] by auto
  with step_enter assms(3) show ?thesis
    by (auto simp: mx_ordered_def mx_enter_def nth_set_phase)
next
  case (step_release i)
  with assms(2,3) show ?thesis
    by (auto simp: mx_ordered_def mx_release_linked nth_set_phase)
qed

lemma mx_run_inv:
  assumes "mx_run M es M'" "mx_linked M" "mx_ordered M"
  shows "mx_linked M' \<and> mx_ordered M'"
  using assms
proof (induction rule: mx_run.induct)
  case (run_cons M e M' es M'')
  then show ?case using mx_linked_step mx_ordered_step by blast
qed simp

lemma mx_init_inv: "mx_linked mutex_init" "mx_ordered mutex_init"
  by (simp_all add: mx_linked_def mx_ordered_def mutex_init_def repo_calls_def)

lemma mx_run_append: "mx_run M es M' \<Longrightarrow> mx_run M' fs M'' \<Longrightarrow> mx_run M (es @ fs) M''"
  by (induction rule: mx_run.induct) (auto intro: mx_run.intros)

section \<open>Properties\<close>

text \<open>
  C25. Mutual exclusion and fairness: in every reachable state, when the action of a call is running
  or has run, the actions of all earlier calls on the same repository have finished; in particular
  no two actions of a repository run at the same time and they run in the order of the calls.
\<close>

theorem mutex_exclusive:
  assumes "mx_run mutex_init es M" and "i < j" and "j < length (mx_calls M)"
    and "mc_repo (mx_calls M ! i) = mc_repo (mx_calls M ! j)" and "mc_phase (mx_calls M ! j) \<noteq> Awaiting"
  shows "mc_phase (mx_calls M ! i) = Released"
  using mx_run_inv [OF assms(1) mx_init_inv] assms(2-5) by (auto simp: mx_ordered_def)

text \<open>The calls of a repository that have not released, up to a given one.\<close>

definition mx_pending :: "mutex \<Rightarrow> nat \<Rightarrow> nat" where
  "mx_pending M i = (\<Sum>j \<leftarrow> repo_calls (mx_calls M) (mc_repo (mx_calls M ! i)) i.
     case mc_phase (mx_calls M ! j) of Awaiting \<Rightarrow> 2 | Running \<Rightarrow> 1 | Released \<Rightarrow> 0)"

lemma sum_list_less:
  assumes "j \<in> set ixs" "f j < (g j :: nat)" "\<And>k. k \<in> set ixs \<Longrightarrow> f k \<le> g k"
  shows "sum_list (map f ixs) < sum_list (map g ixs)"
  using assms
proof (induction ixs)
  case (Cons k ixs)
  show ?case
  proof (cases "f k < g k")
    case True
    then show ?thesis using Cons.prems(3) sum_list_mono [of ixs f g] by (simp add: add_less_le_mono)
  next
    case False
    with Cons.prems have "j \<in> set ixs" by auto
    with Cons show ?thesis by (simp add: add_le_less_mono)
  qed
qed simp

lemma mx_pending_less:
  assumes "j < i" "i < length (mx_calls M)" "mc_repo (mx_calls M ! j) = mc_repo (mx_calls M ! i)"
    and "mc_phase (mx_calls M ! j) = Awaiting \<and> p = Running \<or> mc_phase (mx_calls M ! j) = Running \<and> p = Released"
  shows "mx_pending (M\<lparr>mx_calls := set_phase j p (mx_calls M)\<rparr>) i < mx_pending M i"
proof -
  have j: "j < length (mx_calls M)" using assms by simp
  show ?thesis
    unfolding mx_pending_def using assms j
    by (auto simp: nth_set_phase repo_calls_def intro!: sum_list_less [of j] split: phase.splits)
qed

text \<open>
  C26. No call is lost: from every reachable state, a waiting call is brought to run by finitely many
  steps in which only calls that were made before it enter and release, at most two for each of
  them.
\<close>

theorem mutex_eventually_runs:
  assumes "mx_run mutex_init es M" and "i < length (mx_calls M)" and "mc_phase (mx_calls M ! i) = Awaiting"
  shows "\<exists>fs M'. mx_run M fs M' \<and> mc_phase (mx_calls M' ! i) = Running \<and> length fs \<le> mx_pending M i + 1 \<and>
     set fs \<subseteq> insert (Enter i) (Enter ` {..<i} \<union> Release ` {..<i})"
proof -
  have "mx_linked M" using mx_run_inv [OF assms(1) mx_init_inv] by simp
  then show ?thesis using assms(2,3)
  proof (induction "mx_pending M i" arbitrary: M rule: less_induct)
    case less
    show ?case
    proof (cases "mx_can_enter i M")
      case True
      then have "mx_run M [Enter i] (mx_enter i M)" using run_cons [OF step_enter run_nil] by blast
      moreover have "mc_phase (mx_calls (mx_enter i M) ! i) = Running"
        using less(3) by (simp add: mx_enter_def nth_set_phase)
      ultimately show ?thesis by fastforce
    next
      case False
      then have ex: "\<exists>j. j < i \<and> mc_repo (mx_calls M ! j) = mc_repo (mx_calls M ! i) \<and> mc_phase (mx_calls M ! j) \<noteq> Released"
        using less mx_can_enter_iff by auto
      define j where "j = (LEAST j. j < i \<and> mc_repo (mx_calls M ! j) = mc_repo (mx_calls M ! i) \<and> mc_phase (mx_calls M ! j) \<noteq> Released)"
      have j: "j < i" "mc_repo (mx_calls M ! j) = mc_repo (mx_calls M ! i)" "mc_phase (mx_calls M ! j) \<noteq> Released"
        using LeastI_ex [OF ex] unfolding j_def by auto
      have first: "mc_phase (mx_calls M ! k) = Released" if "k < j" "mc_repo (mx_calls M ! k) = mc_repo (mx_calls M ! i)" for k
        using not_less_Least [of k] that j(1) unfolding j_def by force
      define p where "p = (if mc_phase (mx_calls M ! j) = Awaiting then Running else Released)"
      define e where "e = (if mc_phase (mx_calls M ! j) = Awaiting then Enter j else Release j)"
      let ?M = "M\<lparr>mx_calls := set_phase j p (mx_calls M)\<rparr>"
      have jl: "j < length (mx_calls M)" using j(1) less(3) by simp
      have "mx_step M e ?M"
      proof (cases "mc_phase (mx_calls M ! j) = Awaiting")
        case True
        then have "mx_can_enter j M" using mx_can_enter_iff [OF less(2)] jl j(2) first by simp
        then show ?thesis using step_enter True by (simp add: e_def p_def mx_enter_def)
      next
        case False
        then have "mc_phase (mx_calls M ! j) = Running" using j(3) by (cases "mc_phase (mx_calls M ! j)") auto
        then show ?thesis using step_release [OF jl] False mx_release_linked [OF less(2)] by (simp add: e_def p_def)
      qed
      moreover have pl: "mx_pending ?M i < mx_pending M i"
        using mx_pending_less [OF j(1) less(3) j(2)] j(3) by (cases "mc_phase (mx_calls M ! j)") (auto simp: p_def)
      moreover obtain fs M' where "mx_run ?M fs M'" "mc_phase (mx_calls M' ! i) = Running"
        "length fs \<le> mx_pending ?M i + 1" "set fs \<subseteq> insert (Enter i) (Enter ` {..<i} \<union> Release ` {..<i})"
        using less(1) [OF pl] less(2-4) j(1) jl mx_linked_set_phase by (auto simp: nth_set_phase)
      ultimately have "mx_run M (e # fs) M' \<and> mc_phase (mx_calls M' ! i) = Running \<and>
          length (e # fs) \<le> mx_pending M i + 1 \<and> set (e # fs) \<subseteq> insert (Enter i) (Enter ` {..<i} \<union> Release ` {..<i})"
        using j(1) by (auto simp: e_def intro: run_cons)
      then show ?thesis by blast
    qed
  qed
qed

text \<open>
  The entry of a repository outlives its calls: once a call was made the map keeps an entry for it.
\<close>

lemma mutex_tails_kept:
  assumes "mx_run mutex_init es M"
  shows "mx_tails M r \<noteq> None \<longleftrightarrow> (\<exists>c \<in> set (mx_calls M). mc_repo c = r)"
proof -
  have "mx_tails M r \<noteq> None \<longleftrightarrow> repo_calls (mx_calls M) r (length (mx_calls M)) \<noteq> []"
    using mx_run_inv [OF assms mx_init_inv] by (simp add: mx_linked_def)
  also have "\<dots> \<longleftrightarrow> (\<exists>j < length (mx_calls M). mc_repo (mx_calls M ! j) = r)"
    by (force simp: repo_calls_def filter_empty_conv)
  also have "\<dots> \<longleftrightarrow> (\<exists>c \<in> set (mx_calls M). mc_repo c = r)"
    by (metis in_set_conv_nth)
  finally show ?thesis .
qed

section \<open>Witnesses\<close>

fun mx_apply :: "mx_event \<Rightarrow> mutex \<Rightarrow> mutex" where
  "mx_apply (Call r) M = mx_call r M"
| "mx_apply (Enter i) M = mx_enter i M"
| "mx_apply (Release i) M = mx_release i M"

fun mx_enabled :: "mx_event \<Rightarrow> mutex \<Rightarrow> bool" where
  "mx_enabled (Call r) M \<longleftrightarrow> True"
| "mx_enabled (Enter i) M \<longleftrightarrow> mx_can_enter i M"
| "mx_enabled (Release i) M \<longleftrightarrow> i < length (mx_calls M) \<and> mc_phase (mx_calls M ! i) = Running"

fun mx_all_enabled :: "mx_event list \<Rightarrow> mutex \<Rightarrow> bool" where
  "mx_all_enabled [] M \<longleftrightarrow> True"
| "mx_all_enabled (e # es) M \<longleftrightarrow> mx_enabled e M \<and> mx_all_enabled es (mx_apply e M)"

lemma mx_all_enabled_run: "mx_all_enabled es M \<Longrightarrow> mx_run M es (fold mx_apply es M)"
proof (induction es arbitrary: M)
  case (Cons e es)
  then have "mx_step M e (mx_apply e M)" by (cases e) (auto intro: mx_step.intros)
  with Cons show ?case by (auto intro: run_cons)
qed (simp add: run_nil)

definition sample_schedule :: "mx_event list" where
  "sample_schedule = [Call ''demo'', Call ''other'', Call ''demo'', Enter 0, Enter 1, Release 0, Enter 2]"

lemma mutex_exclusive_witness:
  "mc_phase (mx_calls (fold mx_apply sample_schedule mutex_init) ! 0) = Released"
proof (rule mutex_exclusive [of sample_schedule _ 0 2])
  show "mx_run mutex_init sample_schedule (fold mx_apply sample_schedule mutex_init)"
    by (rule mx_all_enabled_run) code_simp
qed code_simp+

lemma mutex_eventually_runs_witness:
  "\<exists>fs M'. mx_run (fold mx_apply (take 5 sample_schedule) mutex_init) fs M' \<and> mc_phase (mx_calls M' ! 2) = Running \<and>
     length fs \<le> 2"
proof -
  let ?M = "fold mx_apply (take 5 sample_schedule) mutex_init"
  have "mx_run mutex_init (take 5 sample_schedule) ?M"
    by (rule mx_all_enabled_run) code_simp
  moreover have "2 < length (mx_calls ?M)" "mc_phase (mx_calls ?M ! 2) = Awaiting" by code_simp+
  moreover have "mx_pending ?M 2 = 1" by code_simp
  ultimately show ?thesis using mutex_eventually_runs [of "take 5 sample_schedule" ?M 2] by fastforce
qed

end
