(* ===== verification/Branches.thy ===== *)
theory Branches
  imports SyncPlan Mutex
begin

text \<open>
  Branches of a provisioned repository (\<open>contexts/versioning\<close>): the commands of
  \<open>dolt-branch-cli.ts\<close> and \<open>BranchService\<close> (\<open>branch.service.ts\<close>).

  The service receives the binary's wrapper functions as an interface; \<open>dolt_branch_cli\<close> is the
  implementation that \<open>create-versioning-services.ts\<close> passes. The bodies of \<open>create\<close>, \<open>checkout\<close>
  and \<open>delete\<close> run inside \<open>RepoBranchMutex.runExclusive\<close>, so the operations below are what one call
  does between its \<open>Enter\<close> and its \<open>Release\<close> step of theory \<open>Mutex\<close>.

  What is proved of the commands is proved of every binary: a traced binary also records the
  argument vectors it was called with.
\<close>

section \<open>dolt-branch-cli.ts\<close>

record branch_summary =
  bs_name :: string
  bs_isCurrent :: bool

definition runDoltListBranches :: "'w dolt \<Rightarrow> string \<Rightarrow> ('w, versioning_error, branch_summary list) op" where
  "runDoltListBranches dolt doltPath =
     and_then (dolt_checked dolt doltPath (sql_csv ''SELECT name FROM dolt_branches ORDER BY name'')
        (\<lambda>r. ''dolt branch list failed: '' @ trimStdErr r)) (\<lambda>listResult.
     and_then (readCurrentBranchName dolt doltPath) (\<lambda>currentBranch.
       let lines = filter (\<lambda>l. l \<noteq> []) (js_split (CHR 0x0A) (js_trim (cr_stdout listResult)))
       in ret (map (\<lambda>line. \<lparr>bs_name = js_trim line, bs_isCurrent = (js_trim line = currentBranch)\<rparr>) (tl lines))))"

definition runDoltCurrentBranch :: "'w dolt \<Rightarrow> string \<Rightarrow> ('w, versioning_error, string) op" where
  "runDoltCurrentBranch dolt doltPath = readCurrentBranchName dolt doltPath"

definition runDoltCreateBranch :: "'w dolt \<Rightarrow> string \<Rightarrow> string \<Rightarrow> ('w, versioning_error, unit) op" where
  "runDoltCreateBranch dolt doltPath branchName =
     and_then (dolt_checked dolt doltPath [''branch'', branchName]
        (\<lambda>r. ''dolt branch create failed: '' @ trimStdErr r)) (\<lambda>_. ret ())"

definition runDoltCheckoutBranch :: "'w dolt \<Rightarrow> string \<Rightarrow> string \<Rightarrow> ('w, versioning_error, unit) op" where
  "runDoltCheckoutBranch dolt doltPath branchName =
     and_then (dolt_checked dolt doltPath [''checkout'', branchName]
        (\<lambda>r. ''dolt checkout failed: '' @ trimStdErr r)) (\<lambda>_. ret ())"

definition runDoltDeleteBranch :: "'w dolt \<Rightarrow> string \<Rightarrow> string \<Rightarrow> ('w, versioning_error, unit) op" where
  "runDoltDeleteBranch dolt doltPath branchName =
     and_then (dolt_checked dolt doltPath [''branch'', ''-d'', branchName]
        (\<lambda>r. ''dolt branch delete failed: '' @ trimStdErr r)) (\<lambda>_. ret ())"

section \<open>BranchService\<close>

record 'w branch_cli =
  bc_list :: "string \<Rightarrow> ('w, versioning_error, branch_summary list) op"
  bc_current :: "string \<Rightarrow> ('w, versioning_error, string) op"
  bc_create :: "string \<Rightarrow> string \<Rightarrow> ('w, versioning_error, unit) op"
  bc_checkout :: "string \<Rightarrow> string \<Rightarrow> ('w, versioning_error, unit) op"
  bc_delete :: "string \<Rightarrow> string \<Rightarrow> ('w, versioning_error, unit) op"

definition dolt_branch_cli :: "'w dolt \<Rightarrow> 'w branch_cli" where
  "dolt_branch_cli dolt =
     \<lparr>bc_list = runDoltListBranches dolt, bc_current = runDoltCurrentBranch dolt,
      bc_create = runDoltCreateBranch dolt, bc_checkout = runDoltCheckoutBranch dolt,
      bc_delete = runDoltDeleteBranch dolt\<rparr>"

lemma dolt_branch_cli_sel [simp]:
  "bc_list (dolt_branch_cli dolt) = runDoltListBranches dolt"
  "bc_current (dolt_branch_cli dolt) = runDoltCurrentBranch dolt"
  "bc_create (dolt_branch_cli dolt) = runDoltCreateBranch dolt"
  "bc_checkout (dolt_branch_cli dolt) = runDoltCheckoutBranch dolt"
  "bc_delete (dolt_branch_cli dolt) = runDoltDeleteBranch dolt"
  by (simp_all add: dolt_branch_cli_def)

definition DEFAULT_PROTECTED_BRANCHES :: "string list" where
  "DEFAULT_PROTECTED_BRANCHES = [''main'']"

definition invalid_branch_name :: "string \<Rightarrow> versioning_error" where
  "invalid_branch_name branchName = InvalidBranchNameError
     (''Invalid branch name \"'' @ branchName @
      ''\": must match /^[A-Za-z0-9_][A-Za-z0-9_.'' @ [CHR 0x5C] @ ''-/]{0,127}$/ and must not contain spaces, shell metacharacters, or path traversal sequences'')"

definition assertBranchName :: "string \<Rightarrow> ('s, versioning_error, unit) op" where
  "assertBranchName branchName =
     (let normalized = js_trim branchName
      in if normalized = [] \<or> normalized \<noteq> branchName \<or> \<not> VALID_BRANCH branchName \<or>
            js_includes branchName ''..'' \<or> js_startsWith branchName ''/'' \<or> js_endsWith branchName ''/''
         then throw (invalid_branch_name branchName) else ret ())"

text \<open>An id that is no repository id is reported as an unknown repository.\<close>

definition requireRepo :: "'d repo_store \<Rightarrow> string \<Rightarrow> ('d \<times> 'w, versioning_error, repo_record) op" where
  "requireRepo st repoId s =
     (if \<not> VALID_REPO_ID repoId then (Inl (RepoNotFoundError (''Repo not found: '' @ repoId)), s)
      else case rst_get st repoId (fst s) of
             None \<Rightarrow> (Inl (RepoNotFoundError (''Repo not found: '' @ repoId)), s)
           | Some repo \<Rightarrow> (Inr repo, s))"

definition branch_error :: "versioning_error \<Rightarrow> versioning_error" where
  "branch_error err =
     (let message = error_message err; lower = js_toLowerCase message
      in if js_includes lower ''already exists'' then BranchAlreadyExistsError message
         else if js_includes lower ''not found'' \<or> js_includes lower ''unknown branch'' then BranchNotFoundError message
         else err)"

definition branch_translateErrors :: "('w, versioning_error, 'a) op \<Rightarrow> ('d \<times> 'w, versioning_error, 'a) op" where
  "branch_translateErrors operation = try_catch (on_world operation) (\<lambda>err. throw (branch_error err))"

definition branch_list ::
  "'d repo_store \<Rightarrow> 'w branch_cli \<Rightarrow> string \<Rightarrow> ('d \<times> 'w, versioning_error, branch_summary list) op" where
  "branch_list st cli repoId =
     and_then (requireRepo st repoId) (\<lambda>repo. branch_translateErrors (bc_list cli (rp_doltPath repo)))"

definition branch_current ::
  "'d repo_store \<Rightarrow> 'w branch_cli \<Rightarrow> string \<Rightarrow> ('d \<times> 'w, versioning_error, string) op" where
  "branch_current st cli repoId =
     and_then (requireRepo st repoId) (\<lambda>repo. branch_translateErrors (bc_current cli (rp_doltPath repo)))"

text \<open>The results are \<open>(currentBranch, createdBranch)\<close> and \<open>currentBranch\<close>.\<close>

definition branch_create ::
  "'d repo_store \<Rightarrow> 'w branch_cli \<Rightarrow> string \<Rightarrow> string \<Rightarrow> ('d \<times> 'w, versioning_error, string \<times> string) op" where
  "branch_create st cli repoId branchName =
     and_then (assertBranchName branchName) (\<lambda>_.
     and_then (requireRepo st repoId) (\<lambda>repo.
     and_then (branch_translateErrors (bc_create cli (rp_doltPath repo) branchName)) (\<lambda>_.
     and_then (branch_translateErrors (bc_current cli (rp_doltPath repo))) (\<lambda>currentBranch.
     ret (currentBranch, branchName)))))"

definition branch_checkout ::
  "'d repo_store \<Rightarrow> 'w branch_cli \<Rightarrow> string \<Rightarrow> string \<Rightarrow> ('d \<times> 'w, versioning_error, string) op" where
  "branch_checkout st cli repoId branchName =
     and_then (assertBranchName branchName) (\<lambda>_.
     and_then (requireRepo st repoId) (\<lambda>repo.
     and_then (branch_translateErrors (bc_checkout cli (rp_doltPath repo) branchName)) (\<lambda>_.
     ret branchName)))"

definition branch_delete ::
  "'d repo_store \<Rightarrow> 'w branch_cli \<Rightarrow> string \<Rightarrow> string \<Rightarrow> ('d \<times> 'w, versioning_error, unit) op" where
  "branch_delete st cli repoId branchName =
     and_then (assertBranchName branchName) (\<lambda>_.
     and_then (requireRepo st repoId) (\<lambda>repo.
     and_then (branch_translateErrors (bc_current cli (rp_doltPath repo))) (\<lambda>currentBranch.
     if currentBranch = branchName
     then throw (ProtectedBranchError (''Cannot delete the currently checked-out branch \"'' @ branchName @ ''\"''))
     else if branchName \<in> set DEFAULT_PROTECTED_BRANCHES
     then throw (ProtectedBranchError (''Cannot delete protected branch \"'' @ branchName @ ''\"''))
     else branch_translateErrors (bc_delete cli (rp_doltPath repo) branchName))))"

section \<open>Names that are accepted\<close>

lemma VALID_BRANCH_chars:
  assumes "VALID_BRANCH b"
  shows "b \<noteq> []" "hd b \<noteq> CHR ''-''" "length b \<le> 128"
    "set b \<inter> set '' \"`$;|&<>'' = {}" "CHR 0x0A \<notin> set b" "CHR 0x27 \<notin> set b" "CHR 0x5C \<notin> set b"
proof -
  obtain c cs where b: "b = c # cs" "is_alnum c \<or> c = CHR ''_''" "length cs \<le> 127"
    and cs: "\<And>d. d \<in> set cs \<Longrightarrow> is_alnum d \<or> d \<in> {CHR ''_'', CHR ''.'', CHR ''-'', CHR ''/''}"
    using assms by (cases b) (auto simp: VALID_BRANCH_def list_all_iff)
  have all: "is_alnum d \<or> d \<in> {CHR ''_'', CHR ''.'', CHR ''-'', CHR ''/''}" if "d \<in> set b" for d
    using that b cs by auto
  have no: "d \<notin> set b" if "\<not> is_alnum d" "d \<notin> {CHR ''_'', CHR ''.'', CHR ''-'', CHR ''/''}" for d
    using all [of d] that by blast
  have bad: "list_all (\<lambda>d. \<not> is_alnum d \<and> d \<notin> {CHR ''_'', CHR ''.'', CHR ''-'', CHR ''/''})
    (CHR 0x0A # CHR 0x27 # CHR 0x5C # '' \"`$;|&<>'')" by code_simp
  then have "d \<notin> set b" if "d \<in> set (CHR 0x0A # CHR 0x27 # CHR 0x5C # '' \"`$;|&<>'')" for d
    using no that unfolding list_all_iff by blast
  then show "set b \<inter> set '' \"`$;|&<>'' = {}" "CHR 0x0A \<notin> set b" "CHR 0x27 \<notin> set b" "CHR 0x5C \<notin> set b"
    by auto
  have "\<not> is_alnum CHR ''-''" by code_simp
  then show "b \<noteq> []" "hd b \<noteq> CHR ''-''" "length b \<le> 128" using b by auto
qed

lemma assertBranchName_eq: "assertBranchName b = (if branch_name_ok b then ret () else throw (invalid_branch_name b))"
proof -
  have "js_trim b = b \<Longrightarrow> VALID_BRANCH b \<Longrightarrow> js_trim b \<noteq> []" using VALID_BRANCH_chars(1) by metis
  then show ?thesis by (auto simp: assertBranchName_def branch_name_ok_def Let_def)
qed

section \<open>The commands that are run\<close>

text \<open>A binary that records the commands it is given; it answers as the binary it wraps.\<close>

definition traced :: "'w dolt \<Rightarrow> ('w \<times> string list list) dolt" where
  "traced dolt args s = (let (r, w') = dolt args (fst s) in (r, w', snd s @ [args]))"

lemma traced_apply [simp]: "traced dolt args (w, tr) = (fst (dolt args w), snd (dolt args w), tr @ [args])"
  by (simp add: traced_def split_def Let_def)

text \<open>The commands an operation on the world appends to the trace satisfy a predicate.\<close>

definition runs_only :: "(string list \<Rightarrow> bool) \<Rightarrow> ('w \<times> string list list, 'e, 'a) op \<Rightarrow> bool" where
  "runs_only P m \<longleftrightarrow> (\<forall>w tr. \<exists>new. snd (snd (m (w, tr))) = tr @ new \<and> list_all P new)"

definition svc_runs_only :: "(string list \<Rightarrow> bool) \<Rightarrow> 'd \<Rightarrow> ('d \<times> 'w \<times> string list list, 'e, 'a) op \<Rightarrow> bool" where
  "svc_runs_only P d m \<longleftrightarrow> (\<forall>w tr. \<exists>new. fst (snd (m (d, w, tr))) = d \<and>
     snd (snd (snd (m (d, w, tr)))) = tr @ new \<and> list_all P new)"

lemma runs_only_ret [simp]: "runs_only P (ret x)" and runs_only_throw [simp]: "runs_only P (throw e)"
  by (simp_all add: runs_only_def)

lemma runs_only_and_then [intro]:
  assumes "runs_only P m" "\<And>x. runs_only P (f x)"
  shows "runs_only P (and_then m f)"
  unfolding runs_only_def
proof (intro allI)
  fix w tr
  obtain r w1 tr1 where m: "m (w, tr) = (r, w1, tr1)" by (metis prod_cases3)
  with assms(1) obtain n1 where n1: "tr1 = tr @ n1" "list_all P n1" unfolding runs_only_def by (metis snd_conv)
  show "\<exists>new. snd (snd (and_then m f (w, tr))) = tr @ new \<and> list_all P new"
  proof (cases r)
    case (Inl e)
    with m n1 show ?thesis by (auto simp: and_then_def)
  next
    case (Inr x)
    obtain n2 where "snd (snd (f x (w1, tr1))) = tr1 @ n2" "list_all P n2"
      using assms(2) [of x] unfolding runs_only_def by metis
    with m n1 Inr show ?thesis by (auto simp: and_then_def intro!: exI [of _ "n1 @ n2"])
  qed
qed

lemma runs_only_dolt_checked: "P (data_dir p args) \<Longrightarrow> runs_only P (dolt_checked (traced dolt) p args m)"
  by (auto simp: runs_only_def dolt_checked_def Let_def split_def)

lemma svc_runs_only_ret [simp]: "svc_runs_only P d (ret x)" and svc_runs_only_throw [simp]: "svc_runs_only P d (throw e)"
  by (simp_all add: svc_runs_only_def)

lemma svc_runs_only_on_world: "runs_only P m \<Longrightarrow> svc_runs_only P d (on_world m)"
  by (simp add: svc_runs_only_def runs_only_def on_world_apply)

lemma try_catch_throw_state [simp]: "snd (try_catch m (\<lambda>e. throw (g e)) s) = snd (m s)"
  by (simp add: try_catch_def split: prod.splits sum.splits)

lemma svc_runs_only_try: "svc_runs_only P d m \<Longrightarrow> svc_runs_only P d (try_catch m (\<lambda>e. throw (g e)))"
  by (simp add: svc_runs_only_def)

text \<open>In a sequence the continuation is only looked at where the first part can return.\<close>

lemma svc_runs_only_and_then:
  assumes "svc_runs_only P d m"
    and "\<And>x w s'. m (d, w) = (Inr x, s') \<Longrightarrow> svc_runs_only P d (f x)"
  shows "svc_runs_only P d (and_then m f)"
  unfolding svc_runs_only_def
proof (intro allI)
  fix w tr
  obtain r d1 w1 tr1 where m: "m (d, w, tr) = (r, d1, w1, tr1)" by (metis prod_cases4)
  with assms(1) obtain n1 where n1: "d1 = d" "tr1 = tr @ n1" "list_all P n1"
    unfolding svc_runs_only_def by (metis fst_conv snd_conv)
  show "\<exists>new. fst (snd (and_then m f (d, w, tr))) = d \<and>
     snd (snd (snd (and_then m f (d, w, tr)))) = tr @ new \<and> list_all P new"
  proof (cases r)
    case (Inl e)
    with m n1 show ?thesis by (auto simp: and_then_def)
  next
    case (Inr x)
    from m Inr have "svc_runs_only P d (f x)" using assms(2) by blast
    then obtain n2 where "fst (snd (f x (d, w1, tr1))) = d" "snd (snd (snd (f x (d, w1, tr1)))) = tr1 @ n2" "list_all P n2"
      unfolding svc_runs_only_def by metis
    with m n1 Inr show ?thesis by (auto simp: and_then_def intro!: exI [of _ "n1 @ n2"])
  qed
qed

lemma requireRepo_Inr:
  "requireRepo st repoId (d, w) = (Inr repo, s') \<longleftrightarrow>
     VALID_REPO_ID repoId \<and> rst_get st repoId d = Some repo \<and> s' = (d, w)"
  by (auto simp: requireRepo_def split: option.splits)

lemma requireRepo_state [simp]: "snd (requireRepo st repoId s) = s"
  by (simp add: requireRepo_def split: option.splits)

lemma svc_runs_only_requireRepo [simp]: "svc_runs_only P d (requireRepo st repoId)"
  by (simp add: svc_runs_only_def)

lemma assertBranchName_Inr: "assertBranchName b s = (Inr u, s') \<longleftrightarrow> branch_name_ok b \<and> s' = s"
  by (auto simp: assertBranchName_eq)

lemma svc_runs_only_assertBranchName [simp]: "svc_runs_only P d (assertBranchName b)"
  by (simp add: assertBranchName_eq)

text \<open>
  The commands on the repository at a path: the list and the current branch, and those that name a
  branch, which is then an accepted name.
\<close>

definition branch_command :: "string \<Rightarrow> string list \<Rightarrow> bool" where
  "branch_command p args \<longleftrightarrow>
     args = data_dir p [''branch''] \<or>
     args = data_dir p (sql_csv ''SELECT name FROM dolt_branches ORDER BY name'') \<or>
     (\<exists>b. branch_name_ok b \<and>
        (args = data_dir p [''branch'', b] \<or> args = data_dir p [''checkout'', b] \<or> args = data_dir p [''branch'', ''-d'', b]))"

lemma runs_only_current:
  "P (data_dir p [''branch'']) \<Longrightarrow> runs_only P (readCurrentBranchName (traced dolt) p)"
  unfolding readCurrentBranchName_def
  by (intro runs_only_and_then runs_only_dolt_checked) (auto split: option.splits)

lemma branch_cli_runs_only:
  "runs_only (branch_command p) (runDoltListBranches (traced dolt) p)"
  "runs_only (branch_command p) (runDoltCurrentBranch (traced dolt) p)"
  "branch_name_ok b \<Longrightarrow> runs_only (branch_command p) (runDoltCreateBranch (traced dolt) p b)"
  "branch_name_ok b \<Longrightarrow> runs_only (branch_command p) (runDoltCheckoutBranch (traced dolt) p b)"
  "branch_name_ok b \<Longrightarrow> runs_only (branch_command p) (runDoltDeleteBranch (traced dolt) p b)"
  unfolding runDoltListBranches_def runDoltCurrentBranch_def runDoltCreateBranch_def
    runDoltCheckoutBranch_def runDoltDeleteBranch_def
  by (intro runs_only_and_then runs_only_dolt_checked runs_only_current;
      auto simp: branch_command_def Let_def)+

lemma svc_runs_only_translate: "runs_only P m \<Longrightarrow> svc_runs_only P d (branch_translateErrors m)"
  unfolding branch_translateErrors_def by (intro svc_runs_only_try svc_runs_only_on_world)

lemmas branch_runs = svc_runs_only_and_then svc_runs_only_requireRepo svc_runs_only_assertBranchName
  svc_runs_only_translate branch_cli_runs_only

lemma branch_service_runs_only:
  fixes st :: "'d repo_store" and dolt :: "'w dolt"
  assumes P: "\<And>repo. rst_get st repoId d = Some repo \<Longrightarrow> P = branch_command (rp_doltPath repo)"
  defines "cli \<equiv> dolt_branch_cli (traced dolt)"
  shows "svc_runs_only P d (branch_list st cli repoId)"
    and "svc_runs_only P d (branch_current st cli repoId)"
    and "svc_runs_only P d (branch_create st cli repoId b)"
    and "svc_runs_only P d (branch_checkout st cli repoId b)"
    and "svc_runs_only P d (branch_delete st cli repoId b)"
  unfolding branch_list_def branch_current_def branch_create_def branch_checkout_def branch_delete_def cli_def
  by (intro branch_runs; auto simp: requireRepo_Inr assertBranchName_Inr P intro!: branch_runs split: if_splits)+

section \<open>Properties\<close>

text \<open>
  C35. Whatever branch name a client sends, the branch service runs commands only on the directory
  registered for the repository of the request, and a command that names a branch gets a name of at
  most 128 characters that is not an option, has no blank, quote, backslash or shell character and no
  \<open>..\<close>. The registry is not changed. On a repository that is not registered no command is run.
\<close>

theorem branch_commands_confined:
  fixes st :: "'d repo_store" and dolt :: "'w dolt"
  assumes "P = (\<lambda>args. \<exists>repo. rst_get st repoId d = Some repo \<and> branch_command (rp_doltPath repo) args)"
    and "cli = dolt_branch_cli (traced dolt)"
  shows "svc_runs_only P d (branch_list st cli repoId) \<and> svc_runs_only P d (branch_current st cli repoId) \<and>
     svc_runs_only P d (branch_create st cli repoId b) \<and> svc_runs_only P d (branch_checkout st cli repoId b) \<and>
     svc_runs_only P d (branch_delete st cli repoId b) \<and>
     (branch_name_ok b \<longrightarrow> b \<noteq> [] \<and> hd b \<noteq> CHR ''-'' \<and> length b \<le> 128 \<and> \<not> js_includes b ''..'' \<and>
        set b \<inter> set '' \"`$;|&<>'' = {} \<and> CHR 0x27 \<notin> set b \<and> CHR 0x5C \<notin> set b)"
proof -
  have "\<And>repo. rst_get st repoId d = Some repo \<Longrightarrow> P = branch_command (rp_doltPath repo)"
    by (simp add: assms(1))
  note runs = branch_service_runs_only [where st = st and repoId = repoId and d = d and P = P and dolt = dolt, OF this, folded assms(2)]
  show ?thesis
    using runs VALID_BRANCH_chars [of b] by (simp add: branch_name_ok_def)
qed

text \<open>A binary for the witnesses: it has the branches \<open>main\<close> (current) and \<open>dev\<close>.\<close>

definition sample_dolt :: "unit dolt" where
  "sample_dolt args w = (\<lparr>cr_exitCode = 0, cr_stdout = ''  dev'' @ [CHR 0x0A] @ ''* main'' @ [CHR 0x0A], cr_stderr = []\<rparr>, w)"

lemma branch_commands_confined_witness:
  "svc_runs_only (\<lambda>args. \<exists>repo. rst_get (libsqlRepoStore True) ''demo'' sample_repo_db = Some repo \<and>
       branch_command (rp_doltPath repo) args) sample_repo_db
     (branch_create (libsqlRepoStore True) (dolt_branch_cli (traced sample_dolt)) ''demo'' ''feature/x'') \<and>
   hd ''feature/x'' \<noteq> CHR ''-''"
  using branch_commands_confined [OF refl refl, of "libsqlRepoStore True" "''demo''" sample_repo_db sample_dolt "''feature/x''"]
  by simp

lemma traced_checked:
  "dolt_checked (traced dolt) p args m (w, tr) =
     (fst (dolt_checked dolt p args m w), snd (dolt_checked dolt p args m w), tr @ [data_dir p args])"
  by (simp add: dolt_checked_def split_def Let_def)

lemma traced_current:
  "readCurrentBranchName (traced dolt) p (w, tr) =
     (fst (readCurrentBranchName dolt p w), snd (readCurrentBranchName dolt p w), tr @ [data_dir p [''branch'']])"
  by (cases "fst (dolt_checked dolt p [''branch''] (\<lambda>r. ''dolt current branch lookup failed: '' @ trimStdErr r) w)")
    (auto simp: readCurrentBranchName_def and_then_def traced_checked split_def split: option.splits sum.splits)

lemma translate_Inr:
  "branch_translateErrors m s = (Inr x, s') \<longleftrightarrow> on_world m s = (Inr x, s')"
  by (auto simp: branch_translateErrors_def try_catch_def split: prod.splits sum.splits)

lemma translate_state: "snd (branch_translateErrors m (d, w)) = (d, snd (m w))"
  by (simp add: branch_translateErrors_def on_world_apply)

text \<open>
  C36. A branch is deleted only when its name is accepted, it is not \<open>main\<close>, and it is not the branch
  that \<open>dolt\<close> reported as checked out within the same exclusive section.
\<close>

theorem branch_delete_safe:
  assumes "branch_delete st (dolt_branch_cli (traced dolt)) repoId b (d, w, []) = (res, d', w', tr)"
    and "data_dir p [''branch'', ''-d'', b'] \<in> set tr"
  shows "b' = b \<and> branch_name_ok b \<and> b \<noteq> ''main'' \<and>
     (\<exists>repo. rst_get st repoId d = Some repo \<and> rp_doltPath repo = p) \<and>
     (\<exists>current w1. readCurrentBranchName dolt p w = (Inr current, w1) \<and> current \<noteq> b)"
proof (cases "branch_name_ok b \<and> VALID_REPO_ID repoId \<and> rst_get st repoId d \<noteq> None")
  case False
  then have "tr = []"
    using assms(1) by (auto simp: branch_delete_def assertBranchName_eq and_then_def requireRepo_def split: option.splits if_splits)
  with assms(2) show ?thesis by simp
next
  case True
  then obtain repo where repo: "rst_get st repoId d = Some repo" by auto
  let ?p = "rp_doltPath repo"
  let ?cur = "branch_translateErrors (runDoltCurrentBranch (traced dolt) ?p)"
  let ?rest = "\<lambda>currentBranch. if currentBranch = b
     then throw (ProtectedBranchError (''Cannot delete the currently checked-out branch \"'' @ b @ ''\"''))
     else if b \<in> set DEFAULT_PROTECTED_BRANCHES
     then throw (ProtectedBranchError (''Cannot delete protected branch \"'' @ b @ ''\"''))
     else branch_translateErrors (runDoltDeleteBranch (traced dolt) ?p b)"
  have "branch_delete st (dolt_branch_cli (traced dolt)) repoId b (d, w, []) = and_then ?cur ?rest (d, w, [])"
    using True repo unfolding branch_delete_def dolt_branch_cli_sel
    by (subst and_then_step(1) [of _ _ "()" "(d, w, [])"], simp add: assertBranchName_eq,
        subst and_then_step(1) [of _ _ repo "(d, w, [])"], simp_all add: requireRepo_def)
  then have run: "and_then ?cur ?rest (d, w, []) = (res, d', w', tr)" using assms(1) by simp
  have not_del: "data_dir ?p [''branch''] \<noteq> data_dir p [''branch'', ''-d'', b']" by (simp add: data_dir_def)
  have cur_state: "snd (?cur (d, w, [])) = (d, snd (readCurrentBranchName dolt ?p w), [data_dir ?p [''branch'']])"
    by (simp add: translate_state runDoltCurrentBranch_def traced_current)
  show ?thesis
  proof (cases "fst (?cur (d, w, []))")
    case (Inl e)
    then have "?cur (d, w, []) = (Inl e, snd (?cur (d, w, [])))" by (simp add: prod_eq_iff)
    from and_then_step(2) [of ?cur, OF this, of ?rest] run cur_state have "tr = [data_dir ?p [''branch'']]" by simp
    with assms(2) not_del show ?thesis by auto
  next
    case (Inr current)
    then have c: "?cur (d, w, []) = (Inr current, snd (?cur (d, w, [])))" by (simp add: prod_eq_iff)
    from c [unfolded translate_Inr] have cd: "readCurrentBranchName dolt ?p w = (Inr current, snd (readCurrentBranchName dolt ?p w))"
      by (simp add: on_world_apply runDoltCurrentBranch_def traced_current prod_eq_iff)
    from and_then_step(1) [of ?cur, OF c, of ?rest] run cur_state
    have r: "?rest current (d, snd (readCurrentBranchName dolt ?p w), [data_dir ?p [''branch'']]) = (res, d', w', tr)"
      by simp
    show ?thesis
    proof (cases "current = b \<or> b = ''main''")
      case True
      with r have "tr = [data_dir ?p [''branch'']]" by (auto simp: DEFAULT_PROTECTED_BRANCHES_def split: if_splits)
      with assms(2) not_del show ?thesis by auto
    next
      case False
      with r have "snd (snd (snd (branch_translateErrors (runDoltDeleteBranch (traced dolt) ?p b)
          (d, snd (readCurrentBranchName dolt ?p w), [data_dir ?p [''branch'']])))) = tr"
        by (simp add: DEFAULT_PROTECTED_BRANCHES_def)
      moreover have "snd (snd (runDoltDeleteBranch (traced dolt) ?p b (v, ts))) = ts @ [data_dir ?p [''branch'', ''-d'', b]]" for v ts
        by (simp add: runDoltDeleteBranch_def and_then_def traced_checked split: sum.splits)
      ultimately have "tr = [data_dir ?p [''branch'']] @ [data_dir ?p [''branch'', ''-d'', b]]"
        by (simp add: translate_state)
      with assms(2) not_del have "data_dir p [''branch'', ''-d'', b'] = data_dir ?p [''branch'', ''-d'', b]" by auto
      then have "p = ?p" "b' = b" by (simp_all add: data_dir_def)
      with True repo cd False show ?thesis by auto
    qed
  qed
qed

lemma branch_delete_safe_witness:
  "\<exists>tr. branch_delete (libsqlRepoStore True) (dolt_branch_cli (traced sample_dolt)) ''demo'' ''dev'' (sample_repo_db, (), []) =
        (Inr (), sample_repo_db, (), tr) \<and> data_dir ''/r/demo'' [''branch'', ''-d'', ''dev''] \<in> set tr \<and> branch_name_ok ''dev''"
proof -
  have run: "branch_delete (libsqlRepoStore True) (dolt_branch_cli (traced sample_dolt)) ''demo'' ''dev'' (sample_repo_db, (), []) =
    (Inr (), sample_repo_db, (), [data_dir ''/r/demo'' [''branch''], data_dir ''/r/demo'' [''branch'', ''-d'', ''dev'']])"
    by code_simp
  moreover have "branch_name_ok ''dev''" using branch_delete_safe [OF run] by auto
  ultimately show ?thesis by auto
qed

end
