(* ===== verification/Merge.thy ===== *)
theory Merge
  imports Branches
begin

text \<open>
  Merging branches (\<open>contexts/versioning\<close>): the commands of \<open>dolt-merge-cli.ts\<close> and
  \<open>MergeService\<close> (\<open>merge.service.ts\<close>). The body of \<open>merge\<close> runs inside
  \<open>RepoBranchMutex.runExclusive\<close>.
\<close>

section \<open>dolt-merge-cli.ts\<close>

text \<open>\<open>Number\<close> of the decimal count that \<open>dolt_conflicts\<close> prints; the empty string is zero.\<close>

definition js_number :: "string \<Rightarrow> nat option" where
  "js_number s =
     (let t = js_trim s
      in if list_all is_digit t then Some (foldl (\<lambda>n c. 10 * n + (of_char c - 48)) 0 t) else None)"

text \<open>One column of a conflict row goes to \<open>base\<close>, \<open>ours\<close>, \<open>theirs\<close> or nowhere.\<close>

definition conflict_column ::
  "string \<times> string \<Rightarrow> merge_conflict_row \<Rightarrow> merge_conflict_row" where
  "conflict_column kv r =
     (let (key, v) = kv; val = toNullable (Some v)
      in if js_startsWith key ''base_'' then r\<lparr>mr_base := obj_set (drop 5 key) val (mr_base r)\<rparr>
         else if js_startsWith key ''our_'' \<and> key \<noteq> ''our_diff_type''
         then r\<lparr>mr_ours := obj_set (drop 4 key) val (mr_ours r)\<rparr>
         else if js_startsWith key ''their_'' \<and> key \<noteq> ''their_diff_type''
         then r\<lparr>mr_theirs := obj_set (drop 6 key) val (mr_theirs r)\<rparr>
         else r)"

definition buildConflictRow :: "csv_row \<Rightarrow> merge_conflict_row" where
  "buildConflictRow detailRow =
     fold conflict_column detailRow
       \<lparr>mr_fromRootIsh = toNullable (map_of detailRow ''from_root_ish''),
        mr_base = [], mr_ours = [], mr_theirs = [],
        mr_ourDiffType = toNullable (map_of detailRow ''our_diff_type''),
        mr_theirDiffType = toNullable (map_of detailRow ''their_diff_type''),
        mr_conflictId = toNullable (map_of detailRow ''dolt_conflict_id'')\<rparr>"

definition readConflictTable ::
  "'w dolt \<Rightarrow> string \<Rightarrow> string \<Rightarrow> string option \<Rightarrow> ('w, versioning_error, merge_conflict_table) op" where
  "readConflictTable dolt doltPath tableName expectedCount =
     and_then (assertSafeTableName tableName) (\<lambda>_.
     and_then (dolt_checked dolt doltPath (sql_csv (''SELECT * FROM dolt_conflicts_'' @ tableName))
        (\<lambda>r. ''dolt conflict detail query failed for '' @ tableName @ '': '' @ trimStdErr r)) (\<lambda>detail.
     let conflicts = map buildConflictRow (parseCsv (cr_stdout detail))
     in ret \<lparr>mt_table = tableName,
             mt_count = (case expectedCount of Some c \<Rightarrow> js_number c | None \<Rightarrow> Some (length conflicts)),
             mt_conflicts = conflicts\<rparr>))"

text \<open>The last line of the output, trimmed.\<close>

definition last_line :: "cli_result \<Rightarrow> string" where
  "last_line r = js_trim (last (js_split (CHR 0x0A) (js_trim (cr_stdout r))))"

definition readLatestCommitHash :: "'w dolt \<Rightarrow> string \<Rightarrow> ('w, versioning_error, string) op" where
  "readLatestCommitHash dolt doltPath =
     and_then (dolt_checked dolt doltPath (sql_csv latest_hash_query)
        (\<lambda>r. ''dolt log lookup failed: '' @ trimStdErr r)) (\<lambda>hash.
     let commitHash = last_line hash
     in if commitHash = [] \<or> commitHash = ''commit_hash''
        then throw (PlainError ''Could not determine latest commit hash from dolt_log'') else ret commitHash)"

definition merge_checkout :: "'w dolt \<Rightarrow> string \<Rightarrow> string \<Rightarrow> ('w, versioning_error, unit) op" where
  "merge_checkout dolt doltPath branchName =
     and_then (assertSafeBranchName branchName) (\<lambda>_.
     and_then (dolt_checked dolt doltPath [''checkout'', branchName]
        (\<lambda>r. ''dolt checkout failed: '' @ trimStdErr r)) (\<lambda>_. ret ()))"

text \<open>The result of \<open>dolt merge\<close>, streams trimmed, whatever its exit code.\<close>

record merge_output =
  mo_exitCode :: nat
  mo_stdout :: string
  mo_stderr :: string
  mo_currentBranch :: string

definition runDoltMerge ::
  "'w dolt \<Rightarrow> string \<Rightarrow> string \<Rightarrow> string option \<Rightarrow> ('w, versioning_error, merge_output) op" where
  "runDoltMerge dolt doltPath sourceBranch targetBranch =
     and_then (assertSafeBranchName sourceBranch) (\<lambda>_.
     and_then (case targetBranch of
         None \<Rightarrow> ret ()
       | Some target \<Rightarrow>
           and_then (assertSafeBranchName target) (\<lambda>_.
           and_then (readCurrentBranchName dolt doltPath) (\<lambda>currentBranch.
           if currentBranch \<noteq> target then merge_checkout dolt doltPath target else ret ()))) (\<lambda>_.
     and_then (readCurrentBranchName dolt doltPath) (\<lambda>currentBranch w.
     let (result, w') = dolt (data_dir doltPath [''merge'', sourceBranch]) w
     in (Inr \<lparr>mo_exitCode = cr_exitCode result, mo_stdout = trimStdOut result, mo_stderr = trimStdErr result,
              mo_currentBranch = currentBranch\<rparr>, w'))))"

definition runDoltMergeAbort :: "'w dolt \<Rightarrow> string \<Rightarrow> ('w, versioning_error, unit) op" where
  "runDoltMergeAbort dolt doltPath =
     and_then (dolt_checked dolt doltPath [''merge'', ''--abort'']
        (\<lambda>r. ''dolt merge --abort failed: '' @ trimStdErr r)) (\<lambda>_. ret ())"

definition conflicts_query :: string where
  "conflicts_query = ''SELECT `table`, num_conflicts FROM dolt_conflicts ORDER BY `table`''"

definition runDoltReadConflicts :: "'w dolt \<Rightarrow> string \<Rightarrow> ('w, versioning_error, merge_conflict_table list) op" where
  "runDoltReadConflicts dolt doltPath =
     and_then (dolt_checked dolt doltPath (sql_csv conflicts_query)
        (\<lambda>r. ''dolt conflicts query failed: '' @ trimStdErr r)) (\<lambda>summary.
     for_each (\<lambda>row. case map_of row ''table'' of
         Some (c # tableName) \<Rightarrow> readConflictTable dolt doltPath (c # tableName) (map_of row ''num_conflicts'')
       | _ \<Rightarrow> throw (PlainError ''Unexpected dolt_conflicts row without table name''))
       (parseCsv (cr_stdout summary)))"

section \<open>MergeService\<close>

datatype merge_result =
    Merged (mrg_target: string) (mrg_source: string) (mrg_commitHash: string) (mrg_fastForward: bool) (mrg_message: string)
  | UpToDate (mrg_target: string) (mrg_source: string) (mrg_message: string)

record 'w merge_cli =
  mg_merge :: "string \<Rightarrow> string \<Rightarrow> string option \<Rightarrow> ('w, versioning_error, merge_output) op"
  mg_abort :: "string \<Rightarrow> ('w, versioning_error, unit) op"
  mg_conflicts :: "string \<Rightarrow> ('w, versioning_error, merge_conflict_table list) op"
  mg_latestHash :: "string \<Rightarrow> ('w, versioning_error, string) op"
  mg_current :: "string \<Rightarrow> ('w, versioning_error, string) op"

definition dolt_merge_cli :: "'w dolt \<Rightarrow> 'w merge_cli" where
  "dolt_merge_cli dolt =
     \<lparr>mg_merge = runDoltMerge dolt, mg_abort = runDoltMergeAbort dolt, mg_conflicts = runDoltReadConflicts dolt,
      mg_latestHash = readLatestCommitHash dolt, mg_current = readCurrentBranchName dolt\<rparr>"

lemma dolt_merge_cli_sel [simp]:
  "mg_merge (dolt_merge_cli dolt) = runDoltMerge dolt" "mg_abort (dolt_merge_cli dolt) = runDoltMergeAbort dolt"
  "mg_conflicts (dolt_merge_cli dolt) = runDoltReadConflicts dolt"
  "mg_latestHash (dolt_merge_cli dolt) = readLatestCommitHash dolt"
  "mg_current (dolt_merge_cli dolt) = readCurrentBranchName dolt"
  by (simp_all add: dolt_merge_cli_def)

definition merge_error :: "versioning_error \<Rightarrow> versioning_error" where
  "merge_error err =
     (let message = error_message err; lower = js_toLowerCase message
      in if js_includes lower ''not found'' \<or> js_includes lower ''unknown branch'' then BranchNotFoundError message
         else err)"

definition merge_translateErrors :: "('w, versioning_error, 'a) op \<Rightarrow> ('d \<times> 'w, versioning_error, 'a) op" where
  "merge_translateErrors operation = try_catch (on_world operation) (\<lambda>err. throw (merge_error err))"

text \<open>What is done with the outcome of \<open>dolt merge\<close>.\<close>

definition merge_finish ::
  "'w merge_cli \<Rightarrow> string \<Rightarrow> string \<Rightarrow> string \<Rightarrow> merge_output \<Rightarrow> ('w, versioning_error, merge_result) op" where
  "merge_finish cli doltPath sourceBranch intendedTarget result =
     (let combined = js_toLowerCase (mo_stdout result @ [CHR 0x0A] @ mo_stderr result)
      in if mo_exitCode result = 0
         then if js_includes combined ''up to date''
              then ret (UpToDate intendedTarget sourceBranch
                     (if mo_stdout result = [] then ''Already up to date.'' else mo_stdout result))
              else and_then (mg_latestHash cli doltPath) (\<lambda>commitHash.
                   ret (Merged intendedTarget sourceBranch commitHash (js_includes combined ''fast-forward'')
                     (if mo_stdout result = [] then ''Merge completed successfully.'' else mo_stdout result)))
         else if js_includes combined ''conflict''
         then and_then (mg_conflicts cli doltPath) (\<lambda>conflicts.
              and_then (mg_abort cli doltPath) (\<lambda>_.
              throw (MergeConflictError
                (''Merge conflict while merging \"'' @ sourceBranch @ ''\" into \"'' @ intendedTarget @ ''\"'')
                conflicts sourceBranch intendedTarget)))
         else throw (PlainError (if mo_stderr result \<noteq> [] then mo_stderr result
                else if mo_stdout result \<noteq> [] then mo_stdout result else ''dolt merge failed'')))"

text \<open>The target is an optional argument; the empty string counts as absent.\<close>

definition merge_op ::
  "'d repo_store \<Rightarrow> 'w merge_cli \<Rightarrow> string \<Rightarrow> string \<Rightarrow> string option \<Rightarrow> ('d \<times> 'w, versioning_error, merge_result) op" where
  "merge_op st cli repoId sourceBranch targetArg =
     (let targetBranch = (if targetArg = Some [] then None else targetArg)
      in and_then (assertBranchName sourceBranch) (\<lambda>_.
         and_then (case targetBranch of None \<Rightarrow> ret () | Some t \<Rightarrow> assertBranchName t) (\<lambda>_.
         and_then (requireRepo st repoId) (\<lambda>repo.
         and_then (case targetBranch of
             Some t \<Rightarrow> ret t
           | None \<Rightarrow> merge_translateErrors (mg_current cli (rp_doltPath repo))) (\<lambda>intendedTarget.
         and_then (merge_translateErrors (mg_merge cli (rp_doltPath repo) sourceBranch targetBranch)) (\<lambda>result.
         on_world (merge_finish cli (rp_doltPath repo) sourceBranch intendedTarget result)))))))"

section \<open>Where a conflict error comes from\<close>

text \<open>The commands throw plain errors only, so a conflict error is always the service's own.\<close>

definition plain_errors :: "('w, versioning_error, 'a) op \<Rightarrow> bool" where
  "plain_errors m \<longleftrightarrow> (\<forall>w e w'. m w = (Inl e, w') \<longrightarrow> (\<exists>t. e = PlainError t))"

lemma plain_errors_ret [simp]: "plain_errors (ret x)" and plain_errors_throw [simp]: "plain_errors (throw (PlainError t))"
  by (simp_all add: plain_errors_def)

lemma plain_errors_and_then: "plain_errors m \<Longrightarrow> (\<And>x. plain_errors (f x)) \<Longrightarrow> plain_errors (and_then m f)"
  unfolding plain_errors_def and_then_Inl by blast

lemma plain_errors_checked: "plain_errors (dolt_checked dolt p args m)"
  by (auto simp: plain_errors_def cli_simps)

lemma plain_errors_asserts:
  "plain_errors (assertSafeBranchName b)" "plain_errors (assertSafeTableName t)"
  by (simp_all add: assertSafeBranchName_def assertSafeTableName_def)

lemma plain_errors_current: "plain_errors (readCurrentBranchName dolt p)"
  unfolding readCurrentBranchName_def
  by (intro plain_errors_and_then plain_errors_checked) (simp split: option.splits)

lemma plain_errors_for_each: "(\<And>x. plain_errors (f x)) \<Longrightarrow> plain_errors (for_each f xs)"
  by (induction xs) (auto intro!: plain_errors_and_then)

lemmas plain_intros = plain_errors_and_then plain_errors_checked plain_errors_asserts plain_errors_current plain_errors_ret

lemma plain_errors_merge: "plain_errors (runDoltMerge dolt p src tgt)"
proof -
  have "plain_errors (merge_checkout dolt p t)" for t
    unfolding merge_checkout_def by (intro plain_intros)
  then show ?thesis
    unfolding runDoltMerge_def
    by (auto intro!: plain_intros split: option.splits) (auto simp: plain_errors_def split_def Let_def)
qed

lemma plain_errors_latest: "plain_errors (readLatestCommitHash dolt p)"
  unfolding readLatestCommitHash_def by (intro plain_intros) (simp add: Let_def)

lemma plain_errors_conflicts: "plain_errors (runDoltReadConflicts dolt p)"
proof -
  have "plain_errors (readConflictTable dolt p t c)" for t c
    unfolding readConflictTable_def Let_def by (intro plain_intros)
  then show ?thesis
    unfolding runDoltReadConflicts_def
    by (intro plain_intros plain_errors_for_each) (simp split: option.splits list.splits)
qed

lemma plain_errors_abort: "plain_errors (runDoltMergeAbort dolt p)"
  unfolding runDoltMergeAbort_def by (intro plain_intros)

fun is_conflict :: "versioning_error \<Rightarrow> bool" where
  "is_conflict (MergeConflictError _ _ _ _) \<longleftrightarrow> True"
| "is_conflict _ \<longleftrightarrow> False"

definition no_conflict :: "('s, versioning_error, 'a) op \<Rightarrow> bool" where
  "no_conflict m \<longleftrightarrow> (\<forall>s e s'. m s = (Inl e, s') \<longrightarrow> \<not> is_conflict e)"

lemma and_then_conflictE:
  assumes "and_then m f s = (Inl e, t)" and "is_conflict e" and "no_conflict m"
  obtains x s' where "m s = (Inr x, s')" and "f x s' = (Inl e, t)"
  using assms unfolding and_then_Inl no_conflict_def by blast

lemma no_conflict_plain: "plain_errors m \<Longrightarrow> no_conflict m"
  unfolding no_conflict_def plain_errors_def by fastforce

lemma merge_translate_Inl:
  "merge_translateErrors m s = (Inl e, s') \<Longrightarrow> \<exists>e0 w'. m (snd s) = (Inl e0, w') \<and> e = merge_error e0"
  by (cases "m (snd s)"; cases "fst (m (snd s))")
    (auto simp: merge_translateErrors_def try_catch_def on_world_def)

lemma merge_error_plain: "\<not> is_conflict (merge_error (PlainError t))"
  by (simp add: merge_error_def Let_def)

lemma no_conflict_translate: "plain_errors m \<Longrightarrow> no_conflict (merge_translateErrors m)"
  unfolding no_conflict_def plain_errors_def using merge_translate_Inl merge_error_plain by metis

lemma no_conflict_checks: "no_conflict (assertBranchName b)" "no_conflict (requireRepo st r)"
  by (auto simp: no_conflict_def assertBranchName_eq invalid_branch_name_def requireRepo_def
      split: option.splits if_splits)

lemma no_conflict_ret: "no_conflict (ret x)"
  by (simp add: no_conflict_def)

lemma merge_finish_conflict:
  assumes "merge_finish (dolt_merge_cli dolt) p src target result w = (Inl e, w')" and "is_conflict e"
  obtains w1 cs m where "e = MergeConflictError m cs src target"
    and "runDoltReadConflicts dolt p w = (Inr cs, w1)" and "runDoltMergeAbort dolt p w1 = (Inr (), w')"
proof -
  have c: "no_conflict (runDoltReadConflicts dolt p)" "no_conflict (runDoltMergeAbort dolt p)" "no_conflict (readLatestCommitHash dolt p)"
    by (intro no_conflict_plain plain_errors_conflicts plain_errors_abort plain_errors_latest)+
  show thesis
    using assms unfolding merge_finish_def Let_def dolt_merge_cli_sel
    by (auto split: if_splits elim!: and_then_conflictE [OF _ _ c(1)] and_then_conflictE [OF _ _ c(2)]
        and_then_conflictE [OF _ _ c(3)] intro: that)
qed

text \<open>
  A merge conflict is reported to the client only after the conflicting merge was undone: the
  last command was a successful \<open>merge --abort\<close> on the repository, right after the conflicts in the
  report were read. The names in the report are the accepted source and, if one was given, the
  accepted target.
\<close>

theorem merge_conflict_aborted:
  assumes "merge_op st (dolt_merge_cli dolt) repoId source target (d, w) = (Inl (MergeConflictError m conflicts s t), d', w')"
  shows "d' = d \<and> s = source \<and> branch_name_ok source \<and> (\<forall>b. target = Some b \<and> b \<noteq> [] \<longrightarrow> t = b \<and> branch_name_ok b) \<and>
     (\<exists>repo w1 w2 r. rst_get st repoId d = Some repo \<and> runDoltReadConflicts dolt (rp_doltPath repo) w1 = (Inr conflicts, w2) \<and>
        dolt (data_dir (rp_doltPath repo) [''merge'', ''--abort'']) w2 = (r, w') \<and> cr_exitCode r = 0)"
proof -
  define tgt where "tgt = (if target = Some [] then None else target)"
  have c: "is_conflict (MergeConflictError m conflicts s t)" by simp
  obtain u1 s1 u2 s2 repo s3 intended s4 result s5 where
      a1: "assertBranchName source (d, w) = (Inr u1, s1)" and
      a2: "(case tgt of None \<Rightarrow> ret () | Some b \<Rightarrow> assertBranchName b) s1 = (Inr u2, s2)" and
      a3: "requireRepo st repoId s2 = (Inr repo, s3)" and
      a4: "(case tgt of Some b \<Rightarrow> ret b | None \<Rightarrow> merge_translateErrors (readCurrentBranchName dolt (rp_doltPath repo))) s3 = (Inr intended, s4)" and
      a5: "merge_translateErrors (runDoltMerge dolt (rp_doltPath repo) source tgt) s4 = (Inr result, s5)" and
      a6: "on_world (merge_finish (dolt_merge_cli dolt) (rp_doltPath repo) source intended result) s5 =
        (Inl (MergeConflictError m conflicts s t), d', w')"
    using assms unfolding merge_op_def Let_def tgt_def [symmetric] dolt_merge_cli_sel
    by (elim and_then_conflictE [OF _ c])
      (auto intro: no_conflict_checks no_conflict_ret no_conflict_translate plain_errors_current plain_errors_merge
        split: option.splits intro!: that)
  have s: "s1 = (d, w)" "s2 = (d, w)" "s3 = (d, w)" "branch_name_ok source" "rst_get st repoId d = Some repo"
    using a1 a2 a3 by (auto simp: assertBranchName_Inr requireRepo_Inr split: option.splits)
  have "fst s4 = d" using a4 s(3) by (auto simp: merge_translateErrors_def try_catch_def on_world_apply split: option.splits sum.splits)
  then have "fst s5 = d"
    using a5 by (cases s4) (auto simp: merge_translateErrors_def try_catch_def on_world_apply split: sum.splits)
  then obtain w0 where "s5 = (d, w0)" by (cases s5) simp
  with a6 have d: "d' = d" and fin: "merge_finish (dolt_merge_cli dolt) (rp_doltPath repo) source intended result w0 =
      (Inl (MergeConflictError m conflicts s t), w')"
    by (simp_all add: on_world_apply prod_eq_iff)
  obtain w1 where "s = source" "t = intended" "runDoltReadConflicts dolt (rp_doltPath repo) w0 = (Inr conflicts, w1)"
    "runDoltMergeAbort dolt (rp_doltPath repo) w1 = (Inr (), w')"
    using merge_finish_conflict [OF fin c] by auto
  moreover have "target = Some b \<Longrightarrow> b \<noteq> [] \<Longrightarrow> intended = b \<and> branch_name_ok b" for b
    using a2 a4 s(1) by (auto simp: tgt_def assertBranchName_Inr)
  ultimately show ?thesis
    using d s by (auto simp: runDoltMergeAbort_def and_then_Inr cli_simps)
qed

section \<open>A conflicting repository\<close>

text \<open>A binary on whose repository merging \<open>dev\<close> into \<open>main\<close> conflicts in one row of the given table.\<close>

definition conflict_dolt :: "string \<Rightarrow> unit dolt" where
  "conflict_dolt table args w =
     (let nl = [CHR 0x0A];
          ok = (\<lambda>out. \<lparr>cr_exitCode = 0, cr_stdout = out @ nl, cr_stderr = []\<rparr>)
      in (if drop 2 args = [''merge'', ''dev'']
          then \<lparr>cr_exitCode = 1, cr_stdout = ''CONFLICT (content): Merge conflict in '' @ table @ nl, cr_stderr = []\<rparr>
          else if drop 2 args = [''branch''] then ok (''  dev'' @ nl @ ''* main'')
          else if drop 2 args = sql_csv conflicts_query then ok (''table,num_conflicts'' @ nl @ table @ '',1'')
          else if drop 2 args = sql_csv (''SELECT * FROM dolt_conflicts_'' @ table)
          then ok (''from_root_ish,base_id,our_id,our_diff_type,their_id,their_diff_type,dolt_conflict_id'' @ nl @
                   ''abc,1,2,modified,NULL,removed,k1'')
          else ok [], w))"

lemma merge_conflict_aborted_witness:
  "\<exists>m conflicts repo w1 w2 r.
     merge_op (libsqlRepoStore True) (dolt_merge_cli (conflict_dolt ''t'')) ''demo'' ''dev'' None (sample_repo_db, ()) =
       (Inl (MergeConflictError m conflicts ''dev'' ''main''), sample_repo_db, ()) \<and>
     mr_theirs (hd (mt_conflicts (hd conflicts))) = [(''id'', None)] \<and>
     sql_rp_get ''demo'' sample_repo_db = Some repo \<and>
     conflict_dolt ''t'' (data_dir (rp_doltPath repo) [''merge'', ''--abort'']) w2 = (r, ()) \<and> cr_exitCode r = 0"
proof -
  let ?row = "\<lparr>mr_fromRootIsh = Some ''abc'', mr_base = [(''id'', Some ''1'')], mr_ours = [(''id'', Some ''2'')],
     mr_theirs = [(''id'', None)], mr_ourDiffType = Some ''modified'', mr_theirDiffType = Some ''removed'', mr_conflictId = Some ''k1''\<rparr>"
  let ?cs = "[\<lparr>mt_table = ''t'', mt_count = Some 1, mt_conflicts = [?row]\<rparr>]"
  have run: "merge_op (libsqlRepoStore True) (dolt_merge_cli (conflict_dolt ''t'')) ''demo'' ''dev'' None (sample_repo_db, ()) =
    (Inl (MergeConflictError ''Merge conflict while merging \"dev\" into \"main\"'' ?cs ''dev'' ''main''), sample_repo_db, ())"
    by code_simp
  with merge_conflict_aborted [OF run] show ?thesis by fastforce
qed

text \<open>
  The merge is not undone when the report itself fails: for a conflict in a table whose name is
  legal in Dolt but not a plain identifier, reading the conflicts throws, no \<open>merge --abort\<close> is run
  and the repository stays in the middle of the conflicting merge.
\<close>

theorem merge_conflict_left_open:
  "merge_op (libsqlRepoStore True) (dolt_merge_cli (traced (conflict_dolt ''order-items''))) ''demo'' ''dev'' None
     (sample_repo_db, (), []) =
   (Inl (PlainError ''Unsafe table name: order-items''), sample_repo_db, (),
    map (data_dir ''/r/demo'') [[''branch''], [''branch''], [''merge'', ''dev''], sql_csv conflicts_query])"
  by code_simp

end
