(* ===== verification/CommitIO.thy ===== *)
theory CommitIO
  imports Merge
begin

text \<open>
  Commits that enter and leave a repository (\<open>contexts/versioning\<close>): the import of pushed commits
  (\<open>commit-import.service.ts\<close>, \<open>dolt-commit-import-cli.ts\<close>), the record of a file push
  (\<open>commit.service.ts\<close>, \<open>dolt-commit-cli.ts\<close>), the export of commits for a pull
  (\<open>commit-export.service.ts\<close>, \<open>dolt-commit-export-cli.ts\<close>) and the names of Dolt's internal
  full-text tables (\<open>fulltext-tables.ts\<close>).
\<close>

section \<open>Data\<close>

record table_data =
  td_name :: string
  td_schema :: string
  td_data :: string

record imported_commit =
  ic_message :: string
  ic_author :: string
  ic_tables :: "table_data list"

section \<open>Names\<close>

definition fts_suffixes :: "string list" where
  "fts_suffixes = [''doc_count'', ''global_count'', ''position'', ''row_count'', ''config'']"

text \<open>
  \<open>/^dolt_.*_fts_(?:doc_count|global_count|position|row_count|config)$/\<close>; the dot matches every code
  unit below 256 except the two line terminators.
\<close>

definition isDoltFulltextInternalTable :: "string \<Rightarrow> bool" where
  "isDoltFulltextInternalTable table \<longleftrightarrow>
     js_startsWith table ''dolt_'' \<and>
     list_ex (\<lambda>suffix. let tail = ''_fts_'' @ suffix
        in js_endsWith table tail \<and> 5 + length tail \<le> length table \<and>
           list_all (\<lambda>c. c \<noteq> CHR 0x0A \<and> c \<noteq> CHR 0x0D) (take (length table - length tail - 5) (drop 5 table))) fts_suffixes"

definition sanitizeAuthorName :: "string \<Rightarrow> string" where
  "sanitizeAuthorName username =
     map (\<lambda>c. if is_alnum c \<or> c = CHR ''_'' \<or> c = CHR ''.'' \<or> c = CHR ''-'' then c else CHR ''_'') username"

definition author_flag :: "string \<Rightarrow> string" where
  "author_flag safeAuthor = safeAuthor @ '' <'' @ safeAuthor @ ''@deltix.local>''"

definition isMissingBranchCheckoutError :: "string \<Rightarrow> bool" where
  "isMissingBranchCheckoutError stderr = js_includes stderr ''did not match any table''"

section \<open>dolt-commit-import-cli.ts\<close>

text \<open>\<open>mkdtemp\<close> returns the name of a new directory, or throws (\<open>None\<close>); \<open>writeFile\<close> answers whether it succeeded.\<close>

record 'w import_env =
  im_dolt :: "'w dolt"
  im_files :: "'w file_ops"
  im_mkdtemp :: "'w \<Rightarrow> string option \<times> 'w"
  im_writeFile :: "string \<Rightarrow> string \<Rightarrow> 'w \<Rightarrow> bool \<times> 'w"

definition import_assertSafeTableName :: "string \<Rightarrow> ('w, versioning_error, unit) op" where
  "import_assertSafeTableName name =
     (if VALID_TABLE name then ret ()
      else throw (PlainError (''Refusing to import: table name \"'' @ name @ ''\" has an unexpected shape'')))"

definition sql_q :: "string \<Rightarrow> string list" where
  "sql_q query = [''sql'', ''-q'', query]"

text \<open>The schema is created; a table that exists is emptied instead.\<close>

definition import_schema :: "'w import_env \<Rightarrow> string \<Rightarrow> table_data \<Rightarrow> ('w, versioning_error, unit) op" where
  "import_schema E doltPath table w =
     (let (create, w1) = im_dolt E (data_dir doltPath (sql_q (td_schema table))) w
      in if cr_exitCode create \<noteq> 0
         then if \<not> js_includes (js_toLowerCase (cr_stderr create)) ''already exists''
              then (Inl (PlainError (''dolt sql (create '' @ td_name table @ '') failed: '' @ trimStdErr create)), w1)
              else and_then (dolt_checked (im_dolt E) doltPath (sql_q (''TRUNCATE TABLE '' @ td_name table))
                     (\<lambda>r. ''dolt sql (truncate '' @ td_name table @ '') failed: '' @ trimStdErr r)) (\<lambda>_. ret ()) w1
         else (Inr (), w1))"

definition csv_data_lines :: "string \<Rightarrow> string list" where
  "csv_data_lines text = filter (\<lambda>l. l \<noteq> []) (js_split (CHR 0x0A) (filter (\<lambda>c. c \<noteq> CHR 0x0D) text))"

text \<open>
  The rows go through a temporary file, which is removed whether or not it could be written and imported.
\<close>

definition import_rows :: "'w import_env \<Rightarrow> string \<Rightarrow> table_data \<Rightarrow> ('w, versioning_error, unit) op" where
  "import_rows E doltPath table w =
     (case im_mkdtemp E w of
        (None, w1) \<Rightarrow> (Inl (PlainError ''mkdtemp failed''), w1)
      | (Some importDir, w1) \<Rightarrow>
          (let importFile = path_join importDir (td_name table @ ''.csv'');
               (r, w2) =
                 (case im_writeFile E importFile (td_data table) w1 of
                    (False, w') \<Rightarrow> (Inl (PlainError ''writeFile failed''), w')
                  | (True, w') \<Rightarrow>
                      (case im_dolt E (data_dir doltPath [''table'', ''import'', ''-r'', td_name table, importFile]) w' of
                         (imp, w'') \<Rightarrow>
                           (if cr_exitCode imp \<noteq> 0
                            then Inl (PlainError (''dolt table import ('' @ td_name table @ '') failed: '' @
                                   (if trimStdErr imp \<noteq> [] then trimStdErr imp else trimStdOut imp)))
                            else Inr (), w'')))
           in (r, fo_rm (im_files E) importDir w2)))"

definition importTable :: "'w import_env \<Rightarrow> string \<Rightarrow> table_data \<Rightarrow> ('w, versioning_error, unit) op" where
  "importTable E doltPath table =
     and_then (import_assertSafeTableName (td_name table)) (\<lambda>_.
     and_then (import_schema E doltPath table) (\<lambda>_.
     if length (csv_data_lines (td_data table)) \<le> 1 then ret () else import_rows E doltPath table))"

text \<open>A branch that does not exist on the server is created from the current head.\<close>

definition import_checkout :: "'w import_env \<Rightarrow> string \<Rightarrow> string \<Rightarrow> ('w, versioning_error, unit) op" where
  "import_checkout E doltPath branch w =
     (let (checkout, w1) = im_dolt E (data_dir doltPath [''checkout'', branch]) w
      in if cr_exitCode checkout \<noteq> 0
         then if \<not> isMissingBranchCheckoutError (cr_stderr checkout)
              then (Inl (PlainError (''dolt checkout '' @ branch @ '' failed: '' @ trimStdErr checkout)), w1)
              else and_then (dolt_checked (im_dolt E) doltPath [''checkout'', ''-b'', branch]
                     (\<lambda>r. ''dolt checkout -b '' @ branch @ '' failed: '' @ trimStdErr r)) (\<lambda>_. ret ()) w1
         else (Inr (), w1))"

definition new_commit_hash :: "'w dolt \<Rightarrow> string \<Rightarrow> ('w, versioning_error, string) op" where
  "new_commit_hash dolt doltPath =
     and_then (dolt_checked dolt doltPath (sql_csv latest_hash_query)
        (\<lambda>r. ''dolt log lookup failed: '' @ trimStdErr r)) (\<lambda>hash.
     if last_line hash = [] then throw (PlainError ''Could not determine new commit hash after dolt commit'')
     else ret (last_line hash))"

definition runDoltCommitImport ::
  "'w import_env \<Rightarrow> string \<Rightarrow> string \<Rightarrow> string \<Rightarrow> table_data list \<Rightarrow> string \<Rightarrow> ('w, versioning_error, string) op" where
  "runDoltCommitImport E doltPath authorName message tables branch =
     (let importTables = filter (\<lambda>t. \<not> isDoltFulltextInternalTable (td_name t)) tables
      in and_then (if branch = [] then ret () else import_checkout E doltPath branch) (\<lambda>_.
         and_then (for_each (importTable E doltPath) importTables) (\<lambda>_.
         and_then (dolt_checked (im_dolt E) doltPath (''add'' # map td_name importTables)
            (\<lambda>r. ''dolt add failed: '' @ trimStdErr r)) (\<lambda>_.
         and_then (dolt_checked (im_dolt E) doltPath
            [''commit'', ''--author='' @ author_flag (sanitizeAuthorName authorName), ''-m'', message]
            (\<lambda>r. ''dolt commit failed: '' @ trimStdErr r)) (\<lambda>_.
         new_commit_hash (im_dolt E) doltPath)))))"

section \<open>CommitImportService\<close>

type_synonym 'w run_import = "string \<Rightarrow> string \<Rightarrow> string \<Rightarrow> table_data list \<Rightarrow> string \<Rightarrow> ('w, versioning_error, string) op"

type_synonym 'w run_branch_head = "string \<Rightarrow> string \<Rightarrow> ('w, versioning_error, string option) op"

definition DEFAULT_IMPORT_BRANCH :: string where
  "DEFAULT_IMPORT_BRANCH = ''main''"

definition non_fast_forward :: "string \<Rightarrow> string \<Rightarrow> versioning_error" where
  "non_fast_forward base currentHead = NonFastForwardError
     ''Remote rejected the push: the remote branch has advanced. Run `deltix pull` first, then push again.'' base currentHead"

text \<open>The check against the head of the branch, made only when the client names its base.\<close>

definition import_check ::
  "'w run_branch_head option \<Rightarrow> string \<Rightarrow> string option \<Rightarrow> string \<Rightarrow> ('w, versioning_error, unit) op" where
  "import_check branchHead doltPath base branch =
     (case (base, branchHead) of
        (Some (c # cs), Some head) \<Rightarrow>
          and_then (head doltPath branch) (\<lambda>currentHead.
          case currentHead of
            None \<Rightarrow> ret ()
          | Some h \<Rightarrow> if h \<noteq> [] \<and> h \<noteq> c # cs then throw (non_fast_forward (c # cs) h) else ret ())
      | _ \<Rightarrow> ret ())"

text \<open>The loop over the commits; a commit without tables is skipped.\<close>

fun import_loop ::
  "'w run_import \<Rightarrow> string \<Rightarrow> string \<Rightarrow> imported_commit list \<Rightarrow> string \<Rightarrow> ('w, versioning_error, string) op" where
  "import_loop run doltPath branch [] lastCommitHash = ret lastCommitHash"
| "import_loop run doltPath branch (c # cs) lastCommitHash =
     (if ic_tables c = [] then import_loop run doltPath branch cs lastCommitHash
      else and_then (run doltPath (ic_author c) (ic_message c) (ic_tables c) branch)
             (\<lambda>commitHash. import_loop run doltPath branch cs commitHash))"

text \<open>The result is the pair of the hash of the last imported commit and the repository.\<close>

definition importCommits ::
  "'d repo_store \<Rightarrow> 'w run_import \<Rightarrow> 'w run_branch_head option \<Rightarrow> string \<Rightarrow> imported_commit list \<Rightarrow> string option \<Rightarrow>
   string option \<Rightarrow> ('d \<times> 'w, versioning_error, string \<times> string) op" where
  "importCommits st run branchHead repoId commits base branchArg s =
     (let branch = (case branchArg of None \<Rightarrow> DEFAULT_IMPORT_BRANCH | Some b \<Rightarrow> b)
      in case rst_get st repoId (fst s) of
           None \<Rightarrow> (Inl (CommitImportError ''lookup'' (''Repo \"'' @ repoId @ ''\" not found'')), s)
         | Some record \<Rightarrow>
             if commits = [] then (Inl (CommitImportError ''validation'' ''No commits to import''), s)
             else and_then (on_world (import_check branchHead (rp_doltPath record) base branch)) (\<lambda>_.
                  and_then (on_world (import_loop run (rp_doltPath record) branch commits [])) (\<lambda>lastCommitHash.
                  if lastCommitHash = [] then throw (CommitImportError ''import'' ''No commits contained table data'')
                  else ret (lastCommitHash, repoId))) s)"

section \<open>Head of a branch (dolt-commit-export-cli.ts)\<close>

definition escapeSql :: "string \<Rightarrow> string" where
  "escapeSql v = concat (map (\<lambda>c. if c = CHR 0x27 then [CHR 0x27, CHR 0x27] else [c]) v)"

definition runDoltBranchHead :: "'w dolt \<Rightarrow> 'w run_branch_head" where
  "runDoltBranchHead dolt doltPath branch w =
     (let (r, w') = dolt (data_dir doltPath (sql_csv (''SELECT hash FROM dolt_branches WHERE name = '' @ [CHR 0x27] @ escapeSql branch @ [CHR 0x27]))) w
      in if cr_exitCode r \<noteq> 0 then (Inr None, w')
         else (case filter (\<lambda>l. l \<noteq> []) (js_split (CHR 0x0A) (js_trim (cr_stdout r))) of
                 _ # h # _ \<Rightarrow> (Inr (if js_trim h \<noteq> [] then Some (js_trim h) else None), w')
               | _ \<Rightarrow> (Inr None, w')))"

section \<open>CommitService and dolt-commit-cli.ts\<close>

definition is_hex :: "char \<Rightarrow> bool" where
  "is_hex c \<longleftrightarrow> (let n = of_char c :: nat in is_digit c \<or> (97 \<le> n \<and> n \<le> 102))"

text \<open>\<open>/^[0-9a-fA-F-]{36}$/\<close> and \<open>/^[0-9a-f]{64}$/\<close>\<close>

definition UUID_RE :: "string \<Rightarrow> bool" where
  "UUID_RE s \<longleftrightarrow> length s = 36 \<and> list_all (\<lambda>c. is_hex c \<or> c = CHR ''-'' \<or> (let n = of_char c :: nat in 65 \<le> n \<and> n \<le> 70)) s"

definition HEX_RE :: "string \<Rightarrow> bool" where
  "HEX_RE s \<longleftrightarrow> length s = 64 \<and> list_all is_hex s"

definition assertSafeSqlValue :: "string \<Rightarrow> bool \<Rightarrow> ('w, versioning_error, unit) op" where
  "assertSafeSqlValue v isJobId =
     (if (if isJobId then UUID_RE v else HEX_RE v) then ret ()
      else throw (PlainError (''Refusing to commit: '' @ (if isJobId then ''jobId'' else ''checksum'') @ '' \"'' @ v @ ''\" has an unexpected shape'')))"

definition push_log_ddl :: string where
  "push_log_ddl = ''CREATE TABLE IF NOT EXISTS deltix_push_log (job_id VARCHAR(64) PRIMARY KEY, author VARCHAR(128) NOT NULL, checksum VARCHAR(128) NOT NULL, pushed_at BIGINT NOT NULL)''"

definition sql_quote :: "string \<Rightarrow> string" where
  "sql_quote v = [CHR 0x27] @ v @ [CHR 0x27]"

definition runDoltCommit ::
  "'w dolt \<Rightarrow> string \<Rightarrow> string \<Rightarrow> string \<Rightarrow> string \<Rightarrow> string list option \<Rightarrow> nat \<Rightarrow> ('w, versioning_error, string) op" where
  "runDoltCommit dolt doltPath authorName jobId checksum tables now =
     (let safeAuthor = sanitizeAuthorName authorName
      in and_then (assertSafeSqlValue jobId True) (\<lambda>_.
         and_then (assertSafeSqlValue checksum False) (\<lambda>_.
         and_then (dolt_checked dolt doltPath (sql_q push_log_ddl)
            (\<lambda>r. ''dolt sql (create table) failed: '' @ trimStdErr r)) (\<lambda>_.
         and_then (dolt_checked dolt doltPath
            (sql_q (''INSERT INTO deltix_push_log (job_id, author, checksum, pushed_at) VALUES ('' @ sql_quote jobId @ '', '' @
               sql_quote safeAuthor @ '', '' @ sql_quote checksum @ '', '' @ js_of_nat now @ '')''))
            (\<lambda>r. ''dolt sql (insert) failed: '' @ trimStdErr r)) (\<lambda>_.
         and_then (dolt_checked dolt doltPath
            (''add'' # (case tables of Some (t # ts) \<Rightarrow> t # ts | _ \<Rightarrow> [''-A'']))
            (\<lambda>r. ''dolt add failed: '' @ trimStdErr r)) (\<lambda>_.
         and_then (dolt_checked dolt doltPath
            [''commit'', ''--author='' @ author_flag safeAuthor, ''-m'', ''push: job='' @ jobId @ '' checksum='' @ checksum]
            (\<lambda>r. ''dolt commit failed: '' @ trimStdErr r)) (\<lambda>_.
         new_commit_hash dolt doltPath)))))))"

type_synonym 'w run_commit = "string \<Rightarrow> string \<Rightarrow> string \<Rightarrow> string \<Rightarrow> string list option \<Rightarrow> ('w, versioning_error, string) op"

definition recordPush ::
  "'d repo_store \<Rightarrow> 'w run_commit \<Rightarrow> string \<Rightarrow> string \<Rightarrow> string \<Rightarrow> string \<Rightarrow> string list option \<Rightarrow>
   ('d \<times> 'w, versioning_error, string option) op" where
  "recordPush st run repo username jobId checksum resolvedTables s =
     (case rst_get st repo (fst s) of
        None \<Rightarrow> (Inr None, s)
      | Some record \<Rightarrow>
          try_catch
            (and_then (on_world (run (rp_doltPath record) username jobId checksum resolvedTables)) (\<lambda>h. ret (Some h)))
            (\<lambda>err. throw (CommitFailedError
               (''Failed to record Dolt commit for repo \"'' @ repo @ ''\": '' @ error_message err))) s)"

section \<open>dolt-commit-export-cli.ts\<close>

text \<open>
  Rows are objects with string fields. \<open>JSON.parse\<close> of the trimmed output followed by \<open>.rows ?? []\<close>
  is the parameter \<open>jsonRows\<close>, \<open>None\<close> where it throws.
\<close>

record 'w export_env =
  xe_dolt :: "'w dolt"
  xe_jsonRows :: "string \<Rightarrow> csv_row list option"

definition queryJson :: "'w export_env \<Rightarrow> string \<Rightarrow> string \<Rightarrow> ('w, versioning_error, csv_row list) op" where
  "queryJson X doltPath sql =
     and_then (dolt_checked (xe_dolt X) doltPath [''sql'', ''-q'', sql, ''-r'', ''json'']
        (\<lambda>r. ''dolt sql failed: '' @ (if trimStdErr r \<noteq> [] then trimStdErr r else trimStdOut r))) (\<lambda>r.
     if trimStdOut r = [] then ret []
     else case xe_jsonRows X (trimStdOut r) of
            None \<Rightarrow> throw (PlainError ''JSON Parse error'')
          | Some rows \<Rightarrow> ret rows)"

text \<open>A field that may be missing, with the default the code gives it.\<close>

definition field_or :: "string \<Rightarrow> string \<Rightarrow> csv_row \<Rightarrow> string" where
  "field_or dflt k row = (case map_of row k of Some v \<Rightarrow> v | None \<Rightarrow> dflt)"

record changed_tables =
  ct_tables :: "string list"
  ct_hadAnyDiff :: bool

definition changed_query :: "string \<Rightarrow> string" where
  "changed_query commitHash = ''SELECT to_table_name FROM dolt_diff_summary('' @ sql_quote (escapeSql commitHash @ ''^'') @ '', '' @
     sql_quote (escapeSql commitHash) @ '')''"

text \<open>A failed query means the root commit, which has no parent.\<close>

definition changedTables :: "'w export_env \<Rightarrow> string \<Rightarrow> string \<Rightarrow> ('w, versioning_error, changed_tables) op" where
  "changedTables X doltPath commitHash w =
     (case queryJson X doltPath (changed_query commitHash) w of
        (Inl _, w') \<Rightarrow> (Inr \<lparr>ct_tables = [], ct_hadAnyDiff = False\<rparr>, w')
      | (Inr rows, w') \<Rightarrow>
          (Inr \<lparr>ct_tables = filter (\<lambda>t. t \<noteq> [] \<and> VALID_TABLE t \<and> \<not> isDoltFulltextInternalTable t)
                              (map (field_or [] ''to_table_name'') rows),
                ct_hadAnyDiff = (rows \<noteq> [])\<rparr>, w'))"

definition tableData :: "'w export_env \<Rightarrow> string \<Rightarrow> string \<Rightarrow> string \<Rightarrow> ('w, versioning_error, string) op" where
  "tableData X doltPath table commitHash =
     and_then (dolt_checked (xe_dolt X) doltPath
        (sql_csv (''SELECT * FROM '' @ table @ '' AS OF '' @ sql_quote (escapeSql commitHash)))
        (\<lambda>r. ''dolt export of '' @ table @ '' failed: '' @ trimStdErr r)) (\<lambda>r. ret (cr_stdout r))"

definition tableSchema :: "'w export_env \<Rightarrow> string \<Rightarrow> string \<Rightarrow> string \<Rightarrow> ('w, versioning_error, string) op" where
  "tableSchema X doltPath table commitHash =
     and_then (queryJson X doltPath (''SHOW CREATE TABLE '' @ table @ '' AS OF '' @ sql_quote (escapeSql commitHash))) (\<lambda>rows.
     case (case rows of [] \<Rightarrow> [] | row # _ \<Rightarrow> field_or [] ''Create Table'' row) of
       [] \<Rightarrow> throw (PlainError (''dolt schema export of '' @ table @ '' AS OF '' @ commitHash @ '' returned no DDL''))
     | c # ddl \<Rightarrow> ret ((c # ddl) @ '';''))"

text \<open>A table that cannot be resolved at the commit is skipped.\<close>

definition exportTable :: "'w export_env \<Rightarrow> string \<Rightarrow> string \<Rightarrow> string \<Rightarrow> ('w, versioning_error, table_data option) op" where
  "exportTable X doltPath table hash w =
     (case tableSchema X doltPath table hash w of
        (Inl _, w') \<Rightarrow> (Inr None, w')
      | (Inr schema, w') \<Rightarrow>
          and_then (tableData X doltPath table hash) (\<lambda>dat.
          ret (Some \<lparr>td_name = table, td_schema = schema, td_data = dat\<rparr>)) w')"

record exported_commit =
  ec_hash :: string
  ec_message :: string
  ec_author :: string
  ec_tables :: "table_data list"

text \<open>
  The commits of the branch, oldest first; with a base, those not reachable from it. A base that the
  binary rejects falls back to the whole history.
\<close>

definition commits_base :: "string \<Rightarrow> string" where
  "commits_base branch = ''SELECT commit_hash, message, author FROM dolt_log AS OF '' @ sql_quote (escapeSql branch)"

definition commits_where :: "string \<Rightarrow> string" where
  "commits_where fromHash = ''WHERE commit_hash NOT IN (SELECT commit_hash FROM dolt_log AS OF '' @ sql_quote (escapeSql fromHash) @ '')''"

definition queryCommitsSince :: "'w export_env \<Rightarrow> string \<Rightarrow> string \<Rightarrow> string option \<Rightarrow> ('w, versioning_error, csv_row list) op" where
  "queryCommitsSince X doltPath branch fromHash =
     (let full = queryJson X doltPath (commits_base branch @ '' ORDER BY commit_order ASC'')
      in case fromHash of
           Some (c # cs) \<Rightarrow>
             try_catch (queryJson X doltPath (commits_base branch @ '' '' @ commits_where (c # cs) @ '' ORDER BY commit_order ASC''))
               (\<lambda>_. full)
         | _ \<Rightarrow> full)"

text \<open>
  The generator: the commits it has yielded are kept when a later one throws, because the router
  writes each to the response as it comes.
\<close>

fun export_rows :: "'w export_env \<Rightarrow> string \<Rightarrow> csv_row list \<Rightarrow> exported_commit list \<Rightarrow> 'w \<Rightarrow>
    versioning_error option \<times> exported_commit list \<times> 'w" where
  "export_rows X doltPath [] yielded w = (None, yielded, w)"
| "export_rows X doltPath (row # rows) yielded w =
     (let hash = field_or [] ''commit_hash'' row
      in if hash = [] then export_rows X doltPath rows yielded w
         else case changedTables X doltPath hash w of
                (Inl e, w1) \<Rightarrow> (Some e, yielded, w1)
              | (Inr ct, w1) \<Rightarrow>
                  if \<not> ct_hadAnyDiff ct then export_rows X doltPath rows yielded w1
                  else case for_each (\<lambda>t. exportTable X doltPath t hash) (ct_tables ct) w1 of
                         (Inl e, w2) \<Rightarrow> (Some e, yielded, w2)
                       | (Inr exported, w2) \<Rightarrow>
                           export_rows X doltPath rows
                             (yielded @ [\<lparr>ec_hash = hash, ec_message = field_or [] ''message'' row,
                                          ec_author = field_or [] ''author'' row,
                                          ec_tables = List.map_filter id exported\<rparr>]) w2)"

definition runDoltCommitExport :: "'w export_env \<Rightarrow> string \<Rightarrow> string \<Rightarrow> string option \<Rightarrow> 'w \<Rightarrow>
    versioning_error option \<times> exported_commit list \<times> 'w" where
  "runDoltCommitExport X doltPath branch fromHash w =
     (case queryCommitsSince X doltPath branch fromHash w of
        (Inl e, w1) \<Rightarrow> (Some e, [], w1)
      | (Inr rows, w1) \<Rightarrow> export_rows X doltPath rows [] w1)"

definition runDoltListRefs :: "'w export_env \<Rightarrow> string \<Rightarrow> ('w, versioning_error, (string \<times> string) list) op" where
  "runDoltListRefs X doltPath =
     and_then (queryJson X doltPath ''SELECT name, hash FROM dolt_branches'') (\<lambda>rows.
     ret (map (\<lambda>row. (field_or [] ''name'' row, field_or [] ''hash'' row))
       (filter (\<lambda>row. field_or [] ''name'' row \<noteq> [] \<and> field_or [] ''hash'' row \<noteq> []) rows)))"

section \<open>CommitExportService\<close>

definition export_requireRepo :: "'d repo_store \<Rightarrow> string \<Rightarrow> ('d \<times> 'w, versioning_error, repo_record) op" where
  "export_requireRepo st repoId s =
     (case rst_get st repoId (fst s) of
        None \<Rightarrow> (Inl (RepoNotFoundError (''Repo not found: '' @ repoId)), s)
      | Some record \<Rightarrow> (Inr record, s))"

definition getBranchHead ::
  "'d repo_store \<Rightarrow> 'w export_env \<Rightarrow> string \<Rightarrow> string \<Rightarrow> ('d \<times> 'w, versioning_error, string option) op" where
  "getBranchHead st X repoId branch =
     and_then (export_requireRepo st repoId) (\<lambda>record. on_world (runDoltBranchHead (xe_dolt X) (rp_doltPath record) branch))"

definition listRefs ::
  "'d repo_store \<Rightarrow> 'w export_env \<Rightarrow> string \<Rightarrow> ('d \<times> 'w, versioning_error, (string \<times> string) list) op" where
  "listRefs st X repoId =
     and_then (export_requireRepo st repoId) (\<lambda>record. on_world (runDoltListRefs X (rp_doltPath record)))"

definition streamCommits ::
  "'d repo_store \<Rightarrow> 'w export_env \<Rightarrow> string \<Rightarrow> string \<Rightarrow> string option \<Rightarrow> 'd \<times> 'w \<Rightarrow>
   versioning_error option \<times> exported_commit list \<times> 'd \<times> 'w" where
  "streamCommits st X repoId branch fromHash s =
     (case export_requireRepo st repoId s of
        (Inl e, s') \<Rightarrow> (Some e, [], s')
      | (Inr record, (d, w)) \<Rightarrow>
          (let (err, commits, w') = runDoltCommitExport X (rp_doltPath record) branch fromHash w in (err, commits, d, w')))"

section \<open>The import is the sequence of its commits\<close>

definition run_one :: "'w run_import \<Rightarrow> string \<Rightarrow> string \<Rightarrow> imported_commit \<Rightarrow> ('w, versioning_error, string) op" where
  "run_one run doltPath branch c = run doltPath (ic_author c) (ic_message c) (ic_tables c) branch"

lemma import_loop_for_each:
  "import_loop run p branch cs h w =
     (case for_each (run_one run p branch) (filter (\<lambda>c. ic_tables c \<noteq> []) cs) w of
        (Inl e, w') \<Rightarrow> (Inl e, w')
      | (Inr hs, w') \<Rightarrow> (Inr (if hs = [] then h else last hs), w'))"
proof (induction cs arbitrary: h w)
  case (Cons c cs)
  then show ?case
    by (auto simp: and_then_def run_one_def split: prod.splits sum.splits)
qed simp

text \<open>Where a sequence of operations stops: at the first that throws, with the effects of those before it.\<close>

lemma for_each_Inl:
  "for_each f xs w = (Inl e, w') \<longleftrightarrow>
     (\<exists>pre x post ys w1. xs = pre @ x # post \<and> for_each f pre w = (Inr ys, w1) \<and> f x w1 = (Inl e, w'))"
proof (induction xs arbitrary: w)
  case (Cons a as)
  show ?case
  proof
    assume "for_each f (a # as) w = (Inl e, w')"
    then consider "f a w = (Inl e, w')" | y w1 where "f a w = (Inr y, w1)" "for_each f as w1 = (Inl e, w')"
      by (auto simp: and_then_Inl)
    then show "\<exists>pre x post ys w1. a # as = pre @ x # post \<and> for_each f pre w = (Inr ys, w1) \<and> f x w1 = (Inl e, w')"
    proof cases
      case 1
      then show ?thesis by (intro exI [of _ "[]"]) auto
    next
      case 2
      then obtain pre x post ys w2 where "as = pre @ x # post" "for_each f pre w1 = (Inr ys, w2)" "f x w2 = (Inl e, w')"
        using Cons by blast
      with 2 show ?thesis
        by (intro exI [of _ "a # pre"] exI [of _ x] exI [of _ post] exI [of _ "y # ys"] exI [of _ w2]) (simp add: and_then_def)
    qed
  next
    assume "\<exists>pre x post ys w1. a # as = pre @ x # post \<and> for_each f pre w = (Inr ys, w1) \<and> f x w1 = (Inl e, w')"
    then obtain pre x post ys w1 where h: "a # as = pre @ x # post" "for_each f pre w = (Inr ys, w1)" "f x w1 = (Inl e, w')"
      by blast
    show "for_each f (a # as) w = (Inl e, w')"
    proof (cases pre)
      case Nil
      with h show ?thesis by (simp add: and_then_Inl)
    next
      case (Cons b bs)
      with h obtain y w2 zs where "f a w = (Inr y, w2)" "for_each f bs w2 = (Inr zs, w1)" "as = bs @ x # post"
        by (auto simp: and_then_Inr)
      with h(3) Cons.IH show ?thesis by (auto simp: and_then_Inl)
    qed
  qed
qed simp

lemma for_each_length: "for_each f xs w = (Inr ys, w') \<Longrightarrow> length ys = length xs"
  by (induction xs arbitrary: w ys) (auto simp: and_then_Inr)

section \<open>Properties of the import\<close>

lemma importCommits_unfold:
  assumes "rst_get st repoId d = Some repo" and "commits \<noteq> []"
    and "branch = (case branchArg of None \<Rightarrow> DEFAULT_IMPORT_BRANCH | Some b \<Rightarrow> b)"
  shows "importCommits st run branchHead repoId commits base branchArg (d, w) =
    (case import_check branchHead (rp_doltPath repo) base branch w of
       (Inl e, w1) \<Rightarrow> (Inl e, d, w1)
     | (Inr _, w1) \<Rightarrow>
         (case for_each (run_one run (rp_doltPath repo) branch) (filter (\<lambda>c. ic_tables c \<noteq> []) commits) w1 of
            (Inl e, w2) \<Rightarrow> (Inl e, d, w2)
          | (Inr hs, w2) \<Rightarrow>
              if hs = [] \<or> last hs = [] then (Inl (CommitImportError ''import'' ''No commits contained table data''), d, w2)
              else (Inr (last hs, repoId), d, w2)))"
  using assms
  by (auto simp: importCommits_def Let_def and_then_def on_world_apply import_loop_for_each
      split: prod.splits sum.splits)

lemma importCommits_Inr:
  assumes "importCommits st run branchHead repoId commits base branchArg (d, w) = (Inr (h, r), d', w')"
  obtains repo branch w1 hs where "rst_get st repoId d = Some repo"
    and "branch = (case branchArg of None \<Rightarrow> DEFAULT_IMPORT_BRANCH | Some b \<Rightarrow> b)"
    and "import_check branchHead (rp_doltPath repo) base branch w = (Inr (), w1)"
    and "for_each (run_one run (rp_doltPath repo) branch) (filter (\<lambda>c. ic_tables c \<noteq> []) commits) w1 = (Inr hs, w')"
    and "hs \<noteq> []" and "h = last hs" and "h \<noteq> []" and "r = repoId" and "d' = d"
proof -
  have ne: "commits \<noteq> []" using assms by (auto simp: importCommits_def split: option.splits)
  obtain repo where rec: "rst_get st repoId d = Some repo"
    using assms by (auto simp: importCommits_def split: option.splits)
  show thesis
    using assms unfolding importCommits_unfold [OF rec ne refl]
    by (auto split: prod.splits sum.splits if_splits intro: that [OF rec refl])
qed

lemma import_check_Inr:
  assumes "import_check (Some branchHead) p (Some base) branch w = (Inr u, w1)" and "base \<noteq> []"
  shows "\<exists>head. branchHead p branch w = (Inr head, w1) \<and> (head = None \<or> head = Some [] \<or> head = Some base)"
proof -
  obtain c cs where b: "base = c # cs" using assms(2) by (cases base) auto
  obtain head s where h: "branchHead p branch w = (Inr head, s)"
      "(case head of None \<Rightarrow> ret () | Some x \<Rightarrow>
          if x \<noteq> [] \<and> x \<noteq> base then throw (non_fast_forward base x) else ret ()) s = (Inr u, w1)"
    using assms(1) unfolding import_check_def b by (auto elim: and_then_InrE)
  then show ?thesis by (cases head) (auto split: if_splits)
qed

text \<open>
  A head that cannot be read lets every base pass. Where the query for the head of the branch fails, for
  whatever reason, the reader answers \<open>undefined\<close> as it does for a branch that does not exist, and the check
  that is to refuse a push from an older base accepts it.
\<close>

lemma unreadable_head_accepted:
  assumes "dolt (data_dir doltPath (sql_csv (''SELECT hash FROM dolt_branches WHERE name = '' @
      [CHR 0x27] @ escapeSql branch @ [CHR 0x27]))) w = (r, w1)"
    and "cr_exitCode r \<noteq> 0" and "base \<noteq> []"
  shows "import_check (Some (runDoltBranchHead dolt)) doltPath (Some base) branch w = (Inr (), w1)"
  using assms by (cases base) (auto simp: import_check_def runDoltBranchHead_def and_then_def)


text \<open>A repository as a list of commits: the hash of a commit is its message, the head is the last one.\<close>

definition toy_run :: "string list run_import" where
  "toy_run p author message tables branch w =
     (if message = ''bad'' then (Inl (PlainError ''dolt sql (create t) failed: syntax error''), w) else (Inr message, w @ [message]))"

definition toy_head :: "string list run_branch_head" where
  "toy_head p branch w = (Inr (if w = [] then None else Some (last w)), w)"

definition toy_commit :: "string \<Rightarrow> imported_commit" where
  "toy_commit m = \<lparr>ic_message = m, ic_author = ''ana'', ic_tables = [\<lparr>td_name = ''t'', td_schema = ''x'', td_data = []\<rparr>]\<rparr>"

abbreviation toy_push :: "imported_commit list \<Rightarrow> string option \<Rightarrow> (repo_db \<times> string list, versioning_error, string \<times> string) op" where
  "toy_push commits base \<equiv> importCommits (libsqlRepoStore True) toy_run (Some toy_head) ''demo'' commits base None"


text \<open>
  A push is not atomic: when the import of a commit fails, the client gets the error and the
  commits before it stay in the repository.
\<close>

theorem import_keeps_prefix:
  assumes "rst_get st repoId d = Some repo" and "commits \<noteq> []"
    and "import_check branchHead (rp_doltPath repo) base branch w = (Inr u, w1)"
    and "filter (\<lambda>c. ic_tables c \<noteq> []) commits = pre @ c # post"
    and "for_each (run_one run (rp_doltPath repo) branch) pre w1 = (Inr hashes, w2)"
    and "run_one run (rp_doltPath repo) branch c w2 = (Inl e, w3)"
  shows "importCommits st run branchHead repoId commits base (Some branch) (d, w) = (Inl e, d, w3)"
proof -
  have "for_each (run_one run (rp_doltPath repo) branch) (filter (\<lambda>c. ic_tables c \<noteq> []) commits) w1 = (Inl e, w3)"
    unfolding for_each_Inl using assms(4-6) by blast
  with assms(1-3) show ?thesis by (simp add: importCommits_unfold [OF assms(1,2)])
qed

lemma import_keeps_prefix_witness:
  "importCommits (libsqlRepoStore True) toy_run (Some toy_head) ''demo'' [toy_commit ''b'', toy_commit ''bad''] (Some ''a'') (Some ''main'')
     (sample_repo_db, [''a'']) = (Inl (PlainError ''dolt sql (create t) failed: syntax error''), sample_repo_db, [''a'', ''b''])"
proof (rule import_keeps_prefix [where pre = "[toy_commit ''b'']" and c = "toy_commit ''bad''" and post = "[]"
      and ?w1.0 = "[''a'']" and ?w2.0 = "[''a'', ''b'']" and repo = sample_repo and hashes = "[''b'']" and u = "()"])
qed (code_simp | simp)+

text \<open>
  The check of the base is not atomic with the import and the import does not take the repository
  lock. Of two pushes from the same base the second is refused when they run one after the other; when
  both are checked before either imports, both are accepted, and the second one's commit lands on top
  of a head its client has never seen.
\<close>

theorem stale_push_accepted:
  "fst (toy_push [toy_commit ''c''] (Some ''a'') (snd (toy_push [toy_commit ''b''] (Some ''a'') (sample_repo_db, [''a''])))) =
     Inl (non_fast_forward ''a'' ''b'') \<and>
   (let check = import_check (Some toy_head) ''/r/demo'' (Some ''a'') ''main''; load = (\<lambda>c. import_loop toy_run ''/r/demo'' ''main'' [toy_commit c] [])
    in and_then check (\<lambda>_. and_then check (\<lambda>_. and_then (load ''b'') (\<lambda>_. load ''c''))) [''a''] = (Inr ''c'', [''a'', ''b'', ''c'']))"
  by code_simp

text \<open>
  The branch of a push is not checked: a name that starts with a dash reaches \<open>dolt checkout\<close> as
  an option.
\<close>

theorem push_branch_is_option:
  "data_dir ''/r/demo'' [''checkout'', ''--force''] \<in>
     set (snd (snd (snd (importCommits (libsqlRepoStore True)
       (runDoltCommitImport \<lparr>im_dolt = traced sample_dolt,
          im_files = \<lparr>fo_mkdir = (\<lambda>_ w. w), fo_readText = (\<lambda>_ _. []), fo_write = (\<lambda>_ _ w. w), fo_rm = (\<lambda>_ w. w)\<rparr>,
          im_mkdtemp = (\<lambda>w. (Some ''/tmp/x'', w)), im_writeFile = (\<lambda>_ _ w. (True, w))\<rparr>)
       (Some (runDoltBranchHead (traced sample_dolt))) ''demo'' [toy_commit ''m''] None (Some ''--force'')
       (sample_repo_db, (), [])))))"
  by code_simp

end
