(* ===== verification/History.thy ===== *)
theory History
  imports CommitIO
begin

text \<open>
  Reading the history of a repository (\<open>contexts/versioning\<close>): the commit log
  (\<open>dolt-log-cli.ts\<close>, \<open>log.service.ts\<close>) and differences between two references
  (\<open>dolt-diff-cli.ts\<close>, \<open>diff.service.ts\<close>).
\<close>

section \<open>dolt-log-cli.ts\<close>

record log_entry =
  le_commitHash :: string
  le_author :: string
  le_authorEmail :: string
  le_timestamp :: string
  le_message :: string
  le_parents :: "string list"

definition splitParents :: "string \<Rightarrow> string list" where
  "splitParents parents = filter (\<lambda>p. p \<noteq> []) (map js_trim (js_split (CHR '','') parents))"

definition quoteSqlString :: "string \<Rightarrow> string" where
  "quoteSqlString v = sql_quote (escapeSql v)"

definition log_query :: "string option \<Rightarrow> nat \<Rightarrow> string" where
  "log_query branchName limit =
     (case branchName of
        Some (c # cs) \<Rightarrow> ''SELECT commit_hash, author, author_email, date, message, parents FROM dolt_log AS OF '' @
          quoteSqlString (c # cs) @ '' ORDER BY date DESC LIMIT '' @ js_of_nat limit
      | _ \<Rightarrow> ''SELECT commit_hash, author, author_email, date, message, parents FROM dolt_log ORDER BY date DESC LIMIT '' @
          js_of_nat limit)"

definition log_row :: "csv_row \<Rightarrow> ('w, versioning_error, log_entry) op" where
  "log_row row =
     (let commitHash = field_or [] ''commit_hash'' row
      in and_then (assertSafeCommitHash commitHash) (\<lambda>_.
         ret \<lparr>le_commitHash = commitHash, le_author = field_or [] ''author'' row,
              le_authorEmail = field_or [] ''author_email'' row, le_timestamp = field_or [] ''date'' row,
              le_message = field_or [] ''message'' row, le_parents = splitParents (field_or [] ''parents'' row)\<rparr>))"

definition runDoltReadLog :: "'w dolt \<Rightarrow> string \<Rightarrow> string option \<Rightarrow> nat \<Rightarrow> ('w, versioning_error, log_entry list) op" where
  "runDoltReadLog dolt doltPath branchName limit =
     and_then (case branchName of Some (c # cs) \<Rightarrow> assertSafeBranchName (c # cs) | _ \<Rightarrow> ret ()) (\<lambda>_.
     and_then (dolt_checked dolt doltPath (sql_csv (log_query branchName limit))
        (\<lambda>r. ''dolt log query failed: '' @ trimStdErr r)) (\<lambda>result.
     for_each log_row (parseCsv (cr_stdout result))))"

section \<open>LogService\<close>

definition DEFAULT_LIMIT :: nat where "DEFAULT_LIMIT = 50"

definition MAX_LIMIT :: nat where "MAX_LIMIT = 200"

text \<open>Decimal notation of an integer.\<close>

definition js_of_int :: "int \<Rightarrow> string" where
  "js_of_int i = (if i < 0 then ''-'' @ js_of_nat (nat (- i)) else js_of_nat (nat i))"

definition normalizeLimit :: "int option \<Rightarrow> versioning_error + nat" where
  "normalizeLimit limit =
     (case limit of
        None \<Rightarrow> Inr DEFAULT_LIMIT
      | Some l \<Rightarrow>
          if l < 1 then Inl (InvalidPaginationLimitError
            (''Invalid limit \"'' @ js_of_int l @ ''\": must be an integer between 1 and '' @ js_of_nat MAX_LIMIT))
          else Inr (min (nat l) MAX_LIMIT))"

definition log_error :: "versioning_error \<Rightarrow> versioning_error" where
  "log_error err =
     (let message = error_message err; lower = js_toLowerCase message
      in if js_includes lower ''not found'' \<or> js_includes lower ''unknown branch'' then BranchNotFoundError message
         else if js_includes lower ''unsafe commit hash'' then InvalidCommitReferenceError message
         else err)"

type_synonym 'w read_log = "string \<Rightarrow> string option \<Rightarrow> nat \<Rightarrow> ('w, versioning_error, log_entry list) op"

definition log_list ::
  "'d repo_store \<Rightarrow> 'w read_log \<Rightarrow> string \<Rightarrow> string option \<Rightarrow> int option \<Rightarrow> ('d \<times> 'w, versioning_error, log_entry list) op" where
  "log_list st readLog repoId branchArg limitArg =
     (let branch = (if branchArg = Some [] then None else branchArg)
      in and_then (requireRepo st repoId) (\<lambda>repo.
         and_then (case branch of None \<Rightarrow> ret () | Some b \<Rightarrow> assertBranchName b) (\<lambda>_.
         and_then (of_sum (normalizeLimit limitArg)) (\<lambda>limit.
         try_catch (on_world (readLog (rp_doltPath repo) branch limit)) (\<lambda>err. throw (log_error err))))))"

section \<open>dolt-diff-cli.ts\<close>

definition assertSafeRef :: "string \<Rightarrow> ('w, versioning_error, unit) op" where
  "assertSafeRef ref =
     (let isBranch = VALID_BRANCH ref \<and> \<not> js_includes ref ''..'' \<and> \<not> js_startsWith ref ''/'' \<and> \<not> js_endsWith ref ''/'';
          isCommit = VALID_COMMIT_HASH ref
      in if js_trim ref \<noteq> ref \<or> js_trim ref = [] \<or> (\<not> isBranch \<and> \<not> isCommit)
         then throw (PlainError (''Unsafe ref: '' @ ref)) else ret ())"

datatype diff_type = Added | Removed | Modified

definition mapDiffType :: "string \<Rightarrow> ('w, versioning_error, diff_type) op" where
  "mapDiffType v =
     (if v = ''added'' then ret Added else if v = ''removed'' then ret Removed
      else if v = ''modified'' then ret Modified else throw (PlainError (''Unexpected diff type: '' @ v)))"

record diff_row_change =
  dc_diffType :: diff_type
  dc_oldValues :: "(string \<times> string option) list"
  dc_newValues :: "(string \<times> string option) list"

fun diff_column :: "string \<times> string \<Rightarrow> (string \<times> string option) list \<times> (string \<times> string option) list \<Rightarrow>
    (string \<times> string option) list \<times> (string \<times> string option) list" where
  "diff_column (key, v) (old, new) =
     (if js_startsWith key ''from_'' \<and> key \<notin> set [''from_commit'', ''from_commit_date'']
      then (obj_set (drop 5 key) (toNullable (Some v)) old, new)
      else if js_startsWith key ''to_'' \<and> key \<notin> set [''to_commit'', ''to_commit_date'']
      then (old, obj_set (drop 3 key) (toNullable (Some v)) new)
      else (old, new))"

definition buildRowChange :: "csv_row \<Rightarrow> ('w, versioning_error, diff_row_change) op" where
  "buildRowChange row =
     (let (old, new) = fold diff_column row ([], [])
      in and_then (mapDiffType (field_or [] ''diff_type'' row)) (\<lambda>t.
         ret \<lparr>dc_diffType = t, dc_oldValues = old, dc_newValues = new\<rparr>))"

record diff_table =
  dt_table :: string
  dt_diffType :: string
  dt_dataChange :: bool
  dt_schemaChange :: bool
  dt_changes :: "diff_row_change list"

definition diff_summary_query :: "string \<Rightarrow> string \<Rightarrow> string" where
  "diff_summary_query fromRef toRef =
     ''SELECT from_table_name, to_table_name, diff_type, data_change, schema_change FROM dolt_diff_summary('' @
     sql_quote fromRef @ '', '' @ sql_quote toRef @ '') ORDER BY COALESCE(to_table_name, from_table_name)''"

definition diff_detail_query :: "string \<Rightarrow> string \<Rightarrow> string \<Rightarrow> string" where
  "diff_detail_query fromRef toRef tableName =
     ''SELECT * FROM dolt_diff('' @ sql_quote fromRef @ '', '' @ sql_quote toRef @ '', '' @ sql_quote tableName @ '')''"

definition diff_table_row :: "'w dolt \<Rightarrow> string \<Rightarrow> string \<Rightarrow> string \<Rightarrow> csv_row \<Rightarrow> ('w, versioning_error, diff_table) op" where
  "diff_table_row dolt doltPath fromRef toRef row =
     (let to_name = field_or [] ''to_table_name'' row;
          tableName = (if to_name \<noteq> [] then to_name else field_or [] ''from_table_name'' row)
      in if tableName = [] then throw (PlainError ''Unexpected dolt_diff_summary row without table name'')
         else and_then (assertSafeTableName tableName) (\<lambda>_.
              and_then (dolt_checked dolt doltPath (sql_csv (diff_detail_query fromRef toRef tableName))
                 (\<lambda>r. ''dolt diff detail query failed for '' @ tableName @ '': '' @ trimStdErr r)) (\<lambda>detailResult.
              and_then (for_each buildRowChange (parseCsv (cr_stdout detailResult))) (\<lambda>changes.
              ret \<lparr>dt_table = tableName, dt_diffType = field_or ''modified'' ''diff_type'' row,
                   dt_dataChange = (map_of row ''data_change'' = Some ''true''),
                   dt_schemaChange = (map_of row ''schema_change'' = Some ''true''),
                   dt_changes = changes\<rparr>))))"

text \<open>The result is the two references with the tables.\<close>

definition runDoltReadDiff ::
  "'w dolt \<Rightarrow> string \<Rightarrow> string \<Rightarrow> string \<Rightarrow> ('w, versioning_error, string \<times> string \<times> diff_table list) op" where
  "runDoltReadDiff dolt doltPath fromRef toRef =
     and_then (assertSafeRef fromRef) (\<lambda>_.
     and_then (assertSafeRef toRef) (\<lambda>_.
     and_then (dolt_checked dolt doltPath (sql_csv (diff_summary_query fromRef toRef))
        (\<lambda>r. ''dolt diff summary query failed: '' @ trimStdErr r)) (\<lambda>summaryResult.
     and_then (for_each (diff_table_row dolt doltPath fromRef toRef) (parseCsv (cr_stdout summaryResult))) (\<lambda>tables.
     ret (fromRef, toRef, tables)))))"

section \<open>DiffService\<close>

definition assertRef :: "string \<Rightarrow> ('s, versioning_error, unit) op" where
  "assertRef ref =
     (let normalized = js_trim ref;
          validBranch = VALID_BRANCH ref \<and> ref = js_toLowerCase ref \<and> \<not> js_includes ref ''..'' \<and>
            \<not> js_startsWith ref ''/'' \<and> \<not> js_endsWith ref ''/'';
          validCommit = VALID_COMMIT_HASH ref \<and> ref = js_toLowerCase ref
      in if normalized = [] \<or> normalized \<noteq> ref \<or> (\<not> validBranch \<and> \<not> validCommit)
         then throw (InvalidCommitReferenceError
           (''Invalid commit reference \"'' @ ref @ ''\": expected a safe branch name or a 32-character lowercase Dolt commit hash''))
         else ret ())"

definition diff_error :: "versioning_error \<Rightarrow> versioning_error" where
  "diff_error err =
     (let message = error_message err; lower = js_toLowerCase message
      in if js_includes lower ''not found'' \<or> js_includes lower ''unknown branch'' \<or> js_includes lower ''branch not found''
         then BranchNotFoundError message
         else if js_includes lower ''unsafe ref'' \<or> js_includes lower ''commit'' \<or> js_includes lower ''hash''
         then InvalidCommitReferenceError message
         else err)"

type_synonym 'w read_diff = "string \<Rightarrow> string \<Rightarrow> string \<Rightarrow> ('w, versioning_error, string \<times> string \<times> diff_table list) op"

definition diff_read ::
  "'d repo_store \<Rightarrow> 'w read_diff \<Rightarrow> string \<Rightarrow> string \<Rightarrow> string \<Rightarrow>
   ('d \<times> 'w, versioning_error, string \<times> string \<times> diff_table list) op" where
  "diff_read st readDiff repoId fromRef toRef =
     and_then (assertRef fromRef) (\<lambda>_.
     and_then (assertRef toRef) (\<lambda>_.
     and_then (requireRepo st repoId) (\<lambda>repo.
     try_catch (on_world (readDiff (rp_doltPath repo) fromRef toRef)) (\<lambda>err. throw (diff_error err)))))"

section \<open>Properties\<close>

text \<open>
  A commit message of more than one line makes the log unreadable: the CSV reader cuts the output
  at every line break, also inside a quoted field, takes the rest of the message for another commit
  and rejects it, so the whole request fails with an error about a commit reference.
\<close>

theorem multiline_message_breaks_log:
  "let out = ''commit_hash,author,author_email,date,message,parents'' @ [CHR 0x0A] @
             ''0123456789abcdefghijklmnopqrstuv,ana,a@x,2024-01-01,\"fix'' @ [CHR 0x0A] @ ''details\",'' @ [CHR 0x0A]
   in log_list (libsqlRepoStore True) (runDoltReadLog (\<lambda>_ w. (\<lparr>cr_exitCode = 0, cr_stdout = out, cr_stderr = []\<rparr>, w)))
        ''demo'' None None (sample_repo_db, ()) =
      (Inl (InvalidCommitReferenceError ''Unsafe commit hash: details,''), sample_repo_db, ())"
  by code_simp

text \<open>
  Every page of the log is bounded: whatever limit is asked for, the query has a limit between 1 and
  200, and a limit below 1 is refused.
\<close>

lemma log_limit_bounded:
  "(case normalizeLimit limit of
      Inr n \<Rightarrow> 1 \<le> n \<and> n \<le> 200 \<and> (case limit of None \<Rightarrow> n = 50 | Some l \<Rightarrow> int n = min l 200)
    | Inl e \<Rightarrow> (\<exists>l. limit = Some l \<and> l < 1))"
  by (auto simp: normalizeLimit_def DEFAULT_LIMIT_def MAX_LIMIT_def min_def split: option.splits)

end
