(* ===== verification/VersioningRouter.thy ===== *)
theory VersioningRouter
  imports AuthRouter TransferRouter History
begin

text \<open>
  The HTTP routes of the versioning context (\<open>contexts/versioning/versioning.router.ts\<close>): the role
  gates, the error handlers and every route. A handler works on the authentication state, the
  repository registry and the world of the \<open>dolt\<close> binary; \<open>Inl\<close> is an error that no handler catches.
\<close>

section \<open>Environment and responses\<close>

text \<open>
  The services the router is created with. \<open>Number\<close> applied to a query parameter (its value when it
  is an integer) and \<open>decodeURIComponent\<close> are functions of the language; both are parameters.
\<close>

record ('u, 's, 'd, 'w) vr_env =
  ve_auth :: "('u, 's) auth_env"
  ve_repos :: "('d, 'w) repo_env"
  ve_sync :: "('d, 'w) sync_svc"
  ve_branchCli :: "'w branch_cli"
  ve_mergeCli :: "'w merge_cli"
  ve_readLog :: "'w read_log"
  ve_readDiff :: "'w read_diff"
  ve_runImport :: "'w run_import"
  ve_branchHead :: "'w run_branch_head option"
  ve_export :: "'w export_env"
  ve_integer :: "string \<Rightarrow> int option"
  ve_decode :: "string \<Rightarrow> string option"

abbreviation ve_store :: "('u, 's, 'd, 'w) vr_env \<Rightarrow> 'd repo_store" where
  "ve_store V \<equiv> re_store (ve_repos V)"

datatype versioning_body =
    VError string
  | VInvalid string
  | VRepo repo_record "repo_role option"
  | VRepos "(repo_record \<times> repo_role option) list"
  | VRoles "repo_role_assignment list"
  | VRole repo_role_assignment
  | VNothing
  | VLog "log_entry list" nat
  | VDiff string string "diff_table list"
  | VMerge merge_result
  | VConflict string string string "merge_conflict_table list"
  | VBranches "branch_summary list"
  | VBranchCreated string string
  | VBranch string
  | VPreference "sync_record option"
  | VPlan sync_plan
  | VPushed string
  | VNonFastForward string string string
  | VRefs "(string \<times> string) list"
  | VStream string "exported_commit list" "versioning_error option"

type_synonym ('u, 's, 'd, 'w) vr_state = "('u, 's) auth_state \<times> 'd \<times> 'w"

type_synonym ('u, 's, 'd, 'w) vr_handler =
  "(('u, 's, 'd, 'w) vr_state, versioning_error, versioning_body response) op"

section \<open>Request bodies and queries\<close>

definition provisionRequestSchema :: "json \<Rightarrow> string option" where
  "provisionRequestSchema j = z_string 1 64 ''repoId'' j"

definition branchRequestSchema :: "json \<Rightarrow> string option" where
  "branchRequestSchema j = z_string 1 128 ''name'' j"

text \<open>\<open>z.string().min(1).max(128).optional()\<close>\<close>

definition z_opt_name :: "string \<Rightarrow> json \<Rightarrow> string option option" where
  "z_opt_name k j = (case jfield k j of None \<Rightarrow> Some None | Some _ \<Rightarrow> map_option Some (z_string 1 128 k j))"

definition mergeRequestSchema :: "json \<Rightarrow> (string \<times> string option) option" where
  "mergeRequestSchema j =
     (case (z_string 1 128 ''sourceBranch'' j, z_opt_name ''targetBranch'' j) of
        (Some s, Some t) \<Rightarrow> Some (s, t) | _ \<Rightarrow> None)"

definition query_name :: "string \<Rightarrow> (string \<times> string) list \<Rightarrow> string option" where
  "query_name k q = (case map_of q k of Some v \<Rightarrow> if 1 \<le> length v \<and> length v \<le> 128 then Some v else None | None \<Rightarrow> None)"

definition logQuerySchema :: "(string \<Rightarrow> int option) \<Rightarrow> (string \<times> string) list \<Rightarrow> (string option \<times> int option) option" where
  "logQuerySchema number q =
     (case (case map_of q ''branch'' of None \<Rightarrow> Some None | Some _ \<Rightarrow> map_option Some (query_name ''branch'' q),
            case map_of q ''limit'' of
              None \<Rightarrow> Some None
            | Some v \<Rightarrow> (case number v of Some n \<Rightarrow> if 1 \<le> n \<and> n \<le> 500 then Some (Some n) else None | None \<Rightarrow> None)) of
        (Some b, Some l) \<Rightarrow> Some (b, l) | _ \<Rightarrow> None)"

definition diffQuerySchema :: "(string \<times> string) list \<Rightarrow> (string \<times> string) option" where
  "diffQuerySchema q =
     (case (query_name ''from'' q, query_name ''to'' q) of (Some f, Some t) \<Rightarrow> Some (f, t) | _ \<Rightarrow> None)"

text \<open>\<open>parseSyncBody\<close>: an absent \<open>tables\<close> is null.\<close>

definition parseSyncBody :: "json \<Rightarrow> (sync_mode \<times> string list option) option" where
  "parseSyncBody j =
     (case (jis_obj j, sync_mode_schema (jfield ''mode'' j), sync_tables_schema (jfield ''tables'' j)) of
        (True, Some (Some m), Some ts) \<Rightarrow> Some (m, case ts of None \<Rightarrow> None | Some t \<Rightarrow> t)
      | _ \<Rightarrow> None)"

definition roleGrantRequestSchema :: "json \<Rightarrow> (string \<times> string) option" where
  "roleGrantRequestSchema j =
     (case (z_string 1 256 ''username'' j, jfield ''role'' j) of
        (Some u, Some (JStr r)) \<Rightarrow> if parse_role r \<noteq> None then Some (u, r) else None
      | _ \<Rightarrow> None)"

definition table_schema :: "json \<Rightarrow> table_data option" where
  "table_schema j =
     (case (z_string 1 128 ''name'' j, jfield ''schema'' j, jfield ''data'' j) of
        (Some n, Some (JStr sc), Some (JStr dat)) \<Rightarrow>
          if sc \<noteq> [] then Some \<lparr>td_name = n, td_schema = sc, td_data = dat\<rparr> else None
      | _ \<Rightarrow> None)"

fun all_or_none :: "('a \<Rightarrow> 'b option) \<Rightarrow> 'a list \<Rightarrow> 'b list option" where
  "all_or_none f [] = Some []"
| "all_or_none f (x # xs) =
     (case (f x, all_or_none f xs) of (Some y, Some ys) \<Rightarrow> Some (y # ys) | _ \<Rightarrow> None)"

definition commitSchema :: "json \<Rightarrow> imported_commit option" where
  "commitSchema j =
     (case (z_string 1 1024 ''message'' j, z_string 1 256 ''author'' j, jfield ''tables'' j) of
        (Some m, Some a, Some (JArr ts)) \<Rightarrow>
          if 1 \<le> length ts \<and> length ts \<le> 256
          then map_option (\<lambda>tables. \<lparr>ic_message = m, ic_author = a, ic_tables = tables\<rparr>) (all_or_none table_schema ts)
          else None
      | _ \<Rightarrow> None)"

text \<open>The commits, the optional base and the optional branch.\<close>

definition pushCommitsBodySchema :: "json \<Rightarrow> (imported_commit list \<times> string option \<times> string option) option" where
  "pushCommitsBodySchema j =
     (case (jfield ''commits'' j, z_opt_string 0 ''from'' j, z_opt_name ''branch'' j) of
        (Some (JArr cs), Some f, Some b) \<Rightarrow>
          if 1 \<le> length cs \<and> length cs \<le> 100 then map_option (\<lambda>commits. (commits, f, b)) (all_or_none commitSchema cs) else None
      | _ \<Rightarrow> None)"

section \<open>Gates\<close>

definition versioning_authenticate :: "string option \<Rightarrow> (string \<Rightarrow> auth_error + jwt_payload) \<Rightarrow> string option" where
  "versioning_authenticate authHeader jwtVerify =
     (case authHeader of
        None \<Rightarrow> None
      | Some h \<Rightarrow>
          if \<not> js_startsWith h ''Bearer '' then None
          else let token = js_trim (drop 7 h)
               in if token = [] then None
                  else case verifyAccessToken jwtVerify token of
                         Inl _ \<Rightarrow> None
                       | Inr claims \<Rightarrow> Some (cl_sub claims))"

text \<open>A gate lets the caller through with a name and a role (\<open>Inr\<close>) or answers itself (\<open>Inl\<close>).\<close>

definition access_denied :: "string \<Rightarrow> repo_role \<Rightarrow> string \<Rightarrow> versioning_body response" where
  "access_denied username minimumRole repoId =
     reply 403 (VError (''User '' @ username @ '' lacks '' @ role_name minimumRole @ '' access to repo '' @ repoId))"

definition requireUsername :: "('u, 's) auth_env \<Rightarrow> http_request \<Rightarrow> versioning_body response + string" where
  "requireUsername E c =
     (case versioning_authenticate (rq_authorization c) (ae_jwtVerify E) of
        None \<Rightarrow> Inl (reply 401 (VError ''Unauthorized''))
      | Some username \<Rightarrow> Inr username)"

definition requireRepoRole ::
  "('u, 's) auth_env \<Rightarrow> http_request \<Rightarrow> string \<Rightarrow> repo_role \<Rightarrow> ('u, 's) auth_state \<Rightarrow>
   versioning_body response + string \<times> repo_role" where
  "requireRepoRole E c repoId minimumRole a =
     (case requireUsername E c of
        Inl r \<Rightarrow> Inl r
      | Inr username \<Rightarrow>
          (case auth_getRepoRole E username repoId a of
             Some role \<Rightarrow>
               if ROLE_RANK role \<ge> ROLE_RANK minimumRole then Inr (username, role)
               else if auth_isGlobalAdmin E username a then Inr (username, Admin)
               else Inl (access_denied username minimumRole repoId)
           | None \<Rightarrow>
               if auth_isGlobalAdmin E username a then Inr (username, Admin)
               else Inl (access_denied username minimumRole repoId)))"

definition requireRepoRoleOrGlobalAdmin ::
  "('u, 's) auth_env \<Rightarrow> http_request \<Rightarrow> string \<Rightarrow> repo_role \<Rightarrow> ('u, 's) auth_state \<Rightarrow>
   versioning_body response + string \<times> repo_role" where
  "requireRepoRoleOrGlobalAdmin E c repoId minimumRole a =
     (case requireUsername E c of
        Inl r \<Rightarrow> Inl r
      | Inr username \<Rightarrow>
          (let role = auth_getRepoRole E username repoId a
           in if (case role of Some r \<Rightarrow> ROLE_RANK r \<ge> ROLE_RANK minimumRole | None \<Rightarrow> False)
              then Inr (username, the role)
              else if auth_isGlobalAdmin E username a
              then Inr (username, case role of Some r \<Rightarrow> r | None \<Rightarrow> Admin)
              else Inl (access_denied username minimumRole repoId)))"

definition authorizeRepoRequest ::
  "('u, 's) auth_env \<Rightarrow> http_request \<Rightarrow> string \<Rightarrow> repo_role \<Rightarrow> ('u, 's) auth_state \<Rightarrow>
   versioning_body response + string \<times> repo_role" where
  "authorizeRepoRequest E c repoId minimumRole a =
     (if repoId = [] then Inl (reply 400 (VError ''Missing repoId'')) else requireRepoRole E c repoId minimumRole a)"

section \<open>Error handlers\<close>

fun handleBranchError :: "versioning_error \<Rightarrow> string \<Rightarrow> versioning_body response" where
  "handleBranchError (InvalidRepoIdError m) fallback = reply 400 (VError m)"
| "handleBranchError (InvalidBranchNameError m) fallback = reply 400 (VError m)"
| "handleBranchError (RepoNotFoundError m) fallback = reply 404 (VError m)"
| "handleBranchError (BranchNotFoundError m) fallback = reply 404 (VError m)"
| "handleBranchError (BranchAlreadyExistsError m) fallback = reply 409 (VError m)"
| "handleBranchError (ProtectedBranchError m) fallback = reply 409 (VError m)"
| "handleBranchError (RepoAlreadyProvisionedError m) fallback = reply 409 (VError m)"
| "handleBranchError (RepoAccessDeniedError m) fallback = reply 403 (VError m)"
| "handleBranchError _ fallback = reply 500 (VError fallback)"

fun handleMergeError :: "versioning_error \<Rightarrow> string \<Rightarrow> versioning_body response" where
  "handleMergeError (InvalidRepoIdError m) fallback = reply 400 (VError m)"
| "handleMergeError (InvalidBranchNameError m) fallback = reply 400 (VError m)"
| "handleMergeError (RepoNotFoundError m) fallback = reply 404 (VError m)"
| "handleMergeError (BranchNotFoundError m) fallback = reply 404 (VError m)"
| "handleMergeError (RepoAccessDeniedError m) fallback = reply 403 (VError m)"
| "handleMergeError (MergeConflictError m conflicts s t) fallback = reply 409 (VConflict m s t conflicts)"
| "handleMergeError _ fallback = reply 500 (VError fallback)"

fun handleHistoryError :: "versioning_error \<Rightarrow> string \<Rightarrow> versioning_body response" where
  "handleHistoryError (InvalidRepoIdError m) fallback = reply 400 (VError m)"
| "handleHistoryError (InvalidBranchNameError m) fallback = reply 400 (VError m)"
| "handleHistoryError (InvalidCommitReferenceError m) fallback = reply 400 (VError m)"
| "handleHistoryError (InvalidPaginationLimitError m) fallback = reply 400 (VError m)"
| "handleHistoryError (RepoNotFoundError m) fallback = reply 404 (VError m)"
| "handleHistoryError (BranchNotFoundError m) fallback = reply 404 (VError m)"
| "handleHistoryError (RepoAccessDeniedError m) fallback = reply 403 (VError m)"
| "handleHistoryError _ fallback = reply 500 (VError fallback)"

fun handleSyncError :: "versioning_error \<Rightarrow> string \<Rightarrow> versioning_body response" where
  "handleSyncError (InvalidRepoIdError m) fallback = reply 400 (VError m)"
| "handleSyncError (RepoNotFoundError m) fallback = reply 404 (VError m)"
| "handleSyncError (RepoAccessDeniedError m) fallback = reply 403 (VError m)"
| "handleSyncError (SyncPreferenceConflictError m) fallback = reply 409 (VError m)"
| "handleSyncError _ fallback = reply 500 (VError fallback)"

fun handleCommitImportError :: "versioning_error \<Rightarrow> versioning_body response" where
  "handleCommitImportError (CommitImportError cmd err) = reply 400 (VError (error_message (CommitImportError cmd err)))"
| "handleCommitImportError (NonFastForwardError m base head) = reply 409 (VNonFastForward m base head)"
| "handleCommitImportError _ = reply 500 (VError ''Failed to import commits'')"

section \<open>Routes\<close>

text \<open>The shapes the routes share: a service operation behind a gate, with an error handler.\<close>

definition on_repos :: "('d \<times> 'w, 'e, 'a) op \<Rightarrow> (('u, 's, 'd, 'w) vr_state, 'e, 'a) op" where
  "on_repos m s = (let (r, t) = m (snd s) in (r, fst s, t))"

definition respond_with ::
  "('d \<times> 'w, versioning_error, 'a) op \<Rightarrow> ('a \<Rightarrow> versioning_body response) \<Rightarrow>
   (versioning_error \<Rightarrow> versioning_body response) \<Rightarrow> ('u, 's, 'd, 'w) vr_handler" where
  "respond_with m ok handle s =
     (case on_repos m s of (Inr x, s') \<Rightarrow> (Inr (ok x), s') | (Inl e, s') \<Rightarrow> (Inr (handle e), s'))"

definition gated ::
  "('u, 's, 'd, 'w) vr_env \<Rightarrow> http_request \<Rightarrow> string \<Rightarrow> repo_role \<Rightarrow> ('u, 's, 'd, 'w) vr_handler \<Rightarrow>
   ('u, 's, 'd, 'w) vr_handler" where
  "gated V c repoId minimumRole inner s =
     (case authorizeRepoRequest (ve_auth V) c repoId minimumRole (fst s) of
        Inl r \<Rightarrow> (Inr r, s)
      | Inr _ \<Rightarrow> inner s)"

definition invalid_body :: "versioning_body response" where
  "invalid_body = reply 400 (VInvalid ''Invalid request body'')"

definition invalid_query :: "versioning_body response" where
  "invalid_query = reply 400 (VInvalid ''Invalid query string'')"

definition post_repos :: "('u, 's, 'd, 'w) vr_env \<Rightarrow> http_request \<Rightarrow> ms \<Rightarrow> ('u, 's, 'd, 'w) vr_handler" where
  "post_repos V c now s =
     (case versioning_authenticate (rq_authorization c) (ae_jwtVerify (ve_auth V)) of
        None \<Rightarrow> (Inr (reply 401 (VError ''Unauthorized'')), s)
      | Some username \<Rightarrow>
          if \<not> auth_canUserCreateRepos (ve_auth V) username (fst s)
          then (Inr (reply 403 (VError ''User cannot create repos'')), s)
          else case provisionRequestSchema (body_or_null (rq_json c)) of
                 None \<Rightarrow> (Inr invalid_body, s)
               | Some repoId \<Rightarrow>
                   (case provision (ve_repos V) repoId username now (snd s) of
                      (Inl (InvalidRepoIdError m), t) \<Rightarrow> (Inr (reply 400 (VError m)), fst s, t)
                    | (Inl (RepoAlreadyProvisionedError m), t) \<Rightarrow> (Inr (reply 409 (VError m)), fst s, t)
                    | (Inl e, t) \<Rightarrow> (Inr (reply 500 (VError (error_message e))), fst s, t)
                    | (Inr repo, t) \<Rightarrow>
                        (case auth_grantRepoAdminToCreator (ve_auth V) (rp_repoId repo) username now (fst s) of
                           (Inl e, a) \<Rightarrow> (Inr (reply 500 (VError (err_message e))), a, t)
                         | (Inr _, a) \<Rightarrow> (Inr (reply 201 (VRepo repo None)), a, t))))"

definition get_repos :: "('u, 's, 'd, 'w) vr_env \<Rightarrow> http_request \<Rightarrow> ('u, 's, 'd, 'w) vr_handler" where
  "get_repos V c s =
     (case versioning_authenticate (rq_authorization c) (ae_jwtVerify (ve_auth V)) of
        None \<Rightarrow> (Inr (reply 401 (VError ''Unauthorized'')), s)
      | Some username \<Rightarrow>
          (let repos = provisioning_list (ve_repos V) (fst (snd s));
               isGlobalAdmin = auth_isGlobalAdmin (ve_auth V) username (fst s);
               role = (\<lambda>r. auth_getRepoRole (ve_auth V) username (rp_repoId r) (fst s))
           in (Inr (reply 200 (VRepos (map (\<lambda>r. (r, role r)) (filter (\<lambda>r. role r \<noteq> None \<or> isGlobalAdmin) repos)))), s)))"

definition get_repo :: "('u, 's, 'd, 'w) vr_env \<Rightarrow> http_request \<Rightarrow> string \<Rightarrow> ('u, 's, 'd, 'w) vr_handler" where
  "get_repo V c repoId s =
     (case requireRepoRole (ve_auth V) c repoId Reader (fst s) of
        Inl r \<Rightarrow> (Inr r, s)
      | Inr (username, role) \<Rightarrow>
          (case provisioning_get (ve_repos V) repoId (fst (snd s)) of
             None \<Rightarrow> (Inr (reply 404 (VError ''Repo not found'')), s)
           | Some repo \<Rightarrow> (Inr (reply 200 (VRepo repo (Some role))), s)))"

definition get_roles :: "('u, 's, 'd, 'w) vr_env \<Rightarrow> http_request \<Rightarrow> string \<Rightarrow> ('u, 's, 'd, 'w) vr_handler" where
  "get_roles V c repoId s =
     (case requireRepoRoleOrGlobalAdmin (ve_auth V) c repoId Reader (fst s) of
        Inl r \<Rightarrow> (Inr r, s)
      | Inr _ \<Rightarrow> (Inr (reply 200 (VRoles (auth_listRepoRoles (ve_auth V) repoId (fst s)))), s))"

definition post_roles :: "('u, 's, 'd, 'w) vr_env \<Rightarrow> http_request \<Rightarrow> string \<Rightarrow> ms \<Rightarrow> ('u, 's, 'd, 'w) vr_handler" where
  "post_roles V c repoId now s =
     (case requireRepoRoleOrGlobalAdmin (ve_auth V) c repoId Admin (fst s) of
        Inl r \<Rightarrow> (Inr r, s)
      | Inr (username, _) \<Rightarrow>
          (case roleGrantRequestSchema (body_or_null (rq_json c)) of
             None \<Rightarrow> (Inr invalid_body, s)
           | Some (name, role) \<Rightarrow>
               (case auth_grantRepoRole (ve_auth V) name repoId role username now (fst s) of
                  (Inr assignment, a) \<Rightarrow> (Inr (reply 201 (VRole assignment)), a, snd s)
                | (Inl (InvalidRepoRoleError r), a) \<Rightarrow> (Inr (reply 400 (VError (err_message (InvalidRepoRoleError r)))), a, snd s)
                | (Inl (UserNotFoundError u), a) \<Rightarrow> (Inr (reply 404 (VError (err_message (UserNotFoundError u)))), a, snd s)
                | (Inl _, a) \<Rightarrow> (Inr (reply 500 (VError ''Failed to grant repo role'')), a, snd s))))"

definition delete_role :: "('u, 's, 'd, 'w) vr_env \<Rightarrow> http_request \<Rightarrow> string \<Rightarrow> string \<Rightarrow> ('u, 's, 'd, 'w) vr_handler" where
  "delete_role V c repoId name s =
     (case requireRepoRoleOrGlobalAdmin (ve_auth V) c repoId Admin (fst s) of
        Inl r \<Rightarrow> (Inr r, s)
      | Inr _ \<Rightarrow>
          (case auth_revokeRepoRole (ve_auth V) name repoId (fst s) of
             (Inr _, a) \<Rightarrow> (Inr (reply 204 VNothing), a, snd s)
           | (Inl (RepoRoleAssignmentNotFoundError u r), a) \<Rightarrow>
               (Inr (reply 404 (VError (err_message (RepoRoleAssignmentNotFoundError u r)))), a, snd s)
           | (Inl _, a) \<Rightarrow> (Inr (reply 500 (VError ''Failed to revoke repo role'')), a, snd s)))"

definition get_log ::
  "('u, 's, 'd, 'w) vr_env \<Rightarrow> http_request \<Rightarrow> (string \<times> string) list \<Rightarrow> string \<Rightarrow> ('u, 's, 'd, 'w) vr_handler" where
  "get_log V c query repoId =
     gated V c repoId Reader (\<lambda>s.
       case logQuerySchema (ve_integer V) query of
         None \<Rightarrow> (Inr invalid_query, s)
       | Some (branch, limit) \<Rightarrow>
           respond_with (log_list (ve_store V) (ve_readLog V) repoId branch limit)
             (\<lambda>commits. reply 200 (VLog commits (nat (min (case limit of Some l \<Rightarrow> l | None \<Rightarrow> 50) 200))))
             (\<lambda>e. handleHistoryError e ''Failed to read repo log'') s)"

definition get_diff ::
  "('u, 's, 'd, 'w) vr_env \<Rightarrow> http_request \<Rightarrow> (string \<times> string) list \<Rightarrow> string \<Rightarrow> ('u, 's, 'd, 'w) vr_handler" where
  "get_diff V c query repoId =
     gated V c repoId Reader (\<lambda>s.
       case diffQuerySchema query of
         None \<Rightarrow> (Inr invalid_query, s)
       | Some (from_ref, to_ref) \<Rightarrow>
           respond_with (diff_read (ve_store V) (ve_readDiff V) repoId from_ref to_ref)
             (\<lambda>(f, t, tables). reply 200 (VDiff f t tables))
             (\<lambda>e. handleHistoryError e ''Failed to read repo diff'') s)"

definition post_merge :: "('u, 's, 'd, 'w) vr_env \<Rightarrow> http_request \<Rightarrow> string \<Rightarrow> ('u, 's, 'd, 'w) vr_handler" where
  "post_merge V c repoId =
     gated V c repoId Writer (\<lambda>s.
       case mergeRequestSchema (body_or_null (rq_json c)) of
         None \<Rightarrow> (Inr invalid_body, s)
       | Some (source, target) \<Rightarrow>
           respond_with (merge_op (ve_store V) (ve_mergeCli V) repoId source target)
             (\<lambda>m. reply 200 (VMerge m)) (\<lambda>e. handleMergeError e ''Failed to merge branch'') s)"

definition get_branches :: "('u, 's, 'd, 'w) vr_env \<Rightarrow> http_request \<Rightarrow> string \<Rightarrow> ('u, 's, 'd, 'w) vr_handler" where
  "get_branches V c repoId =
     gated V c repoId Reader (respond_with (branch_list (ve_store V) (ve_branchCli V) repoId)
       (\<lambda>bs. reply 200 (VBranches bs)) (\<lambda>e. handleBranchError e ''Failed to list branches''))"

definition post_branches :: "('u, 's, 'd, 'w) vr_env \<Rightarrow> http_request \<Rightarrow> string \<Rightarrow> ('u, 's, 'd, 'w) vr_handler" where
  "post_branches V c repoId =
     gated V c repoId Writer (\<lambda>s.
       case branchRequestSchema (body_or_null (rq_json c)) of
         None \<Rightarrow> (Inr invalid_body, s)
       | Some name \<Rightarrow>
           respond_with (branch_create (ve_store V) (ve_branchCli V) repoId name)
             (\<lambda>(current, created). reply 201 (VBranchCreated current created))
             (\<lambda>e. handleBranchError e ''Failed to create branch'') s)"

definition get_current_branch :: "('u, 's, 'd, 'w) vr_env \<Rightarrow> http_request \<Rightarrow> string \<Rightarrow> ('u, 's, 'd, 'w) vr_handler" where
  "get_current_branch V c repoId =
     gated V c repoId Reader (respond_with (branch_current (ve_store V) (ve_branchCli V) repoId)
       (\<lambda>name. reply 200 (VBranch name)) (\<lambda>e. handleBranchError e ''Failed to read current branch''))"

text \<open>A path segment that \<open>decodeURIComponent\<close> rejects throws inside the \<open>try\<close> block.\<close>

definition post_checkout :: "('u, 's, 'd, 'w) vr_env \<Rightarrow> http_request \<Rightarrow> string \<Rightarrow> string \<Rightarrow> ('u, 's, 'd, 'w) vr_handler" where
  "post_checkout V c repoId segment =
     gated V c repoId Writer (\<lambda>s.
       case ve_decode V segment of
         None \<Rightarrow> (Inr (handleBranchError (PlainError ''URI error'') ''Failed to checkout branch''), s)
       | Some name \<Rightarrow>
           respond_with (branch_checkout (ve_store V) (ve_branchCli V) repoId name)
             (\<lambda>b. reply 200 (VBranch b)) (\<lambda>e. handleBranchError e ''Failed to checkout branch'') s)"

definition delete_branch :: "('u, 's, 'd, 'w) vr_env \<Rightarrow> http_request \<Rightarrow> string \<Rightarrow> string \<Rightarrow> ('u, 's, 'd, 'w) vr_handler" where
  "delete_branch V c repoId segment =
     gated V c repoId Admin (\<lambda>s.
       case ve_decode V segment of
         None \<Rightarrow> (Inr (handleBranchError (PlainError ''URI error'') ''Failed to delete branch''), s)
       | Some name \<Rightarrow>
           respond_with (branch_delete (ve_store V) (ve_branchCli V) repoId name)
             (\<lambda>_. reply 204 VNothing) (\<lambda>e. handleBranchError e ''Failed to delete branch'') s)"

definition get_sync_preferences :: "('u, 's, 'd, 'w) vr_env \<Rightarrow> http_request \<Rightarrow> string \<Rightarrow> ('u, 's, 'd, 'w) vr_handler" where
  "get_sync_preferences V c repoId =
     gated V c repoId Admin (respond_with (sync_get (ve_sync V) repoId)
       (\<lambda>p. reply 200 (VPreference p)) (\<lambda>e. handleSyncError e ''Failed to read sync preference''))"

definition put_sync_preferences :: "('u, 's, 'd, 'w) vr_env \<Rightarrow> http_request \<Rightarrow> string \<Rightarrow> ms \<Rightarrow> ('u, 's, 'd, 'w) vr_handler" where
  "put_sync_preferences V c repoId now =
     gated V c repoId Admin (\<lambda>s.
       case parseSyncBody (body_or_null (rq_json c)) of
         None \<Rightarrow> (Inr invalid_body, s)
       | Some (mode, tables) \<Rightarrow>
           respond_with (sync_upsert (ve_sync V) repoId mode tables now)
             (\<lambda>p. reply 200 (VPreference (Some p))) (\<lambda>e. handleSyncError e ''Failed to save sync preference'') s)"

definition post_sync_dry_run :: "('u, 's, 'd, 'w) vr_env \<Rightarrow> http_request \<Rightarrow> string \<Rightarrow> ('u, 's, 'd, 'w) vr_handler" where
  "post_sync_dry_run V c repoId =
     gated V c repoId Admin (\<lambda>s.
       case parseSyncBody (body_or_null (rq_json c)) of
         None \<Rightarrow> (Inr invalid_body, s)
       | Some (mode, tables) \<Rightarrow>
           respond_with (sync_preview (ve_sync V) repoId mode tables)
             (\<lambda>p. reply 200 (VPlan p)) (\<lambda>e. handleSyncError e ''Failed to preview sync preference'') s)"

definition post_push_commits :: "('u, 's, 'd, 'w) vr_env \<Rightarrow> http_request \<Rightarrow> string \<Rightarrow> ('u, 's, 'd, 'w) vr_handler" where
  "post_push_commits V c repoId s =
     (case versioning_authenticate (rq_authorization c) (ae_jwtVerify (ve_auth V)) of
        None \<Rightarrow> (Inr (reply 401 (VError ''Unauthorized'')), s)
      | Some username \<Rightarrow>
          (let role = auth_getRepoRole (ve_auth V) username repoId (fst s)
           in if role \<noteq> Some Writer \<and> role \<noteq> Some Admin
              then (Inr (reply 403 (VError ''User lacks writer access to repo'')), s)
              else case pushCommitsBodySchema (body_or_null (rq_json c)) of
                     None \<Rightarrow> (Inr invalid_body, s)
                   | Some (commits, base, branch) \<Rightarrow>
                       respond_with (importCommits (ve_store V) (ve_runImport V) (ve_branchHead V) repoId commits base branch)
                         (\<lambda>(commitHash, repo). reply 201 (VPushed commitHash)) handleCommitImportError s))"

definition get_refs :: "('u, 's, 'd, 'w) vr_env \<Rightarrow> http_request \<Rightarrow> string \<Rightarrow> ('u, 's, 'd, 'w) vr_handler" where
  "get_refs V c repoId =
     gated V c repoId Reader (respond_with (listRefs (ve_store V) (ve_export V) repoId)
       (\<lambda>refs. reply 200 (VRefs refs))
       (\<lambda>e. case e of RepoNotFoundError m \<Rightarrow> reply 404 (VError m) | _ \<Rightarrow> reply 500 (VError ''Failed to list refs'')))"

text \<open>
  The commits are streamed after the headers; an error of the stream closes the connection and is
  the last component of the body. The keep-alive lines carry no data.
\<close>

definition get_pull_commits ::
  "('u, 's, 'd, 'w) vr_env \<Rightarrow> http_request \<Rightarrow> (string \<times> string) list \<Rightarrow> string \<Rightarrow> ('u, 's, 'd, 'w) vr_handler" where
  "get_pull_commits V c query repoId =
     gated V c repoId Reader (\<lambda>s.
       let branch = (case map_of query ''branch'' of Some b \<Rightarrow> b | None \<Rightarrow> ''main'')
       in case on_repos (getBranchHead (ve_store V) (ve_export V) repoId branch) s of
            (Inl (RepoNotFoundError m), s') \<Rightarrow> (Inr (reply 404 (VError m)), s')
          | (Inl e, s') \<Rightarrow> (Inl e, s')
          | (Inr None, s') \<Rightarrow> (Inr (reply 404 (VError (''Branch not found: '' @ branch))), s')
          | (Inr (Some head), s') \<Rightarrow>
              (let (err, commits, t) = streamCommits (ve_store V) (ve_export V) repoId branch (map_of query ''from'') (snd s')
               in (Inr (reply 200 (VStream head commits err)), fst s', t)))"

text \<open>The routes on one repository, with the role that each asks for.\<close>

datatype repo_route =
    RGetRepo | RGetRoles | RPostRoles ms | RDeleteRole string
  | RLog "(string \<times> string) list" | RDiff "(string \<times> string) list" | RMerge
  | RBranches | RCreateBranch | RCurrentBranch | RCheckout string | RDeleteBranch string
  | RGetSync | RPutSync ms | RDryRun | RPushCommits | RRefs | RPullCommits "(string \<times> string) list"

fun repo_handle ::
  "('u, 's, 'd, 'w) vr_env \<Rightarrow> repo_route \<Rightarrow> http_request \<Rightarrow> string \<Rightarrow> ('u, 's, 'd, 'w) vr_handler" where
  "repo_handle V RGetRepo c repoId = get_repo V c repoId"
| "repo_handle V RGetRoles c repoId = get_roles V c repoId"
| "repo_handle V (RPostRoles now) c repoId = post_roles V c repoId now"
| "repo_handle V (RDeleteRole name) c repoId = delete_role V c repoId name"
| "repo_handle V (RLog q) c repoId = get_log V c q repoId"
| "repo_handle V (RDiff q) c repoId = get_diff V c q repoId"
| "repo_handle V RMerge c repoId = post_merge V c repoId"
| "repo_handle V RBranches c repoId = get_branches V c repoId"
| "repo_handle V RCreateBranch c repoId = post_branches V c repoId"
| "repo_handle V RCurrentBranch c repoId = get_current_branch V c repoId"
| "repo_handle V (RCheckout seg) c repoId = post_checkout V c repoId seg"
| "repo_handle V (RDeleteBranch seg) c repoId = delete_branch V c repoId seg"
| "repo_handle V RGetSync c repoId = get_sync_preferences V c repoId"
| "repo_handle V (RPutSync now) c repoId = put_sync_preferences V c repoId now"
| "repo_handle V RDryRun c repoId = post_sync_dry_run V c repoId"
| "repo_handle V RPushCommits c repoId = post_push_commits V c repoId"
| "repo_handle V RRefs c repoId = get_refs V c repoId"
| "repo_handle V (RPullCommits q) c repoId = get_pull_commits V c q repoId"

fun route_minimum :: "repo_route \<Rightarrow> repo_role" where
  "route_minimum (RPostRoles _) = Admin"
| "route_minimum (RDeleteRole _) = Admin"
| "route_minimum (RDeleteBranch _) = Admin"
| "route_minimum RGetSync = Admin"
| "route_minimum (RPutSync _) = Admin"
| "route_minimum RDryRun = Admin"
| "route_minimum RMerge = Writer"
| "route_minimum RCreateBranch = Writer"
| "route_minimum (RCheckout _) = Writer"
| "route_minimum RPushCommits = Writer"
| "route_minimum _ = Reader"

section \<open>What the gates let through\<close>

lemma versioning_authenticate_eq: "versioning_authenticate = authenticateBearerToken"
  by (simp add: fun_eq_iff versioning_authenticate_def authenticateBearerToken_def)

definition has_role :: "('u, 's) auth_env \<Rightarrow> string \<Rightarrow> string \<Rightarrow> repo_role \<Rightarrow> ('u, 's) auth_state \<Rightarrow> bool" where
  "has_role E user repoId minimum a \<longleftrightarrow> (\<exists>r. auth_getRepoRole E user repoId a = Some r \<and> minimum \<le> r)"

definition may_access :: "('u, 's) auth_env \<Rightarrow> http_request \<Rightarrow> string \<Rightarrow> repo_role \<Rightarrow> ('u, 's) auth_state \<Rightarrow> bool" where
  "may_access E c repoId minimum a \<longleftrightarrow>
     (\<exists>user. authenticateBearerToken (rq_authorization c) (ae_jwtVerify E) = Some user \<and>
        (has_role E user repoId minimum a \<or> auth_isGlobalAdmin E user a))"

text \<open>An answer that refuses: bad request, not authenticated or not allowed.\<close>

definition refused :: "'b response \<Rightarrow> bool" where
  "refused x \<longleftrightarrow> rs_status x \<in> {400, 401, 403}"

lemma refused_reply [simp]: "refused (reply n b) \<longleftrightarrow> n = 400 \<or> n = 401 \<or> n = 403"
  by (simp add: refused_def)

lemma invalid_status [simp]: "rs_status invalid_body = 400" "rs_status invalid_query = 400"
  by (simp_all add: invalid_body_def invalid_query_def)

lemma requireRepoRole_Inl:
  assumes "\<not> may_access E c repoId m a"
  shows "\<exists>x. requireRepoRole E c repoId m a = Inl x \<and> refused x"
  using assms
  by (auto simp: requireRepoRole_def requireUsername_def versioning_authenticate_eq may_access_def has_role_def
      access_denied_def less_eq_repo_role_def split: option.splits)

lemma requireRepoRoleOrGlobalAdmin_Inl:
  assumes "\<not> may_access E c repoId m a"
  shows "\<exists>x. requireRepoRoleOrGlobalAdmin E c repoId m a = Inl x \<and> refused x"
  using assms
  by (auto simp: requireRepoRoleOrGlobalAdmin_def requireUsername_def versioning_authenticate_eq may_access_def
      has_role_def access_denied_def less_eq_repo_role_def Let_def split: option.splits)

lemma gated_denied:
  assumes "\<not> may_access (ve_auth V) c repoId m (fst s)"
  shows "\<exists>x. gated V c repoId m inner s = (Inr x, s) \<and> refused x"
  using requireRepoRole_Inl [OF assms] by (auto simp: gated_def authorizeRepoRequest_def)

lemma may_access_mono: "may_access E c repoId m a \<Longrightarrow> m' \<le> m \<Longrightarrow> may_access E c repoId m' a"
  unfolding may_access_def has_role_def by (meson order_trans)

section \<open>Properties\<close>

text \<open>
  C7. No route on a repository does anything for a caller who is not authenticated, or who is neither
  a global administrator nor holds the role the route asks for (reader to read, writer to push,
  merge, create or check out branches, administrator for roles, preferences and the deletion of
  branches): the answer is an error and neither the users, the registry nor the repositories change.
\<close>

theorem repo_routes_gated:
  assumes "\<not> may_access (ve_auth V) c repoId (route_minimum route) (fst s)"
  shows "\<exists>x. repo_handle V route c repoId s = (Inr x, s) \<and> refused x"
proof (cases route)
  case RPushCommits
  have "auth_getRepoRole (ve_auth V) u repoId (fst s) \<noteq> Some Writer \<and> auth_getRepoRole (ve_auth V) u repoId (fst s) \<noteq> Some Admin"
    if "authenticateBearerToken (rq_authorization c) (ae_jwtVerify (ve_auth V)) = Some u" for u
    using assms that RPushCommits by (auto simp: may_access_def has_role_def)
  then show ?thesis
    using RPushCommits by (auto simp: post_push_commits_def versioning_authenticate_eq Let_def split: option.splits)
next
  case RGetRepo
  with assms requireRepoRole_Inl [of "ve_auth V" c repoId Reader "fst s"] show ?thesis
    by (auto simp: get_repo_def)
next
  case RGetRoles
  with assms requireRepoRoleOrGlobalAdmin_Inl [of "ve_auth V" c repoId Reader "fst s"] show ?thesis
    by (auto simp: get_roles_def)
next
  case (RPostRoles now)
  with assms requireRepoRoleOrGlobalAdmin_Inl [of "ve_auth V" c repoId Admin "fst s"] show ?thesis
    by (auto simp: post_roles_def)
next
  case (RDeleteRole name)
  with assms requireRepoRoleOrGlobalAdmin_Inl [of "ve_auth V" c repoId Admin "fst s"] show ?thesis
    by (auto simp: delete_role_def)
qed (use assms in \<open>simp_all add: get_log_def get_diff_def post_merge_def get_branches_def post_branches_def
    get_current_branch_def post_checkout_def delete_branch_def get_sync_preferences_def put_sync_preferences_def
    post_sync_dry_run_def get_refs_def get_pull_commits_def gated_denied\<close>)

text \<open>
  A global administrator without any role on a repository passes the gate of every route that
  reads, merges, creates, checks out or deletes branches there, with the role of an administrator;
  only the push of commits is refused to them.
\<close>

theorem global_admin_implicit_role:
  assumes "authenticateBearerToken (rq_authorization c) (ae_jwtVerify (ve_auth V)) = Some user"
    and "auth_isGlobalAdmin (ve_auth V) user (fst s)" and "auth_getRepoRole (ve_auth V) user repoId (fst s) = None"
    and "repoId \<noteq> []"
  shows "authorizeRepoRequest (ve_auth V) c repoId minimum (fst s) = Inr (user, Admin) \<and>
    gated V c repoId minimum inner s = inner s \<and>
    post_push_commits V c repoId s = (Inr (reply 403 (VError ''User lacks writer access to repo'')), s)"
  using assms
  by (simp add: authorizeRepoRequest_def requireRepoRole_def requireUsername_def versioning_authenticate_eq gated_def
      post_push_commits_def)

text \<open>An environment for the witnesses: the sample users, one repository and a binary that does nothing.\<close>

definition sample_vr_env :: "(user_db, session_row list, repo_db, unit) vr_env" where
  "sample_vr_env =
     \<lparr>ve_auth = createAuthEnv True sample_cfg,
      ve_repos = \<lparr>re_store = libsqlRepoStore True, re_runDoltInit = (\<lambda>_. ret ()), re_rootPath = ''/r''\<rparr>,
      ve_sync = sample_sync, ve_branchCli = dolt_branch_cli sample_dolt, ve_mergeCli = dolt_merge_cli sample_dolt,
      ve_readLog = runDoltReadLog sample_dolt, ve_readDiff = runDoltReadDiff sample_dolt,
      ve_runImport = (\<lambda>_ _ m _ _. ret m), ve_branchHead = None,
      ve_export = \<lparr>xe_dolt = sample_dolt, xe_jsonRows = (\<lambda>_. Some [])\<rparr>,
      ve_integer = map_option int \<circ> js_number, ve_decode = Some\<rparr>"

abbreviation sample_vr_state :: "(user_db, session_row list, repo_db, unit) vr_state" where
  "sample_vr_state \<equiv> (sample_db, sample_repo_db, ())"

lemma sample_vr_auth [simp]: "ve_auth sample_vr_env = createAuthEnv True sample_cfg"
  by (simp add: sample_vr_env_def)

lemma sample_no_role: "auth_getRepoRole (createAuthEnv True sample_cfg) u r sample_db = None"
  by (simp add: auth_getRepoRole_def sql_users_getRepoRole_def)

lemma repo_routes_gated_witness:
  "\<exists>x. repo_handle sample_vr_env (RDeleteBranch ''dev'') (sample_request ''bob'') ''demo'' sample_vr_state = (Inr x, sample_vr_state) \<and>
     refused x"
proof (rule repo_routes_gated)
  show "\<not> may_access (ve_auth sample_vr_env) (sample_request ''bob'') ''demo'' (route_minimum (RDeleteBranch ''dev'')) (fst sample_vr_state)"
    using sample_authenticated(2) sample_no_role by (auto simp: may_access_def has_role_def auth_isGlobalAdmin_def)
qed

lemma global_admin_implicit_role_witness:
  "gated sample_vr_env (sample_request ''ann'') ''demo'' Admin (delete_branch sample_vr_env (sample_request ''ann'') ''demo'' ''dev'') sample_vr_state =
     delete_branch sample_vr_env (sample_request ''ann'') ''demo'' ''dev'' sample_vr_state \<and>
   post_push_commits sample_vr_env (sample_request ''ann'') ''demo'' sample_vr_state =
     (Inr (reply 403 (VError ''User lacks writer access to repo'')), sample_vr_state)"
  using global_admin_implicit_role [of "sample_request ''ann''" sample_vr_env "''ann''" sample_vr_state "''demo''" Admin
      "delete_branch sample_vr_env (sample_request ''ann'') ''demo'' ''dev''"]
    sample_authenticated(1) sample_no_role
  by (simp add: auth_isGlobalAdmin_def)

text \<open>
  A repository is created as a whole: the answer 201 is given only to an authenticated user who
  may create repositories, for a valid id that was free; afterwards the registry holds the record
  under the root directory and is otherwise unchanged, every path in it still is the root joined with
  a valid id, and the creator holds the role of an administrator of the repository.
\<close>

theorem repo_creation_complete:
  assumes "re_store (ve_repos V) = libsqlRepoStore fk" and "ve_auth V = createAuthEnv fk' cfg"
    and "auth_ok a" and "registry_ok (re_rootPath (ve_repos V)) d"
    and "post_repos V c now (a, d, w) = (Inr x, a', d', w')" and "rs_status x = 201"
  shows "\<exists>user repo. authenticateBearerToken (rq_authorization c) (ae_jwtVerify cfg) = Some user \<and>
     auth_canUserCreateRepos (ve_auth V) user a \<and>
     rs_body x = VRepo repo None \<and> VALID_REPO_ID (rp_repoId repo) \<and> rp_createdBy repo = user \<and>
     rp_doltPath repo = path_join (re_rootPath (ve_repos V)) (rp_repoId repo) \<and>
     sql_rp_get (rp_repoId repo) d = None \<and>
     (\<forall>k. sql_rp_get k d' = (if k = rp_repoId repo then Some repo else sql_rp_get k d)) \<and>
     registry_ok (re_rootPath (ve_repos V)) d' \<and>
     auth_getRepoRole (ve_auth V) user (rp_repoId repo) a' = Some Admin"
proof -
  obtain user repoId repo t where u: "authenticateBearerToken (rq_authorization c) (ae_jwtVerify cfg) = Some user"
    "auth_canUserCreateRepos (ve_auth V) user a"
    and p: "provision (ve_repos V) repoId user now (d, w) = (Inr repo, d', w')"
    and g: "auth_grantRepoAdminToCreator (ve_auth V) (rp_repoId repo) user now a = (Inr t, a')"
    and x: "rs_body x = VRepo repo None"
    using assms(2,5,6)
    by (auto simp: post_repos_def versioning_authenticate_eq split: option.splits if_splits sum.splits prod.splits
        versioning_error.splits)
  have db: "repo_db_ok d" using assms(4) by (simp add: registry_ok_def)
  note n = provision_created [OF assms(1) db p]
  have "registry_ok (re_rootPath (ve_repos V)) d'"
    using provision_keeps_registry [OF assms(1,4), of repoId user now w] p by simp
  moreover have "auth_getRepoRole (ve_auth V) user repoId a' = Some Admin"
    using grant_result(1) [OF assms(3)] g n(3) assms(2)
    by (auto simp: auth_grantRepoAdminToCreator_def auth_getRepoRole_def)
  ultimately show ?thesis using u x n by auto
qed

lemma repo_creation_complete_witness:
  "\<exists>x a' d' w'. post_repos sample_vr_env ((sample_request ''bob'')\<lparr>rq_json := Some (JObj [(''repoId'', JStr ''shop'')])\<rparr>) 7 sample_vr_state =
      (Inr x, a', d', w') \<and> rs_status x = 201 \<and> auth_getRepoRole (ve_auth sample_vr_env) ''bob'' ''shop'' a' = Some Admin"
proof -
  let ?c = "(sample_request ''bob'')\<lparr>rq_json := Some (JObj [(''repoId'', JStr ''shop'')])\<rparr>"
  obtain x a' d' w' where run: "post_repos sample_vr_env ?c 7 sample_vr_state = (Inr x, a', d', w')" and st: "rs_status x = 201"
    and b: "rs_body x = VRepo \<lparr>rp_repoId = ''shop'', rp_doltPath = ''/r/shop'', rp_createdAt = 7, rp_createdBy = ''bob''\<rparr> None"
  proof -
    have "case post_repos sample_vr_env ?c 7 sample_vr_state of (Inr x, _) \<Rightarrow> rs_status x = 201 \<and>
      rs_body x = VRepo \<lparr>rp_repoId = ''shop'', rp_doltPath = ''/r/shop'', rp_createdAt = 7, rp_createdBy = ''bob''\<rparr> None | _ \<Rightarrow> False"
      by code_simp
    then show thesis using that
      by (cases "post_repos sample_vr_env ?c 7 sample_vr_state") (auto split: sum.splits)
  qed
  have reg: "registry_ok (re_rootPath (ve_repos sample_vr_env)) sample_repo_db" by code_simp
  have "re_store (ve_repos sample_vr_env) = libsqlRepoStore True" by (simp add: sample_vr_env_def)
  from repo_creation_complete [OF this sample_vr_auth sample_ok reg run st] b
  have "auth_getRepoRole (ve_auth sample_vr_env) ''bob'' ''shop'' a' = Some Admin"
    by auto
  with run st show ?thesis by blast
qed

end
