(* ===== verification/Jobs.thy ===== *)
theory Jobs
  imports Http
begin

text \<open>
  Promotion of staged uploads to the NAS (\<open>contexts/storage\<close>): the job table
  (\<open>libsql-transfer-job-store.ts\<close>), \<open>NasSyncService\<close> (\<open>nas-sync.service.ts\<close>), the worker loop
  (\<open>nas-sync.worker.ts\<close>), the simulated NAS on a file system (\<open>local-fs-nas-adapter.ts\<close>) and the
  dead-letter routes (\<open>storage.router.ts\<close>).

  Safety under concurrency is proved for arbitrary sequences of statements on the table, as for
  tickets; the worker loop is modelled with fuel, and the bound that suffices is proved.
\<close>

section \<open>Data\<close>

datatype job_status = JStaged | JSyncing | JSynced | JSyncFailed | JDeadLetter

record transfer_job =
  jb_id :: string
  jb_repo :: string
  jb_stagingPath :: string
  jb_checksum :: string
  jb_status :: job_status
  jb_retryCount :: int
  jb_maxRetries :: int
  jb_nextRetryAt :: ms
  jb_createdAt :: ms
  jb_updatedAt :: ms
  jb_lastError :: "string option"

datatype storage_error = ChecksumMismatchError | JobSqlError | NasError string

fun storage_message :: "storage_error \<Rightarrow> string" where
  "storage_message ChecksumMismatchError = ''Checksum mismatch between staged file and NAS copy''"
| "storage_message JobSqlError = ''SQLITE_CONSTRAINT''"
| "storage_message (NasError m) = m"

section \<open>LibsqlTransferJobStore\<close>

definition job_create :: "transfer_job \<Rightarrow> (transfer_job list, storage_error, unit) op" where
  "job_create job t =
     (case sql_insert jb_id job t of None \<Rightarrow> (Inl JobSqlError, t) | Some t' \<Rightarrow> (Inr (), t'))"

definition job_get :: "string \<Rightarrow> transfer_job list \<Rightarrow> transfer_job option" where
  "job_get jobId t = sql_get jb_id jobId t"

text \<open>The \<open>WHERE\<close> clause that both statements of \<open>claimNextEligible\<close> use.\<close>

definition job_eligible :: "ms \<Rightarrow> transfer_job \<Rightarrow> bool" where
  "job_eligible now j \<longleftrightarrow>
     jb_status j = JStaged \<or> (jb_status j = JSyncFailed \<and> jb_nextRetryAt j \<le> now)"

definition claim_candidates :: "ms \<Rightarrow> transfer_job list \<Rightarrow> string list" where
  "claim_candidates now t = map jb_id (take 5 (sort_key jb_createdAt (filter (job_eligible now) t)))"

definition job_claim :: "ms \<Rightarrow> string \<Rightarrow> transfer_job list \<Rightarrow> bool \<times> transfer_job list" where
  "job_claim now jobId t =
     (let (t', n) = sql_update (\<lambda>j. jb_id j = jobId \<and> job_eligible now j)
                      (\<lambda>j. j\<lparr>jb_status := JSyncing, jb_updatedAt := now\<rparr>) t
      in (n = 1, t'))"

text \<open>The inner loop over the candidates, and the bounded outer loop.\<close>

fun claim_first :: "ms \<Rightarrow> string list \<Rightarrow> transfer_job list \<Rightarrow> transfer_job option \<times> transfer_job list" where
  "claim_first now [] t = (None, t)"
| "claim_first now (i # is) t =
     (case job_claim now i t of
        (True, t') \<Rightarrow> (job_get i t', t')
      | (False, t') \<Rightarrow> claim_first now is t')"

fun claim_loop :: "nat \<Rightarrow> ms \<Rightarrow> transfer_job list \<Rightarrow> transfer_job option \<times> transfer_job list" where
  "claim_loop 0 now t = (None, t)"
| "claim_loop (Suc n) now t =
     (if claim_candidates now t = [] then (None, t)
      else case claim_first now (claim_candidates now t) t of
             (Some j, t') \<Rightarrow> (Some j, t')
           | (None, t') \<Rightarrow> claim_loop n now t')"

definition claimNextEligible :: "ms \<Rightarrow> transfer_job list \<Rightarrow> transfer_job option \<times> transfer_job list" where
  "claimNextEligible now t = claim_loop 5 now t"

definition markSynced :: "string \<Rightarrow> ms \<Rightarrow> transfer_job list \<Rightarrow> bool \<times> transfer_job list" where
  "markSynced jobId dateNow t =
     (let (t', n) = sql_update (\<lambda>j. jb_id j = jobId \<and> jb_status j = JSyncing)
                      (\<lambda>j. j\<lparr>jb_status := JSynced, jb_updatedAt := dateNow\<rparr>) t
      in (n = 1, t'))"

text \<open>The \<open>SET\<close> clause of \<open>markFailed\<close>: the row itself decides between a retry and the dead letter.\<close>

definition fail_job :: "string \<Rightarrow> ms \<Rightarrow> ms \<Rightarrow> transfer_job \<Rightarrow> transfer_job" where
  "fail_job e n d j =
     j\<lparr>jb_status := (if jb_retryCount j + 1 \<ge> jb_maxRetries j then JDeadLetter else JSyncFailed),
       jb_retryCount := jb_retryCount j + 1, jb_nextRetryAt := n, jb_lastError := Some e, jb_updatedAt := d\<rparr>"

definition markFailed :: "string \<Rightarrow> string \<Rightarrow> ms \<Rightarrow> ms \<Rightarrow> transfer_job list \<Rightarrow> bool \<times> transfer_job list" where
  "markFailed jobId err nextRetryAt dateNow t =
     (let (t', n) = sql_update (\<lambda>j. jb_id j = jobId \<and> jb_status j = JSyncing)
                      (fail_job err nextRetryAt dateNow) t
      in (n = 1, t'))"

definition requeueDeadLetter :: "string \<Rightarrow> ms \<Rightarrow> transfer_job list \<Rightarrow> bool \<times> transfer_job list" where
  "requeueDeadLetter jobId dateNow t =
     (let (t', n) = sql_update (\<lambda>j. jb_id j = jobId \<and> jb_status j = JDeadLetter)
                      (\<lambda>j. j\<lparr>jb_status := JStaged, jb_retryCount := 0, jb_lastError := None,
                            jb_updatedAt := dateNow\<rparr>) t
      in (n = 1, t'))"

definition listDeadLetter :: "transfer_job list \<Rightarrow> transfer_job list" where
  "listDeadLetter t = rev (sort_key jb_updatedAt (rev (filter (\<lambda>j. jb_status j = JDeadLetter) t)))"

section \<open>NasSyncService\<close>

definition computeBackoffMs :: "int \<Rightarrow> int \<Rightarrow> int \<Rightarrow> int" where
  "computeBackoffMs retryCount baseMs maxMs = min (baseMs * 2 ^ nat retryCount) maxMs"

record 'w sync_env =
  sy_copyToNas :: "string \<Rightarrow> string \<Rightarrow> ('w, storage_error, string) op"
  sy_backoffBaseMs :: "int option"
  sy_backoffMaxMs :: "int option"

text \<open>
  \<open>processNext\<close> on the job table and the world of the NAS adapter. The readings are: \<open>tm 0\<close> for the claim,
  \<open>tm 1\<close> for the failure branch, \<open>tm 2\<close> the store's own \<open>Date.now()\<close>.
\<close>

definition processNext ::
  "'w sync_env \<Rightarrow> (nat \<Rightarrow> ms) \<Rightarrow> transfer_job list \<times> 'w \<Rightarrow> bool \<times> (transfer_job list \<times> 'w)" where
  "processNext S tm s =
     (case s of (t, w) \<Rightarrow>
      (case claimNextEligible (tm 0) t of
         (None, t1) \<Rightarrow> (False, (t1, w))
       | (Some job, t1) \<Rightarrow>
           (case sy_copyToNas S (jb_stagingPath job) (jb_repo job) w of
              (r, w1) \<Rightarrow>
                (let failure = (\<lambda>e.
                       let backoffMs = computeBackoffMs (jb_retryCount job)
                             (case sy_backoffBaseMs S of Some b \<Rightarrow> b | None \<Rightarrow> 1000)
                             (case sy_backoffMaxMs S of Some b \<Rightarrow> b | None \<Rightarrow> 60000)
                       in (True, (snd (markFailed (jb_id job) (storage_message e) (tm 1 + backoffMs) (tm 2) t1), w1)))
                 in case r of
                      Inl e \<Rightarrow> failure e
                    | Inr checksum \<Rightarrow>
                        if checksum \<noteq> jb_checksum job then failure ChecksumMismatchError
                        else (True, (snd (markSynced (jb_id job) (tm 2) t1), w1))))))"

section \<open>NasSyncWorker\<close>

text \<open>
  The loop of \<open>drainOnce\<close>, with fuel; \<open>clk i\<close> is the clock during the i-th round. \<open>None\<close>: out of fuel.
\<close>

fun drain :: "nat \<Rightarrow> 'w sync_env \<Rightarrow> (nat \<Rightarrow> nat \<Rightarrow> ms) \<Rightarrow> transfer_job list \<times> 'w \<Rightarrow> (transfer_job list \<times> 'w) option" where
  "drain 0 S clk s = None"
| "drain (Suc n) S clk s =
     (case processNext S (clk 0) s of
        (False, s') \<Rightarrow> Some s'
      | (True, s') \<Rightarrow> drain n S (\<lambda>i. clk (Suc i)) s')"

text \<open>\<open>drainOnce\<close> with the reentrancy guard of the worker.\<close>

definition drainOnce ::
  "nat \<Rightarrow> 'w sync_env \<Rightarrow> (nat \<Rightarrow> nat \<Rightarrow> ms) \<Rightarrow> bool \<Rightarrow> transfer_job list \<times> 'w \<Rightarrow> (bool \<times> transfer_job list \<times> 'w) option" where
  "drainOnce fuel S clk draining s =
     (if draining then Some (draining, s) else map_option (\<lambda>s'. (False, s')) (drain fuel S clk s))"

section \<open>LocalFsNasAdapter\<close>

text \<open>
  The adapter works on a file system, a map from paths to contents. What the environment does to
  it are parameters: \<open>xfer\<close> is the content that \<open>copyFile\<close> really writes (the identity if nothing
  is corrupted), \<open>io step\<close> an error of the given step, \<open>sha256\<close> the digest, \<open>join\<close> is \<open>path.join\<close> and
  \<open>tmpName\<close> the drawn temporary name.
\<close>

type_synonym fs = "string \<rightharpoonup> string"

datatype io_step = IoMkdir | IoCopy | IoHash | IoMkdirFinal | IoRename

record nas_env =
  na_join :: "string list \<Rightarrow> string"
  na_root :: string
  na_sha256 :: "string \<Rightarrow> string"
  na_xfer :: "string \<Rightarrow> string"
  na_io :: "io_step \<Rightarrow> string option"

definition nasFinalPath :: "nas_env \<Rightarrow> string \<Rightarrow> string" where
  "nasFinalPath N repo = na_join N [na_join N [na_root N, repo], ''repo.dolt'']"

definition nasTmpPath :: "nas_env \<Rightarrow> string \<Rightarrow> string \<Rightarrow> string" where
  "nasTmpPath N repo tmpName = na_join N [na_join N [na_root N, repo], ''.tmp-'' @ tmpName]"

definition fs_copy :: "nas_env \<Rightarrow> string \<Rightarrow> string \<Rightarrow> (fs, storage_error, unit) op" where
  "fs_copy N src dst f =
     (case na_io N IoCopy of
        Some e \<Rightarrow> (Inl (NasError e), f)
      | None \<Rightarrow> (case f src of
                   None \<Rightarrow> (Inl (NasError ''ENOENT''), f)
                 | Some bytes \<Rightarrow> (Inr (), f(dst \<mapsto> na_xfer N bytes))))"

definition fs_hash :: "nas_env \<Rightarrow> string \<Rightarrow> (fs, storage_error, string) op" where
  "fs_hash N path f =
     (case na_io N IoHash of
        Some e \<Rightarrow> (Inl (NasError e), f)
      | None \<Rightarrow> (case f path of
                   None \<Rightarrow> (Inl (NasError ''ENOENT''), f)
                 | Some bytes \<Rightarrow> (Inr (na_sha256 N bytes), f)))"

definition fs_step_ok :: "nas_env \<Rightarrow> io_step \<Rightarrow> (fs, storage_error, unit) op" where
  "fs_step_ok N step = (case na_io N step of Some e \<Rightarrow> throw (NasError e) | None \<Rightarrow> ret ())"

definition fs_rename :: "nas_env \<Rightarrow> string \<Rightarrow> string \<Rightarrow> (fs, storage_error, unit) op" where
  "fs_rename N src dst f =
     (case na_io N IoRename of
        Some e \<Rightarrow> (Inl (NasError e), f)
      | None \<Rightarrow> (Inr (), (f(dst := f src))(src := None)))"

definition copyToNas :: "nas_env \<Rightarrow> string \<Rightarrow> string \<Rightarrow> string \<Rightarrow> (fs, storage_error, string) op" where
  "copyToNas N tmpName stagingPath repo =
     (let finalPath = nasFinalPath N repo; tmpPath = nasTmpPath N repo tmpName
      in and_then (fs_step_ok N IoMkdir) (\<lambda>_.
         try_catch
           (and_then (fs_copy N stagingPath tmpPath) (\<lambda>_.
            and_then (fs_hash N tmpPath) (\<lambda>checksum.
            and_then (fs_step_ok N IoMkdirFinal) (\<lambda>_.
            and_then (fs_rename N tmpPath finalPath) (\<lambda>_. ret checksum)))))
           (\<lambda>e f. (Inl e, f(tmpPath := None)))))"

text \<open>\<open>createNasSyncService\<close> (\<open>create-nas-sync-service.ts\<close>): the service on this adapter, with the configured backoff.\<close>

definition nasSyncEnv :: "nas_env \<Rightarrow> string \<Rightarrow> int \<Rightarrow> int \<Rightarrow> fs sync_env" where
  "nasSyncEnv N tmpName backoffBaseMs backoffMaxMs =
     \<lparr>sy_copyToNas = copyToNas N tmpName, sy_backoffBaseMs = Some backoffBaseMs, sy_backoffMaxMs = Some backoffMaxMs\<rparr>"

section \<open>Dead-letter routes\<close>

datatype storage_body = SBError string | SBJobs "transfer_job list" | SBOk

definition get_deadLetter ::
  "(string \<Rightarrow> auth_error + jwt_payload) \<Rightarrow> string option \<Rightarrow> transfer_job list \<Rightarrow> storage_body response \<times> transfer_job list" where
  "get_deadLetter jwtVerify authHeader t =
     (case authenticateBearerToken authHeader jwtVerify of
        None \<Rightarrow> (reply 401 (SBError ''Unauthorized''), t)
      | Some _ \<Rightarrow> (reply 200 (SBJobs (listDeadLetter t)), t))"

definition post_deadLetter_retry ::
  "(string \<Rightarrow> auth_error + jwt_payload) \<Rightarrow> string option \<Rightarrow> json option \<Rightarrow> ms \<Rightarrow> transfer_job list \<Rightarrow>
   storage_body response \<times> transfer_job list" where
  "post_deadLetter_retry jwtVerify authHeader body dateNow t =
     (case authenticateBearerToken authHeader jwtVerify of
        None \<Rightarrow> (reply 401 (SBError ''Unauthorized''), t)
      | Some _ \<Rightarrow>
          (case z_string 1 512 ''jobId'' (body_or_null body) of
             None \<Rightarrow> (reply 400 (SBError ''Invalid request body''), t)
           | Some jobId \<Rightarrow>
               (case requeueDeadLetter jobId dateNow t of
                  (True, t') \<Rightarrow> (reply 200 SBOk, t')
                | (False, t') \<Rightarrow> (reply 404 (SBError ''Job not found or not in dead_letter state''), t'))))"

section \<open>Statements on the job table\<close>

datatype job_stmt =
    QCreate transfer_job
  | QClaim ms string
  | QSynced string ms
  | QFailed string string ms ms
  | QRequeue string ms

datatype job_event = EvClaimed string | EvSynced string | EvFailed string | EvRequeued string

fun job_exec :: "job_stmt \<Rightarrow> transfer_job list \<Rightarrow> transfer_job list \<times> job_event list" where
  "job_exec (QCreate j) t = (snd (job_create j t), [])"
| "job_exec (QClaim now i) t =
     (snd (job_claim now i t), if fst (job_claim now i t) then [EvClaimed i] else [])"
| "job_exec (QSynced i d) t =
     (snd (markSynced i d t), if fst (markSynced i d t) then [EvSynced i] else [])"
| "job_exec (QFailed i e n d) t =
     (snd (markFailed i e n d t), if fst (markFailed i e n d t) then [EvFailed i] else [])"
| "job_exec (QRequeue i d) t =
     (snd (requeueDeadLetter i d t), if fst (requeueDeadLetter i d t) then [EvRequeued i] else [])"

fun job_run :: "job_stmt list \<Rightarrow> transfer_job list \<Rightarrow> transfer_job list \<times> job_event list" where
  "job_run [] t = (t, [])"
| "job_run (q # qs) t =
     (let (t1, e1) = job_exec q t; (t2, e2) = job_run qs t1 in (t2, e1 @ e2))"

definition ev_count :: "job_event \<Rightarrow> job_event list \<Rightarrow> nat" where
  "ev_count e es = length (filter (\<lambda>x. x = e) es)"

section \<open>Updates of one job\<close>

lemma job_sql_update:
  assumes k: "keyed jb_id t" and f: "\<And>x. jb_id (f x) = jb_id x"
    and q: "\<And>x. q x = (jb_id x = i \<and> p x)"
  shows "snd (sql_update q f t) = 1 \<longleftrightarrow> (\<exists>x. job_get i t = Some x \<and> p x)"
    and "job_get j (fst (sql_update q f t)) =
      (if j = i then map_option (\<lambda>x. if p x then f x else x) (job_get j t) else job_get j t)"
    and "keyed jb_id (fst (sql_update q f t))"
proof -
  have "snd (sql_update q f t) = 1 \<longleftrightarrow> (\<exists>x. sql_get jb_id i t = Some x \<and> q x)"
    by (rule sql_update_affected [OF k]) (simp add: q)
  then show "snd (sql_update q f t) = 1 \<longleftrightarrow> (\<exists>x. job_get i t = Some x \<and> p x)"
    by (auto simp: q job_get_def dest: sql_get_Some_key)
  show "job_get j (fst (sql_update q f t)) =
      (if j = i then map_option (\<lambda>x. if p x then f x else x) (job_get j t) else job_get j t)"
    unfolding job_get_def sql_get_update [of jb_id f, OF f]
    by (cases "sql_get jb_id j t") (auto simp: q dest: sql_get_Some_key)
  show "keyed jb_id (fst (sql_update q f t))" by (rule keyed_update [of jb_id f t q, OF f k])
qed

text \<open>What each of the four updates does, seen through \<open>job_get\<close>.\<close>

definition job_updates :: "string \<Rightarrow> (transfer_job \<Rightarrow> bool) \<Rightarrow> (transfer_job \<Rightarrow> transfer_job) \<Rightarrow>
    transfer_job list \<Rightarrow> bool \<times> transfer_job list \<Rightarrow> bool" where
  "job_updates i p f t r \<longleftrightarrow>
     keyed jb_id (snd r) \<and> fst r = (\<exists>x. job_get i t = Some x \<and> p x) \<and>
     (\<forall>j. job_get j (snd r) =
        (if j = i then map_option (\<lambda>x. if p x then f x else x) (job_get j t) else job_get j t))"

lemma job_claim_updates:
  "keyed jb_id t \<Longrightarrow>
   job_updates i (job_eligible now) (\<lambda>j. j\<lparr>jb_status := JSyncing, jb_updatedAt := now\<rparr>) t (job_claim now i t)"
  using job_sql_update [where i = i and p = "job_eligible now"
      and f = "\<lambda>j. j\<lparr>jb_status := JSyncing, jb_updatedAt := now\<rparr>"
      and q = "\<lambda>j. jb_id j = i \<and> job_eligible now j" and t = t]
  by (simp add: job_updates_def job_claim_def split_def Let_def)

lemma markSynced_updates:
  "keyed jb_id t \<Longrightarrow>
   job_updates i (\<lambda>j. jb_status j = JSyncing) (\<lambda>j. j\<lparr>jb_status := JSynced, jb_updatedAt := d\<rparr>) t (markSynced i d t)"
  using job_sql_update [where i = i and p = "\<lambda>j. jb_status j = JSyncing"
      and f = "\<lambda>j. j\<lparr>jb_status := JSynced, jb_updatedAt := d\<rparr>"
      and q = "\<lambda>j. jb_id j = i \<and> jb_status j = JSyncing" and t = t]
  by (simp add: job_updates_def markSynced_def split_def Let_def)

lemma fail_job_sel [simp]:
  "jb_id (fail_job e n d j) = jb_id j" "jb_retryCount (fail_job e n d j) = jb_retryCount j + 1"
  "jb_maxRetries (fail_job e n d j) = jb_maxRetries j" "jb_nextRetryAt (fail_job e n d j) = n"
  "jb_status (fail_job e n d j) = (if jb_retryCount j + 1 \<ge> jb_maxRetries j then JDeadLetter else JSyncFailed)"
  by (simp_all add: fail_job_def)

lemma markFailed_updates:
  "keyed jb_id t \<Longrightarrow> job_updates i (\<lambda>j. jb_status j = JSyncing) (fail_job e n d) t (markFailed i e n d t)"
  using job_sql_update [where i = i and p = "\<lambda>j. jb_status j = JSyncing" and f = "fail_job e n d"
      and q = "\<lambda>j. jb_id j = i \<and> jb_status j = JSyncing" and t = t]
  by (simp add: job_updates_def markFailed_def split_def Let_def)

lemma requeue_updates:
  "keyed jb_id t \<Longrightarrow>
   job_updates i (\<lambda>j. jb_status j = JDeadLetter)
     (\<lambda>j. j\<lparr>jb_status := JStaged, jb_retryCount := 0, jb_lastError := None, jb_updatedAt := d\<rparr>) t (requeueDeadLetter i d t)"
  using job_sql_update [where i = i and p = "\<lambda>j. jb_status j = JDeadLetter"
      and f = "\<lambda>j. j\<lparr>jb_status := JStaged, jb_retryCount := 0, jb_lastError := None, jb_updatedAt := d\<rparr>"
      and q = "\<lambda>j. jb_id j = i \<and> jb_status j = JDeadLetter" and t = t]
  by (simp add: job_updates_def requeueDeadLetter_def split_def Let_def)

lemma job_create_apply:
  "job_create x t = (if job_get (jb_id x) t = None then (Inr (), t @ [x]) else (Inl JobSqlError, t))"
  by (auto simp: job_create_def sql_insert_def job_get_def sql_get_None)

lemma job_get_append: "job_get i (t @ [x]) = (case job_get i t of Some y \<Rightarrow> Some y | None \<Rightarrow> if jb_id x = i then Some x else None)"
  by (auto simp: job_get_def sql_get_append split: option.splits)

lemmas job_update_laws = job_claim_updates markSynced_updates markFailed_updates requeue_updates

lemma job_exec_keyed: "keyed jb_id t \<Longrightarrow> keyed jb_id (fst (job_exec q t))"
proof (cases q)
  case (QCreate x)
  assume "keyed jb_id t"
  then show ?thesis
    using keyed_insert [of jb_id t x] by (auto simp: QCreate job_create_def split: option.splits)
qed (use job_update_laws in \<open>auto simp: job_updates_def\<close>)

section \<open>Concurrency\<close>

text \<open>Whether a job is with a worker or done, and whether it is done; 0 for a job that is not there.\<close>

definition taken :: "string \<Rightarrow> transfer_job list \<Rightarrow> nat" where
  "taken i t = (case job_get i t of Some j \<Rightarrow> if jb_status j \<in> {JSyncing, JSynced} then 1 else 0 | None \<Rightarrow> 0)"

definition done_job :: "string \<Rightarrow> transfer_job list \<Rightarrow> nat" where
  "done_job i t = (case job_get i t of Some j \<Rightarrow> if jb_status j = JSynced then 1 else 0 | None \<Rightarrow> 0)"

text \<open>Jobs enter the table as \<open>PushSessionHandler.finish\<close> creates them.\<close>

definition job_fresh :: "transfer_job \<Rightarrow> bool" where
  "job_fresh j \<longleftrightarrow> jb_status j = JStaged \<and> jb_retryCount j = 0 \<and> 1 \<le> jb_maxRetries j"

fun stmt_fresh :: "job_stmt \<Rightarrow> bool" where
  "stmt_fresh (QCreate j) \<longleftrightarrow> job_fresh j"
| "stmt_fresh _ \<longleftrightarrow> True"

lemma ev_count_simps [simp]:
  "ev_count e [] = 0" "ev_count e (x # xs) = (if x = e then 1 else 0) + ev_count e xs"
  "ev_count e (xs @ ys) = ev_count e xs + ev_count e ys"
  by (simp_all add: ev_count_def)

lemma job_exec_counts:
  assumes k: "keyed jb_id t" and f: "stmt_fresh q"
  shows "ev_count (EvClaimed i) (snd (job_exec q t)) + taken i t =
         ev_count (EvFailed i) (snd (job_exec q t)) + taken i (fst (job_exec q t))"
    and "ev_count (EvSynced i) (snd (job_exec q t)) + done_job i t = done_job i (fst (job_exec q t))"
proof -
  have "ev_count (EvClaimed i) (snd (job_exec q t)) + taken i t =
         ev_count (EvFailed i) (snd (job_exec q t)) + taken i (fst (job_exec q t)) \<and>
        ev_count (EvSynced i) (snd (job_exec q t)) + done_job i t = done_job i (fst (job_exec q t))"
  proof (cases q)
    case (QCreate x)
    with f show ?thesis
      by (auto simp: job_create_apply job_get_append taken_def done_job_def job_fresh_def split: option.splits)
  next
    case (QClaim now j)
    with job_claim_updates [OF k, of j now] show ?thesis
      by (auto simp: job_updates_def taken_def done_job_def job_eligible_def split: option.splits)
  next
    case (QSynced j d)
    with markSynced_updates [OF k, of j d] show ?thesis
      by (auto simp: job_updates_def taken_def done_job_def split: option.splits)
  next
    case (QFailed j e n d)
    with markFailed_updates [OF k, of j e n d] show ?thesis
      by (auto simp: job_updates_def taken_def done_job_def split: option.splits)
  next
    case (QRequeue j d)
    with requeue_updates [OF k, of j d] show ?thesis
      by (auto simp: job_updates_def taken_def done_job_def split: option.splits)
  qed
  then show "ev_count (EvClaimed i) (snd (job_exec q t)) + taken i t =
         ev_count (EvFailed i) (snd (job_exec q t)) + taken i (fst (job_exec q t))"
    "ev_count (EvSynced i) (snd (job_exec q t)) + done_job i t = done_job i (fst (job_exec q t))" by simp_all
qed

lemma job_run_Cons:
  "job_run (q # qs) t = (fst (job_run qs (fst (job_exec q t))), snd (job_exec q t) @ snd (job_run qs (fst (job_exec q t))))"
  by (simp add: split_def Let_def)

lemma job_run_counts:
  assumes "keyed jb_id t" and "list_all stmt_fresh qs"
  shows "ev_count (EvClaimed i) (snd (job_run qs t)) + taken i t =
         ev_count (EvFailed i) (snd (job_run qs t)) + taken i (fst (job_run qs t))"
    and "ev_count (EvSynced i) (snd (job_run qs t)) + done_job i t = done_job i (fst (job_run qs t))"
proof -
  have "ev_count (EvClaimed i) (snd (job_run qs t)) + taken i t =
         ev_count (EvFailed i) (snd (job_run qs t)) + taken i (fst (job_run qs t)) \<and>
    ev_count (EvSynced i) (snd (job_run qs t)) + done_job i t = done_job i (fst (job_run qs t))"
    using assms
  proof (induction qs arbitrary: t)
    case (Cons q qs)
    then have k: "keyed jb_id t" and q: "stmt_fresh q" and qs: "list_all stmt_fresh qs" by simp_all
    show ?case
      unfolding job_run_Cons
      using Cons.IH [OF job_exec_keyed [OF k] qs, of q] job_exec_counts [OF k q, of i] by simp
  qed simp
  then show "ev_count (EvClaimed i) (snd (job_run qs t)) + taken i t =
         ev_count (EvFailed i) (snd (job_run qs t)) + taken i (fst (job_run qs t))"
    "ev_count (EvSynced i) (snd (job_run qs t)) + done_job i t = done_job i (fst (job_run qs t))" by simp_all
qed

lemma job_run_keyed: "keyed jb_id t \<Longrightarrow> keyed jb_id (fst (job_run qs t))"
proof (induction qs arbitrary: t)
  case (Cons q qs)
  then show ?case unfolding job_run_Cons by (simp add: job_exec_keyed)
qed simp

lemma synced_exec:
  assumes k: "keyed jb_id t" and f: "stmt_fresh q" and d: "done_job i t = 1"
  shows "done_job i (fst (job_exec q t)) = 1" and "ev_count (EvClaimed i) (snd (job_exec q t)) = 0"
proof -
  have le: "done_job i (fst (job_exec q t)) \<le> 1" by (auto simp: done_job_def split: option.splits)
  with job_exec_counts(2) [OF k f, of i] d show "done_job i (fst (job_exec q t)) = 1" by simp
  from d obtain j where j: "job_get i t = Some j" "jb_status j = JSynced"
    by (auto simp: done_job_def split: option.splits if_splits)
  show "ev_count (EvClaimed i) (snd (job_exec q t)) = 0"
    using job_claim_updates [OF k] j by (cases q) (auto simp: job_updates_def job_eligible_def)
qed

lemma synced_never_claimed:
  "keyed jb_id t \<Longrightarrow> list_all stmt_fresh qs \<Longrightarrow> done_job i t = 1 \<Longrightarrow>
   ev_count (EvClaimed i) (snd (job_run qs t)) = 0"
proof (induction qs arbitrary: t)
  case (Cons q qs)
  then have q: "stmt_fresh q" "list_all stmt_fresh qs" by simp_all
  from Cons.IH [OF job_exec_keyed [OF Cons.prems(1)] q(2) synced_exec(1) [OF Cons.prems(1) q(1) Cons.prems(3)]]
    synced_exec(2) [OF Cons.prems(1) q(1) Cons.prems(3)]
  show ?case unfolding job_run_Cons by simp
qed simp

text \<open>What the statements never change of a job.\<close>

definition job_same :: "transfer_job \<Rightarrow> transfer_job \<Rightarrow> bool" where
  "job_same j j' \<longleftrightarrow> jb_id j' = jb_id j \<and> jb_repo j' = jb_repo j \<and> jb_stagingPath j' = jb_stagingPath j \<and>
     jb_checksum j' = jb_checksum j \<and> jb_maxRetries j' = jb_maxRetries j"

lemma job_updates_same:
  assumes "job_updates k p f t r" and "job_get i t = Some j" and "\<And>j. job_same j (f j)"
  shows "\<exists>j'. job_get i (snd r) = Some j' \<and> job_same j j'"
proof -
  have "job_get i (snd r) = Some (if i = k \<and> p j then f j else j)"
    using assms(1,2) by (auto simp: job_updates_def)
  moreover have "job_same j (if i = k \<and> p j then f j else j)"
    using assms(3) by (simp add: job_same_def)
  ultimately show ?thesis by blast
qed

lemma job_exec_same:
  assumes k: "keyed jb_id t" and j: "job_get i t = Some j"
  shows "\<exists>j'. job_get i (fst (job_exec q t)) = Some j' \<and> job_same j j'"
proof (cases q)
  case (QCreate x)
  with j show ?thesis by (auto simp: job_create_apply job_get_append job_same_def)
next
  case (QClaim now k')
  then show ?thesis
    using job_updates_same [OF job_claim_updates [OF k] j] by (simp add: job_same_def)
next
  case (QSynced k' d)
  then show ?thesis
    using job_updates_same [OF markSynced_updates [OF k] j] by (simp add: job_same_def)
next
  case (QFailed k' e n d)
  then show ?thesis
    using job_updates_same [OF markFailed_updates [OF k] j] by (simp add: job_same_def fail_job_def)
next
  case (QRequeue k' d)
  then show ?thesis
    using job_updates_same [OF requeue_updates [OF k] j] by (simp add: job_same_def)
qed

lemma job_run_same:
  "keyed jb_id t \<Longrightarrow> job_get i t = Some j \<Longrightarrow> \<exists>j'. job_get i (fst (job_run qs t)) = Some j' \<and> job_same j j'"
proof (induction qs arbitrary: t j)
  case Nil
  then show ?case by (simp add: job_same_def)
next
  case (Cons q qs)
  from job_exec_same [OF Cons.prems, of q] obtain j1
    where j1: "job_get i (fst (job_exec q t)) = Some j1" "job_same j j1" by blast
  from Cons.IH [OF job_exec_keyed [OF Cons.prems(1)] j1(1)] j1(2) show ?case
    unfolding job_run_Cons by (auto simp: job_same_def)
qed

section \<open>Retries\<close>

definition job_ok :: "transfer_job \<Rightarrow> bool" where
  "job_ok j \<longleftrightarrow> 0 \<le> jb_retryCount j \<and> 1 \<le> jb_maxRetries j \<and>
     (if jb_status j = JDeadLetter then jb_retryCount j = jb_maxRetries j else jb_retryCount j < jb_maxRetries j)"

definition jobs_ok :: "transfer_job list \<Rightarrow> bool" where
  "jobs_ok t \<longleftrightarrow> keyed jb_id t \<and> (\<forall>i j. job_get i t = Some j \<longrightarrow> job_ok j)"

lemma job_updates_ok:
  assumes "job_updates i p f t r" and "jobs_ok t" and "\<And>j. job_ok j \<Longrightarrow> p j \<Longrightarrow> job_ok (f j)"
  shows "jobs_ok (snd r)"
  using assms by (auto simp: job_updates_def jobs_ok_def)

lemma jobs_ok_keyed: "jobs_ok t \<Longrightarrow> keyed jb_id t"
  by (simp add: jobs_ok_def)

lemma jobs_ok_claim: "jobs_ok t \<Longrightarrow> jobs_ok (snd (job_claim now i t))"
  by (rule job_updates_ok [OF job_claim_updates [OF jobs_ok_keyed]])
     (auto simp: job_ok_def job_eligible_def)

lemma jobs_ok_synced: "jobs_ok t \<Longrightarrow> jobs_ok (snd (markSynced i d t))"
  by (rule job_updates_ok [OF markSynced_updates [OF jobs_ok_keyed]]) (auto simp: job_ok_def)

lemma jobs_ok_failed: "jobs_ok t \<Longrightarrow> jobs_ok (snd (markFailed i e n d t))"
  by (rule job_updates_ok [OF markFailed_updates [OF jobs_ok_keyed]]) (auto simp: job_ok_def)

lemma jobs_ok_requeue: "jobs_ok t \<Longrightarrow> jobs_ok (snd (requeueDeadLetter i d t))"
  by (rule job_updates_ok [OF requeue_updates [OF jobs_ok_keyed]]) (auto simp: job_ok_def)

lemma jobs_ok_create:
  assumes "jobs_ok t" and "job_fresh x"
  shows "jobs_ok (snd (job_create x t))"
proof -
  have "keyed jb_id (snd (job_create x t))"
    using job_exec_keyed [OF jobs_ok_keyed [OF assms(1)], of "QCreate x"] by simp
  then show ?thesis
    using assms by (auto simp: jobs_ok_def job_create_apply job_get_append job_fresh_def job_ok_def
        split: option.splits if_splits)
qed

lemma jobs_ok_exec: "jobs_ok t \<Longrightarrow> stmt_fresh q \<Longrightarrow> jobs_ok (fst (job_exec q t))"
  by (cases q) (simp_all add: jobs_ok_claim jobs_ok_synced jobs_ok_failed jobs_ok_requeue jobs_ok_create)

lemma jobs_ok_run: "jobs_ok t \<Longrightarrow> list_all stmt_fresh qs \<Longrightarrow> jobs_ok (fst (job_run qs t))"
proof (induction qs arbitrary: t)
  case (Cons q qs)
  then show ?case unfolding job_run_Cons by (simp add: jobs_ok_exec)
qed simp

section \<open>One round of the worker\<close>

text \<open>Without other workers in between, the first candidate is the job that is claimed.\<close>

lemma claim_candidates_hd:
  assumes k: "keyed jb_id t"
  shows "(claim_candidates now t = [] \<and> (\<forall>i j. job_get i t = Some j \<longrightarrow> \<not> job_eligible now j)) \<or>
    (\<exists>i is j. claim_candidates now t = i # is \<and> job_get i t = Some j \<and> job_eligible now j)"
proof (cases "sort_key jb_createdAt (filter (job_eligible now) t)")
  case Nil
  then have "filter (job_eligible now) t = []" by (metis length_0_conv length_sort)
  then have "\<forall>j \<in> set t. \<not> job_eligible now j" by (simp add: filter_empty_conv)
  with Nil show ?thesis by (auto simp: claim_candidates_def job_get_def dest!: sql_get_Some_key)
next
  case (Cons j js)
  then have "j \<in> set (sort_key jb_createdAt (filter (job_eligible now) t))" by simp
  then have "j \<in> set t" "job_eligible now j" by simp_all
  with Cons sql_get_mem [OF k] show ?thesis by (auto simp: claim_candidates_def job_get_def)
qed

lemma claim_result:
  assumes k: "keyed jb_id t"
  shows "(claimNextEligible now t = (None, t) \<and> (\<forall>i j. job_get i t = Some j \<longrightarrow> \<not> job_eligible now j)) \<or>
    (\<exists>i j. job_get i t = Some j \<and> job_eligible now j \<and>
       claimNextEligible now t =
         (Some (j\<lparr>jb_status := JSyncing, jb_updatedAt := now\<rparr>), snd (job_claim now i t)))"
  using claim_candidates_hd [OF k, of now]
proof
  assume "claim_candidates now t = [] \<and> (\<forall>i j. job_get i t = Some j \<longrightarrow> \<not> job_eligible now j)"
  then show ?thesis by (simp add: claimNextEligible_def numeral_eq_Suc)
next
  assume "\<exists>i is j. claim_candidates now t = i # is \<and> job_get i t = Some j \<and> job_eligible now j"
  then obtain i "is" j where c: "claim_candidates now t = i # is" "job_get i t = Some j" "job_eligible now j" by blast
  from job_claim_updates [OF k, of i now] c
  have "fst (job_claim now i t)"
    and "job_get i (snd (job_claim now i t)) = Some (j\<lparr>jb_status := JSyncing, jb_updatedAt := now\<rparr>)"
    by (auto simp: job_updates_def)
  with c show ?thesis
    by (intro disjI2 exI [of _ i] exI [of _ j])
       (simp add: claimNextEligible_def numeral_eq_Suc split_def)
qed

text \<open>How many more rounds a job can take: its remaining retries while it waits for one.\<close>

definition pot :: "transfer_job \<Rightarrow> nat" where
  "pot j = (if jb_status j \<in> {JStaged, JSyncFailed} then nat (jb_maxRetries j - jb_retryCount j) else 0)"

definition potential :: "transfer_job list \<Rightarrow> nat" where
  "potential t = sum_list (map pot t)"

lemma potential_update:
  assumes "keyed jb_id t" and "job_get i t = Some j" and "p j"
  shows "potential (fst (sql_update (\<lambda>x. jb_id x = i \<and> p x) f t)) + pot j = potential t + pot (f j)"
  using assms
proof (induction t)
  case Nil
  then show ?case by (simp add: job_get_def)
next
  case (Cons x t)
  show ?case
  proof (cases "jb_id x = i")
    case True
    with Cons.prems have "x = j" and u: "\<forall>y \<in> set t. jb_id y \<noteq> i"
      by (simp add: job_get_def, metis (no_types, lifting) True Cons.prems(1) distinct.simps(2) image_eqI keyed_def list.set_map list.simps(9))
    moreover from u have "map (\<lambda>x. if jb_id x = i \<and> p x then f x else x) t = t" by (simp add: map_idI)
    ultimately show ?thesis using True Cons.prems(3) by (simp add: potential_def sql_update_def)
  next
    case False
    with Cons show ?thesis by (simp add: potential_def sql_update_def job_get_def keyed_def)
  qed
qed

text \<open>The job that a round has claimed, and the table in which it is \<open>syncing\<close>.\<close>

lemma claim_potential:
  assumes "keyed jb_id t" and "job_get i t = Some j" and "job_eligible now j"
  shows "potential (snd (job_claim now i t)) + pot j = potential t"
  using potential_update [of t i j "job_eligible now" "\<lambda>j. j\<lparr>jb_status := JSyncing, jb_updatedAt := now\<rparr>", OF assms]
  by (simp add: job_claim_def split_def Let_def pot_def)

lemma processNext_cases:
  assumes ok: "jobs_ok t"
  shows "(\<exists>t'. processNext S tm (t, w) = (False, (t', w)) \<and> t' = t \<and>
            (\<forall>i j. job_get i t = Some j \<longrightarrow> \<not> job_eligible (tm 0) j)) \<or>
    (\<exists>i j t1 r w1. job_get i t = Some j \<and> job_eligible (tm 0) j \<and> t1 = snd (job_claim (tm 0) i t) \<and>
       sy_copyToNas S (jb_stagingPath j) (jb_repo j) w = (r, w1) \<and>
       (if r = Inr (jb_checksum j)
        then processNext S tm (t, w) = (True, (snd (markSynced i (tm 2) t1), w1))
        else \<exists>e n. processNext S tm (t, w) = (True, (snd (markFailed i e n (tm 2) t1), w1))))"
proof -
  have k: "keyed jb_id t" using ok by (rule jobs_ok_keyed)
  from claim_result [OF k, of "tm 0"] show ?thesis
  proof
    assume "claimNextEligible (tm 0) t = (None, t) \<and> (\<forall>i j. job_get i t = Some j \<longrightarrow> \<not> job_eligible (tm 0) j)"
    then show ?thesis by (simp add: processNext_def)
  next
    assume "\<exists>i j. job_get i t = Some j \<and> job_eligible (tm 0) j \<and>
       claimNextEligible (tm 0) t = (Some (j\<lparr>jb_status := JSyncing, jb_updatedAt := tm 0\<rparr>), snd (job_claim (tm 0) i t))"
    then obtain i j where c: "job_get i t = Some j" "job_eligible (tm 0) j"
      "claimNextEligible (tm 0) t = (Some (j\<lparr>jb_status := JSyncing, jb_updatedAt := tm 0\<rparr>), snd (job_claim (tm 0) i t))"
      by blast
    have id: "jb_id j = i" using c(1) by (auto simp: job_get_def dest: sql_get_Some_key)
    obtain r w1 where r: "sy_copyToNas S (jb_stagingPath j) (jb_repo j) w = (r, w1)" by fastforce
    show ?thesis
      using c r id
      by (intro disjI2 exI [of _ i] exI [of _ j] exI [of _ "snd (job_claim (tm 0) i t)"] exI [of _ r] exI [of _ w1])
         (cases r; auto simp: processNext_def Let_def)
  qed
qed

lemma markSynced_potential:
  assumes "keyed jb_id t"
  shows "potential (snd (markSynced i d t)) = potential t"
proof (cases "\<exists>j. job_get i t = Some j \<and> jb_status j = JSyncing")
  case True
  then obtain j where j: "job_get i t = Some j" "jb_status j = JSyncing" by blast
  with potential_update [of t i j "\<lambda>j. jb_status j = JSyncing" "\<lambda>j. j\<lparr>jb_status := JSynced, jb_updatedAt := d\<rparr>"] assms
  show ?thesis by (simp add: markSynced_def split_def Let_def pot_def)
next
  case False
  with markSynced_updates [OF assms, of i d] have "\<not> fst (markSynced i d t)" by (auto simp: job_updates_def)
  moreover have "filter (\<lambda>j. jb_id j = i \<and> jb_status j = JSyncing) t = []"
    using False sql_get_mem [OF assms] by (auto simp: filter_empty_conv job_get_def)
  ultimately show ?thesis
    using sql_update_none [of "\<lambda>j. jb_id j = i \<and> jb_status j = JSyncing" _ t]
    by (simp add: markSynced_def split_def Let_def sql_update_def)
qed

lemma processNext_progress:
  assumes ok: "jobs_ok t" and p: "processNext S tm (t, w) = (True, (t', w'))"
  shows "jobs_ok t'" and "potential t' < potential t"
proof -
  have k: "keyed jb_id t" using ok by (rule jobs_ok_keyed)
  from processNext_cases [OF ok, of S tm w] p
  obtain i j t1 where j: "job_get i t = Some j" "job_eligible (tm 0) j" "t1 = snd (job_claim (tm 0) i t)"
    and t': "t' = snd (markSynced i (tm 2) t1) \<or> (\<exists>e n. t' = snd (markFailed i e n (tm 2) t1))"
    by (fastforce split: if_splits)
  have ok1: "jobs_ok t1" using ok j(3) by (simp add: jobs_ok_claim)
  then have k1: "keyed jb_id t1" by (rule jobs_ok_keyed)
  show "jobs_ok t'" using t' ok1 by (auto simp: jobs_ok_synced jobs_ok_failed)
  have jok: "job_ok j" using ok j(1) by (auto simp: jobs_ok_def)
  then have pj: "0 < pot j" using j(2) by (auto simp: pot_def job_ok_def job_eligible_def)
  have pt1: "potential t1 + pot j = potential t" using claim_potential [OF k j(1,2)] j(3) by simp
  let ?j1 = "j\<lparr>jb_status := JSyncing, jb_updatedAt := tm 0\<rparr>"
  have j1: "job_get i t1 = Some ?j1" using job_claim_updates [OF k, of i "tm 0"] j by (auto simp: job_updates_def)
  from t' show "potential t' < potential t"
  proof
    assume "t' = snd (markSynced i (tm 2) t1)"
    then show ?thesis using markSynced_potential [OF k1] pt1 pj by simp
  next
    assume "\<exists>e n. t' = snd (markFailed i e n (tm 2) t1)"
    then obtain e n where t'': "t' = snd (markFailed i e n (tm 2) t1)" by blast
    from potential_update [OF k1 j1, of "\<lambda>j. jb_status j = JSyncing" "fail_job e n (tm 2)"]
    have "potential t' = potential t1 + pot (fail_job e n (tm 2) ?j1)"
      by (simp add: t'' markFailed_def split_def Let_def pot_def)
    moreover have "pot (fail_job e n (tm 2) ?j1) < pot j"
      using jok j(2) by (auto simp: pot_def job_ok_def job_eligible_def)
    ultimately show ?thesis using pt1 by simp
  qed
qed

text \<open>With more rounds than remaining retries the loop ends, and then nothing is eligible.\<close>

lemma drain_returns:
  assumes "jobs_ok t" and "potential t < fuel"
  shows "\<exists>t' w' n. drain fuel S clk (t, w) = Some (t', w') \<and> jobs_ok t' \<and>
    (\<forall>i j. job_get i t' = Some j \<longrightarrow> \<not> job_eligible (clk n 0) j)"
  using assms
proof (induction fuel arbitrary: t w clk)
  case (Suc fuel)
  obtain b t1 w1 where p: "processNext S (clk 0) (t, w) = (b, (t1, w1))"
    by (metis prod.collapse)
  show ?case
  proof (cases b)
    case False
    with p processNext_cases [OF Suc.prems(1), of S "clk 0" w] Suc.prems(1) show ?thesis
      by (intro exI [of _ t1] exI [of _ w1] exI [of _ 0]) (auto split: if_splits)
  next
    case True
    with p have p': "processNext S (clk 0) (t, w) = (True, (t1, w1))" by simp
    from processNext_progress [OF Suc.prems(1) p'] Suc.prems(2)
    have "jobs_ok t1" "potential t1 < fuel" by auto
    from Suc.IH [OF this, of "\<lambda>i. clk (Suc i)" w1] p' show ?thesis by auto
  qed
qed simp

lemma copyToNas_cases:
  assumes ne: "nasTmpPath N repo tmp \<noteq> nasFinalPath N repo" and src: "nasTmpPath N repo tmp \<noteq> src"
    and r: "copyToNas N tmp src repo f = (r, f')"
  shows "(\<exists>bytes. r = Inr (na_sha256 N (na_xfer N bytes)) \<and> f src = Some bytes \<and>
            f' = (f(nasFinalPath N repo \<mapsto> na_xfer N bytes))(nasTmpPath N repo tmp := None)) \<or>
         (\<exists>e. r = Inl e \<and> (f' = f \<or> f' = f(nasTmpPath N repo tmp := None)))"
  using assms
  by (auto simp: copyToNas_def and_then_def try_catch_def fs_step_ok_def fs_copy_def fs_hash_def fs_rename_def
      Let_def fun_upd_twist [of "nasFinalPath N repo"] split: option.splits)

section \<open>Properties\<close>

text \<open>
  C5. No job is processed twice. Over every sequence of statements on the job table (so however many
  workers interleave, with jobs created as the push session creates them), a job is claimed at most
  once more often than it has been reported failed, it is marked synced at most once, and once
  synced it is never claimed again.
\<close>

theorem job_claims_exclusive:
  assumes "list_all stmt_fresh qs" and "list_all stmt_fresh qs'"
  shows "ev_count (EvClaimed i) (snd (job_run qs [])) \<le> ev_count (EvFailed i) (snd (job_run qs [])) + 1
    \<and> ev_count (EvSynced i) (snd (job_run qs [])) \<le> 1
    \<and> (0 < ev_count (EvSynced i) (snd (job_run qs [])) \<longrightarrow>
         ev_count (EvClaimed i) (snd (job_run qs' (fst (job_run qs [])))) = 0)"
proof -
  have k: "keyed jb_id ([] :: transfer_job list)" by simp
  note run = job_run_counts [OF k assms(1), of i]
  have k': "keyed jb_id (fst (job_run qs []))" by (rule job_run_keyed) simp
  have le: "taken i t \<le> 1" "done_job i t \<le> 1" "done_job i t = 1 \<Longrightarrow> taken i t = 1" for t
    by (auto simp: taken_def done_job_def split: option.splits)
  have "ev_count (EvClaimed i) (snd (job_run qs' (fst (job_run qs [])))) = 0"
    if "0 < ev_count (EvSynced i) (snd (job_run qs []))"
  proof -
    from that run(2) le(2) [of "fst (job_run qs [])"] have d: "done_job i (fst (job_run qs [])) = 1" by simp
    then show ?thesis using synced_never_claimed [OF k' assms(2)] by blast
  qed
  moreover have "taken i [] = 0" "done_job i [] = 0" by (simp_all add: taken_def done_job_def job_get_def)
  ultimately show ?thesis using run le [of "fst (job_run qs [])"] by auto
qed

definition sample_job :: transfer_job where
  "sample_job = \<lparr>jb_id = ''j1'', jb_repo = ''r'', jb_stagingPath = ''/ssd/r/x'', jb_checksum = ''c'',
     jb_status = JStaged, jb_retryCount = 0, jb_maxRetries = 2, jb_nextRetryAt = 0, jb_createdAt = 0,
     jb_updatedAt = 0, jb_lastError = None\<rparr>"

theorem job_claims_exclusive_witness:
  "let qs = [QCreate sample_job, QClaim 1 ''j1'', QClaim 1 ''j1'', QSynced ''j1'' 2]
   in ev_count (EvClaimed ''j1'') (snd (job_run qs [])) \<le> ev_count (EvFailed ''j1'') (snd (job_run qs [])) + 1"
  unfolding Let_def
  using job_claims_exclusive [of "[QCreate sample_job, QClaim 1 ''j1'', QClaim 1 ''j1'', QSynced ''j1'' 2]" "[]" "''j1''"]
  by (simp add: job_fresh_def sample_job_def del: job_run.simps)

text \<open>
  C6. Retries are counted and bounded, and nothing is dropped. Over every sequence of statements each job
  keeps its id, repository, staged file and checksum; its retry count stays between 0 and
  \<open>maxRetries\<close>, and it reaches \<open>maxRetries\<close> exactly when the job is in the dead letter, from where only
  the operator's requeue takes it back.
\<close>

theorem job_retries_bounded:
  assumes "list_all stmt_fresh qs" and "job_get i (fst (job_run qs [])) = Some j"
  shows "0 \<le> jb_retryCount j \<and> jb_retryCount j \<le> jb_maxRetries j
    \<and> (jb_retryCount j = jb_maxRetries j \<longleftrightarrow> jb_status j = JDeadLetter)
    \<and> (\<forall>qs'. list_all stmt_fresh qs' \<longrightarrow>
         (\<exists>j'. job_get i (fst (job_run qs' (fst (job_run qs [])))) = Some j' \<and> job_same j j'))"
proof -
  have "jobs_ok (fst (job_run qs []))"
    using jobs_ok_run [OF _ assms(1), of "[]"] by (simp add: jobs_ok_def job_get_def)
  then have ok: "jobs_ok (fst (job_run qs []))" "job_ok j" using assms(2) by (auto simp: jobs_ok_def)
  from job_run_same [OF jobs_ok_keyed [OF ok(1)] assms(2)] ok(2) show ?thesis
    by (auto simp: job_ok_def split: if_splits)
qed

theorem job_retries_bounded_witness:
  "let qs = [QCreate sample_job, QClaim 1 ''j1'', QFailed ''j1'' ''e'' 5 2, QClaim 6 ''j1'', QFailed ''j1'' ''e'' 9 7]
   in \<exists>j. job_get ''j1'' (fst (job_run qs [])) = Some j \<and> jb_retryCount j = 2 \<and> jb_status j = JDeadLetter"
proof -
  let ?qs = "[QCreate sample_job, QClaim 1 ''j1'', QFailed ''j1'' ''e'' 5 2, QClaim 6 ''j1'', QFailed ''j1'' ''e'' 9 7]"
  let ?j = "fail_job ''e'' 9 7 ((fail_job ''e'' 5 2 (sample_job\<lparr>jb_status := JSyncing, jb_updatedAt := 1\<rparr>))\<lparr>jb_status := JSyncing, jb_updatedAt := 6\<rparr>)"
  have g: "job_get ''j1'' (fst (job_run ?qs [])) = Some ?j"
    by (simp add: job_create_apply job_get_def job_claim_def sql_update_def job_eligible_def markFailed_def
        sample_job_def fail_job_def Let_def)
  have f: "list_all stmt_fresh ?qs" by (simp add: job_fresh_def sample_job_def)
  have "jb_retryCount ?j = 2" "jb_maxRetries ?j = 2" by (simp_all add: sample_job_def)
  with g job_retries_bounded [OF f g] show ?thesis unfolding Let_def by metis
qed

text \<open>
  C27. The drain loop always ends, whatever the NAS does and however the clock runs: with more rounds than the
  jobs that wait for one have retries left, it returns; then no job was eligible at its last look
  at the table, and the table is still consistent.
\<close>

theorem drain_terminates:
  assumes "jobs_ok t" and "potential t < fuel"
  shows "\<exists>t' w' n. drain fuel S clk (t, w) = Some (t', w') \<and> jobs_ok t' \<and>
    (\<forall>i j. job_get i t' = Some j \<longrightarrow> \<not> job_eligible (clk n 0) j)"
  using assms by (rule drain_returns)

definition sample_sync :: "fs sync_env" where
  "sample_sync = \<lparr>sy_copyToNas = (\<lambda>src repo. throw (NasError ''down'')), sy_backoffBaseMs = None, sy_backoffMaxMs = None\<rparr>"

lemma sample_job_ok: "jobs_ok [sample_job]" "potential [sample_job] = 2"
  by (auto simp: jobs_ok_def keyed_def job_get_def job_ok_def sample_job_def potential_def pot_def split: if_splits)

theorem drain_terminates_witness:
  "\<exists>t' w'. drain 3 sample_sync (\<lambda>i k. 0) ([sample_job], Map.empty) = Some (t', w') \<and>
     (\<forall>i j. job_get i t' = Some j \<longrightarrow> \<not> job_eligible 0 j)"
proof -
  have "potential [sample_job] < 3" by (simp add: sample_job_ok)
  from drain_terminates [OF sample_job_ok(1) this, of sample_sync "\<lambda>i k. 0" Map.empty] show ?thesis by blast
qed

text \<open>
  C32. A job is reported synced only when its bytes are on the NAS. If a round of the worker turns a job into
  \<open>synced\<close>, then the file at the job's final NAS path has the digest that was computed while the
  upload was staged, no temporary file remains, and no other file has changed.
\<close>

theorem synced_means_stored:
  assumes "jobs_ok t" and "processNext (nasSyncEnv N tmp b m) tm (t, f) = (True, (t', f'))"
    and "job_get i t' = Some j" and "jb_status j = JSynced"
    and "\<forall>j0. job_get i t = Some j0 \<longrightarrow> jb_status j0 \<noteq> JSynced"
    and "\<forall>repo src. nasTmpPath N repo tmp \<noteq> nasFinalPath N repo \<and> (f src \<noteq> None \<longrightarrow> nasTmpPath N repo tmp \<noteq> src)"
  shows "\<exists>bytes. f' (nasFinalPath N (jb_repo j)) = Some bytes \<and> na_sha256 N bytes = jb_checksum j
    \<and> f' (nasTmpPath N (jb_repo j) tmp) = None
    \<and> (\<forall>p. p \<noteq> nasFinalPath N (jb_repo j) \<longrightarrow> f' p = f p)"
proof -
  have k: "keyed jb_id t" using assms(1) by (rule jobs_ok_keyed)
  from processNext_cases [OF assms(1), of "nasSyncEnv N tmp b m" tm f] assms(2)
  obtain i0 j0 t1 r where c: "job_get i0 t = Some j0" "t1 = snd (job_claim (tm 0) i0 t)"
    "copyToNas N tmp (jb_stagingPath j0) (jb_repo j0) f = (r, f')"
    "if r = Inr (jb_checksum j0) then t' = snd (markSynced i0 (tm 2) t1)
     else \<exists>e n. t' = snd (markFailed i0 e n (tm 2) t1)"
    by (fastforce simp: nasSyncEnv_def split: if_splits)
  have k1: "keyed jb_id t1" using jobs_ok_keyed [OF jobs_ok_claim [OF assms(1)]] c(2) by simp
  have g1: "job_get k t1 = Some x \<Longrightarrow> \<exists>y. job_get k t = Some y \<and> job_same y x \<and> (jb_status x = JSynced \<longrightarrow> jb_status y = JSynced)" for k x
    using job_claim_updates [OF k, of i0 "tm 0"] c(2)
    by (auto simp: job_updates_def job_same_def split: if_splits)
  have ok: "r = Inr (jb_checksum j0) \<and> i = i0 \<and> job_same j0 j"
  proof (cases "r = Inr (jb_checksum j0)")
    case True
    then have t': "t' = snd (markSynced i0 (tm 2) t1)" using c(4) by simp
    from markSynced_updates [OF k1, of i0 "tm 2"] t' assms(3) obtain x where x: "job_get i t1 = Some x" "job_same x j"
      "i \<noteq> i0 \<longrightarrow> j = x"
      by (auto simp: job_updates_def job_same_def split: if_splits)
    from g1 [OF x(1)] obtain y where y: "job_get i t = Some y" "job_same y x" "jb_status x = JSynced \<longrightarrow> jb_status y = JSynced"
      by blast
    have "i = i0" using x(3) y assms(4,5) by auto
    with y x(2) c(1) True show ?thesis by (auto simp: job_same_def)
  next
    case False
    then obtain e n where t': "t' = snd (markFailed i0 e n (tm 2) t1)" using c(4) by auto
    from markFailed_updates [OF k1, of i0 e n "tm 2"] t' assms(3,4) obtain x where
      x: "job_get i t1 = Some x" "jb_status x = JSynced"
      by (auto simp: job_updates_def split: if_splits)
    with g1 [OF x(1)] assms(5) show ?thesis by blast
  qed
  then have repo: "jb_repo j = jb_repo j0" "jb_checksum j = jb_checksum j0" by (simp_all add: job_same_def)
  show ?thesis
  proof (cases "nasTmpPath N (jb_repo j0) tmp = jb_stagingPath j0")
    case True
    then have "f (jb_stagingPath j0) = None" using assms(6) by metis
    with c(3) ok True show ?thesis
      by (auto simp: copyToNas_def and_then_def try_catch_def fs_step_ok_def fs_copy_def Let_def split: option.splits)
  next
    case False
    have tf: "f (nasTmpPath N (jb_repo j0) tmp) = None" using assms(6) by blast
    from copyToNas_cases [OF _ False c(3)] assms(6) ok obtain bytes where
      "na_sha256 N (na_xfer N bytes) = jb_checksum j0"
      "f' = (f(nasFinalPath N (jb_repo j0) \<mapsto> na_xfer N bytes))(nasTmpPath N (jb_repo j0) tmp := None)"
      by auto
    moreover have "nasFinalPath N (jb_repo j0) \<noteq> nasTmpPath N (jb_repo j0) tmp" using assms(6) by metis
    ultimately show ?thesis using repo tf by auto
  qed
qed

definition sample_nas :: "(string \<Rightarrow> string) \<Rightarrow> nas_env" where
  "sample_nas xfer = \<lparr>na_join = js_join ''/'', na_root = ''/nas'', na_sha256 = (\<lambda>b. b), na_xfer = xfer, na_io = (\<lambda>_. None)\<rparr>"

lemma sample_nas_paths:
  "nasFinalPath (sample_nas xfer) ''r'' = ''/nas/r/repo.dolt''" "nasTmpPath (sample_nas xfer) ''r'' ''u'' = ''/nas/r/.tmp-u''"
  by (simp_all add: nasFinalPath_def nasTmpPath_def sample_nas_def)

lemma sample_copy:
  "copyToNas (sample_nas xfer) ''u'' ''/ssd/r/x'' ''r'' (f(''/ssd/r/x'' \<mapsto> b)) =
     (Inr (xfer b), (f(''/ssd/r/x'' \<mapsto> b, ''/nas/r/repo.dolt'' \<mapsto> xfer b))(''/nas/r/.tmp-u'' := None))"
proof -
  have sel: "na_io (sample_nas xfer) s = None" "na_sha256 (sample_nas xfer) x = x" "na_xfer (sample_nas xfer) x = xfer x" for s x
    by (simp_all add: sample_nas_def)
  show ?thesis
    by (simp add: copyToNas_def and_then_def try_catch_def fs_step_ok_def fs_copy_def fs_hash_def fs_rename_def
        sample_nas_paths sel Let_def)
qed

lemma sample_claim:
  "claimNextEligible 0 [sample_job] =
     (Some (sample_job\<lparr>jb_status := JSyncing, jb_updatedAt := 0\<rparr>), [sample_job\<lparr>jb_status := JSyncing, jb_updatedAt := 0\<rparr>])"
  by (simp add: claimNextEligible_def numeral_eq_Suc claim_candidates_def job_eligible_def job_claim_def
      sql_update_def job_get_def sample_job_def)

text \<open>The property at work: a good copy of one staged job.\<close>

theorem synced_means_stored_witness:
  "let f = [''/ssd/r/x'' \<mapsto> ''c''];
       (b, (t', f')) = processNext (nasSyncEnv (sample_nas (\<lambda>x. x)) ''u'' 1000 60000) (\<lambda>_. 0) ([sample_job], f)
   in b \<and> (\<exists>bytes. f' (nasFinalPath (sample_nas (\<lambda>x. x)) ''r'') = Some bytes \<and> bytes = ''c'')"
proof -
  let ?N = "sample_nas (\<lambda>x. x)"
  let ?f = "[''/ssd/r/x'' \<mapsto> ''c''] :: fs"
  let ?j = "sample_job\<lparr>jb_status := JSynced, jb_updatedAt := 0\<rparr>"
  let ?f' = "?f(''/nas/r/repo.dolt'' \<mapsto> ''c'')"
  have p: "processNext (nasSyncEnv ?N ''u'' 1000 60000) (\<lambda>_. 0) ([sample_job], ?f) = (True, ([?j], ?f'))"
    using sample_copy [of "\<lambda>x. x" Map.empty "''c''"]
    by (simp add: processNext_def sample_claim nasSyncEnv_def)
       (simp add: sample_job_def markSynced_def sql_update_def)
  note ok = sample_job_ok(1)
  have paths: "nasTmpPath ?N repo ''u'' \<noteq> nasFinalPath ?N repo \<and> (?f src \<noteq> None \<longrightarrow> nasTmpPath ?N repo ''u'' \<noteq> src)" for repo src
    by (auto simp: nasTmpPath_def nasFinalPath_def sample_nas_def)
  have "\<exists>bytes. ?f' (nasFinalPath ?N (jb_repo ?j)) = Some bytes \<and> na_sha256 ?N bytes = jb_checksum ?j
    \<and> ?f' (nasTmpPath ?N (jb_repo ?j) ''u'') = None \<and> (\<forall>p. p \<noteq> nasFinalPath ?N (jb_repo ?j) \<longrightarrow> ?f' p = ?f p)"
    by (rule synced_means_stored [OF ok p, of "''j1''"])
       (use paths in \<open>auto simp: job_get_def sample_job_def\<close>)
  moreover have "jb_repo ?j = ''r''" "jb_checksum ?j = ''c''" "na_sha256 ?N x = x" for x
    by (simp_all add: sample_job_def sample_nas_def)
  ultimately have "\<exists>bytes. ?f' (nasFinalPath ?N ''r'') = Some bytes \<and> bytes = ''c''" by metis
  then show ?thesis unfolding Let_def p prod.case by blast
qed

text \<open>
  The adapter publishes before the caller compares: when the copy is corrupted on its way, the round reports
  the checksum mismatch and the job is not synced, but the corrupted bytes are at the final path by
  then and have replaced the previous good copy that pulls are served from.
\<close>

theorem mismatch_is_published:
  "let bad = (\<lambda>_. ''XX'');
       f = [''/ssd/r/x'' \<mapsto> ''c'', ''/nas/r/repo.dolt'' \<mapsto> ''old''];
       (b, (t', f')) = processNext (nasSyncEnv (sample_nas bad) ''u'' 1000 60000) (\<lambda>_. 0) ([sample_job], f)
   in b \<and> (\<exists>j. job_get ''j1'' t' = Some j \<and> jb_status j = JSyncFailed \<and>
              jb_lastError j = Some ''Checksum mismatch between staged file and NAS copy'') \<and>
      f' ''/nas/r/repo.dolt'' = Some ''XX''"
  using sample_copy [of "\<lambda>_. ''XX''" "[''/nas/r/repo.dolt'' \<mapsto> ''old'']" "''c''"]
  by (simp add: processNext_def sample_claim nasSyncEnv_def fun_upd_twist)
     (simp add: sample_job_def markFailed_def sql_update_def job_get_def fail_job_def)

end
