(* ===== verification/PushSession.thy ===== *)
theory PushSession
  imports Jobs Tickets
begin

text \<open>
  Transfer sessions (\<open>contexts/storage\<close>): \<open>PushSessionHandler\<close> (\<open>push-session-handler.ts\<close>), the gRPC
  push protocol around it and the pull and heartbeat calls (\<open>grpc-transfer-server.ts\<close>), and
  \<open>PullSessionHandler\<close> (\<open>pull-session-handler.ts\<close>).

  The server chains the messages of a call one after the other, so a call is a sequence of steps
  on the session, the ticket and job tables and the staging file system. A step that throws rejects the
  chain: the steps behind it are skipped.
\<close>

section \<open>World and session\<close>

text \<open>\<open>'x\<close> is the state of the hooks \<open>onBeforePush\<close> and \<open>onPushCommitted\<close>.\<close>

record 'x push_world =
  pw_tickets :: "ticket list"
  pw_jobs :: "transfer_job list"
  pw_fs :: fs
  pw_ext :: 'x

record push_session =
  ps_received :: string
  ps_bytesReceived :: nat
  ps_ticketId :: "string option"
  ps_username :: "string option"
  ps_repo :: "string option"
  ps_syncOptions :: "push_ticket_sync_options option"
  ps_stagingFilePath :: "string option"
  ps_fileSink :: bool
  ps_closed :: bool

definition new_session :: push_session where
  "new_session = \<lparr>ps_received = [], ps_bytesReceived = 0, ps_ticketId = None, ps_username = None,
     ps_repo = None, ps_syncOptions = None, ps_stagingFilePath = None, ps_fileSink = False, ps_closed = False\<rparr>"

record push_preparation =
  pp_repo :: string
  pp_username :: string
  pp_stagingPath :: string
  pp_dryRun :: bool
  pp_resolvedTables :: "string list option"

record push_result =
  pr_jobId :: string
  pr_checksum :: string
  pr_bytesReceived :: nat
  pr_dryRun :: bool

text \<open>\<open>PushSessionAbortedError\<close> with its reason, or any other error with its message.\<close>

datatype push_error = PushAborted string | PushOther string

record 'x push_env =
  pe_verifyRole :: "repo_role_verifier option"
  pe_ttl :: int
  pe_stagingRoot :: string
  pe_maxRetries :: int
  pe_join :: "string list \<Rightarrow> string"
  pe_sha256 :: "string \<Rightarrow> string"
  pe_onBeforePush :: "string \<Rightarrow> string \<Rightarrow> string \<Rightarrow> push_ticket_sync_options option \<Rightarrow> ('x, push_error, push_preparation) op"
  pe_onPushCommitted :: "string \<Rightarrow> string \<Rightarrow> string \<Rightarrow> string \<Rightarrow> string list option \<Rightarrow> ('x, push_error, unit) op"
  pe_mkdir_ok :: "string \<Rightarrow> bool"
  pe_rm_ok :: "string \<Rightarrow> bool"

text \<open>
  \<open>pe_mkdir_ok path\<close>: the directory of \<open>path\<close> can be made; \<open>pe_rm_ok path\<close>: \<open>rm(path, { force: true })\<close> does not
  throw. A write to an open staging file is taken to succeed at once.

  A field holds something: undefined and the empty string do not count.\<close>

definition truthy :: "string option \<Rightarrow> bool" where
  "truthy x \<longleftrightarrow> (case x of Some s \<Rightarrow> s \<noteq> [] | None \<Rightarrow> False)"

fun ticket_message :: "ticket_error \<Rightarrow> string" where
  "ticket_message TicketNotFoundError = ''Ticket not found''"
| "ticket_message TicketExpiredError = ''Ticket has expired''"
| "ticket_message TicketOperationMismatchError = ''Ticket does not authorize this operation/repo''"
| "ticket_message TicketAlreadyConsumedError = ''Ticket has already been consumed''"
| "ticket_message TicketRoleRevokedError =
     ''Repo role required for this ticket has been revoked or downgraded since issuance''"
| "ticket_message TicketSqlError = ''SQLITE_ERROR''"

section \<open>PushSessionHandler\<close>

type_synonym ('x, 'a) push_op = "(push_session \<times> 'x push_world, push_error, 'a) op"

definition onHeader ::
  "'x push_env \<Rightarrow> string \<Rightarrow> transfer_operation \<Rightarrow> string \<Rightarrow> string \<Rightarrow> ms \<Rightarrow> ('x, unit) push_op" where
  "onHeader P ticketId operation repo uuid now sw =
     (case sw of (h, w) \<Rightarrow>
      if truthy (ps_ticketId h) then (Inl (PushAborted ''Header already received for this session''), sw)
      else case consumeTicket libsqlTicketStore (pe_verifyRole P) ticketId operation repo now (pw_tickets w) of
             (Inl e, ts) \<Rightarrow>
               (Inl (PushAborted (''ticket rejected: '' @ ticket_message e)), (h, w\<lparr>pw_tickets := ts\<rparr>))
           | (Inr ticket, ts) \<Rightarrow>
               (let path = pe_join P [pe_stagingRoot P, repo, uuid @ ''.staging''];
                    h1 = h\<lparr>ps_username := Some (tk_username ticket), ps_syncOptions := tk_syncOptions ticket,
                           ps_ticketId := Some ticketId, ps_repo := Some repo, ps_stagingFilePath := Some path\<rparr>
                in if \<not> pe_mkdir_ok P path then (Inl (PushOther ''mkdir failed''), (h1, w\<lparr>pw_tickets := ts\<rparr>))
                   else (Inr (), (h1\<lparr>ps_fileSink := True\<rparr>,
                                  w\<lparr>pw_tickets := ts, pw_fs := (pw_fs w)(path \<mapsto> [])\<rparr>))))"

definition onChunk :: "string \<Rightarrow> ('x, unit) push_op" where
  "onChunk data sw =
     (case sw of (h, w) \<Rightarrow>
      if \<not> ps_fileSink h then (Inl (PushAborted ''Received a data chunk before the header''), sw)
      else let path = the (ps_stagingFilePath h);
               content = (case pw_fs w path of Some c \<Rightarrow> c | None \<Rightarrow> [])
           in (Inr (), (h\<lparr>ps_received := ps_received h @ data, ps_bytesReceived := ps_bytesReceived h + length data\<rparr>,
                        w\<lparr>pw_fs := (pw_fs w)(path \<mapsto> content @ data)\<rparr>)))"

definition onHeartbeat :: "'x push_env \<Rightarrow> ms \<Rightarrow> ('x, unit) push_op" where
  "onHeartbeat P now sw =
     (case sw of (h, w) \<Rightarrow>
      if \<not> truthy (ps_ticketId h) then (Inl (PushAborted ''Heartbeat received before the header''), sw)
      else case renewTicket libsqlTicketStore (pe_verifyRole P) (pe_ttl P) (the (ps_ticketId h)) now (pw_tickets w) of
             (Inl e, ts) \<Rightarrow>
               (Inl (PushAborted (''heartbeat renewal rejected: '' @ ticket_message e)), (h, w\<lparr>pw_tickets := ts\<rparr>))
           | (Inr _, ts) \<Rightarrow> (Inr (), (h, w\<lparr>pw_tickets := ts\<rparr>)))"

text \<open>\<open>closeTicket(...).catch(() => {})\<close>.\<close>

definition closeQuietly :: "string \<Rightarrow> 'x push_world \<Rightarrow> 'x push_world" where
  "closeQuietly ticketId w = w\<lparr>pw_tickets := snd (closeTicket libsqlTicketStore ticketId (pw_tickets w))\<rparr>"

definition push_finish :: "'x push_env \<Rightarrow> string \<Rightarrow> ms \<Rightarrow> ('x, push_result) push_op" where
  "push_finish P newJobId now sw =
     (case sw of (h, w) \<Rightarrow>
      if ps_closed h then (Inl (PushAborted ''Session already finished''), sw)
      else if \<not> truthy (ps_ticketId h) \<or> \<not> truthy (ps_repo h) \<or> \<not> truthy (ps_stagingFilePath h) \<or>
              \<not> ps_fileSink h \<or> \<not> truthy (ps_username h)
           then (Inl (PushAborted ''finish() called before a valid header was received''), sw)
      else
        let h1 = h\<lparr>ps_closed := True\<rparr>; ticketId = the (ps_ticketId h);
            checksum = pe_sha256 P (ps_received h)
        in case pe_onBeforePush P (the (ps_repo h)) (the (ps_username h)) (the (ps_stagingFilePath h))
                  (ps_syncOptions h) (pw_ext w) of
             (Inl e, x) \<Rightarrow> (Inl e, (h1, w\<lparr>pw_ext := x\<rparr>))
           | (Inr prep, x) \<Rightarrow>
               (let w1 = w\<lparr>pw_ext := x\<rparr> in
                if pp_dryRun prep
                then (Inr \<lparr>pr_jobId = ''dry-run'', pr_checksum = checksum, pr_bytesReceived = ps_bytesReceived h,
                           pr_dryRun = True\<rparr>, (h1, closeQuietly ticketId w1))
                else case job_create
                            \<lparr>jb_id = newJobId, jb_repo = pp_repo prep, jb_stagingPath = pp_stagingPath prep,
                             jb_checksum = checksum, jb_status = JStaged, jb_retryCount = 0,
                             jb_maxRetries = pe_maxRetries P, jb_nextRetryAt = 0, jb_createdAt = now,
                             jb_updatedAt = now, jb_lastError = None\<rparr> (pw_jobs w1) of
                       (Inl e, js) \<Rightarrow> (Inl (PushOther (storage_message e)), (h1, w1\<lparr>pw_jobs := js\<rparr>))
                     | (Inr _, js) \<Rightarrow>
                         (let w2 = closeQuietly ticketId (w1\<lparr>pw_jobs := js\<rparr>);
                              x2 = snd (pe_onPushCommitted P (pp_repo prep) (pp_username prep) newJobId checksum
                                          (pp_resolvedTables prep) (pw_ext w2))
                          in (Inr \<lparr>pr_jobId = newJobId, pr_checksum = checksum, pr_bytesReceived = ps_bytesReceived h,
                                   pr_dryRun = False\<rparr>, (h1, w2\<lparr>pw_ext := x2\<rparr>)))))"

text \<open>\<open>abort\<close> awaits the removal of the staging file, which may throw; the session is closed all the same.\<close>

definition push_abort :: "'x push_env \<Rightarrow> ('x, unit) push_op" where
  "push_abort P sw =
     (case sw of (h, w) \<Rightarrow>
      if ps_closed h then (Inr (), sw)
      else let h1 = h\<lparr>ps_closed := True\<rparr>
           in case ps_stagingFilePath h of
                None \<Rightarrow> (Inr (), (h1, w))
              | Some p \<Rightarrow>
                  if p = [] then (Inr (), (h1, w))
                  else if pe_rm_ok P p then (Inr (), (h1, w\<lparr>pw_fs := (pw_fs w)(p := None)\<rparr>))
                  else (Inl (PushOther ''rm failed''), (h1, w)))"

section \<open>The push call\<close>

datatype push_message =
    MHeader string transfer_operation string
  | MChunk string
  | MEmpty

datatype grpc_code = FAILED_PRECONDITION | PERMISSION_DENIED | INTERNAL | NOT_FOUND

text \<open>
  What the client is told: an error status or the result. \<open>gp_replies\<close> lists the calls of \<open>callback\<close>;
  \<open>gp_broken\<close>: the promise \<open>queue\<close> has rejected.
\<close>

datatype push_reply = RError grpc_code string | RResult push_result

record grpc_push =
  gp_headerReceived :: bool
  gp_aborted :: bool
  gp_pendingAbort :: "(grpc_code \<times> string) option"
  gp_streamEnded :: bool
  gp_replies :: "push_reply list"
  gp_broken :: bool

definition new_call :: grpc_push where
  "new_call = \<lparr>gp_headerReceived = False, gp_aborted = False, gp_pendingAbort = None, gp_streamEnded = False, gp_replies = [],
     gp_broken = False\<rparr>"

type_synonym 'x call_state = "grpc_push \<times> push_session \<times> 'x push_world"

definition callback :: "push_reply \<Rightarrow> 'x call_state \<Rightarrow> 'x call_state" where
  "callback r c = (case c of (g, sw) \<Rightarrow> (g\<lparr>gp_replies := gp_replies g @ [r]\<rparr>, sw))"

definition markAborted :: "'x push_env \<Rightarrow> grpc_code \<Rightarrow> string \<Rightarrow> ('x call_state, push_error, unit) op" where
  "markAborted P code message c =
     (case c of (g, sw) \<Rightarrow>
      if gp_aborted g then (Inr (), c)
      else let g1 = g\<lparr>gp_aborted := True, gp_pendingAbort := Some (code, message)\<rparr>
           in case push_abort P sw of
                (Inl e, sw1) \<Rightarrow> (Inl e, (g1, sw1))
              | (Inr _, sw1) \<Rightarrow>
                  (Inr (), if gp_streamEnded g then callback (RError code message) (g1, sw1) else (g1, sw1)))"

text \<open>
  \<open>dispatchMessage\<close> with \<open>processHeader\<close> and \<open>processChunk\<close>: \<open>Inl\<close> is the error it throws. \<open>uuid\<close> and \<open>now\<close>
  are what the header step draws and reads.
\<close>

definition dispatchMessage :: "'x push_env \<Rightarrow> string \<Rightarrow> ms \<Rightarrow> push_message \<Rightarrow> ('x call_state, push_error, unit) op" where
  "dispatchMessage P uuid now msg c =
     (case c of (g, sw) \<Rightarrow>
      (case msg of
         MHeader ticketId operation repo \<Rightarrow>
           if gp_headerReceived g then markAborted P FAILED_PRECONDITION ''Header already sent'' c
           else (case onHeader P ticketId operation repo uuid now sw of
                   (r, sw') \<Rightarrow> (r, (g\<lparr>gp_headerReceived := True\<rparr>, sw')))
       | MChunk data \<Rightarrow>
           if \<not> gp_headerReceived g then markAborted P FAILED_PRECONDITION ''Chunk received before header'' c
           else (case onChunk data sw of (r, sw') \<Rightarrow> (r, (g, sw')))
       | MEmpty \<Rightarrow> (Inr (), c)))"

fun push_error_message :: "push_error \<Rightarrow> string" where
  "push_error_message (PushAborted reason) = ''Push session aborted: '' @ reason"
| "push_error_message (PushOther m) = m"

definition processMessage :: "'x push_env \<Rightarrow> string \<Rightarrow> ms \<Rightarrow> push_message \<Rightarrow> ('x call_state, push_error, unit) op" where
  "processMessage P uuid now msg c =
     (if gp_aborted (fst c) then (Inr (), c)
      else case dispatchMessage P uuid now msg c of
             (Inr _, c') \<Rightarrow> (Inr (), c')
           | (Inl e, c') \<Rightarrow>
               markAborted P PERMISSION_DENIED
                 (case e of PushAborted r \<Rightarrow> push_error_message (PushAborted r) | PushOther _ \<Rightarrow> ''Internal error'') c')"

definition finishSuccessfully :: "'x push_env \<Rightarrow> string \<Rightarrow> ms \<Rightarrow> ('x call_state, push_error, unit) op" where
  "finishSuccessfully P newJobId now c =
     (case c of (g, sw) \<Rightarrow>
      (case push_finish P newJobId now sw of
         (Inr result, sw') \<Rightarrow> (Inr (), callback (RResult result) (g, sw'))
       | (Inl e, sw') \<Rightarrow> markAborted P INTERNAL (push_error_message e) (g, sw')))"

text \<open>The handler of \<open>'end'\<close>: \<open>streamEnded = true\<close>, then \<open>finalizeStream\<close>.\<close>

definition endStream :: "'x push_env \<Rightarrow> string \<Rightarrow> ms \<Rightarrow> ('x call_state, push_error, unit) op" where
  "endStream P newJobId now c =
     (let c = (case c of (g, sw) \<Rightarrow> (g\<lparr>gp_streamEnded := True\<rparr>, sw))
      in if gp_aborted (fst c)
         then (Inr (), case gp_pendingAbort (fst c) of Some (code, m) \<Rightarrow> callback (RError code m) c | None \<Rightarrow> c)
         else if \<not> gp_headerReceived (fst c)
              then markAborted P FAILED_PRECONDITION ''Stream ended before a header was sent'' c
              else finishSuccessfully P newJobId now c)"

text \<open>\<open>'cancelled'\<close>: the session is aborted, whatever comes of it, and nothing is answered.\<close>

definition cancelCall :: "'x push_env \<Rightarrow> 'x call_state \<Rightarrow> 'x call_state" where
  "cancelCall P c = (case c of (g, sw) \<Rightarrow> (g\<lparr>gp_aborted := True\<rparr>, snd (push_abort P sw)))"

text \<open>
  \<open>queue = queue.then(step)\<close>: once a step has rejected, the steps chained behind it are skipped.
\<close>

definition queue_then :: "('x call_state, push_error, unit) op \<Rightarrow> 'x call_state \<Rightarrow> 'x call_state" where
  "queue_then step c =
     (if gp_broken (fst c) then c
      else case step c of
             (Inr _, c') \<Rightarrow> c'
           | (Inl _, (g, sw)) \<Rightarrow> (g\<lparr>gp_broken := True\<rparr>, sw))"

text \<open>A whole call: the messages in the order of their arrival, with what each draws and reads, then the end.\<close>

fun process_all :: "'x push_env \<Rightarrow> (string \<times> ms \<times> push_message) list \<Rightarrow> 'x call_state \<Rightarrow> 'x call_state" where
  "process_all P [] c = c"
| "process_all P ((uuid, now, m) # ms) c = process_all P ms (queue_then (processMessage P uuid now m) c)"

definition push_call :: "'x push_env \<Rightarrow> (string \<times> ms \<times> push_message) list \<Rightarrow> string \<Rightarrow> ms \<Rightarrow> 'x push_world \<Rightarrow> 'x call_state" where
  "push_call P ms newJobId now w =
     queue_then (endStream P newJobId now) (process_all P ms (new_call, new_session, w))"

section \<open>Pull and heartbeat\<close>

definition CHUNK_SIZE :: nat where "CHUNK_SIZE = 65536"

function file_chunks :: "string \<Rightarrow> string list" where
  "file_chunks bs = (if bs = [] then [] else take CHUNK_SIZE bs # file_chunks (drop CHUNK_SIZE bs))"
  by pat_completeness auto
termination
  by (relation "measure length") (auto simp: CHUNK_SIZE_def)

declare file_chunks.simps [simp del]

datatype pull_error = PullNotFound string | PullAborted string

text \<open>\<open>stream\<close> read to its end: the chunks it yields, or the error it throws.\<close>

definition pull_stream ::
  "(string list \<Rightarrow> string) \<Rightarrow> string \<Rightarrow> repo_role_verifier option \<Rightarrow> string \<Rightarrow> string \<Rightarrow> ms \<Rightarrow> fs \<Rightarrow>
   (ticket list, pull_error, string list) op" where
  "pull_stream join nasRoot v ticketId repo now f ts =
     (case consumeTicket libsqlTicketStore v ticketId Pull repo now ts of
        (Inl e, ts1) \<Rightarrow> (Inl (PullAborted (''ticket rejected: '' @ ticket_message e)), ts1)
      | (Inr _, ts1) \<Rightarrow>
          (case f (join [nasRoot, repo, ''repo.dolt'']) of
             None \<Rightarrow> (Inl (PullNotFound repo), snd (closeTicket libsqlTicketStore ticketId ts1))
           | Some bytes \<Rightarrow> (Inr (file_chunks bytes), snd (closeTicket libsqlTicketStore ticketId ts1))))"

fun pull_error_code :: "pull_error \<Rightarrow> grpc_code" where
  "pull_error_code (PullNotFound _) = NOT_FOUND"
| "pull_error_code (PullAborted _) = PERMISSION_DENIED"

definition grpc_heartbeat ::
  "repo_role_verifier option \<Rightarrow> int \<Rightarrow> string \<Rightarrow> ms \<Rightarrow> ticket list \<Rightarrow> ((grpc_code \<times> string) + ms) \<times> ticket list" where
  "grpc_heartbeat v ttl ticketId now ts =
     (case renewTicket libsqlTicketStore v ttl ticketId now ts of
        (Inr newExpiresAt, ts') \<Rightarrow> (Inr newExpiresAt, ts')
      | (Inl e, ts') \<Rightarrow> (Inl (PERMISSION_DENIED, ticket_message e), ts'))"

section \<open>Invariant of a push call\<close>

fun headers :: "(string \<times> ms \<times> push_message) list \<Rightarrow> (string \<times> transfer_operation \<times> string) list" where
  "headers [] = []"
| "headers ((u, n, MHeader i opn r) # ms) = (i, opn, r) # headers ms"
| "headers (_ # ms) = headers ms"

fun payload :: "(string \<times> ms \<times> push_message) list \<Rightarrow> string" where
  "payload [] = []"
| "payload ((u, n, MChunk d) # ms) = d @ payload ms"
| "payload (_ # ms) = payload ms"

text \<open>The staging files that the headers name.\<close>

fun staging_paths :: "'x push_env \<Rightarrow> (string \<times> ms \<times> push_message) list \<Rightarrow> string list" where
  "staging_paths P [] = []"
| "staging_paths P ((u, n, MHeader i opn r) # ms) = pe_join P [pe_stagingRoot P, r, u @ ''.staging''] # staging_paths P ms"
| "staging_paths P (_ # ms) = staging_paths P ms"

lemma staging_paths_append [simp]: "staging_paths P (xs @ ys) = staging_paths P xs @ staging_paths P ys"
  by (induction P xs rule: staging_paths.induct) simp_all

lemma headers_append [simp]: "headers (xs @ ys) = headers xs @ headers ys"
  by (induction xs rule: headers.induct) simp_all

lemma payload_append [simp]: "payload (xs @ ys) = payload xs @ payload ys"
  by (induction xs rule: payload.induct) simp_all

lemma process_all_append: "process_all P (xs @ ys) c = process_all P ys (process_all P xs c)"
  by (induction P xs c rule: process_all.induct) simp_all

text \<open>
  A ticket that the table \<open>ts\<close> lets the header consume at some moment.
\<close>

definition consumable :: "'x push_env \<Rightarrow> ticket list \<Rightarrow> string \<Rightarrow> transfer_operation \<Rightarrow> string \<Rightarrow> ticket \<Rightarrow> bool" where
  "consumable P ts i opn repo x \<longleftrightarrow> (\<exists>now. fst (consumeTicket libsqlTicketStore (pe_verifyRole P) i opn repo now ts) = Inr x)"

text \<open>
  While messages arrive: nothing has been answered and no job created. Before the header the world is
  untouched; after it there is exactly one header, whose ticket could be consumed, and the staging
  file holds the bytes that were sent; after a failure nothing of the upload is left in staging, but
  for a file that could not be removed. The queue rejects only for such a file.
\<close>

definition call_inv :: "'x push_env \<Rightarrow> (string \<times> ms \<times> push_message) list \<Rightarrow> 'x push_world \<Rightarrow> 'x call_state \<Rightarrow> bool" where
  "call_inv P ms w c \<longleftrightarrow>
     (case c of (g, h, w') \<Rightarrow>
       gp_replies g = [] \<and> \<not> gp_streamEnded g \<and> pw_jobs w' = pw_jobs w \<and> pw_ext w' = pw_ext w \<and>
       (gp_broken g \<longrightarrow> gp_aborted g \<and> (\<exists>p \<in> set (staging_paths P ms). \<not> pe_rm_ok P p)) \<and>
       (if gp_aborted g
        then gp_pendingAbort g \<noteq> None \<and> ps_closed h \<and>
             (\<forall>p. pe_rm_ok P p \<longrightarrow> pw_fs w' p \<noteq> None \<longrightarrow> pw_fs w' p = pw_fs w p)
        else if \<not> gp_headerReceived g then h = new_session \<and> w' = w \<and> headers ms = [] \<and> payload ms = []
        else \<exists>i opn repo x path.
               headers ms = [(i, opn, repo)] \<and> consumable P (pw_tickets w) i opn repo x \<and>
               h = \<lparr>ps_received = payload ms, ps_bytesReceived = length (payload ms), ps_ticketId = Some i,
                    ps_username = Some (tk_username x), ps_repo = Some repo, ps_syncOptions = tk_syncOptions x,
                    ps_stagingFilePath = Some path, ps_fileSink = True, ps_closed = False\<rparr> \<and>
               path \<noteq> [] \<and> path \<in> set (staging_paths P ms) \<and>
               pw_fs w' = (pw_fs w)(path \<mapsto> payload ms)))"

lemma call_inv_init: "call_inv P [] w (new_call, new_session, w)"
  by (simp add: call_inv_def new_call_def)

text \<open>What \<open>markAborted\<close> leaves of a call that has not been aborted.\<close>

lemma markAborted_open:
  assumes "\<not> gp_aborted g" "\<not> ps_closed h"
  shows "markAborted P code m (g, h, w') =
    (case ps_stagingFilePath h of
       Some p \<Rightarrow>
         if p \<noteq> [] \<and> \<not> pe_rm_ok P p
         then (Inl (PushOther ''rm failed''),
               (g\<lparr>gp_aborted := True, gp_pendingAbort := Some (code, m)\<rparr>, h\<lparr>ps_closed := True\<rparr>, w'))
         else (Inr (), (if gp_streamEnded g then callback (RError code m) else id)
                (g\<lparr>gp_aborted := True, gp_pendingAbort := Some (code, m)\<rparr>, h\<lparr>ps_closed := True\<rparr>,
                 if p = [] then w' else w'\<lparr>pw_fs := (pw_fs w')(p := None)\<rparr>))
     | None \<Rightarrow>
         (Inr (), (if gp_streamEnded g then callback (RError code m) else id)
            (g\<lparr>gp_aborted := True, gp_pendingAbort := Some (code, m)\<rparr>, h\<lparr>ps_closed := True\<rparr>, w')))"
  using assms by (auto simp: markAborted_def push_abort_def Let_def split: option.splits)

lemma markAborted_again: "gp_aborted (fst c) \<Longrightarrow> markAborted P code m c = (Inr (), c)"
  by (cases c) (simp add: markAborted_def)

text \<open>Aborting a call that has not been aborted keeps the invariant, also when it throws.\<close>

lemma markAborted_inv:
  assumes "\<not> gp_aborted g" "\<not> gp_streamEnded g" "gp_replies g = []" "pw_jobs w' = pw_jobs w" "pw_ext w' = pw_ext w"
    and "\<not> gp_broken g" "\<not> ps_closed h"
    and "\<forall>p. pw_fs w' p \<noteq> None \<and> ps_stagingFilePath h \<noteq> Some p \<longrightarrow> pw_fs w' p = pw_fs w p"
    and "\<forall>p. ps_stagingFilePath h = Some p \<longrightarrow> p \<noteq> [] \<and> p \<in> set (staging_paths P ms)"
  shows "case markAborted P code m (g, h, w') of
      (Inr _, c) \<Rightarrow> call_inv P ms w c \<and> gp_aborted (fst c)
    | (Inl _, (g1, h1, w1)) \<Rightarrow> call_inv P ms w (g1, h1, w1) \<and> call_inv P ms w (g1\<lparr>gp_broken := True\<rparr>, h1, w1) \<and> gp_aborted g1"
  using assms by (auto simp: call_inv_def markAborted_open split: option.splits)

lemma onHeader_first:
  assumes "onHeader P i opn repo uuid now (new_session, w) = (r, (h, w'))"
  shows "(\<exists>e ts. r = Inl (PushAborted e) \<and> h = new_session \<and> w' = w\<lparr>pw_tickets := ts\<rparr>) \<or>
    (\<exists>ts. r = Inl (PushOther ''mkdir failed'') \<and> w' = w\<lparr>pw_tickets := ts\<rparr> \<and> \<not> ps_closed h \<and>
       ps_stagingFilePath h = Some (pe_join P [pe_stagingRoot P, repo, uuid @ ''.staging''])) \<or>
    (\<exists>x ts path. r = Inr () \<and> consumable P (pw_tickets w) i opn repo x \<and>
       path = pe_join P [pe_stagingRoot P, repo, uuid @ ''.staging''] \<and>
       h = \<lparr>ps_received = [], ps_bytesReceived = 0, ps_ticketId = Some i, ps_username = Some (tk_username x),
            ps_repo = Some repo, ps_syncOptions = tk_syncOptions x, ps_stagingFilePath = Some path,
            ps_fileSink = True, ps_closed = False\<rparr> \<and>
       w' = w\<lparr>pw_tickets := ts, pw_fs := (pw_fs w)(path \<mapsto> [])\<rparr>)"
proof -
  obtain q ts where q: "consumeTicket libsqlTicketStore (pe_verifyRole P) i opn repo now (pw_tickets w) = (q, ts)"
    by fastforce
  show ?thesis
  proof (cases q)
    case (Inl e)
    with assms q show ?thesis by (auto simp: onHeader_def truthy_def new_session_def)
  next
    case (Inr x)
    then have "consumable P (pw_tickets w) i opn repo x" using q unfolding consumable_def by (metis fst_conv)
    with assms q Inr show ?thesis
      by (auto simp: onHeader_def truthy_def new_session_def Let_def split: if_splits)
  qed
qed

text \<open>
  A message whose handling ends in \<open>markAborted\<close>, inside the \<open>try\<close> block (then the second call, in the
  \<open>catch\<close> block, does nothing) or in the \<open>catch\<close> block (then its failure rejects the queue).
\<close>

lemma call_inv_try:
  assumes "\<not> gp_aborted g" "\<not> gp_broken g"
    and d: "dispatchMessage P uuid now m (g, h, w0) = markAborted P code t (g1, h1, w1)"
    and st: "\<not> gp_aborted g1" "\<not> gp_streamEnded g1" "gp_replies g1 = []" "pw_jobs w1 = pw_jobs w" "pw_ext w1 = pw_ext w"
      "\<not> gp_broken g1" "\<not> ps_closed h1"
      "\<forall>p. pw_fs w1 p \<noteq> None \<and> ps_stagingFilePath h1 \<noteq> Some p \<longrightarrow> pw_fs w1 p = pw_fs w p"
      "\<forall>p. ps_stagingFilePath h1 = Some p \<longrightarrow> p \<noteq> [] \<and> p \<in> set (staging_paths P ms)"
  shows "call_inv P ms w (queue_then (processMessage P uuid now m) (g, h, w0))"
proof -
  obtain r c where "markAborted P code t (g1, h1, w1) = (r, c)" by (metis prod.collapse)
  with markAborted_inv [OF st, of code t] d assms(1,2) show ?thesis
    by (cases c) (auto simp: queue_then_def processMessage_def markAborted_again split: sum.splits)
qed

lemma call_inv_catch:
  assumes "\<not> gp_aborted g" "\<not> gp_broken g"
    and d: "dispatchMessage P uuid now m (g, h, w0) = (Inl e, (g1, h1, w1))"
    and st: "\<not> gp_aborted g1" "\<not> gp_streamEnded g1" "gp_replies g1 = []" "pw_jobs w1 = pw_jobs w" "pw_ext w1 = pw_ext w"
      "\<not> gp_broken g1" "\<not> ps_closed h1"
      "\<forall>p. pw_fs w1 p \<noteq> None \<and> ps_stagingFilePath h1 \<noteq> Some p \<longrightarrow> pw_fs w1 p = pw_fs w p"
      "\<forall>p. ps_stagingFilePath h1 = Some p \<longrightarrow> p \<noteq> [] \<and> p \<in> set (staging_paths P ms)"
  shows "call_inv P ms w (queue_then (processMessage P uuid now m) (g, h, w0))"
proof -
  let ?t = "case e of PushAborted r \<Rightarrow> push_error_message (PushAborted r) | PushOther _ \<Rightarrow> ''Internal error''"
  obtain r c where "markAborted P PERMISSION_DENIED ?t (g1, h1, w1) = (r, c)" by (metis prod.collapse)
  with markAborted_inv [OF st, of PERMISSION_DENIED ?t] d assms(1,2) show ?thesis
    by (cases c) (auto simp: queue_then_def processMessage_def split: sum.splits)
qed

lemma call_inv_message:
  assumes join: "\<forall>xs. pe_join P xs \<noteq> []" and inv: "call_inv P ms w c"
  shows "call_inv P (ms @ [(uuid, now, m)]) w (queue_then (processMessage P uuid now m) c)"
proof -
  obtain g h w' where c: "c = (g, h, w')" by (cases c) auto
  note inv = inv [unfolded c call_inv_def prod.case]
  show ?thesis
  proof (cases "gp_aborted g")
    case True
    with inv show ?thesis by (auto simp: c queue_then_def processMessage_def call_inv_def)
  next
    case na: False
    with inv have nb: "\<not> gp_broken g" by auto
    show ?thesis
    proof (cases "gp_headerReceived g")
      case False
      with inv na have s: "h = new_session" "w' = w" "headers ms = []" "payload ms = []" by auto
      show ?thesis
      proof (cases m)
        case (MHeader i opn repo)
        obtain r h1 w1 where r: "onHeader P i opn repo uuid now (new_session, w) = (r, (h1, w1))" by (metis prod.collapse)
        then have d: "dispatchMessage P uuid now m c = (r, (g\<lparr>gp_headerReceived := True\<rparr>, h1, w1))"
          by (simp add: c MHeader dispatchMessage_def False s)
        from onHeader_first [OF r] show ?thesis
        proof (elim disjE exE conjE)
          fix e ts assume "r = Inl (PushAborted e)" "h1 = new_session" "w1 = w\<lparr>pw_tickets := ts\<rparr>"
          note d = d [unfolded c this]
          show ?thesis
            unfolding c by (rule call_inv_catch [OF na nb d]) (use na nb inv s in \<open>auto simp: new_session_def\<close>)
        next
          fix ts assume "r = Inl (PushOther ''mkdir failed'')" "w1 = w\<lparr>pw_tickets := ts\<rparr>" "\<not> ps_closed h1"
            "ps_stagingFilePath h1 = Some (pe_join P [pe_stagingRoot P, repo, uuid @ ''.staging''])"
          note e = this
          note d = d [unfolded c e(1)]
          show ?thesis
            unfolding c by (rule call_inv_catch [OF na nb d]) (use join na nb inv s MHeader e in auto)
        next
          fix x ts path
          assume "r = Inr ()" "path = pe_join P [pe_stagingRoot P, repo, uuid @ ''.staging'']" "consumable P (pw_tickets w) i opn repo x"
            "h1 = \<lparr>ps_received = [], ps_bytesReceived = 0, ps_ticketId = Some i, ps_username = Some (tk_username x),
              ps_repo = Some repo, ps_syncOptions = tk_syncOptions x, ps_stagingFilePath = Some path,
              ps_fileSink = True, ps_closed = False\<rparr>"
            "w1 = w\<lparr>pw_tickets := ts, pw_fs := (pw_fs w)(path \<mapsto> [])\<rparr>"
          with d na nb False inv s MHeader join show ?thesis
            by (auto simp: c queue_then_def processMessage_def call_inv_def)
        qed
      next
        case (MChunk d)
        have "dispatchMessage P uuid now m (g, h, w') = markAborted P FAILED_PRECONDITION ''Chunk received before header'' (g, h, w')"
          by (simp add: MChunk dispatchMessage_def False)
        then show ?thesis
          unfolding c by (rule call_inv_try [OF na nb]) (use na nb inv s in \<open>auto simp: new_session_def\<close>)
      next
        case MEmpty
        with na nb False inv s show ?thesis
          by (auto simp: c queue_then_def processMessage_def dispatchMessage_def call_inv_def)
      qed
    next
      case True
      with inv na obtain i opn repo x path where s: "headers ms = [(i, opn, repo)]"
        "consumable P (pw_tickets w) i opn repo x"
        "h = \<lparr>ps_received = payload ms, ps_bytesReceived = length (payload ms), ps_ticketId = Some i,
             ps_username = Some (tk_username x), ps_repo = Some repo, ps_syncOptions = tk_syncOptions x,
             ps_stagingFilePath = Some path, ps_fileSink = True, ps_closed = False\<rparr>"
        "path \<noteq> []" "path \<in> set (staging_paths P ms)" "pw_fs w' = (pw_fs w)(path \<mapsto> payload ms)" by auto
      show ?thesis
      proof (cases m)
        case (MHeader i' opn' repo')
        then have "dispatchMessage P uuid now m (g, h, w') = markAborted P FAILED_PRECONDITION ''Header already sent'' (g, h, w')"
          by (simp add: dispatchMessage_def True)
        then show ?thesis
          unfolding c by (rule call_inv_try [OF na nb]) (use na nb inv s in auto)
      next
        case (MChunk d)
        with na nb True inv s show ?thesis
          by (auto simp: c queue_then_def processMessage_def dispatchMessage_def call_inv_def onChunk_def)
      next
        case MEmpty
        with na nb True inv s show ?thesis
          by (auto simp: c queue_then_def processMessage_def dispatchMessage_def call_inv_def)
      qed
    qed
  qed
qed

lemma call_inv_all:
  assumes "\<forall>xs. pe_join P xs \<noteq> []"
  shows "call_inv P ms w (process_all P ms (new_call, new_session, w))"
proof (induction ms rule: rev_induct)
  case Nil
  then show ?case by (simp add: call_inv_init)
next
  case (snoc m ms)
  then show ?case
    using call_inv_message [OF assms snoc] by (cases m) (simp add: process_all_append)
qed

definition staged_job :: "'x push_env \<Rightarrow> string \<Rightarrow> push_preparation \<Rightarrow> string \<Rightarrow> ms \<Rightarrow> transfer_job" where
  "staged_job P newJobId prep checksum now =
     \<lparr>jb_id = newJobId, jb_repo = pp_repo prep, jb_stagingPath = pp_stagingPath prep, jb_checksum = checksum,
      jb_status = JStaged, jb_retryCount = 0, jb_maxRetries = pe_maxRetries P, jb_nextRetryAt = 0,
      jb_createdAt = now, jb_updatedAt = now, jb_lastError = None\<rparr>"

text \<open>What \<open>finish\<close> does to the job table: nothing when it throws or for a dry run, one row otherwise.\<close>

lemma push_finish_outcome:
  assumes "push_finish P newJobId now (h, w) = (r, (h', w'))"
  shows "case r of
      Inl e \<Rightarrow> pw_jobs w' = pw_jobs w
    | Inr res \<Rightarrow>
        pr_checksum res = pe_sha256 P (ps_received h) \<and> pr_bytesReceived res = ps_bytesReceived h \<and>
        (\<exists>prep x. pe_onBeforePush P (the (ps_repo h)) (the (ps_username h)) (the (ps_stagingFilePath h))
                    (ps_syncOptions h) (pw_ext w) = (Inr prep, x) \<and> pr_dryRun res = pp_dryRun prep \<and>
           (if pp_dryRun prep then pw_jobs w' = pw_jobs w
            else pr_jobId res = newJobId \<and>
                 pw_jobs w' = pw_jobs w @ [staged_job P newJobId prep (pr_checksum res) now]))"
proof -
  consider (early) e where "r = Inl e" "w' = w" | (run)
    "\<not> ps_closed h" "\<not> (\<not> truthy (ps_ticketId h) \<or> \<not> truthy (ps_repo h) \<or> \<not> truthy (ps_stagingFilePath h) \<or>
              \<not> ps_fileSink h \<or> \<not> truthy (ps_username h))"
    using assms unfolding push_finish_def by (auto split: if_splits)
  then show ?thesis
  proof cases
    case early
    then show ?thesis by simp
  next
    case run
    obtain q x where q: "pe_onBeforePush P (the (ps_repo h)) (the (ps_username h)) (the (ps_stagingFilePath h))
        (ps_syncOptions h) (pw_ext w) = (q, x)" by fastforce
    show ?thesis
    proof (cases q)
      case (Inl e)
      with assms run q show ?thesis by (auto simp: push_finish_def Let_def)
    next
      case (Inr prep)
      let ?cs = "pe_sha256 P (ps_received h)"
      have create: "job_create (staged_job P newJobId prep ?cs now) (pw_jobs w) =
          (if job_get newJobId (pw_jobs w) = None then (Inr (), pw_jobs w @ [staged_job P newJobId prep ?cs now])
           else (Inl JobSqlError, pw_jobs w))"
        by (simp add: job_create_apply staged_job_def)
      show ?thesis
      proof (cases "pp_dryRun prep")
        case True
        with assms run q Inr show ?thesis by (auto simp: push_finish_def Let_def closeQuietly_def)
      next
        case False
        show ?thesis
        proof (cases "job_get newJobId (pw_jobs w) = None")
          case True
          with create False assms run q Inr show ?thesis
            by (auto simp: push_finish_def Let_def closeQuietly_def staged_job_def)
        next
          case no: False
          with create False assms run q Inr show ?thesis
            by (auto simp: push_finish_def Let_def staged_job_def)
        qed
      qed
    qed
  qed
qed

text \<open>The hooks that a successful \<open>finish\<close> has run, and the state they leave.\<close>

lemma push_finish_hooks:
  assumes "push_finish P newJobId now (h, w) = (Inr res, (h', w'))"
  obtains prep x where "pe_onBeforePush P (the (ps_repo h)) (the (ps_username h)) (the (ps_stagingFilePath h))
      (ps_syncOptions h) (pw_ext w) = (Inr prep, x)"
    and "pw_ext w' = x \<or> (\<exists>checksum. pw_ext w' =
      snd (pe_onPushCommitted P (pp_repo prep) (pp_username prep) newJobId checksum (pp_resolvedTables prep) x))"
  using assms
  by (auto simp: push_finish_def Let_def closeQuietly_def split: if_splits prod.splits sum.splits) blast

lemma push_finish_path:
  "push_finish P newJobId now (h, w) = (r, (h', w')) \<Longrightarrow> ps_stagingFilePath h' = ps_stagingFilePath h"
  by (auto simp: push_finish_def Let_def split: if_splits sum.splits prod.splits)

text \<open>A failure after the stream has ended is answered, unless the staging file cannot be removed.\<close>

lemma markAborted_ended:
  assumes "\<not> gp_aborted g" "gp_streamEnded g" "gp_replies g = []" "\<not> gp_broken g"
    and "\<forall>p. ps_stagingFilePath h = Some p \<longrightarrow> p \<noteq> [] \<longrightarrow> p \<in> set (staging_paths P ms)"
  shows "let c = queue_then (\<lambda>_. markAborted P code m (g, h, w)) (g0\<lparr>gp_broken := False\<rparr>, sw) in
    pw_jobs (snd (snd c)) = pw_jobs w \<and>
    (gp_replies (fst c) = [RError code m] \<and> \<not> gp_broken (fst c) \<or>
     gp_replies (fst c) = [] \<and> gp_broken (fst c) \<and> (\<exists>p \<in> set (staging_paths P ms). \<not> pe_rm_ok P p))"
  using assms
  by (auto simp: queue_then_def markAborted_def callback_def push_abort_def Let_def split: option.splits if_splits)

text \<open>The end of a call, from a state that satisfies the invariant.\<close>

lemma endStream_outcome:
  fixes newJobId :: string and now :: ms
  assumes inv: "call_inv P ms w c"
  defines "e \<equiv> queue_then (endStream P newJobId now) c"
  shows "pw_jobs (snd (snd e)) = pw_jobs w \<and>
      ((\<exists>code m. gp_replies (fst e) = [RError code m] \<and> \<not> gp_broken (fst e)) \<or>
       gp_replies (fst e) = [] \<and> gp_broken (fst e) \<and> (\<exists>p \<in> set (staging_paths P ms). \<not> pe_rm_ok P p)) \<or>
    (\<exists>res h w' h' w''. gp_replies (fst e) = [RResult res] \<and> \<not> gp_broken (fst e) \<and>
       snd c = (h, w') \<and> \<not> gp_aborted (fst c) \<and> gp_headerReceived (fst c) \<and>
       push_finish P newJobId now (h, w') = (Inr res, (h', w'')) \<and> snd (snd e) = w'')"
proof -
  obtain g h w' where c: "c = (g, h, w')" by (cases c) auto
  note inv' = inv [unfolded c call_inv_def prod.case]
  let ?g = "g\<lparr>gp_streamEnded := True\<rparr>"
  consider (br) "gp_broken g" | (ab) "\<not> gp_broken g" "gp_aborted g"
    | (nohdr) "\<not> gp_broken g" "\<not> gp_aborted g" "\<not> gp_headerReceived g"
    | (fin) "\<not> gp_broken g" "\<not> gp_aborted g" "gp_headerReceived g"
    by blast
  then show ?thesis
  proof cases
    case br
    with inv' show ?thesis by (auto simp: e_def c queue_then_def)
  next
    case ab
    with inv' show ?thesis
      by (auto simp: e_def c queue_then_def endStream_def callback_def Let_def split: option.splits)
  next
    case nohdr
    let ?m = "''Stream ended before a header was sent''"
    from nohdr have e: "e = queue_then (\<lambda>_. markAborted P FAILED_PRECONDITION ?m (?g, h, w')) (g\<lparr>gp_broken := False\<rparr>, h, w')"
      by (simp add: e_def c queue_then_def endStream_def Let_def)
    have "\<forall>p. ps_stagingFilePath h = Some p \<longrightarrow> p \<noteq> [] \<longrightarrow> p \<in> set (staging_paths P ms)"
      using nohdr inv' by (auto simp: new_session_def)
    with markAborted_ended [of ?g h P ms FAILED_PRECONDITION ?m w' g "(h, w')"] nohdr inv' show ?thesis
      unfolding e by (auto simp: Let_def)
  next
    case fin
    obtain r h' w'' where r: "push_finish P newJobId now (h, w') = (r, (h', w''))" by (metis prod.collapse)
    show ?thesis
    proof (cases r)
      case (Inl x)
      from fin r Inl have e: "e = queue_then (\<lambda>_. markAborted P INTERNAL (push_error_message x) (?g, h', w''))
          (g\<lparr>gp_broken := False\<rparr>, h, w')"
        by (simp add: e_def c queue_then_def endStream_def finishSuccessfully_def Let_def)
      have "\<forall>p. ps_stagingFilePath h' = Some p \<longrightarrow> p \<noteq> [] \<longrightarrow> p \<in> set (staging_paths P ms)"
        using fin inv' push_finish_path [OF r] by auto
      moreover from Inl push_finish_outcome [OF r] have "pw_jobs w'' = pw_jobs w'" by simp
      ultimately show ?thesis
        using markAborted_ended [of ?g h' P ms INTERNAL "push_error_message x" w'' g "(h, w')"] fin inv'
        unfolding e by (auto simp: Let_def)
    next
      case (Inr res)
      with r fin inv' show ?thesis
        by (auto simp: e_def c queue_then_def endStream_def finishSuccessfully_def callback_def Let_def)
    qed
  qed
qed

text \<open>A call that the client cancels before any failure gets no reply, also if its stream ends later.\<close>

lemma cancelled_call_unanswered:
  assumes "gp_pendingAbort (fst c) = None"
  shows "gp_replies (fst (queue_then (endStream P newJobId now) (cancelCall P c))) = gp_replies (fst c)"
  using assms by (cases c) (auto simp: cancelCall_def queue_then_def endStream_def Let_def)

section \<open>Properties\<close>

text \<open>
  C33. A push call whose stream ends gets at most one reply, and a failed one never leaves a job behind. Whatever
  messages a client sends and in whatever order, when its stream ends it gets one reply, or none if
  the queue of its messages has rejected; the queue rejects only if the staging file of one of its headers
  could not be removed. Unless the reply is a result, the job table is what it was before the call.
  (\<open>path.join\<close> returns no empty path. A call that the client cancels is answered by nobody.)
\<close>

theorem push_call_answered_once:
  assumes "\<forall>xs. pe_join P xs \<noteq> []"
  shows "let c = push_call P ms newJobId now w; replies = gp_replies (fst c) in
    length replies = (if gp_broken (fst c) then 0 else 1) \<and>
    (gp_broken (fst c) \<longrightarrow> (\<exists>p \<in> set (staging_paths P ms). \<not> pe_rm_ok P p)) \<and>
    ((\<forall>res. replies \<noteq> [RResult res]) \<longrightarrow> pw_jobs (snd (snd c)) = pw_jobs w)"
  using endStream_outcome [OF call_inv_all [OF assms], of newJobId now ms w]
  unfolding push_call_def Let_def by auto

definition sample_push_env :: "unit push_env" where
  "sample_push_env =
     \<lparr>pe_verifyRole = Some (\<lambda>u r. Some Reader), pe_ttl = 60, pe_stagingRoot = ''/ssd'', pe_maxRetries = 3,
      pe_join = (\<lambda>xs. CHR ''/'' # js_join ''/'' xs), pe_sha256 = (\<lambda>b. b),
      pe_onBeforePush = (\<lambda>repo u p so. ret \<lparr>pp_repo = repo, pp_username = u, pp_stagingPath = p, pp_dryRun = False,
                                              pp_resolvedTables = None\<rparr>),
      pe_onPushCommitted = (\<lambda>repo u j c ts. ret ()), pe_mkdir_ok = (\<lambda>p. True), pe_rm_ok = (\<lambda>p. True)\<rparr>"

definition sample_push_world :: "unit push_world" where
  "sample_push_world =
     \<lparr>pw_tickets = [sample_ticket\<lparr>tk_operation := Pull\<rparr>], pw_jobs = [], pw_fs = Map.empty, pw_ext = ()\<rparr>"

theorem push_call_answered_once_witness:
  "let c = push_call sample_push_env [(''u'', 1, MChunk ''ab''), (''u'', 2, MHeader ''t1'' Push ''r'')] ''j'' 3 sample_push_world
   in length (gp_replies (fst c)) = 1"
  using push_call_answered_once [of sample_push_env "[(''u'', 1, MChunk ''ab''), (''u'', 2, MHeader ''t1'' Push ''r'')]"
      "''j''" 3 sample_push_world]
  by (auto simp: sample_push_env_def Let_def split: if_splits)

text \<open>
  A failed clean-up leaves a push call open. If the staging directory cannot be made, the error is handled by
  removing a staging file that was never written; if that removal throws too (a volume that has gone
  away, a path through a file), the queue rejects, the handler of \<open>'end'\<close> is skipped and the client
  waits for an answer that is never sent.
\<close>

definition broken_staging_env :: "unit push_env" where
  "broken_staging_env = sample_push_env\<lparr>pe_mkdir_ok := (\<lambda>p. False), pe_rm_ok := (\<lambda>p. False)\<rparr>"

theorem push_call_left_open:
  "let c = push_call broken_staging_env [(''u'', 1, MHeader ''t1'' Pull ''r''), (''u'', 2, MChunk ''ab'')] ''j'' 3 sample_push_world
   in gp_broken (fst c) \<and> gp_replies (fst c) = [] \<and> \<not> gp_streamEnded (fst c) \<and>
      gp_pendingAbort (fst c) = Some (PERMISSION_DENIED, ''Internal error'')"
  by code_simp

text \<open>
  C1. What a successful push stands for. If a call is answered with a result that is no dry run, then the client
  sent exactly one header, its ticket could be consumed for the operation and repository of that
  header, and exactly one job has been added: in the state \<open>staged\<close>, with the digest of precisely the
  bytes of the chunks in their order, and the reported checksum and byte count are those of these bytes.
\<close>

theorem push_commit_exact:
  assumes "\<forall>xs. pe_join P xs \<noteq> []"
    and "gp_replies (fst (push_call P ms newJobId now w)) = [RResult res]" and "\<not> pr_dryRun res"
  shows "\<exists>i opn repo x prep.
    headers ms = [(i, opn, repo)] \<and> consumable P (pw_tickets w) i opn repo x \<and>
    pr_checksum res = pe_sha256 P (payload ms) \<and> pr_bytesReceived res = length (payload ms) \<and> pr_jobId res = newJobId \<and>
    pw_jobs (snd (snd (push_call P ms newJobId now w))) =
      pw_jobs w @ [staged_job P newJobId prep (pe_sha256 P (payload ms)) now]"
proof -
  let ?c = "process_all P ms (new_call, new_session, w)"
  note inv = call_inv_all [OF assms(1), of ms w]
  from endStream_outcome [OF inv, of newJobId now] assms(2)
  obtain h w' h' w'' where o: "snd ?c = (h, w')" "\<not> gp_aborted (fst ?c)" "gp_headerReceived (fst ?c)"
    "push_finish P newJobId now (h, w') = (Inr res, (h', w''))"
    "snd (snd (push_call P ms newJobId now w)) = w''"
    by (auto simp: push_call_def)
  from inv o(1,2,3) obtain i opn repo x where s: "headers ms = [(i, opn, repo)]"
    "consumable P (pw_tickets w) i opn repo x" "ps_received h = payload ms"
    "ps_bytesReceived h = length (payload ms)" "pw_jobs w' = pw_jobs w"
    by (cases ?c) (auto simp: call_inv_def)
  from push_finish_outcome [OF o(4)] assms(3) s o(5) show ?thesis by auto
qed

lemma sample_push_reply:
  "gp_replies (fst (push_call sample_push_env [(''u'', 1, MHeader ''t1'' Pull ''r''), (''u'', 2, MChunk ''ab''), (''u'', 2, MChunk ''c'')]
     ''j'' 3 sample_push_world)) =
   [RResult \<lparr>pr_jobId = ''j'', pr_checksum = ''abc'', pr_bytesReceived = 3, pr_dryRun = False\<rparr>]"
  by code_simp

theorem push_commit_exact_witness:
  "\<exists>prep. pw_jobs (snd (snd (push_call sample_push_env
       [(''u'', 1, MHeader ''t1'' Pull ''r''), (''u'', 2, MChunk ''ab''), (''u'', 2, MChunk ''c'')] ''j'' 3 sample_push_world))) =
     [staged_job sample_push_env ''j'' prep ''abc'' 3]"
proof -
  have "\<forall>xs. pe_join sample_push_env xs \<noteq> []" by (simp add: sample_push_env_def)
  from push_commit_exact [OF this sample_push_reply] show ?thesis
    by (auto simp: sample_push_env_def sample_push_world_def)
qed

text \<open>
  A push is accepted with a pull ticket. The operation that the ticket is checked against is the one the
  client writes into its header, so a user with the role \<open>reader\<close>, who can only get pull tickets, has
  data staged for the repository by naming \<open>pull\<close> in the header of a push call.
\<close>

theorem reader_pushes_with_pull_ticket:
  "let c = push_call sample_push_env [(''u'', 1, MHeader ''t1'' Pull ''r''), (''u'', 2, MChunk ''evil'')] ''j'' 3 sample_push_world
   in map_option (\<lambda>v. v ''bob'' ''r'') (pe_verifyRole sample_push_env) = Some (Some Reader) \<and>
      gp_replies (fst c) = [RResult \<lparr>pr_jobId = ''j'', pr_checksum = ''evil'', pr_bytesReceived = 4, pr_dryRun = False\<rparr>] \<and>
      map jb_repo (pw_jobs (snd (snd c))) = [''r''] \<and> map jb_checksum (pw_jobs (snd (snd c))) = [''evil'']"
  by code_simp

text \<open>
  A push that the preparation hook rejects is not cleaned up. When \<open>onBeforePush\<close> throws (the user may not create
  the repository, or the table selection is invalid), the client gets the error and no job is created,
  but the session already counts as closed, so aborting it does nothing: the uploaded bytes stay in
  staging with no job that refers to them, and the ticket stays active.
\<close>

theorem rejected_push_leaks_staging:
  assumes "\<not> gp_aborted g" and "gp_headerReceived g" and "\<not> ps_closed h"
    and "ps_ticketId h = Some i" "ps_repo h = Some repo" "ps_stagingFilePath h = Some path" "ps_username h = Some u"
    and "i \<noteq> []" "repo \<noteq> []" "path \<noteq> []" "u \<noteq> []" "ps_fileSink h"
    and "pe_onBeforePush P repo u path (ps_syncOptions h) (pw_ext w) = (Inl e, x)"
  shows "endStream P newJobId now (g, h, w) =
    (Inr (), g\<lparr>gp_streamEnded := True, gp_aborted := True, gp_pendingAbort := Some (INTERNAL, push_error_message e),
       gp_replies := gp_replies g @ [RError INTERNAL (push_error_message e)]\<rparr>,
     h\<lparr>ps_closed := True\<rparr>, w\<lparr>pw_ext := x\<rparr>)"
  using assms
  by (simp add: endStream_def finishSuccessfully_def push_finish_def truthy_def markAborted_def push_abort_def callback_def Let_def)

definition rejecting_push_env :: "unit push_env" where
  "rejecting_push_env = sample_push_env\<lparr>pe_onBeforePush := (\<lambda>repo u p so. throw (PushAborted ''cannot create repos''))\<rparr>"

theorem rejected_push_leaks_staging_witness:
  "let h = \<lparr>ps_received = ''ab'', ps_bytesReceived = 2, ps_ticketId = Some ''t1'', ps_username = Some ''bob'',
            ps_repo = Some ''r'', ps_syncOptions = None, ps_stagingFilePath = Some ''/ssd/x'', ps_fileSink = True, ps_closed = False\<rparr>;
       w = sample_push_world\<lparr>pw_fs := [''/ssd/x'' \<mapsto> ''ab'']\<rparr>
   in pw_fs (snd (snd (snd (endStream rejecting_push_env ''j'' 3 (new_call\<lparr>gp_headerReceived := True\<rparr>, h, w))))) ''/ssd/x'' = Some ''ab''"
  unfolding Let_def
  by (subst rejected_push_leaks_staging [where i = "''t1''" and repo = "''r''" and path = "''/ssd/x''" and u = "''bob''"
        and e = "PushAborted ''cannot create repos''" and x = "()"])
     (simp_all add: new_call_def rejecting_push_env_def)

text \<open>The chunks of a file are a partition of its bytes into pieces of at most \<open>CHUNK_SIZE\<close>.\<close>

lemma file_chunks_concat: "concat (file_chunks bs) = bs \<and> (\<forall>c \<in> set (file_chunks bs). 0 < length c \<and> length c \<le> CHUNK_SIZE)"
proof (induction bs rule: file_chunks.induct)
  case (1 bs)
  then show ?case by (subst (1 2) file_chunks.simps) (auto simp: file_chunks.simps [of bs] CHUNK_SIZE_def)
qed

text \<open>
  C34. A pull serves exactly the published copy, to a valid ticket, once. It yields data only if its ticket could be
  consumed for pulling this repository; then the chunks, none larger than 64 KiB, concatenate to the
  bytes at the repository's NAS path; and whenever the ticket was consumed, it is closed afterwards
  and can never be used again.
\<close>

theorem pull_serves_published_copy:
  assumes "keyed tk_id ts" and "pull_stream join root v i repo now f ts = (r, ts')"
  shows "(case consume_decision v Pull repo now (sql_tk_get i ts) of
      Inl e \<Rightarrow> r = Inl (PullAborted (''ticket rejected: '' @ ticket_message e)) \<and> (\<forall>j. sql_tk_get j ts' = sql_tk_get j ts)
    | Inr x \<Rightarrow>
        sql_tk_get i ts' = Some (x\<lparr>tk_status := TClosed\<rparr>) \<and>
        (case f (join [root, repo, ''repo.dolt'']) of
           None \<Rightarrow> r = Inl (PullNotFound repo)
         | Some bytes \<Rightarrow> \<exists>cs. r = Inr cs \<and> concat cs = bytes \<and> (\<forall>c \<in> set cs. length c \<le> CHUNK_SIZE)))"
proof -
  obtain q ts1 where q: "consumeTicket libsqlTicketStore v i Pull repo now ts = (q, ts1)" by fastforce
  note c = libsql_tickets.consume_correct [OF assms(1), where v = v and i = i and opn = Pull and repo = repo
      and now = now, unfolded q libsqlTicketStore_sel fst_conv snd_conv]
  show ?thesis
  proof (cases q)
    case (Inl e)
    with c(1) have d: "consume_decision v Pull repo now (sql_tk_get i ts) = Inl e" by simp
    from c(3) have "sql_tk_get j ts1 = sql_tk_get j ts" for j by (simp add: d)
    with d assms(2) q Inl show ?thesis by (auto simp: pull_stream_def)
  next
    case (Inr x)
    with c(1) have x: "consume_decision v Pull repo now (sql_tk_get i ts) = Inr x" by simp
    have g: "sql_tk_get i ts1 = Some x" using c(3) [of i] by (simp add: x)
    have k: "keyed tk_id ts1" by (rule c(2))
    from x have act: "tk_status x = TActive"
      by (auto simp: consume_decision_def split: option.splits if_splits)
    have "sql_tk_get i (snd (sql_tk_close i ts1)) = Some (x\<lparr>tk_status := TClosed\<rparr>)"
      using tk_get_updates [OF tk_laws(3) [OF k, of i], of i] g act by simp
    moreover have "snd (closeTicket libsqlTicketStore i ts1) = snd (sql_tk_close i ts1)"
      by (auto simp: closeTicket_def split: prod.splits bool.splits)
    ultimately show ?thesis
      using assms(2) q Inr x file_chunks_concat by (auto simp: pull_stream_def split: option.splits)
  qed
qed

theorem pull_serves_published_copy_witness:
  "\<exists>cs ts'. pull_stream (\<lambda>xs. js_join ''/'' xs) ''/nas'' None ''t1'' ''r'' 5 [''/nas/r/repo.dolt'' \<mapsto> ''data'']
       [sample_ticket\<lparr>tk_operation := Pull\<rparr>] = (Inr cs, ts') \<and> concat cs = ''data''"
proof -
  let ?ts = "[sample_ticket\<lparr>tk_operation := Pull\<rparr>]"
  obtain r ts' where r: "pull_stream (\<lambda>xs. js_join ''/'' xs) ''/nas'' None ''t1'' ''r'' 5 [''/nas/r/repo.dolt'' \<mapsto> ''data''] ?ts = (r, ts')"
    by fastforce
  have k: "keyed tk_id ?ts" by (simp add: keyed_def)
  have "consume_decision None Pull ''r'' 5 (sql_tk_get ''t1'' ?ts) = Inr (sample_ticket\<lparr>tk_operation := Pull, tk_status := TActive\<rparr>)"
    by (simp add: consume_decision_def sql_tk_get_def sample_ticket_def)
  with pull_serves_published_copy [OF k r] r show ?thesis by auto
qed

end
