(* ===== verification/Boot.thy ===== *)
theory Boot
  imports Addons VersioningRouter PushSession
begin

text \<open>
  The entry point (\<open>src/index.ts\<close>): the order of the boot sequence, the rescue of repositories
  without roles, the activation of addons, and the two hooks with which the transfer engine calls
  the versioning services before and after a push.

  The services are created as the theories on them say. The order is that of \<open>main\<close>: license,
  services with the bootstrap administrator, rescue, addons, and only then the port is opened. What
  \<open>activate\<close> of an addon does is a parameter; it acts on the routes of the application and may throw.
\<close>

section \<open>Rescue of repositories without roles\<close>

text \<open>An error on one repository is logged and the loop goes on.\<close>

definition backfillOrphanedRepoAdmins ::
  "('u, 's) auth_env \<Rightarrow> repo_record list \<Rightarrow> string \<Rightarrow> ms \<Rightarrow> ('u, 's) auth_state \<Rightarrow> ('u, 's) auth_state" where
  "backfillOrphanedRepoAdmins E allRepos bootstrapAdminUsername now a =
     fold (\<lambda>repo s. snd (auth_backfillOrphanedRepoAdmin E (rp_repoId repo) bootstrapAdminUsername now s)) allRepos a"

section \<open>The hooks of the transfer engine\<close>

type_synonym ('u, 's, 'd, 'w) hook_state = "('u, 's, 'd, 'w) vr_state"

definition as_push_error :: "versioning_error \<Rightarrow> push_error" where
  "as_push_error e = PushOther (error_message e)"

text \<open>\<open>{ mode?, tables?, dryRun: parsed?.dryRun ?? false }\<close>\<close>

definition push_overrides :: "push_ticket_sync_options option \<Rightarrow> push_ticket_sync_options" where
  "push_overrides parsed =
     \<lparr>so_mode = Option.bind parsed so_mode, so_tables = Option.bind parsed so_tables,
      so_dryRun = Some (case Option.bind parsed so_dryRun of Some b \<Rightarrow> b | None \<Rightarrow> False)\<rparr>"

text \<open>The part of \<open>onBeforePush\<close> that creates a repository on its first push.\<close>

definition auto_create ::
  "('u, 's, 'd, 'w) vr_env \<Rightarrow> ms \<Rightarrow> string \<Rightarrow> string \<Rightarrow> (('u, 's, 'd, 'w) hook_state, push_error, unit) op" where
  "auto_create V now repo username = (\<lambda>(a, d, w).
     if provisioning_get (ve_repos V) repo d = None \<and> isProvisionable repo
     then if \<not> auth_canUserCreateRepos (ve_auth V) username a
          then (Inl (PushAborted (''User \"'' @ username @
                  ''\" cannot create repos - ask a global admin to grant canCreateRepos'')), a, d, w)
          else case provision (ve_repos V) repo username now (d, w) of
                 (Inl e, d', w') \<Rightarrow> (Inl (as_push_error e), a, d', w')
               | (Inr record, d', w') \<Rightarrow>
                   (case auth_grantRepoAdminToCreator (ve_auth V) (rp_repoId record) username now a of
                      (Inl e, a') \<Rightarrow> (Inl (PushOther (err_message e)), a', d', w')
                    | (Inr _, a') \<Rightarrow> (Inr (), a', d', w'))
     else (Inr (), a, d, w))"

definition onBeforePush ::
  "('u, 's, 'd, 'w) vr_env \<Rightarrow> ms \<Rightarrow> string \<Rightarrow> string \<Rightarrow> string \<Rightarrow> push_ticket_sync_options option \<Rightarrow>
   (('u, 's, 'd, 'w) hook_state, push_error, push_preparation) op" where
  "onBeforePush V now repo username stagingPath syncOptions =
     and_then (auto_create V now repo username) (\<lambda>_ (a, d, w).
     if provisioning_get (ve_repos V) repo d = None
     then (Inr \<lparr>pp_repo = repo, pp_username = username, pp_stagingPath = stagingPath,
                pp_dryRun = the (so_dryRun (push_overrides syncOptions)), pp_resolvedTables = None\<rparr>, a, d, w)
     else case validatePushOptions (ve_sync V) repo (Some (push_overrides syncOptions)) (d, w) of
            (Inl e, d', w') \<Rightarrow> (Inl (as_push_error e), a, d', w')
          | (Inr validation, d', w') \<Rightarrow>
              (Inr \<lparr>pp_repo = repo, pp_username = username, pp_stagingPath = stagingPath,
                    pp_dryRun = pv_dryRun validation, pp_resolvedTables = pv_resolvedTables validation\<rparr>, a, d', w'))"

definition onPushCommitted ::
  "('u, 's, 'd, 'w) vr_env \<Rightarrow> 'w run_commit \<Rightarrow> string \<Rightarrow> string \<Rightarrow> string \<Rightarrow> string \<Rightarrow> string list option \<Rightarrow>
   (('u, 's, 'd, 'w) hook_state, push_error, unit) op" where
  "onPushCommitted V run repo username jobId checksum resolvedTables = (\<lambda>(a, d, w).
     case recordPush (ve_store V) run repo username jobId checksum resolvedTables (d, w) of
       (Inl e, d', w') \<Rightarrow> (Inl (as_push_error e), a, d', w')
     | (Inr _, d', w') \<Rightarrow> (Inr (), a, d', w'))"

section \<open>Addons\<close>

text \<open>The loop over the loaded addons: an error of \<open>activate\<close> leaves the loop.\<close>

fun activate_addons ::
  "('m \<Rightarrow> string \<Rightarrow> string list \<Rightarrow> ('app, string, unit) op) \<Rightarrow> 'm loaded_addon list \<Rightarrow> ('app, string, unit) op" where
  "activate_addons activate [] = ret ()"
| "activate_addons activate (addon # rest) =
     (if ''http:route'' \<in> set (am_capabilities (la_manifest addon))
      then and_then (activate (la_module addon) (am_name (la_manifest addon)) (am_capabilities (la_manifest addon)))
             (\<lambda>_. activate_addons activate rest)
      else activate_addons activate rest)"

section \<open>main\<close>

text \<open>
  \<open>bt_ensureAdmin\<close> are the credentials of the bootstrap administrator that \<open>createAuthService\<close> applies;
  \<open>bt_paths\<close>, \<open>bt_free\<close> and \<open>bt_adminUsername\<close> are the environment variables.
\<close>

record ('u, 's, 'd, 'w, 't, 'k, 'm, 'app) boot_env =
  bt_license :: "('w, 'k) license_env"
  bt_versioning :: "('u, 's, 'd, 'w) vr_env"
  bt_ensureAdmin :: "(string \<times> string) option"
  bt_adminUsername :: "string option"
  bt_addons :: "('t, 'w, 'k, 'm) addon_deps"
  bt_paths :: string
  bt_free :: string
  bt_activate :: "'m \<Rightarrow> string \<Rightarrow> string list \<Rightarrow> ('app, string, unit) op"

record ('u, 's, 'd, 'w, 't, 'app) boot_state =
  bs_auth :: "('u, 's) auth_state"
  bs_repos :: 'd
  bs_trust :: 't
  bs_world :: 'w
  bs_app :: 'app

datatype boot_outcome = ExitedWith nat | Listening

text \<open>The dependencies of the loader that \<open>main\<close> builds from the license and the environment.\<close>

definition boot_addon_deps ::
  "('u, 's, 'd, 'w, 't, 'k, 'm, 'app) boot_env \<Rightarrow> license_payload \<Rightarrow> ('t, 'w, 'k, 'm) addon_deps" where
  "boot_addon_deps B license =
     (bt_addons B)\<lparr>ld_officialPublicKey := li_publicKeyMaterial (bt_license B),
                    ld_addonsConfig := resolveLicenseAddonsConfig license,
                    ld_freeOfficialAddons := filter (\<lambda>n. n \<noteq> []) (map js_trim (js_split (CHR '','') (bt_free B)))\<rparr>"

definition boot ::
  "('u, 's, 'd, 'w, 't, 'k, 'm, 'app) boot_env \<Rightarrow> ms \<Rightarrow> ms \<Rightarrow> ('u, 's, 'd, 'w, 't, 'app) boot_state \<Rightarrow>
   boot_outcome \<times> ('u, 's, 'd, 'w, 't, 'app) boot_state" where
  "boot B now now' s =
     (case validateOnBoot (bt_license B) now now' (bs_world s) of
        (LicenseInvalid _, w) \<Rightarrow> (ExitedWith 1, s\<lparr>bs_world := w\<rparr>)
      | (LicenseValid license, w) \<Rightarrow>
          (let s1 = s\<lparr>bs_world := w\<rparr>; E = ve_auth (bt_versioning B) in
           case auth_ensureBootstrapAdmin E (bt_ensureAdmin B) now' (bs_auth s1) of
             (Inl _, a) \<Rightarrow> (ExitedWith 1, s1\<lparr>bs_auth := a\<rparr>)
           | (Inr _, a) \<Rightarrow>
               (let a' = (case bt_adminUsername B of
                            Some (c # cs) \<Rightarrow>
                              backfillOrphanedRepoAdmins E (provisioning_list (ve_repos (bt_versioning B)) (bs_repos s1)) (c # cs) now' a
                          | _ \<Rightarrow> a);
                    s2 = s1\<lparr>bs_auth := a'\<rparr> in
                case discoverAndLoadAddons (boot_addon_deps B license) (bt_paths B) (bs_trust s2) (bs_world s2) of
                  (Inl _, w') \<Rightarrow> (ExitedWith 1, s2\<lparr>bs_world := w'\<rparr>)
                | (Inr discovered, w') \<Rightarrow>
                    (case activate_addons (bt_activate B) (dr_loaded discovered) (bs_app s2) of
                       (Inl _, app) \<Rightarrow> (ExitedWith 1, s2\<lparr>bs_world := w', bs_app := app\<rparr>)
                     | (Inr _, app) \<Rightarrow> (Listening, s2\<lparr>bs_world := w', bs_app := app\<rparr>)))))"

section \<open>What the rescue does\<close>

definition orphaned :: "string \<Rightarrow> auth_db \<Rightarrow> bool" where
  "orphaned repo a \<longleftrightarrow> (\<forall>j. sql_users_getRepoRole j repo (au_users a) = None)"

lemma listRoles_orphaned:
  assumes "auth_ok a"
  shows "sql_users_listRepoRoles repo (au_users a) = [] \<longleftrightarrow> orphaned repo a"
proof -
  have iff: "(\<exists>x \<in> set (sql_users_listRepoRoles repo (au_users a)). ra_username x = j \<and> ra_role x = role) \<longleftrightarrow>
      sql_users_getRepoRole j repo (au_users a) = Some role" for j role
    using assms by (intro sql_listRoles_iff) (simp add: auth_ok_def)
  show ?thesis
  proof (cases "sql_users_listRepoRoles repo (au_users a)")
    case Nil
    have "sql_users_getRepoRole j repo (au_users a) = None" for j
      using iff [of j] Nil by (cases "sql_users_getRepoRole j repo (au_users a)") auto
    with Nil show ?thesis by (simp add: orphaned_def)
  next
    case (Cons x xs)
    with iff [of "ra_username x" "ra_role x"] show ?thesis by (auto simp: orphaned_def)
  qed
qed

lemma grant_users:
  assumes "auth_ok a" and "auth_grantRepoRole (createAuthEnv fk cfg) name repo role by now a = (Inr x, a')"
  shows "sql_users_get k (au_users a') = sql_users_get k (au_users a)"
proof -
  obtain r where r: "let u = sql_users_upsertRepoRole fk
        \<lparr>ra_username = name, ra_repoId = repo, ra_role = r, ra_grantedAt = now, ra_grantedBy = by\<rparr> (au_users a)
      in fst u = Inr () \<and> snd u = au_users a'"
    using assms(2) assertUserExists_cases [of "createAuthEnv fk cfg" name a]
    by (auto simp: auth_grantRepoRole_def and_then_def on_part_apply Let_def split: option.splits prod.splits sum.splits
        simp del: parse_role.simps)
  let ?x = "\<lparr>ra_username = name, ra_repoId = repo, ra_role = r, ra_grantedAt = now, ra_grantedBy = by\<rparr>"
  have "sql_users_upsertRepoRole fk ?x (au_users a) = (Inr (), au_users a')"
    using r by (simp add: Let_def prod_eq_iff)
  from sql_upsert_law [OF _ this] assms(1) show ?thesis by (simp add: auth_ok_def)
qed

lemma backfill_one:
  assumes "auth_ok a" and "auth_backfillOrphanedRepoAdmin (createAuthEnv fk cfg) repo admin now a = (x, a')"
  shows "auth_ok a'" and "sql_users_get k (au_users a') = sql_users_get k (au_users a)"
    and "sql_users_getRepoRole j i (au_users a') =
      (if i = repo \<and> orphaned repo a \<and> j = admin \<and> sql_users_get admin (au_users a) \<noteq> None then Some Admin
       else sql_users_getRepoRole j i (au_users a))"
proof -
  let ?E = "createAuthEnv fk cfg"
  show "auth_ok a'"
    using libsql_auth.ainvar_step [unfolded libsql_auth_invar, OF assms(1), of fk cfg "CBackfill repo admin now"] assms(2) by simp
  have "sql_users_get k (au_users a') = sql_users_get k (au_users a) \<and> sql_users_getRepoRole j i (au_users a') =
      (if i = repo \<and> orphaned repo a \<and> j = admin \<and> sql_users_get admin (au_users a) \<noteq> None then Some Admin
       else sql_users_getRepoRole j i (au_users a))"
  proof (cases "orphaned repo a \<and> sql_users_get admin (au_users a) \<noteq> None")
    case False
    then have "a' = a"
      using assms listRoles_orphaned [OF assms(1), of repo]
      by (auto simp: auth_backfillOrphanedRepoAdmin_def auth_listRepoRoles_def split: option.splits)
    with False show ?thesis by auto
  next
    case True
    then obtain u where u: "sql_users_get admin (au_users a) = Some u" by auto
    obtain y a1 where g: "auth_grantRepoRole ?E admin repo ''admin'' ''orphaned-repo-backfill'' now a = (y, a1)"
      by (cases "auth_grantRepoRole ?E admin repo ''admin'' ''orphaned-repo-backfill'' now a")
    have role: "parse_role ''admin'' = Some Admin" by simp
    obtain z where z: "y = Inr z"
      using grant_result(2) [OF assms(1), of fk cfg admin repo "''admin''" "''orphaned-repo-backfill''" now] g u role
      by (cases y) auto
    have "a' = a1"
      using True assms(2) g z u listRoles_orphaned [OF assms(1), of repo]
      by (auto simp: auth_backfillOrphanedRepoAdmin_def auth_listRepoRoles_def and_then_def)
    with grant_result(1) [OF assms(1) g [unfolded z]] grant_users [OF assms(1) g [unfolded z]] True role
    show ?thesis by auto
  qed
  then show "sql_users_get k (au_users a') = sql_users_get k (au_users a)"
    and "sql_users_getRepoRole j i (au_users a') =
      (if i = repo \<and> orphaned repo a \<and> j = admin \<and> sql_users_get admin (au_users a) \<noteq> None then Some Admin
       else sql_users_getRepoRole j i (au_users a))"
    by simp_all
qed

text \<open>
  The rescue at boot gives the bootstrap administrator, if the account exists, the role of an
  administrator on exactly the registered repositories nobody has a role on; every other assignment
  and every account stays as it is.
\<close>

theorem rescue_only_orphans:
  assumes "auth_ok a"
  shows "let a' = backfillOrphanedRepoAdmins (createAuthEnv fk cfg) repos admin now a
    in (\<forall>k. sql_users_get k (au_users a') = sql_users_get k (au_users a)) \<and>
       (\<forall>j i. sql_users_getRepoRole j i (au_users a') =
          (if i \<in> rp_repoId ` set repos \<and> orphaned i a \<and> j = admin \<and> sql_users_get admin (au_users a) \<noteq> None
           then Some Admin else sql_users_getRepoRole j i (au_users a)))"
  using assms
proof (induction repos arbitrary: a)
  case Nil
  then show ?case by (simp add: backfillOrphanedRepoAdmins_def)
next
  case (Cons r repos)
  let ?E = "createAuthEnv fk cfg"
  obtain x a1 where b: "auth_backfillOrphanedRepoAdmin ?E (rp_repoId r) admin now a = (x, a1)"
    by (cases "auth_backfillOrphanedRepoAdmin ?E (rp_repoId r) admin now a")
  note one = backfill_one [OF Cons.prems b]
  have run: "backfillOrphanedRepoAdmins ?E (r # repos) admin now a = backfillOrphanedRepoAdmins ?E repos admin now a1"
    by (simp add: backfillOrphanedRepoAdmins_def b)
  have orph: "orphaned i a1 \<longleftrightarrow> orphaned i a \<and> \<not> (i = rp_repoId r \<and> sql_users_get admin (au_users a) \<noteq> None)" for i
  proof -
    have "sql_users_getRepoRole j i (au_users a1) = None \<longleftrightarrow> sql_users_getRepoRole j i (au_users a) = None \<and>
        \<not> (i = rp_repoId r \<and> orphaned i a \<and> j = admin \<and> sql_users_get admin (au_users a) \<noteq> None)" for j
      using one(3) [of j i] by (cases "i = rp_repoId r") simp_all
    then show ?thesis unfolding orphaned_def by blast
  qed
  note ih = Cons.IH [OF one(1), unfolded Let_def]
  show ?case
    unfolding run Let_def
  proof (intro conjI allI)
    fix k show "sql_users_get k (au_users (backfillOrphanedRepoAdmins ?E repos admin now a1)) = sql_users_get k (au_users a)"
      using ih one(2) by simp
  next
    fix j i
    have "sql_users_getRepoRole j i (au_users (backfillOrphanedRepoAdmins ?E repos admin now a1)) =
        (if i \<in> rp_repoId ` set repos \<and> orphaned i a1 \<and> j = admin \<and> sql_users_get admin (au_users a1) \<noteq> None
         then Some Admin else sql_users_getRepoRole j i (au_users a1))"
      using ih by blast
    then show "sql_users_getRepoRole j i (au_users (backfillOrphanedRepoAdmins ?E repos admin now a1)) =
        (if i \<in> rp_repoId ` set (r # repos) \<and> orphaned i a \<and> j = admin \<and> sql_users_get admin (au_users a) \<noteq> None
         then Some Admin else sql_users_getRepoRole j i (au_users a))"
      unfolding one(2) [of admin] one(3) [of j i] orph [of i]
      by (cases "sql_users_get admin (au_users a)"; cases "i = rp_repoId r") simp_all
  qed
qed

theorem rescue_only_orphans_witness:
  "sql_users_getRepoRole ''ann'' ''old''
     (au_users (backfillOrphanedRepoAdmins (createAuthEnv True sample_cfg)
        [\<lparr>rp_repoId = ''old'', rp_doltPath = ''/r/old'', rp_createdAt = 0, rp_createdBy = ''zoe''\<rparr>] ''ann'' 5 sample_db)) = Some Admin"
proof -
  have "orphaned ''old'' sample_db" by (simp add: orphaned_def sql_users_getRepoRole_def)
  with rescue_only_orphans [OF sample_ok, of True sample_cfg
      "[\<lparr>rp_repoId = ''old'', rp_doltPath = ''/r/old'', rp_createdAt = 0, rp_createdBy = ''zoe''\<rparr>]" "''ann''" 5]
  show ?thesis by (simp add: Let_def)
qed

section \<open>When the server listens\<close>

lemma ensureBootstrapAdmin_returns:
  assumes "auth_ok a"
  shows "\<exists>a'. auth_ensureBootstrapAdmin (createAuthEnv fk cfg) cr now a = (Inr (), a')"
proof -
  have ok: "user_db_ok (au_users a)" using assms by (simp add: auth_ok_def)
  have cnt: "sql_users_count (au_users a) = 0 \<longleftrightarrow> (\<forall>k. sql_users_get k (au_users a) = None)"
    using libsql_auth.count_zero_iff [of a fk cfg] assms by (simp add: libsql_auth_invar)
  show ?thesis
    using cnt sql_tryFirst_law(2) [OF ok]
    by (auto simp: auth_ensureBootstrapAdmin_def and_then_def Let_def split: option.splits)
qed

lemma discover_Inr:
  "discoverAndLoadAddons D csv t w = (Inr r, w') \<longleftrightarrow>
     (\<exists>tiers w1. peek_all D (addon_dirs csv) w = (tiers, w1) \<and>
        (case ac_maxCommunityAddons (ld_addonsConfig D) of None \<Rightarrow> True
         | Some n \<Rightarrow> int (length (filter (\<lambda>x. x = Some CommunityAddon) tiers)) \<le> n) \<and>
        load_all D t (addon_dirs csv) w1 = (r, w'))"
proof -
  obtain tiers w1 where p: "peek_all D (addon_dirs csv) w = (tiers, w1)" by (cases "peek_all D (addon_dirs csv) w")
  obtain r1 w2 where l: "load_all D t (addon_dirs csv) w1 = (r1, w2)" by (cases "load_all D t (addon_dirs csv) w1")
  show ?thesis
    by (auto simp: discoverAndLoadAddons_def and_then_Inr assertWithinCommunityAddonLimit_def p l split: option.splits)
qed

text \<open>
  On the libSQL stores the server listens exactly when the license is valid, the number of
  community addons found is within the license, and no addon throws while it is activated. An addon
  that fails to load does not keep the server from listening; one that throws in \<open>activate\<close>, or one
  community addon too many, does.
\<close>

theorem boot_listens_iff:
  assumes "ve_auth (bt_versioning B) = createAuthEnv fk cfg" and "auth_ok (bs_auth s)"
  shows "fst (boot B now now' s) = Listening \<longleftrightarrow>
    (\<exists>license w tiers w1 discovered w' app.
       validateOnBoot (bt_license B) now now' (bs_world s) = (LicenseValid license, w) \<and>
       peek_all (boot_addon_deps B license) (addon_dirs (bt_paths B)) w = (tiers, w1) \<and>
       (case ac_maxCommunityAddons (resolveLicenseAddonsConfig license) of None \<Rightarrow> True
        | Some n \<Rightarrow> int (length (filter (\<lambda>x. x = Some CommunityAddon) tiers)) \<le> n) \<and>
       load_all (boot_addon_deps B license) (bs_trust s) (addon_dirs (bt_paths B)) w1 = (discovered, w') \<and>
       activate_addons (bt_activate B) (dr_loaded discovered) (bs_app s) = (Inr (), app))"
proof -
  obtain a where a: "auth_ensureBootstrapAdmin (createAuthEnv fk cfg) (bt_ensureAdmin B) now' (bs_auth s) = (Inr (), a)"
    using ensureBootstrapAdmin_returns [OF assms(2)] by blast
  have "fst (boot B now now' s) = Listening \<longleftrightarrow>
    (\<exists>license w discovered w' app.
       validateOnBoot (bt_license B) now now' (bs_world s) = (LicenseValid license, w) \<and>
       discoverAndLoadAddons (boot_addon_deps B license) (bt_paths B) (bs_trust s) w = (Inr discovered, w') \<and>
       activate_addons (bt_activate B) (dr_loaded discovered) (bs_app s) = (Inr (), app))"
    by (auto simp: boot_def assms(1) a Let_def split: prod.splits validation_result.splits sum.splits)
  then show ?thesis unfolding discover_Inr by (simp add: boot_addon_deps_def) blast
qed

text \<open>A server with one community addon and a license for it.\<close>

definition demo_license :: "(unit, string) license_env" where
  "demo_license =
     \<lparr>li_licenseKey = ''e30.AAEC'', li_publicKeyMaterial = demo_key, li_clockToleranceMs = 0,
      li_dolt = (\<lambda>args w. (\<lparr>cr_exitCode = 0, cr_stdout = ''date'', cr_stderr = []\<rparr>, w)), li_doltRepoPath = ''/d'',
      li_jsonParse = (\<lambda>s. if s = ''{}'' then Some demo_payload else None),
      li_dateParse = (\<lambda>d. if d = [] then None else Some 100), li_toISOString = (\<lambda>_. []),
      li_crypto = \<lparr>cy_pemKey = Inr, cy_rawKey = Inr, cy_verify = (\<lambda>_ _ _. Some True)\<rparr>\<rparr>"

definition demo_boot :: "(user_db, session_row list, repo_db, unit, trust_db, string, string, string list) boot_env" where
  "demo_boot =
     \<lparr>bt_license = demo_license, bt_versioning = sample_vr_env, bt_ensureAdmin = None, bt_adminUsername = Some ''ann'',
      bt_addons = demo_deps, bt_paths = ''/opt/clock'', bt_free = [], bt_activate = (\<lambda>m _ _ app. (Inr (), m # app))\<rparr>"

definition demo_boot_state :: "(user_db, session_row list, repo_db, unit, trust_db, string list) boot_state" where
  "demo_boot_state = \<lparr>bs_auth = sample_db, bs_repos = sample_repo_db, bs_trust = demo_trust, bs_world = (), bs_app = []\<rparr>"

theorem boot_listens_iff_witness:
  "fst (boot demo_boot 1 2 demo_boot_state) = Listening \<and>
   (\<exists>license w. validateOnBoot (bt_license demo_boot) 1 2 () = (LicenseValid license, w))"
proof -
  have l: "fst (boot demo_boot 1 2 demo_boot_state) = Listening" by code_simp
  have "ve_auth (bt_versioning demo_boot) = createAuthEnv True sample_cfg" "auth_ok (bs_auth demo_boot_state)"
    by (simp_all add: demo_boot_def demo_boot_state_def)
  from boot_listens_iff [OF this, of 1 2] l show ?thesis by (auto simp: demo_boot_state_def)
qed

section \<open>The first push to a repository\<close>

text \<open>Operations that leave the registry alone.\<close>

definition keeps_registry :: "('d \<times> 'w, 'e, 'a) op \<Rightarrow> bool" where
  "keeps_registry m \<longleftrightarrow> (\<forall>s. fst (snd (m s)) = fst s)"

lemma keeps_and_then:
  assumes "keeps_registry m" and "\<And>x. keeps_registry (f x)"
  shows "keeps_registry (and_then m f)"
  unfolding keeps_registry_def
proof
  fix s
  obtain r t where m: "m s = (r, t)" by (cases "m s")
  then have "fst t = fst s" using assms(1) unfolding keeps_registry_def by (metis snd_conv)
  with m assms(2) [unfolded keeps_registry_def, rule_format] show "fst (snd (and_then m f s)) = fst s"
    by (cases r) (simp_all add: and_then_def)
qed

lemma keeps_steps:
  "keeps_registry (ret x)" "keeps_registry (of_sum r)" "keeps_registry (sync_requireRepo S repo)"
  "keeps_registry (edges_for S rec nt)" "keeps_registry (assertNoExcludedDependencies plan)"
proof -
  show "keeps_registry (ret x)" "keeps_registry (of_sum r)"
    by (simp_all add: keeps_registry_def of_sum_def)
  show "keeps_registry (sync_requireRepo S repo)"
    by (auto simp: keeps_registry_def sync_requireRepo_def split: option.splits)
  show "keeps_registry (edges_for S rec nt)"
    unfolding keeps_registry_def using edges_for_keeps [OF prod.collapse [symmetric]] by blast
  show "keeps_registry (assertNoExcludedDependencies plan)"
    unfolding keeps_registry_def by (simp add: assertNoExcluded_keeps [OF prod.collapse [symmetric]] del: split_paired_All)
qed

lemma validatePushOptions_keeps: "keeps_registry (validatePushOptions S repo ov)"
proof -
  have inner: "keeps_registry (and_then (of_sum (normalizeTables nts)) (\<lambda>rt. and_then (edges_for S rec rt) (\<lambda>edges.
      and_then (assertNoExcludedDependencies (plan rt edges)) (\<lambda>_. ret (g rt edges)))))" for nts rec plan g
    by (intro keeps_and_then keeps_steps)
  show ?thesis
    unfolding validatePushOptions_def Let_def
    by (rule keeps_and_then [OF keeps_steps(3)]) (simp add: keeps_registry_def inner [unfolded keeps_registry_def])
qed

lemma onBeforePush_registry:
  assumes "re_store (ve_repos V) = libsqlRepoStore fk" and "ve_auth V = createAuthEnv fk' cfg"
    and "auth_ok a" and "registry_ok (re_rootPath (ve_repos V)) d"
    and "onBeforePush V now repo user path opts (a, d, w) = (r, a', d', w')"
  shows "registry_ok (re_rootPath (ve_repos V)) d' \<and>
    (if sql_rp_get repo d = None \<and> VALID_REPO_ID repo
     then if auth_canUserCreateRepos (ve_auth V) user a
          then \<forall>p. r = Inr p \<longrightarrow>
                 sql_rp_get repo d' = Some \<lparr>rp_repoId = repo, rp_doltPath = path_join (re_rootPath (ve_repos V)) repo,
                   rp_createdAt = now, rp_createdBy = user\<rparr> \<and>
                 auth_getRepoRole (ve_auth V) user repo a' = Some Admin
          else (\<exists>m. r = Inl (PushAborted m)) \<and> a' = a \<and> d' = d \<and> w' = w
     else a' = a \<and> d' = d)"
proof -
  let ?root = "re_rootPath (ve_repos V)"
  obtain q a1 d1 w1 where c: "auto_create V now repo user (a, d, w) = (q, a1, d1, w1)"
    by (cases "auto_create V now repo user (a, d, w)") auto
  have db: "repo_db_ok d" using assms(4) by (simp add: registry_ok_def)
  have rest: "a' = a1 \<and> d' = d1 \<and> (case q of Inl e \<Rightarrow> r = Inl e \<and> w' = w1 | Inr _ \<Rightarrow> True)"
    using assms(5) c validatePushOptions_keeps [of "ve_sync V" repo "Some (push_overrides opts)"]
    by (auto simp: onBeforePush_def and_then_def keeps_registry_def split: if_splits sum.splits prod.splits)
      (metis fst_conv snd_conv)+
  have get: "provisioning_get (ve_repos V) repo d = sql_rp_get repo d"
    by (simp add: provisioning_get_def assms(1))
  show ?thesis
  proof (cases "sql_rp_get repo d = None \<and> VALID_REPO_ID repo")
    case False
    then have "a1 = a" "d1 = d" using c by (auto simp: auto_create_def get isProvisionable_def split: if_splits)
    with False rest assms(4) show ?thesis by auto
  next
    case True
    show ?thesis
    proof (cases "auth_canUserCreateRepos (ve_auth V) user a")
      case False
      then show ?thesis
        using True c rest assms(4) by (auto simp: auto_create_def get isProvisionable_def split: if_splits)
    next
      case may: True
      obtain pr d2 w2 where p: "provision (ve_repos V) repo user now (d, w) = (pr, d2, w2)"
        by (cases "provision (ve_repos V) repo user now (d, w)") auto
      have d1: "d1 = d2"
        using True may c p by (auto simp: auto_create_def get isProvisionable_def split: sum.splits prod.splits)
      have reg: "registry_ok ?root d'"
        using provision_keeps_registry [OF assms(1,4), of repo user now w] p d1 rest by simp
      have "sql_rp_get repo d' = Some \<lparr>rp_repoId = repo, rp_doltPath = path_join ?root repo, rp_createdAt = now, rp_createdBy = user\<rparr> \<and>
          auth_getRepoRole (ve_auth V) user repo a' = Some Admin" if "r = Inr x" for x
      proof -
        from that rest have "q = Inr ()" by (cases q) auto
        with True may c p obtain rec g where rec: "pr = Inr rec"
          and g: "auth_grantRepoAdminToCreator (ve_auth V) (rp_repoId rec) user now a = (Inr g, a1)"
          by (auto simp: auto_create_def get isProvisionable_def split: sum.splits prod.splits)
        note n = provision_created [OF assms(1) db p [unfolded rec]]
        from g n(3) assms(2) have "sql_users_getRepoRole user repo (au_users a1) = Some Admin"
          using grant_result(1) [OF assms(3)] by (auto simp: auth_grantRepoAdminToCreator_def)
        with n d1 rest assms(2) show ?thesis by (auto simp: auth_getRepoRole_def)
      qed
      with True may reg show ?thesis by simp
    qed
  qed
qed

text \<open>
  A push to an id nobody has provisioned creates the repository only for a user who may create
  repositories: then a successful preparation leaves it registered under the root with the pusher as
  creator and administrator; any other user's push is refused and changes nothing. A push to a
  registered repository, or to an id that can never be provisioned, changes neither registry nor
  roles. In every case the registry keeps its invariant.
\<close>

theorem first_push_creates:
  assumes "re_store (ve_repos V) = libsqlRepoStore fk" and "ve_auth V = createAuthEnv fk' cfg"
    and "auth_ok a" and "registry_ok (re_rootPath (ve_repos V)) d"
    and "onBeforePush V now repo user path opts (a, d, w) = (r, a', d', w')"
  shows "registry_ok (re_rootPath (ve_repos V)) d' \<and>
    (if sql_rp_get repo d = None \<and> VALID_REPO_ID repo
     then if auth_canUserCreateRepos (ve_auth V) user a
          then \<forall>p. r = Inr p \<longrightarrow>
                 sql_rp_get repo d' = Some \<lparr>rp_repoId = repo, rp_doltPath = path_join (re_rootPath (ve_repos V)) repo,
                   rp_createdAt = now, rp_createdBy = user\<rparr> \<and>
                 auth_getRepoRole (ve_auth V) user repo a' = Some Admin
          else (\<exists>m. r = Inl (PushAborted m)) \<and> a' = a \<and> d' = d \<and> w' = w
     else a' = a \<and> d' = d)"
  by (rule onBeforePush_registry [OF assms])

theorem first_push_creates_witness:
  "\<exists>p a' d' w'. onBeforePush sample_vr_env 7 ''shop'' ''bob'' ''/s/1'' None sample_vr_state = (Inr p, a', d', w') \<and>
     auth_getRepoRole (ve_auth sample_vr_env) ''bob'' ''shop'' a' = Some Admin"
proof -
  let ?run = "onBeforePush sample_vr_env 7 ''shop'' ''bob'' ''/s/1'' None sample_vr_state"
  have "case ?run of (Inr p, _) \<Rightarrow> True | (Inl _, _) \<Rightarrow> False" by code_simp
  then obtain p a' d' w' where run: "?run = (Inr p, a', d', w')" by (cases ?run) (auto split: sum.splits)
  have reg: "registry_ok (re_rootPath (ve_repos sample_vr_env)) sample_repo_db" by code_simp
  have st: "re_store (ve_repos sample_vr_env) = libsqlRepoStore True" by (simp add: sample_vr_env_def)
  have "sql_rp_get ''shop'' sample_repo_db = None \<and> VALID_REPO_ID ''shop''" by code_simp
  moreover have "auth_canUserCreateRepos (ve_auth sample_vr_env) ''bob'' sample_db"
    by (simp add: auth_canUserCreateRepos_def)
  ultimately show ?thesis
    using first_push_creates [OF st sample_vr_auth sample_ok reg run] run by simp
qed

text \<open>Recording a push leaves the registry alone.\<close>

lemma onPushCommitted_keeps:
  "snd (onPushCommitted V run repo user job checksum tables (a, d, w)) = (a', d', w') \<Longrightarrow> a' = a \<and> d' = d"
  by (auto simp: onPushCommitted_def recordPush_def try_catch_def and_then_def on_world_apply
      split: option.splits prod.splits sum.splits)

end
