(* ===== verification/TlsDiscovery.thy ===== *)
theory TlsDiscovery
  imports AddonTrust
begin

text \<open>
  The discovery of the server's certificates (\<open>contexts/tls-discovery\<close>): the service that computes
  fingerprints (\<open>certificate-bootstrap.service.ts\<close>) and its unauthenticated, rate-limited route
  (\<open>certificate-bootstrap.router.ts\<close>). The limiter is that of the theory on rate limiters. SHA-256
  in hexadecimal is a parameter.
\<close>

section \<open>certificate-bootstrap.service.ts\<close>

text \<open>\<open>replace(/literal/g, '')\<close> for a non-empty literal.\<close>

function js_remove_all :: "string \<Rightarrow> string \<Rightarrow> string" where
  "js_remove_all p [] = []"
| "js_remove_all p (c # cs) =
     (if p \<noteq> [] \<and> js_startsWith (c # cs) p then js_remove_all p (drop (length p) (c # cs))
      else c # js_remove_all p cs)"
  by pat_completeness auto

termination
  by (relation "measure (\<lambda>(p, s). length s)") auto

definition js_upper_char :: "char \<Rightarrow> char" where
  "js_upper_char c = (if is_lower c then char_of ((of_char c :: nat) - 32) else c)"

text \<open>\<open>(digest.match(/.{1,2}/g) ?? []).join(':')\<close>\<close>

fun pairs_of :: "string \<Rightarrow> string list" where
  "pairs_of (a # b # r) = [a, b] # pairs_of r"
| "pairs_of [a] = [[a]]"
| "pairs_of [] = []"

definition pem_begin :: string where "pem_begin = ''-----BEGIN CERTIFICATE-----''"
definition pem_end :: string where "pem_end = ''-----END CERTIFICATE-----''"

definition pemToDer :: "string \<Rightarrow> string" where
  "pemToDer pem = base64_decode (filter (\<lambda>c. \<not> js_ws c) (js_remove_all pem_end (js_remove_all pem_begin pem)))"

definition pemToFingerprint :: "(string \<Rightarrow> string) \<Rightarrow> string \<Rightarrow> string" where
  "pemToFingerprint sha256hex pem = js_join '':'' (pairs_of (map js_upper_char (sha256hex (pemToDer pem))))"

record certificate_info =
  ci_pem :: string
  ci_sha256Fingerprint :: string

record bootstrap_certificates =
  bc_http :: "certificate_info option"
  bc_grpc :: certificate_info

text \<open>The constructor; an absent and an empty HTTP certificate are treated alike.\<close>

definition certificateBootstrapService :: "(string \<Rightarrow> string) \<Rightarrow> string option \<Rightarrow> string \<Rightarrow> bootstrap_certificates" where
  "certificateBootstrapService sha256hex httpCertPem grpcCertPem =
     \<lparr>bc_http = (case httpCertPem of
         Some (c # cs) \<Rightarrow> Some \<lparr>ci_pem = c # cs, ci_sha256Fingerprint = pemToFingerprint sha256hex (c # cs)\<rparr>
       | _ \<Rightarrow> None),
      bc_grpc = \<lparr>ci_pem = grpcCertPem, ci_sha256Fingerprint = pemToFingerprint sha256hex grpcCertPem\<rparr>\<rparr>"

section \<open>certificate-bootstrap.router.ts\<close>

definition sourceKey :: "string option \<Rightarrow> string" where
  "sourceKey forwardedFor =
     (case forwardedFor of
        Some (c # cs) \<Rightarrow> js_trim (hd (js_split (CHR '','') (c # cs)))
      | _ \<Rightarrow> ''unknown'')"

datatype bootstrap_body = BBError string | BBCertificates "certificate_info option" certificate_info

text \<open>The limiter reads the clock for the check (\<open>now\<close>) and for the record (\<open>now'\<close>).\<close>

definition get_certificate ::
  "bootstrap_certificates \<Rightarrow> string option \<Rightarrow> ms \<Rightarrow> ms \<Rightarrow> attempts \<Rightarrow> bootstrap_body response \<times> attempts" where
  "get_certificate certificates forwardedFor now now' s =
     (let key = sourceKey forwardedFor; (allowed, s') = bootstrap_isAllowed MAX_REQUESTS_PER_WINDOW WINDOW_MS key now s
      in if \<not> allowed then (reply 429 (BBError ''Too many requests''), s')
         else (reply 200 (BBCertificates (bc_http certificates) (bc_grpc certificates)),
               bootstrap_recordAttempt WINDOW_MS key now' s'))"

section \<open>How often the certificates are served\<close>

type_synonym cert_request = "string option \<times> ms \<times> ms"

text \<open>A sequence of requests, with the keys and times of those that were served.\<close>

fun served :: "bootstrap_certificates \<Rightarrow> cert_request list \<Rightarrow> attempts \<Rightarrow> (string \<times> ms) list" where
  "served certs [] s = []"
| "served certs ((h, t1, t2) # rs) s =
     (let (r, s') = get_certificate certs h t1 t2 s
      in (if rs_status r = 200 then [(sourceKey h, t2)] else []) @ served certs rs s')"

definition as_attempts :: "cert_request list \<Rightarrow> attempt list" where
  "as_attempts rs = map (\<lambda>(h, t1, t2). (sourceKey h, t1, t2)) rs"

lemma served_limiter:
  "served certs rs s =
     limiter_run (bootstrap_isAllowed MAX_REQUESTS_PER_WINDOW WINDOW_MS) (bootstrap_recordAttempt WINDOW_MS) (as_attempts rs) s"
  by (induction certs rs s rule: served.induct)
     (auto simp: as_attempts_def get_certificate_def Let_def split: prod.splits bool.splits)

text \<open>
  For one source key the certificates are served at most forty times in any minute, if the clock
  does not run backwards.
\<close>

theorem bootstrap_requests_bounded:
  assumes "clocked t0 (as_attempts rs)"
  shows "accepted_in key lo (lo + WINDOW_MS) (served certs rs Map.empty) \<le> 40"
  using bootstrap_window.accepted_bound [OF assms, of Map.empty key lo]
  by (simp add: served_limiter MAX_REQUESTS_PER_WINDOW_def)

theorem bootstrap_requests_bounded_witness:
  "accepted_in ''unknown'' 0 60000
     (served (certificateBootstrapService (\<lambda>_. []) None ''pem'') [(None, 1, 1), (Some '''', 2, 3)] Map.empty) \<le> 40"
  using bootstrap_requests_bounded [of 0 "[(None, 1, 1), (Some '''', 2, 3)]" "''unknown''" 0
      "certificateBootstrapService (\<lambda>_. []) None ''pem''"]
  by (simp add: as_attempts_def WINDOW_MS_def)

lemma served_fresh:
  assumes "distinct (map (\<lambda>r. sourceKey (fst r)) rs)" and "\<forall>r \<in> set rs. s (sourceKey (fst r)) = None"
  shows "length (served certs rs s) = length rs"
  using assms
proof (induction rs arbitrary: s)
  case (Cons r rs)
  obtain h t1 t2 where r: "r = (h, t1, t2)" by (cases r)
  let ?s = "s(sourceKey h \<mapsto> \<lparr>w_count = 1, w_windowStartedAt = t2\<rparr>)"
  have "s (sourceKey h) = None" using Cons.prems(2) by (simp add: r)
  then have "get_certificate certs h t1 t2 s = (reply 200 (BBCertificates (bc_http certs) (bc_grpc certs)), ?s)"
    by (simp add: get_certificate_def bootstrap_isAllowed_def bootstrap_recordAttempt_def Let_def)
  moreover have "length (served certs rs ?s) = length rs"
    using Cons.prems by (intro Cons.IH) (auto simp: r image_iff)
  ultimately show ?case by (simp add: r)
qed simp

text \<open>
  The limit does not bind a client that varies the \<open>X-Forwarded-For\<close> header: requests with pairwise
  different first entries are all served, however many there are and however fast they arrive.
\<close>

theorem bootstrap_limit_evaded:
  assumes "distinct (map (\<lambda>(h, _, _). sourceKey h) rs)"
  shows "length (served certs rs Map.empty) = length rs"
  by (rule served_fresh) (use assms in \<open>simp_all add: split_def\<close>)

theorem bootstrap_limit_evaded_witness:
  "length (served (certificateBootstrapService (\<lambda>_. []) None ''pem'')
     (map (\<lambda>n. (Some (js_of_nat n), 0, 0)) [0..<25]) Map.empty) = 25"
  using bootstrap_limit_evaded [of "map (\<lambda>n. (Some (js_of_nat n), 0, 0)) [0..<25]"] by code_simp

section \<open>Fingerprints\<close>

lemma js_remove_all_skip:
  "CHR ''-'' \<notin> set s \<Longrightarrow> js_remove_all (CHR ''-'' # p) (s @ t) = s @ js_remove_all (CHR ''-'' # p) t"
  by (induction s) (auto simp: js_startsWith_def)

lemma js_remove_all_absent: "c \<in> set p \<Longrightarrow> c \<notin> set s \<Longrightarrow> js_remove_all p s = s"
proof (induction s)
  case (Cons a s)
  have "\<not> js_startsWith (a # s) p"
  proof
    assume "js_startsWith (a # s) p"
    then obtain r where "a # s = p @ r" by (auto simp: js_startsWith_iff)
    then have "set p \<subseteq> set (a # s)" by (metis set_append Un_upper1)
    with Cons.prems show False by blast
  qed
  with Cons show ?case by simp
qed simp

lemma js_remove_all_hit: "p \<noteq> [] \<Longrightarrow> js_remove_all p (p @ t) = js_remove_all p t"
  by (cases p) (auto simp: js_startsWith_def)

text \<open>
  The fingerprint is that of the certificate and not of its text: whatever white space breaks the
  base64 body into lines, the bytes that are hashed are the bytes that were encoded.
\<close>

theorem pem_layout_irrelevant:
  assumes "filter (\<lambda>c. \<not> js_ws c) body = toString_base64 der"
    and "list_all js_ws front" and "list_all js_ws back"
  shows "pemToDer (front @ pem_begin @ body @ pem_end @ back) = der"
proof -
  have ws: "CHR ''-'' \<notin> set u" if "list_all js_ws u" for u
  proof -
    have "\<not> js_ws CHR ''-''" by code_simp
    with that show ?thesis by (auto simp: list_all_iff)
  qed
  have body: "CHR ''-'' \<notin> set body"
  proof
    assume "CHR ''-'' \<in> set body"
    moreover have "\<not> js_ws CHR ''-''" by code_simp
    ultimately have "CHR ''-'' \<in> set (toString_base64 der)" unfolding assms(1) [symmetric] by simp
    then show False using b64_encode_chars by (auto simp: toString_base64_def)
  qed
  obtain p where p: "pem_begin = CHR ''-'' # p" by (simp add: pem_begin_def)
  obtain q where q: "pem_end = CHR ''-'' # q" by (simp add: pem_end_def)
  have ends: "js_remove_all pem_begin (pem_end @ back) = pem_end @ back"
  proof (rule js_remove_all_absent)
    have "\<not> js_ws CHR ''B''" by code_simp
    with assms(3) show "CHR ''B'' \<notin> set (pem_end @ back)" by (auto simp: pem_end_def list_all_iff)
  qed (simp add: pem_begin_def)
  have "js_remove_all pem_begin (front @ pem_begin @ body @ pem_end @ back) = front @ body @ pem_end @ back"
    using js_remove_all_skip [OF ws [OF assms(2)], of p] js_remove_all_skip [OF body, of p] js_remove_all_hit [of pem_begin] ends
    by (simp add: p)
  moreover have "js_remove_all pem_end (front @ body @ pem_end @ back) = front @ body @ back"
    using js_remove_all_skip [OF ws [OF assms(2)], of q] js_remove_all_skip [OF body, of q] js_remove_all_hit [of pem_end]
      js_remove_all_skip [OF ws [OF assms(3)], of q "[]"]
    by (simp add: q)
  moreover have "filter (\<lambda>c. \<not> js_ws c) front = []" "filter (\<lambda>c. \<not> js_ws c) back = []"
    using assms(2,3) by (simp_all add: filter_empty_conv list_all_iff)
  ultimately show ?thesis by (simp add: pemToDer_def assms(1) base64_roundtrip)
qed

theorem pem_layout_irrelevant_witness:
  "pemToDer ([] @ pem_begin @ ([CHR 0x0A] @ ''aG'' @ [CHR 0x0A] @ ''kh'' @ [CHR 0x0A]) @ pem_end @ [CHR 0x0A]) = ''hi!''"
  by (rule pem_layout_irrelevant; code_simp)

end
