(* ===== verification/EnvSchema.thy ===== *)
theory EnvSchema
  imports Json AuthTypes "HOL-Library.Monad_Syntax"
begin

text \<open>
  The settings the server reads from environment variables (\<open>shared/env.ts\<close>): the schema with its
  required texts, numbers, switches and lists, the two rules on pairs of variables, and the cache
  of \<open>loadEnv\<close>. A failed parse throws; it is \<open>None\<close>. \<open>JSON.parse\<close> of \<open>DELTIX_LOCAL_USERS\<close> is
  the parameter \<open>parse\<close>. Record fields have the names of the variables.
\<close>

type_synonym env_vars = "(string \<times> string) list"

record env =
  DELTIX_LICENSE_PUBLIC_KEY :: string
  DELTIX_LICENSE_KEY :: string
  DELTIX_DOLT_REPO_PATH :: string
  DELTIX_CLOCK_TOLERANCE_MS :: int
  DELTIX_JWT_PRIVATE_KEY :: string
  DELTIX_JWT_PUBLIC_KEY :: string
  DELTIX_LOCAL_USERS :: "legacy_user list option"
  DELTIX_USER_DB_PATH :: string
  DELTIX_BOOTSTRAP_ADMIN_USERNAME :: "string option"
  DELTIX_BOOTSTRAP_ADMIN_PASSWORD :: "string option"
  DELTIX_SESSION_DB_PATH :: string
  DELTIX_ACCESS_TOKEN_TTL_SECONDS :: int
  DELTIX_SESSION_TTL_SECONDS :: int
  DELTIX_CORS_ALLOWED_ORIGINS :: "string list"
  DELTIX_ADMIN_UI_ENABLED :: bool
  DELTIX_TICKET_DB_PATH :: string
  DELTIX_TICKET_TTL_SECONDS :: int
  DELTIX_TRANSFER_JOB_DB_PATH :: string
  DELTIX_NAS_SIM_PATH :: string
  DELTIX_NAS_SYNC_BACKOFF_BASE_MS :: int
  DELTIX_NAS_SYNC_BACKOFF_MAX_MS :: int
  DELTIX_NAS_SYNC_POLL_INTERVAL_MS :: int
  DELTIX_TRANSFER_JOB_MAX_RETRIES :: int
  DELTIX_GRPC_PORT :: int
  DELTIX_GRPC_TLS_CERT_PATH :: string
  DELTIX_GRPC_TLS_KEY_PATH :: string
  DELTIX_STAGING_ROOT_PATH :: string
  DELTIX_ADDON_TRUST_DB_PATH :: string
  DELTIX_ADDON_PATHS :: string
  DELTIX_ADDON_FREE_OFFICIAL :: string
  DELTIX_ADDON_MAX_CONSECUTIVE_FAILURES :: int
  DELTIX_REPO_DB_PATH :: string
  DELTIX_DOLT_REPOS_ROOT_PATH :: string
  NODE_ENV :: string
  DELTIX_HTTP_TLS_CERT_PATH :: "string option"
  DELTIX_HTTP_TLS_KEY_PATH :: "string option"
  DELTIX_CERT_BOOTSTRAP_ENABLED :: bool

section \<open>The field types of the schema\<close>

text \<open>\<open>z.string().min(1)\<close>, the same with \<open>.optional()\<close>, and \<open>z.string().default(d)\<close>.\<close>

definition z_required :: "string option \<Rightarrow> string option" where
  "z_required v = (case v of None \<Rightarrow> None | Some s \<Rightarrow> if s = [] then None else Some s)"

definition z_optional :: "string option \<Rightarrow> string option option" where
  "z_optional v = (case v of None \<Rightarrow> Some None | Some s \<Rightarrow> if s = [] then None else Some (Some s))"

definition z_default :: "string \<Rightarrow> string option \<Rightarrow> string option" where
  "z_default d v = Some (case v of None \<Rightarrow> d | Some s \<Rightarrow> s)"

text \<open>\<open>z.coerce.number().int()\<close> with a least value (0 for \<open>nonnegative\<close>, 1 for \<open>positive\<close>) and a default.\<close>

definition z_int :: "int \<Rightarrow> int \<Rightarrow> string option \<Rightarrow> int option" where
  "z_int lo d v =
     (case v of
        None \<Rightarrow> Some d
      | Some s \<Rightarrow> (case js_Number s of None \<Rightarrow> None | Some n \<Rightarrow> if lo \<le> n then Some n else None))"

text \<open>A switch: every text but \<open>true\<close>, \<open>1\<close> and \<open>yes\<close> is off.\<close>

definition z_switch :: "string option \<Rightarrow> bool option" where
  "z_switch v =
     (case v of None \<Rightarrow> Some False | Some s \<Rightarrow> Some (js_toLowerCase s \<in> set [''true'', ''1'', ''yes'']))"

definition split_origins :: "string \<Rightarrow> string list" where
  "split_origins raw = filter (\<lambda>s. s \<noteq> []) (map js_trim (js_split CHR '','' raw))"

definition z_node_env :: "string option \<Rightarrow> string option" where
  "z_node_env v =
     (case v of
        None \<Rightarrow> Some ''development''
      | Some s \<Rightarrow> if s \<in> set [''development'', ''test'', ''production''] then Some s else None)"

definition localUserSchema :: "json \<Rightarrow> legacy_user option" where
  "localUserSchema j =
     (case (jfield ''username'' j, jfield ''passwordHash'' j) of
        (Some (JStr u), Some (JStr h)) \<Rightarrow>
          if u = [] \<or> h = [] then None else Some \<lparr>l_username = u, l_passwordHash = h\<rparr>
      | _ \<Rightarrow> None)"

fun all_some :: "'a option list \<Rightarrow> 'a list option" where
  "all_some [] = Some []"
| "all_some (None # xs) = None"
| "all_some (Some x # xs) = map_option ((#) x) (all_some xs)"

definition optionalLocalUsersSchema :: "(string \<Rightarrow> json option) \<Rightarrow> string option \<Rightarrow> legacy_user list option option" where
  "optionalLocalUsersSchema parse v =
     (case v of
        None \<Rightarrow> Some None
      | Some raw \<Rightarrow>
          if raw = [] then None
          else (case parse raw of
                  Some (JArr xs) \<Rightarrow>
                    if 1 \<le> length xs \<and> length xs \<le> 3 then map_option Some (all_some (map localUserSchema xs)) else None
                | _ \<Rightarrow> None))"

section \<open>The schema\<close>

definition envFields :: "(string \<Rightarrow> json option) \<Rightarrow> env_vars \<Rightarrow> env option" where
  "envFields parse src =
     (let v = map_of src
      in do {
        licensePublicKey \<leftarrow> z_required (v ''DELTIX_LICENSE_PUBLIC_KEY'');
        licenseKey \<leftarrow> z_required (v ''DELTIX_LICENSE_KEY'');
        doltRepoPath \<leftarrow> z_required (v ''DELTIX_DOLT_REPO_PATH'');
        clockToleranceMs \<leftarrow> z_int 0 5000 (v ''DELTIX_CLOCK_TOLERANCE_MS'');
        jwtPrivateKey \<leftarrow> z_required (v ''DELTIX_JWT_PRIVATE_KEY'');
        jwtPublicKey \<leftarrow> z_required (v ''DELTIX_JWT_PUBLIC_KEY'');
        localUsers \<leftarrow> optionalLocalUsersSchema parse (v ''DELTIX_LOCAL_USERS'');
        userDbPath \<leftarrow> z_default ''./data/users.db'' (v ''DELTIX_USER_DB_PATH'');
        bootstrapUsername \<leftarrow> z_optional (v ''DELTIX_BOOTSTRAP_ADMIN_USERNAME'');
        bootstrapPassword \<leftarrow> z_optional (v ''DELTIX_BOOTSTRAP_ADMIN_PASSWORD'');
        sessionDbPath \<leftarrow> z_required (v ''DELTIX_SESSION_DB_PATH'');
        accessTokenTtl \<leftarrow> z_int 1 900 (v ''DELTIX_ACCESS_TOKEN_TTL_SECONDS'');
        sessionTtl \<leftarrow> z_int 1 (7 * 24 * 60 * 60) (v ''DELTIX_SESSION_TTL_SECONDS'');
        origins \<leftarrow> z_default [] (v ''DELTIX_CORS_ALLOWED_ORIGINS'');
        adminUi \<leftarrow> z_switch (v ''DELTIX_ADMIN_UI_ENABLED'');
        ticketDbPath \<leftarrow> z_default ''./data/transfer-tickets.db'' (v ''DELTIX_TICKET_DB_PATH'');
        ticketTtl \<leftarrow> z_int 1 120 (v ''DELTIX_TICKET_TTL_SECONDS'');
        jobDbPath \<leftarrow> z_default ''./data/transfer-jobs.db'' (v ''DELTIX_TRANSFER_JOB_DB_PATH'');
        nasSimPath \<leftarrow> z_default ''./data/nas-sim'' (v ''DELTIX_NAS_SIM_PATH'');
        backoffBase \<leftarrow> z_int 1 1000 (v ''DELTIX_NAS_SYNC_BACKOFF_BASE_MS'');
        backoffMax \<leftarrow> z_int 1 60000 (v ''DELTIX_NAS_SYNC_BACKOFF_MAX_MS'');
        pollInterval \<leftarrow> z_int 1 5000 (v ''DELTIX_NAS_SYNC_POLL_INTERVAL_MS'');
        maxRetries \<leftarrow> z_int 1 5 (v ''DELTIX_TRANSFER_JOB_MAX_RETRIES'');
        grpcPort \<leftarrow> z_int 1 50051 (v ''DELTIX_GRPC_PORT'');
        grpcCert \<leftarrow> z_required (v ''DELTIX_GRPC_TLS_CERT_PATH'');
        grpcKey \<leftarrow> z_required (v ''DELTIX_GRPC_TLS_KEY_PATH'');
        stagingRoot \<leftarrow> z_default ''./data/staging'' (v ''DELTIX_STAGING_ROOT_PATH'');
        trustDbPath \<leftarrow> z_default ''./data/addon-trust.db'' (v ''DELTIX_ADDON_TRUST_DB_PATH'');
        addonPaths \<leftarrow> z_default [] (v ''DELTIX_ADDON_PATHS'');
        freeOfficial \<leftarrow> z_default [] (v ''DELTIX_ADDON_FREE_OFFICIAL'');
        maxFailures \<leftarrow> z_int 1 5 (v ''DELTIX_ADDON_MAX_CONSECUTIVE_FAILURES'');
        repoDbPath \<leftarrow> z_default ''./data/repos.db'' (v ''DELTIX_REPO_DB_PATH'');
        reposRoot \<leftarrow> z_default ''./data/dolt-repos'' (v ''DELTIX_DOLT_REPOS_ROOT_PATH'');
        nodeEnv \<leftarrow> z_node_env (v ''NODE_ENV'');
        httpCert \<leftarrow> z_optional (v ''DELTIX_HTTP_TLS_CERT_PATH'');
        httpKey \<leftarrow> z_optional (v ''DELTIX_HTTP_TLS_KEY_PATH'');
        certBootstrap \<leftarrow> z_switch (v ''DELTIX_CERT_BOOTSTRAP_ENABLED'');
        Some \<lparr>DELTIX_LICENSE_PUBLIC_KEY = licensePublicKey, DELTIX_LICENSE_KEY = licenseKey,
              DELTIX_DOLT_REPO_PATH = doltRepoPath, DELTIX_CLOCK_TOLERANCE_MS = clockToleranceMs,
              DELTIX_JWT_PRIVATE_KEY = jwtPrivateKey, DELTIX_JWT_PUBLIC_KEY = jwtPublicKey,
              DELTIX_LOCAL_USERS = localUsers, DELTIX_USER_DB_PATH = userDbPath,
              DELTIX_BOOTSTRAP_ADMIN_USERNAME = bootstrapUsername,
              DELTIX_BOOTSTRAP_ADMIN_PASSWORD = bootstrapPassword, DELTIX_SESSION_DB_PATH = sessionDbPath,
              DELTIX_ACCESS_TOKEN_TTL_SECONDS = accessTokenTtl, DELTIX_SESSION_TTL_SECONDS = sessionTtl,
              DELTIX_CORS_ALLOWED_ORIGINS = split_origins origins, DELTIX_ADMIN_UI_ENABLED = adminUi,
              DELTIX_TICKET_DB_PATH = ticketDbPath, DELTIX_TICKET_TTL_SECONDS = ticketTtl,
              DELTIX_TRANSFER_JOB_DB_PATH = jobDbPath, DELTIX_NAS_SIM_PATH = nasSimPath,
              DELTIX_NAS_SYNC_BACKOFF_BASE_MS = backoffBase, DELTIX_NAS_SYNC_BACKOFF_MAX_MS = backoffMax,
              DELTIX_NAS_SYNC_POLL_INTERVAL_MS = pollInterval, DELTIX_TRANSFER_JOB_MAX_RETRIES = maxRetries,
              DELTIX_GRPC_PORT = grpcPort, DELTIX_GRPC_TLS_CERT_PATH = grpcCert,
              DELTIX_GRPC_TLS_KEY_PATH = grpcKey, DELTIX_STAGING_ROOT_PATH = stagingRoot,
              DELTIX_ADDON_TRUST_DB_PATH = trustDbPath, DELTIX_ADDON_PATHS = addonPaths,
              DELTIX_ADDON_FREE_OFFICIAL = freeOfficial, DELTIX_ADDON_MAX_CONSECUTIVE_FAILURES = maxFailures,
              DELTIX_REPO_DB_PATH = repoDbPath, DELTIX_DOLT_REPOS_ROOT_PATH = reposRoot, NODE_ENV = nodeEnv,
              DELTIX_HTTP_TLS_CERT_PATH = httpCert, DELTIX_HTTP_TLS_KEY_PATH = httpKey,
              DELTIX_CERT_BOOTSTRAP_ENABLED = certBootstrap\<rparr> })"

text \<open>\<open>superRefine\<close>: two pairs of variables are set together or not at all.\<close>

definition env_pairs_ok :: "env \<Rightarrow> bool" where
  "env_pairs_ok e \<longleftrightarrow>
     (DELTIX_BOOTSTRAP_ADMIN_USERNAME e \<noteq> None) = (DELTIX_BOOTSTRAP_ADMIN_PASSWORD e \<noteq> None) \<and>
     (DELTIX_HTTP_TLS_CERT_PATH e \<noteq> None) = (DELTIX_HTTP_TLS_KEY_PATH e \<noteq> None)"

definition envSchema :: "(string \<Rightarrow> json option) \<Rightarrow> env_vars \<Rightarrow> env option" where
  "envSchema parse src =
     (case envFields parse src of None \<Rightarrow> None | Some e \<Rightarrow> if env_pairs_ok e then Some e else None)"

text \<open>\<open>loadEnv\<close> with the module variable \<open>cachedEnv\<close>.\<close>

definition loadEnv :: "(string \<Rightarrow> json option) \<Rightarrow> env_vars \<Rightarrow> env option \<Rightarrow> env option \<times> env option" where
  "loadEnv parse src cachedEnv =
     (case cachedEnv of
        Some e \<Rightarrow> (Some e, cachedEnv)
      | None \<Rightarrow> (case envSchema parse src of None \<Rightarrow> (None, None) | Some e \<Rightarrow> (Some e, Some e)))"


section \<open>What the schema accepts\<close>

definition required_vars :: "string list" where
  "required_vars = [''DELTIX_LICENSE_PUBLIC_KEY'', ''DELTIX_LICENSE_KEY'', ''DELTIX_DOLT_REPO_PATH'',
     ''DELTIX_JWT_PRIVATE_KEY'', ''DELTIX_JWT_PUBLIC_KEY'', ''DELTIX_SESSION_DB_PATH'',
     ''DELTIX_GRPC_TLS_CERT_PATH'', ''DELTIX_GRPC_TLS_KEY_PATH'']"

definition number_vars :: "(string \<times> int) list" where
  "number_vars = [(''DELTIX_CLOCK_TOLERANCE_MS'', 0), (''DELTIX_ACCESS_TOKEN_TTL_SECONDS'', 1),
     (''DELTIX_SESSION_TTL_SECONDS'', 1), (''DELTIX_TICKET_TTL_SECONDS'', 1),
     (''DELTIX_NAS_SYNC_BACKOFF_BASE_MS'', 1), (''DELTIX_NAS_SYNC_BACKOFF_MAX_MS'', 1),
     (''DELTIX_NAS_SYNC_POLL_INTERVAL_MS'', 1), (''DELTIX_TRANSFER_JOB_MAX_RETRIES'', 1),
     (''DELTIX_GRPC_PORT'', 1), (''DELTIX_ADDON_MAX_CONSECUTIVE_FAILURES'', 1)]"

definition optional_pairs :: "(string \<times> string) list" where
  "optional_pairs = [(''DELTIX_BOOTSTRAP_ADMIN_USERNAME'', ''DELTIX_BOOTSTRAP_ADMIN_PASSWORD''),
     (''DELTIX_HTTP_TLS_CERT_PATH'', ''DELTIX_HTTP_TLS_KEY_PATH'')]"

lemma z_required_Some [simp]: "z_required v = Some s \<longleftrightarrow> v = Some s \<and> s \<noteq> []"
  by (auto simp: z_required_def split: option.splits)

lemma z_optional_Some [simp]: "z_optional v = Some x \<longleftrightarrow> v = x \<and> x \<noteq> Some []"
  by (auto simp: z_optional_def split: option.splits)

lemma z_default_Some [simp]: "z_default d v = Some s \<longleftrightarrow> s = (case v of None \<Rightarrow> d | Some t \<Rightarrow> t)"
  by (auto simp: z_default_def)

lemma z_int_Some_iff: "(\<exists>n. z_int lo d v = Some n) \<longleftrightarrow> (\<forall>s. v = Some s \<longrightarrow> (\<exists>n. js_Number s = Some n \<and> lo \<le> n))"
  by (auto simp: z_int_def split: option.splits)

lemma z_int_least: "z_int lo d v = Some n \<Longrightarrow> lo \<le> d \<Longrightarrow> lo \<le> n"
  by (auto simp: z_int_def split: option.splits if_splits)

lemma z_switch_Some: "\<exists>b. z_switch v = Some b"
  by (auto simp: z_switch_def split: option.splits)

lemma z_node_env_iff: "(\<exists>s. z_node_env v = Some s) \<longleftrightarrow> (\<forall>s. v = Some s \<longrightarrow> s \<in> set [''development'', ''test'', ''production''])"
  by (auto simp: z_node_env_def split: option.splits)

lemma split_origins_items: "s \<in> set (split_origins raw) \<Longrightarrow> s \<noteq> [] \<and> CHR '','' \<notin> set s \<and> js_trim s = s"
  using js_trim_set set_js_split by (fastforce simp: split_origins_def)

lemma all_some_map [simp]: "all_some (map Some ys) = Some ys"
  by (induction ys) auto

lemma all_some_iff: "all_some xs = Some ys \<longleftrightarrow> xs = map Some ys"
proof
  show "all_some xs = Some ys \<Longrightarrow> xs = map Some ys"
    by (induction xs arbitrary: ys rule: all_some.induct) auto
qed simp

lemma localUserSchema_nonempty: "localUserSchema j = Some u \<Longrightarrow> l_username u \<noteq> [] \<and> l_passwordHash u \<noteq> []"
  by (auto simp: localUserSchema_def split: option.splits json.splits if_splits)

lemma localUsers_typed:
  assumes "optionalLocalUsersSchema parse v = Some (Some us)"
  shows "1 \<le> length us \<and> length us \<le> 3 \<and> (\<forall>u \<in> set us. l_username u \<noteq> [] \<and> l_passwordHash u \<noteq> [])"
proof -
  from assms obtain xs where xs: "1 \<le> length xs" "length xs \<le> 3" "all_some (map localUserSchema xs) = Some us"
    by (auto simp: optionalLocalUsersSchema_def split: option.splits if_splits json.splits)
  then have m: "map localUserSchema xs = map Some us" by (simp add: all_some_iff)
  then have "length us = length xs" by (metis length_map)
  moreover have "l_username u \<noteq> [] \<and> l_passwordHash u \<noteq> []" if "u \<in> set us" for u
  proof -
    from that have "Some u \<in> set (map localUserSchema xs)" unfolding m by simp
    then show ?thesis using localUserSchema_nonempty by auto
  qed
  ultimately show ?thesis using xs by auto
qed

lemma bind_ne_None: "Option.bind m f \<noteq> None \<longleftrightarrow> (\<exists>y. m = Some y \<and> f y \<noteq> None)"
  by (cases m) auto

lemma envSchema_bind: "envSchema parse src = Option.bind (envFields parse src) (\<lambda>e. if env_pairs_ok e then Some e else None)"
  by (cases "envFields parse src") (simp_all add: envSchema_def)

lemma required_conj: "(\<exists>y. v = Some y \<and> y \<noteq> [] \<and> Q) \<longleftrightarrow> (\<exists>y. v = Some y \<and> y \<noteq> []) \<and> Q"
  by blast

lemma together_iff: "((\<exists>y. a = Some y) = (\<exists>y. b = Some y)) \<longleftrightarrow> ((a = None) = (b = None))"
  by (cases a; cases b) auto

text \<open>
  The settings are accepted exactly when every required variable is a non-empty text, every number
  that is set reads as an integer not below its least value, the optional pairs are set together and
  not empty, the list of local users (if set) is valid, and \<open>NODE_ENV\<close> (if set) names one of the
  three modes. All other variables are accepted whatever they hold.
\<close>

lemma env_accepted_iff:
  "envSchema parse src \<noteq> None \<longleftrightarrow>
     (\<forall>k \<in> set required_vars. \<exists>s. map_of src k = Some s \<and> s \<noteq> []) \<and>
     (\<forall>(k, lo) \<in> set number_vars. \<forall>s. map_of src k = Some s \<longrightarrow> (\<exists>n. js_Number s = Some n \<and> lo \<le> n)) \<and>
     (\<forall>(k, l) \<in> set optional_pairs. map_of src k \<noteq> Some [] \<and> map_of src l \<noteq> Some [] \<and>
        (map_of src k = None) = (map_of src l = None)) \<and>
     optionalLocalUsersSchema parse (map_of src ''DELTIX_LOCAL_USERS'') \<noteq> None \<and>
     (\<forall>s. map_of src ''NODE_ENV'' = Some s \<longrightarrow> s \<in> set [''development'', ''test'', ''production''])"
  unfolding envSchema_bind envFields_def Let_def bind_assoc bind_ne_None required_vars_def number_vars_def optional_pairs_def
  by (simp add: env_pairs_ok_def z_switch_Some z_int_Some_iff z_node_env_iff required_conj together_iff)
    (rule iffI; elim conjE; intro conjI; assumption)

text \<open>
  Whatever the environment holds, settings that are accepted have their types: non-empty keys,
  certificate paths and session database, positive times, limits and port, a clock tolerance that is
  not negative, one to three local users with name and hash, origins that are non-empty and trimmed,
  one of the three modes, and both or neither of each optional pair.
\<close>

theorem env_well_typed:
  assumes "envSchema parse src = Some e"
  shows "(DELTIX_LICENSE_KEY e \<noteq> [] \<and> DELTIX_LICENSE_PUBLIC_KEY e \<noteq> [] \<and> DELTIX_JWT_PRIVATE_KEY e \<noteq> [] \<and>
      DELTIX_JWT_PUBLIC_KEY e \<noteq> [] \<and> DELTIX_SESSION_DB_PATH e \<noteq> [] \<and> DELTIX_GRPC_TLS_CERT_PATH e \<noteq> [] \<and>
      DELTIX_GRPC_TLS_KEY_PATH e \<noteq> []) \<and>
     (0 \<le> DELTIX_CLOCK_TOLERANCE_MS e \<and> 0 < DELTIX_ACCESS_TOKEN_TTL_SECONDS e \<and> 0 < DELTIX_SESSION_TTL_SECONDS e \<and>
      0 < DELTIX_TICKET_TTL_SECONDS e \<and> 0 < DELTIX_NAS_SYNC_BACKOFF_BASE_MS e \<and> 0 < DELTIX_NAS_SYNC_BACKOFF_MAX_MS e \<and>
      0 < DELTIX_NAS_SYNC_POLL_INTERVAL_MS e \<and> 0 < DELTIX_TRANSFER_JOB_MAX_RETRIES e \<and> 0 < DELTIX_GRPC_PORT e \<and>
      0 < DELTIX_ADDON_MAX_CONSECUTIVE_FAILURES e) \<and>
     (\<forall>us. DELTIX_LOCAL_USERS e = Some us \<longrightarrow> 1 \<le> length us \<and> length us \<le> 3 \<and>
        (\<forall>u \<in> set us. l_username u \<noteq> [] \<and> l_passwordHash u \<noteq> [])) \<and>
     (\<forall>s \<in> set (DELTIX_CORS_ALLOWED_ORIGINS e). s \<noteq> [] \<and> CHR '','' \<notin> set s \<and> js_trim s = s) \<and>
     NODE_ENV e \<in> set [''development'', ''test'', ''production''] \<and> env_pairs_ok e"
proof -
  from assms have f: "envFields parse src = Some e" and p: "env_pairs_ok e"
    by (auto simp: envSchema_def split: option.splits if_splits)
  let ?v = "map_of src"
  have r: "z_required (?v ''DELTIX_LICENSE_KEY'') = Some (DELTIX_LICENSE_KEY e) \<and>
      z_required (?v ''DELTIX_LICENSE_PUBLIC_KEY'') = Some (DELTIX_LICENSE_PUBLIC_KEY e) \<and>
      z_required (?v ''DELTIX_JWT_PRIVATE_KEY'') = Some (DELTIX_JWT_PRIVATE_KEY e) \<and>
      z_required (?v ''DELTIX_JWT_PUBLIC_KEY'') = Some (DELTIX_JWT_PUBLIC_KEY e) \<and>
      z_required (?v ''DELTIX_SESSION_DB_PATH'') = Some (DELTIX_SESSION_DB_PATH e) \<and>
      z_required (?v ''DELTIX_GRPC_TLS_CERT_PATH'') = Some (DELTIX_GRPC_TLS_CERT_PATH e) \<and>
      z_required (?v ''DELTIX_GRPC_TLS_KEY_PATH'') = Some (DELTIX_GRPC_TLS_KEY_PATH e) \<and>
      z_int 0 5000 (?v ''DELTIX_CLOCK_TOLERANCE_MS'') = Some (DELTIX_CLOCK_TOLERANCE_MS e) \<and>
      z_int 1 900 (?v ''DELTIX_ACCESS_TOKEN_TTL_SECONDS'') = Some (DELTIX_ACCESS_TOKEN_TTL_SECONDS e) \<and>
      z_int 1 (7 * 24 * 60 * 60) (?v ''DELTIX_SESSION_TTL_SECONDS'') = Some (DELTIX_SESSION_TTL_SECONDS e) \<and>
      z_int 1 120 (?v ''DELTIX_TICKET_TTL_SECONDS'') = Some (DELTIX_TICKET_TTL_SECONDS e) \<and>
      z_int 1 1000 (?v ''DELTIX_NAS_SYNC_BACKOFF_BASE_MS'') = Some (DELTIX_NAS_SYNC_BACKOFF_BASE_MS e) \<and>
      z_int 1 60000 (?v ''DELTIX_NAS_SYNC_BACKOFF_MAX_MS'') = Some (DELTIX_NAS_SYNC_BACKOFF_MAX_MS e) \<and>
      z_int 1 5000 (?v ''DELTIX_NAS_SYNC_POLL_INTERVAL_MS'') = Some (DELTIX_NAS_SYNC_POLL_INTERVAL_MS e) \<and>
      z_int 1 5 (?v ''DELTIX_TRANSFER_JOB_MAX_RETRIES'') = Some (DELTIX_TRANSFER_JOB_MAX_RETRIES e) \<and>
      z_int 1 50051 (?v ''DELTIX_GRPC_PORT'') = Some (DELTIX_GRPC_PORT e) \<and>
      z_int 1 5 (?v ''DELTIX_ADDON_MAX_CONSECUTIVE_FAILURES'') = Some (DELTIX_ADDON_MAX_CONSECUTIVE_FAILURES e) \<and>
      optionalLocalUsersSchema parse (?v ''DELTIX_LOCAL_USERS'') = Some (DELTIX_LOCAL_USERS e) \<and>
      (\<exists>raw. DELTIX_CORS_ALLOWED_ORIGINS e = split_origins raw) \<and>
      z_node_env (?v ''NODE_ENV'') = Some (NODE_ENV e)"
    using f unfolding envFields_def Let_def Option.bind_eq_Some_conv option.inject
    by (elim exE conjE, hypsubst, unfold env.select_convs, intro conjI exI) (assumption | rule refl)+
  from r have "0 \<le> DELTIX_CLOCK_TOLERANCE_MS e \<and> 1 \<le> DELTIX_ACCESS_TOKEN_TTL_SECONDS e \<and> 1 \<le> DELTIX_SESSION_TTL_SECONDS e \<and>
      1 \<le> DELTIX_TICKET_TTL_SECONDS e \<and> 1 \<le> DELTIX_NAS_SYNC_BACKOFF_BASE_MS e \<and> 1 \<le> DELTIX_NAS_SYNC_BACKOFF_MAX_MS e \<and>
      1 \<le> DELTIX_NAS_SYNC_POLL_INTERVAL_MS e \<and> 1 \<le> DELTIX_TRANSFER_JOB_MAX_RETRIES e \<and> 1 \<le> DELTIX_GRPC_PORT e \<and>
      1 \<le> DELTIX_ADDON_MAX_CONSECUTIVE_FAILURES e"
    by (elim conjE) (intro conjI; erule z_int_least; simp (no_asm))
  moreover from r have "\<forall>us. DELTIX_LOCAL_USERS e = Some us \<longrightarrow> 1 \<le> length us \<and> length us \<le> 3 \<and>
        (\<forall>u \<in> set us. l_username u \<noteq> [] \<and> l_passwordHash u \<noteq> [])"
    using localUsers_typed [of parse "?v ''DELTIX_LOCAL_USERS''"] by auto
  moreover from r obtain raw where "DELTIX_CORS_ALLOWED_ORIGINS e = split_origins raw" by blast
  then have "\<forall>s \<in> set (DELTIX_CORS_ALLOWED_ORIGINS e). s \<noteq> [] \<and> CHR '','' \<notin> set s \<and> js_trim s = s"
    using split_origins_items [of _ raw] by simp
  moreover from r have "NODE_ENV e \<in> set [''development'', ''test'', ''production'']"
    by (auto simp: z_node_env_def split: option.splits if_splits)
  ultimately show ?thesis using p r by simp
qed

definition sample_env :: env_vars where
  "sample_env = [(''DELTIX_LICENSE_PUBLIC_KEY'', ''pk''), (''DELTIX_LICENSE_KEY'', ''lk''), (''DELTIX_DOLT_REPO_PATH'', ''/r''),
     (''DELTIX_JWT_PRIVATE_KEY'', ''a''), (''DELTIX_JWT_PUBLIC_KEY'', ''b''), (''DELTIX_SESSION_DB_PATH'', ''/s''),
     (''DELTIX_GRPC_TLS_CERT_PATH'', ''/c''), (''DELTIX_GRPC_TLS_KEY_PATH'', ''/k''), (''DELTIX_GRPC_PORT'', ''7''),
     (''DELTIX_CORS_ALLOWED_ORIGINS'', '' https://a , https://b,,'')]"

lemma sample_env_accepted:
  "envSchema (\<lambda>_. None) sample_env \<noteq> None" "envSchema (\<lambda>_. None) ((''DELTIX_GRPC_PORT'', ''x'') # sample_env) = None"
  by code_simp+

theorem env_well_typed_witness:
  "\<exists>e. envSchema (\<lambda>_. None) sample_env = Some e \<and> 0 < DELTIX_GRPC_PORT e \<and> DELTIX_LICENSE_KEY e \<noteq> []"
  using sample_env_accepted(1) env_well_typed [of "\<lambda>_. None" sample_env] by auto

text \<open>
  The settings are read once: after a call that succeeded every later call returns the same settings,
  whatever the environment holds by then.
\<close>

lemma loadEnv_cached:
  assumes "loadEnv parse src c = (Some e, c')"
  shows "loadEnv parse' src' c' = (Some e, c')"
  using assms by (cases c; cases "envSchema parse src") (auto simp: loadEnv_def)

end
