(* ===== verification/ConfigSchema.thy ===== *)
theory ConfigSchema
  imports EnvSchema
begin

text \<open>
  The configuration loader (\<open>config/schema.ts\<close>): the schemas of the sections, the built-in
  defaults, the recursive merge, the extraction of settings from environment variables, the
  configuration file, \<open>loadConfig\<close> with its cache, and the redaction of secrets for export.

  A configuration that is not validated yet is a JSON object. Every schema of a section is applied
  to a merged object that already has the section (\<open>merged_sections\<close>), so the default of a whole
  section is never used; a schema fails with \<open>None\<close>. The files and \<open>JSON.parse\<close> are the record
  \<open>config_world\<close>. Variables \<open>APP__CONSTRUCTOR__...\<close>, which reach a built-in object of the
  language, are outside the model.
\<close>

section \<open>The sections and their schemas\<close>

record tls_config =
  tls_enabled :: bool
  tls_certPath :: "string option"
  tls_keyPath :: "string option"
  tls_autoGenerate :: bool

record server_config =
  sv_host :: string
  sv_port :: int
  sv_grpcPort :: int
  sv_dynamicPort :: bool
  sv_tls :: tls_config

record storage_config =
  st_dataDir :: string
  st_stagingRootPath :: string
  st_doltReposRootPath :: string
  st_nasSimPath :: string

record database_config =
  db_userDbPath :: string
  db_repoDbPath :: string
  db_ticketDbPath :: string
  db_transferJobDbPath :: string
  db_addonTrustDbPath :: string
  db_sessionDbPath :: string

record auth_config =
  ac_jwtPrivateKey :: "string option"
  ac_jwtPublicKey :: "string option"
  ac_jwtPrivateKeyPath :: "string option"
  ac_jwtPublicKeyPath :: "string option"
  ac_sessionTtlSeconds :: int
  ac_accessTokenTtlSeconds :: int
  ac_corsAllowedOrigins :: "string list"
  ac_adminUiEnabled :: bool
  ac_bootstrapAdminUsername :: "string option"
  ac_bootstrapAdminPassword :: "string option"

record logging_config =
  lg_level :: string
  lg_pretty :: bool

record app_config =
  cf_environment :: string
  cf_server :: server_config
  cf_storage :: storage_config
  cf_database :: database_config
  cf_auth :: auth_config
  cf_logging :: logging_config

definition booleanCoerce :: "json \<Rightarrow> bool option" where
  "booleanCoerce v =
     (case v of
        JBool b \<Rightarrow> Some b
      | JStr s \<Rightarrow>
          let lower = js_toLowerCase (js_trim s)
          in if lower \<in> set [''true'', ''1'', ''yes'', ''on''] then Some True
             else if lower \<in> set [''false'', ''0'', ''no'', ''off''] then Some False else None
      | _ \<Rightarrow> None)"

definition z_texts :: "json list \<Rightarrow> string list option" where
  "z_texts xs = all_some (map (\<lambda>x. case x of JStr s \<Rightarrow> Some s | _ \<Rightarrow> None) xs)"

definition stringArrayCoerce :: "(string \<Rightarrow> json option) \<Rightarrow> json \<Rightarrow> string list option" where
  "stringArrayCoerce parse v =
     (case v of
        JArr xs \<Rightarrow> z_texts xs
      | JStr s \<Rightarrow>
          let trimmed = js_trim s
          in if trimmed = [] then Some []
             else case (if js_startsWith trimmed ''['' \<and> js_endsWith trimmed '']'' then parse trimmed else None) of
                    Some (JArr xs) \<Rightarrow> Some (map (\<lambda>x. js_trim (js_String x)) xs)
                  | _ \<Rightarrow> Some (split_origins trimmed)
      | _ \<Rightarrow> None)"

text \<open>Fields with a default: an absent field is the default, a present one must pass.\<close>

definition z_field :: "'a \<Rightarrow> (json \<Rightarrow> 'a option) \<Rightarrow> json option \<Rightarrow> 'a option" where
  "z_field d p v = (case v of None \<Rightarrow> Some d | Some j \<Rightarrow> p j)"

definition z_nonempty :: "json \<Rightarrow> string option" where
  "z_nonempty v = (case v of JStr s \<Rightarrow> if s = [] then None else Some s | _ \<Rightarrow> None)"

definition z_opt :: "json option \<Rightarrow> string option option" where
  "z_opt v = z_field None (\<lambda>j. map_option Some (z_nonempty j)) v"

definition z_port :: "json \<Rightarrow> int option" where
  "z_port v = (case js_toNumber v of None \<Rightarrow> None | Some n \<Rightarrow> if 1 \<le> n \<and> n \<le> 65535 then Some n else None)"

definition z_positive :: "json \<Rightarrow> int option" where
  "z_positive v = (case js_toNumber v of None \<Rightarrow> None | Some n \<Rightarrow> if 1 \<le> n then Some n else None)"

definition z_enum :: "string list \<Rightarrow> json \<Rightarrow> string option" where
  "z_enum values v = (case v of JStr s \<Rightarrow> if s \<in> set values then Some s else None | _ \<Rightarrow> None)"

text \<open>A section: the value must be an object.\<close>

definition z_object :: "((string \<Rightarrow> json option) \<Rightarrow> 'a option) \<Rightarrow> json option \<Rightarrow> 'a option" where
  "z_object p v = (case v of Some (JObj fs) \<Rightarrow> p (map_of fs) | _ \<Rightarrow> None)"

definition tlsConfigSchema :: "(string \<Rightarrow> json option) \<Rightarrow> tls_config option" where
  "tlsConfigSchema v = do {
     enabled \<leftarrow> z_field False booleanCoerce (v ''enabled'');
     certPath \<leftarrow> z_opt (v ''certPath'');
     keyPath \<leftarrow> z_opt (v ''keyPath'');
     autoGenerate \<leftarrow> z_field False booleanCoerce (v ''autoGenerate'');
     Some \<lparr>tls_enabled = enabled, tls_certPath = certPath, tls_keyPath = keyPath, tls_autoGenerate = autoGenerate\<rparr> }"

text \<open>The default of an absent \<open>tls\<close> is the empty object, whose switches read as off.\<close>

definition no_tls :: tls_config where
  "no_tls = \<lparr>tls_enabled = False, tls_certPath = None, tls_keyPath = None, tls_autoGenerate = False\<rparr>"

definition serverConfigSchema :: "(string \<Rightarrow> json option) \<Rightarrow> server_config option" where
  "serverConfigSchema v = do {
     host \<leftarrow> z_field ''0.0.0.0'' z_nonempty (v ''host'');
     port \<leftarrow> z_field 9090 z_port (v ''port'');
     grpcPort \<leftarrow> z_field 50051 z_port (v ''grpcPort'');
     dynamicPort \<leftarrow> z_field False booleanCoerce (v ''dynamicPort'');
     tls \<leftarrow> z_field no_tls (\<lambda>j. z_object tlsConfigSchema (Some j)) (v ''tls'');
     Some \<lparr>sv_host = host, sv_port = port, sv_grpcPort = grpcPort, sv_dynamicPort = dynamicPort, sv_tls = tls\<rparr> }"

definition storageConfigSchema :: "(string \<Rightarrow> json option) \<Rightarrow> storage_config option" where
  "storageConfigSchema v = do {
     dataDir \<leftarrow> z_field ''./data'' z_nonempty (v ''dataDir'');
     staging \<leftarrow> z_field ''./data/staging'' z_nonempty (v ''stagingRootPath'');
     repos \<leftarrow> z_field ''./data/dolt-repos'' z_nonempty (v ''doltReposRootPath'');
     nas \<leftarrow> z_field ''./data/nas-sim'' z_nonempty (v ''nasSimPath'');
     Some \<lparr>st_dataDir = dataDir, st_stagingRootPath = staging, st_doltReposRootPath = repos, st_nasSimPath = nas\<rparr> }"

definition databaseConfigSchema :: "(string \<Rightarrow> json option) \<Rightarrow> database_config option" where
  "databaseConfigSchema v = do {
     user \<leftarrow> z_field ''./data/users.db'' z_nonempty (v ''userDbPath'');
     repo \<leftarrow> z_field ''./data/repos.db'' z_nonempty (v ''repoDbPath'');
     ticket \<leftarrow> z_field ''./data/transfer-tickets.db'' z_nonempty (v ''ticketDbPath'');
     job \<leftarrow> z_field ''./data/transfer-jobs.db'' z_nonempty (v ''transferJobDbPath'');
     trust \<leftarrow> z_field ''./data/addon-trust.db'' z_nonempty (v ''addonTrustDbPath'');
     session \<leftarrow> z_field ''./data/sessions.db'' z_nonempty (v ''sessionDbPath'');
     Some \<lparr>db_userDbPath = user, db_repoDbPath = repo, db_ticketDbPath = ticket, db_transferJobDbPath = job,
           db_addonTrustDbPath = trust, db_sessionDbPath = session\<rparr> }"

definition authConfigSchema :: "(string \<Rightarrow> json option) \<Rightarrow> (string \<Rightarrow> json option) \<Rightarrow> auth_config option" where
  "authConfigSchema parse v = do {
     privateKey \<leftarrow> z_opt (v ''jwtPrivateKey'');
     publicKey \<leftarrow> z_opt (v ''jwtPublicKey'');
     privateKeyPath \<leftarrow> z_opt (v ''jwtPrivateKeyPath'');
     publicKeyPath \<leftarrow> z_opt (v ''jwtPublicKeyPath'');
     sessionTtl \<leftarrow> z_field 120 z_positive (v ''sessionTtlSeconds'');
     accessTtl \<leftarrow> z_field 900 z_positive (v ''accessTokenTtlSeconds'');
     origins \<leftarrow> z_field [] (stringArrayCoerce parse) (v ''corsAllowedOrigins'');
     adminUi \<leftarrow> z_field False booleanCoerce (v ''adminUiEnabled'');
     user \<leftarrow> z_opt (v ''bootstrapAdminUsername'');
     pass \<leftarrow> z_opt (v ''bootstrapAdminPassword'');
     if (user \<noteq> None) \<noteq> (pass \<noteq> None) then None
     else Some \<lparr>ac_jwtPrivateKey = privateKey, ac_jwtPublicKey = publicKey, ac_jwtPrivateKeyPath = privateKeyPath,
                ac_jwtPublicKeyPath = publicKeyPath, ac_sessionTtlSeconds = sessionTtl,
                ac_accessTokenTtlSeconds = accessTtl, ac_corsAllowedOrigins = origins, ac_adminUiEnabled = adminUi,
                ac_bootstrapAdminUsername = user, ac_bootstrapAdminPassword = pass\<rparr> }"

definition LOG_LEVELS :: "string list" where
  "LOG_LEVELS = [''trace'', ''debug'', ''info'', ''warn'', ''error'', ''fatal'', ''silent'']"

definition loggingConfigSchema :: "(string \<Rightarrow> json option) \<Rightarrow> logging_config option" where
  "loggingConfigSchema v = do {
     level \<leftarrow> z_field ''info'' (z_enum LOG_LEVELS) (v ''level'');
     pretty \<leftarrow> z_field False booleanCoerce (v ''pretty'');
     Some \<lparr>lg_level = level, lg_pretty = pretty\<rparr> }"

definition appConfigSchema :: "(string \<Rightarrow> json option) \<Rightarrow> json \<Rightarrow> app_config option" where
  "appConfigSchema parse j = do {
     environment \<leftarrow> z_field ''development'' (z_enum [''development'', ''production'', ''test'']) (jfield ''environment'' j);
     server \<leftarrow> z_object serverConfigSchema (jfield ''server'' j);
     storage \<leftarrow> z_object storageConfigSchema (jfield ''storage'' j);
     database \<leftarrow> z_object databaseConfigSchema (jfield ''database'' j);
     auth \<leftarrow> z_object (authConfigSchema parse) (jfield ''auth'' j);
     logging \<leftarrow> z_object loggingConfigSchema (jfield ''logging'' j);
     Some \<lparr>cf_environment = environment, cf_server = server, cf_storage = storage, cf_database = database,
           cf_auth = auth, cf_logging = logging\<rparr> }"

section \<open>Defaults and merge\<close>

definition DEFAULT_CONFIG :: "(string \<times> json) list" where
  "DEFAULT_CONFIG =
     [(''environment'', JStr ''development''),
      (''server'', JObj [(''host'', JStr ''0.0.0.0''), (''port'', JNum 9090), (''grpcPort'', JNum 50051),
         (''dynamicPort'', JBool False),
         (''tls'', JObj [(''enabled'', JBool False), (''autoGenerate'', JBool False)])]),
      (''storage'', JObj [(''dataDir'', JStr ''./data''), (''stagingRootPath'', JStr ''./data/staging''),
         (''doltReposRootPath'', JStr ''./data/dolt-repos''), (''nasSimPath'', JStr ''./data/nas-sim'')]),
      (''database'', JObj [(''userDbPath'', JStr ''./data/users.db''), (''repoDbPath'', JStr ''./data/repos.db''),
         (''ticketDbPath'', JStr ''./data/transfer-tickets.db''),
         (''transferJobDbPath'', JStr ''./data/transfer-jobs.db''),
         (''addonTrustDbPath'', JStr ''./data/addon-trust.db''), (''sessionDbPath'', JStr ''./data/sessions.db'')]),
      (''auth'', JObj [(''sessionTtlSeconds'', JNum 120), (''accessTokenTtlSeconds'', JNum 900),
         (''corsAllowedOrigins'', JArr []), (''adminUiEnabled'', JBool False)]),
      (''logging'', JObj [(''level'', JStr ''info''), (''pretty'', JBool False)])]"

text \<open>\<open>deepMerge(target, source)\<close>: the keys of the source in order, objects merged, all else replaced.\<close>

function deepMerge :: "(string \<times> json) list \<Rightarrow> (string \<times> json) list \<Rightarrow> (string \<times> json) list" where
  "deepMerge output [] = output"
| "deepMerge output ((key, sourceValue) # rest) =
     deepMerge
       (AList.update key
          (case (map_of output key, sourceValue) of
             (Some (JObj a), JObj b) \<Rightarrow> JObj (deepMerge a b)
           | _ \<Rightarrow> sourceValue) output) rest"
  by pat_completeness auto
termination
  by (relation "measure (\<lambda>(t, s). size_list (size_prod (\<lambda>_. 0) size) s)") auto


section \<open>Settings from environment variables\<close>

text \<open>\<open>a ?? b ?? c\<close> over variables: the first that is set, even to the empty text.\<close>

fun env_first :: "env_vars \<Rightarrow> string list \<Rightarrow> string option" where
  "env_first env [] = None"
| "env_first env (k # ks) = (case map_of env k of Some v \<Rightarrow> Some v | None \<Rightarrow> env_first env ks)"

definition assignIfDefined :: "(string \<times> json) list \<Rightarrow> string \<Rightarrow> string option \<Rightarrow> (string \<times> json) list" where
  "assignIfDefined target key value = (case value of None \<Rightarrow> target | Some v \<Rightarrow> AList.update key (JStr v) target)"

text \<open>The sequence of \<open>assignIfDefined\<close> calls of one section: property and variables to look at.\<close>

definition env_section :: "env_vars \<Rightarrow> (string \<times> string list) list \<Rightarrow> (string \<times> json) list" where
  "env_section env spec = foldl (\<lambda>t (k, vars). assignIfDefined t k (env_first env vars)) [] spec"

definition tls_vars :: "(string \<times> string list) list" where
  "tls_vars = [(''enabled'', [''APP_TLS_ENABLED'', ''APP_SERVER_TLS_ENABLED'']),
     (''certPath'', [''APP_TLS_CERT_PATH'', ''APP_SERVER_TLS_CERT_PATH'', ''DELTIX_HTTP_TLS_CERT_PATH'']),
     (''keyPath'', [''APP_TLS_KEY_PATH'', ''APP_SERVER_TLS_KEY_PATH'', ''DELTIX_HTTP_TLS_KEY_PATH'']),
     (''autoGenerate'', [''APP_TLS_AUTO_GENERATE''])]"

definition server_vars :: "(string \<times> string list) list" where
  "server_vars = [(''host'', [''APP_HOST'', ''APP_SERVER_HOST'', ''DELTIX_HTTP_HOST'']),
     (''port'', [''APP_PORT'', ''APP_SERVER_PORT'', ''DELTIX_HTTP_PORT'']),
     (''grpcPort'', [''APP_GRPC_PORT'', ''APP_SERVER_GRPC_PORT'', ''DELTIX_GRPC_PORT'']),
     (''dynamicPort'', [''APP_DYNAMIC_PORT'', ''APP_SERVER_DYNAMIC_PORT''])]"

definition extractServerEnv :: "env_vars \<Rightarrow> (string \<times> json) list" where
  "extractServerEnv env =
     (let server = env_section env server_vars; tls = env_section env tls_vars
      in if tls \<noteq> [] then AList.update ''tls'' (JObj tls) server else server)"

definition storage_vars :: "(string \<times> string list) list" where
  "storage_vars = [(''dataDir'', [''APP_DATA_DIR'', ''APP_STORAGE_DATA_DIR'']),
     (''stagingRootPath'', [''APP_STAGING_PATH'', ''DELTIX_STAGING_ROOT_PATH'']),
     (''doltReposRootPath'', [''APP_REPOS_PATH'', ''DELTIX_DOLT_REPOS_ROOT_PATH'']),
     (''nasSimPath'', [''APP_NAS_PATH'', ''DELTIX_NAS_SIM_PATH''])]"

definition extractStorageEnv :: "env_vars \<Rightarrow> (string \<times> json) list" where
  "extractStorageEnv env = env_section env storage_vars"

definition database_vars :: "(string \<times> string list) list" where
  "database_vars = [(''userDbPath'', [''APP_USER_DB_PATH'', ''DELTIX_USER_DB_PATH'']),
     (''repoDbPath'', [''APP_REPO_DB_PATH'', ''DELTIX_REPO_DB_PATH'']),
     (''ticketDbPath'', [''APP_TICKET_DB_PATH'', ''DELTIX_TICKET_DB_PATH'']),
     (''transferJobDbPath'', [''APP_TRANSFER_JOB_DB_PATH'', ''DELTIX_TRANSFER_JOB_DB_PATH'']),
     (''addonTrustDbPath'', [''APP_ADDON_TRUST_DB_PATH'', ''DELTIX_ADDON_TRUST_DB_PATH'']),
     (''sessionDbPath'', [''APP_SESSION_DB_PATH'', ''DELTIX_SESSION_DB_PATH''])]"

definition extractDatabaseEnv :: "env_vars \<Rightarrow> (string \<times> json) list" where
  "extractDatabaseEnv env = env_section env database_vars"

definition auth_vars :: "(string \<times> string list) list" where
  "auth_vars = [(''jwtPrivateKey'', [''APP_JWT_PRIVATE_KEY'', ''DELTIX_JWT_PRIVATE_KEY'']),
     (''jwtPublicKey'', [''APP_JWT_PUBLIC_KEY'', ''DELTIX_JWT_PUBLIC_KEY'']),
     (''jwtPrivateKeyPath'', [''APP_JWT_PRIVATE_KEY_PATH'']), (''jwtPublicKeyPath'', [''APP_JWT_PUBLIC_KEY_PATH'']),
     (''sessionTtlSeconds'', [''APP_SESSION_TTL_SECONDS'', ''DELTIX_SESSION_TTL_SECONDS'']),
     (''accessTokenTtlSeconds'', [''APP_ACCESS_TOKEN_TTL_SECONDS'', ''DELTIX_ACCESS_TOKEN_TTL_SECONDS'']),
     (''corsAllowedOrigins'', [''APP_CORS_ALLOWED_ORIGINS'', ''DELTIX_CORS_ALLOWED_ORIGINS'']),
     (''adminUiEnabled'', [''APP_ADMIN_UI_ENABLED'', ''DELTIX_ADMIN_UI_ENABLED'']),
     (''bootstrapAdminUsername'', [''APP_BOOTSTRAP_ADMIN_USERNAME'', ''DELTIX_BOOTSTRAP_ADMIN_USERNAME'']),
     (''bootstrapAdminPassword'', [''APP_BOOTSTRAP_ADMIN_PASSWORD'', ''DELTIX_BOOTSTRAP_ADMIN_PASSWORD''])]"

definition extractAuthEnv :: "env_vars \<Rightarrow> (string \<times> json) list" where
  "extractAuthEnv env = env_section env auth_vars"

definition logging_vars :: "(string \<times> string list) list" where
  "logging_vars = [(''level'', [''APP_LOG_LEVEL'', ''LOG_LEVEL'']), (''pretty'', [''APP_LOG_PRETTY'', ''LOG_PRETTY''])]"

definition extractLoggingEnv :: "env_vars \<Rightarrow> (string \<times> json) list" where
  "extractLoggingEnv env = env_section env logging_vars"

text \<open>\<open>split('__')\<close>.\<close>

fun split_dunder :: "string \<Rightarrow> string list" where
  "split_dunder [] = [[]]"
| "split_dunder [c] = [[c]]"
| "split_dunder (a # b # r) =
     (if a = CHR ''_'' \<and> b = CHR ''_'' then [] # split_dunder r
      else case split_dunder (b # r) of [] \<Rightarrow> [[a]] | w # ws \<Rightarrow> (a # w) # ws)"

datatype config_error =
    ConfigFileReadFailed
  | ConfigJsonParseError
  | ConfigValidationFailed
  | ConfigTypeError

text \<open>
  A variable \<open>APP__SECTION__PROPERTY\<close> sets the property of the section, both in lower case. Setting
  a property of a section that is not an object (the text \<open>environment\<close>) throws a \<open>TypeError\<close>.
\<close>

definition dunder_step :: "string \<times> string \<Rightarrow> (string \<times> json) list \<Rightarrow> config_error + (string \<times> json) list" where
  "dunder_step kv result =
     (if \<not> js_startsWith (fst kv) ''APP__'' then Inr result
      else case split_dunder (js_toLowerCase (drop 5 (fst kv))) of
             [sec, prop] \<Rightarrow>
               if sec = [] \<or> prop = [] then Inr result
               else (case map_of result sec of
                       None \<Rightarrow> Inr (AList.update sec (JObj [(prop, JStr (snd kv))]) result)
                     | Some (JObj fs) \<Rightarrow> Inr (AList.update sec (JObj (AList.update prop (JStr (snd kv)) fs)) result)
                     | Some _ \<Rightarrow> Inl ConfigTypeError)
           | _ \<Rightarrow> Inr result)"

fun extractDoubleUnderscoreEnv :: "env_vars \<Rightarrow> (string \<times> json) list \<Rightarrow> config_error + (string \<times> json) list" where
  "extractDoubleUnderscoreEnv [] result = Inr result"
| "extractDoubleUnderscoreEnv (kv # env) result =
     (case dunder_step kv result of Inl e \<Rightarrow> Inl e | Inr result' \<Rightarrow> extractDoubleUnderscoreEnv env result')"

definition put_section :: "string \<Rightarrow> (string \<times> json) list \<Rightarrow> (string \<times> json) list \<Rightarrow> (string \<times> json) list" where
  "put_section name fs result = (if fs \<noteq> [] then AList.update name (JObj fs) result else result)"

definition plain_env_config :: "env_vars \<Rightarrow> (string \<times> json) list" where
  "plain_env_config env =
     put_section ''logging'' (extractLoggingEnv env)
      (put_section ''auth'' (extractAuthEnv env)
        (put_section ''database'' (extractDatabaseEnv env)
          (put_section ''storage'' (extractStorageEnv env)
            (put_section ''server'' (extractServerEnv env)
              (assignIfDefined [] ''environment'' (env_first env [''APP_ENV'', ''NODE_ENV'']))))))"

definition extractEnvConfig :: "env_vars \<Rightarrow> config_error + (string \<times> json) list" where
  "extractEnvConfig env = extractDoubleUnderscoreEnv env (plain_env_config env)"

section \<open>The loader\<close>

record config_world =
  cw_exists :: "string \<Rightarrow> bool"
  cw_resolve :: "string \<Rightarrow> string"
  cw_read :: "string \<Rightarrow> string option"
  cw_parse :: "string \<Rightarrow> json option"

record load_options =
  lo_configPath :: "string option"
  lo_env :: env_vars
  lo_overrides :: "(string \<times> json) list option"

definition loadConfigFile :: "config_world \<Rightarrow> string \<Rightarrow> config_error + (string \<times> json) list" where
  "loadConfigFile W filePath =
     (let resolved = cw_resolve W filePath
      in if \<not> cw_exists W resolved then Inr []
         else case cw_read W resolved of
                None \<Rightarrow> Inl ConfigFileReadFailed
              | Some content \<Rightarrow>
                  (case cw_parse W content of Some (JObj fs) \<Rightarrow> Inr fs | _ \<Rightarrow> Inl ConfigJsonParseError))"

definition candidatePaths :: "load_options \<Rightarrow> string list" where
  "candidatePaths opts =
     filter (\<lambda>p. p \<noteq> [])
       (concat (map (\<lambda>v. case v of None \<Rightarrow> [] | Some p \<Rightarrow> [p])
          [lo_configPath opts, map_of (lo_env opts) ''APP_CONFIG_PATH'', map_of (lo_env opts) ''DELTIX_CONFIG_PATH'',
           Some ''./config.json'', Some ''./config.local.json'']))"

text \<open>The first candidate that exists is loaded, and only that one.\<close>

definition file_config :: "config_world \<Rightarrow> load_options \<Rightarrow> config_error + (string \<times> json) list" where
  "file_config W opts =
     (case find (cw_exists W) (candidatePaths opts) of None \<Rightarrow> Inr [] | Some p \<Rightarrow> loadConfigFile W p)"

definition overrides_of :: "load_options \<Rightarrow> (string \<times> json) list" where
  "overrides_of opts = (case lo_overrides opts of None \<Rightarrow> [] | Some fs \<Rightarrow> fs)"

definition mergedConfig :: "config_world \<Rightarrow> load_options \<Rightarrow> config_error + (string \<times> json) list" where
  "mergedConfig W opts =
     (case file_config W opts of
        Inl e \<Rightarrow> Inl e
      | Inr fileConfig \<Rightarrow>
          (case extractEnvConfig (lo_env opts) of
             Inl e \<Rightarrow> Inl e
           | Inr envConfig \<Rightarrow>
               Inr (deepMerge (deepMerge (deepMerge DEFAULT_CONFIG fileConfig) envConfig) (overrides_of opts))))"

text \<open>\<open>loadConfig\<close> and \<open>getConfig\<close> with the module variable \<open>cachedConfig\<close>.\<close>

definition loadConfig :: "config_world \<Rightarrow> load_options \<Rightarrow> (app_config option, config_error, app_config) op" where
  "loadConfig W opts cachedConfig =
     (case mergedConfig W opts of
        Inl e \<Rightarrow> (Inl e, cachedConfig)
      | Inr merged \<Rightarrow>
          (case appConfigSchema (cw_parse W) (JObj merged) of
             None \<Rightarrow> (Inl ConfigValidationFailed, cachedConfig)
           | Some config \<Rightarrow> (Inr config, Some config)))"

definition getConfig :: "config_world \<Rightarrow> env_vars \<Rightarrow> (app_config option, config_error, app_config) op" where
  "getConfig W env cachedConfig =
     (case cachedConfig of
        None \<Rightarrow> loadConfig W \<lparr>lo_configPath = None, lo_env = env, lo_overrides = None\<rparr> cachedConfig
      | Some config \<Rightarrow> (Inr config, cachedConfig))"

section \<open>Redaction\<close>

definition SENSITIVE_KEY_PATTERNS :: "string list" where
  "SENSITIVE_KEY_PATTERNS = [''password'', ''secret'', ''privatekey'', ''token'', ''licensekey'', ''credential'']"

definition isSensitiveKey :: "string \<Rightarrow> bool" where
  "isSensitiveKey key = list_ex (js_includes (js_toLowerCase key)) SENSITIVE_KEY_PATTERNS"

definition secret_text :: "json \<Rightarrow> bool" where
  "secret_text v = (case v of JStr s \<Rightarrow> s \<noteq> [] | _ \<Rightarrow> False)"

fun sanitizeValue :: "json \<Rightarrow> json" where
  "sanitizeValue (JArr xs) = JArr (map sanitizeValue xs)"
| "sanitizeValue (JObj fs) =
     JObj (map (\<lambda>(k, v). (k, if isSensitiveKey k \<and> secret_text v then JStr ''[REDACTED]'' else sanitizeValue v)) fs)"
| "sanitizeValue v = v"


section \<open>The law of the merge\<close>

text \<open>What one key holds after a merge.\<close>

definition merge_value :: "json option \<Rightarrow> json \<Rightarrow> json" where
  "merge_value t v = (case (t, v) of (Some (JObj a), JObj b) \<Rightarrow> JObj (deepMerge a b) | _ \<Rightarrow> v)"

lemma deepMerge_Cons:
  "deepMerge output ((k, v) # rest) = deepMerge (AList.update k (merge_value (map_of output k) v) output) rest"
  by (simp add: merge_value_def)

lemma deepMerge_lookup:
  "distinct (map fst s) \<Longrightarrow>
   map_of (deepMerge t s) k = (case map_of s k of None \<Rightarrow> map_of t k | Some v \<Rightarrow> Some (merge_value (map_of t k) v))"
proof (induction s arbitrary: t)
  case (Cons kv s)
  obtain k' v where kv: "kv = (k', v)" by (cases kv)
  from Cons.prems kv have "k' \<notin> fst ` set s" by auto
  then have fresh: "map_of s k' = None" by (simp add: map_of_eq_None_iff)
  from Cons show ?case
    unfolding kv deepMerge_Cons by (auto simp: update_conv fresh split: option.splits)
qed simp

text \<open>The value at a path, where it is not an object; whether a value decides what is at a path.\<close>

definition leaf :: "string list \<Rightarrow> json \<Rightarrow> json option" where
  "leaf p j = (case jget p j of Some v \<Rightarrow> if jis_obj v then None else Some v | None \<Rightarrow> None)"

fun touches :: "string list \<Rightarrow> json \<Rightarrow> bool" where
  "touches [] j \<longleftrightarrow> True"
| "touches (k # p) j = (case jfield k j of None \<Rightarrow> False | Some v \<Rightarrow> jis_obj v \<longrightarrow> touches p v)"

lemma leaf_Cons: "leaf (k # p) j = (case jfield k j of None \<Rightarrow> None | Some v \<Rightarrow> leaf p v)"
  by (simp add: leaf_def split: option.splits)

lemma leaf_no_obj: "\<not> jis_obj v \<Longrightarrow> p \<noteq> [] \<Longrightarrow> leaf p v = None"
  by (cases p; cases v) (auto simp: leaf_def)

lemma leaf_untouched: "\<not> touches p j \<Longrightarrow> leaf p j = None"
  by (induction p j rule: touches.induct) (auto simp: leaf_Cons split: option.splits)

lemma jwf_field: "jwf (JObj s) \<Longrightarrow> map_of s k = Some v \<Longrightarrow> jwf v"
  by (auto dest: map_of_SomeD)

lemma leaf_deepMerge:
  assumes "jwf (JObj s)" and "p \<noteq> []"
  shows "leaf p (JObj (deepMerge t s)) = (if touches p (JObj s) then leaf p (JObj s) else leaf p (JObj t))"
  using assms
proof (induction p arbitrary: s t)
  case (Cons k p)
  from Cons.prems(1) have d: "distinct (map fst s)" by simp
  note look = deepMerge_lookup [OF d]
  show ?case
  proof (cases "map_of s k")
    case None
    then show ?thesis by (simp add: leaf_Cons look)
  next
    case (Some v)
    show ?thesis
    proof (cases "\<exists>a b. map_of t k = Some (JObj a) \<and> v = JObj b")
      case True
      then obtain a b where ab: "map_of t k = Some (JObj a)" "v = JObj b" by blast
      have "jwf (JObj b)" using jwf_field [OF Cons.prems(1) Some] ab by simp
      with Cons.IH [of b a] Some ab show ?thesis
        by (cases "p = []") (auto simp: leaf_Cons look merge_value_def leaf_def)
    next
      case False
      then have m: "merge_value (map_of t k) v = v"
        by (auto simp: merge_value_def split: option.splits json.splits)
      show ?thesis
      proof (cases "jis_obj v")
        case True
        then obtain b where b: "v = JObj b" by (cases v) auto
        with False have "\<And>j. map_of t k = Some j \<Longrightarrow> \<not> jis_obj j" by (metis jis_obj.elims(2))
        with Some m b leaf_untouched [of p v] leaf_no_obj show ?thesis
          by (cases "p = []") (auto simp: leaf_Cons look split: option.splits)
      next
        case False
        with Some m show ?thesis by (simp add: leaf_Cons look)
      qed
    qed
  qed
qed simp

section \<open>What the environment contributes\<close>

lemma jwf_update: "jwf (JObj fs) \<Longrightarrow> jwf v \<Longrightarrow> jwf (JObj (AList.update k v fs))"
proof -
  assume "jwf (JObj fs)" "jwf v"
  moreover have "jwf w" if "(a, w) \<in> set (AList.update k v fs)" for a w
    using that calculation by (induction fs) (auto split: if_splits)
  ultimately show ?thesis by (auto simp: distinct_update)
qed

lemma jwf_assign: "jwf (JObj fs) \<Longrightarrow> jwf (JObj (assignIfDefined fs k v))"
  by (cases v) (simp_all add: assignIfDefined_def jwf_update del: jwf.simps(1))

lemma jwf_env_section: "jwf (JObj (env_section env spec))"
proof -
  have "jwf (JObj t) \<Longrightarrow> jwf (JObj (foldl (\<lambda>t (k, vars). assignIfDefined t k (env_first env vars)) t spec))" for t
    by (induction spec arbitrary: t) (auto simp del: jwf.simps simp: jwf_assign)
  from this [of "[]"] show ?thesis by (simp add: env_section_def)
qed

lemma jwf_put_section: "jwf (JObj fs) \<Longrightarrow> jwf (JObj r) \<Longrightarrow> jwf (JObj (put_section n fs r))"
  by (simp add: put_section_def jwf_update del: jwf.simps(1))

lemma jwf_plain_env_config: "jwf (JObj (plain_env_config env))"
proof -
  have "jwf (JObj (extractServerEnv env))"
    using jwf_update [OF jwf_env_section jwf_env_section] jwf_env_section by (simp only: extractServerEnv_def Let_def) presburger
  moreover have "jwf (JObj (assignIfDefined [] k v))" for k v by (rule jwf_assign) simp
  ultimately show ?thesis
    unfolding plain_env_config_def extractStorageEnv_def extractDatabaseEnv_def extractAuthEnv_def extractLoggingEnv_def
    by (intro jwf_put_section jwf_env_section)
qed

lemma dunder_step_Inr:
  assumes "dunder_step kv r = Inr r'"
  obtains "r' = r"
  | sec pn fs where "split_dunder (js_toLowerCase (drop 5 (fst kv))) = [sec, pn]"
      "map_of r sec = None \<and> fs = [] \<or> map_of r sec = Some (JObj fs)"
      "r' = AList.update sec (JObj (AList.update pn (JStr (snd kv)) fs)) r"
proof (cases "r' = r")
  case False
  define parts where "parts = split_dunder (js_toLowerCase (drop 5 (fst kv)))"
  from assms False have st: "js_startsWith (fst kv) ''APP__''" by (simp add: dunder_step_def split: if_splits)
  with assms False obtain sec pn where p: "parts = [sec, pn]"
    unfolding dunder_step_def parts_def [symmetric] by (auto split: list.splits)
  note r = assms [unfolded dunder_step_def parts_def [symmetric] p, simplified st, simplified]
  show ?thesis
  proof (cases "map_of r sec")
    case None
    with r False p that(2) [of sec pn "[]"] show ?thesis by (simp add: parts_def split: if_splits)
  next
    case (Some v)
    with r False p that(2) [of sec pn] show ?thesis by (cases v) (simp_all add: parts_def split: if_splits)
  qed
qed (rule that(1))

lemma dunder_step_jwf:
  assumes "dunder_step kv r = Inr r'" and "jwf (JObj r)"
  shows "jwf (JObj r')"
  using assms(1)
proof (cases rule: dunder_step_Inr)
  case (2 sec pn fs)
  have "jwf (JObj fs)" using 2(2) jwf_field [OF assms(2), of sec "JObj fs"] by (cases "fs = []") simp_all
  with 2(3) assms(2) show ?thesis by (simp add: jwf_update del: jwf.simps(1))
qed (simp add: assms(2) del: jwf.simps(1))

lemma dunder_jwf: "extractDoubleUnderscoreEnv env r = Inr r' \<Longrightarrow> jwf (JObj r) \<Longrightarrow> jwf (JObj r')"
  by (induction env r rule: extractDoubleUnderscoreEnv.induct) (auto simp del: jwf.simps dest: dunder_step_jwf split: sum.splits)

lemma extractEnvConfig_jwf: "extractEnvConfig env = Inr c \<Longrightarrow> jwf (JObj c)"
  using dunder_jwf jwf_plain_env_config by (auto simp: extractEnvConfig_def)

text \<open>
  A property name with an upper case letter is never set by a variable of the form
  \<open>APP__SECTION__PROPERTY\<close>: the name is turned to lower case first.
\<close>

lemma js_lower_char_not_upper: "\<not> is_upper (js_lower_char c)"
  by (auto simp: is_upper_def js_lower_char_def Let_def of_char_of)

lemma split_dunder_set: "w \<in> set (split_dunder s) \<Longrightarrow> set w \<subseteq> set s"
proof (induction s arbitrary: w rule: split_dunder.induct)
  case (3 a b r)
  show ?case
  proof (cases "a = CHR ''_'' \<and> b = CHR ''_''")
    case True
    with 3 have "w = [] \<or> set w \<subseteq> set r" by auto
    then show ?thesis by auto
  next
    case False
    note IH = 3(2) [OF False]
    show ?thesis
    proof (cases "split_dunder (b # r)")
      case Nil
      with 3(3) False show ?thesis by simp
    next
      case (Cons x xs)
      with 3(3) False have "w = a # x \<or> w \<in> set xs" by simp
      with IH Cons show ?thesis by fastforce
    qed
  qed
qed auto

lemma dunder_step_lower:
  assumes "dunder_step kv r = Inr r'" and "\<exists>c \<in> set pn. is_upper c"
  shows "jget [sec, pn] (JObj r') = jget [sec, pn] (JObj r)"
  using assms(1)
proof (cases rule: dunder_step_Inr)
  case (2 s p fs)
  have "p \<in> set (split_dunder (js_toLowerCase (drop 5 (fst kv))))" using 2(1) by simp
  then have "set p \<subseteq> set (js_toLowerCase (drop 5 (fst kv)))" by (rule split_dunder_set)
  then have "pn \<noteq> p"
    using assms(2) js_lower_char_not_upper by (auto simp: js_toLowerCase_def)
  then show ?thesis using 2(2) unfolding 2(3) by (auto simp: update_conv)
qed simp

lemma dunder_never_camel:
  assumes "extractDoubleUnderscoreEnv env r = Inr r'" and "\<exists>c \<in> set pn. is_upper c"
  shows "jget [sec, pn] (JObj r') = jget [sec, pn] (JObj r)"
  using assms
proof (induction env r rule: extractDoubleUnderscoreEnv.induct)
  case (2 kv env r)
  then obtain r1 where r1: "dunder_step kv r = Inr r1" "extractDoubleUnderscoreEnv env r1 = Inr r'"
    by (auto split: sum.splits)
  from 2(1) [OF r1(1) r1(2) assms(2)] dunder_step_lower [OF r1(1) assms(2)] show ?case by metis
qed simp

section \<open>Which layer decides a setting\<close>

fun decided :: "string list \<Rightarrow> json list \<Rightarrow> json option" where
  "decided p [] = None"
| "decided p (j # js) = (if touches p j then leaf p j else decided p js)"

lemma file_config_jwf:
  assumes "\<forall>t j. cw_parse W t = Some j \<longrightarrow> jwf j" and "file_config W opts = Inr fs"
  shows "jwf (JObj fs)"
proof -
  have "fs = [] \<or> (\<exists>t. cw_parse W t = Some (JObj fs))"
    using assms(2) by (auto simp: file_config_def loadConfigFile_def Let_def split: option.splits if_splits json.splits)
  with assms(1) show ?thesis by (auto simp del: jwf.simps(1)) simp
qed

text \<open>
  C16. The configuration that is loaded is the validated form of one object, and at every path of that
  object the setting is the one of the highest layer that says anything about the path: the
  overrides, then the environment variables, then the configuration fileC, then the built-in defaults.
\<close>

theorem config_precedence:
  assumes "\<forall>t j. cw_parse W t = Some j \<longrightarrow> jwf j" and "jwf (JObj (overrides_of opts))"
    and "loadConfig W opts c = (Inr cfg, c')"
  shows "\<exists>fileC envc m. file_config W opts = Inr fileC \<and> extractEnvConfig (lo_env opts) = Inr envc \<and>
     appConfigSchema (cw_parse W) (JObj m) = Some cfg \<and> c' = Some cfg \<and>
     (\<forall>p. p \<noteq> [] \<longrightarrow> leaf p (JObj m) =
        decided p [JObj (overrides_of opts), JObj envc, JObj fileC, JObj DEFAULT_CONFIG])"
proof -
  from assms(3) obtain m where m: "mergedConfig W opts = Inr m" "appConfigSchema (cw_parse W) (JObj m) = Some cfg" "c' = Some cfg"
    by (auto simp: loadConfig_def split: sum.splits option.splits)
  then obtain fileC envc where l: "file_config W opts = Inr fileC" "extractEnvConfig (lo_env opts) = Inr envc"
    "m = deepMerge (deepMerge (deepMerge DEFAULT_CONFIG fileC) envc) (overrides_of opts)"
    by (auto simp: mergedConfig_def split: sum.splits)
  note jw = file_config_jwf [OF assms(1) l(1)] extractEnvConfig_jwf [OF l(2)] assms(2)
  have "leaf p (JObj m) = decided p [JObj (overrides_of opts), JObj envc, JObj fileC, JObj DEFAULT_CONFIG]"
    if "p \<noteq> []" for p
    unfolding l(3) by (simp add: leaf_deepMerge jw that leaf_untouched del: jwf.simps)
  with l m show ?thesis by blast
qed

definition sample_config_world :: config_world where
  "sample_config_world =
     \<lparr>cw_exists = (\<lambda>p. p \<in> set [''./config.json'', ''/srv/config.json'']),
      cw_resolve = (\<lambda>p. if p = ''./config.json'' then ''/srv/config.json'' else p),
      cw_read = (\<lambda>p. if p = ''/srv/config.json'' then Some ''{...}'' else None),
      cw_parse = (\<lambda>t. if t = ''{...}'' then Some (JObj [(''server'', JObj [(''port'', JNum 8000), (''host'', JStr ''h'')])]) else None)\<rparr>"

definition sample_load :: load_options where
  "sample_load = \<lparr>lo_configPath = None, lo_env = [(''APP_PORT'', ''8443''), (''DELTIX_GRPC_PORT'', ''6000'')], lo_overrides = None\<rparr>"

theorem config_precedence_witness:
  "\<exists>cfg m. appConfigSchema (cw_parse sample_config_world) (JObj m) = Some cfg \<and>
     leaf [''server'', ''port''] (JObj m) = Some (JStr ''8443'') \<and>
     leaf [''server'', ''host''] (JObj m) = Some (JStr ''h'') \<and>
     leaf [''logging'', ''level''] (JObj m) = Some (JStr ''info'') \<and>
     sv_port (cf_server cfg) = 8443"
proof -
  have p: "\<forall>t j. cw_parse sample_config_world t = Some j \<longrightarrow> jwf j"
    by (auto simp: sample_config_world_def)
  have o: "jwf (JObj (overrides_of sample_load))" by (simp add: sample_load_def overrides_of_def)
  have "map_sum id (\<lambda>c. sv_port (cf_server c)) (fst (loadConfig sample_config_world sample_load None)) = Inr 8443"
    by code_simp
  then obtain cfg c' where l: "loadConfig sample_config_world sample_load None = (Inr cfg, c')" and port: "sv_port (cf_server cfg) = 8443"
    by (cases "loadConfig sample_config_world sample_load None"; cases "fst (loadConfig sample_config_world sample_load None)") auto
  from config_precedence [OF p o l] obtain fileC envc m where m:
    "file_config sample_config_world sample_load = Inr fileC" "extractEnvConfig (lo_env sample_load) = Inr envc"
    "appConfigSchema (cw_parse sample_config_world) (JObj m) = Some cfg"
    "\<And>p. p \<noteq> [] \<Longrightarrow> leaf p (JObj m) = decided p [JObj (overrides_of sample_load), JObj envc, JObj fileC, JObj DEFAULT_CONFIG]"
    by blast
  have f: "file_config sample_config_world sample_load = Inr [(''server'', JObj [(''port'', JNum 8000), (''host'', JStr ''h'')])]"
    by code_simp
  have e: "extractEnvConfig (lo_env sample_load) = Inr [(''server'', JObj [(''port'', JStr ''8443''), (''grpcPort'', JStr ''6000'')])]"
    by code_simp
  let ?L = "[JObj (overrides_of sample_load), JObj envc, JObj fileC, JObj DEFAULT_CONFIG]"
  have "decided [''server'', ''port''] ?L = Some (JStr ''8443'')" "decided [''server'', ''host''] ?L = Some (JStr ''h'')"
     "decided [''logging'', ''level''] ?L = Some (JStr ''info'')"
    using m(1,2) f e by (simp_all add: sample_load_def overrides_of_def DEFAULT_CONFIG_def leaf_def)
  with m(3) port show ?thesis by (intro exI [of _ cfg] exI [of _ m]) (simp add: m(4) del: decided.simps)
qed


section \<open>A loaded configuration is well-typed\<close>

lemma z_field_ind:
  assumes "z_field d p v = Some x" and "P d" and "\<And>j y. p j = Some y \<Longrightarrow> P y"
  shows "P x"
  using assms by (auto simp: z_field_def split: option.splits)

lemma z_nonempty_Some: "z_nonempty v = Some s \<Longrightarrow> s \<noteq> []"
  by (auto simp: z_nonempty_def split: json.splits if_splits)

lemma z_opt_Some: "z_opt v = Some x \<Longrightarrow> x \<noteq> Some []"
  unfolding z_opt_def by (erule z_field_ind) (auto dest: z_nonempty_Some)

lemma z_port_Some: "z_port v = Some n \<Longrightarrow> 1 \<le> n \<and> n \<le> 65535"
  by (auto simp: z_port_def split: option.splits if_splits)

lemma z_positive_Some: "z_positive v = Some n \<Longrightarrow> 1 \<le> n"
  by (auto simp: z_positive_def split: option.splits if_splits)

lemma z_enum_Some: "z_enum vs v = Some s \<Longrightarrow> s \<in> set vs"
  by (auto simp: z_enum_def split: json.splits if_splits)

lemma z_object_Some: "z_object p v = Some x \<Longrightarrow> \<exists>f. p f = Some x"
  by (auto simp: z_object_def split: option.splits json.splits)

definition server_ok :: "server_config \<Rightarrow> bool" where
  "server_ok s \<longleftrightarrow> sv_host s \<noteq> [] \<and> 1 \<le> sv_port s \<and> sv_port s \<le> 65535 \<and> 1 \<le> sv_grpcPort s \<and> sv_grpcPort s \<le> 65535 \<and>
     tls_certPath (sv_tls s) \<noteq> Some [] \<and> tls_keyPath (sv_tls s) \<noteq> Some []"

definition paths_ok :: "storage_config \<Rightarrow> database_config \<Rightarrow> bool" where
  "paths_ok s d \<longleftrightarrow> [] \<notin> set [st_dataDir s, st_stagingRootPath s, st_doltReposRootPath s, st_nasSimPath s,
     db_userDbPath d, db_repoDbPath d, db_ticketDbPath d, db_transferJobDbPath d, db_addonTrustDbPath d, db_sessionDbPath d]"

definition auth_config_ok :: "auth_config \<Rightarrow> bool" where
  "auth_config_ok a \<longleftrightarrow> 1 \<le> ac_sessionTtlSeconds a \<and> 1 \<le> ac_accessTokenTtlSeconds a \<and>
     Some [] \<notin> set [ac_jwtPrivateKey a, ac_jwtPublicKey a, ac_jwtPrivateKeyPath a, ac_jwtPublicKeyPath a,
       ac_bootstrapAdminUsername a, ac_bootstrapAdminPassword a] \<and>
     (ac_bootstrapAdminUsername a \<noteq> None) = (ac_bootstrapAdminPassword a \<noteq> None)"

lemma tls_typed: "tlsConfigSchema f = Some t \<Longrightarrow> tls_certPath t \<noteq> Some [] \<and> tls_keyPath t \<noteq> Some []"
  by (auto simp: tlsConfigSchema_def Option.bind_eq_Some_conv dest: z_opt_Some)

lemma tls_object_typed: "z_object tlsConfigSchema v = Some t \<Longrightarrow> tls_certPath t \<noteq> Some [] \<and> tls_keyPath t \<noteq> Some []"
  by (metis z_object_Some tls_typed)

lemma server_typed:
  assumes "serverConfigSchema f = Some s"
  shows "server_ok s"
proof -
  from assms obtain h p g b t where v: "z_field ''0.0.0.0'' z_nonempty (f ''host'') = Some h"
    "z_field 9090 z_port (f ''port'') = Some p" "z_field 50051 z_port (f ''grpcPort'') = Some g"
    "z_field no_tls (\<lambda>j. z_object tlsConfigSchema (Some j)) (f ''tls'') = Some t"
    and s: "s = \<lparr>sv_host = h, sv_port = p, sv_grpcPort = g, sv_dynamicPort = b, sv_tls = t\<rparr>"
    by (auto simp: serverConfigSchema_def Option.bind_eq_Some_conv)
  have "h \<noteq> []" by (rule z_field_ind [OF v(1)]) (auto dest: z_nonempty_Some)
  moreover have "1 \<le> p \<and> p \<le> 65535" by (rule z_field_ind [OF v(2)]) (auto dest: z_port_Some)
  moreover have "1 \<le> g \<and> g \<le> 65535" by (rule z_field_ind [OF v(3)]) (auto dest: z_port_Some)
  moreover have "tls_certPath t \<noteq> Some [] \<and> tls_keyPath t \<noteq> Some []"
    by (rule z_field_ind [OF v(4)]) (auto simp: no_tls_def dest: tls_object_typed)
  ultimately show ?thesis by (simp add: s server_ok_def)
qed

lemma storage_typed:
  "storageConfigSchema f = Some s \<Longrightarrow> [] \<notin> set [st_dataDir s, st_stagingRootPath s, st_doltReposRootPath s, st_nasSimPath s]"
  by (auto simp: storageConfigSchema_def Option.bind_eq_Some_conv
      dest!: z_field_ind [where P = "\<lambda>s. s \<noteq> []", OF _ _ z_nonempty_Some])

lemma database_typed:
  "databaseConfigSchema f = Some d \<Longrightarrow> [] \<notin> set [db_userDbPath d, db_repoDbPath d, db_ticketDbPath d, db_transferJobDbPath d,
     db_addonTrustDbPath d, db_sessionDbPath d]"
  by (auto simp: databaseConfigSchema_def Option.bind_eq_Some_conv
      dest!: z_field_ind [where P = "\<lambda>s. s \<noteq> []", OF _ _ z_nonempty_Some])

lemma auth_typed: "authConfigSchema parse f = Some a \<Longrightarrow> auth_config_ok a"
  by (auto simp: authConfigSchema_def Option.bind_eq_Some_conv auth_config_ok_def split: if_splits
      dest!: z_opt_Some z_field_ind [where P = "\<lambda>n. 1 \<le> n", OF _ _ z_positive_Some])

lemma logging_typed:
  assumes "loggingConfigSchema f = Some l"
  shows "lg_level l \<in> set LOG_LEVELS"
proof -
  from assms have v: "z_field ''info'' (z_enum LOG_LEVELS) (f ''level'') = Some (lg_level l)"
    by (auto simp: loggingConfigSchema_def Option.bind_eq_Some_conv)
  show ?thesis by (rule z_field_ind [OF v]) (auto simp: LOG_LEVELS_def dest: z_enum_Some)
qed

text \<open>
  C30. Whatever file, variables and overrides it was made of, a configuration that is loaded is
  well-typed: both ports lie between 1 and 65535, no path or host is empty, the times are positive, the
  log level and the environment are among the known ones, and the bootstrap administrator has both
  name and password or neither. It is also what \<open>getConfig\<close> returns from then on.
\<close>

theorem config_well_typed:
  assumes "loadConfig W opts c = (Inr cfg, c')"
  shows "server_ok (cf_server cfg) \<and> paths_ok (cf_storage cfg) (cf_database cfg) \<and> auth_config_ok (cf_auth cfg) \<and>
     lg_level (cf_logging cfg) \<in> set LOG_LEVELS \<and> cf_environment cfg \<in> set [''development'', ''production'', ''test''] \<and>
     getConfig W' env' c' = (Inr cfg, c')"
proof -
  from assms obtain m where "mergedConfig W opts = Inr m" and "appConfigSchema (cw_parse W) (JObj m) = Some cfg" and c: "c' = Some cfg"
    by (auto simp: loadConfig_def split: sum.splits option.splits)
  moreover define j where "j = JObj m"
  ultimately have "appConfigSchema (cw_parse W) j = Some cfg" by simp
  then obtain e s t d a l where p: "z_field ''development'' (z_enum [''development'', ''production'', ''test'']) (jfield ''environment'' j) = Some e"
    "z_object serverConfigSchema (jfield ''server'' j) = Some s" "z_object storageConfigSchema (jfield ''storage'' j) = Some t"
    "z_object databaseConfigSchema (jfield ''database'' j) = Some d" "z_object (authConfigSchema (cw_parse W)) (jfield ''auth'' j) = Some a"
    "z_object loggingConfigSchema (jfield ''logging'' j) = Some l"
    and cfg: "cfg = \<lparr>cf_environment = e, cf_server = s, cf_storage = t, cf_database = d, cf_auth = a, cf_logging = l\<rparr>"
    by (auto simp: appConfigSchema_def Option.bind_eq_Some_conv)
  have "e \<in> set [''development'', ''production'', ''test'']"
    by (rule z_field_ind [OF p(1)]) (auto dest: z_enum_Some)
  moreover have "lg_level l \<in> set LOG_LEVELS"
    using z_object_Some [OF p(6)] logging_typed by blast
  moreover obtain f g where fg: "storageConfigSchema f = Some t" "databaseConfigSchema g = Some d"
    using z_object_Some [OF p(3)] z_object_Some [OF p(4)] by blast
  have "paths_ok t d" using storage_typed [OF fg(1)] database_typed [OF fg(2)] by (simp add: paths_ok_def)
  moreover have "server_ok s" "auth_config_ok a"
    using z_object_Some [OF p(2)] z_object_Some [OF p(5)] server_typed auth_typed by blast+
  ultimately show ?thesis by (simp add: cfg c getConfig_def)
qed

theorem config_well_typed_witness:
  "\<exists>cfg c. loadConfig sample_config_world sample_load None = (Inr cfg, c) \<and> sv_port (cf_server cfg) \<le> 65535"
proof -
  have "isl (fst (loadConfig sample_config_world sample_load None)) = False" by code_simp
  then obtain cfg c where l: "loadConfig sample_config_world sample_load None = (Inr cfg, c)"
    by (cases "loadConfig sample_config_world sample_load None"; cases "fst (loadConfig sample_config_world sample_load None)") auto
  from config_well_typed [OF l] show ?thesis using l by (auto simp: server_ok_def)
qed

section \<open>What an export reveals\<close>

text \<open>
  Two values that differ only in non-empty texts under sensitive property names.
\<close>

fun same_but_secrets :: "json \<Rightarrow> json \<Rightarrow> bool" where
  "same_but_secrets (JArr xs) (JArr ys) \<longleftrightarrow> list_all2 same_but_secrets xs ys"
| "same_but_secrets (JObj fs) (JObj gs) \<longleftrightarrow>
     list_all2 (\<lambda>(k, v) (l, w). k = l \<and> (isSensitiveKey k \<and> secret_text v \<and> secret_text w \<or> same_but_secrets v w)) fs gs"
| "same_but_secrets v w \<longleftrightarrow> v = w"

definition redact_entry :: "string \<times> json \<Rightarrow> string \<times> json" where
  "redact_entry kv =
     (fst kv, if isSensitiveKey (fst kv) \<and> secret_text (snd kv) then JStr ''[REDACTED]'' else sanitizeValue (snd kv))"

lemma sanitize_obj: "sanitizeValue (JObj fs) = JObj (map redact_entry fs)"
  by (simp add: redact_entry_def split_def)

lemma sanitize_text: "sanitizeValue v = JStr s \<longleftrightarrow> v = JStr s"
  by (cases v) auto

lemma map_eq_list_all2:
  assumes "\<And>x y. x \<in> set xs \<Longrightarrow> f x = f y \<longleftrightarrow> R x y"
  shows "map f xs = map f ys \<longleftrightarrow> list_all2 R xs ys"
  using assms
proof (induction xs arbitrary: ys)
  case (Cons x xs)
  then show ?case by (cases ys) auto
qed auto

text \<open>
  C28. The sanitized form of two values is the same exactly when they differ only in secrets: the
  export tells nothing about a text under a sensitive name but that it is not empty, and it tells
  everything else.
\<close>

theorem sanitized_reveals_no_secret: "sanitizeValue v = sanitizeValue w \<longleftrightarrow> same_but_secrets v w"
proof (induction v arbitrary: w)
  case (JArr xs)
  show ?case
  proof (cases w)
    case (JArr ys)
    with map_eq_list_all2 [of xs sanitizeValue same_but_secrets ys] JArr.IH show ?thesis by simp
  qed simp_all
next
  case (JObj fs)
  show ?case
  proof (cases w)
    case w: (JObj gs)
    let ?R = "\<lambda>(k, v) (l, w). k = l \<and> (isSensitiveKey k \<and> secret_text v \<and> secret_text w \<or> same_but_secrets v w)"
    have "redact_entry x = redact_entry y \<longleftrightarrow> ?R x y" if "x \<in> set fs" for x y
    proof -
      obtain k a l b where xy: "x = (k, a)" "y = (l, b)" by (cases x; cases y)
      have IH: "sanitizeValue a = sanitizeValue b \<longleftrightarrow> same_but_secrets a b" for b
        using JObj.IH [OF that, of a b] xy by simp
      have s: "sanitizeValue c = sanitizeValue d \<Longrightarrow> secret_text c \<longleftrightarrow> secret_text d" for c d
        by (cases c; cases d) (simp_all add: secret_text_def)
      have r: "secret_text c" if "sanitizeValue c = JStr ''[REDACTED]''" for c
        using that by (simp add: sanitize_text secret_text_def)
      show ?thesis
        using IH [of b] s [of a b] r [of a] r [of b] unfolding xy redact_entry_def
        by (cases "isSensitiveKey k"; cases "secret_text a"; cases "secret_text b") (auto simp: sanitize_text dest: sym)
    qed
    then show ?thesis unfolding w sanitize_obj using map_eq_list_all2 [of fs redact_entry ?R gs] by simp
  qed simp_all
qed (case_tac w; simp)+

text \<open>
  A list under a sensitive name is not redacted, although the texts in it are secrets.
\<close>

lemma secret_list_leaks: "sanitizeValue (JObj [(''apiTokens'', JArr [JStr s])]) = JObj [(''apiTokens'', JArr [JStr s])]"
proof -
  have "\<not> secret_text (JArr [JStr s])" by (simp add: secret_text_def)
  then show ?thesis by simp
qed

text \<open>Every section is present in the merged object, so the default of a whole section is never used.\<close>

lemma merge_keeps_key: "distinct (map fst s) \<Longrightarrow> map_of t k \<noteq> None \<Longrightarrow> map_of (deepMerge t s) k \<noteq> None"
  by (simp add: deepMerge_lookup split: option.splits)

lemma merged_sections:
  assumes "\<forall>t j. cw_parse W t = Some j \<longrightarrow> jwf j" and "jwf (JObj (overrides_of opts))" and "mergedConfig W opts = Inr m"
    and "k \<in> set [''server'', ''storage'', ''database'', ''auth'', ''logging'']"
  shows "map_of m k \<noteq> None"
proof -
  from assms(3) obtain fileC envc where l: "file_config W opts = Inr fileC" "extractEnvConfig (lo_env opts) = Inr envc"
    "m = deepMerge (deepMerge (deepMerge DEFAULT_CONFIG fileC) envc) (overrides_of opts)"
    by (auto simp: mergedConfig_def split: sum.splits)
  have "map_of DEFAULT_CONFIG k \<noteq> None" using assms(4) by (auto simp: DEFAULT_CONFIG_def)
  then show ?thesis
    unfolding l(3) using file_config_jwf [OF assms(1) l(1)] extractEnvConfig_jwf [OF l(2)] assms(2)
    by (intro merge_keeps_key) simp_all
qed

section \<open>The two readers of a switch\<close>

lemma js_ws_lower: "js_ws (js_lower_char c) = js_ws c"
  by (auto simp: js_ws_def js_lower_char_def Let_def of_char_of)

lemma trim_lower: "js_trim (js_toLowerCase s) = js_toLowerCase (js_trim s)"
  by (simp add: js_trim_def js_trim_start_def js_toLowerCase_def dropWhile_map rev_map comp_def js_ws_lower)

lemma js_trim_length: "length (js_trim s) = length s \<Longrightarrow> js_trim s = s"
proof -
  assume l: "length (js_trim s) = length s"
  let ?u = "dropWhile js_ws s"
  have "length (dropWhile js_ws (rev ?u)) \<le> length ?u" "length ?u \<le> length s"
    using length_dropWhile_le [of js_ws "rev ?u"] length_dropWhile_le [of js_ws s] by simp_all
  with l have "length (dropWhile js_ws (rev ?u)) = length (rev ?u)" "length ?u = length s"
    by (simp_all add: js_trim_def js_trim_start_def)
  then have "dropWhile js_ws (rev ?u) = rev ?u" "?u = s"
    by (metis dropWhile_eq_drop drop0 length_drop diff_is_0_eq' diff_self_eq_0 length_takeWhile_le takeWhile_dropWhile_id append_eq_append_conv append_Nil)+
  then show ?thesis by (simp add: js_trim_def js_trim_start_def)
qed

text \<open>
  The same text of a switch is read by the settings of the server (\<open>env.ts\<close>) and by the
  configuration (\<open>schema.ts\<close>). Where the configuration accepts the text, both agree exactly unless
  the text means on and is \<open>on\<close> or has white space around it: then the configuration is on and the
  server is off. Texts that the configuration refuses are silently off in the server.
\<close>

theorem switch_readers_agree:
  assumes "booleanCoerce (JStr s) = Some b"
  shows "z_switch (Some s) = Some b \<longleftrightarrow> \<not> (b \<and> (js_toLowerCase (js_trim s) = ''on'' \<or> js_trim s \<noteq> s))"
proof -
  have same: "js_trim s = s" if "js_toLowerCase s \<in> set [''true'', ''1'', ''yes'']"
  proof -
    from that have "js_trim (js_toLowerCase s) = js_toLowerCase s"
      by (auto simp: js_ws_def intro!: js_trim_id)
    then have "length (js_toLowerCase (js_trim s)) = length (js_toLowerCase s)" by (simp add: trim_lower)
    then show ?thesis by (intro js_trim_length) (simp add: js_toLowerCase_def)
  qed
  with assms show ?thesis
    by (cases "js_trim s = s") (auto simp: booleanCoerce_def z_switch_def Let_def split: if_splits)
qed

theorem switch_readers_agree_witness:
  "booleanCoerce (JStr '' Yes'') = Some True \<and> z_switch (Some '' Yes'') \<noteq> Some True \<and>
   booleanCoerce (JStr ''off'') = Some False \<and> z_switch (Some ''off'') = Some False"
proof -
  have "booleanCoerce (JStr '' Yes'') = Some True" "booleanCoerce (JStr ''off'') = Some False" "js_trim '' Yes'' \<noteq> '' Yes''"
    by code_simp+
  then show ?thesis
    using switch_readers_agree [of "'' Yes''" True] switch_readers_agree [of "''off''" False] by simp
qed

end
