(* ===== verification/Bootstrap.thy ===== *)
theory Bootstrap
  imports ConfigSchema
begin

text \<open>
  The bootstrap of an installation (\<open>bootstrap/init.ts\<close>): data directories, the permission probe,
  the choice of a port, the persistent key pair, the primary database and the orchestrator that
  composes them.

  The state is the file system (contents of files, existing directories), the databases that were
  opened with the statements executed on them, and the configuration that \<open>loadConfig\<close> caches. The
  record \<open>sys_env\<close> holds what the operating system and the libraries answer: path functions, which
  operations succeed where, the next generated key pair, which ports can be bound. The name of the
  probe file (time and random text) is \<open>se_probe\<close>. A \<open>DiagnosticError\<close> is its code.
\<close>

datatype boot_error =
    BootConfigError config_error
  | DiagnosticCode string
  | SystemError

record sys_state =
  ss_files :: "string \<Rightarrow> string option"
  ss_dirs :: "string list"
  ss_databases :: "(string \<times> string list) list"
  ss_config :: "app_config option"

record sys_env =
  se_config :: config_world
  se_resolve :: "string \<Rightarrow> string"
  se_join :: "string \<Rightarrow> string \<Rightarrow> string"
  se_dirname :: "string \<Rightarrow> string"
  se_parents :: "string \<Rightarrow> string list"
  se_mkdir_ok :: "string \<Rightarrow> bool"
  se_write_ok :: "string \<Rightarrow> bool"
  se_read_ok :: "string \<Rightarrow> bool"
  se_unlink_ok :: "string \<Rightarrow> bool"
  se_chmod_ok :: "string \<Rightarrow> bool"
  se_stat_ok :: "string \<Rightarrow> bool"
  se_executable :: "string \<Rightarrow> bool"
  se_probe :: "string \<Rightarrow> string"
  se_windows :: bool
  se_keygen :: "(string \<times> string) option"
  se_port_free :: "string \<Rightarrow> int \<Rightarrow> bool"
  se_db_open :: "string \<Rightarrow> bool"
  se_db_exec :: "string \<Rightarrow> string \<Rightarrow> bool"
  se_db_check :: "string \<Rightarrow> string option option"

type_synonym 'a sys_op = "(sys_state, boot_error, 'a) op"

section \<open>File system calls\<close>

definition existsSync :: "string \<Rightarrow> sys_state \<Rightarrow> bool" where
  "existsSync p s \<longleftrightarrow> p \<in> set (ss_dirs s) \<or> ss_files s p \<noteq> None"

definition mkdirSync :: "sys_env \<Rightarrow> string \<Rightarrow> unit sys_op" where
  "mkdirSync E p s =
     (if se_mkdir_ok E p then (Inr (), s\<lparr>ss_dirs := p # se_parents E p @ ss_dirs s\<rparr>) else (Inl SystemError, s))"

definition writeFileSync :: "sys_env \<Rightarrow> string \<Rightarrow> string \<Rightarrow> unit sys_op" where
  "writeFileSync E p content s =
     (if se_write_ok E p then (Inr (), s\<lparr>ss_files := (ss_files s)(p \<mapsto> content)\<rparr>) else (Inl SystemError, s))"

definition readFileSync :: "sys_env \<Rightarrow> string \<Rightarrow> string sys_op" where
  "readFileSync E p s =
     (case ss_files s p of Some c \<Rightarrow> if se_read_ok E p then (Inr c, s) else (Inl SystemError, s) | None \<Rightarrow> (Inl SystemError, s))"

definition chmodSync :: "sys_env \<Rightarrow> string \<Rightarrow> unit sys_op" where
  "chmodSync E p s = (if se_chmod_ok E p then (Inr (), s) else (Inl SystemError, s))"

text \<open>A \<open>try\<close> whose \<open>catch\<close> throws a \<open>DiagnosticError\<close> with the code.\<close>

definition diagnosed :: "string \<Rightarrow> 'a sys_op \<Rightarrow> 'a sys_op" where
  "diagnosed code m = try_catch m (\<lambda>_. throw (DiagnosticCode code))"

section \<open>Directories\<close>

record resolved_directories =
  rd_dataDir :: string
  rd_keysDir :: string
  rd_dbDir :: string
  rd_stagingDir :: string
  rd_reposDir :: string
  rd_certsDir :: string

definition resolveDataDirectory :: "sys_env \<Rightarrow> string option \<Rightarrow> string" where
  "resolveDataDirectory E configuredPath =
     (case configuredPath of
        Some p \<Rightarrow> if p \<noteq> [] \<and> p \<noteq> ''./data'' then se_resolve E p else se_resolve E p
      | None \<Rightarrow> se_resolve E ''./data'')"

text \<open>The platform's directory: platform, whether root, the variables and the home directory.\<close>

definition env_or :: "(string \<times> string) list \<Rightarrow> string \<Rightarrow> string \<Rightarrow> string" where
  "env_or env k d = (case map_of env k of Some v \<Rightarrow> if v = [] then d else v | None \<Rightarrow> d)"

definition detectSystemDataDir :: "sys_env \<Rightarrow> string \<Rightarrow> bool \<Rightarrow> (string \<times> string) list \<Rightarrow> string \<Rightarrow> string" where
  "detectSystemDataDir E osType isRoot env home =
     (let j = se_join E
      in if osType = ''linux'' then
           if isRoot then ''/var/lib/deltix''
           else j (env_or env ''XDG_DATA_HOME'' (j (j home ''.local'') ''share'')) ''deltix''
         else if osType = ''darwin'' then j (j (j home ''Library'') ''Application Support'') ''deltix''
         else if osType = ''win32'' then
           j (env_or env ''PROGRAMDATA'' (env_or env ''LOCALAPPDATA'' (j (j home ''AppData'') ''Local''))) ''deltix''
         else se_resolve E ''./data'')"

definition directories_of :: "sys_env \<Rightarrow> string \<Rightarrow> resolved_directories" where
  "directories_of E base =
     \<lparr>rd_dataDir = base, rd_keysDir = se_join E base ''keys'', rd_dbDir = se_join E base ''db'',
      rd_stagingDir = se_join E base ''staging'', rd_reposDir = se_join E base ''repos'',
      rd_certsDir = se_join E base ''certs''\<rparr>"

definition dir_values :: "resolved_directories \<Rightarrow> string list" where
  "dir_values d = [rd_dataDir d, rd_keysDir d, rd_dbDir d, rd_stagingDir d, rd_reposDir d, rd_certsDir d]"

fun ensure_dirs :: "sys_env \<Rightarrow> string list \<Rightarrow> unit sys_op" where
  "ensure_dirs E [] s = (Inr (), s)"
| "ensure_dirs E (d # ds) s =
     (if existsSync d s then ensure_dirs E ds s
      else and_then (diagnosed ''ERR_DIR_CREATION_FAILED'' (mkdirSync E d)) (\<lambda>_. ensure_dirs E ds) s)"

definition ensureDataDirectoryStructure :: "sys_env \<Rightarrow> string \<Rightarrow> resolved_directories sys_op" where
  "ensureDataDirectoryStructure E baseDataDir =
     (let dirs = directories_of E (se_resolve E baseDataDir)
      in and_then (ensure_dirs E (dir_values dirs)) (\<lambda>_. ret dirs))"

section \<open>Permission probe\<close>

definition PROBE_TEXT :: string where
  "PROBE_TEXT = ''deltix-permissions-probe-test''"

text \<open>The \<open>finally\<close> block: remove the probe, best effort.\<close>

definition remove_probe :: "sys_env \<Rightarrow> string \<Rightarrow> sys_state \<Rightarrow> sys_state" where
  "remove_probe E p s =
     (if existsSync p s \<and> se_unlink_ok E p then s\<lparr>ss_files := (ss_files s)(p := None)\<rparr> else s)"

definition probeFileWriteAndRead :: "sys_env \<Rightarrow> string \<Rightarrow> unit sys_op" where
  "probeFileWriteAndRead E resolved =
     (let probeFile = se_join E resolved (se_probe E resolved)
      in and_then (diagnosed ''ERR_DATA_DIR_NOT_WRITABLE'' (writeFileSync E probeFile PROBE_TEXT))
           (\<lambda>_ s. case diagnosed ''ERR_DATA_DIR_NOT_READABLE''
                         (and_then (readFileSync E probeFile)
                            (\<lambda>c. if c = PROBE_TEXT then ret () else throw SystemError)) s of
                    (r, s') \<Rightarrow> (r, remove_probe E probeFile s')))"

record permission_result =
  pc_readable :: bool
  pc_writable :: bool
  pc_executable :: bool
  pc_path :: string

definition checkDirectoryPermissions :: "sys_env \<Rightarrow> string \<Rightarrow> permission_result sys_op" where
  "checkDirectoryPermissions E dirPath s =
     (let resolved = se_resolve E dirPath
      in and_then (if existsSync resolved s then ret () else diagnosed ''ERR_DATA_DIR_PERMISSION'' (mkdirSync E resolved))
           (\<lambda>_. and_then (probeFileWriteAndRead E resolved)
             (\<lambda>_. if se_stat_ok E resolved
                  then ret \<lparr>pc_readable = True, pc_writable = True, pc_executable = se_executable E resolved, pc_path = resolved\<rparr>
                  else throw SystemError)) s)"

section \<open>Ports\<close>

definition checkPortAvailable :: "sys_env \<Rightarrow> int \<Rightarrow> string \<Rightarrow> bool" where
  "checkPortAvailable E port host = se_port_free E host port"

text \<open>The loop over the offsets: the candidate and the attempts that are left.\<close>

fun scan_ports :: "sys_env \<Rightarrow> string \<Rightarrow> int \<Rightarrow> nat \<Rightarrow> int option" where
  "scan_ports E host candidate 0 = None"
| "scan_ports E host candidate (Suc n) =
     (if candidate > 65535 then None
      else if checkPortAvailable E candidate host then Some candidate
      else scan_ports E host (candidate + 1) n)"

definition resolveServerPort :: "sys_env \<Rightarrow> int \<Rightarrow> string \<Rightarrow> bool \<Rightarrow> nat \<Rightarrow> string + int \<times> bool" where
  "resolveServerPort E preferredPort host dynamicPort maxAttempts =
     (if checkPortAvailable E preferredPort host then Inr (preferredPort, False)
      else if \<not> dynamicPort then Inl ''ERR_PORT_IN_USE''
      else case scan_ports E host (preferredPort + 1) maxAttempts of
             Some p \<Rightarrow> Inr (p, True)
           | None \<Rightarrow> Inl ''ERR_NO_AVAILABLE_PORTS'')"

section \<open>Keys\<close>

record persistent_keypair =
  kp_privateKeyPem :: string
  kp_publicKeyPem :: string
  kp_privateKeyPath :: string
  kp_publicKeyPath :: string
  kp_created :: bool

definition key_paths :: "sys_env \<Rightarrow> string \<Rightarrow> string \<times> string" where
  "key_paths E keysDir =
     (let d = se_resolve E keysDir in (se_join E d ''jwt_ed25519.pkcs8'', se_join E d ''jwt_ed25519.spki''))"

definition read_keypair :: "sys_env \<Rightarrow> string \<Rightarrow> string \<Rightarrow> persistent_keypair sys_op" where
  "read_keypair E privPath pubPath =
     diagnosed ''ERR_CRYPTO_KEY_READ_FAILED''
       (and_then (readFileSync E privPath) (\<lambda>priv.
          and_then (readFileSync E pubPath) (\<lambda>pub.
            ret \<lparr>kp_privateKeyPem = priv, kp_publicKeyPem = pub, kp_privateKeyPath = privPath,
                 kp_publicKeyPath = pubPath, kp_created = False\<rparr>)))"

definition write_keypair :: "sys_env \<Rightarrow> string \<Rightarrow> string \<Rightarrow> string \<times> string \<Rightarrow> unit sys_op" where
  "write_keypair E privPath pubPath pair =
     diagnosed ''ERR_CRYPTO_KEY_WRITE_FAILED''
       (and_then (writeFileSync E privPath (fst pair)) (\<lambda>_.
          and_then (writeFileSync E pubPath (snd pair)) (\<lambda>_.
            if se_windows E then ret ()
            else and_then (chmodSync E privPath) (\<lambda>_. chmodSync E pubPath))))"

definition load_or_create_keypair :: "sys_env \<Rightarrow> string \<Rightarrow> string \<Rightarrow> persistent_keypair sys_op" where
  "load_or_create_keypair E privPath pubPath s =
     (if existsSync privPath s \<and> existsSync pubPath s then read_keypair E privPath pubPath s
      else case se_keygen E of
             None \<Rightarrow> (Inl (DiagnosticCode ''ERR_CRYPTO_KEY_GEN_FAILED''), s)
           | Some pair \<Rightarrow>
               and_then (write_keypair E privPath pubPath pair)
                 (\<lambda>_. ret \<lparr>kp_privateKeyPem = fst pair, kp_publicKeyPem = snd pair, kp_privateKeyPath = privPath,
                           kp_publicKeyPath = pubPath, kp_created = True\<rparr>) s)"

definition ensureCryptoKeypair :: "sys_env \<Rightarrow> string \<Rightarrow> persistent_keypair sys_op" where
  "ensureCryptoKeypair E keysDir s =
     (let resolvedDir = se_resolve E keysDir; (privPath, pubPath) = key_paths E keysDir
      in and_then (if existsSync resolvedDir s then ret () else mkdirSync E resolvedDir)
           (\<lambda>_. load_or_create_keypair E privPath pubPath) s)"

section \<open>The primary database\<close>

record sqlite_options =
  sq_walMode :: "bool option"
  sq_busyTimeoutMs :: "int option"

definition bootstrap_statements :: "sqlite_options \<Rightarrow> string list" where
  "bootstrap_statements opts =
     (if sq_walMode opts = Some False then [] else [''PRAGMA journal_mode = WAL;'']) @
     [''PRAGMA synchronous = NORMAL;'', ''PRAGMA foreign_keys = ON;'',
      ''PRAGMA busy_timeout = '' @ js_show_int (case sq_busyTimeoutMs opts of None \<Rightarrow> 5000 | Some n \<Rightarrow> n) @ '';'',
      ''PRAGMA temp_store = MEMORY;'', ''CREATE TABLE IF NOT EXISTS _schema_meta'', ''PRAGMA quick_check;'']"

text \<open>\<open>quick_check\<close> returns no row, or a row whose text must be \<open>ok\<close>.\<close>

definition integrity_ok :: "string option option \<Rightarrow> bool" where
  "integrity_ok r = (case r of None \<Rightarrow> True | Some q \<Rightarrow> q = Some ''ok'')"

definition initSqlite :: "sys_env \<Rightarrow> string \<Rightarrow> sqlite_options \<Rightarrow> string sys_op" where
  "initSqlite E dbPath opts s =
     (let resolved = se_resolve E dbPath; parent = se_dirname E resolved
      in and_then (if existsSync parent s then ret () else mkdirSync E parent)
           (\<lambda>_ s. if \<not> se_db_open E resolved then (Inl (DiagnosticCode ''ERR_SQLITE_INIT_FAILED''), s)
                  else if list_all (se_db_exec E resolved) (bootstrap_statements opts) \<and> integrity_ok (se_db_check E resolved)
                  then (Inr resolved, s\<lparr>ss_databases := (resolved, bootstrap_statements opts) # ss_databases s\<rparr>)
                  else (Inl (DiagnosticCode ''ERR_SQLITE_PRAGMA_FAILED''), s)) s)"

section \<open>The orchestrator\<close>

text \<open>\<open>Object.assign\<close>: a section that is given replaces the whole section.\<close>

record config_overrides =
  ov_environment :: "string option"
  ov_server :: "server_config option"
  ov_storage :: "storage_config option"
  ov_database :: "database_config option"
  ov_auth :: "auth_config option"
  ov_logging :: "logging_config option"

definition or_else :: "'a option \<Rightarrow> 'a \<Rightarrow> 'a" where
  "or_else x d = (case x of None \<Rightarrow> d | Some y \<Rightarrow> y)"

definition assign_overrides :: "config_overrides \<Rightarrow> app_config \<Rightarrow> app_config" where
  "assign_overrides ov c =
     \<lparr>cf_environment = or_else (ov_environment ov) (cf_environment c), cf_server = or_else (ov_server ov) (cf_server c),
      cf_storage = or_else (ov_storage ov) (cf_storage c), cf_database = or_else (ov_database ov) (cf_database c),
      cf_auth = or_else (ov_auth ov) (cf_auth c), cf_logging = or_else (ov_logging ov) (cf_logging c)\<rparr>"

record bootstrap_options =
  bo_config :: load_options
  bo_overrides :: "config_overrides option"
  bo_skipDatabaseInit :: bool
  bo_skipPortCheck :: bool

record bootstrap_context =
  bc_config :: app_config
  bc_directories :: resolved_directories
  bc_httpPort :: int
  bc_grpcPort :: int
  bc_httpPortAdjusted :: bool
  bc_keys :: persistent_keypair
  bc_db :: "string option"

definition no_text :: "string option \<Rightarrow> bool" where
  "no_text x \<longleftrightarrow> x = None \<or> x = Some []"

text \<open>The generated keys fill in for keys that are not configured, each key on its own.\<close>

definition with_keys :: "persistent_keypair \<Rightarrow> app_config \<Rightarrow> app_config" where
  "with_keys keys c =
     (let a = cf_auth c;
          a1 = (if no_text (ac_jwtPrivateKey a)
                then a\<lparr>ac_jwtPrivateKey := Some (kp_privateKeyPem keys), ac_jwtPrivateKeyPath := Some (kp_privateKeyPath keys)\<rparr> else a);
          a2 = (if no_text (ac_jwtPublicKey a1)
                then a1\<lparr>ac_jwtPublicKey := Some (kp_publicKeyPem keys), ac_jwtPublicKeyPath := Some (kp_publicKeyPath keys)\<rparr> else a1)
      in c\<lparr>cf_auth := a2\<rparr>)"

definition check_ports :: "sys_env \<Rightarrow> bool \<Rightarrow> server_config \<Rightarrow> boot_error + int \<times> bool" where
  "check_ports E skip sv =
     (if skip then Inr (sv_port sv, False)
      else case resolveServerPort E (sv_port sv) (sv_host sv) (sv_dynamicPort sv) 50 of
             Inl code \<Rightarrow> Inl (DiagnosticCode code)
           | Inr p \<Rightarrow>
               if checkPortAvailable E (sv_grpcPort sv) (sv_host sv) then Inr p
               else Inl (DiagnosticCode ''ERR_GRPC_PORT_IN_USE''))"

text \<open>
  The configuration object is the cached one: replacing its sections and filling in its keys changes
  what \<open>getConfig\<close> returns.
\<close>

definition boot_config :: "sys_env \<Rightarrow> bootstrap_options \<Rightarrow> app_config sys_op" where
  "boot_config E opts s =
     (case loadConfig (se_config E) (bo_config opts) (ss_config s) of
        (Inl e, c) \<Rightarrow> (Inl (BootConfigError e), s\<lparr>ss_config := c\<rparr>)
      | (Inr cfg, c) \<Rightarrow>
          let cfg' = (case bo_overrides opts of None \<Rightarrow> cfg | Some ov \<Rightarrow> assign_overrides ov cfg)
          in (Inr cfg', s\<lparr>ss_config := Some cfg'\<rparr>))"

definition boot_keys :: "sys_env \<Rightarrow> string \<Rightarrow> app_config \<Rightarrow> (persistent_keypair \<times> app_config) sys_op" where
  "boot_keys E keysDir cfg s =
     (case ensureCryptoKeypair E keysDir s of
        (Inl e, s') \<Rightarrow> (Inl e, s')
      | (Inr keys, s') \<Rightarrow> (Inr (keys, with_keys keys cfg), s'\<lparr>ss_config := Some (with_keys keys cfg)\<rparr>))"

definition bootstrap :: "sys_env \<Rightarrow> bootstrap_options \<Rightarrow> bootstrap_context sys_op" where
  "bootstrap E opts =
     and_then (boot_config E opts) (\<lambda>cfg.
     and_then (ensureDataDirectoryStructure E (resolveDataDirectory E (Some (st_dataDir (cf_storage cfg))))) (\<lambda>dirs.
     and_then (checkDirectoryPermissions E (rd_dataDir dirs)) (\<lambda>_.
     and_then (case check_ports E (bo_skipPortCheck opts) (cf_server cfg) of Inl e \<Rightarrow> throw e | Inr p \<Rightarrow> ret p) (\<lambda>port.
     and_then (boot_keys E (rd_keysDir dirs) cfg) (\<lambda>kc.
     and_then (if bo_skipDatabaseInit opts then ret None
               else and_then (initSqlite E (se_join E (rd_dbDir dirs) ''deltix.db'') \<lparr>sq_walMode = None, sq_busyTimeoutMs = None\<rparr>)
                      (\<lambda>d. ret (Some d))) (\<lambda>db.
     ret \<lparr>bc_config = snd kc, bc_directories = dirs, bc_httpPort = fst port, bc_grpcPort = sv_grpcPort (cf_server cfg),
          bc_httpPortAdjusted = snd port, bc_keys = fst kc, bc_db = db\<rparr>))))))"

section \<open>Ports\<close>

lemma scan_ports_Some:
  "scan_ports E host c n = Some p \<longleftrightarrow>
     c \<le> p \<and> p < c + int n \<and> p \<le> 65535 \<and> checkPortAvailable E p host \<and>
     (\<forall>q. c \<le> q \<and> q < p \<longrightarrow> \<not> checkPortAvailable E q host)"
proof (induction n arbitrary: c)
  case (Suc n)
  have step: "(\<forall>q. c \<le> q \<and> q < p \<longrightarrow> \<not> checkPortAvailable E q host) \<longleftrightarrow>
      \<not> checkPortAvailable E c host \<and> (\<forall>q. c + 1 \<le> q \<and> q < p \<longrightarrow> \<not> checkPortAvailable E q host)" if "c < p"
  proof -
    have "c \<le> q \<longleftrightarrow> q = c \<or> c + 1 \<le> q" for q :: int by auto
    with that show ?thesis by metis
  qed
  show ?case
  proof (cases "c < p")
    case True
    with Suc.IH [of "c + 1"] step show ?thesis by auto
  next
    case False
    with Suc.IH [of "c + 1"] show ?thesis by auto
  qed
qed auto

lemma scan_ports_None:
  "scan_ports E host c n = None \<longleftrightarrow>
     (\<forall>r. c \<le> r \<and> r < c + int n \<and> r \<le> 65535 \<longrightarrow> \<not> checkPortAvailable E r host)"
proof (induction n arbitrary: c)
  case (Suc n)
  have "(\<forall>r. c \<le> r \<and> r < c + int (Suc n) \<and> r \<le> 65535 \<longrightarrow> \<not> checkPortAvailable E r host) \<longleftrightarrow>
      (c \<le> 65535 \<longrightarrow> \<not> checkPortAvailable E c host) \<and>
      (\<forall>r. c + 1 \<le> r \<and> r < c + 1 + int n \<and> r \<le> 65535 \<longrightarrow> \<not> checkPortAvailable E r host)"
    (is "?A \<longleftrightarrow> ?B \<and> ?C")
  proof
    assume ?A
    then show "?B \<and> ?C" by auto
  next
    assume bc: "?B \<and> ?C"
    show ?A
    proof (intro allI impI)
      fix r
      assume r: "c \<le> r \<and> r < c + int (Suc n) \<and> r \<le> 65535"
      show "\<not> checkPortAvailable E r host"
      proof (cases "r = c")
        case False
        with r have "c + 1 \<le> r \<and> r < c + 1 + int n \<and> r \<le> 65535" by auto
        with bc show ?thesis by blast
      qed (use bc r in simp)
    qed
  qed
  with Suc.IH [of "c + 1"] show ?case by auto
qed auto

text \<open>
  C29. The port of the server: the preferred port exactly when it is free; otherwise, if dynamic ports
  are enabled, the lowest free port above it, at most the given number of ports away and never above
  65535; otherwise an error, which says whether the port was taken or no free one was found.
\<close>

theorem port_resolution_exact:
  "(resolveServerPort E p host dyn n = Inr (q, adjusted) \<longleftrightarrow>
     (if checkPortAvailable E p host then q = p \<and> \<not> adjusted
      else dyn \<and> adjusted \<and> p < q \<and> q \<le> p + int n \<and> q \<le> 65535 \<and> checkPortAvailable E q host \<and>
           (\<forall>r. p < r \<and> r < q \<longrightarrow> \<not> checkPortAvailable E r host))) \<and>
   (resolveServerPort E p host dyn n = Inl code \<longleftrightarrow>
     \<not> checkPortAvailable E p host \<and>
     (if dyn then code = ''ERR_NO_AVAILABLE_PORTS'' \<and>
           (\<forall>r. p < r \<and> r \<le> p + int n \<and> r \<le> 65535 \<longrightarrow> \<not> checkPortAvailable E r host)
      else code = ''ERR_PORT_IN_USE''))"
proof -
  have shift: "(p + 1 \<le> r) = (p < r)" "(r < p + 1 + int n) = (r \<le> p + int n)" for r by auto
  note some = scan_ports_Some [of E host "p + 1" n q, unfolded shift]
  note none = scan_ports_None [of E host "p + 1" n, unfolded shift]
  show ?thesis
    using some none by (cases "scan_ports E host (p + 1) n") (auto simp: resolveServerPort_def)
qed

text \<open>
  The scan does not look at the gRPC port: with the configured port taken and the gRPC port free, the
  HTTP listener can be given the very port that the gRPC listener is about to use.
\<close>

lemma ports_can_collide:
  assumes "\<not> checkPortAvailable E (sv_port sv) (sv_host sv)" and "sv_dynamicPort sv"
    and "sv_grpcPort sv = sv_port sv + 1" and "sv_grpcPort sv \<le> 65535"
    and "checkPortAvailable E (sv_grpcPort sv) (sv_host sv)"
  shows "check_ports E False sv = Inr (sv_grpcPort sv, True)"
proof -
  have "scan_ports E (sv_host sv) (sv_port sv + 1) 50 = Some (sv_grpcPort sv)"
    using assms(3-5) by (subst scan_ports_Some) auto
  with assms show ?thesis by (simp add: check_ports_def resolveServerPort_def)
qed

section \<open>Keys persist\<close>

lemma diagnosed_Inr: "diagnosed code m s = (Inr x, t) \<longleftrightarrow> m s = (Inr x, t)"
  by (auto simp: diagnosed_def try_catch_def split: prod.splits sum.splits)

lemma readFileSync_Inr: "readFileSync E p s = (Inr c, t) \<longleftrightarrow> ss_files s p = Some c \<and> se_read_ok E p \<and> t = s"
  by (auto simp: readFileSync_def split: option.splits)

lemma writeFileSync_Inr:
  "writeFileSync E p c s = (Inr x, t) \<longleftrightarrow> se_write_ok E p \<and> t = s\<lparr>ss_files := (ss_files s)(p \<mapsto> c)\<rparr>"
  by (auto simp: writeFileSync_def)

lemma chmodSync_Inr: "chmodSync E p s = (Inr x, t) \<longleftrightarrow> se_chmod_ok E p \<and> t = s"
  by (auto simp: chmodSync_def)

lemma mkdirSync_Inr:
  "mkdirSync E p s = (Inr x, t) \<longleftrightarrow> se_mkdir_ok E p \<and> t = s\<lparr>ss_dirs := p # se_parents E p @ ss_dirs s\<rparr>"
  by (auto simp: mkdirSync_def)

lemma existsSync_simps [simp]:
  "existsSync p (s\<lparr>ss_config := c\<rparr>) = existsSync p s" "existsSync p (s\<lparr>ss_databases := d\<rparr>) = existsSync p s"
  "existsSync p s \<Longrightarrow> existsSync p (s\<lparr>ss_files := (ss_files s)(q \<mapsto> x)\<rparr>)"
  by (auto simp: existsSync_def)

lemma write_keypair_Inr:
  assumes "write_keypair E privPath pubPath pair s = (Inr x, t)"
  shows "t = s\<lparr>ss_files := (ss_files s)(privPath \<mapsto> fst pair, pubPath \<mapsto> snd pair)\<rparr>"
  using assms unfolding write_keypair_def diagnosed_Inr
  by (elim and_then_InrE) (auto simp: writeFileSync_Inr chmodSync_Inr op_simps split: if_splits)

lemma ensureCryptoKeypair_Inr:
  assumes "ensureCryptoKeypair E keysDir s = (Inr keys, s')" and p: "key_paths E keysDir = (privPath, pubPath)"
    and ne: "privPath \<noteq> pubPath"
  shows "existsSync (se_resolve E keysDir) s' \<and> ss_files s' privPath = Some (kp_privateKeyPem keys) \<and>
      ss_files s' pubPath = Some (kp_publicKeyPem keys) \<and> kp_privateKeyPath keys = privPath \<and> kp_publicKeyPath keys = pubPath"
proof -
  from assms(1) have "and_then (if existsSync (se_resolve E keysDir) s then ret () else mkdirSync E (se_resolve E keysDir))
      (\<lambda>_. load_or_create_keypair E privPath pubPath) s = (Inr keys, s')"
    by (simp add: ensureCryptoKeypair_def p Let_def)
  then obtain x s1 where
    d: "(if existsSync (se_resolve E keysDir) s then ret () else mkdirSync E (se_resolve E keysDir)) s = (Inr x, s1)"
    and r: "load_or_create_keypair E privPath pubPath s1 = (Inr keys, s')"
    by (rule and_then_InrE)
  from d have e: "existsSync (se_resolve E keysDir) s1"
    by (auto simp: mkdirSync_Inr existsSync_def split: if_splits)
  show ?thesis
  proof (cases "existsSync privPath s1 \<and> existsSync pubPath s1")
    case True
    with r have "read_keypair E privPath pubPath s1 = (Inr keys, s')" by (simp add: load_or_create_keypair_def)
    then show ?thesis using e unfolding read_keypair_def diagnosed_Inr
      by (elim and_then_InrE) (auto simp: readFileSync_Inr)
  next
    case False
    with r obtain pair where "and_then (write_keypair E privPath pubPath pair)
        (\<lambda>_. ret \<lparr>kp_privateKeyPem = fst pair, kp_publicKeyPem = snd pair, kp_privateKeyPath = privPath,
                  kp_publicKeyPath = pubPath, kp_created = True\<rparr>) s1 = (Inr keys, s')"
      by (auto simp: load_or_create_keypair_def split: option.splits)
    then show ?thesis using e ne by (elim and_then_InrE) (auto dest!: write_keypair_Inr simp: existsSync_def split: if_splits)
  qed
qed

text \<open>
  C18. The key pair of an installation is made once: after a call that succeeded, any later call, with
  whatever pair the generator would give, finds the directory and returns the same two keys from the
  disk, marked as not created, and changes nothing. The two files are different and readable.
\<close>

theorem keypair_persistent:
  assumes "ensureCryptoKeypair E keysDir s = (Inr keys, s')"
    and "fst (key_paths E keysDir) \<noteq> snd (key_paths E keysDir)"
    and "se_read_ok E (fst (key_paths E keysDir))" and "se_read_ok E (snd (key_paths E keysDir))"
  shows "ensureCryptoKeypair (E\<lparr>se_keygen := g\<rparr>) keysDir s' = (Inr (keys\<lparr>kp_created := False\<rparr>), s')"
proof -
  obtain privPath pubPath where p: "key_paths E keysDir = (privPath, pubPath)" by (cases "key_paths E keysDir")
  have p': "key_paths (E\<lparr>se_keygen := g\<rparr>) keysDir = (privPath, pubPath)" using p by (simp add: key_paths_def)
  have ne: "privPath \<noteq> pubPath" and r: "se_read_ok E privPath" "se_read_ok E pubPath" using assms(2-4) p by simp_all
  from ensureCryptoKeypair_Inr [OF assms(1) p ne] p p' r show ?thesis
    by (simp add: ensureCryptoKeypair_def load_or_create_keypair_def and_then_def existsSync_def read_keypair_def diagnosed_def try_catch_def readFileSync_def)
qed

text \<open>
  Only one of the two files is not a key pair: both are written anew, and the key that was there is
  lost.
\<close>

lemma lone_key_replaced:
  assumes "key_paths E keysDir = (privPath, pubPath)" and "existsSync (se_resolve E keysDir) s"
    and "existsSync privPath s" and "\<not> existsSync pubPath s"
    and "se_keygen E = Some (k, l)" and "se_write_ok E privPath" and "se_write_ok E pubPath" and "se_windows E"
    and "privPath \<noteq> pubPath"
  shows "\<exists>keys s'. ensureCryptoKeypair E keysDir s = (Inr keys, s') \<and> ss_files s' privPath = Some k"
  using assms
  by (simp add: ensureCryptoKeypair_def load_or_create_keypair_def and_then_def write_keypair_def diagnosed_def try_catch_def
      writeFileSync_def)

section \<open>A bootstrap that succeeds\<close>

text \<open>What existed before an operation exists after it, whether it throws or not.\<close>

named_theorems keeps_intros "operations that keep a path"

lemma keeps_basic [keeps_intros]:
  assumes "existsSync d s"
  shows "existsSync d (snd (ret x s))" "existsSync d (snd (throw e s))" "existsSync d (snd (mkdirSync E p s))"
    "existsSync d (snd (writeFileSync E p c s))" "existsSync d (snd (readFileSync E p s))" "existsSync d (snd (chmodSync E p s))"
  using assms
  by (auto simp: mkdirSync_def writeFileSync_def readFileSync_def chmodSync_def existsSync_def split: option.splits)

lemma sys_keeps_and_then [keeps_intros]:
  "existsSync d (snd (m s)) \<Longrightarrow> (\<And>x t. existsSync d t \<Longrightarrow> existsSync d (snd (f x t))) \<Longrightarrow> existsSync d (snd (and_then m f s))"
  by (auto simp: and_then_def split: prod.splits sum.splits)

lemma keeps_diagnosed [keeps_intros]: "existsSync d (snd (m s)) \<Longrightarrow> existsSync d (snd (diagnosed c m s))"
  by (auto simp: diagnosed_def try_catch_def split: prod.splits sum.splits)

lemma keeps_if [keeps_intros]:
  "(b \<Longrightarrow> existsSync d (snd (m s))) \<Longrightarrow> (\<not> b \<Longrightarrow> existsSync d (snd (n s))) \<Longrightarrow> existsSync d (snd ((if b then m else n) s))"
  by simp

lemma keeps_ensure_dirs [keeps_intros]: "existsSync d s \<Longrightarrow> existsSync d (snd (ensure_dirs E ds s))"
proof (induction ds arbitrary: s)
  case (Cons a ds)
  have "existsSync d (snd (and_then (diagnosed c (mkdirSync E a)) (\<lambda>_. ensure_dirs E ds) s))" for c
    by (intro keeps_intros Cons)
  with Cons show ?case by simp
qed simp

lemma keeps_probe:
  assumes "d \<noteq> se_join E r (se_probe E r)" and "existsSync d s"
  shows "existsSync d (snd (probeFileWriteAndRead E r s))"
proof -
  let ?p = "se_join E r (se_probe E r)"
  let ?read = "diagnosed ''ERR_DATA_DIR_NOT_READABLE'' (and_then (readFileSync E ?p) (\<lambda>c. if c = PROBE_TEXT then ret () else throw SystemError))"
  have "existsSync d (snd (?read t))" if "existsSync d t" for t by (intro keeps_intros that)
  moreover have "existsSync d (remove_probe E ?p t)" if "existsSync d t" for t
    using that assms(1) by (auto simp: remove_probe_def existsSync_def)
  ultimately have "existsSync d (snd (case ?read t of (r, t') \<Rightarrow> (r, remove_probe E ?p t')))" if "existsSync d t" for t
    using that by (simp add: split_def)
  then show ?thesis unfolding probeFileWriteAndRead_def Let_def by (intro keeps_intros assms(2))
qed

lemma keeps_check:
  assumes "d \<noteq> se_join E (se_resolve E r) (se_probe E (se_resolve E r))" and "existsSync d s"
  shows "existsSync d (snd (checkDirectoryPermissions E r s))"
  unfolding checkDirectoryPermissions_def Let_def
  by (intro keeps_intros keeps_probe assms)

lemma keeps_load_or_create: "existsSync d s \<Longrightarrow> existsSync d (snd (load_or_create_keypair E a b s))"
proof -
  assume e: "existsSync d s"
  have "existsSync d (snd (read_keypair E a b s))" unfolding read_keypair_def by (intro keeps_intros e)
  moreover have "existsSync d (snd (and_then (write_keypair E a b pair) (\<lambda>_. ret k) s))" for pair k
    unfolding write_keypair_def by (intro keeps_intros e)
  ultimately show ?thesis using e by (auto simp: load_or_create_keypair_def split: option.splits)
qed

lemma keeps_keypair: "existsSync d s \<Longrightarrow> existsSync d (snd (ensureCryptoKeypair E k s))"
  unfolding ensureCryptoKeypair_def Let_def split_def by (intro keeps_intros keeps_load_or_create)

lemma keeps_boot_keys: "existsSync d s \<Longrightarrow> existsSync d (snd (boot_keys E k cfg s))"
  using keeps_keypair [of d s E k] by (auto simp: boot_keys_def split: prod.splits sum.splits)

lemma keeps_initSqlite: "existsSync d s \<Longrightarrow> existsSync d (snd (initSqlite E p opts s))"
  unfolding initSqlite_def Let_def by (intro keeps_intros) auto

lemma ensure_dirs_exist:
  "ensure_dirs E ds s = (Inr (), t) \<Longrightarrow> d \<in> set ds \<Longrightarrow> existsSync d t"
proof (induction ds arbitrary: s)
  case (Cons a ds)
  show ?case
  proof (cases "existsSync a s")
    case True
    with Cons.prems have "ensure_dirs E ds s = (Inr (), t)" by simp
    with Cons True keeps_ensure_dirs [of a s E ds] show ?thesis by (cases "d = a") auto
  next
    case False
    with Cons.prems(1) obtain x s1 where m: "mkdirSync E a s = (Inr x, s1)" and r: "ensure_dirs E ds s1 = (Inr (), t)"
      by (auto simp: and_then_Inr diagnosed_Inr)
    from m have "existsSync a s1" by (auto simp: mkdirSync_Inr existsSync_def)
    with Cons r keeps_ensure_dirs [of a s1 E ds] show ?thesis by (cases "d = a") auto
  qed
qed simp


lemma no_text_with_keys:
  "ac_jwtPrivateKey (cf_auth (with_keys k c)) =
     (if no_text (ac_jwtPrivateKey (cf_auth c)) then Some (kp_privateKeyPem k) else ac_jwtPrivateKey (cf_auth c))"
  "ac_jwtPublicKey (cf_auth (with_keys k c)) =
     (if no_text (ac_jwtPublicKey (cf_auth c)) then Some (kp_publicKeyPem k) else ac_jwtPublicKey (cf_auth c))"
  "cf_server (with_keys k c) = cf_server c"
  by (auto simp: with_keys_def Let_def)

lemma initSqlite_Inr:
  assumes "initSqlite E p opts s = (Inr q, t)"
  shows "q = se_resolve E p \<and> integrity_ok (se_db_check E q) \<and> ss_config t = ss_config s \<and>
    list_all (se_db_exec E q) (bootstrap_statements opts) \<and> ss_databases t = (q, bootstrap_statements opts) # ss_databases s"
  using assms by (auto simp: initSqlite_def Let_def and_then_Inr mkdirSync_Inr split: if_splits)

text \<open>What the bootstrap runs on a database that it opens with the default options, in this order.\<close>

lemma default_statements:
  "bootstrap_statements \<lparr>sq_walMode = None, sq_busyTimeoutMs = None\<rparr> =
     [''PRAGMA journal_mode = WAL;'', ''PRAGMA synchronous = NORMAL;'', ''PRAGMA foreign_keys = ON;'', ''PRAGMA busy_timeout = 5000;'',
      ''PRAGMA temp_store = MEMORY;'', ''CREATE TABLE IF NOT EXISTS _schema_meta'', ''PRAGMA quick_check;'']"
  by code_simp

lemma boot_keys_Inr:
  assumes "boot_keys E k cfg s = (Inr x, t)"
  shows "ss_config t = Some (snd x) \<and> snd x = with_keys (fst x) cfg \<and> (\<exists>t'. ensureCryptoKeypair E k s = (Inr (fst x), t'))"
  using assms by (auto simp: boot_keys_def split: prod.splits sum.splits)


text \<open>
  A private key that is configured without its public key is paired with the public key of the
  generated pair, which does not belong to it.
\<close>

lemma half_configured_key:
  assumes "ac_jwtPrivateKey (cf_auth c) = Some k" and "k \<noteq> []" and "ac_jwtPublicKey (cf_auth c) = None"
  shows "ac_jwtPrivateKey (cf_auth (with_keys keys c)) = Some k \<and>
     ac_jwtPublicKey (cf_auth (with_keys keys c)) = Some (kp_publicKeyPem keys)"
  using assms by (simp add: no_text_with_keys no_text_def)

section \<open>A concrete installation\<close>

definition sample_sys_env :: sys_env where
  "sample_sys_env =
     \<lparr>se_config = sample_config_world, se_resolve = (\<lambda>p. p), se_join = (\<lambda>a b. a @ ''/'' @ b), se_dirname = (\<lambda>p. ''./data/db''),
      se_parents = (\<lambda>_. []), se_mkdir_ok = (\<lambda>_. True), se_write_ok = (\<lambda>_. True), se_read_ok = (\<lambda>_. True),
      se_unlink_ok = (\<lambda>_. True), se_chmod_ok = (\<lambda>_. True), se_stat_ok = (\<lambda>_. True), se_executable = (\<lambda>_. True),
      se_probe = (\<lambda>_. ''.deltix_perm_probe''), se_windows = False, se_keygen = Some (''priv'', ''pub''),
      se_port_free = (\<lambda>_ p. p \<noteq> 8443), se_db_open = (\<lambda>_. True), se_db_exec = (\<lambda>_ _. True), se_db_check = (\<lambda>_. Some (Some ''ok''))\<rparr>"

definition sample_boot_options :: bootstrap_options where
  "sample_boot_options =
     \<lparr>bo_config = \<lparr>lo_configPath = None, lo_env = [(''APP_PORT'', ''8443''), (''APP_DYNAMIC_PORT'', ''yes'')], lo_overrides = None\<rparr>,
      bo_overrides = None, bo_skipDatabaseInit = False, bo_skipPortCheck = False\<rparr>"

definition empty_sys :: sys_state where
  "empty_sys = \<lparr>ss_files = Map.empty, ss_dirs = [], ss_databases = [], ss_config = None\<rparr>"

theorem port_resolution_exact_witness:
  "resolveServerPort sample_sys_env 8443 ''h'' True 50 = Inr (8444, True) \<and>
   resolveServerPort sample_sys_env 8443 ''h'' False 50 = Inl ''ERR_PORT_IN_USE''"
proof -
  have "\<not> checkPortAvailable sample_sys_env 8443 ''h''" "checkPortAvailable sample_sys_env 8444 ''h''"
    by (auto simp: checkPortAvailable_def sample_sys_env_def)
  moreover have "\<forall>r. 8443 < r \<and> r < 8444 \<longrightarrow> \<not> checkPortAvailable sample_sys_env r ''h''" by auto
  ultimately show ?thesis
    using port_resolution_exact [of sample_sys_env 8443 "''h''" True 50 8444 True "[]"]
      port_resolution_exact [of sample_sys_env 8443 "''h''" False 50 8444 True "''ERR_PORT_IN_USE''"] by simp
qed

theorem keypair_persistent_witness:
  "\<exists>keys s. ensureCryptoKeypair sample_sys_env ''k'' empty_sys = (Inr keys, s) \<and>
     ensureCryptoKeypair (sample_sys_env\<lparr>se_keygen := Some (''other'', ''pair'')\<rparr>) ''k'' s = (Inr (keys\<lparr>kp_created := False\<rparr>), s)"
proof -
  have "isl (fst (ensureCryptoKeypair sample_sys_env ''k'' empty_sys)) = False" by code_simp
  then obtain keys s where k: "ensureCryptoKeypair sample_sys_env ''k'' empty_sys = (Inr keys, s)"
    by (cases "ensureCryptoKeypair sample_sys_env ''k'' empty_sys"; cases "fst (ensureCryptoKeypair sample_sys_env ''k'' empty_sys)") auto
  have "fst (key_paths sample_sys_env ''k'') \<noteq> snd (key_paths sample_sys_env ''k'')"
    "se_read_ok sample_sys_env (fst (key_paths sample_sys_env ''k''))" "se_read_ok sample_sys_env (snd (key_paths sample_sys_env ''k''))"
    by code_simp+
  from keypair_persistent [OF k this, of "Some (''other'', ''pair'')"] k show ?thesis by blast
qed


end
