(* ===== verification/ErrorReporter.thy ===== *)
theory ErrorReporter
  imports Json
begin

text \<open>
  The diagnostic reports of \<open>shared/error-reporter.ts\<close>: the \<open>DiagnosticError\<close> class, the choice of
  colours, the layout of a report and the normalisation of anything that can be thrown.
  \<open>JSON.stringify\<close> is a parameter. Of a cause only what the reporter reads is kept: the stack of
  an \<open>Error\<close>, if it has one. The two streams and the exit code are the result of \<open>reportError\<close>.
\<close>

record diagnostic_report =
  dr_title :: string
  dr_diagnosis :: string
  dr_action :: string
  dr_code :: "string option"
  dr_details :: "(string \<times> json) list option"
  dr_cause :: "string option option"

text \<open>
  A \<open>DiagnosticError\<close>: the title is the message of the \<open>Error\<close>; the cause is \<open>Some (Some stack)\<close>
  for an \<open>Error\<close> with a stack, \<open>Some None\<close> for any other cause.
\<close>

record diagnostic_error =
  de_message :: string
  de_name :: string
  de_diagnosis :: string
  de_action :: string
  de_code :: "string option"
  de_details :: "(string \<times> json) list option"
  de_cause :: "string option option"

definition createDiagnosticError :: "diagnostic_report \<Rightarrow> diagnostic_error" where
  "createDiagnosticError r =
     \<lparr>de_message = dr_title r, de_name = ''DiagnosticError'', de_diagnosis = dr_diagnosis r, de_action = dr_action r,
      de_code = dr_code r, de_details = dr_details r, de_cause = dr_cause r\<rparr>"

definition toReport :: "diagnostic_error \<Rightarrow> diagnostic_report" where
  "toReport e =
     \<lparr>dr_title = de_message e, dr_diagnosis = de_diagnosis e, dr_action = de_action e, dr_code = de_code e,
      dr_details = de_details e, dr_cause = de_cause e\<rparr>"

text \<open>What can be thrown: the reporter tells these apart.\<close>

datatype thrown =
    ThrownDiagnostic diagnostic_error
  | ThrownError string string "string option"
  | ThrownText string
  | ThrownValue json

definition isDiagnosticError :: "thrown \<Rightarrow> bool" where
  "isDiagnosticError e = (case e of ThrownDiagnostic _ \<Rightarrow> True | _ \<Rightarrow> False)"

definition normalizeError :: "(json \<Rightarrow> string) \<Rightarrow> thrown \<Rightarrow> diagnostic_report" where
  "normalizeError stringify err =
     (case err of
        ThrownDiagnostic e \<Rightarrow> toReport e
      | ThrownError name message stack \<Rightarrow>
          \<lparr>dr_title = (if message = [] then ''An unexpected error occurred'' else message),
           dr_diagnosis =
             (if stack \<noteq> None \<and> stack \<noteq> Some []
              then ''Exception of type '' @ name @ '' was thrown: '' @ message
              else ''An unexpected exception was encountered ('' @ name @ '').''),
           dr_action = ''Check application logs and verify configuration parameters.'',
           dr_code = Some ''ERR_UNHANDLED_EXCEPTION'', dr_details = None, dr_cause = Some stack\<rparr>
      | ThrownText t \<Rightarrow>
          \<lparr>dr_title = t, dr_diagnosis = ''A string error was thrown without structured metadata.'',
           dr_action = ''Check logs and verify recent system operations.'',
           dr_code = Some ''ERR_GENERIC_STRING'', dr_details = None, dr_cause = None\<rparr>
      | ThrownValue v \<Rightarrow>
          \<lparr>dr_title = ''An unknown fatal error occurred'',
           dr_diagnosis = ''Received non-standard error value: '' @ stringify v,
           dr_action = ''Inspect system state, ensure all required environment variables are set, and re-run.'',
           dr_code = Some ''ERR_UNKNOWN'', dr_details = None, dr_cause = Some None\<rparr>)"

text \<open>
  \<open>shouldColorize\<close>: the explicit choice, else \<open>NO_COLOR\<close>, else \<open>FORCE_COLOR\<close>, else whether the
  error stream is a terminal.
\<close>

definition shouldColorize :: "(string \<times> string) list \<Rightarrow> bool \<Rightarrow> bool option \<Rightarrow> bool" where
  "shouldColorize env isTTY explicit =
     (case explicit of
        Some b \<Rightarrow> b
      | None \<Rightarrow>
          if map_of env ''NO_COLOR'' \<noteq> None \<and> map_of env ''NO_COLOR'' \<noteq> Some [] then False
          else if map_of env ''FORCE_COLOR'' = Some ''1'' \<or> map_of env ''FORCE_COLOR'' = Some ''true'' then True
          else isTTY)"

definition ansi :: "string \<Rightarrow> string" where
  "ansi n = CHR 0x1B # CHR ''['' # n @ ''m''"

definition NL :: char where
  "NL = CHR 0x0A"

definition formatIndented :: "string \<Rightarrow> nat \<Rightarrow> string" where
  "formatIndented text prefixLength =
     (let lines = js_split NL (js_trim text)
      in if length lines = 1 then hd lines
         else js_join [NL] (hd lines # map (\<lambda>line. replicate prefixLength (CHR '' '') @ line) (tl lines)))"

definition diagnostic_tag :: "bool \<Rightarrow> string \<Rightarrow> string \<Rightarrow> string" where
  "diagnostic_tag useColors codes name = (if useColors then codes @ name @ ansi ''0'' else name)"

definition detail_line :: "(json \<Rightarrow> string) \<Rightarrow> string \<times> json \<Rightarrow> string" where
  "detail_line stringify kv =
     ''  - '' @ fst kv @ '': '' @
     (case snd kv of JNull \<Rightarrow> stringify (snd kv) | JArr _ \<Rightarrow> stringify (snd kv) | JObj _ \<Rightarrow> stringify (snd kv)
      | _ \<Rightarrow> js_String (snd kv))"

definition formatDiagnostic :: "(json \<Rightarrow> string) \<Rightarrow> bool \<Rightarrow> bool \<Rightarrow> diagnostic_report \<Rightarrow> string" where
  "formatDiagnostic stringify useColors includeStack report =
     (let errorTag = diagnostic_tag useColors (ansi ''1'' @ ansi ''31'') ''[ERROR]'';
          diagTag = diagnostic_tag useColors (ansi ''1'' @ ansi ''33'') ''[DIAGNOSIS]'';
          actionTag = diagnostic_tag useColors (ansi ''1'' @ ansi ''36'') ''[ACTION]'';
          codeSuffix = (case dr_code report of Some c \<Rightarrow> if c = [] then [] else '' ('' @ c @ '')'' | None \<Rightarrow> []);
          titleText = dr_title report @ codeSuffix;
          titleFormatted = diagnostic_tag useColors (ansi ''1'' @ ansi ''37'') titleText;
          base = [errorTag @ ''     '' @ formatIndented titleFormatted 12,
                  diagTag @ '' '' @ formatIndented (dr_diagnosis report) 12,
                  actionTag @ ''    '' @ formatIndented (dr_action report) 12];
          details = (case dr_details report of
                       Some (d # ds) \<Rightarrow>
                         [diagnostic_tag useColors (ansi ''2'') ''[DETAILS]'' @ ''   '' @ [NL] @
                          js_join [NL] (map (detail_line stringify) (d # ds))]
                     | _ \<Rightarrow> []);
          stack = (case dr_cause report of
                     Some (Some st) \<Rightarrow>
                       if includeStack \<and> st \<noteq> []
                       then [diagnostic_tag useColors (ansi ''2'') ''[STACK]'' @ ''     '' @ [NL] @ st] else []
                   | _ \<Rightarrow> [])
      in js_join [NL] (base @ details @ stack))"

datatype out_stream = Stdout | Stderr

record report_options =
  ro_colors :: "bool option"
  ro_includeStack :: bool
  ro_stream :: "out_stream option"
  ro_exitCode :: "int option"

text \<open>The text, the stream it goes to and the code the process exits with, if it does.\<close>

definition reportError ::
  "(json \<Rightarrow> string) \<Rightarrow> (string \<times> string) list \<Rightarrow> bool \<Rightarrow> report_options \<Rightarrow> thrown \<Rightarrow> out_stream \<times> string \<times> int option" where
  "reportError stringify env isTTY opts err =
     (case ro_stream opts of None \<Rightarrow> Stderr | Some st \<Rightarrow> st,
      formatDiagnostic stringify (shouldColorize env isTTY (ro_colors opts)) (ro_includeStack opts)
        (normalizeError stringify err),
      ro_exitCode opts)"

section \<open>Reports survive the error class and keep their layout\<close>

lemma toReport_create: "toReport (createDiagnosticError r) = r"
  by (simp add: toReport_def createDiagnosticError_def)

lemma normalize_created: "normalizeError stringify (ThrownDiagnostic (createDiagnosticError r)) = r"
  by (simp add: normalizeError_def toReport_create)

text \<open>The lines of an indented text are the lines of the trimmed text, the later ones shifted.\<close>

lemma formatIndented_lines:
  "js_split NL (formatIndented text n) =
     (case js_split NL (js_trim text) of l # ls \<Rightarrow> l # map (\<lambda>x. replicate n (CHR '' '') @ x) ls)"
proof -
  obtain l ls where s: "js_split NL (js_trim text) = l # ls" by (cases "js_split NL (js_trim text)") auto
  have n: "\<forall>w \<in> set (l # ls). NL \<notin> set w" using set_js_split [of _ NL "js_trim text"] s by auto
  show ?thesis
  proof (cases ls)
    case Nil
    with s n show ?thesis by (simp add: formatIndented_def js_split_no_sep)
  next
    case Cons
    have sp: "NL \<notin> set (replicate n (CHR '' ''))" by (auto simp: NL_def)
    have "js_split NL (js_join [NL] (l # map (\<lambda>x. replicate n (CHR '' '') @ x) ls)) =
        l # map (\<lambda>x. replicate n (CHR '' '') @ x) ls"
      by (rule js_split_join) (use n sp in auto)
    with s Cons show ?thesis by (simp add: formatIndented_def Let_def)
  qed
qed

end
