(* ===== verification/Cli.thy ===== *)
theory Cli
  imports Bootstrap ErrorReporter
begin

text \<open>
  The diagnostic command line (\<open>cli/commands.ts\<close>): system status, export of the configuration, the
  doctor suite, the arguments and the environment file that is read first.

  What a command prints is a value of \<open>cli_output\<close>: the status report, the exported text, the
  checks of the doctor with identifier, status and error code. The texts of messages and the table
  layout are left out. Facts about the machine are the record \<open>host_env\<close>; numbers of bytes and
  seconds are integers.
\<close>

section \<open>Sizes and durations\<close>

text \<open>
  The exponent is the number of times 1024 divides the size, at most 4; two decimals, rounded half
  up as \<open>toFixed\<close> does on an exact quotient.
\<close>

fun size_exponent :: "nat \<Rightarrow> int \<Rightarrow> nat" where
  "size_exponent 0 b = 0"
| "size_exponent (Suc n) b = (if b < 1024 then 0 else Suc (size_exponent n (b div 1024)))"

definition size_units :: "string list" where
  "size_units = [''B'', ''KB'', ''MB'', ''GB'', ''TB'']"

definition fixed2 :: "int \<Rightarrow> int \<Rightarrow> string" where
  "fixed2 b d =
     (let n = (200 * b + d) div (2 * d)
      in js_show_int (n div 100) @ ''.'' @ js_show_int (n div 10 mod 10) @ js_show_int (n mod 10))"

definition formatBytes :: "int \<Rightarrow> string" where
  "formatBytes bytes =
     (if bytes \<le> 0 then ''0 B''
      else let i = size_exponent 4 bytes in fixed2 bytes (1024 ^ i) @ '' '' @ size_units ! i)"

definition formatDuration :: "int \<Rightarrow> string" where
  "formatDuration seconds =
     (let days = seconds div 86400; hours = seconds mod 86400 div 3600; minutes = seconds mod 3600 div 60;
          secs = seconds mod 60
      in js_join '' ''
           ((if days > 0 then [js_show_int days @ ''d''] else []) @ (if hours > 0 then [js_show_int hours @ ''h''] else []) @
            (if minutes > 0 then [js_show_int minutes @ ''m''] else []) @ [js_show_int secs @ ''s'']))"

section \<open>Status\<close>

record host_env =
  he_bunVersion :: string
  he_nodeVersion :: string
  he_platform :: string
  he_arch :: string
  he_cpuCores :: int
  he_pid :: int
  he_uptime :: int
  he_rss :: int
  he_heapUsed :: int
  he_freemem :: int
  he_totalmem :: int
  he_statfs :: "string \<Rightarrow> int option"
  he_journal_mode :: "string \<Rightarrow> string option"
  he_systemctl :: "int option"
  he_which_dolt :: "string option option"
  he_env :: env_vars
  he_now :: string
  he_version :: string
  he_stringify :: "json \<Rightarrow> string"

record status_report =
  sr_runtime :: "(string \<times> string) list"
  sr_environment :: string
  sr_serverHost :: string
  sr_httpPort :: int
  sr_grpcPort :: int
  sr_dynamicPort :: bool
  sr_tlsEnabled :: bool
  sr_adminUiEnabled :: bool
  sr_dataDir :: string
  sr_dataDirExists :: bool
  sr_isWritable :: bool
  sr_freeSpace :: string
  sr_primaryDbExists :: bool
  sr_walMode :: bool
  sr_keysDir :: string
  sr_hasPrivateKey :: bool
  sr_hasPublicKey :: bool
  sr_httpPortFree :: bool
  sr_grpcPortFree :: bool

definition load_cli_config :: "sys_env \<Rightarrow> host_env \<Rightarrow> string option \<Rightarrow> app_config sys_op" where
  "load_cli_config E H configPath s =
     (case loadConfig (se_config E) \<lparr>lo_configPath = configPath, lo_env = he_env H, lo_overrides = None\<rparr> (ss_config s) of
        (Inl e, c) \<Rightarrow> (Inl (BootConfigError e), s\<lparr>ss_config := c\<rparr>)
      | (Inr cfg, c) \<Rightarrow> (Inr cfg, s\<lparr>ss_config := c\<rparr>))"

definition runtime_info :: "host_env \<Rightarrow> (string \<times> string) list" where
  "runtime_info H =
     [(''engine'', ''Bun''), (''version'', he_bunVersion H), (''nodeVersion'', he_nodeVersion H),
      (''os'', he_platform H @ '' ('' @ he_arch H @ '')''), (''arch'', he_arch H),
      (''cpuCores'', js_show_int (he_cpuCores H)), (''pid'', js_show_int (he_pid H)),
      (''uptime'', formatDuration (he_uptime H)), (''memoryRss'', formatBytes (he_rss H)),
      (''memoryHeap'', formatBytes (he_heapUsed H)), (''systemMemoryFree'', formatBytes (he_freemem H)),
      (''systemMemoryTotal'', formatBytes (he_totalmem H))]"

text \<open>Write access and free space of the data directory; a failing probe or query leaves them off.\<close>

definition probe_storage :: "sys_env \<Rightarrow> host_env \<Rightarrow> string \<Rightarrow> sys_state \<Rightarrow> (bool \<times> string) \<times> sys_state" where
  "probe_storage E H dataDir s =
     (if \<not> existsSync dataDir s then ((False, ''Unknown''), s)
      else case checkDirectoryPermissions E dataDir s of
             (Inl _, s') \<Rightarrow> ((False, ''Unknown''), s')
           | (Inr perm, s') \<Rightarrow>
               (case he_statfs H dataDir of
                  None \<Rightarrow> ((False, ''Unknown''), s')
                | Some free \<Rightarrow> ((pc_writable perm, formatBytes free), s')))"

definition getSystemStatus :: "sys_env \<Rightarrow> host_env \<Rightarrow> string option \<Rightarrow> status_report sys_op" where
  "getSystemStatus E H configPath =
     and_then (load_cli_config E H configPath) (\<lambda>config s.
       let dataDir = resolveDataDirectory E (Some (st_dataDir (cf_storage config)));
           dataDirExists = existsSync dataDir s;
           ((isWritable, freeSpace), s1) = probe_storage E H dataDir s;
           dbPath = se_join E (se_join E dataDir ''db'') ''deltix.db'';
           dbExists = existsSync dbPath s1;
           keysDir = se_join E dataDir ''keys'';
           sv = cf_server config
       in (Inr \<lparr>sr_runtime = runtime_info H, sr_environment = cf_environment config, sr_serverHost = sv_host sv,
                sr_httpPort = sv_port sv, sr_grpcPort = sv_grpcPort sv, sr_dynamicPort = sv_dynamicPort sv,
                sr_tlsEnabled = tls_enabled (sv_tls sv), sr_adminUiEnabled = ac_adminUiEnabled (cf_auth config),
                sr_dataDir = dataDir, sr_dataDirExists = dataDirExists, sr_isWritable = isWritable, sr_freeSpace = freeSpace,
                sr_primaryDbExists = dbExists,
                sr_walMode = (dbExists \<and> map_option js_toLowerCase (he_journal_mode H dbPath) = Some ''wal''),
                sr_keysDir = keysDir, sr_hasPrivateKey = existsSync (se_join E keysDir ''jwt_ed25519.pkcs8'') s1,
                sr_hasPublicKey = existsSync (se_join E keysDir ''jwt_ed25519.spki'') s1,
                sr_httpPortFree = checkPortAvailable E (sv_port sv) (sv_host sv),
                sr_grpcPortFree = checkPortAvailable E (sv_grpcPort sv) (sv_host sv)\<rparr>, s1))"

section \<open>Configuration export\<close>

definition opt_field :: "string \<Rightarrow> string option \<Rightarrow> (string \<times> json) list" where
  "opt_field k v = (case v of None \<Rightarrow> [] | Some s \<Rightarrow> [(k, JStr s)])"

definition auth_json :: "auth_config \<Rightarrow> (string \<times> json) list" where
  "auth_json a =
     opt_field ''jwtPrivateKey'' (ac_jwtPrivateKey a) @ opt_field ''jwtPublicKey'' (ac_jwtPublicKey a) @
     opt_field ''jwtPrivateKeyPath'' (ac_jwtPrivateKeyPath a) @ opt_field ''jwtPublicKeyPath'' (ac_jwtPublicKeyPath a) @
     [(''sessionTtlSeconds'', JNum (ac_sessionTtlSeconds a)), (''accessTokenTtlSeconds'', JNum (ac_accessTokenTtlSeconds a)),
      (''corsAllowedOrigins'', JArr (map JStr (ac_corsAllowedOrigins a))), (''adminUiEnabled'', JBool (ac_adminUiEnabled a))] @
     opt_field ''bootstrapAdminUsername'' (ac_bootstrapAdminUsername a) @
     opt_field ''bootstrapAdminPassword'' (ac_bootstrapAdminPassword a)"

text \<open>The configuration object as a JSON value; \<open>JSON.stringify\<close> leaves undefined properties out.\<close>

definition config_json :: "app_config \<Rightarrow> json" where
  "config_json c =
     (let sv = cf_server c; t = sv_tls sv; st = cf_storage c; d = cf_database c; a = cf_auth c; l = cf_logging c
      in JObj
        [(''environment'', JStr (cf_environment c)),
         (''server'', JObj [(''host'', JStr (sv_host sv)), (''port'', JNum (sv_port sv)), (''grpcPort'', JNum (sv_grpcPort sv)),
            (''dynamicPort'', JBool (sv_dynamicPort sv)),
            (''tls'', JObj ((''enabled'', JBool (tls_enabled t)) # opt_field ''certPath'' (tls_certPath t) @
               opt_field ''keyPath'' (tls_keyPath t) @ [(''autoGenerate'', JBool (tls_autoGenerate t))]))]),
         (''storage'', JObj [(''dataDir'', JStr (st_dataDir st)), (''stagingRootPath'', JStr (st_stagingRootPath st)),
            (''doltReposRootPath'', JStr (st_doltReposRootPath st)), (''nasSimPath'', JStr (st_nasSimPath st))]),
         (''database'', JObj [(''userDbPath'', JStr (db_userDbPath d)), (''repoDbPath'', JStr (db_repoDbPath d)),
            (''ticketDbPath'', JStr (db_ticketDbPath d)), (''transferJobDbPath'', JStr (db_transferJobDbPath d)),
            (''addonTrustDbPath'', JStr (db_addonTrustDbPath d)), (''sessionDbPath'', JStr (db_sessionDbPath d))]),
         (''auth'', JObj (auth_json a)),
         (''logging'', JObj [(''level'', JStr (lg_level l)), (''pretty'', JBool (lg_pretty l))])])"

definition export_settings :: "app_config \<Rightarrow> string list" where
  "export_settings c =
     (let sv = cf_server c; st = cf_storage c; d = cf_database c; a = cf_auth c; l = cf_logging c
      in [''APP_ENV='' @ cf_environment c, ''APP_HOST='' @ sv_host sv, ''APP_PORT='' @ js_show_int (sv_port sv),
          ''APP_GRPC_PORT='' @ js_show_int (sv_grpcPort sv), ''APP_DYNAMIC_PORT='' @ js_show_bool (sv_dynamicPort sv),
          ''APP_DATA_DIR='' @ st_dataDir st, ''APP_STAGING_PATH='' @ st_stagingRootPath st,
          ''APP_REPOS_PATH='' @ st_doltReposRootPath st, ''APP_NAS_PATH='' @ st_nasSimPath st,
          ''APP_USER_DB_PATH='' @ db_userDbPath d, ''APP_REPO_DB_PATH='' @ db_repoDbPath d,
          ''APP_TICKET_DB_PATH='' @ db_ticketDbPath d, ''APP_TRANSFER_JOB_DB_PATH='' @ db_transferJobDbPath d,
          ''APP_ADDON_TRUST_DB_PATH='' @ db_addonTrustDbPath d, ''APP_SESSION_DB_PATH='' @ db_sessionDbPath d,
          ''APP_ADMIN_UI_ENABLED='' @ js_show_bool (ac_adminUiEnabled a),
          ''APP_SESSION_TTL_SECONDS='' @ js_show_int (ac_sessionTtlSeconds a),
          ''APP_ACCESS_TOKEN_TTL_SECONDS='' @ js_show_int (ac_accessTokenTtlSeconds a),
          ''APP_LOG_LEVEL='' @ lg_level l, ''APP_LOG_PRETTY='' @ js_show_bool (lg_pretty l)])"

definition export_bootstrap :: "bool \<Rightarrow> auth_config \<Rightarrow> string list" where
  "export_bootstrap unredacted a =
     (if no_text (ac_bootstrapAdminUsername a) then []
      else [''APP_BOOTSTRAP_ADMIN_USERNAME='' @ the (ac_bootstrapAdminUsername a),
            ''APP_BOOTSTRAP_ADMIN_PASSWORD='' @
              (if unredacted then case ac_bootstrapAdminPassword a of None \<Rightarrow> [] | Some p \<Rightarrow> p else ''[REDACTED]'')])"

definition export_tls :: "tls_config \<Rightarrow> string list" where
  "export_tls t =
     (if tls_enabled t
      then ''APP_TLS_ENABLED=true'' #
           (if no_text (tls_certPath t) then [] else [''APP_TLS_CERT_PATH='' @ the (tls_certPath t)]) @
           (if no_text (tls_keyPath t) then [] else [''APP_TLS_KEY_PATH='' @ the (tls_keyPath t)])
      else [])"

definition buildEnvExportLines :: "string \<Rightarrow> bool \<Rightarrow> app_config \<Rightarrow> string list" where
  "buildEnvExportLines now unredacted c =
     [''# Deltix Exported Configuration'', ''# Exported at: '' @ now, ''# Unredacted: '' @ js_show_bool unredacted, []] @
     export_settings c @ export_bootstrap unredacted (cf_auth c) @ export_tls (sv_tls (cf_server c))"

datatype export_format = FormatJson | FormatEnv

record export_options =
  xo_configPath :: "string option"
  xo_unredacted :: bool
  xo_format :: export_format
  xo_outputPath :: "string option"

definition export_text :: "host_env \<Rightarrow> bool \<Rightarrow> export_format \<Rightarrow> app_config \<Rightarrow> string" where
  "export_text H unredacted fmt c =
     (case fmt of
        FormatEnv \<Rightarrow> js_join [NL] (buildEnvExportLines (he_now H) unredacted c)
      | FormatJson \<Rightarrow> he_stringify H (if unredacted then config_json c else sanitizeValue (config_json c)))"

definition exportConfig :: "sys_env \<Rightarrow> host_env \<Rightarrow> export_options \<Rightarrow> string sys_op" where
  "exportConfig E H opts =
     and_then (load_cli_config E H (xo_configPath opts))
       (\<lambda>config. ret (export_text H (xo_unredacted opts) (xo_format opts) config))"

section \<open>Doctor\<close>

datatype check_status = PASS | WARN | FAIL

record doctor_check =
  dc_id :: string
  dc_status :: check_status
  dc_code :: "string option"

definition check :: "string \<Rightarrow> check_status \<Rightarrow> string option \<Rightarrow> doctor_check" where
  "check i st code = \<lparr>dc_id = i, dc_status = st, dc_code = code\<rparr>"

text \<open>The code of the normalized error.\<close>

definition error_code :: "boot_error \<Rightarrow> string" where
  "error_code e = (case e of DiagnosticCode c \<Rightarrow> c | BootConfigError _ \<Rightarrow> ''ERR_CONFIG'' | SystemError \<Rightarrow> ''ERR_UNHANDLED_EXCEPTION'')"

text \<open>The service is active: linux, systemd, and \<open>systemctl\<close> (if it can be run) exits with 0.\<close>

definition isDeltixServiceActive :: "sys_state \<Rightarrow> host_env \<Rightarrow> bool" where
  "isDeltixServiceActive s H \<longleftrightarrow> he_platform H = ''linux'' \<and> existsSync ''/run/systemd/system'' s \<and> he_systemctl H = Some 0"

text \<open>Missing parts of the version are 0, parts that are not numbers compare as false.\<close>

definition version_part :: "string list \<Rightarrow> nat \<Rightarrow> int option" where
  "version_part ps i = (if i < length ps then js_Number (ps ! i) else Some 0)"

definition bun_supported :: "string \<Rightarrow> bool" where
  "bun_supported raw =
     (let ps = js_split CHR ''.'' raw
      in case version_part ps 0 of
           None \<Rightarrow> False
         | Some major \<Rightarrow>
             major > 1 \<or> (major = 1 \<and> (case version_part ps 1 of None \<Rightarrow> False | Some minor \<Rightarrow> minor \<ge> 3)))"

definition check_runtime :: "host_env \<Rightarrow> doctor_check" where
  "check_runtime H =
     (if bun_supported (he_bunVersion H) then check ''runtime-version'' PASS None
      else check ''runtime-version'' FAIL (Some ''ERR_BUN_OUTDATED''))"

definition check_os :: "host_env \<Rightarrow> doctor_check" where
  "check_os H =
     (if he_arch H \<in> set [''x64'', ''arm64''] \<and> he_platform H \<in> set [''linux'', ''darwin'', ''win32'']
      then check ''os-arch'' PASS None else check ''os-arch'' WARN None)"

definition check_data_dir :: "sys_env \<Rightarrow> string \<Rightarrow> sys_state \<Rightarrow> doctor_check \<times> sys_state" where
  "check_data_dir E dataDir s =
     (case and_then (ensureDataDirectoryStructure E dataDir) (\<lambda>_. checkDirectoryPermissions E dataDir) s of
        (Inl e, s') \<Rightarrow> (check ''data-dir-permissions'' FAIL (Some (error_code e)), s')
      | (Inr perm, s') \<Rightarrow>
          (if pc_readable perm \<and> pc_writable perm then check ''data-dir-permissions'' PASS None
           else check ''data-dir-permissions'' FAIL (Some ''ERR_DATA_DIR_PERMISSIONS''), s'))"

definition check_disk :: "host_env \<Rightarrow> string \<Rightarrow> doctor_check" where
  "check_disk H dataDir =
     (case he_statfs H dataDir of
        None \<Rightarrow> check ''disk-space'' WARN None
      | Some free \<Rightarrow>
          if free \<ge> 500 * 1024 * 1024 then check ''disk-space'' PASS None
          else check ''disk-space'' WARN (Some ''WARN_LOW_DISK_SPACE''))"

definition doctor_statements :: "string list" where
  "doctor_statements = [''PRAGMA journal_mode = WAL;'', ''PRAGMA synchronous = NORMAL;'',
     ''CREATE TABLE IF NOT EXISTS _schema_meta'', ''PRAGMA quick_check;'']"

text \<open>
  The database file is created if it is missing, in a directory that must be there; what ran on it is
  recorded as for the bootstrap.
\<close>

definition check_sqlite :: "sys_env \<Rightarrow> string \<Rightarrow> sys_state \<Rightarrow> doctor_check \<times> sys_state" where
  "check_sqlite E dataDir s =
     (let dbDir = se_join E dataDir ''db''; path = se_join E dbDir ''deltix.db''
      in if existsSync dbDir s \<and> se_db_open E path \<and> list_all (se_db_exec E path) doctor_statements
         then (if se_db_check E path = Some (Some ''ok'') then check ''sqlite-integrity'' PASS None
               else check ''sqlite-integrity'' FAIL (Some ''ERR_SQLITE_CORRUPTION''),
               s\<lparr>ss_databases := (path, doctor_statements) # ss_databases s\<rparr>)
         else (check ''sqlite-integrity'' FAIL (Some ''ERR_UNHANDLED_EXCEPTION''), s))"

definition check_keys :: "sys_env \<Rightarrow> string \<Rightarrow> sys_state \<Rightarrow> doctor_check \<times> sys_state" where
  "check_keys E dataDir s =
     (case ensureCryptoKeypair E (se_join E dataDir ''keys'') s of
        (Inl e, s') \<Rightarrow> (check ''crypto-keys'' FAIL (Some (error_code e)), s')
      | (Inr k, s') \<Rightarrow>
          (if kp_privateKeyPem k \<noteq> [] \<and> kp_publicKeyPem k \<noteq> [] then check ''crypto-keys'' PASS None
           else check ''crypto-keys'' FAIL (Some ''ERR_UNHANDLED_EXCEPTION''), s'))"

definition check_http_port :: "sys_env \<Rightarrow> bool \<Rightarrow> server_config \<Rightarrow> doctor_check" where
  "check_http_port E serviceActive sv =
     (if checkPortAvailable E (sv_port sv) (sv_host sv) then check ''network-http-port'' PASS None
      else if sv_dynamicPort sv then check ''network-http-port'' WARN None
      else if serviceActive then check ''network-http-port'' PASS None
      else check ''network-http-port'' FAIL (Some ''ERR_HTTP_PORT_IN_USE''))"

definition check_grpc_port :: "sys_env \<Rightarrow> bool \<Rightarrow> server_config \<Rightarrow> doctor_check" where
  "check_grpc_port E serviceActive sv =
     (if checkPortAvailable E (sv_grpcPort sv) (sv_host sv) then check ''network-grpc-port'' PASS None
      else if serviceActive then check ''network-grpc-port'' PASS None
      else check ''network-grpc-port'' FAIL (Some ''ERR_GRPC_PORT_IN_USE''))"

definition check_dolt :: "host_env \<Rightarrow> doctor_check" where
  "check_dolt H =
     (case he_which_dolt H of
        None \<Rightarrow> check ''dolt-binary'' WARN None
      | Some None \<Rightarrow> check ''dolt-binary'' WARN (Some ''WARN_DOLT_NOT_FOUND'')
      | Some (Some p) \<Rightarrow> if p = [] then check ''dolt-binary'' WARN (Some ''WARN_DOLT_NOT_FOUND'') else check ''dolt-binary'' PASS None)"

definition file_there :: "sys_state \<Rightarrow> string option \<Rightarrow> bool" where
  "file_there s p \<longleftrightarrow> (case p of None \<Rightarrow> False | Some q \<Rightarrow> q \<noteq> [] \<and> existsSync q s)"

definition check_tls :: "sys_state \<Rightarrow> tls_config \<Rightarrow> doctor_check list" where
  "check_tls s t =
     (if \<not> tls_enabled t then []
      else if file_there s (tls_certPath t) \<and> file_there s (tls_keyPath t) then [check ''tls-certificates'' PASS None]
      else [check ''tls-certificates'' FAIL (Some ''ERR_TLS_FILES_MISSING'')])"

record doctor_result =
  dr_total :: nat
  dr_passed :: nat
  dr_warnings :: nat
  dr_failed :: nat
  dr_checks :: "doctor_check list"

definition count_status :: "check_status \<Rightarrow> doctor_check list \<Rightarrow> nat" where
  "count_status st cs = length (filter (\<lambda>c. dc_status c = st) cs)"

definition runDoctorSuite :: "sys_env \<Rightarrow> host_env \<Rightarrow> string option \<Rightarrow> doctor_result sys_op" where
  "runDoctorSuite E H configPath s0 =
     (let serviceActive = isDeltixServiceActive s0 H
      in and_then (load_cli_config E H configPath) (\<lambda>config s.
           let dataDir = resolveDataDirectory E (Some (st_dataDir (cf_storage config)));
               sv = cf_server config;
               (c3, s1) = check_data_dir E dataDir s;
               (c5, s2) = check_sqlite E dataDir s1;
               (c6, s3) = check_keys E dataDir s2;
               checks = [check_runtime H, check_os H, c3, check_disk H dataDir, c5, c6,
                         check_http_port E serviceActive sv, check_grpc_port E serviceActive sv, check_dolt H] @
                        check_tls s3 (sv_tls sv)
           in (Inr \<lparr>dr_total = length checks, dr_passed = count_status PASS checks, dr_warnings = count_status WARN checks,
                    dr_failed = count_status FAIL checks, dr_checks = checks\<rparr>, s3)) s0)"

section \<open>Arguments and dispatch\<close>

record cli_flags =
  fl_json :: bool
  fl_unredacted :: bool
  fl_configPath :: "string option"
  fl_format :: export_format
  fl_outputPath :: "string option"

text \<open>The argument after the first occurrence of a flag, unless it is missing or empty.\<close>

fun arg_after :: "string \<Rightarrow> string list \<Rightarrow> string option" where
  "arg_after f [] = None"
| "arg_after f (a # as) =
     (if a = f then (case as of [] \<Rightarrow> None | b # _ \<Rightarrow> if b = [] then None else Some b) else arg_after f as)"

definition parseCliFlags :: "string list \<Rightarrow> cli_flags" where
  "parseCliFlags args =
     \<lparr>fl_json = (''--json'' \<in> set args), fl_unredacted = (''--unredacted'' \<in> set args),
      fl_configPath = arg_after ''--config'' args,
      fl_format = (case arg_after ''--format'' args of
                     Some f \<Rightarrow> if js_toLowerCase f = ''env'' then FormatEnv else FormatJson
                   | None \<Rightarrow> FormatJson),
      fl_outputPath = arg_after ''--output'' args\<rparr>"

datatype cli_output =
    OutHelp
  | OutVersion string
  | OutStatus bool status_report
  | OutConfig string
  | OutConfigFile string
  | OutDoctor bool doctor_result
  | OutUnknownCommand string
  | OutUnknownSubcommand string
  | OutReport boot_error

text \<open>Each command returns its exit code and what it printed. Status and export catch every error, the doctor does not.\<close>

definition commandStatus :: "sys_env \<Rightarrow> host_env \<Rightarrow> cli_flags \<Rightarrow> (int \<times> cli_output) sys_op" where
  "commandStatus E H fl =
     try_catch (and_then (getSystemStatus E H (fl_configPath fl)) (\<lambda>st. ret (0, OutStatus (fl_json fl) st)))
       (\<lambda>e. ret (1, OutReport e))"

definition export_command :: "sys_env \<Rightarrow> host_env \<Rightarrow> export_options \<Rightarrow> (int \<times> cli_output) sys_op" where
  "export_command E H opts =
     and_then (exportConfig E H opts) (\<lambda>text.
       case xo_outputPath opts of
         None \<Rightarrow> ret (0, OutConfig text)
       | Some p \<Rightarrow> and_then (writeFileSync E (se_resolve E p) text) (\<lambda>_. ret (0, OutConfigFile (se_resolve E p))))"

definition commandConfigExport :: "sys_env \<Rightarrow> host_env \<Rightarrow> export_options \<Rightarrow> (int \<times> cli_output) sys_op" where
  "commandConfigExport E H opts = try_catch (export_command E H opts) (\<lambda>e. ret (1, OutReport e))"

definition commandDoctor :: "sys_env \<Rightarrow> host_env \<Rightarrow> cli_flags \<Rightarrow> (int \<times> cli_output) sys_op" where
  "commandDoctor E H fl =
     and_then (runDoctorSuite E H (fl_configPath fl))
       (\<lambda>r. ret (if dr_failed r = 0 then 0 else 1, OutDoctor (fl_json fl) r))"

definition nth_arg :: "string list \<Rightarrow> nat \<Rightarrow> string option" where
  "nth_arg args i = (if i < length args then Some (args ! i) else None)"

definition dispatchCliCommand ::
  "sys_env \<Rightarrow> host_env \<Rightarrow> string \<Rightarrow> string list \<Rightarrow> cli_flags \<Rightarrow> (int \<times> cli_output) sys_op" where
  "dispatchCliCommand E H command args fl =
     (if command = ''status'' then commandStatus E H fl
      else if command = ''config'' then
        let sub = (case nth_arg args 1 of None \<Rightarrow> [] | Some a \<Rightarrow> js_toLowerCase a)
        in if sub = ''export'' \<or> sub = []
           then commandConfigExport E H
                  \<lparr>xo_configPath = fl_configPath fl, xo_unredacted = fl_unredacted fl, xo_format = fl_format fl,
                   xo_outputPath = fl_outputPath fl\<rparr>
           else ret (1, OutUnknownSubcommand sub)
      else if command = ''doctor'' then commandDoctor E H fl
      else ret (1, OutUnknownCommand command))"

section \<open>The environment file\<close>

text \<open>\<open>replace(/^q(.*)q$/s, '$1')\<close> for a quote \<open>q\<close>.\<close>

definition unquote :: "char \<Rightarrow> string \<Rightarrow> string" where
  "unquote q s = (if 2 \<le> length s \<and> hd s = q \<and> last s = q then butlast (tl s) else s)"

definition env_line :: "string \<Rightarrow> (string \<times> string) option" where
  "env_line line =
     (let t = js_trim line
      in if t = [] \<or> hd t = CHR ''#'' \<or> CHR ''='' \<notin> set t then None
         else let key = js_trim (takeWhile (\<lambda>c. c \<noteq> CHR ''='') t);
                  raw = js_trim (tl (dropWhile (\<lambda>c. c \<noteq> CHR ''='') t))
              in if key = [] then None else Some (key, unquote (CHR 0x27) (unquote (CHR 0x22) raw)))"

fun add_env_lines :: "string list \<Rightarrow> env_vars \<Rightarrow> env_vars" where
  "add_env_lines [] env = env"
| "add_env_lines (l # ls) env =
     (case env_line l of
        None \<Rightarrow> add_env_lines ls env
      | Some (k, v) \<Rightarrow> add_env_lines ls (if map_of env k \<noteq> None then env else env @ [(k, v)]))"

definition loadProductionEnvFileInto :: "sys_env \<Rightarrow> sys_state \<Rightarrow> env_vars \<Rightarrow> env_vars" where
  "loadProductionEnvFileInto E s env =
     (let path = (case map_of env ''DELTIX_ENV_FILE'' of None \<Rightarrow> ''/etc/deltix/deltix.env'' | Some p \<Rightarrow> p)
      in if \<not> existsSync path s then env
         else case readFileSync E path s of
                (Inl _, _) \<Rightarrow> env
              | (Inr text, _) \<Rightarrow> add_env_lines (js_split NL text) env)"

definition runCli :: "sys_env \<Rightarrow> host_env \<Rightarrow> string list \<Rightarrow> (int \<times> cli_output) sys_op" where
  "runCli E H argv s =
     (let H' = H\<lparr>he_env := loadProductionEnvFileInto E s (he_env H)\<rparr>;
          args = drop 2 argv;
          command = (case nth_arg args 0 of None \<Rightarrow> [] | Some a \<Rightarrow> js_toLowerCase a)
      in if command = [] \<or> command \<in> set [''help'', ''--help'', ''-h''] then (Inr (0, OutHelp), s)
         else if command \<in> set [''--version'', ''-v'', ''version'']
         then (Inr (0, OutVersion (''deltix-server v'' @ he_version H @ '' (Bun '' @ he_bunVersion H @ '')'')), s)
         else dispatchCliCommand E H' command args (parseCliFlags args) s)"

section \<open>An export without the flag reveals no secret\<close>

lemma auth_object_typed: "z_object (authConfigSchema parse) v = Some a \<Longrightarrow> auth_config_ok a"
  by (metis z_object_Some auth_typed)

lemma schema_auth_ok: "appConfigSchema parse j = Some cfg \<Longrightarrow> auth_config_ok (cf_auth cfg)"
  by (auto simp: appConfigSchema_def Option.bind_eq_Some_conv dest: auth_object_typed)

lemma loaded_auth_ok: "loadConfig W opts c = (Inr cfg, c') \<Longrightarrow> auth_config_ok (cf_auth cfg)"
  by (auto simp: loadConfig_def split: sum.splits option.splits intro!: schema_auth_ok [OF sym])

lemma load_cli_auth_ok: "load_cli_config E H p s = (Inr cfg, t) \<Longrightarrow> auth_config_ok (cf_auth cfg)"
  using loaded_auth_ok by (auto simp: load_cli_config_def split: prod.splits sum.splits)

text \<open>The configuration without its three secrets: only whether each is set is left.\<close>

definition mask_secret :: "string option \<Rightarrow> string option" where
  "mask_secret x = map_option (\<lambda>_. []) x"

definition public_view :: "app_config \<Rightarrow> app_config" where
  "public_view c =
     c\<lparr>cf_auth := (cf_auth c)\<lparr>ac_jwtPrivateKey := mask_secret (ac_jwtPrivateKey (cf_auth c)),
        ac_jwtPrivateKeyPath := mask_secret (ac_jwtPrivateKeyPath (cf_auth c)),
        ac_bootstrapAdminPassword := mask_secret (ac_bootstrapAdminPassword (cf_auth c))\<rparr>\<rparr>"

lemma sensitive_auth_keys:
  "isSensitiveKey ''jwtPrivateKey''" "isSensitiveKey ''jwtPrivateKeyPath''" "isSensitiveKey ''bootstrapAdminPassword''"
  by code_simp+

lemma redact_secret_field:
  assumes "isSensitiveKey k" and "v \<noteq> Some []"
  shows "map redact_entry (opt_field k v) = opt_field k (map_option (\<lambda>_. ''[REDACTED]'') (mask_secret v))"
  using assms by (auto simp: opt_field_def redact_entry_def secret_text_def mask_secret_def split: option.splits)

lemma public_view_eq:
  assumes "public_view c = public_view c'"
  shows "cf_environment c = cf_environment c'" "cf_server c = cf_server c'" "cf_storage c = cf_storage c'"
    "cf_database c = cf_database c'" "cf_logging c = cf_logging c'"
    "mask_secret (ac_jwtPrivateKey (cf_auth c)) = mask_secret (ac_jwtPrivateKey (cf_auth c'))"
    "mask_secret (ac_jwtPrivateKeyPath (cf_auth c)) = mask_secret (ac_jwtPrivateKeyPath (cf_auth c'))"
    "mask_secret (ac_bootstrapAdminPassword (cf_auth c)) = mask_secret (ac_bootstrapAdminPassword (cf_auth c'))"
    "ac_jwtPublicKey (cf_auth c) = ac_jwtPublicKey (cf_auth c')" "ac_jwtPublicKeyPath (cf_auth c) = ac_jwtPublicKeyPath (cf_auth c')"
    "ac_sessionTtlSeconds (cf_auth c) = ac_sessionTtlSeconds (cf_auth c')"
    "ac_accessTokenTtlSeconds (cf_auth c) = ac_accessTokenTtlSeconds (cf_auth c')"
    "ac_corsAllowedOrigins (cf_auth c) = ac_corsAllowedOrigins (cf_auth c')"
    "ac_adminUiEnabled (cf_auth c) = ac_adminUiEnabled (cf_auth c')"
    "ac_bootstrapAdminUsername (cf_auth c) = ac_bootstrapAdminUsername (cf_auth c')"
proof -
  show "cf_environment c = cf_environment c'" "cf_server c = cf_server c'" "cf_storage c = cf_storage c'"
    "cf_database c = cf_database c'" "cf_logging c = cf_logging c'"
    using arg_cong [OF assms, of cf_environment] arg_cong [OF assms, of cf_server] arg_cong [OF assms, of cf_storage]
      arg_cong [OF assms, of cf_database] arg_cong [OF assms, of cf_logging]
    by (simp_all add: public_view_def)
  have a: "cf_auth (public_view c) = cf_auth (public_view c')" using assms by simp
  show "mask_secret (ac_jwtPrivateKey (cf_auth c)) = mask_secret (ac_jwtPrivateKey (cf_auth c'))"
    "mask_secret (ac_jwtPrivateKeyPath (cf_auth c)) = mask_secret (ac_jwtPrivateKeyPath (cf_auth c'))"
    "mask_secret (ac_bootstrapAdminPassword (cf_auth c)) = mask_secret (ac_bootstrapAdminPassword (cf_auth c'))"
    "ac_jwtPublicKey (cf_auth c) = ac_jwtPublicKey (cf_auth c')" "ac_jwtPublicKeyPath (cf_auth c) = ac_jwtPublicKeyPath (cf_auth c')"
    "ac_sessionTtlSeconds (cf_auth c) = ac_sessionTtlSeconds (cf_auth c')"
    "ac_accessTokenTtlSeconds (cf_auth c) = ac_accessTokenTtlSeconds (cf_auth c')"
    "ac_corsAllowedOrigins (cf_auth c) = ac_corsAllowedOrigins (cf_auth c')"
    "ac_adminUiEnabled (cf_auth c) = ac_adminUiEnabled (cf_auth c')"
    "ac_bootstrapAdminUsername (cf_auth c) = ac_bootstrapAdminUsername (cf_auth c')"
    using arg_cong [OF a, of ac_jwtPrivateKey] arg_cong [OF a, of ac_jwtPrivateKeyPath] arg_cong [OF a, of ac_bootstrapAdminPassword]
      arg_cong [OF a, of ac_jwtPublicKey] arg_cong [OF a, of ac_jwtPublicKeyPath] arg_cong [OF a, of ac_sessionTtlSeconds]
      arg_cong [OF a, of ac_accessTokenTtlSeconds] arg_cong [OF a, of ac_corsAllowedOrigins] arg_cong [OF a, of ac_adminUiEnabled]
      arg_cong [OF a, of ac_bootstrapAdminUsername]
    by (simp_all add: public_view_def)
qed

lemma auth_json_redacted:
  assumes "public_view c = public_view c'" and "auth_config_ok (cf_auth c)" and "auth_config_ok (cf_auth c')"
  shows "map redact_entry (auth_json (cf_auth c)) = map redact_entry (auth_json (cf_auth c'))"
proof -
  have same: "map redact_entry (opt_field k v) = map redact_entry (opt_field k w)"
    if "isSensitiveKey k" "v \<noteq> Some []" "w \<noteq> Some []" "mask_secret v = mask_secret w" for k v w
    using that by (simp add: redact_secret_field)
  note pv = public_view_eq [OF assms(1)]
  have "map redact_entry (opt_field ''jwtPrivateKey'' (ac_jwtPrivateKey (cf_auth c))) =
      map redact_entry (opt_field ''jwtPrivateKey'' (ac_jwtPrivateKey (cf_auth c')))"
    by (rule same) (use assms(2,3) pv(6) sensitive_auth_keys in \<open>auto simp: auth_config_ok_def\<close>)
  moreover have "map redact_entry (opt_field ''jwtPrivateKeyPath'' (ac_jwtPrivateKeyPath (cf_auth c))) =
      map redact_entry (opt_field ''jwtPrivateKeyPath'' (ac_jwtPrivateKeyPath (cf_auth c')))"
    by (rule same) (use assms(2,3) pv(7) sensitive_auth_keys in \<open>auto simp: auth_config_ok_def\<close>)
  moreover have "map redact_entry (opt_field ''bootstrapAdminPassword'' (ac_bootstrapAdminPassword (cf_auth c))) =
      map redact_entry (opt_field ''bootstrapAdminPassword'' (ac_bootstrapAdminPassword (cf_auth c')))"
    by (rule same) (use assms(2,3) pv(8) sensitive_auth_keys in \<open>auto simp: auth_config_ok_def\<close>)
  ultimately show ?thesis
    unfolding auth_json_def map_append by (simp only: pv)
qed

lemma export_text_redacted:
  assumes "public_view c = public_view c'" and "auth_config_ok (cf_auth c)" and "auth_config_ok (cf_auth c')"
  shows "export_text H False fmt c = export_text H False fmt c'"
proof (cases fmt)
  case FormatJson
  have "sanitizeValue (config_json c) = sanitizeValue (config_json c')"
    unfolding config_json_def Let_def sanitize_obj
    using auth_json_redacted [OF assms] 
    by (simp add: redact_entry_def [of "(_, JObj _)"] secret_text_def sanitize_obj public_view_eq(1-5) [OF assms(1)] del: sanitizeValue.simps(2))
  with FormatJson show ?thesis by (simp add: export_text_def)
next
  case FormatEnv
  note pv = public_view_eq [OF assms(1)]
  have "export_settings c = export_settings c'" unfolding export_settings_def Let_def by (simp only: pv)
  moreover have "export_bootstrap False (cf_auth c) = export_bootstrap False (cf_auth c')"
    unfolding export_bootstrap_def if_False by (simp only: pv)
  ultimately show ?thesis
    unfolding FormatEnv by (simp only: export_text_def export_format.case buildEnvExportLines_def pv)
qed

text \<open>
  C31. Without \<open>--unredacted\<close> among the arguments the export depends on nothing secret: two
  installations whose loaded configurations differ only in the JWT private key, its path and the
  bootstrap password print the same text, in either format.
\<close>

theorem export_hides_secrets:
  assumes "load_cli_config E H p s = (Inr c, t)" and "load_cli_config E' H p' s' = (Inr c', t')"
    and "public_view c = public_view c'" and "''--unredacted'' \<notin> set args"
  shows "fst (exportConfig E H \<lparr>xo_configPath = p, xo_unredacted = fl_unredacted (parseCliFlags args),
            xo_format = fmt, xo_outputPath = q\<rparr> s) =
         fst (exportConfig E' H \<lparr>xo_configPath = p', xo_unredacted = fl_unredacted (parseCliFlags args),
            xo_format = fmt, xo_outputPath = q'\<rparr> s')"
  using export_text_redacted [OF assms(3) load_cli_auth_ok [OF assms(1)] load_cli_auth_ok [OF assms(2)]] assms
  by (simp add: exportConfig_def and_then_def parseCliFlags_def)


section \<open>What the doctor finds\<close>

lemma check_sel [simp]: "dc_id (check i st c) = i" "dc_status (check i st c) = st" "dc_code (check i st c) = c"
  by (simp_all add: check_def)

lemma count_status_partition: "count_status PASS cs + count_status WARN cs + count_status FAIL cs = length cs"
proof (induction cs)
  case (Cons c cs)
  then show ?case by (cases "dc_status c") (auto simp: count_status_def)
qed (simp add: count_status_def)

lemma count_status_zero: "count_status st cs = 0 \<longleftrightarrow> (\<forall>c \<in> set cs. dc_status c \<noteq> st)"
  by (auto simp: count_status_def filter_empty_conv)

lemma doctor_ids:
  "dc_id (check_runtime H) = ''runtime-version''" "dc_id (check_os H) = ''os-arch''"
  "dc_id (fst (check_data_dir E d s)) = ''data-dir-permissions''" "dc_id (check_disk H d) = ''disk-space''"
  "dc_id (fst (check_sqlite E d s)) = ''sqlite-integrity''" "dc_id (fst (check_keys E d s)) = ''crypto-keys''"
  "dc_id (check_http_port E b sv) = ''network-http-port''" "dc_id (check_grpc_port E b sv) = ''network-grpc-port''"
  "dc_id (check_dolt H) = ''dolt-binary''"
  by (simp_all add: check_runtime_def check_os_def check_data_dir_def check_disk_def check_sqlite_def check_keys_def
      check_http_port_def check_grpc_port_def check_dolt_def Let_def split: prod.splits sum.splits option.splits)

lemma doctor_status:
  "dc_status (check_runtime H) \<noteq> FAIL \<longleftrightarrow> bun_supported (he_bunVersion H)"
  "dc_status (check_os H) \<noteq> FAIL" "dc_status (check_disk H d) \<noteq> FAIL" "dc_status (check_dolt H) \<noteq> FAIL"
  "dc_status (check_http_port E b sv) \<noteq> FAIL \<longleftrightarrow> checkPortAvailable E (sv_port sv) (sv_host sv) \<or> sv_dynamicPort sv \<or> b"
  "dc_status (check_grpc_port E b sv) \<noteq> FAIL \<longleftrightarrow> checkPortAvailable E (sv_grpcPort sv) (sv_host sv) \<or> b"
  by (simp_all add: check_runtime_def check_os_def check_disk_def check_http_port_def check_grpc_port_def check_dolt_def
      split: option.splits)

lemma check_data_dir_status:
  "dc_status (fst (check_data_dir E d s)) \<noteq> FAIL \<longleftrightarrow>
     (\<exists>p t. and_then (ensureDataDirectoryStructure E d) (\<lambda>_. checkDirectoryPermissions E d) s = (Inr p, t))"
proof -
  have ok: "pc_readable p \<and> pc_writable p" if "checkDirectoryPermissions E d t = (Inr p, u)" for t p u
    using that by (auto simp: checkDirectoryPermissions_def Let_def and_then_Inr split: if_splits)
  then have "pc_readable p \<and> pc_writable p"
    if "and_then (ensureDataDirectoryStructure E d) (\<lambda>_. checkDirectoryPermissions E d) s = (Inr p, t)" for p t
    using that by (auto simp: and_then_Inr)
  then show ?thesis
    by (auto simp: check_data_dir_def split: prod.splits sum.splits)
qed

lemma check_keys_status:
  "dc_status (fst (check_keys E d s)) \<noteq> FAIL \<longleftrightarrow>
     (\<exists>k t. ensureCryptoKeypair E (se_join E d ''keys'') s = (Inr k, t) \<and> kp_privateKeyPem k \<noteq> [] \<and> kp_publicKeyPem k \<noteq> [])"
  by (auto simp: check_keys_def split: prod.splits sum.splits)

lemma check_sqlite_status:
  "dc_status (fst (check_sqlite E d s)) \<noteq> FAIL \<longleftrightarrow>
     (let db = se_join E (se_join E d ''db'') ''deltix.db''
      in existsSync (se_join E d ''db'') s \<and> se_db_open E db \<and> list_all (se_db_exec E db) doctor_statements \<and>
         se_db_check E db = Some (Some ''ok''))"
  by (auto simp: check_sqlite_def Let_def)

text \<open>
  C40. The doctor exits with 0 exactly when the Bun version is supported, the data directories exist or
  could be made and were probed, the database in them opens, takes the three statements and passes its check, a key pair is there or could
  be made, each port is free or held by the active service (or, for HTTP, replaceable), and the TLS
  files exist where TLS is on. Disk space, platform and the dolt binary never change the exit code.
  The report holds exactly the nine checks of the suite, in their order, and a tenth for the certificates
  where TLS is on, and the three counts add up.
\<close>

theorem doctor_exit_exact:
  assumes "commandDoctor E H fl s = (Inr (code, OutDoctor js r), s')"
    and "load_cli_config E H (fl_configPath fl) s = (Inr c, s1)"
  defines "d \<equiv> resolveDataDirectory E (Some (st_dataDir (cf_storage c)))"
  shows "(code = 0 \<longleftrightarrow>
      bun_supported (he_bunVersion H) \<and>
      (\<exists>p t. and_then (ensureDataDirectoryStructure E d) (\<lambda>_. checkDirectoryPermissions E d) s1 = (Inr p, t)) \<and>
      (let db = se_join E (se_join E d ''db'') ''deltix.db''
       in existsSync (se_join E d ''db'') (snd (check_data_dir E d s1)) \<and> se_db_open E db \<and>
          list_all (se_db_exec E db) [''PRAGMA journal_mode = WAL;'', ''PRAGMA synchronous = NORMAL;'',
            ''CREATE TABLE IF NOT EXISTS _schema_meta'', ''PRAGMA quick_check;''] \<and>
          se_db_check E db = Some (Some ''ok'')) \<and>
      (\<exists>k t. ensureCryptoKeypair E (se_join E d ''keys'') (snd (check_sqlite E d (snd (check_data_dir E d s1)))) = (Inr k, t) \<and>
         kp_privateKeyPem k \<noteq> [] \<and> kp_publicKeyPem k \<noteq> []) \<and>
      (checkPortAvailable E (sv_port (cf_server c)) (sv_host (cf_server c)) \<or> sv_dynamicPort (cf_server c) \<or> isDeltixServiceActive s H) \<and>
      (checkPortAvailable E (sv_grpcPort (cf_server c)) (sv_host (cf_server c)) \<or> isDeltixServiceActive s H) \<and>
      (tls_enabled (sv_tls (cf_server c)) \<longrightarrow>
         file_there s' (tls_certPath (sv_tls (cf_server c))) \<and> file_there s' (tls_keyPath (sv_tls (cf_server c))))) \<and>
     map dc_id (dr_checks r) =
       [''runtime-version'', ''os-arch'', ''data-dir-permissions'', ''disk-space'', ''sqlite-integrity'', ''crypto-keys'',
        ''network-http-port'', ''network-grpc-port'', ''dolt-binary''] @
       (if tls_enabled (sv_tls (cf_server c)) then [''tls-certificates''] else []) \<and>
     dr_total r = length (dr_checks r) \<and> dr_total r = dr_passed r + dr_warnings r + dr_failed r"
proof -
  define t where "t = sv_tls (cf_server c)"
  define cs where "cs = [check_runtime H, check_os H, fst (check_data_dir E d s1), check_disk H d,
      fst (check_sqlite E d (snd (check_data_dir E d s1))),
      fst (check_keys E d (snd (check_sqlite E d (snd (check_data_dir E d s1))))), check_http_port E (isDeltixServiceActive s H) (cf_server c),
      check_grpc_port E (isDeltixServiceActive s H) (cf_server c), check_dolt H] @ check_tls s' t"
  have run: "runDoctorSuite E H (fl_configPath fl) s = (Inr r, s')" and code: "code = 0 \<longleftrightarrow> dr_failed r = 0"
    using assms(1) by (auto simp: commandDoctor_def and_then_Inr split: if_splits)
  from run have r: "r = \<lparr>dr_total = length cs, dr_passed = count_status PASS cs, dr_warnings = count_status WARN cs,
      dr_failed = count_status FAIL cs, dr_checks = cs\<rparr>"
    using assms(2) by (simp add: runDoctorSuite_def and_then_def split_def Let_def cs_def d_def t_def) blast
  have tls: "(\<forall>x \<in> set (check_tls s' t). dc_status x \<noteq> FAIL) \<longleftrightarrow> (tls_enabled t \<longrightarrow> file_there s' (tls_certPath t) \<and> file_there s' (tls_keyPath t))"
    by (auto simp: check_tls_def)
  note sq = check_sqlite_status [unfolded doctor_statements_def]
  have "dr_failed r = 0 \<longleftrightarrow> (\<forall>x \<in> set cs. dc_status x \<noteq> FAIL)" by (simp add: r count_status_zero)
  also have "\<dots> \<longleftrightarrow> bun_supported (he_bunVersion H) \<and>
      (\<exists>p t. and_then (ensureDataDirectoryStructure E d) (\<lambda>_. checkDirectoryPermissions E d) s1 = (Inr p, t)) \<and>
      (let db = se_join E (se_join E d ''db'') ''deltix.db''
       in existsSync (se_join E d ''db'') (snd (check_data_dir E d s1)) \<and> se_db_open E db \<and>
          list_all (se_db_exec E db) [''PRAGMA journal_mode = WAL;'', ''PRAGMA synchronous = NORMAL;'',
            ''CREATE TABLE IF NOT EXISTS _schema_meta'', ''PRAGMA quick_check;''] \<and>
          se_db_check E db = Some (Some ''ok'')) \<and>
      (\<exists>k t. ensureCryptoKeypair E (se_join E d ''keys'') (snd (check_sqlite E d (snd (check_data_dir E d s1)))) = (Inr k, t) \<and>
         kp_privateKeyPem k \<noteq> [] \<and> kp_publicKeyPem k \<noteq> []) \<and>
      (checkPortAvailable E (sv_port (cf_server c)) (sv_host (cf_server c)) \<or> sv_dynamicPort (cf_server c) \<or> isDeltixServiceActive s H) \<and>
      (checkPortAvailable E (sv_grpcPort (cf_server c)) (sv_host (cf_server c)) \<or> isDeltixServiceActive s H) \<and>
      (tls_enabled t \<longrightarrow> file_there s' (tls_certPath t) \<and> file_there s' (tls_keyPath t))"
    unfolding cs_def by (simp only: set_append list.set ball_Un ball_simps tls doctor_status check_data_dir_status check_keys_status sq)
      blast
  finally have "code = 0 \<longleftrightarrow> \<dots>" using code by simp
  moreover have "map dc_id cs =
      [''runtime-version'', ''os-arch'', ''data-dir-permissions'', ''disk-space'', ''sqlite-integrity'', ''crypto-keys'',
       ''network-http-port'', ''network-grpc-port'', ''dolt-binary''] @ (if tls_enabled t then [''tls-certificates''] else [])"
    by (simp add: cs_def doctor_ids check_tls_def)
  ultimately show ?thesis unfolding t_def by (simp add: r count_status_partition)
qed

text \<open>A configuration that cannot be loaded is not reported by the doctor: the command throws.\<close>

lemma doctor_throws_on_bad_config:
  "isl (fst (commandDoctor E H fl s)) \<longleftrightarrow> isl (fst (load_cli_config E H (fl_configPath fl) s))"
  by (auto simp: commandDoctor_def runDoctorSuite_def and_then_def Let_def split_def split: sum.splits)

section \<open>A concrete machine\<close>

definition sample_host :: host_env where
  "sample_host =
     \<lparr>he_bunVersion = ''1.4.0'', he_nodeVersion = ''v24'', he_platform = ''linux'', he_arch = ''x64'', he_cpuCores = 4, he_pid = 7,
      he_uptime = 90061, he_rss = 1536, he_heapUsed = 0, he_freemem = 1048576, he_totalmem = 5000, he_statfs = (\<lambda>_. Some 600000000),
      he_journal_mode = (\<lambda>_. Some ''WAL''), he_systemctl = Some 3, he_which_dolt = Some None, he_env = [], he_now = ''2026'',
      he_version = ''0.8'', he_stringify = js_String\<rparr>"

definition secret_sys_env :: "string \<Rightarrow> sys_env" where
  "secret_sys_env key = sample_sys_env\<lparr>se_config := sample_config_world\<lparr>cw_parse :=
     (\<lambda>_. Some (JObj [(''auth'', JObj [(''jwtPrivateKey'', JStr key)])]))\<rparr>\<rparr>"

theorem export_hides_secrets_witness:
  "fst (exportConfig (secret_sys_env ''one'') sample_host
          \<lparr>xo_configPath = None, xo_unredacted = fl_unredacted (parseCliFlags [''config'']), xo_format = FormatEnv, xo_outputPath = None\<rparr> empty_sys) =
   fst (exportConfig (secret_sys_env ''two'') sample_host
          \<lparr>xo_configPath = None, xo_unredacted = fl_unredacted (parseCliFlags [''config'']), xo_format = FormatEnv, xo_outputPath = None\<rparr> empty_sys)"
proof -
  let ?l = "\<lambda>k. load_cli_config (secret_sys_env k) sample_host None empty_sys"
  have "map_sum id (\<lambda>c. ac_jwtPrivateKey (cf_auth c)) (fst (?l ''one'')) = Inr (Some ''one'') \<and>
      map_sum id (\<lambda>c. ac_jwtPrivateKey (cf_auth c)) (fst (?l ''two'')) = Inr (Some ''two'')"
    by code_simp
  then obtain c t c' t' where l: "?l ''one'' = (Inr c, t)" "?l ''two'' = (Inr c', t')"
    by (cases "?l ''one''"; cases "?l ''two''"; cases "fst (?l ''one'')"; cases "fst (?l ''two'')") auto
  have "map_sum id public_view (fst (?l ''one'')) = map_sum id public_view (fst (?l ''two''))"
    by code_simp
  then have "public_view c = public_view c'" using l by simp
  from export_hides_secrets [OF l this, of "[''config'']"] show ?thesis by simp
qed

theorem doctor_exit_exact_witness:
  "\<exists>r s. commandDoctor sample_sys_env sample_host (parseCliFlags [''doctor'']) empty_sys = (Inr (0, OutDoctor False r), s) \<and>
     dr_total r = 9 \<and> dr_passed r + dr_warnings r + dr_failed r = 9 \<and> bun_supported ''1.4.0''"
proof -
  let ?fl = "parseCliFlags [''doctor'']"
  let ?d = "commandDoctor sample_sys_env sample_host ?fl empty_sys"
  have "map_sum (\<lambda>_. ()) (\<lambda>(code, out). (code, case out of OutDoctor js r \<Rightarrow> Some js | _ \<Rightarrow> None)) (fst ?d) = Inr (0, Some False)"
    by code_simp
  then obtain r s where d: "?d = (Inr (0, OutDoctor False r), s)"
    by (cases ?d; cases "fst ?d") (auto split: cli_output.splits)
  have "isl (fst (load_cli_config sample_sys_env sample_host (fl_configPath ?fl) empty_sys)) = False" by code_simp
  then obtain c t where l: "load_cli_config sample_sys_env sample_host (fl_configPath ?fl) empty_sys = (Inr c, t)"
    by (cases "load_cli_config sample_sys_env sample_host (fl_configPath ?fl) empty_sys";
        cases "fst (load_cli_config sample_sys_env sample_host (fl_configPath ?fl) empty_sys)") auto
  have "map_sum id (\<lambda>c. tls_enabled (sv_tls (cf_server c)))
      (fst (load_cli_config sample_sys_env sample_host (fl_configPath ?fl) empty_sys)) = Inr False" by code_simp
  with l have plain: "\<not> tls_enabled (sv_tls (cf_server c))" by simp
  note e = doctor_exit_exact [OF d l]
  have "length (map dc_id (dr_checks r)) = 9" unfolding e [THEN conjunct2, THEN conjunct1] using plain by simp
  then have "dr_total r = 9" "dr_passed r + dr_warnings r + dr_failed r = 9"
    using e [THEN conjunct2, THEN conjunct2] by simp_all
  moreover have "bun_supported (he_bunVersion sample_host)" using e [THEN conjunct1] by simp
  ultimately show ?thesis using d by (auto simp: sample_host_def)
qed

section \<open>Small facts on the command line\<close>

text \<open>\<open>config\<close> followed directly by an option is refused, although \<open>config\<close> alone exports.\<close>

lemma config_option_refused:
  "dispatchCliCommand E H ''config'' [''config'', ''--format'', ''env''] fl s = (Inr (1, OutUnknownSubcommand ''--format''), s)"
proof -
  have "js_toLowerCase ''--format'' = ''--format''" by code_simp
  then show ?thesis by (simp add: dispatchCliCommand_def nth_arg_def)
qed

end
