(* ===== verification/ExportRoundtrip.thy ===== *)
theory ExportRoundtrip
  imports Cli
begin

text \<open>
  The environment file written by \<open>config export --format env --unredacted\<close>, read back the way the
  command line reads \<open>/etc/deltix/deltix.env\<close>, and loaded: which settings come back and which are lost.
\<close>

section \<open>Lines and pairs\<close>

definition export_pairs :: "app_config \<Rightarrow> (string \<times> string) list" where
  "export_pairs c =
     (let sv = cf_server c; st = cf_storage c; d = cf_database c; a = cf_auth c; l = cf_logging c
      in [(''APP_ENV'', cf_environment c), (''APP_HOST'', sv_host sv), (''APP_PORT'', js_show_int (sv_port sv)),
          (''APP_GRPC_PORT'', js_show_int (sv_grpcPort sv)), (''APP_DYNAMIC_PORT'', js_show_bool (sv_dynamicPort sv)),
          (''APP_DATA_DIR'', st_dataDir st), (''APP_STAGING_PATH'', st_stagingRootPath st),
          (''APP_REPOS_PATH'', st_doltReposRootPath st), (''APP_NAS_PATH'', st_nasSimPath st),
          (''APP_USER_DB_PATH'', db_userDbPath d), (''APP_REPO_DB_PATH'', db_repoDbPath d),
          (''APP_TICKET_DB_PATH'', db_ticketDbPath d), (''APP_TRANSFER_JOB_DB_PATH'', db_transferJobDbPath d),
          (''APP_ADDON_TRUST_DB_PATH'', db_addonTrustDbPath d), (''APP_SESSION_DB_PATH'', db_sessionDbPath d),
          (''APP_ADMIN_UI_ENABLED'', js_show_bool (ac_adminUiEnabled a)),
          (''APP_SESSION_TTL_SECONDS'', js_show_int (ac_sessionTtlSeconds a)),
          (''APP_ACCESS_TOKEN_TTL_SECONDS'', js_show_int (ac_accessTokenTtlSeconds a)),
          (''APP_LOG_LEVEL'', lg_level l), (''APP_LOG_PRETTY'', js_show_bool (lg_pretty l))])"

definition bootstrap_pairs :: "auth_config \<Rightarrow> (string \<times> string) list" where
  "bootstrap_pairs a =
     (case (ac_bootstrapAdminUsername a, ac_bootstrapAdminPassword a) of
        (Some u, Some p) \<Rightarrow> [(''APP_BOOTSTRAP_ADMIN_USERNAME'', u), (''APP_BOOTSTRAP_ADMIN_PASSWORD'', p)]
      | _ \<Rightarrow> [])"

definition opt_pair :: "string \<Rightarrow> string option \<Rightarrow> (string \<times> string) list" where
  "opt_pair k v = (case v of None \<Rightarrow> [] | Some s \<Rightarrow> [(k, s)])"

definition tls_pairs :: "tls_config \<Rightarrow> (string \<times> string) list" where
  "tls_pairs t =
     (if tls_enabled t
      then (''APP_TLS_ENABLED'', ''true'') # opt_pair ''APP_TLS_CERT_PATH'' (tls_certPath t) @ opt_pair ''APP_TLS_KEY_PATH'' (tls_keyPath t)
      else [])"

definition all_pairs :: "app_config \<Rightarrow> (string \<times> string) list" where
  "all_pairs c = export_pairs c @ bootstrap_pairs (cf_auth c) @ tls_pairs (sv_tls (cf_server c))"

definition pair_line :: "string \<times> string \<Rightarrow> string" where
  "pair_line kv = fst kv @ ''='' @ snd kv"

lemma export_lines_pairs:
  assumes "auth_config_ok (cf_auth c)" and "server_ok (cf_server c)"
  shows "buildEnvExportLines now True c =
     [''# Deltix Exported Configuration'', ''# Exported at: '' @ now, ''# Unredacted: true'', []] @ map pair_line (all_pairs c)"
proof -
  have "export_settings c = map pair_line (export_pairs c)"
    by (simp add: export_settings_def export_pairs_def pair_line_def Let_def)
  moreover have "export_bootstrap True (cf_auth c) = map pair_line (bootstrap_pairs (cf_auth c))"
    using assms(1)
    by (auto simp: export_bootstrap_def bootstrap_pairs_def pair_line_def no_text_def auth_config_ok_def split: option.splits)
  moreover have "export_tls (sv_tls (cf_server c)) = map pair_line (tls_pairs (sv_tls (cf_server c)))"
    using assms(2)
    by (auto simp: export_tls_def tls_pairs_def opt_pair_def pair_line_def no_text_def server_ok_def split: option.splits)
  ultimately show ?thesis by (simp add: buildEnvExportLines_def all_pairs_def js_show_bool_def)
qed

text \<open>
  A value that a line of the file can carry: no line break, no white space around it, and not in quotes.
\<close>

definition line_value :: "string \<Rightarrow> bool" where
  "line_value v \<longleftrightarrow> NL \<notin> set v \<and> js_trim v = v \<and> unquote (CHR 0x27) (unquote (CHR 0x22) v) = v"

definition line_key :: "string \<Rightarrow> bool" where
  "line_key k \<longleftrightarrow> k \<noteq> [] \<and> NL \<notin> set k \<and> CHR ''='' \<notin> set k \<and> hd k \<noteq> CHR ''#'' \<and> (\<forall>c \<in> set k. \<not> js_ws c)"

lemma js_trim_append:
  assumes "k \<noteq> []" and "\<forall>c \<in> set k. \<not> js_ws c" and "js_trim v = v"
  shows "js_trim (k @ ''='' @ v) = k @ ''='' @ v"
proof (rule js_trim_id)
  have "\<not> js_ws (hd k)" using assms(1,2) by auto
  moreover have "\<not> js_ws (last (''='' @ v))"
    using js_trim_ends(2) [of v] assms(3) by (cases "v = []") (auto simp: js_ws_def)
  ultimately show "k @ ''='' @ v = [] \<or> \<not> js_ws (hd (k @ ''='' @ v)) \<and> \<not> js_ws (last (k @ ''='' @ v))"
    using assms(1) by simp
qed

lemma env_line_pair:
  assumes "line_key k" and "line_value v"
  shows "env_line (pair_line (k, v)) = Some (k, v)"
proof -
  from assms have k: "k \<noteq> []" "\<forall>c \<in> set k. \<not> js_ws c" "CHR ''='' \<notin> set k" "hd k \<noteq> CHR ''#''"
    and v: "js_trim v = v" "unquote (CHR 0x27) (unquote (CHR 0x22) v) = v" by (auto simp: line_key_def line_value_def)
  have t: "js_trim (k @ ''='' @ v) = k @ ''='' @ v" using js_trim_append [OF k(1,2) v(1)] .
  have kt: "js_trim k = k" by (rule js_trim_id) (use k in auto)
  have "takeWhile (\<lambda>c. c \<noteq> CHR ''='') (k @ ''='' @ v) = k" "dropWhile (\<lambda>c. c \<noteq> CHR ''='') (k @ ''='' @ v) = ''='' @ v"
    using k(3) by (auto simp: takeWhile_append dropWhile_append)
  with k v t kt show ?thesis by (simp add: env_line_def pair_line_def Let_def)
qed

lemma add_env_lines_comments:
  "add_env_lines ((CHR ''#'' # l) # ls) env = add_env_lines ls env" "add_env_lines ([] # ls) env = add_env_lines ls env"
proof -
  have "js_trim (CHR ''#'' # l) = [] \<or> hd (js_trim (CHR ''#'' # l)) = CHR ''#''"
  proof -
    have "js_trim_start (CHR ''#'' # l) = CHR ''#'' # l" by (simp add: js_trim_start_def js_ws_def)
    moreover have "\<exists>r. dropWhile js_ws (rev l @ [CHR ''#'']) = r @ [CHR ''#'']"
      by (induction "rev l") (auto simp: js_ws_def dropWhile_append)
    ultimately show ?thesis by (auto simp: js_trim_def)
  qed
  then have "env_line (CHR ''#'' # l) = None" by (auto simp: env_line_def Let_def)
  then show "add_env_lines ((CHR ''#'' # l) # ls) env = add_env_lines ls env" by simp
  show "add_env_lines ([] # ls) env = add_env_lines ls env"
    by (simp add: env_line_def js_trim_def js_trim_start_def)
qed

lemma add_env_lines_pairs:
  assumes "\<forall>(k, v) \<in> set ps. line_key k \<and> line_value v" and "distinct (map fst ps)"
    and "\<forall>k \<in> fst ` set ps. map_of env k = None"
  shows "add_env_lines (map pair_line ps) env = env @ ps"
  using assms
proof (induction ps arbitrary: env)
  case (Cons kv ps)
  obtain k v where kv: "kv = (k, v)" by (cases kv)
  with Cons.prems have e: "env_line (pair_line (k, v)) = Some (k, v)" by (intro env_line_pair) auto
  have "add_env_lines (map pair_line ps) (env @ [(k, v)]) = (env @ [(k, v)]) @ ps"
    using Cons.prems kv by (intro Cons.IH) (auto simp: map_add_def split: option.splits)
  with Cons.prems kv e show ?case by (auto simp: map_of_eq_None_iff)
qed simp

definition base_keys :: "string list" where
  "base_keys = [''APP_ENV'', ''APP_HOST'', ''APP_PORT'', ''APP_GRPC_PORT'', ''APP_DYNAMIC_PORT'', ''APP_DATA_DIR'', ''APP_STAGING_PATH'',
     ''APP_REPOS_PATH'', ''APP_NAS_PATH'', ''APP_USER_DB_PATH'', ''APP_REPO_DB_PATH'', ''APP_TICKET_DB_PATH'',
     ''APP_TRANSFER_JOB_DB_PATH'', ''APP_ADDON_TRUST_DB_PATH'', ''APP_SESSION_DB_PATH'', ''APP_ADMIN_UI_ENABLED'',
     ''APP_SESSION_TTL_SECONDS'', ''APP_ACCESS_TOKEN_TTL_SECONDS'', ''APP_LOG_LEVEL'', ''APP_LOG_PRETTY'']"

definition bootstrap_keys :: "string list" where
  "bootstrap_keys = [''APP_BOOTSTRAP_ADMIN_USERNAME'', ''APP_BOOTSTRAP_ADMIN_PASSWORD'']"

definition tls_keys :: "string list" where
  "tls_keys = [''APP_TLS_ENABLED'', ''APP_TLS_CERT_PATH'', ''APP_TLS_KEY_PATH'']"

lemma export_keys_ok:
  "distinct (base_keys @ bootstrap_keys @ tls_keys)" "list_all line_key (base_keys @ bootstrap_keys @ tls_keys)"
  by (simp_all add: base_keys_def bootstrap_keys_def tls_keys_def line_key_def NL_def js_ws_def)

lemma all_pairs_parts:
  "map fst (export_pairs c) = base_keys" "map fst (bootstrap_pairs a) = [] \<or> map fst (bootstrap_pairs a) = bootstrap_keys"
  "distinct (map fst (tls_pairs t))"
  by (simp_all add: export_pairs_def base_keys_def Let_def bootstrap_pairs_def bootstrap_keys_def tls_pairs_def
      opt_pair_def split: option.splits)

lemma tls_pairs_keys: "set (map fst (tls_pairs t)) \<subseteq> set tls_keys"
  by (cases "tls_enabled t"; cases "tls_certPath t"; cases "tls_keyPath t") (simp_all add: tls_pairs_def tls_keys_def opt_pair_def)

lemma all_pairs_keys:
  "distinct (map fst (all_pairs c))" "set (map fst (all_pairs c)) \<subseteq> set (base_keys @ bootstrap_keys @ tls_keys)"
proof -
  let ?b = "map fst (bootstrap_pairs (cf_auth c))" and ?t = "map fst (tls_pairs (sv_tls (cf_server c)))"
  have m: "map fst (all_pairs c) = base_keys @ ?b @ ?t" by (simp add: all_pairs_def all_pairs_parts(1))
  have b: "distinct ?b" "set ?b \<subseteq> set bootstrap_keys"
    using all_pairs_parts(2) [of "cf_auth c"] export_keys_ok(1) by (auto simp del: set_map)
  have t: "distinct ?t" "set ?t \<subseteq> set tls_keys" by (rule all_pairs_parts(3), rule tls_pairs_keys)
  have d: "distinct base_keys" "set base_keys \<inter> set bootstrap_keys = {}" "set base_keys \<inter> set tls_keys = {}"
    "set bootstrap_keys \<inter> set tls_keys = {}" using export_keys_ok(1) by auto
  show "distinct (map fst (all_pairs c))" unfolding m distinct_append set_append using b t d by blast
  show "set (map fst (all_pairs c)) \<subseteq> set (base_keys @ bootstrap_keys @ tls_keys)"
    unfolding m set_append using b t by blast
qed

lemma all_pairs_line_key: "(k, v) \<in> set (all_pairs c) \<Longrightarrow> line_key k"
  using all_pairs_keys(2) [of c] export_keys_ok(2) by (force simp: list_all_iff)

text \<open>The file holds exactly the pairs, read into an empty environment.\<close>

definition exportable :: "app_config \<Rightarrow> bool" where
  "exportable c \<longleftrightarrow> (\<forall>kv \<in> set (all_pairs c). line_value (snd kv))"

lemma line_value_no_NL: "line_key k \<Longrightarrow> line_value v \<Longrightarrow> NL \<notin> set (pair_line (k, v))"
  by (auto simp: line_key_def line_value_def pair_line_def NL_def)

lemma exported_file_read_back:
  assumes "auth_config_ok (cf_auth c)" and "server_ok (cf_server c)" and "exportable c" and "NL \<notin> set now"
  shows "add_env_lines (js_split NL (js_join [NL] (buildEnvExportLines now True c))) [] = all_pairs c"
proof -
  note lines = export_lines_pairs [OF assms(1,2), of now]
  have nl: "\<forall>w \<in> set (buildEnvExportLines now True c). NL \<notin> set w"
  proof
    fix w
    assume "w \<in> set (buildEnvExportLines now True c)"
    then consider "w \<in> set [''# Deltix Exported Configuration'', ''# Exported at: '' @ now, ''# Unredacted: true'', []]"
      | kv where "kv \<in> set (all_pairs c)" "w = pair_line kv"
      unfolding lines by auto
    then show "NL \<notin> set w"
    proof cases
      case 1
      with assms(4) show ?thesis by (auto simp: NL_def)
    next
      case 2
      with assms(3) line_value_no_NL [of "fst kv" "snd kv"] all_pairs_line_key [of "fst kv" "snd kv" c] show ?thesis
        by (simp add: exportable_def)
    qed
  qed
  have "js_split NL (js_join [NL] (buildEnvExportLines now True c)) = buildEnvExportLines now True c"
    by (rule js_split_join) (use nl lines in auto)
  moreover have "add_env_lines (map pair_line (all_pairs c)) [] = [] @ all_pairs c"
    using assms(3) all_pairs_line_key all_pairs_keys(1) by (intro add_env_lines_pairs) (auto simp: exportable_def)
  ultimately show ?thesis unfolding lines by (simp only: append_Cons append_Nil add_env_lines_comments)
qed

section \<open>Loading the pairs\<close>

lemma map_of_all_pairs:
  "map_of (all_pairs c) k =
     (case map_of (export_pairs c) k of
        Some v \<Rightarrow> Some v
      | None \<Rightarrow> (case map_of (bootstrap_pairs (cf_auth c)) k of Some v \<Rightarrow> Some v | None \<Rightarrow> map_of (tls_pairs (sv_tls (cf_server c))) k))"
  by (simp add: all_pairs_def map_add_def split: option.splits)

lemma other_variables_unset:
  assumes "k \<notin> set (base_keys @ bootstrap_keys @ tls_keys)"
  shows "map_of (all_pairs c) k = None"
  using assms all_pairs_keys(2) [of c] by (auto simp: map_of_eq_None_iff)

lemma unset_variables:
  "list_all (\<lambda>k. map_of (all_pairs c) k = None)
     [''APP_JWT_PRIVATE_KEY'', ''DELTIX_JWT_PRIVATE_KEY'', ''APP_JWT_PUBLIC_KEY'', ''DELTIX_JWT_PUBLIC_KEY'',
      ''APP_JWT_PRIVATE_KEY_PATH'', ''APP_JWT_PUBLIC_KEY_PATH'', ''APP_CORS_ALLOWED_ORIGINS'', ''DELTIX_CORS_ALLOWED_ORIGINS'',
      ''DELTIX_BOOTSTRAP_ADMIN_USERNAME'', ''DELTIX_BOOTSTRAP_ADMIN_PASSWORD'', ''APP_SERVER_TLS_ENABLED'',
      ''APP_SERVER_TLS_CERT_PATH'', ''DELTIX_HTTP_TLS_CERT_PATH'', ''APP_SERVER_TLS_KEY_PATH'', ''DELTIX_HTTP_TLS_KEY_PATH'',
      ''APP_TLS_AUTO_GENERATE'', ''APP_CONFIG_PATH'', ''DELTIX_CONFIG_PATH'']"
proof -
  have "list_all (\<lambda>k. k \<notin> set (base_keys @ bootstrap_keys @ tls_keys))
     [''APP_JWT_PRIVATE_KEY'', ''DELTIX_JWT_PRIVATE_KEY'', ''APP_JWT_PUBLIC_KEY'', ''DELTIX_JWT_PUBLIC_KEY'',
      ''APP_JWT_PRIVATE_KEY_PATH'', ''APP_JWT_PUBLIC_KEY_PATH'', ''APP_CORS_ALLOWED_ORIGINS'', ''DELTIX_CORS_ALLOWED_ORIGINS'',
      ''DELTIX_BOOTSTRAP_ADMIN_USERNAME'', ''DELTIX_BOOTSTRAP_ADMIN_PASSWORD'', ''APP_SERVER_TLS_ENABLED'',
      ''APP_SERVER_TLS_CERT_PATH'', ''DELTIX_HTTP_TLS_CERT_PATH'', ''APP_SERVER_TLS_KEY_PATH'', ''DELTIX_HTTP_TLS_KEY_PATH'',
      ''APP_TLS_AUTO_GENERATE'', ''APP_CONFIG_PATH'', ''DELTIX_CONFIG_PATH'']" by code_simp
  then show ?thesis using other_variables_unset by (rule list.pred_mono_strong) 
qed

text \<open>None of the names has the form \<open>APP__SECTION__PROPERTY\<close>.\<close>

lemma no_dunder: "list_all (\<lambda>(k, v). \<not> js_startsWith k ''APP__'') env \<Longrightarrow> extractDoubleUnderscoreEnv env r = Inr r"
  by (induction env r rule: extractDoubleUnderscoreEnv.induct) (auto simp: dunder_step_def)

lemma all_pairs_no_dunder: "extractEnvConfig (all_pairs c) = Inr (plain_env_config (all_pairs c))"
proof -
  have "list_all (\<lambda>k. \<not> js_startsWith k ''APP__'') (base_keys @ bootstrap_keys @ tls_keys)" by code_simp
  with all_pairs_keys(2) [of c] have "list_all (\<lambda>(k, v). \<not> js_startsWith k ''APP__'') (all_pairs c)"
    by (fastforce simp: list_all_iff)
  then show ?thesis unfolding extractEnvConfig_def by (rule no_dunder)
qed

lemma coerce_shown [simp]: "booleanCoerce (JStr (js_show_bool b)) = Some b"
proof -
  have "booleanCoerce (JStr (js_show_bool True)) = Some True" "booleanCoerce (JStr (js_show_bool False)) = Some False"
    by code_simp+
  then show ?thesis by (cases b) metis+
qed

lemma export_set [simp]:
  "map_of (all_pairs c) ''APP_ENV'' = Some (cf_environment c)"
  "map_of (all_pairs c) ''APP_HOST'' = Some (sv_host (cf_server c))"
  "map_of (all_pairs c) ''APP_PORT'' = Some (js_show_int (sv_port (cf_server c)))"
  "map_of (all_pairs c) ''APP_GRPC_PORT'' = Some (js_show_int (sv_grpcPort (cf_server c)))"
  "map_of (all_pairs c) ''APP_DYNAMIC_PORT'' = Some (js_show_bool (sv_dynamicPort (cf_server c)))"
  by (simp_all add: map_of_all_pairs export_pairs_def Let_def)

lemma export_set_storage [simp]:
  "map_of (all_pairs c) ''APP_DATA_DIR'' = Some (st_dataDir (cf_storage c))"
  "map_of (all_pairs c) ''APP_STAGING_PATH'' = Some (st_stagingRootPath (cf_storage c))"
  "map_of (all_pairs c) ''APP_REPOS_PATH'' = Some (st_doltReposRootPath (cf_storage c))"
  "map_of (all_pairs c) ''APP_NAS_PATH'' = Some (st_nasSimPath (cf_storage c))"
  "map_of (all_pairs c) ''APP_USER_DB_PATH'' = Some (db_userDbPath (cf_database c))"
  "map_of (all_pairs c) ''APP_REPO_DB_PATH'' = Some (db_repoDbPath (cf_database c))"
  "map_of (all_pairs c) ''APP_TICKET_DB_PATH'' = Some (db_ticketDbPath (cf_database c))"
  "map_of (all_pairs c) ''APP_TRANSFER_JOB_DB_PATH'' = Some (db_transferJobDbPath (cf_database c))"
  "map_of (all_pairs c) ''APP_ADDON_TRUST_DB_PATH'' = Some (db_addonTrustDbPath (cf_database c))"
  "map_of (all_pairs c) ''APP_SESSION_DB_PATH'' = Some (db_sessionDbPath (cf_database c))"
  by (simp_all add: map_of_all_pairs export_pairs_def Let_def)

lemma export_set_auth [simp]:
  "map_of (all_pairs c) ''APP_ADMIN_UI_ENABLED'' = Some (js_show_bool (ac_adminUiEnabled (cf_auth c)))"
  "map_of (all_pairs c) ''APP_SESSION_TTL_SECONDS'' = Some (js_show_int (ac_sessionTtlSeconds (cf_auth c)))"
  "map_of (all_pairs c) ''APP_ACCESS_TOKEN_TTL_SECONDS'' = Some (js_show_int (ac_accessTokenTtlSeconds (cf_auth c)))"
  "map_of (all_pairs c) ''APP_LOG_LEVEL'' = Some (lg_level (cf_logging c))"
  "map_of (all_pairs c) ''APP_LOG_PRETTY'' = Some (js_show_bool (lg_pretty (cf_logging c)))"
  by (simp_all add: map_of_all_pairs export_pairs_def Let_def)

lemma export_set_bootstrap:
  assumes "auth_config_ok (cf_auth c)"
  shows "map_of (all_pairs c) ''APP_BOOTSTRAP_ADMIN_USERNAME'' = ac_bootstrapAdminUsername (cf_auth c)"
    "map_of (all_pairs c) ''APP_BOOTSTRAP_ADMIN_PASSWORD'' = ac_bootstrapAdminPassword (cf_auth c)"
proof -
  have t: "map_of (tls_pairs t) ''APP_BOOTSTRAP_ADMIN_USERNAME'' = None" "map_of (tls_pairs t) ''APP_BOOTSTRAP_ADMIN_PASSWORD'' = None" for t
    by (simp_all add: tls_pairs_def opt_pair_def split: option.splits)
  have e: "map_of (export_pairs c) ''APP_BOOTSTRAP_ADMIN_USERNAME'' = None" "map_of (export_pairs c) ''APP_BOOTSTRAP_ADMIN_PASSWORD'' = None"
    by (simp_all add: export_pairs_def Let_def)
  show "map_of (all_pairs c) ''APP_BOOTSTRAP_ADMIN_USERNAME'' = ac_bootstrapAdminUsername (cf_auth c)"
    "map_of (all_pairs c) ''APP_BOOTSTRAP_ADMIN_PASSWORD'' = ac_bootstrapAdminPassword (cf_auth c)"
    using assms unfolding map_of_all_pairs e t
    by (cases "ac_bootstrapAdminUsername (cf_auth c)"; cases "ac_bootstrapAdminPassword (cf_auth c)";
        simp add: bootstrap_pairs_def auth_config_ok_def)+
qed

lemma export_set_tls:
  "map_of (all_pairs c) ''APP_TLS_ENABLED'' = (if tls_enabled (sv_tls (cf_server c)) then Some ''true'' else None)"
  "map_of (all_pairs c) ''APP_TLS_CERT_PATH'' = (if tls_enabled (sv_tls (cf_server c)) then tls_certPath (sv_tls (cf_server c)) else None)"
  "map_of (all_pairs c) ''APP_TLS_KEY_PATH'' = (if tls_enabled (sv_tls (cf_server c)) then tls_keyPath (sv_tls (cf_server c)) else None)"
  by (simp_all add: map_of_all_pairs export_pairs_def Let_def bootstrap_pairs_def tls_pairs_def opt_pair_def
      split: option.splits)

section \<open>What a reload gives\<close>

text \<open>
  The configuration after the round trip: the keys, their paths, the origins of other sites and the switch
  \<open>autoGenerate\<close> are not in the file, and of a TLS section that is off nothing is written.
\<close>

definition reloaded :: "app_config \<Rightarrow> app_config" where
  "reloaded c =
     (let t = sv_tls (cf_server c)
      in c\<lparr>cf_server := (cf_server c)\<lparr>sv_tls := if tls_enabled t then t\<lparr>tls_autoGenerate := False\<rparr> else no_tls\<rparr>,
           cf_auth := (cf_auth c)\<lparr>ac_jwtPrivateKey := None, ac_jwtPublicKey := None, ac_jwtPrivateKeyPath := None,
             ac_jwtPublicKeyPath := None, ac_corsAllowedOrigins := []\<rparr>\<rparr>)"

lemmas unset = unset_variables [simplified]

lemma put_section_lookup: "map_of (put_section n fs r) k = (if k = n \<and> fs \<noteq> [] then Some (JObj fs) else map_of r k)"
  by (simp add: put_section_def update_conv)

lemma assign_lookup: "map_of (assignIfDefined [] k v) k' = (if k' = k then map_option JStr v else None)"
  by (simp add: assignIfDefined_def split: option.splits)

lemma plain_env_lookup:
  "map_of (plain_env_config env) ''environment'' = map_option JStr (env_first env [''APP_ENV'', ''NODE_ENV''])"
  "map_of (plain_env_config env) ''server'' = (if extractServerEnv env \<noteq> [] then Some (JObj (extractServerEnv env)) else None)"
  "map_of (plain_env_config env) ''storage'' = (if extractStorageEnv env \<noteq> [] then Some (JObj (extractStorageEnv env)) else None)"
  "map_of (plain_env_config env) ''database'' = (if extractDatabaseEnv env \<noteq> [] then Some (JObj (extractDatabaseEnv env)) else None)"
  "map_of (plain_env_config env) ''auth'' = (if extractAuthEnv env \<noteq> [] then Some (JObj (extractAuthEnv env)) else None)"
  "map_of (plain_env_config env) ''logging'' = (if extractLoggingEnv env \<noteq> [] then Some (JObj (extractLoggingEnv env)) else None)"
  by (simp_all add: plain_env_config_def put_section_lookup assign_lookup)

lemmas read_simps = env_section_def assignIfDefined_def unset export_set_tls

lemma text_back: "s \<noteq> [] \<Longrightarrow> z_nonempty (JStr s) = Some s"
  by (simp add: z_nonempty_def)

lemma port_back: "1 \<le> n \<Longrightarrow> n \<le> 65535 \<Longrightarrow> z_port (JStr (js_show_int n)) = Some n"
  by (simp add: z_port_def js_toNumber_def js_Number_show MAX_SAFE_INTEGER_def)

lemma positive_back: "1 \<le> n \<Longrightarrow> n \<le> MAX_SAFE_INTEGER \<Longrightarrow> z_positive (JStr (js_show_int n)) = Some n"
  by (simp add: z_positive_def js_toNumber_def js_Number_show)

lemma enum_back: "s \<in> set vs \<Longrightarrow> z_enum vs (JStr s) = Some s"
  by (simp add: z_enum_def)

lemma switch_back: "booleanCoerce (JStr ''true'') = Some True" "booleanCoerce (JBool b) = Some b"
  by (code_simp, simp add: booleanCoerce_def)

definition extracted_tls :: "tls_config \<Rightarrow> (string \<times> json) list" where
  "extracted_tls t = (''enabled'', JStr ''true'') #
     (case tls_certPath t of None \<Rightarrow> [] | Some p \<Rightarrow> [(''certPath'', JStr p)]) @
     (case tls_keyPath t of None \<Rightarrow> [] | Some p \<Rightarrow> [(''keyPath'', JStr p)])"

lemma extracted_server_vars:
  "env_section (all_pairs c) server_vars =
     [(''host'', JStr (sv_host (cf_server c))), (''port'', JStr (js_show_int (sv_port (cf_server c)))),
      (''grpcPort'', JStr (js_show_int (sv_grpcPort (cf_server c)))),
      (''dynamicPort'', JStr (js_show_bool (sv_dynamicPort (cf_server c))))]"
  by (simp add: server_vars_def env_section_def assignIfDefined_def)

lemma extracted_tls_vars:
  "env_section (all_pairs c) tls_vars = (if tls_enabled (sv_tls (cf_server c)) then extracted_tls (sv_tls (cf_server c)) else [])"
proof (cases "tls_enabled (sv_tls (cf_server c))")
  case True
  note on = export_set_tls [of c, simplified if_P [OF True]]
  show ?thesis
    by (cases "tls_certPath (sv_tls (cf_server c))"; cases "tls_keyPath (sv_tls (cf_server c))")
      (simp_all add: True on tls_vars_def env_section_def assignIfDefined_def unset extracted_tls_def)
next
  case False
  note off = export_set_tls [of c, simplified if_not_P [OF False]]
  show ?thesis by (simp add: False off tls_vars_def env_section_def assignIfDefined_def unset)
qed

lemma extracted_server:
  "extractServerEnv (all_pairs c) =
     [(''host'', JStr (sv_host (cf_server c))), (''port'', JStr (js_show_int (sv_port (cf_server c)))),
      (''grpcPort'', JStr (js_show_int (sv_grpcPort (cf_server c)))),
      (''dynamicPort'', JStr (js_show_bool (sv_dynamicPort (cf_server c))))] @
     (if tls_enabled (sv_tls (cf_server c)) then [(''tls'', JObj (extracted_tls (sv_tls (cf_server c))))] else [])"
  by (simp add: extractServerEnv_def Let_def extracted_server_vars extracted_tls_vars) (simp add: extracted_tls_def)

lemma extracted_storage:
  "extractStorageEnv (all_pairs c) =
     [(''dataDir'', JStr (st_dataDir (cf_storage c))), (''stagingRootPath'', JStr (st_stagingRootPath (cf_storage c))),
      (''doltReposRootPath'', JStr (st_doltReposRootPath (cf_storage c))), (''nasSimPath'', JStr (st_nasSimPath (cf_storage c)))]"
  by (simp add: extractStorageEnv_def storage_vars_def read_simps)

lemma extracted_database:
  "extractDatabaseEnv (all_pairs c) =
     [(''userDbPath'', JStr (db_userDbPath (cf_database c))), (''repoDbPath'', JStr (db_repoDbPath (cf_database c))),
      (''ticketDbPath'', JStr (db_ticketDbPath (cf_database c))), (''transferJobDbPath'', JStr (db_transferJobDbPath (cf_database c))),
      (''addonTrustDbPath'', JStr (db_addonTrustDbPath (cf_database c))), (''sessionDbPath'', JStr (db_sessionDbPath (cf_database c)))]"
  by (simp add: extractDatabaseEnv_def database_vars_def read_simps)

lemma extracted_logging:
  "extractLoggingEnv (all_pairs c) =
     [(''level'', JStr (lg_level (cf_logging c))), (''pretty'', JStr (js_show_bool (lg_pretty (cf_logging c))))]"
  by (simp add: extractLoggingEnv_def logging_vars_def read_simps)

lemmas text_backs = text_back text_back [OF not_sym]

lemma section_of_merge:
  assumes "map_of (plain_env_config env) n = Some (JObj fs)" and "map_of DEFAULT_CONFIG n = Some (JObj d)"
  shows "map_of (deepMerge DEFAULT_CONFIG (plain_env_config env)) n = Some (JObj (deepMerge d fs))"
  using assms jwf_plain_env_config [of env] by (simp add: deepMerge_lookup merge_value_def)

lemma plain_sections:
  "map_of (plain_env_config (all_pairs c)) ''server'' = Some (JObj (extractServerEnv (all_pairs c)))"
  "map_of (plain_env_config (all_pairs c)) ''storage'' = Some (JObj (extractStorageEnv (all_pairs c)))"
  "map_of (plain_env_config (all_pairs c)) ''database'' = Some (JObj (extractDatabaseEnv (all_pairs c)))"
  "map_of (plain_env_config (all_pairs c)) ''logging'' = Some (JObj (extractLoggingEnv (all_pairs c)))"
  by (simp_all only: plain_env_lookup extracted_server extracted_storage extracted_database extracted_logging append_Cons
      list.simps if_True simp_thms)

lemma default_sections:
  "map_of DEFAULT_CONFIG ''server'' = Some (JObj [(''host'', JStr ''0.0.0.0''), (''port'', JNum 9090), (''grpcPort'', JNum 50051),
         (''dynamicPort'', JBool False),
         (''tls'', JObj [(''enabled'', JBool False), (''autoGenerate'', JBool False)])])"
  "map_of DEFAULT_CONFIG ''storage'' = Some (JObj [(''dataDir'', JStr ''./data''), (''stagingRootPath'', JStr ''./data/staging''),
         (''doltReposRootPath'', JStr ''./data/dolt-repos''), (''nasSimPath'', JStr ''./data/nas-sim'')])"
  "map_of DEFAULT_CONFIG ''database'' = Some (JObj [(''userDbPath'', JStr ''./data/users.db''), (''repoDbPath'', JStr ''./data/repos.db''),
         (''ticketDbPath'', JStr ''./data/transfer-tickets.db''),
         (''transferJobDbPath'', JStr ''./data/transfer-jobs.db''),
         (''addonTrustDbPath'', JStr ''./data/addon-trust.db''), (''sessionDbPath'', JStr ''./data/sessions.db'')])"
  "map_of DEFAULT_CONFIG ''logging'' = Some (JObj [(''level'', JStr ''info''), (''pretty'', JBool False)])"
  "map_of DEFAULT_CONFIG ''auth'' = Some (JObj [(''sessionTtlSeconds'', JNum 120), (''accessTokenTtlSeconds'', JNum 900),
         (''corsAllowedOrigins'', JArr []), (''adminUiEnabled'', JBool False)])"
  by (simp_all add: DEFAULT_CONFIG_def)

lemma restored_storage:
  assumes "paths_ok (cf_storage c) (cf_database c)"
  shows "z_object storageConfigSchema (map_of (deepMerge DEFAULT_CONFIG (plain_env_config (all_pairs c))) ''storage'') = Some (cf_storage c)"
  unfolding section_of_merge [OF plain_sections(2) default_sections(2)]
  using assms by (simp add: z_object_def storageConfigSchema_def extracted_storage z_field_def text_backs paths_ok_def)

lemma restored_database:
  assumes "paths_ok (cf_storage c) (cf_database c)"
  shows "z_object databaseConfigSchema (map_of (deepMerge DEFAULT_CONFIG (plain_env_config (all_pairs c))) ''database'') = Some (cf_database c)"
  unfolding section_of_merge [OF plain_sections(3) default_sections(3)]
  using assms by (simp add: z_object_def databaseConfigSchema_def extracted_database z_field_def text_backs paths_ok_def)

lemma restored_logging:
  assumes "lg_level (cf_logging c) \<in> set LOG_LEVELS"
  shows "z_object loggingConfigSchema (map_of (deepMerge DEFAULT_CONFIG (plain_env_config (all_pairs c))) ''logging'') = Some (cf_logging c)"
  unfolding section_of_merge [OF plain_sections(4) default_sections(4)]
  using assms by (simp add: z_object_def loggingConfigSchema_def extracted_logging z_field_def enum_back)

lemma restored_server:
  assumes "server_ok (cf_server c)"
  shows "z_object serverConfigSchema (map_of (deepMerge DEFAULT_CONFIG (plain_env_config (all_pairs c))) ''server'') =
    Some (cf_server (reloaded c))"
proof -
  let ?t = "sv_tls (cf_server c)"
  have t: "z_object tlsConfigSchema (Some (JObj (deepMerge [(''enabled'', JBool False), (''autoGenerate'', JBool False)] (extracted_tls ?t)))) =
     Some (?t\<lparr>tls_enabled := True, tls_autoGenerate := False\<rparr>)"
    using assms
    by (cases "tls_certPath ?t"; cases "tls_keyPath ?t")
      (simp_all add: z_object_def tlsConfigSchema_def extracted_tls_def z_field_def z_opt_def text_backs switch_back server_ok_def)
  have off: "z_object tlsConfigSchema (Some (JObj [(''enabled'', JBool False), (''autoGenerate'', JBool False)])) = Some no_tls"
    by (simp add: z_object_def tlsConfigSchema_def z_field_def z_opt_def switch_back no_tls_def)
  show ?thesis
    unfolding section_of_merge [OF plain_sections(1) default_sections(1)]
    using assms t off
    by (cases "tls_enabled ?t")
      (simp_all add: z_object_def [of serverConfigSchema] serverConfigSchema_def extracted_server z_field_def text_backs port_back server_ok_def
        switch_back reloaded_def Let_def deepMerge_lookup merge_value_def del: deepMerge.simps)
qed

definition text_field :: "string \<Rightarrow> string option \<Rightarrow> (string \<times> json) list" where
  "text_field k v = (case v of None \<Rightarrow> [] | Some p \<Rightarrow> [(k, JStr p)])"

lemma extracted_auth:
  assumes "auth_config_ok (cf_auth c)"
  shows "extractAuthEnv (all_pairs c) =
     [(''sessionTtlSeconds'', JStr (js_show_int (ac_sessionTtlSeconds (cf_auth c)))),
      (''accessTokenTtlSeconds'', JStr (js_show_int (ac_accessTokenTtlSeconds (cf_auth c)))),
      (''adminUiEnabled'', JStr (js_show_bool (ac_adminUiEnabled (cf_auth c))))] @
      text_field ''bootstrapAdminUsername'' (ac_bootstrapAdminUsername (cf_auth c)) @
      text_field ''bootstrapAdminPassword'' (ac_bootstrapAdminPassword (cf_auth c))"
  by (cases "ac_bootstrapAdminUsername (cf_auth c)"; cases "ac_bootstrapAdminPassword (cf_auth c)")
    (simp_all add: extractAuthEnv_def auth_vars_def read_simps export_set_bootstrap [OF assms] text_field_def)

lemma restored_auth:
  assumes "auth_config_ok (cf_auth c)" and "ac_sessionTtlSeconds (cf_auth c) \<le> MAX_SAFE_INTEGER"
    and "ac_accessTokenTtlSeconds (cf_auth c) \<le> MAX_SAFE_INTEGER"
  shows "z_object (authConfigSchema parse) (map_of (deepMerge DEFAULT_CONFIG (plain_env_config (all_pairs c))) ''auth'') =
    Some (cf_auth (reloaded c))"
proof -
  have "map_of (plain_env_config (all_pairs c)) ''auth'' = Some (JObj (extractAuthEnv (all_pairs c)))"
    unfolding plain_env_lookup extracted_auth [OF assms(1)] by simp
  note m = section_of_merge [OF this default_sections(5)]
  have o: "stringArrayCoerce parse (JArr []) = Some []" by (simp add: stringArrayCoerce_def z_texts_def)
  show ?thesis
    unfolding m extracted_auth [OF assms(1)]
    using assms o
    by (cases "ac_bootstrapAdminUsername (cf_auth c)"; cases "ac_bootstrapAdminPassword (cf_auth c)")
      (simp_all add: z_object_def authConfigSchema_def z_field_def z_opt_def text_backs positive_back auth_config_ok_def
        text_field_def reloaded_def Let_def)
qed

text \<open>
  C17. An unredacted export to an environment file, read back line by line into an empty environment and loaded where
  no configuration file is found, gives the configuration that was exported but for what the file does
  not hold: the two JWT keys and their paths are unset, the allowed origins are empty, \<open>autoGenerate\<close> is off
  also where TLS is on, and of a TLS section that is off the paths are gone too. It holds for every
  configuration that the schema accepts, with lifetimes that are safe integers, whose exported values
  fit on a line: no line break, no white space around them, no enclosing quotes.
\<close>

theorem exported_config_restored:
  assumes "auth_config_ok (cf_auth c)" and "server_ok (cf_server c)" and "paths_ok (cf_storage c) (cf_database c)"
    and "lg_level (cf_logging c) \<in> set LOG_LEVELS" and "cf_environment c \<in> set [''development'', ''production'', ''test'']"
    and "ac_sessionTtlSeconds (cf_auth c) \<le> MAX_SAFE_INTEGER" and "ac_accessTokenTtlSeconds (cf_auth c) \<le> MAX_SAFE_INTEGER"
    and "exportable c" and "NL \<notin> set (he_now H)"
    and "\<not> cw_exists W ''./config.json''" and "\<not> cw_exists W ''./config.local.json''"
  shows "loadConfig W \<lparr>lo_configPath = None, lo_env = add_env_lines (js_split NL (export_text H True FormatEnv c)) [],
       lo_overrides = None\<rparr> cached = (Inr (reloaded c), Some (reloaded c))"
proof -
  let ?opts = "\<lparr>lo_configPath = None, lo_env = all_pairs c, lo_overrides = None\<rparr>"
  let ?m = "deepMerge DEFAULT_CONFIG (plain_env_config (all_pairs c))"
  have env: "add_env_lines (js_split NL (export_text H True FormatEnv c)) [] = all_pairs c"
    using exported_file_read_back [OF assms(1,2,8,9)] by (simp add: export_text_def)
  have "candidatePaths ?opts = [''./config.json'', ''./config.local.json'']"
    by (simp add: candidatePaths_def unset)
  with assms(10,11) have "file_config W ?opts = Inr []" by (simp add: file_config_def)
  then have merged: "mergedConfig W ?opts = Inr ?m"
    by (simp add: mergedConfig_def all_pairs_no_dunder overrides_of_def)
  have "map_of ?m ''environment'' = Some (JStr (cf_environment c))"
    using jwf_plain_env_config [of "all_pairs c"] by (simp add: deepMerge_lookup plain_env_lookup merge_value_def DEFAULT_CONFIG_def)
  then have "appConfigSchema (cw_parse W) (JObj ?m) = Some (reloaded c)"
    using restored_server [OF assms(2)] restored_storage [OF assms(3)] restored_database [OF assms(3)]
      restored_logging [OF assms(4)] restored_auth [OF assms(1,6,7)] assms(5)
    by (simp add: appConfigSchema_def z_field_def enum_back reloaded_def Let_def del: deepMerge.simps)
  with merged show ?thesis unfolding env by (simp add: loadConfig_def)
qed

definition sample_exported :: app_config where
  "sample_exported =
     \<lparr>cf_environment = ''production'',
      cf_server = \<lparr>sv_host = ''10.0.0.5'', sv_port = 8443, sv_grpcPort = 50051, sv_dynamicPort = True,
        sv_tls = \<lparr>tls_enabled = True, tls_certPath = Some ''/c.pem'', tls_keyPath = Some ''/k.pem'', tls_autoGenerate = True\<rparr>\<rparr>,
      cf_storage = \<lparr>st_dataDir = ''/d'', st_stagingRootPath = ''/d/s'', st_doltReposRootPath = ''/d/r'', st_nasSimPath = ''/d/n''\<rparr>,
      cf_database = \<lparr>db_userDbPath = ''/d/u'', db_repoDbPath = ''/d/p'', db_ticketDbPath = ''/d/t'', db_transferJobDbPath = ''/d/j'',
        db_addonTrustDbPath = ''/d/a'', db_sessionDbPath = ''/d/q''\<rparr>,
      cf_auth = \<lparr>ac_jwtPrivateKey = Some ''key'', ac_jwtPublicKey = None, ac_jwtPrivateKeyPath = None, ac_jwtPublicKeyPath = None,
        ac_sessionTtlSeconds = 120, ac_accessTokenTtlSeconds = 900, ac_corsAllowedOrigins = [''https://a''], ac_adminUiEnabled = True,
        ac_bootstrapAdminUsername = Some ''root'', ac_bootstrapAdminPassword = Some ''a=b #c''\<rparr>,
      cf_logging = \<lparr>lg_level = ''info'', lg_pretty = False\<rparr>\<rparr>"

theorem exported_config_restored_witness:
  "\<exists>W H. loadConfig W \<lparr>lo_configPath = None, lo_env = add_env_lines (js_split NL (export_text H True FormatEnv sample_exported)) [],
       lo_overrides = None\<rparr> None = (Inr (reloaded sample_exported), Some (reloaded sample_exported)) \<and>
     ac_bootstrapAdminPassword (cf_auth (reloaded sample_exported)) = Some ''a=b #c'' \<and>
     ac_jwtPrivateKey (cf_auth (reloaded sample_exported)) = None"
proof -
  define W where "W = sample_config_world\<lparr>cw_exists := (\<lambda>p. False)\<rparr>"
  define H where "H = sample_host\<lparr>he_now := ''2026''\<rparr>"
  have ok: "auth_config_ok (cf_auth sample_exported)" "server_ok (cf_server sample_exported)"
    "paths_ok (cf_storage sample_exported) (cf_database sample_exported)"
    "lg_level (cf_logging sample_exported) \<in> set LOG_LEVELS"
    "cf_environment sample_exported \<in> set [''development'', ''production'', ''test'']"
    "ac_sessionTtlSeconds (cf_auth sample_exported) \<le> MAX_SAFE_INTEGER"
    "ac_accessTokenTtlSeconds (cf_auth sample_exported) \<le> MAX_SAFE_INTEGER"
    by (simp_all add: sample_exported_def auth_config_ok_def server_ok_def paths_ok_def LOG_LEVELS_def MAX_SAFE_INTEGER_def)
  have e: "exportable sample_exported" unfolding exportable_def by code_simp
  have n: "NL \<notin> set (he_now H)" by (simp add: H_def NL_def)
  have f: "\<not> cw_exists W ''./config.json''" "\<not> cw_exists W ''./config.local.json''" by (simp_all add: W_def)
  from exported_config_restored [OF ok e n f, of None] show ?thesis
    by (intro exI conjI) (assumption, simp_all add: reloaded_def sample_exported_def)
qed

end
