(* ===== verification/ServerEdge.thy ===== *)
theory ServerEdge
  imports AuthRouter ConfigSchema
begin

text \<open>
  The edge of the HTTP server: \<open>src/shared/security-middleware.ts\<close> (CORS allow-list and hardening
  headers), the pages of \<open>src/contexts/admin-ui/admin-ui.router.ts\<close>, the routes that
  \<open>src/index.ts\<close> mounts and the port it listens on, the root logger's settings
  (\<open>src/shared/logger.ts\<close>) and the build information (\<open>src/shared/build-info.ts\<close>). Hono's
  \<open>cors\<close> sets its header when the allow-list returns a text; header maps are association lists with
  names in lower case. Preflight requests are answered by \<open>cors\<close> itself, before the second
  middleware, and are not modelled.
\<close>

section \<open>Headers of every response\<close>

text \<open>
  The allow-list of the CORS middleware: the origin is echoed exactly when it is listed. The second
  middleware sets four headers on the way out, replacing what the route set.
\<close>

definition cors_origin :: "string list \<Rightarrow> string \<Rightarrow> string option" where
  "cors_origin allowedOrigins origin = find (\<lambda>allowed. allowed = origin) allowedOrigins"

definition cors_headers :: "string list \<Rightarrow> string \<Rightarrow> (string \<times> string) list" where
  "cors_headers allowedOrigins origin =
     (case cors_origin allowedOrigins origin of None \<Rightarrow> [] | Some a \<Rightarrow> [(''access-control-allow-origin'', a)])"

definition NO_CACHE :: string where
  "NO_CACHE = ''no-store, no-cache, must-revalidate''"

definition harden :: "(string \<times> string) list \<Rightarrow> (string \<times> string) list" where
  "harden hs =
     AList.update ''cache-control'' NO_CACHE (AList.update ''referrer-policy'' ''no-referrer''
       (AList.update ''x-frame-options'' ''DENY'' (AList.update ''x-content-type-options'' ''nosniff'' hs)))"

definition applySecurityMiddleware :: "string list \<Rightarrow> string \<Rightarrow> (string \<times> string) list \<Rightarrow> (string \<times> string) list" where
  "applySecurityMiddleware allowedOrigins origin route_headers = harden (cors_headers allowedOrigins origin @ route_headers)"

section \<open>Pages of the admin interface\<close>

datatype admin_page = LoginPage | SetupPage | AppScript | VendorAsset string | NoPage

record page_reply =
  ap_status :: int
  ap_page :: admin_page
  ap_headers :: "(string \<times> string) list"

definition csp_keyword :: "string \<Rightarrow> string" where
  "csp_keyword w = [CHR 0x27] @ w @ [CHR 0x27]"

definition CONTENT_SECURITY_POLICY :: string where
  "CONTENT_SECURITY_POLICY =
     (let self = csp_keyword ''self''
      in js_join ''; ''
           [''default-src '' @ self, ''script-src '' @ self, ''style-src '' @ self @ '' '' @ csp_keyword ''unsafe-inline'',
            ''connect-src '' @ self, ''img-src '' @ self @ '' data:'', ''frame-ancestors '' @ csp_keyword ''none''])"

definition page_headers :: "(string \<times> string) list" where
  "page_headers = [(''content-security-policy'', CONTENT_SECURITY_POLICY), (''cache-control'', NO_CACHE), (''pragma'', ''no-cache'')]"

definition vendor_files :: "string list" where
  "vendor_files = [''tailwind.css'', ''driver.css'', ''driver.iife.js'']"

text \<open>The path below \<open>/admin\<close>, in its parts.\<close>

definition admin_get :: "('u, 's) auth_env \<Rightarrow> ('u, 's) auth_state \<Rightarrow> string list \<Rightarrow> page_reply" where
  "admin_get E s path =
     (let eligible = st_eligible (auth_getSetupStatus E s);
          answer = (\<lambda>status p. \<lparr>ap_status = status, ap_page = p, ap_headers = page_headers\<rparr>);
          missing = \<lparr>ap_status = 404, ap_page = NoPage, ap_headers = []\<rparr>
      in case path of
           [] \<Rightarrow> answer 200 (if eligible then SetupPage else LoginPage)
         | [p] \<Rightarrow>
             if p = ''setup'' then (if eligible then answer 200 SetupPage else answer 404 LoginPage)
             else if p = ''users'' then answer 200 LoginPage
             else if p = ''app.js'' then answer 200 AppScript
             else missing
         | [v, f] \<Rightarrow>
             if v = ''vendor'' then (if f \<in> set vendor_files then answer 200 (VendorAsset f) else answer 404 NoPage) else missing
         | _ \<Rightarrow> missing)"

section \<open>Routes and port of the server\<close>

datatype router = StatusRoute | AuthRoutes | TransferRoutes | StorageRoutes | AddonRoutes | VersioningRoutes | AdminRoutes | CertificateRoutes

definition httpTlsEnabled :: "env \<Rightarrow> bool" where
  "httpTlsEnabled e \<longleftrightarrow>
     DELTIX_HTTP_TLS_CERT_PATH e \<noteq> None \<and> DELTIX_HTTP_TLS_CERT_PATH e \<noteq> Some [] \<and>
     DELTIX_HTTP_TLS_KEY_PATH e \<noteq> None \<and> DELTIX_HTTP_TLS_KEY_PATH e \<noteq> Some []"

definition mounted :: "env \<Rightarrow> (string \<times> router) list" where
  "mounted e =
     [(''/status'', StatusRoute), (''/api/v1/auth'', AuthRoutes), (''/api/v1'', TransferRoutes), (''/api/v1/storage'', StorageRoutes),
      (''/api/v1/addons'', AddonRoutes), (''/api/v1/versioning'', VersioningRoutes)] @
     (if DELTIX_ADMIN_UI_ENABLED e then [(''/admin'', AdminRoutes)] else []) @
     (if DELTIX_CERT_BOOTSTRAP_ENABLED e then [(''/api/v1/bootstrap'', CertificateRoutes)] else [])"

text \<open>The port the server listens on comes from its own variable, read without a schema.\<close>

definition httpPort :: "env_vars \<Rightarrow> int option" where
  "httpPort vars = (case map_of vars ''HTTP_PORT'' of None \<Rightarrow> Some 9090 | Some t \<Rightarrow> js_Number t)"

section \<open>Logger and build information\<close>

definition booleanFromEnv :: "bool \<Rightarrow> string option \<Rightarrow> bool" where
  "booleanFromEnv defaultValue v =
     (case v of Some s \<Rightarrow> js_toLowerCase s \<in> set [''true'', ''1'', ''yes''] | None \<Rightarrow> defaultValue)"

definition loggerEnvSchema :: "env_vars \<Rightarrow> (string \<times> bool) option" where
  "loggerEnvSchema vars =
     (let pretty = booleanFromEnv False (map_of vars ''LOG_PRETTY'')
      in case map_of vars ''LOG_LEVEL'' of
           None \<Rightarrow> Some (''info'', pretty)
         | Some l \<Rightarrow> if l \<in> set [''trace'', ''debug'', ''info'', ''warn'', ''error'', ''fatal''] then Some (l, pretty) else None)"

text \<open>\<open>getRootLogger\<close>: the first call decides, and one that throws leaves no logger.\<close>

definition getRootLogger :: "env_vars \<Rightarrow> ((string \<times> bool) option, unit, string \<times> bool) op" where
  "getRootLogger vars rootLogger =
     (case rootLogger of
        Some l \<Rightarrow> (Inr l, rootLogger)
      | None \<Rightarrow> (case loggerEnvSchema vars of None \<Rightarrow> (Inl (), None) | Some l \<Rightarrow> (Inr l, Some l)))"

record build_info =
  bi_version :: string
  bi_commit :: string
  bi_nodeEnv :: string

text \<open>
  What \<open>git rev-parse\<close> prints is an argument, \<open>None\<close> if it fails; the answer of \<open>getBuildInfo\<close> is
  also what stays in the cache.
\<close>

definition resolveCommit :: "env_vars \<Rightarrow> string option \<Rightarrow> string" where
  "resolveCommit vars git =
     (case map_of vars ''DELTIX_BUILD_COMMIT'' of
        Some (c # cs) \<Rightarrow> c # cs
      | _ \<Rightarrow> (case git of None \<Rightarrow> ''unknown'' | Some out \<Rightarrow> if js_trim out = [] then ''unknown'' else js_trim out))"

definition getBuildInfo :: "string \<Rightarrow> env_vars \<Rightarrow> string option \<Rightarrow> build_info option \<Rightarrow> build_info" where
  "getBuildInfo version vars git cached =
     (case cached of
        Some i \<Rightarrow> i
      | None \<Rightarrow>
          \<lparr>bi_version = version, bi_commit = resolveCommit vars git,
           bi_nodeEnv = (case map_of vars ''NODE_ENV'' of None \<Rightarrow> ''development'' | Some n \<Rightarrow> n)\<rparr>)"

section \<open>What they promise\<close>

lemma cors_origin_iff: "cors_origin allowed origin = (if origin \<in> set allowed then Some origin else None)"
proof -
  have "cors_origin allowed origin = Some a \<Longrightarrow> a = origin \<and> origin \<in> set allowed" for a
    by (auto simp: cors_origin_def find_Some_iff)
  moreover have "cors_origin allowed origin = None \<longleftrightarrow> origin \<notin> set allowed"
    by (auto simp: cors_origin_def find_None_iff)
  ultimately show ?thesis by (cases "cors_origin allowed origin") auto
qed

lemma origins_read:
  assumes "envSchema parse vars = Some e" and "map_of vars ''DELTIX_CORS_ALLOWED_ORIGINS'' = Some raw"
  shows "DELTIX_CORS_ALLOWED_ORIGINS e = split_origins raw"
proof -
  from assms(1) have f: "envFields parse vars = Some e" by (auto simp: envSchema_def split: option.splits if_splits)
  have "\<exists>o'. z_default [] (map_of vars ''DELTIX_CORS_ALLOWED_ORIGINS'') = Some o' \<and> DELTIX_CORS_ALLOWED_ORIGINS e = split_origins o'"
    using f unfolding envFields_def Let_def Option.bind_eq_Some_conv option.inject
    by (elim exE conjE, hypsubst, unfold env.select_convs, intro exI conjI) (assumption | rule refl)+
  then show ?thesis by (simp add: assms(2) z_default_def)
qed

text \<open>
  On every response of a route, whatever headers the route set, the origin of another site is allowed exactly
  when it is one of the configured origins, where white space and empty entries of the setting do not
  count, framing and sniffing are forbidden and nothing is cached.
\<close>

theorem response_headers_exact:
  assumes "map_of route_headers ''access-control-allow-origin'' = None"
    and "map_of vars ''DELTIX_CORS_ALLOWED_ORIGINS'' = Some raw" and "envSchema parse vars = Some e"
    and "hs = applySecurityMiddleware (DELTIX_CORS_ALLOWED_ORIGINS e) origin route_headers"
  shows "map_of hs ''access-control-allow-origin'' =
       (if origin \<noteq> [] \<and> origin \<in> set (map js_trim (js_split (CHR '','') raw)) then Some origin else None) \<and>
     map_of hs ''x-frame-options'' = Some ''DENY'' \<and> map_of hs ''x-content-type-options'' = Some ''nosniff'' \<and>
     map_of hs ''cache-control'' = Some NO_CACHE"
proof -
  have "DELTIX_CORS_ALLOWED_ORIGINS e = split_origins raw"
    by (rule origins_read [OF assms(3,2)])
  then have "set (DELTIX_CORS_ALLOWED_ORIGINS e) = {o'. o' \<noteq> [] \<and> o' \<in> set (map js_trim (js_split (CHR '','') raw))}"
    by (auto simp: split_origins_def)
  with assms(1,4) show ?thesis
    by (simp add: applySecurityMiddleware_def harden_def update_conv cors_headers_def cors_origin_iff)
qed

theorem response_headers_exact_witness:
  "\<exists>e. envSchema (\<lambda>_. None) sample_env = Some e \<and>
     map_of (applySecurityMiddleware (DELTIX_CORS_ALLOWED_ORIGINS e) ''https://b'' page_headers) ''access-control-allow-origin'' =
       Some ''https://b'' \<and>
     map_of (applySecurityMiddleware (DELTIX_CORS_ALLOWED_ORIGINS e) ''https://c'' page_headers) ''access-control-allow-origin'' = None"
proof -
  obtain e where e: "envSchema (\<lambda>_. None) sample_env = Some e" using sample_env_accepted(1) by blast
  have h: "map_of page_headers ''access-control-allow-origin'' = None" by (simp add: page_headers_def)
  have raw: "map_of sample_env ''DELTIX_CORS_ALLOWED_ORIGINS'' = Some '' https://a , https://b,,''" by (simp add: sample_env_def)
  have "''https://b'' \<in> set (map js_trim (js_split (CHR '','') '' https://a , https://b,,''))"
    "''https://c'' \<notin> set (map js_trim (js_split (CHR '','') '' https://a , https://b,,''))"
    by code_simp+
  with response_headers_exact [OF h raw e refl, of "''https://b''"] response_headers_exact [OF h raw e refl, of "''https://c''"] e
  show ?thesis by auto
qed

text \<open>
  The form that creates the first administrator is served exactly while there is none, at both of its
  paths; no reply of the pages may be framed or load a script of another origin.
\<close>

lemma setup_page_while_eligible:
  "ap_page (admin_get E s path) = SetupPage \<longleftrightarrow> st_eligible (auth_getSetupStatus E s) \<and> path \<in> set [[], [''setup'']]"
  by (auto simp: admin_get_def Let_def split: list.splits)

lemma page_replies_guarded:
  "ap_page (admin_get E s path) \<noteq> NoPage \<Longrightarrow>
     map_of (ap_headers (admin_get E s path)) ''content-security-policy'' = Some CONTENT_SECURITY_POLICY"
  by (auto simp: admin_get_def Let_def page_headers_def split: list.splits if_splits)

text \<open>
  The server listens on \<open>HTTP_PORT\<close> alone: the variables from which the layered configuration takes the
  port, and which the installer writes, do not move it.
\<close>

lemma configured_port_not_used:
  "httpPort [(''APP_PORT'', p), (''APP_SERVER_PORT'', p), (''DELTIX_HTTP_PORT'', p)] = Some 9090"
  by (simp add: httpPort_def)

text \<open>The level \<open>silent\<close> is one the configuration accepts and the logger refuses, at every call.\<close>

lemma silent_level_refused:
  "''silent'' \<in> set LOG_LEVELS \<and>
   getRootLogger [(''LOG_LEVEL'', ''silent'')] None = (Inl (), None)"
  by (simp add: LOG_LEVELS_def getRootLogger_def loggerEnvSchema_def)

lemma logger_settled:
  assumes "getRootLogger vars c = (Inr l, c')"
  shows "getRootLogger vars' c' = (Inr l, c')"
proof -
  from assms have "c' = Some l" by (cases c; cases "loggerEnvSchema vars") (auto simp: getRootLogger_def)
  then show ?thesis by (simp add: getRootLogger_def)
qed

end
