(* ===== verification/WebText.thy ===== *)
theory WebText
  imports Prelude
begin

text \<open>
  The text functions of the admin pages (\<open>contexts/admin-ui/assets/app.js\<close>): \<open>escapeHtml\<close> and \<open>encodeURIComponent\<close> of the
  language, with the readers on the other side, the browser for HTML and addresses and the server for
  parts of a path.
\<close>

section \<open>Text in pages\<close>

text \<open>\<open>replace(/c/g, rep)\<close> for one character.\<close>

definition replace_all :: "char \<Rightarrow> string \<Rightarrow> string \<Rightarrow> string" where
  "replace_all c rep s = concat (map (\<lambda>x. if x = c then rep else [x]) s)"

definition escapeHtml :: "string \<Rightarrow> string" where
  "escapeHtml s =
     replace_all (CHR 0x27) ''&#039;'' (replace_all (CHR 0x22) ''&quot;''
       (replace_all (CHR ''>'') ''&gt;'' (replace_all (CHR ''<'') ''&lt;'' (replace_all (CHR ''&'') ''&amp;'' s))))"

text \<open>How a browser reads the five character references; any other text stands for itself.\<close>

definition html_refs :: "(string \<times> char) list" where
  "html_refs = [(''&amp;'', CHR ''&''), (''&lt;'', CHR ''<''), (''&gt;'', CHR ''>''), (''&quot;'', CHR 0x22), (''&#039;'', CHR 0x27)]"

definition html_ref_at :: "string \<Rightarrow> (string \<times> char) option" where
  "html_ref_at s = find (\<lambda>(r, c). js_startsWith s r) html_refs"

lemma html_ref_at_nonempty: "html_ref_at s = Some (r, c) \<Longrightarrow> r \<noteq> []"
  by (auto simp: html_ref_at_def html_refs_def split: if_splits)

function html_text :: "string \<Rightarrow> string" where
  "html_text [] = []"
| "html_text (x # s) =
     (case html_ref_at (x # s) of
        None \<Rightarrow> x # html_text s
      | Some (r, c) \<Rightarrow> c # html_text (drop (length r) (x # s)))"
  by pat_completeness auto
termination
  by (relation "measure length") (auto dest: html_ref_at_nonempty)

definition escape_char :: "char \<Rightarrow> string" where
  "escape_char x =
     (if x = CHR ''&'' then ''&amp;'' else if x = CHR ''<'' then ''&lt;'' else if x = CHR ''>'' then ''&gt;''
      else if x = CHR 0x22 then ''&quot;'' else if x = CHR 0x27 then ''&#039;'' else [x])"

lemma replace_all_append: "replace_all c r (s @ t) = replace_all c r s @ replace_all c r t"
  by (simp add: replace_all_def)

lemma escapeHtml_chars: "escapeHtml s = concat (map escape_char s)"
proof (induction s)
  case (Cons x s)
  have "escapeHtml [x] = escape_char x"
    by (simp add: escapeHtml_def escape_char_def replace_all_def)
  moreover have "escapeHtml (x # s) = escapeHtml [x] @ escapeHtml s"
    using replace_all_append [of _ _ "[x]" s] by (simp add: escapeHtml_def replace_all_append)
  ultimately show ?case using Cons by simp
qed (simp add: escapeHtml_def replace_all_def)

lemma html_ref_plain: "x \<noteq> CHR ''&'' \<Longrightarrow> html_ref_at (x # s) = None"
  by (simp add: html_ref_at_def html_refs_def js_startsWith_def)

lemma html_text_escaped: "html_text (escape_char x @ s) = x # html_text s"
  by (simp add: escape_char_def html_ref_plain html_ref_at_def html_refs_def js_startsWith_def)

text \<open>
  C22. Text that the admin pages put into their HTML through \<open>escapeHtml\<close> is inert: it has no
  character that could open a tag or close an attribute, an attribute value in double quotes ends
  where the page ends it, and the browser shows exactly the original text.
\<close>

theorem escaped_text_inert:
  "html_text (escapeHtml s) = s \<and>
   set (escapeHtml s) \<inter> {CHR ''<'', CHR ''>'', CHR 0x22, CHR 0x27} = {} \<and>
   takeWhile (\<lambda>c. c \<noteq> CHR 0x22) (escapeHtml s @ CHR 0x22 # rest) = escapeHtml s"
proof -
  have "html_text (escapeHtml s) = s"
    by (induction s) (simp_all add: escapeHtml_chars html_text_escaped)
  moreover have inert: "set (escapeHtml s) \<inter> {CHR ''<'', CHR ''>'', CHR 0x22, CHR 0x27} = {}"
    by (auto simp: escapeHtml_chars escape_char_def split: if_splits)
  moreover have "takeWhile (\<lambda>c. c \<noteq> CHR 0x22) (escapeHtml s @ CHR 0x22 # rest) = escapeHtml s"
    using inert by (auto simp: takeWhile_append)
  ultimately show ?thesis by blast
qed

section \<open>Parts of an address\<close>

definition unreserved :: "char \<Rightarrow> bool" where
  "unreserved c \<longleftrightarrow> is_alnum c \<or> c \<in> set ''-_.!~*()'' \<or> c = CHR 0x27"

definition hex_digit :: "nat \<Rightarrow> char" where
  "hex_digit n = (if n < 10 then char_of (48 + n) else char_of (55 + n))"

definition percent :: "nat \<Rightarrow> string" where
  "percent b = [CHR ''%'', hex_digit (b div 16), hex_digit (b mod 16)]"

text \<open>The bytes of UTF-8 of a code unit below 256.\<close>

definition utf8_bytes :: "char \<Rightarrow> nat list" where
  "utf8_bytes c = (let n = of_char c in if n < 128 then [n] else [192 + n div 64, 128 + n mod 64])"

definition encode_unit :: "char \<Rightarrow> string" where
  "encode_unit c = (if unreserved c then [c] else concat (map percent (utf8_bytes c)))"

definition encodeURIComponent :: "string \<Rightarrow> string" where
  "encodeURIComponent s = concat (map encode_unit s)"

text \<open>What the server reads back from a part of the path.\<close>

definition hex_value :: "char \<Rightarrow> nat" where
  "hex_value c = (let n = of_char c in if n < 58 then n - 48 else if n < 97 then n - 55 else n - 87)"

definition percent_byte :: "string \<Rightarrow> nat" where
  "percent_byte s = 16 * hex_value (s ! 1) + hex_value (s ! 2)"

function decodeURIComponent :: "string \<Rightarrow> string" where
  "decodeURIComponent [] = []"
| "decodeURIComponent (x # s) =
     (if x \<noteq> CHR ''%'' then x # decodeURIComponent s
      else let b = percent_byte (x # s)
           in if b < 128 then char_of b # decodeURIComponent (drop 2 s)
              else char_of (64 * (b - 192) + (percent_byte (drop 2 s) - 128)) # decodeURIComponent (drop 5 s))"
  by pat_completeness auto
termination
  by (relation "measure length") auto

lemma hex_digit_value: "n < 16 \<Longrightarrow> hex_value (hex_digit n) = n"
  by (simp add: hex_value_def hex_digit_def Let_def of_char_of)

lemma percent_byte_percent: "b < 256 \<Longrightarrow> percent_byte (percent b @ s) = b"
  by (simp add: percent_byte_def percent_def hex_digit_value)

lemma decode_unit: "decodeURIComponent (encode_unit c @ s) = c # decodeURIComponent s"
proof -
  define n where "n = (of_char c :: nat)"
  have n: "n < 256" and c: "c = char_of n" by (simp_all add: n_def)
  consider "unreserved c" | "\<not> unreserved c" "n < 128" | "\<not> unreserved c" "128 \<le> n" by linarith
  then show ?thesis
  proof cases
    case 1
    then have "c \<noteq> CHR ''%''" by (auto simp: unreserved_def is_alnum_def is_alpha_def is_lower_def is_upper_def is_digit_def)
    with 1 show ?thesis by (simp add: encode_unit_def)
  next
    case 2
    then have e: "encode_unit c = percent n" by (simp add: encode_unit_def utf8_bytes_def n_def Let_def)
    have "percent_byte (percent n @ s) = n" using n by (rule percent_byte_percent)
    with 2 show ?thesis unfolding e by (simp add: percent_def c)
  next
    case 3
    define m k where "m = 192 + n div 64" and "k = 128 + n mod 64"
    have e: "encode_unit c = percent m @ percent k"
      using 3 by (simp add: encode_unit_def utf8_bytes_def n_def Let_def m_def k_def)
    have "m < 256" "k < 256" "\<not> m < 128" "64 * (m - 192) + (k - 128) = n" using n by (simp_all add: m_def k_def)
    moreover from this have "percent_byte (percent m @ percent k @ s) = m" "percent_byte (percent k @ s) = k"
      by (simp_all add: percent_byte_percent)
    ultimately show ?thesis unfolding e by (simp add: percent_def c)
  qed
qed

lemma decode_encoded: "decodeURIComponent (encodeURIComponent s) = s"
  by (induction s) (simp_all add: encodeURIComponent_def decode_unit)

section \<open>Paths\<close>

text \<open>
  How a browser splits the path of an address: the parts between the slashes, where a part of one
  dot is dropped and one of two dots also drops the part before it, written plainly or in percent form.
\<close>

definition single_dot :: "string \<Rightarrow> bool" where
  "single_dot s \<longleftrightarrow> s \<in> set [''.'', ''%2e'', ''%2E'']"

definition double_dot :: "string \<Rightarrow> bool" where
  "double_dot s \<longleftrightarrow> s \<in> set [''..'', ''.%2e'', ''.%2E'', ''%2e.'', ''%2E.'', ''%2e%2e'', ''%2e%2E'', ''%2E%2e'', ''%2E%2E'']"

fun resolve_dots :: "string list \<Rightarrow> string list \<Rightarrow> string list" where
  "resolve_dots out [] = rev out"
| "resolve_dots out (s # ss) =
     (if double_dot s then resolve_dots (if ss = [] then [] # tl out else tl out) ss
      else if single_dot s then resolve_dots (if ss = [] then [] # out else out) ss
      else resolve_dots (s # out) ss)"

definition path_parts :: "string \<Rightarrow> string list" where
  "path_parts path = resolve_dots [] (js_split (CHR ''/'') (drop 1 path))"

definition plain_part :: "string \<Rightarrow> bool" where
  "plain_part s \<longleftrightarrow> \<not> single_dot s \<and> \<not> double_dot s"

lemma resolve_plain: "\<forall>s \<in> set ss. plain_part s \<Longrightarrow> resolve_dots out ss = rev out @ ss"
  by (induction ss arbitrary: out) (auto simp: plain_part_def)

lemma encoded_chars: "c \<in> set (encode_unit x) \<Longrightarrow> c \<noteq> CHR ''/'' \<and> c \<noteq> CHR ''?'' \<and> c \<noteq> CHR ''#''"
proof (cases "unreserved x")
  case False
  have h: "hex_digit n \<noteq> CHR ''/'' \<and> hex_digit n \<noteq> CHR ''?'' \<and> hex_digit n \<noteq> CHR ''#''" if "n < 16" for n
  proof -
    have "(of_char (hex_digit n) :: nat) = (if n < 10 then 48 + n else 55 + n)"
      using that by (simp add: hex_digit_def of_char_of)
    then show ?thesis by (auto split: if_splits)
  qed
  have n: "(of_char x :: nat) < 256" by simp
  have "(of_char x :: nat) div 64 < 4" using n by (simp add: less_mult_imp_div_less)
  moreover have "(192 + k) div 16 < (16 :: nat)" if "k < 4" for k using that by presburger
  ultimately have "(192 + (of_char x :: nat) div 64) div 16 < 16" by blast
  note h2 = h [OF this]
  assume "c \<in> set (encode_unit x)"
  with False n h h2 show ?thesis
    by (auto simp: encode_unit_def utf8_bytes_def percent_def Let_def split: if_splits)
qed (auto simp: encode_unit_def unreserved_def is_alnum_def is_alpha_def is_lower_def is_upper_def is_digit_def)

lemma encoded_no_slash: "CHR ''/'' \<notin> set (encodeURIComponent s)"
  using encoded_chars by (auto simp: encodeURIComponent_def)

lemma encoded_plain:
  assumes "s \<noteq> ''.''" and "s \<noteq> ''..''"
  shows "plain_part (encodeURIComponent s)"
proof (rule ccontr)
  have "of_char (CHR ''.'') = (46 :: nat)" by simp
  then have dot: "char_of (46 :: nat) = CHR ''.''" by (metis char_of_char)
  assume "\<not> plain_part (encodeURIComponent s)"
  then have "decodeURIComponent (encodeURIComponent s) \<in> {''.'', ''..''}"
    by (auto simp: plain_part_def single_dot_def double_dot_def percent_byte_def hex_value_def dot)
  with assms show False by (simp add: decode_encoded)
qed

end
