(* ===== verification/AdminUi.thy ===== *)
theory AdminUi
  imports Json WebText
begin

text \<open>
  The script of the admin pages (\<open>contexts/admin-ui/assets/app.js\<close>): fetching with retries, the state of a
  page with its session, its timers and the requests that are in flight, and the handler of every event.

  A handler that awaits an answer is two steps: it adds a \<open>pending\<close> request, and the arrival of the
  answer runs the rest of the handler, in whatever order the answers come. A load made by
  \<open>fetchWithRetry\<close> is one request whose answer is the one the retries end with. A table is the texts of
  its cells. Left out are the onboarding tours, view transitions, tabs, the version badge, the buttons
  of the rows and the timers that take messages and toasts away after a few seconds. The dash and the
  ellipsis of two texts are written with ASCII characters.
\<close>

section \<open>Requests and answers\<close>

text \<open>
  What \<open>fetch\<close> comes back with: it rejects, or it answers with a status and a body, where the body is
  \<open>None\<close> if \<open>json()\<close> rejects.
\<close>

datatype answer = Unreachable | Answer int "json option"

definition res_ok :: "int \<Rightarrow> bool" where
  "res_ok status \<longleftrightarrow> 200 \<le> status \<and> status \<le> 299"

record request =
  rq_method :: string
  rq_path :: string
  rq_token :: "string option"
  rq_body :: "json option"

fun js_truthy :: "json \<Rightarrow> bool" where
  "js_truthy JNull \<longleftrightarrow> False"
| "js_truthy (JBool b) \<longleftrightarrow> b"
| "js_truthy (JNum n) \<longleftrightarrow> n \<noteq> 0"
| "js_truthy (JStr s) \<longleftrightarrow> s \<noteq> []"
| "js_truthy (JArr _) \<longleftrightarrow> True"
| "js_truthy (JObj _) \<longleftrightarrow> True"

text \<open>\<open>data = await res.json()\<close> and then \<open>data.x\<close>: throws without a body and on \<open>null\<close>.\<close>

definition readable :: "json option \<Rightarrow> json option" where
  "readable body = (case body of Some j \<Rightarrow> if j = JNull then None else Some j | None \<Rightarrow> None)"

definition text_of :: "json option \<Rightarrow> string option" where
  "text_of v = (case v of Some (JStr s) \<Rightarrow> Some s | _ \<Rightarrow> None)"

definition truthy_text :: "string option \<Rightarrow> bool" where
  "truthy_text v \<longleftrightarrow> v \<noteq> None \<and> v \<noteq> Some []"

text \<open>
  \<open>data = await res.json().catch(() => ({})); data.error || default\<close>: \<open>None\<close> when reading the field throws,
  \<open>Some None\<close> when the default applies.
\<close>

definition error_field :: "json option \<Rightarrow> string option option" where
  "error_field body =
     (case body of
        None \<Rightarrow> Some None
      | Some JNull \<Rightarrow> None
      | Some j \<Rightarrow> Some (case jfield ''error'' j of Some v \<Rightarrow> if js_truthy v then Some (js_String v) else None | None \<Rightarrow> None))"

text \<open>\<open>data.key || []\<close>: \<open>None\<close> where the value is no list.\<close>

definition list_field :: "string \<Rightarrow> json \<Rightarrow> json list option" where
  "list_field k data =
     (case jfield k data of
        None \<Rightarrow> Some []
      | Some (JArr xs) \<Rightarrow> Some xs
      | Some v \<Rightarrow> if js_truthy v then None else Some [])"

section \<open>Fetching with retries\<close>

definition max_attempts :: "int option \<Rightarrow> int" where
  "max_attempts retries = max 1 (case retries of None \<Rightarrow> 3 | Some n \<Rightarrow> n)"

definition retry_delay :: "int option \<Rightarrow> int" where
  "retry_delay base = max 100 (case base of None \<Rightarrow> 500 | Some n \<Rightarrow> n)"

definition final_answer :: "answer \<Rightarrow> bool" where
  "final_answer a \<longleftrightarrow> (case a of Unreachable \<Rightarrow> False | Answer status _ \<Rightarrow> res_ok status \<or> status < 500)"

text \<open>
  The loop of \<open>fetchWithRetry\<close> from one attempt on: the answer it ends with (an \<open>Unreachable\<close> is the
  exception of the last attempt) and the pauses it made. The answer of each attempt is an argument.
\<close>

function retry_loop :: "(int \<Rightarrow> answer) \<Rightarrow> int \<Rightarrow> int \<Rightarrow> int \<Rightarrow> answer \<times> int list" where
  "retry_loop net maxAttempts delayMs attempt =
     (if attempt \<ge> maxAttempts \<or> final_answer (net attempt) then (net attempt, [])
      else let (a, pauses) = retry_loop net maxAttempts delayMs (attempt + 1) in (a, delayMs * attempt # pauses))"
  by pat_completeness auto
termination
  by (relation "measure (\<lambda>(net, m, d, k). nat (m - k))") auto

declare retry_loop.simps [simp del]

definition fetchWithRetry :: "(int \<Rightarrow> answer) \<Rightarrow> int option \<Rightarrow> int option \<Rightarrow> answer \<times> int list" where
  "fetchWithRetry net retries baseDelayMs = retry_loop net (max_attempts retries) (retry_delay baseDelayMs) 1"

lemma retry_loop_exact:
  assumes "k \<le> m" and "retry_loop net m d k = (a, ps)"
  shows "\<exists>j. k \<le> j \<and> j \<le> m \<and> a = net j \<and> (j = m \<or> final_answer (net j)) \<and>
     (\<forall>i. k \<le> i \<and> i < j \<longrightarrow> \<not> final_answer (net i)) \<and> ps = map (\<lambda>i. d * i) [k..j - 1]"
  using assms
proof (induction net m d k arbitrary: a ps rule: retry_loop.induct)
  case (1 net m d k)
  show ?case
  proof (cases "k \<ge> m \<or> final_answer (net k)")
    case True
    with 1(2,3) show ?thesis by (intro exI [of _ k]) (auto simp: retry_loop.simps [of net m d k])
  next
    case False
    then obtain ps' where r: "retry_loop net m d (k + 1) = (a, ps')" "ps = d * k # ps'"
      using 1(3) by (cases "retry_loop net m d (k + 1)") (simp add: retry_loop.simps [of net m d k])
    from 1(1) [OF False _ r(1)] False obtain j where j: "k + 1 \<le> j" "j \<le> m" "a = net j" "j = m \<or> final_answer (net j)"
      "\<forall>i. k + 1 \<le> i \<and> i < j \<longrightarrow> \<not> final_answer (net i)" "ps' = map (\<lambda>i. d * i) [k + 1..j - 1]"
      by auto
    have "\<forall>i. k \<le> i \<and> i < j \<longrightarrow> \<not> final_answer (net i)"
      using j(5) False by (metis add.commute zless_add1_eq less_le_not_le linorder_not_le zle_add1_eq_le)
    moreover have "[k..j - 1] = k # [k + 1..j - 1]" using j(1) by (simp add: upto_rec1)
    ultimately show ?thesis using j r(2) by (intro exI [of _ j]) auto
  qed
qed

text \<open>
  A fetch with retries makes at least one and at most the given number of attempts (three
  without a number); it ends with the first answer that is a success or a status below 500, or with
  the outcome of the last attempt, and between attempts it waits the base delay (at least 100 ms)
  times the number of the attempt.
\<close>

theorem fetch_retries_exact:
  "case fetchWithRetry net retries base of (a, pauses) \<Rightarrow>
     \<exists>j. 1 \<le> j \<and> j \<le> max_attempts retries \<and> a = net j \<and> (j = max_attempts retries \<or> final_answer (net j)) \<and>
       {i. 1 \<le> i \<and> i < j \<and> final_answer (net i)} = {} \<and>
       pauses = map (\<lambda>i. retry_delay base * i) [1..j - 1] \<and> 100 \<le> retry_delay base"
proof -
  obtain a ps where r: "retry_loop net (max_attempts retries) (retry_delay base) 1 = (a, ps)" by fastforce
  have "1 \<le> max_attempts retries" "100 \<le> retry_delay base" by (simp_all add: max_attempts_def retry_delay_def)
  with retry_loop_exact [OF _ r] r show ?thesis by (fastforce simp: fetchWithRetry_def)
qed

section \<open>The page\<close>

datatype slot = LoginMessage | RoleMessage | RepoMessage | UserMessage | TrustMessage | SetupMessage

text \<open>
  A request that is in flight, with what the rest of its handler still uses. \<open>PRefresh\<close> carries whether
  it is the scheduled renewal (which retries once) or that retry.
\<close>

datatype pending =
    PLogin
  | PLogout
  | PRestore
  | PRefresh bool
  | PUsers
  | PRepos
  | PRoles
  | PTrusted
  | PCreateRepo string
  | PGrantRole string string
  | PRevokeRole string
  | PGlobalAdmin string bool
  | PCanCreate string bool
  | PActive string bool
  | PDelete string
  | PCreateUser string
  | PTrustKey string
  | PRevokeTrust string
  | PSetup

datatype timer = Renewal | Retry

record audit_event =
  ae_action :: string
  ae_details :: "(string \<times> json) list"
  ae_actor :: string

datatype table = Empty | LoadFailed | Rows "string list list"

record page =
  pg_setupPage :: bool
  pg_accessToken :: "string option"
  pg_currentUsername :: "string option"
  pg_isGlobalAdmin :: bool
  pg_pendingDelete :: "string option"
  pg_rolesRepo :: string
  pg_auditEvents :: "audit_event list"
  pg_liveRefresh :: bool
  pg_timers :: "(nat \<times> timer \<times> int) list"
  pg_nextTimer :: nat
  pg_tokenTimer :: "nat option"
  pg_inflight :: "(pending \<times> request) list"
  pg_messages :: "(slot \<times> string \<times> bool) list"
  pg_toasts :: "(string \<times> bool) list"
  pg_users :: table
  pg_repos :: table
  pg_roles :: table
  pg_trusted :: table
  pg_repoOptions :: "string list"
  pg_repoSelect :: string
  pg_knownUsernames :: string
  pg_tiles :: "(string \<times> nat) list"
  pg_redirected :: bool

definition set_message :: "slot \<Rightarrow> string \<Rightarrow> bool \<Rightarrow> page \<Rightarrow> page" where
  "set_message slot text isError p = p\<lparr>pg_messages := AList.update slot (text, isError) (pg_messages p)\<rparr>"

definition clear_message :: "slot \<Rightarrow> page \<Rightarrow> page" where
  "clear_message slot p = p\<lparr>pg_messages := AList.delete slot (pg_messages p)\<rparr>"

definition showToast :: "string \<Rightarrow> bool \<Rightarrow> page \<Rightarrow> page" where
  "showToast message isError p = p\<lparr>pg_toasts := pg_toasts p @ [(message, isError)]\<rparr>"

definition logAuditEvent :: "string \<Rightarrow> (string \<times> json) list \<Rightarrow> page \<Rightarrow> page" where
  "logAuditEvent action details p =
     p\<lparr>pg_auditEvents :=
         \<lparr>ae_action = action, ae_details = details,
          ae_actor = (if truthy_text (pg_currentUsername p) then the (pg_currentUsername p) else ''anonymous'')\<rparr>
         # pg_auditEvents p\<rparr>"

text \<open>The texts of \<open>renderAuditLogs\<close>: the fifteen newest events, escaped.\<close>

definition renderAuditLogs :: "((string \<times> json) list \<Rightarrow> string) \<Rightarrow> page \<Rightarrow> (string \<times> string) list" where
  "renderAuditLogs stringify p =
     map (\<lambda>ev. (escapeHtml (ae_action ev), escapeHtml (stringify (ae_details ev)))) (take 15 (pg_auditEvents p))"

definition send :: "pending \<Rightarrow> request \<Rightarrow> page \<Rightarrow> page" where
  "send pd rq p = p\<lparr>pg_inflight := pg_inflight p @ [(pd, rq)]\<rparr>"

text \<open>A request with \<open>authHeaders()\<close>.\<close>

definition authHeaders :: "page \<Rightarrow> string option" where
  "authHeaders p = (if truthy_text (pg_accessToken p) then pg_accessToken p else None)"

definition auth_request :: "page \<Rightarrow> string \<Rightarrow> string \<Rightarrow> (string \<times> json) list option \<Rightarrow> request" where
  "auth_request p method path body =
     \<lparr>rq_method = method, rq_path = path, rq_token = authHeaders p, rq_body = map_option JObj body\<rparr>"

definition cookie_request :: "string \<Rightarrow> string \<Rightarrow> (string \<times> json) list option \<Rightarrow> request" where
  "cookie_request method path body =
     \<lparr>rq_method = method, rq_path = path, rq_token = None, rq_body = map_option JObj body\<rparr>"

section \<open>Loading\<close>

definition loadUsers :: "page \<Rightarrow> page" where
  "loadUsers p =
     (if truthy_text (pg_accessToken p) then send PUsers (auth_request p ''GET'' ''/api/v1/auth/users'' None) p else p)"

definition loadTrustedAddons :: "page \<Rightarrow> page" where
  "loadTrustedAddons p =
     (if truthy_text (pg_accessToken p) then send PTrusted (auth_request p ''GET'' ''/api/v1/addons/trust'' None) p else p)"

definition loadReposAndDirectory :: "page \<Rightarrow> page" where
  "loadReposAndDirectory p =
     (if truthy_text (pg_accessToken p) then send PRepos (auth_request p ''GET'' ''/api/v1/versioning/repos'' None) p else p)"

definition role_path :: "string \<Rightarrow> string" where
  "role_path repoId = ''/api/v1/versioning/repos/'' @ encodeURIComponent repoId @ ''/roles''"

definition loadRepoRoles :: "string \<Rightarrow> page \<Rightarrow> page" where
  "loadRepoRoles repoId p =
     (if repoId = [] then p\<lparr>pg_roles := Empty\<rparr> else send PRoles (auth_request p ''GET'' (role_path repoId) None) p)"

definition refreshDashboardTiles :: "page \<Rightarrow> page" where
  "refreshDashboardTiles p =
     (if \<not> pg_isGlobalAdmin p \<or> \<not> truthy_text (pg_accessToken p) then p
      else loadReposAndDirectory (loadTrustedAddons (loadUsers p)))"

definition startLiveRefresh :: "page \<Rightarrow> page" where
  "startLiveRefresh p = (refreshDashboardTiles (p\<lparr>pg_liveRefresh := False\<rparr>))\<lparr>pg_liveRefresh := True\<rparr>"

section \<open>Session\<close>

definition renew_delay :: "int option \<Rightarrow> int" where
  "renew_delay expiresInSeconds =
     (let accessTtlMs = (case expiresInSeconds of
            Some n \<Rightarrow> if n > 0 then n * 1000 else 15 * 60 * 1000
          | None \<Rightarrow> 15 * 60 * 1000)
      in min (max (accessTtlMs - 60000) 10000) (max 30000 60000))"

definition clearTokenTimer :: "page \<Rightarrow> page" where
  "clearTokenTimer p =
     (case pg_tokenTimer p of
        None \<Rightarrow> p
      | Some t \<Rightarrow> p\<lparr>pg_timers := filter (\<lambda>(i, _). i \<noteq> t) (pg_timers p), pg_tokenTimer := None\<rparr>)"

definition arm :: "timer \<Rightarrow> int \<Rightarrow> page \<Rightarrow> page" where
  "arm tm delay p =
     p\<lparr>pg_timers := pg_timers p @ [(pg_nextTimer p, tm, delay)], pg_tokenTimer := Some (pg_nextTimer p),
       pg_nextTimer := Suc (pg_nextTimer p)\<rparr>"

definition scheduleTokenRenewal :: "int option \<Rightarrow> page \<Rightarrow> page" where
  "scheduleTokenRenewal expiresInSeconds p = arm Renewal (renew_delay expiresInSeconds) (clearTokenTimer p)"

definition showSession :: "string option \<Rightarrow> bool \<Rightarrow> page \<Rightarrow> page" where
  "showSession username isGlobalAdmin p =
     (let p1 = p\<lparr>pg_currentUsername := username, pg_isGlobalAdmin := isGlobalAdmin\<rparr>;
          p2 = logAuditEvent ''Session authenticated''
                 ((case username of None \<Rightarrow> [] | Some u \<Rightarrow> [(''username'', JStr u)]) @ [(''isGlobalAdmin'', JBool isGlobalAdmin)]) p1;
          p3 = (if isGlobalAdmin then loadReposAndDirectory (loadTrustedAddons (loadUsers p2)) else p2)
      in scheduleTokenRenewal None (startLiveRefresh p3))"

definition showForm :: "page \<Rightarrow> page" where
  "showForm p =
     clearTokenTimer (p\<lparr>pg_currentUsername := None, pg_isGlobalAdmin := False, pg_accessToken := None, pg_liveRefresh := False\<rparr>)"

definition signed_in :: "page \<Rightarrow> bool" where
  "signed_in p = truthy_text (pg_currentUsername p)"

text \<open>The start of \<open>refreshAccessToken\<close>; the page it was called on decides whether it asks at all.\<close>

definition refreshAccessToken :: "bool \<Rightarrow> page \<Rightarrow> page" where
  "refreshAccessToken scheduled p =
     (if signed_in p then send (PRefresh scheduled) (cookie_request ''POST'' ''/api/v1/auth/refresh'' None) p else p)"

definition refreshed_token :: "answer \<Rightarrow> (string \<times> int option) option" where
  "refreshed_token a =
     (case a of
        Unreachable \<Rightarrow> None
      | Answer status body \<Rightarrow>
          (if \<not> res_ok status then None
           else case readable body of
                  None \<Rightarrow> None
                | Some data \<Rightarrow>
                    (case text_of (jfield ''accessToken'' data) of
                       Some t \<Rightarrow>
                         if t = [] then None
                         else Some (t, case jfield ''expiresInSeconds'' data of Some (JNum n) \<Rightarrow> Some n | _ \<Rightarrow> None)
                     | None \<Rightarrow> None)))"

text \<open>The rest of \<open>refreshAccessToken\<close> and, for the scheduled renewal, of the timer's callback.\<close>

definition refresh_answered :: "bool \<Rightarrow> answer \<Rightarrow> page \<Rightarrow> page" where
  "refresh_answered scheduled a p =
     (case refreshed_token a of
        Some (token, expires) \<Rightarrow> scheduleTokenRenewal expires (p\<lparr>pg_accessToken := Some token\<rparr>)
      | None \<Rightarrow> if scheduled \<and> signed_in p then arm Retry 30000 p else p)"

definition login_data :: "json option \<Rightarrow> (string option \<times> string option \<times> bool) option" where
  "login_data body =
     map_option (\<lambda>data. (text_of (jfield ''accessToken'' data), text_of (jfield ''username'' data),
         case jfield ''isGlobalAdmin'' data of Some v \<Rightarrow> js_truthy v | None \<Rightarrow> False)) (readable body)"

definition login_answered :: "answer \<Rightarrow> page \<Rightarrow> page" where
  "login_answered a p =
     (let unreachable = showToast ''Could not reach the Deltix-Server'' True
            (set_message LoginMessage ''Could not reach the Deltix-Server.'' True p)
      in case a of
           Unreachable \<Rightarrow> unreachable
         | Answer status body \<Rightarrow>
             (if \<not> res_ok status
              then showToast ''Invalid username or password'' True (set_message LoginMessage ''Invalid credentials.'' True p)
              else case login_data body of
                     None \<Rightarrow> unreachable
                   | Some (token, username, isAdmin) \<Rightarrow>
                       showToast (''Signed in successfully as '' @ (case username of Some u \<Rightarrow> u | None \<Rightarrow> ''undefined'')) False
                         (showSession username isAdmin (p\<lparr>pg_accessToken := token\<rparr>))))"

definition restore_answered :: "answer \<Rightarrow> page \<Rightarrow> page" where
  "restore_answered a p =
     (case a of
        Unreachable \<Rightarrow> p
      | Answer status body \<Rightarrow>
          (if \<not> res_ok status then p
           else case login_data body of
                  None \<Rightarrow> p
                | Some (token, username, isAdmin) \<Rightarrow> showSession username isAdmin (p\<lparr>pg_accessToken := token\<rparr>)))"

section \<open>Tables\<close>

text \<open>How the browser shows a time (\<open>new Date(v).toLocaleString()\<close>) is an argument.\<close>

type_synonym show_date = "json option \<Rightarrow> string"

text \<open>\<open>textContent = v\<close>; a missing value is the empty text.\<close>

definition cell :: "json option \<Rightarrow> string" where
  "cell v = (case v of None \<Rightarrow> [] | Some j \<Rightarrow> if j = JNull then [] else js_String j)"

definition field_truthy :: "string \<Rightarrow> json \<Rightarrow> bool" where
  "field_truthy k j = (case jfield k j of Some v \<Rightarrow> js_truthy v | None \<Rightarrow> False)"

definition cell_or :: "string \<Rightarrow> json \<Rightarrow> string \<Rightarrow> string" where
  "cell_or k j d = (if field_truthy k j then cell (jfield k j) else d)"

definition shown_text :: "json option \<Rightarrow> string" where
  "shown_text v = (case v of None \<Rightarrow> ''undefined'' | Some j \<Rightarrow> js_String j)"

definition user_row :: "show_date \<Rightarrow> json \<Rightarrow> string list" where
  "user_row date u =
     [cell (jfield ''username'' u), if field_truthy ''active'' u then ''Active'' else ''Inactive'',
      if field_truthy ''isGlobalAdmin'' u then ''Yes (Global)'' else ''No'',
      if field_truthy ''canCreateRepos'' u then ''Yes'' else ''No'', date (jfield ''createdAt'' u),
      shown_text (jfield ''activeSessions'' u),
      if field_truthy ''lastLoginAt'' u then date (jfield ''lastLoginAt'' u) else ''Never'']"

definition repo_row :: "show_date \<Rightarrow> json \<Rightarrow> string list" where
  "repo_row date r =
     [cell (jfield ''repoId'' r), cell_or ''defaultBranch'' r ''main'', cell_or ''description'' r ''-'', date (jfield ''createdAt'' r)]"

definition role_row :: "show_date \<Rightarrow> json \<Rightarrow> string list" where
  "role_row date a =
     [cell (jfield ''username'' a), cell (jfield ''role'' a), date (jfield ''grantedAt'' a), cell (jfield ''grantedBy'' a)]"

definition trust_row :: "show_date \<Rightarrow> json \<Rightarrow> string list" where
  "trust_row date r =
     [cell (jfield ''addonName'' r), cell (jfield ''authorPublicKey'' r), date (jfield ''trustedAt'' r), cell (jfield ''trustedBy'' r)]"

text \<open>A table from a list; an entry that is \<open>null\<close> makes the rendering throw, which shows the load error.\<close>

definition render :: "(json \<Rightarrow> string list) \<Rightarrow> json list \<Rightarrow> table" where
  "render row xs = (if JNull \<in> set xs then LoadFailed else if xs = [] then Empty else Rows (map row xs))"

definition has_session :: "json \<Rightarrow> bool" where
  "has_session u = (case jfield ''activeSessions'' u of Some (JNum n) \<Rightarrow> n > 0 | _ \<Rightarrow> False)"

definition tile :: "string \<Rightarrow> nat \<Rightarrow> page \<Rightarrow> page" where
  "tile name n p = p\<lparr>pg_tiles := AList.update name n (pg_tiles p)\<rparr>"

definition renderUsers :: "show_date \<Rightarrow> json list \<Rightarrow> page \<Rightarrow> page" where
  "renderUsers date users p =
     (if JNull \<in> set users then p\<lparr>pg_users := LoadFailed\<rparr>
      else let seats = length (filter has_session users);
               p1 = tile ''dash-total-users'' (length users) (tile ''dash-active-seats'' seats (tile ''seats-used'' seats p))
           in p1\<lparr>pg_knownUsernames :=
                  concat (map (\<lambda>u. ''<option value='' @ [CHR 0x22] @ escapeHtml (cell (jfield ''username'' u)) @ [CHR 0x22] @ ''></option>'') users),
                pg_users := render (user_row date) users\<rparr>)"

definition populateRepoSelect :: "json list \<Rightarrow> page \<Rightarrow> page" where
  "populateRepoSelect repos p =
     (let ids = map (\<lambda>r. cell (jfield ''repoId'' r)) repos
      in p\<lparr>pg_repoOptions := ids, pg_repoSelect := (if pg_repoSelect p \<noteq> [] \<and> pg_repoSelect p \<in> set ids then pg_repoSelect p else [])\<rparr>)"

definition renderRepos :: "show_date \<Rightarrow> json list \<Rightarrow> page \<Rightarrow> page" where
  "renderRepos date repos p =
     (let p1 = (tile ''dash-repo-count'' (length repos) p)\<lparr>pg_repos := render (repo_row date) repos\<rparr>
      in if JNull \<in> set repos then p1 else populateRepoSelect repos p1)"

text \<open>The answer to a load: the list of a field of a successful body, or the load error.\<close>

definition loaded :: "string \<Rightarrow> (json list \<Rightarrow> page \<Rightarrow> page) \<Rightarrow> (page \<Rightarrow> page) \<Rightarrow> answer \<Rightarrow> page \<Rightarrow> page" where
  "loaded k rendered failed a p =
     (case a of
        Unreachable \<Rightarrow> failed p
      | Answer status body \<Rightarrow>
          (if \<not> res_ok status then failed p
           else case readable body of
                  None \<Rightarrow> failed p
                | Some data \<Rightarrow> (case list_field k data of None \<Rightarrow> failed p | Some xs \<Rightarrow> rendered xs p)))"

definition repos_failed :: "answer \<Rightarrow> page \<Rightarrow> page" where
  "repos_failed a p =
     (case a of
        Answer status _ \<Rightarrow>
          if res_ok status then p\<lparr>pg_repos := LoadFailed\<rparr>
          else p\<lparr>pg_repos := LoadFailed, pg_repoOptions := [], pg_repoSelect := []\<rparr>
      | Unreachable \<Rightarrow> p\<lparr>pg_repos := LoadFailed\<rparr>)"

section \<open>Actions\<close>

definition or_text :: "string \<Rightarrow> string option \<Rightarrow> string" where
  "or_text d e = (case e of Some t \<Rightarrow> t | None \<Rightarrow> d)"

text \<open>
  The end of an action: the page after a success, or a message and perhaps a toast made from the error
  the server gave.
\<close>

definition concluded :: "slot \<Rightarrow> (string option \<Rightarrow> string) \<Rightarrow> (string option \<Rightarrow> string option) \<Rightarrow> (page \<Rightarrow> page) \<Rightarrow> answer \<Rightarrow> page \<Rightarrow> page" where
  "concluded slot message toast success a p =
     (let unreachable = set_message slot ''Could not reach server.'' True p
      in case a of
           Unreachable \<Rightarrow> unreachable
         | Answer status body \<Rightarrow>
             (if res_ok status then success p
              else case error_field body of
                     None \<Rightarrow> unreachable
                   | Some e \<Rightarrow>
                       let p1 = set_message slot (message e) True p
                       in case toast e of None \<Rightarrow> p1 | Some t \<Rightarrow> showToast t True p1))"

text \<open>A success: the message, the toast and the audit event, in this order.\<close>

definition reported :: "slot \<Rightarrow> string \<Rightarrow> string \<Rightarrow> string \<Rightarrow> (string \<times> json) list \<Rightarrow> page \<Rightarrow> page" where
  "reported slot message toast action details p =
     logAuditEvent action details (showToast toast False (set_message slot message False p))"

definition quoted :: "string \<Rightarrow> string" where
  "quoted s = [CHR 0x22] @ s @ [CHR 0x22]"

definition clearDeletePrompt :: "page \<Rightarrow> page" where
  "clearDeletePrompt p = p\<lparr>pg_pendingDelete := None\<rparr>"

definition user_path :: "string \<Rightarrow> string \<Rightarrow> string" where
  "user_path username suffix = ''/api/v1/auth/users/'' @ encodeURIComponent username @ suffix"

definition repo_created :: "string \<Rightarrow> answer \<Rightarrow> page \<Rightarrow> page" where
  "repo_created repoId =
     concluded RepoMessage (or_text ''Could not create repository.'') (\<lambda>e. Some (or_text ''Failed to create repository'' e))
       (\<lambda>p. loadReposAndDirectory
          (reported RepoMessage ''Repository created successfully.'' (''Repository '' @ quoted repoId @ '' provisioned'')
             ''Repository created'' [(''repoId'', JStr repoId)] p))"

definition role_granted :: "string \<Rightarrow> string \<Rightarrow> answer \<Rightarrow> page \<Rightarrow> page" where
  "role_granted username role =
     concluded RoleMessage (or_text ''Could not grant role.'') (\<lambda>e. Some (or_text ''Failed to grant role'' e))
       (\<lambda>p. loadRepoRoles (pg_rolesRepo p)
          (reported RoleMessage (''Granted '' @ quoted role @ '' to '' @ username @ ''.'') (''Role '' @ role @ '' granted to '' @ username)
             ''Repo role granted'' [(''repoId'', JStr (pg_rolesRepo p)), (''username'', JStr username), (''role'', JStr role)] p))"

definition role_revoked :: "string \<Rightarrow> answer \<Rightarrow> page \<Rightarrow> page" where
  "role_revoked username =
     concluded RoleMessage (or_text ''Could not revoke role.'') (\<lambda>e. Some ''Could not revoke role'')
       (\<lambda>p. loadRepoRoles (pg_rolesRepo p)
          (reported RoleMessage (''Revoked role for '' @ username @ ''.'') (''Role revoked for '' @ username)
             ''Repo role revoked'' [(''repoId'', JStr (pg_rolesRepo p)), (''username'', JStr username)] p))"

definition globalAdmin_toggled :: "string \<Rightarrow> bool \<Rightarrow> answer \<Rightarrow> page \<Rightarrow> page" where
  "globalAdmin_toggled username was =
     concluded UserMessage (or_text ''Could not update global admin status.'') (\<lambda>e. Some ''Could not update admin status'')
       (\<lambda>p. let msg = (if was then ''Global admin revoked'' else ''Global admin granted'')
            in loadUsers (reported UserMessage msg (msg @ '' for '' @ username) ''User global-admin toggled''
                 [(''username'', JStr username), (''isGlobalAdmin'', JBool (\<not> was))] p))"

definition canCreate_toggled :: "string \<Rightarrow> bool \<Rightarrow> answer \<Rightarrow> page \<Rightarrow> page" where
  "canCreate_toggled username was =
     concluded UserMessage (or_text ''Could not update repo-creation permission.'')
       (\<lambda>e. Some ''Could not update repo-creation permission'')
       (\<lambda>p. let msg = (if was then ''Repo-creation revoked'' else ''Repo-creation granted'')
            in loadUsers (reported UserMessage msg (msg @ '' for '' @ username) ''User can-create-repos toggled''
                 [(''username'', JStr username), (''canCreateRepos'', JBool (\<not> was))] p))"

definition active_toggled :: "string \<Rightarrow> bool \<Rightarrow> answer \<Rightarrow> page \<Rightarrow> page" where
  "active_toggled username was =
     concluded UserMessage (or_text ''Could not update user.'') (\<lambda>e. Some ''Could not update user'')
       (\<lambda>p. let msg = (if was then ''User deactivated'' else ''User reactivated'')
            in loadUsers (reported UserMessage msg (msg @ '': '' @ username) ''User active status toggled''
                 [(''username'', JStr username), (''active'', JBool (\<not> was))] p))"

definition user_deleted :: "string \<Rightarrow> answer \<Rightarrow> page \<Rightarrow> page" where
  "user_deleted target =
     concluded UserMessage (or_text ''Could not delete user.'') (\<lambda>e. Some ''Could not delete user'')
       (\<lambda>p. loadUsers (clearDeletePrompt
          (reported UserMessage ''User deleted'' (''User '' @ quoted target @ '' permanently deleted'') ''User deleted''
             [(''username'', JStr target)] p)))"

definition user_created :: "string \<Rightarrow> answer \<Rightarrow> page \<Rightarrow> page" where
  "user_created username =
     concluded UserMessage (or_text ''Could not create user.'') (\<lambda>e. Some (or_text ''Failed to create user'' e))
       (\<lambda>p. loadUsers (reported UserMessage ''User created successfully'' (''User '' @ quoted username @ '' created'')
          ''User created'' [(''username'', JStr username)] p))"

definition key_trusted :: "string \<Rightarrow> answer \<Rightarrow> page \<Rightarrow> page" where
  "key_trusted addonName =
     concluded TrustMessage (or_text ''Could not trust this key.'') (\<lambda>e. Some (or_text ''Failed to trust addon'' e))
       (\<lambda>p. loadTrustedAddons (reported TrustMessage (''Trusted '' @ quoted addonName @ ''. Takes effect on restart.'')
          (''Key trusted for '' @ quoted addonName) ''Addon key trusted'' [(''addonName'', JStr addonName)] p))"

text \<open>\<open>revokeTrust\<close> does not look at the status of the answer.\<close>

definition trust_revoked :: "string \<Rightarrow> answer \<Rightarrow> page \<Rightarrow> page" where
  "trust_revoked addonName a p =
     (case a of
        Unreachable \<Rightarrow> set_message TrustMessage ''Could not reach server.'' True p
      | Answer _ _ \<Rightarrow>
          loadTrustedAddons (logAuditEvent ''Addon trust revoked'' [(''addonName'', JStr addonName)]
            (showToast (''Trust revoked for '' @ quoted addonName) False p)))"

definition setup_answered :: "answer \<Rightarrow> page \<Rightarrow> page" where
  "setup_answered =
     concluded SetupMessage (or_text ''Could not complete setup.'') (\<lambda>e. None)
       (\<lambda>p. (set_message SetupMessage ''Admin created. Redirecting to sign in...'' False p)\<lparr>pg_redirected := True\<rparr>)"

definition answered :: "show_date \<Rightarrow> pending \<Rightarrow> answer \<Rightarrow> page \<Rightarrow> page" where
  "answered date pd a p =
     (case pd of
        PLogin \<Rightarrow> login_answered a p
      | PLogout \<Rightarrow> showToast ''Signed out'' False (showForm p)
      | PRestore \<Rightarrow> restore_answered a p
      | PRefresh scheduled \<Rightarrow> refresh_answered scheduled a p
      | PUsers \<Rightarrow> loaded ''users'' (renderUsers date) (\<lambda>p. p\<lparr>pg_users := LoadFailed\<rparr>) a p
      | PRepos \<Rightarrow> loaded ''repos'' (renderRepos date) (repos_failed a) a p
      | PRoles \<Rightarrow> loaded ''roles'' (\<lambda>xs p. p\<lparr>pg_roles := render (role_row date) xs\<rparr>) (\<lambda>p. p\<lparr>pg_roles := LoadFailed\<rparr>) a p
      | PTrusted \<Rightarrow> loaded ''trusted'' (\<lambda>xs p. (tile ''dash-addons-count'' (length xs) p)\<lparr>pg_trusted := render (trust_row date) xs\<rparr>)
                      (\<lambda>p. p\<lparr>pg_trusted := LoadFailed\<rparr>) a p
      | PCreateRepo repoId \<Rightarrow> repo_created repoId a p
      | PGrantRole username role \<Rightarrow> role_granted username role a p
      | PRevokeRole username \<Rightarrow> role_revoked username a p
      | PGlobalAdmin username was \<Rightarrow> globalAdmin_toggled username was a p
      | PCanCreate username was \<Rightarrow> canCreate_toggled username was a p
      | PActive username was \<Rightarrow> active_toggled username was a p
      | PDelete target \<Rightarrow> user_deleted target a p
      | PCreateUser username \<Rightarrow> user_created username a p
      | PTrustKey addonName \<Rightarrow> key_trusted addonName a p
      | PRevokeTrust addonName \<Rightarrow> trust_revoked addonName a p
      | PSetup \<Rightarrow> setup_answered a p)"

section \<open>Events\<close>

text \<open>
  What can happen to a page: the operator acts, a timer fires, or the answer to a request in flight
  arrives. A click on a button of a row carries the data of the row it was drawn from.
\<close>

datatype ui_event =
    SubmitLogin string string
  | ClickLogout
  | SubmitRepo string string
  | SelectRepo string
  | SubmitGrant string string
  | ClickRevokeRole string
  | ClickGlobalAdmin string bool
  | ClickCanCreate string bool
  | ClickActive string bool
  | ClickDelete string
  | ConfirmDelete
  | CancelDelete
  | SubmitUser string string
  | ClickRevokeTrust string
  | SubmitTrust string string
  | SubmitSetup string string string
  | PageFocus
  | LiveTick
  | TimerFires nat
  | AnswerArrives nat answer

definition submitLogin :: "string \<Rightarrow> string \<Rightarrow> page \<Rightarrow> page" where
  "submitLogin username password p =
     send PLogin (cookie_request ''POST'' ''/api/v1/auth/login'' (Some [(''username'', JStr username), (''password'', JStr password)]))
       (clear_message LoginMessage p)"

definition submitRepo :: "string \<Rightarrow> string \<Rightarrow> page \<Rightarrow> page" where
  "submitRepo repoId description p =
     send (PCreateRepo (js_trim repoId))
       (auth_request p ''POST'' ''/api/v1/versioning/repos''
          (Some [(''repoId'', JStr (js_trim repoId)), (''description'', JStr (js_trim description))]))
       (clear_message RepoMessage p)"

definition selectRepo :: "string \<Rightarrow> page \<Rightarrow> page" where
  "selectRepo repoId p =
     loadRepoRoles repoId (clear_message RoleMessage (p\<lparr>pg_repoSelect := repoId, pg_rolesRepo := repoId\<rparr>))"

definition submitGrant :: "string \<Rightarrow> string \<Rightarrow> page \<Rightarrow> page" where
  "submitGrant username role p =
     (if pg_rolesRepo p = [] then set_message RoleMessage ''Select a repository first.'' True p
      else send (PGrantRole (js_trim username) role)
             (auth_request p ''POST'' (role_path (pg_rolesRepo p))
                (Some [(''username'', JStr (js_trim username)), (''role'', JStr role)]))
             (clear_message RoleMessage p))"

definition revokeRepoRole :: "string \<Rightarrow> page \<Rightarrow> page" where
  "revokeRepoRole username p =
     (if pg_rolesRepo p = [] then p
      else send (PRevokeRole username)
             (auth_request p ''DELETE'' (role_path (pg_rolesRepo p) @ ''/'' @ encodeURIComponent username) None) p)"

definition toggleGlobalAdmin :: "string \<Rightarrow> bool \<Rightarrow> page \<Rightarrow> page" where
  "toggleGlobalAdmin username was p =
     send (PGlobalAdmin username was)
       (auth_request p (if was then ''DELETE'' else ''POST'') (user_path username ''/global-admin'') None) p"

definition toggleCanCreateRepos :: "string \<Rightarrow> bool \<Rightarrow> page \<Rightarrow> page" where
  "toggleCanCreateRepos username was p =
     send (PCanCreate username was)
       (auth_request p (if was then ''DELETE'' else ''POST'') (user_path username ''/can-create-repos'') None) p"

definition toggleUser :: "string \<Rightarrow> bool \<Rightarrow> page \<Rightarrow> page" where
  "toggleUser username was p =
     send (PActive username was)
       (auth_request p ''POST'' (user_path username (if was then ''/deactivate'' else ''/reactivate'')) None) p"

definition promptDeleteUser :: "string \<Rightarrow> page \<Rightarrow> page" where
  "promptDeleteUser username p = p\<lparr>pg_pendingDelete := Some username\<rparr>"

definition confirmDelete :: "page \<Rightarrow> page" where
  "confirmDelete p =
     (if truthy_text (pg_pendingDelete p)
      then let target = the (pg_pendingDelete p)
           in send (PDelete target) (auth_request p ''DELETE'' (user_path target []) None) p
      else p)"

definition submitUser :: "string \<Rightarrow> string \<Rightarrow> page \<Rightarrow> page" where
  "submitUser username password p =
     send (PCreateUser (js_trim username))
       (auth_request p ''POST'' ''/api/v1/auth/users''
          (Some [(''username'', JStr (js_trim username)), (''password'', JStr password)]))
       (clear_message UserMessage p)"

definition revokeTrust :: "string \<Rightarrow> page \<Rightarrow> page" where
  "revokeTrust addonName p =
     send (PRevokeTrust addonName) (auth_request p ''POST'' ''/api/v1/addons/revoke'' (Some [(''addonName'', JStr addonName)])) p"

definition submitTrust :: "string \<Rightarrow> string \<Rightarrow> page \<Rightarrow> page" where
  "submitTrust addonName authorPublicKey p =
     send (PTrustKey (js_trim addonName))
       (auth_request p ''POST'' ''/api/v1/addons/trust''
          (Some [(''addonName'', JStr (js_trim addonName)), (''authorPublicKey'', JStr (js_trim authorPublicKey))]))
       (clear_message TrustMessage p)"

definition submitSetup :: "string \<Rightarrow> string \<Rightarrow> string \<Rightarrow> page \<Rightarrow> page" where
  "submitSetup username password confirmation p =
     (if password \<noteq> confirmation then set_message SetupMessage ''Passwords must match.'' True (clear_message SetupMessage p)
      else send PSetup (cookie_request ''POST'' ''/api/v1/auth/setup''
               (Some [(''username'', JStr (js_trim username)), (''password'', JStr password)]))
             (clear_message SetupMessage p))"

definition clickLogout :: "page \<Rightarrow> page" where
  "clickLogout p = send PLogout (cookie_request ''POST'' ''/api/v1/auth/logout'' (Some [])) p"

text \<open>A timer that is armed fires once: its callback starts a refresh.\<close>

definition timer_fires :: "nat \<Rightarrow> page \<Rightarrow> page" where
  "timer_fires t p =
     (case map_of (pg_timers p) t of
        None \<Rightarrow> p
      | Some (tm, _) \<Rightarrow> refreshAccessToken (tm = Renewal) (p\<lparr>pg_timers := filter (\<lambda>(i, _). i \<noteq> t) (pg_timers p)\<rparr>))"

definition answer_arrives :: "show_date \<Rightarrow> nat \<Rightarrow> answer \<Rightarrow> page \<Rightarrow> page" where
  "answer_arrives date i a p =
     (if i < length (pg_inflight p)
      then answered date (fst (pg_inflight p ! i)) a (p\<lparr>pg_inflight := take i (pg_inflight p) @ drop (Suc i) (pg_inflight p)\<rparr>)
      else p)"

fun ui_step :: "show_date \<Rightarrow> page \<Rightarrow> ui_event \<Rightarrow> page" where
  "ui_step date p (SubmitLogin u pw) = submitLogin u pw p"
| "ui_step date p ClickLogout = clickLogout p"
| "ui_step date p (SubmitRepo r d) = submitRepo r d p"
| "ui_step date p (SelectRepo r) = selectRepo r p"
| "ui_step date p (SubmitGrant u r) = submitGrant u r p"
| "ui_step date p (ClickRevokeRole u) = revokeRepoRole u p"
| "ui_step date p (ClickGlobalAdmin u was) = toggleGlobalAdmin u was p"
| "ui_step date p (ClickCanCreate u was) = toggleCanCreateRepos u was p"
| "ui_step date p (ClickActive u was) = toggleUser u was p"
| "ui_step date p (ClickDelete u) = promptDeleteUser u p"
| "ui_step date p ConfirmDelete = confirmDelete p"
| "ui_step date p CancelDelete = clearDeletePrompt p"
| "ui_step date p (SubmitUser u pw) = submitUser u pw p"
| "ui_step date p (ClickRevokeTrust a) = revokeTrust a p"
| "ui_step date p (SubmitTrust a k) = submitTrust a k p"
| "ui_step date p (SubmitSetup u pw c) = submitSetup u pw c p"
| "ui_step date p PageFocus = refreshDashboardTiles p"
| "ui_step date p LiveTick = (if pg_liveRefresh p then refreshDashboardTiles p else p)"
| "ui_step date p (TimerFires t) = timer_fires t p"
| "ui_step date p (AnswerArrives i a) = answer_arrives date i a p"

definition ui_run :: "show_date \<Rightarrow> page \<Rightarrow> ui_event list \<Rightarrow> page" where
  "ui_run date = foldl (ui_step date)"

definition blank_page :: "bool \<Rightarrow> page" where
  "blank_page setup =
     \<lparr>pg_setupPage = setup, pg_accessToken = None, pg_currentUsername = None, pg_isGlobalAdmin = False,
      pg_pendingDelete = None, pg_rolesRepo = [], pg_auditEvents = [], pg_liveRefresh = False, pg_timers = [],
      pg_nextTimer = 1, pg_tokenTimer = None, pg_inflight = [], pg_messages = [], pg_toasts = [], pg_users = Empty,
      pg_repos = Empty, pg_roles = Empty, pg_trusted = Empty, pg_repoOptions = [], pg_repoSelect = [],
      pg_knownUsernames = [], pg_tiles = [], pg_redirected = False\<rparr>"

text \<open>\<open>restoreSessionOnLoad\<close>: the login page asks for a session right away, the setup page does not.\<close>

definition restoreSessionOnLoad :: "bool \<Rightarrow> page" where
  "restoreSessionOnLoad setup =
     (if setup then blank_page setup
      else send PRestore (cookie_request ''POST'' ''/api/v1/auth/refresh'' None) (blank_page setup))"

text \<open>The report that the support button copies.\<close>

definition support_bundle :: "page \<Rightarrow> string option \<times> bool \<times> audit_event list" where
  "support_bundle p = (pg_currentUsername p, pg_isGlobalAdmin p, take 10 (pg_auditEvents p))"

section \<open>Requests reach the account they name\<close>

lemma parts_of_segments:
  assumes "\<forall>s \<in> set ss. CHR ''/'' \<notin> set s \<and> plain_part s" and "ss \<noteq> []"
  shows "path_parts (CHR ''/'' # js_join ''/'' ss) = ss"
  using assms by (simp add: path_parts_def js_split_join resolve_plain)

lemma plain_names:
  "plain_part ''api''" "plain_part ''v1''" "plain_part ''auth''" "plain_part ''users''" "plain_part ''versioning''"
  "plain_part ''repos''" "plain_part ''roles''" "plain_part ''global-admin''" "plain_part ''can-create-repos''"
  "plain_part ''deactivate''" "plain_part ''reactivate''"
  by (simp_all add: plain_part_def single_dot_def double_dot_def)

lemma user_path_parts:
  assumes "plain_part (encodeURIComponent u)"
  shows "path_parts (user_path u []) = [''api'', ''v1'', ''auth'', ''users'', encodeURIComponent u]"
    and "plain_part w \<Longrightarrow> CHR ''/'' \<notin> set w \<Longrightarrow>
      path_parts (user_path u (CHR ''/'' # w)) = [''api'', ''v1'', ''auth'', ''users'', encodeURIComponent u, w]"
  using parts_of_segments [of "[''api'', ''v1'', ''auth'', ''users'', encodeURIComponent u]"]
    parts_of_segments [of "[''api'', ''v1'', ''auth'', ''users'', encodeURIComponent u, w]"] assms encoded_no_slash [of u]
  by (simp_all add: user_path_def plain_names)

lemma role_path_parts:
  assumes "plain_part (encodeURIComponent r)" and "plain_part (encodeURIComponent u)"
  shows "path_parts (role_path r @ ''/'' @ encodeURIComponent u) =
    [''api'', ''v1'', ''versioning'', ''repos'', encodeURIComponent r, ''roles'', encodeURIComponent u]"
  using parts_of_segments [of "[''api'', ''v1'', ''versioning'', ''repos'', encodeURIComponent r, ''roles'', encodeURIComponent u]"]
    assms encoded_no_slash [of u] encoded_no_slash [of r]
  by (simp add: role_path_def plain_names)

text \<open>
  A click on an account sends one request with the bearer token of the page, whose path the
  browser and the server take apart into the route and exactly the name of the account, whatever
  characters the name has: slashes, percent signs, question marks. The exceptions are the names of
  one and two dots.
\<close>

theorem user_requests_reach_user:
  assumes "u \<noteq> ''.''" and "u \<noteq> ''..''" and "u \<noteq> []"
  shows "decodeURIComponent (encodeURIComponent u) = u \<and>
     (\<exists>r. pg_inflight (ui_step date p (ClickGlobalAdmin u was)) = pg_inflight p @ [(PGlobalAdmin u was, r)] \<and>
        rq_method r = (if was then ''DELETE'' else ''POST'') \<and> rq_token r = authHeaders p \<and>
        path_parts (rq_path r) = [''api'', ''v1'', ''auth'', ''users'', encodeURIComponent u, ''global-admin'']) \<and>
     (\<exists>r. pg_inflight (ui_step date p (ClickCanCreate u was)) = pg_inflight p @ [(PCanCreate u was, r)] \<and>
        rq_method r = (if was then ''DELETE'' else ''POST'') \<and> rq_token r = authHeaders p \<and>
        path_parts (rq_path r) = [''api'', ''v1'', ''auth'', ''users'', encodeURIComponent u, ''can-create-repos'']) \<and>
     (\<exists>r. pg_inflight (ui_step date p (ClickActive u was)) = pg_inflight p @ [(PActive u was, r)] \<and>
        rq_method r = ''POST'' \<and> rq_token r = authHeaders p \<and>
        path_parts (rq_path r) = [''api'', ''v1'', ''auth'', ''users'', encodeURIComponent u, if was then ''deactivate'' else ''reactivate'']) \<and>
     (\<exists>r. pg_inflight (ui_run date p [ClickDelete u, ConfirmDelete]) = pg_inflight p @ [(PDelete u, r)] \<and>
        rq_method r = ''DELETE'' \<and> rq_token r = authHeaders p \<and>
        path_parts (rq_path r) = [''api'', ''v1'', ''auth'', ''users'', encodeURIComponent u])"
proof -
  note parts = user_path_parts [OF encoded_plain [OF assms(1,2)]]
  show ?thesis
    using assms(3) plain_names
    by (auto simp: decode_encoded toggleGlobalAdmin_def toggleCanCreateRepos_def toggleUser_def send_def auth_request_def parts
        ui_run_def promptDeleteUser_def confirmDelete_def truthy_text_def authHeaders_def)
qed

theorem user_requests_reach_user_witness:
  "\<exists>r. pg_inflight (ui_step (\<lambda>_. []) (blank_page False) (ClickGlobalAdmin ''a/../b?%'' True)) =
       [(PGlobalAdmin ''a/../b?%'' True, r)] \<and>
     decodeURIComponent (path_parts (rq_path r) ! 4) = ''a/../b?%''"
proof -
  have "''a/../b?%'' \<noteq> ''.''" "''a/../b?%'' \<noteq> ''..''" "''a/../b?%'' \<noteq> []" by simp_all
  moreover have "pg_inflight (blank_page False) = []" by (simp add: blank_page_def)
  ultimately show ?thesis
    using user_requests_reach_user [of "''a/../b?%''" "\<lambda>_. []" "blank_page False" True] by force
qed

text \<open>An account of the name \<open>..\<close> can be created but not be deleted: the request goes elsewhere.\<close>

lemma dot_user_unreachable: "path_parts (user_path ''..'' []) = [''api'', ''v1'', ''auth'', []]"
  by (simp add: path_parts_def user_path_def encodeURIComponent_def encode_unit_def unreserved_def double_dot_def single_dot_def)

section \<open>The audit log tells what happened\<close>

text \<open>The event an answer logs when its action succeeded, with the repository that is selected by then.\<close>

definition audit_of :: "string \<Rightarrow> pending \<Rightarrow> (string \<times> (string \<times> json) list) option" where
  "audit_of repoId pd =
     (case pd of
        PCreateRepo r \<Rightarrow> Some (''Repository created'', [(''repoId'', JStr r)])
      | PGrantRole u role \<Rightarrow> Some (''Repo role granted'', [(''repoId'', JStr repoId), (''username'', JStr u), (''role'', JStr role)])
      | PRevokeRole u \<Rightarrow> Some (''Repo role revoked'', [(''repoId'', JStr repoId), (''username'', JStr u)])
      | PGlobalAdmin u was \<Rightarrow> Some (''User global-admin toggled'', [(''username'', JStr u), (''isGlobalAdmin'', JBool (\<not> was))])
      | PCanCreate u was \<Rightarrow> Some (''User can-create-repos toggled'', [(''username'', JStr u), (''canCreateRepos'', JBool (\<not> was))])
      | PActive u was \<Rightarrow> Some (''User active status toggled'', [(''username'', JStr u), (''active'', JBool (\<not> was))])
      | PDelete u \<Rightarrow> Some (''User deleted'', [(''username'', JStr u)])
      | PCreateUser u \<Rightarrow> Some (''User created'', [(''username'', JStr u)])
      | PTrustKey a \<Rightarrow> Some (''Addon key trusted'', [(''addonName'', JStr a)])
      | PRevokeTrust a \<Rightarrow> Some (''Addon trust revoked'', [(''addonName'', JStr a)])
      | _ \<Rightarrow> None)"

definition succeeded :: "answer \<Rightarrow> bool" where
  "succeeded a = (case a of Unreachable \<Rightarrow> False | Answer status _ \<Rightarrow> res_ok status)"

lemma audit_frame [simp]:
  "pg_auditEvents (set_message sl t e p) = pg_auditEvents p" "pg_auditEvents (clear_message sl p) = pg_auditEvents p"
  "pg_auditEvents (showToast t e p) = pg_auditEvents p" "pg_auditEvents (send pd rq p) = pg_auditEvents p"
  "pg_auditEvents (tile n k p) = pg_auditEvents p" "pg_auditEvents (populateRepoSelect xs p) = pg_auditEvents p"
  "pg_auditEvents (arm tm d p) = pg_auditEvents p" "pg_auditEvents (clearTokenTimer p) = pg_auditEvents p"
  by (simp_all add: set_message_def clear_message_def showToast_def send_def tile_def populateRepoSelect_def Let_def arm_def
      clearTokenTimer_def split: option.splits)

lemma audit_frame_loads [simp]:
  "pg_auditEvents (loadUsers p) = pg_auditEvents p" "pg_auditEvents (loadTrustedAddons p) = pg_auditEvents p"
  "pg_auditEvents (loadReposAndDirectory p) = pg_auditEvents p" "pg_auditEvents (loadRepoRoles r p) = pg_auditEvents p"
  "pg_auditEvents (clearDeletePrompt p) = pg_auditEvents p" "pg_auditEvents (scheduleTokenRenewal e p) = pg_auditEvents p"
  "pg_auditEvents (refreshDashboardTiles p) = pg_auditEvents p" "pg_auditEvents (refreshAccessToken b p) = pg_auditEvents p"
  "pg_auditEvents (showForm p) = pg_auditEvents p" "pg_auditEvents (renderUsers date xs p) = pg_auditEvents p"
  "pg_auditEvents (renderRepos date xs p) = pg_auditEvents p" "pg_auditEvents (repos_failed a p) = pg_auditEvents p"
  by (simp_all add: loadUsers_def loadTrustedAddons_def loadReposAndDirectory_def loadRepoRoles_def clearDeletePrompt_def
      scheduleTokenRenewal_def refreshDashboardTiles_def refreshAccessToken_def showForm_def renderUsers_def renderRepos_def
      repos_failed_def Let_def split: answer.splits)

definition audit_entry :: "string option \<Rightarrow> string \<Rightarrow> (string \<times> json) list \<Rightarrow> audit_event" where
  "audit_entry user action details =
     \<lparr>ae_action = action, ae_details = details, ae_actor = (if truthy_text user then the user else ''anonymous'')\<rparr>"

definition session_details :: "string option \<Rightarrow> bool \<Rightarrow> (string \<times> json) list" where
  "session_details user isAdmin =
     (case user of None \<Rightarrow> [] | Some u \<Rightarrow> [(''username'', JStr u)]) @ [(''isGlobalAdmin'', JBool isAdmin)]"

text \<open>What the arrival of an answer may add to the log: a confirmed action, or a session that was opened.\<close>

definition audit_spec :: "page \<Rightarrow> pending \<Rightarrow> answer \<Rightarrow> audit_event list" where
  "audit_spec p pd a =
     (if pd = PLogin \<or> pd = PRestore then
        (case a of
           Answer status body \<Rightarrow>
             if res_ok status then
               (case login_data body of
                  Some (_, user, isAdmin) \<Rightarrow> [audit_entry user ''Session authenticated'' (session_details user isAdmin)]
                | None \<Rightarrow> [])
             else []
         | Unreachable \<Rightarrow> [])
      else case audit_of (pg_rolesRepo p) pd of
             None \<Rightarrow> []
           | Some (action, details) \<Rightarrow>
               if succeeded a \<or> (\<exists>n. pd = PRevokeTrust n) \<and> a \<noteq> Unreachable
               then [audit_entry (pg_currentUsername p) action details] else [])"

lemma log_entry: "pg_auditEvents (logAuditEvent action details p) = audit_entry (pg_currentUsername p) action details # pg_auditEvents p"
  by (simp add: logAuditEvent_def audit_entry_def)

lemma reported_log:
  "pg_auditEvents (reported sl m t action details p) = audit_entry (pg_currentUsername p) action details # pg_auditEvents p"
  by (simp add: reported_def log_entry showToast_def set_message_def)

lemma concluded_log:
  "pg_auditEvents (concluded sl m t success a p) = (if succeeded a then pg_auditEvents (success p) else pg_auditEvents p)"
  by (simp add: concluded_def succeeded_def Let_def split: answer.splits option.splits)

lemma loaded_log:
  "pg_auditEvents (loaded k rendered failed a p) = pg_auditEvents p"
  if "\<And>xs. pg_auditEvents (rendered xs p) = pg_auditEvents p" "pg_auditEvents (failed p) = pg_auditEvents p"
  using that by (simp add: loaded_def split: answer.splits option.splits)

lemma showSession_log:
  "pg_auditEvents (showSession user isAdmin p) =
     audit_entry user ''Session authenticated'' (session_details user isAdmin) # pg_auditEvents p"
  by (simp add: showSession_def Let_def startLiveRefresh_def log_entry session_details_def)

lemma answered_log: "pg_auditEvents (answered date pd a p) = audit_spec p pd a @ pg_auditEvents p"
proof (cases pd)
  case PLogin
  then show ?thesis
    by (auto simp: answered_def audit_spec_def login_answered_def Let_def showSession_log split: answer.splits option.splits)
next
  case PRestore
  then show ?thesis
    by (auto simp: answered_def audit_spec_def restore_answered_def showSession_log split: answer.splits option.splits)
next
  case (PRefresh b)
  then show ?thesis
    by (auto simp: answered_def audit_spec_def audit_of_def refresh_answered_def split: option.splits)
next
  case (PRevokeTrust n)
  then show ?thesis
    by (auto simp: answered_def audit_spec_def audit_of_def trust_revoked_def succeeded_def log_entry showToast_def split: answer.splits)
qed (simp_all add: answered_def audit_spec_def audit_of_def loaded_log concluded_log reported_log Let_def
      repo_created_def role_granted_def role_revoked_def globalAdmin_toggled_def canCreate_toggled_def active_toggled_def
      user_deleted_def user_created_def key_trusted_def setup_answered_def)

text \<open>
  C21. The audit log only grows, by at most one event at a time, and only when an answer arrives: an
  action is logged exactly when the server confirmed it, with its data and the account that is signed in
  at that moment, and a session exactly when the server opened one. One action is an exception: the
  revocation of an addon's key is logged whatever status the answer has.
\<close>

theorem audit_log_exact:
  "pg_auditEvents (ui_step date p ev) =
     (case ev of
        AnswerArrives i a \<Rightarrow> if i < length (pg_inflight p) then audit_spec p (fst (pg_inflight p ! i)) a else []
      | _ \<Rightarrow> []) @ pg_auditEvents p"
proof (cases ev)
  case (AnswerArrives i a)
  have "audit_spec (p\<lparr>pg_inflight := xs\<rparr>) pd a = audit_spec p pd a" for xs pd
    by (auto simp: audit_spec_def split: option.splits)
  with AnswerArrives show ?thesis by (simp add: answer_arrives_def answered_log)
qed (simp_all add: submitLogin_def submitRepo_def selectRepo_def submitGrant_def revokeRepoRole_def toggleGlobalAdmin_def
      toggleCanCreateRepos_def toggleUser_def promptDeleteUser_def confirmDelete_def submitUser_def revokeTrust_def submitTrust_def
      submitSetup_def clickLogout_def timer_fires_def Let_def split: option.splits)

text \<open>A revocation that the server refused is reported as done.\<close>

lemma refused_revocation_logged:
  "map ae_action (pg_auditEvents (ui_run date (blank_page False) [ClickRevokeTrust ''x'', AnswerArrives 0 (Answer 403 None)])) =
     [''Addon trust revoked'']"
  by (simp add: ui_run_def blank_page_def revokeTrust_def send_def answer_arrives_def answered_def trust_revoked_def
      loadTrustedAddons_def showToast_def logAuditEvent_def truthy_text_def)

text \<open>A grant is logged for the repository that is selected when the answer comes, not for the one it went to.\<close>

lemma grant_logged_for_other_repo:
  "map ae_details (pg_auditEvents (ui_run date ((blank_page False)\<lparr>pg_rolesRepo := ''a''\<rparr>)
      [SubmitGrant ''bob'' ''reader'', SelectRepo ''b'', AnswerArrives 0 (Answer 200 None)])) =
     [[(''repoId'', JStr ''b''), (''username'', JStr ''bob''), (''role'', JStr ''reader'')]]"
proof -
  have t: "js_trim ''bob'' = ''bob''" by code_simp
  show ?thesis
    by (simp add: t ui_run_def submitGrant_def selectRepo_def loadRepoRoles_def clear_message_def send_def answer_arrives_def
        answered_def role_granted_def concluded_log concluded_def res_ok_def reported_log audit_entry_def blank_page_def)
qed

text \<open>What one operator did is still in the report the next operator copies.\<close>

lemma log_survives_sign_out: "pg_auditEvents (showForm p) = pg_auditEvents p"
  by simp

section \<open>A session stays renewed\<close>

definition is_refresh :: "pending \<Rightarrow> bool" where
  "is_refresh pd = (case pd of PRefresh _ \<Rightarrow> True | _ \<Rightarrow> False)"

definition refreshing :: "page \<Rightarrow> bool" where
  "refreshing p = list_ex (\<lambda>(pd, _). is_refresh pd) (pg_inflight p)"

definition timer_ok :: "nat \<times> timer \<times> int \<Rightarrow> bool" where
  "timer_ok t = (case t of (_, Renewal, d) \<Rightarrow> 10000 \<le> d \<and> d \<le> 60000 | (_, Retry, d) \<Rightarrow> d = 30000)"

text \<open>
  The state of the session agrees with itself, and while somebody is signed in a renewal is on its way:
  a timer is armed or a refresh is in flight.
\<close>

definition session_ok :: "page \<Rightarrow> bool" where
  "session_ok p \<longleftrightarrow>
     (signed_in p \<longleftrightarrow> pg_currentUsername p \<noteq> None) \<and> (signed_in p \<longleftrightarrow> truthy_text (pg_accessToken p)) \<and>
     (pg_isGlobalAdmin p \<longrightarrow> signed_in p) \<and> (pg_liveRefresh p \<longleftrightarrow> signed_in p) \<and>
     (signed_in p \<longrightarrow> pg_timers p \<noteq> [] \<or> refreshing p) \<and> list_all timer_ok (pg_timers p)"

definition session_part ::
  "page \<Rightarrow> string option \<times> string option \<times> bool \<times> bool \<times> (nat \<times> timer \<times> int) list \<times> bool" where
  "session_part p =
     (pg_currentUsername p, pg_accessToken p, pg_isGlobalAdmin p, pg_liveRefresh p, pg_timers p, refreshing p)"

lemma session_ok_part: "session_part p = session_part q \<Longrightarrow> session_ok p = session_ok q"
  by (simp add: session_part_def session_ok_def signed_in_def)

lemma part_send: "\<not> is_refresh pd \<Longrightarrow> session_part (send pd rq p) = session_part p"
  by (simp add: session_part_def send_def refreshing_def)

lemma part_frame [simp]:
  "session_part (set_message sl t e p) = session_part p" "session_part (clear_message sl p) = session_part p"
  "session_part (showToast t e p) = session_part p" "session_part (logAuditEvent act det p) = session_part p"
  "session_part (tile n k p) = session_part p" "session_part (populateRepoSelect xs p) = session_part p"
  "session_part (clearDeletePrompt p) = session_part p" "session_part (reported sl m t act det p) = session_part p"
  by (simp_all add: session_part_def refreshing_def set_message_def clear_message_def showToast_def logAuditEvent_def tile_def
      populateRepoSelect_def clearDeletePrompt_def reported_def Let_def)

lemma part_tables [simp]:
  "session_part (p\<lparr>pg_users := t\<rparr>) = session_part p" "session_part (p\<lparr>pg_repos := t\<rparr>) = session_part p"
  "session_part (p\<lparr>pg_roles := t\<rparr>) = session_part p" "session_part (p\<lparr>pg_trusted := t\<rparr>) = session_part p"
  "session_part (p\<lparr>pg_redirected := b\<rparr>) = session_part p" "session_part (p\<lparr>pg_pendingDelete := u\<rparr>) = session_part p"
  "session_part (p\<lparr>pg_repoSelect := s, pg_rolesRepo := r\<rparr>) = session_part p"
  "session_part (p\<lparr>pg_repos := t, pg_repoOptions := xs, pg_repoSelect := s\<rparr>) = session_part p"
  "session_part (p\<lparr>pg_knownUsernames := k\<rparr>) = session_part p"
  by (simp_all add: session_part_def refreshing_def)

lemma part_loads [simp]:
  "session_part (loadUsers p) = session_part p" "session_part (loadTrustedAddons p) = session_part p"
  "session_part (loadReposAndDirectory p) = session_part p" "session_part (loadRepoRoles r p) = session_part p"
  "session_part (refreshDashboardTiles p) = session_part p" "session_part (renderUsers date xs p) = session_part p"
  "session_part (renderRepos date xs p) = session_part p" "session_part (repos_failed a p) = session_part p"
  by (simp_all add: loadUsers_def loadTrustedAddons_def loadReposAndDirectory_def loadRepoRoles_def refreshDashboardTiles_def
      renderUsers_def renderRepos_def repos_failed_def part_send is_refresh_def Let_def split: answer.splits)

lemma part_concluded:
  assumes "\<And>p. session_part (success p) = session_part p"
  shows "session_part (concluded sl m t success a p) = session_part p"
  using assms by (simp add: concluded_def Let_def split: answer.splits option.splits)

lemma part_loaded:
  assumes "\<And>xs p. session_part (rendered xs p) = session_part p" and "\<And>p. session_part (failed p) = session_part p"
  shows "session_part (loaded k rendered failed a p) = session_part p"
  using assms by (simp add: loaded_def split: answer.splits option.splits)

definition session_pending :: "pending \<Rightarrow> bool" where
  "session_pending pd \<longleftrightarrow> pd \<in> {PLogin, PRestore, PLogout} \<or> is_refresh pd"

lemma part_answered: "\<not> session_pending pd \<Longrightarrow> session_part (answered date pd a p) = session_part p"
  by (cases pd) (simp_all add: answered_def session_pending_def is_refresh_def part_concluded part_loaded Let_def
      repo_created_def role_granted_def role_revoked_def globalAdmin_toggled_def canCreate_toggled_def active_toggled_def
      user_deleted_def user_created_def key_trusted_def setup_answered_def trust_revoked_def split: answer.splits)

lemma part_taken:
  assumes "i < length (pg_inflight p)" and "\<not> is_refresh (fst (pg_inflight p ! i))"
  shows "session_part (p\<lparr>pg_inflight := take i (pg_inflight p) @ drop (Suc i) (pg_inflight p)\<rparr>) = session_part p"
proof -
  have "pg_inflight p = take i (pg_inflight p) @ pg_inflight p ! i # drop (Suc i) (pg_inflight p)"
    using assms(1) by (rule id_take_nth_drop)
  then have "refreshing p = list_ex (\<lambda>(pd, _). is_refresh pd) (take i (pg_inflight p) @ pg_inflight p ! i # drop (Suc i) (pg_inflight p))"
    unfolding refreshing_def by (rule arg_cong)
  then have "list_ex (\<lambda>(pd, _). is_refresh pd) (take i (pg_inflight p) @ drop (Suc i) (pg_inflight p)) = refreshing p"
    using assms(2) by (simp add: case_prod_beta)
  then show ?thesis by (simp add: session_part_def refreshing_def)
qed

lemma renew_delay_bounds: "10000 \<le> renew_delay e \<and> renew_delay e \<le> 60000"
  by (simp add: renew_delay_def Let_def)

text \<open>A page with a name and a token is in order once a timer is armed; so is a page after the sign-out.\<close>

lemma clear_part:
  "pg_currentUsername (clearTokenTimer p) = pg_currentUsername p" "pg_accessToken (clearTokenTimer p) = pg_accessToken p"
  "pg_isGlobalAdmin (clearTokenTimer p) = pg_isGlobalAdmin p" "pg_liveRefresh (clearTokenTimer p) = pg_liveRefresh p"
  "list_all timer_ok (pg_timers p) \<Longrightarrow> list_all timer_ok (pg_timers (clearTokenTimer p))"
  by (auto simp: clearTokenTimer_def list_all_iff split: option.splits)

lemma scheduled_ok:
  assumes "truthy_text (pg_currentUsername p)" and "truthy_text (pg_accessToken p)" and "pg_liveRefresh p"
    and "list_all timer_ok (pg_timers p)"
  shows "session_ok (scheduleTokenRenewal e p)"
  using assms renew_delay_bounds [of e]
  by (auto simp: session_ok_def scheduleTokenRenewal_def arm_def clear_part signed_in_def truthy_text_def timer_ok_def)

lemma live_part: "session_part (startLiveRefresh p) = (case session_part p of (u, t, g, l, ts, r) \<Rightarrow> (u, t, g, True, ts, r))"
proof -
  have "session_part (refreshDashboardTiles (p\<lparr>pg_liveRefresh := False\<rparr>)) = session_part (p\<lparr>pg_liveRefresh := False\<rparr>)" by simp
  then show ?thesis by (simp add: startLiveRefresh_def session_part_def refreshing_def)
qed

lemma shown_session_ok:
  assumes "truthy_text username" and "truthy_text (pg_accessToken p)" and "list_all timer_ok (pg_timers p)"
  shows "session_ok (showSession username isAdmin p)"
proof -
  define q where "q = p\<lparr>pg_currentUsername := username, pg_isGlobalAdmin := isAdmin\<rparr>"
  define p3 where "p3 = (let p2 = logAuditEvent ''Session authenticated''
      ((case username of None \<Rightarrow> [] | Some u \<Rightarrow> [(''username'', JStr u)]) @ [(''isGlobalAdmin'', JBool isAdmin)]) q
    in if isAdmin then loadReposAndDirectory (loadTrustedAddons (loadUsers p2)) else p2)"
  have "session_part p3 = session_part q" by (simp add: p3_def Let_def)
  then have "session_part (startLiveRefresh p3) = (username, pg_accessToken p, isAdmin, True, pg_timers p, refreshing q)"
    by (simp add: live_part) (simp add: q_def session_part_def)
  then have "session_ok (scheduleTokenRenewal None (startLiveRefresh p3))"
    using assms by (intro scheduled_ok) (simp_all add: session_part_def)
  then show ?thesis by (simp add: showSession_def p3_def q_def Let_def)
qed

text \<open>
  An orderly event: a server that opens a session gives a token and a name, the answer to a refresh
  finds somebody signed in, and the retry of a renewal does not fail as well.
\<close>

definition opens_ok :: "answer \<Rightarrow> bool" where
  "opens_ok a =
     (case a of
        Unreachable \<Rightarrow> True
      | Answer status body \<Rightarrow>
          \<not> res_ok status \<or> (case login_data body of None \<Rightarrow> True | Some (token, user, _) \<Rightarrow> truthy_text token \<and> truthy_text user))"

definition orderly_answer :: "page \<Rightarrow> pending \<Rightarrow> answer \<Rightarrow> bool" where
  "orderly_answer p pd a =
     (case pd of
        PLogin \<Rightarrow> opens_ok a
      | PRestore \<Rightarrow> opens_ok a
      | PRefresh scheduled \<Rightarrow> signed_in p \<and> (scheduled \<or> refreshed_token a \<noteq> None)
      | _ \<Rightarrow> True)"

definition orderly_event :: "page \<Rightarrow> ui_event \<Rightarrow> bool" where
  "orderly_event p ev =
     (case ev of
        AnswerArrives i a \<Rightarrow> i < length (pg_inflight p) \<longrightarrow> orderly_answer p (fst (pg_inflight p ! i)) a
      | _ \<Rightarrow> True)"

fun orderly :: "show_date \<Rightarrow> page \<Rightarrow> ui_event list \<Rightarrow> bool" where
  "orderly date p [] \<longleftrightarrow> True"
| "orderly date p (ev # evs) \<longleftrightarrow> orderly_event p ev \<and> orderly date (ui_step date p ev) evs"

lemma signed_out_ok: "list_all timer_ok (pg_timers p) \<Longrightarrow> session_ok (showForm p)"
  by (simp add: showForm_def session_ok_def signed_in_def clear_part truthy_text_def)

lemma opened_ok:
  assumes "session_ok p" and "opens_ok a"
  shows "session_ok (login_answered a p)" and "session_ok (restore_answered a p)"
proof -
  have t: "list_all timer_ok (pg_timers (p\<lparr>pg_accessToken := token\<rparr>))" for token using assms(1) by (simp add: session_ok_def)
  have msg: "session_ok (showToast m e (set_message sl m' e' p))" for m e sl m' e'
    using assms(1) session_ok_part [of "showToast m e (set_message sl m' e' p)" p] by simp
  have opened: "session_ok (showToast m e (showSession user isAdmin (p\<lparr>pg_accessToken := token\<rparr>)))"
    "session_ok (showSession user isAdmin (p\<lparr>pg_accessToken := token\<rparr>))"
    if "truthy_text token" "truthy_text user" for m e user isAdmin token
  proof -
    show "session_ok (showSession user isAdmin (p\<lparr>pg_accessToken := token\<rparr>))"
      using that t by (intro shown_session_ok) simp_all
    then show "session_ok (showToast m e (showSession user isAdmin (p\<lparr>pg_accessToken := token\<rparr>)))"
      using session_ok_part [of "showToast m e (showSession user isAdmin (p\<lparr>pg_accessToken := token\<rparr>))"] by simp
  qed
  show "session_ok (login_answered a p)"
    using assms(2) msg opened(1)
    by (auto simp: login_answered_def opens_ok_def Let_def split: answer.splits option.splits)
  show "session_ok (restore_answered a p)"
    using assms opened(2) by (auto simp: restore_answered_def opens_ok_def split: answer.splits option.splits)
qed

lemma taken_sel [simp]:
  "signed_in (p\<lparr>pg_inflight := xs\<rparr>) = signed_in p" "orderly_answer (p\<lparr>pg_inflight := xs\<rparr>) pd a = orderly_answer p pd a"
  by (simp_all add: signed_in_def orderly_answer_def split: pending.splits)

lemma refreshed_ok:
  assumes "session_ok p" and "signed_in p" and "scheduled \<or> refreshed_token a \<noteq> None"
  shows "session_ok (refresh_answered scheduled a (p\<lparr>pg_inflight := xs\<rparr>))"
proof (cases "refreshed_token a")
  case None
  with assms show ?thesis
    by (simp add: refresh_answered_def arm_def session_ok_def timer_ok_def) (simp add: signed_in_def)
next
  case (Some te)
  obtain t e where te: "te = (t, e)" by (cases te)
  have "t \<noteq> []" using Some te by (auto simp: refreshed_token_def split: answer.splits if_splits option.splits)
  then have "session_ok (scheduleTokenRenewal e (p\<lparr>pg_inflight := xs, pg_accessToken := Some t\<rparr>))"
    using assms(1,2) by (intro scheduled_ok) (simp_all add: session_ok_def signed_in_def truthy_text_def)
  with Some te show ?thesis by (simp add: refresh_answered_def)
qed

lemma answer_ok:
  assumes "session_ok p" and "i < length (pg_inflight p)" and "orderly_answer p (fst (pg_inflight p ! i)) a"
  shows "session_ok (answer_arrives date i a p)"
proof -
  let ?pd = "fst (pg_inflight p ! i)" and ?q = "p\<lparr>pg_inflight := take i (pg_inflight p) @ drop (Suc i) (pg_inflight p)\<rparr>"
  have step: "answer_arrives date i a p = answered date ?pd a ?q" using assms(2) by (simp add: answer_arrives_def)
  show ?thesis
  proof (cases "is_refresh ?pd")
    case True
    then obtain b where b: "?pd = PRefresh b" by (auto simp: is_refresh_def split: pending.splits)
    with assms show ?thesis unfolding step
      by (simp add: answered_def) (rule refreshed_ok, simp_all add: orderly_answer_def)
  next
    case False
    have q: "session_ok ?q" using session_ok_part [OF part_taken [OF assms(2) False]] assms(1) by simp
    show ?thesis
    proof (cases "session_pending ?pd")
      case True
      with False consider "?pd = PLogin" | "?pd = PRestore" | "?pd = PLogout" by (auto simp: session_pending_def)
      then show ?thesis
      proof cases
        case 3
        have "session_ok (showForm ?q)" using q by (intro signed_out_ok) (simp add: session_ok_def)
        then have "session_ok (showToast ''Signed out'' False (showForm ?q))"
          using session_ok_part [of "showToast ''Signed out'' False (showForm ?q)"] by simp
        with 3 show ?thesis unfolding step by (simp add: answered_def)
      qed (use assms(3) opened_ok [OF q] step in \<open>simp_all add: answered_def orderly_answer_def\<close>)
    next
      case False
      with q session_ok_part [OF part_answered] show ?thesis unfolding step by blast
    qed
  qed
qed

lemma timer_fires_ok:
  assumes "session_ok p"
  shows "session_ok (timer_fires t p)"
proof (cases "map_of (pg_timers p) t")
  case None
  with assms show ?thesis by (simp add: timer_fires_def)
next
  case (Some td)
  obtain tm d where td: "td = (tm, d)" by (cases td)
  have l: "list_all timer_ok (filter (\<lambda>(i, _). i \<noteq> t) (pg_timers p))"
    using assms by (auto simp: session_ok_def list_all_iff)
  show ?thesis
  proof (cases "signed_in p")
    case True
    with assms Some td l show ?thesis
      by (auto simp: timer_fires_def refreshAccessToken_def send_def session_ok_def signed_in_def refreshing_def is_refresh_def)
  next
    case False
    with assms Some td l show ?thesis
      by (auto simp: timer_fires_def refreshAccessToken_def session_ok_def signed_in_def)
  qed
qed

lemma step_ok:
  assumes "session_ok p" and "orderly_event p ev"
  shows "session_ok (ui_step date p ev)"
proof -
  have same: "session_ok q" if "session_part q = session_part p" for q using session_ok_part [OF that] assms(1) by simp
  show ?thesis
  proof (cases ev)
    case (TimerFires t)
    with assms(1) timer_fires_ok show ?thesis by simp
  next
    case (AnswerArrives i a)
    show ?thesis
    proof (cases "i < length (pg_inflight p)")
      case True
      with assms AnswerArrives answer_ok show ?thesis by (simp add: orderly_event_def)
    next
      case False
      with assms(1) AnswerArrives show ?thesis by (simp add: answer_arrives_def)
    qed
  qed (rule same, simp add: part_send is_refresh_def Let_def submitLogin_def submitRepo_def selectRepo_def submitGrant_def revokeRepoRole_def
      toggleGlobalAdmin_def toggleCanCreateRepos_def toggleUser_def promptDeleteUser_def confirmDelete_def submitUser_def
      revokeTrust_def submitTrust_def submitSetup_def clickLogout_def)+
qed

lemma run_ok: "session_ok p \<Longrightarrow> orderly date p evs \<Longrightarrow> session_ok (ui_run date p evs)"
  by (induction evs arbitrary: p) (simp_all add: ui_run_def step_ok)

text \<open>
  C20. Whatever the operator does and in whatever order timers fire and answers come: on a page whose
  events are orderly the session is consistent (name, token, administrator flag and live refresh go
  together), every armed renewal is due after 10 to 60 seconds, and while somebody is signed in a
  renewal is armed or in flight. Orderly means that the server opens sessions with a name and a token,
  that no refresh is answered after the sign-out, and that the retry of a failed renewal succeeds.
\<close>

theorem session_stays_renewed:
  assumes "orderly date (restoreSessionOnLoad setup) evs"
    and "p = ui_run date (restoreSessionOnLoad setup) evs"
  shows "(signed_in p \<longleftrightarrow> pg_currentUsername p \<noteq> None) \<and> (signed_in p \<longleftrightarrow> truthy_text (pg_accessToken p)) \<and>
     (pg_isGlobalAdmin p \<longrightarrow> signed_in p) \<and> (pg_liveRefresh p \<longleftrightarrow> signed_in p) \<and>
     (signed_in p \<longrightarrow> pg_timers p \<noteq> [] \<or> (\<exists>b r. (PRefresh b, r) \<in> set (pg_inflight p))) \<and>
     (\<forall>t tm d. (t, tm, d) \<in> set (pg_timers p) \<longrightarrow> 10000 \<le> d \<and> d \<le> 60000)"
proof -
  have "session_ok (restoreSessionOnLoad setup)"
    by (simp add: restoreSessionOnLoad_def send_def blank_page_def session_ok_def signed_in_def truthy_text_def)
  then have ok: "session_ok p" using run_ok assms by simp
  have "\<exists>b r. (PRefresh b, r) \<in> set (pg_inflight p)" if "refreshing p"
    using that by (force simp: refreshing_def list_ex_iff is_refresh_def split: pending.splits)
  moreover have "10000 \<le> d \<and> d \<le> 60000" if "(t, tm, d) \<in> set (pg_timers p)" for t tm d
  proof -
    have "timer_ok (t, tm, d)" using ok that by (auto simp: session_ok_def list_all_iff)
    then show ?thesis by (cases tm) (simp_all add: timer_ok_def)
  qed
  ultimately show ?thesis using ok by (auto simp: session_ok_def)
qed

definition login_answer :: answer where
  "login_answer = Answer 200 (Some (JObj [(''accessToken'', JStr ''t1''), (''username'', JStr ''ann''), (''isGlobalAdmin'', JBool True)]))"

definition refresh_answer :: answer where
  "refresh_answer = Answer 200 (Some (JObj [(''accessToken'', JStr ''t2''), (''expiresInSeconds'', JNum 900)]))"

text \<open>A sign-in, a renewal that fails, and its retry that succeeds.\<close>

definition sample_session :: "ui_event list" where
  "sample_session = [AnswerArrives 0 (Answer 401 None), SubmitLogin ''ann'' ''pw'', AnswerArrives 0 login_answer,
     TimerFires 1, AnswerArrives 6 Unreachable, TimerFires 2, AnswerArrives 6 refresh_answer]"

theorem session_stays_renewed_witness:
  "let p = ui_run (\<lambda>_. []) (restoreSessionOnLoad False) sample_session
   in signed_in p \<and> pg_accessToken p = Some ''t2'' \<and> pg_timers p = [(3, Renewal, 60000)] \<and> pg_liveRefresh p \<and>
      (\<forall>t tm d. (t, tm, d) \<in> set (pg_timers p) \<longrightarrow> 10000 \<le> d \<and> d \<le> 60000)"
proof -
  define p where "p = ui_run (\<lambda>_. []) (restoreSessionOnLoad False) sample_session"
  have o: "orderly (\<lambda>_. []) (restoreSessionOnLoad False) sample_session" by code_simp
  have "signed_in p \<and> pg_accessToken p = Some ''t2'' \<and> pg_timers p = [(3, Renewal, 60000)]" unfolding p_def by code_simp
  with session_stays_renewed [OF o p_def] show ?thesis by (simp add: p_def [symmetric] Let_def)
qed

text \<open>
  Without order the session lapses or leaks. When the retry fails too, nothing renews any more although
  the operator is still signed in.
\<close>

lemma renewal_can_lapse:
  "let p = ui_run (\<lambda>_. []) (restoreSessionOnLoad False)
       [AnswerArrives 0 login_answer, TimerFires 1, AnswerArrives 6 Unreachable, TimerFires 2, AnswerArrives 6 Unreachable]
   in signed_in p \<and> pg_timers p = [] \<and> \<not> refreshing p"
  by code_simp

text \<open>A refresh that is answered after the sign-out leaves a valid token and a timer on the login form.\<close>

lemma token_after_sign_out:
  "let p = ui_run (\<lambda>_. []) (restoreSessionOnLoad False)
       [AnswerArrives 0 login_answer, TimerFires 1, ClickLogout, AnswerArrives 7 (Answer 204 None), AnswerArrives 6 refresh_answer]
   in \<not> signed_in p \<and> pg_accessToken p = Some ''t2'' \<and> pg_timers p \<noteq> []"
  by code_simp

end
