(* ===== verification/AdminFlow.thy ===== *)
theory AdminFlow
  imports AdminUi AuthRouter
begin

text \<open>
  The page of the administrator and the routes of user management put together: how a request of the page
  reaches a route (\<open>contexts/auth/auth.router.ts\<close>), how the answer of the handler reaches the page, and
  what the two steps do to both sides. The matching of paths and the decoding of parameters are the
  framework's documented behaviour.
\<close>

section \<open>From the page to the server and back\<close>

text \<open>
  The routes of user management as \<open>createAuthRouter\<close> declares them, mounted at \<open>/api/v1/auth\<close>: the
  parts of the path, with the name of the account decoded as the framework does for a parameter.
\<close>

definition user_route :: "ms \<Rightarrow> request \<Rightarrow> admin_route option" where
  "user_route now r =
     (if take 4 (path_parts (rq_path r)) \<noteq> [''api'', ''v1'', ''auth'', ''users''] then None
      else case map decodeURIComponent (drop 4 (path_parts (rq_path r))) of
             [] \<Rightarrow>
               if rq_method r = ''GET'' then Some (RListUsers now)
               else if rq_method r = ''POST'' then Some (RCreateUser now) else None
           | [u] \<Rightarrow> if rq_method r = ''DELETE'' then Some (RDeleteUser u now) else None
           | [u, w] \<Rightarrow>
               if w = ''deactivate'' then if rq_method r = ''POST'' then Some (RDeactivate u) else None
               else if w = ''reactivate'' then if rq_method r = ''POST'' then Some (RReactivate u) else None
               else if w = ''global-admin'' then
                 if rq_method r = ''POST'' then Some (RGrantGlobalAdmin u)
                 else if rq_method r = ''DELETE'' then Some (RRevokeGlobalAdmin u now) else None
               else if w = ''can-create-repos'' then
                 if rq_method r = ''POST'' then Some (RGrantCreateRepos u)
                 else if rq_method r = ''DELETE'' then Some (RRevokeCreateRepos u) else None
               else None
           | _ \<Rightarrow> None)"

text \<open>What the browser sends for a request of the page, to its own origin.\<close>

definition page_request :: "request \<Rightarrow> http_request" where
  "page_request r =
     \<lparr>rq_authorization = map_option (\<lambda>t. ''Bearer '' @ t) (rq_token r), rq_forwardedProto = None, rq_urlIsHttps = False,
      rq_origin = None, rq_host = None, rq_cookie = None, rq_json = rq_body r\<rparr>"

definition user_json :: "user_summary \<Rightarrow> json" where
  "user_json u =
     JObj [(''username'', JStr (us_username u)), (''createdAt'', JNum (us_createdAt u)), (''createdBy'', JStr (us_createdBy u)),
       (''active'', JBool (us_active u)),
       (''lastLoginAt'', case us_lastLoginAt u of None \<Rightarrow> JNull | Some t \<Rightarrow> JNum t),
       (''isGlobalAdmin'', JBool (us_isGlobalAdmin u)), (''canCreateRepos'', JBool (us_canCreateRepos u)),
       (''activeSessions'', JNum (int (us_activeSessions u)))]"

fun reason_text :: "setup_reason \<Rightarrow> string" where
  "reason_text NotConfigured = ''not_configured''"
| "reason_text UsersExist = ''users_exist''"
| "reason_text BootstrapEnvConfigured = ''bootstrap_env_configured''"

text \<open>The bodies of the answers; the list of issues of an invalid body is left out.\<close>

fun auth_json :: "auth_body \<Rightarrow> json" where
  "auth_json (ABError m) = JObj [(''error'', JStr m)]"
| "auth_json ABInvalid = JObj [(''error'', JStr ''Invalid request body'')]"
| "auth_json (ABSetup st) = JObj [(''eligible'', JBool (st_eligible st)), (''reason'', JStr (reason_text (st_reason st)))]"
| "auth_json (ABSetupDone r) = JObj [(''error'', JStr ''Setup already completed''), (''reason'', JStr (reason_text r))]"
| "auth_json (ABUserCreated u t) = JObj [(''user'', JObj [(''username'', JStr u), (''createdAt'', JNum t)])]"
| "auth_json (ABUser u t active adm ccr) =
     JObj [(''user'', JObj [(''username'', JStr u), (''createdAt'', JNum t), (''active'', JBool active),
       (''isGlobalAdmin'', JBool adm), (''canCreateRepos'', JBool ccr)])]"
| "auth_json (ABLogin r) =
     JObj ([(''username'', JStr (lr_username r)), (''accessToken'', JStr (lr_accessToken r)), (''refreshToken'', JStr (lr_refreshToken r)),
       (''expiresInSeconds'', JNum (lr_expiresInSeconds r)), (''isGlobalAdmin'', JBool (lr_isGlobalAdmin r))] @
       (case lr_canCreateRepos r of None \<Rightarrow> [] | Some b \<Rightarrow> [(''canCreateRepos'', JBool b)]))"
| "auth_json ABOk = JObj [(''ok'', JBool True)]"
| "auth_json (ABUsers us) = JObj [(''users'', JArr (map user_json us))]"

text \<open>An error that the handler throws becomes the framework's 500, whose text is no JSON.\<close>

definition delivered :: "auth_error + auth_body response \<Rightarrow> answer" where
  "delivered r =
     (case r of Inl _ \<Rightarrow> Answer 500 None | Inr rs \<Rightarrow> Answer (int (rs_status rs)) (Some (auth_json (rs_body rs))))"

text \<open>The server answers one of the user requests that are in flight.\<close>

definition exchange ::
  "('u, 's) auth_env \<Rightarrow> ms \<Rightarrow> show_date \<Rightarrow> nat \<Rightarrow> page \<times> ('u, 's) auth_state \<Rightarrow> page \<times> ('u, 's) auth_state" where
  "exchange E now date i c =
     (case c of (p, s) \<Rightarrow>
        if i < length (pg_inflight p)
        then let rq = snd (pg_inflight p ! i)
             in case user_route now rq of
                  None \<Rightarrow> (p, s)
                | Some r \<Rightarrow> (let (a, s') = admin_handle E r (page_request rq) s in (answer_arrives date i (delivered a) p, s'))
        else (p, s))"

section \<open>What the operator sees is what the server holds\<close>

text \<open>What a click on one of the three switches of a row asks for.\<close>

fun switched :: "ui_event \<Rightarrow> user_record \<Rightarrow> user_record" where
  "switched (ClickActive _ was) u = u\<lparr>u_active := \<not> was\<rparr>"
| "switched (ClickCanCreate _ was) u = u\<lparr>u_canCreateRepos := \<not> was\<rparr>"
| "switched (ClickGlobalAdmin _ was) u = u\<lparr>u_isGlobalAdmin := \<not> was\<rparr>"
| "switched _ u = u"

fun switch_audit :: "ui_event \<Rightarrow> string \<times> (string \<times> json) list" where
  "switch_audit (ClickActive u was) = (''User active status toggled'', [(''username'', JStr u), (''active'', JBool (\<not> was))])"
| "switch_audit (ClickCanCreate u was) =
     (''User can-create-repos toggled'', [(''username'', JStr u), (''canCreateRepos'', JBool (\<not> was))])"
| "switch_audit (ClickGlobalAdmin u was) =
     (''User global-admin toggled'', [(''username'', JStr u), (''isGlobalAdmin'', JBool (\<not> was))])"
| "switch_audit _ = ([], [])"

lemma users_path: "path_parts ''/api/v1/auth/users'' = [''api'', ''v1'', ''auth'', ''users'']"
  using parts_of_segments [of "[''api'', ''v1'', ''auth'', ''users'']"] plain_names by simp

lemma user_paths:
  assumes "plain_part (encodeURIComponent u)"
  shows "path_parts (user_path u ''/global-admin'') = [''api'', ''v1'', ''auth'', ''users'', encodeURIComponent u, ''global-admin'']"
    and "path_parts (user_path u ''/can-create-repos'') = [''api'', ''v1'', ''auth'', ''users'', encodeURIComponent u, ''can-create-repos'']"
    and "path_parts (user_path u ''/deactivate'') = [''api'', ''v1'', ''auth'', ''users'', encodeURIComponent u, ''deactivate'']"
    and "path_parts (user_path u ''/reactivate'') = [''api'', ''v1'', ''auth'', ''users'', encodeURIComponent u, ''reactivate'']"
  using user_path_parts(2) [OF assms] plain_names by simp_all

lemma decode_words:
  "decodeURIComponent ''deactivate'' = ''deactivate''" "decodeURIComponent ''reactivate'' = ''reactivate''"
  "decodeURIComponent ''global-admin'' = ''global-admin''" "decodeURIComponent ''can-create-repos'' = ''can-create-repos''"
  by code_simp+

text \<open>One of the three update operations of the service, for an account that exists.\<close>

lemma switch_operation:
  assumes "auth_ok s" and "sql_users_get u (au_users s) = Some row"
  shows "\<exists>s'. auth_setGlobalAdmin (createAuthEnv fk cfg) u b s = (Inr (), s') \<and> auth_ok s' \<and>
      (\<forall>k. sql_users_get k (au_users s') = (if k = u then Some (row\<lparr>u_isGlobalAdmin := b\<rparr>) else sql_users_get k (au_users s)))"
    and "\<exists>s'. auth_setCanCreateRepos (createAuthEnv fk cfg) u b s = (Inr (), s') \<and> auth_ok s' \<and>
      (\<forall>k. sql_users_get k (au_users s') = (if k = u then Some (row\<lparr>u_canCreateRepos := b\<rparr>) else sql_users_get k (au_users s)))"
    and "\<exists>s'. (if b then auth_reactivateUser (createAuthEnv fk cfg) u s else auth_deactivateUser (createAuthEnv fk cfg) u s) = (Inr (), s') \<and>
      auth_ok s' \<and>
      (\<forall>k. sql_users_get k (au_users s') = (if k = u then Some (row\<lparr>u_active := b\<rparr>) else sql_users_get k (au_users s)))"
proof -
  have uok: "user_db_ok (au_users s)" using assms(1) by (simp add: auth_ok_def)
  note laws = libsql_users.setGlobalAdmin_law [OF uok, where fk = fk, unfolded libsqlUserStore_sel]
    libsql_users.setActive_law [OF uok, where fk = fk, unfolded libsqlUserStore_sel]
    libsql_users.setCanCreateRepos_law [OF uok, where fk = fk, unfolded libsqlUserStore_sel]
  show "\<exists>s'. auth_setGlobalAdmin (createAuthEnv fk cfg) u b s = (Inr (), s') \<and> auth_ok s' \<and>
      (\<forall>k. sql_users_get k (au_users s') = (if k = u then Some (row\<lparr>u_isGlobalAdmin := b\<rparr>) else sql_users_get k (au_users s)))"
    using laws(1) [of u b] assms by (simp add: auth_setGlobalAdmin_def update_or_not_found_apply updates_user_def auth_ok_def)
  show "\<exists>s'. auth_setCanCreateRepos (createAuthEnv fk cfg) u b s = (Inr (), s') \<and> auth_ok s' \<and>
      (\<forall>k. sql_users_get k (au_users s') = (if k = u then Some (row\<lparr>u_canCreateRepos := b\<rparr>) else sql_users_get k (au_users s)))"
    using laws(3) [of u b] assms by (simp add: auth_setCanCreateRepos_def update_or_not_found_apply updates_user_def auth_ok_def)
  show "\<exists>s'. (if b then auth_reactivateUser (createAuthEnv fk cfg) u s else auth_deactivateUser (createAuthEnv fk cfg) u s) = (Inr (), s') \<and>
      auth_ok s' \<and>
      (\<forall>k. sql_users_get k (au_users s') = (if k = u then Some (row\<lparr>u_active := b\<rparr>) else sql_users_get k (au_users s)))"
    using laws(2) [of u b] assms
    by (cases b) (simp_all add: auth_reactivateUser_def auth_deactivateUser_def update_or_not_found_apply updates_user_def auth_ok_def)
qed

text \<open>A signed-in administrator: the token of the page is one that the server's gate lets through.\<close>

definition lets_through :: "('u, 's) auth_env \<Rightarrow> string \<Rightarrow> string \<Rightarrow> ('u, 's) auth_state \<Rightarrow> bool" where
  "lets_through E tok caller s \<longleftrightarrow>
     authenticateBearerToken (Some (''Bearer '' @ tok)) (ae_jwtVerify E) = Some caller \<and> auth_isGlobalAdmin E caller s"

lemma gate_open:
  "lets_through E tok caller s \<Longrightarrow> rq_token r = Some tok \<Longrightarrow> globalAdminGate E (page_request r) inner s = inner caller s"
  by (simp add: globalAdminGate_def lets_through_def page_request_def)

lemma list_exchange:
  assumes "pg_inflight p = fl @ [(PUsers, \<lparr>rq_method = ''GET'', rq_path = ''/api/v1/auth/users'', rq_token = Some tok, rq_body = b\<rparr>)]"
    and "lets_through E tok caller s"
  shows "exchange E now date (length fl) (p, s) =
    (renderUsers date (map user_json (auth_listUsers E now s)) (p\<lparr>pg_inflight := fl\<rparr>), s)"
  using assms by (simp add: exchange_def user_route_def users_path get_users_def gate_open answer_arrives_def answered_def delivered_def
      loaded_def res_ok_def readable_def list_field_def)

lemma users_shown:
  assumes "auth_listUsers E now s \<noteq> []"
  shows "pg_users (renderUsers date (map user_json (auth_listUsers E now s)) p) =
      Rows (map (\<lambda>u. user_row date (user_json u)) (auth_listUsers E now s))"
    and "pg_auditEvents (renderUsers date (map user_json (auth_listUsers E now s)) p) = pg_auditEvents p"
proof -
  have "JNull \<notin> set (map user_json us)" for us by (auto simp: user_json_def)
  then show "pg_users (renderUsers date (map user_json (auth_listUsers E now s)) p) =
      Rows (map (\<lambda>u. user_row date (user_json u)) (auth_listUsers E now s))"
    using assms by (simp add: renderUsers_def Let_def render_def comp_def)
  show "pg_auditEvents (renderUsers date (map user_json (auth_listUsers E now s)) p) = pg_auditEvents p" by simp
qed

text \<open>The page after the server confirmed a switch: the event is logged and the list is asked for again.\<close>

definition confirmed :: "ui_event \<Rightarrow> page \<Rightarrow> page \<Rightarrow> bool" where
  "confirmed ev p p' \<longleftrightarrow>
     pg_inflight p' = pg_inflight p @ [(PUsers, auth_request p ''GET'' ''/api/v1/auth/users'' None)] \<and>
     pg_auditEvents p' = audit_entry (pg_currentUsername p) (fst (switch_audit ev)) (snd (switch_audit ev)) # pg_auditEvents p"

lemma switch_exchange:
  assumes "ev = ClickActive u was \<or> ev = ClickCanCreate u was \<or> ev = ClickGlobalAdmin u was \<and> u \<noteq> caller"
    and "u \<noteq> ''.''" "u \<noteq> ''..''"
    and "pg_accessToken p = Some tok" "tok \<noteq> []"
    and "auth_ok s" and "sql_users_get u (au_users s) = Some row"
    and "lets_through (createAuthEnv fk cfg) tok caller s"
  shows "\<exists>p' s'. exchange (createAuthEnv fk cfg) now date (length (pg_inflight p)) (ui_step date p ev, s) = (p', s') \<and> confirmed ev p p' \<and> auth_ok s' \<and>
     (\<forall>k. sql_users_get k (au_users s') = (if k = u then Some (switched ev row) else sql_users_get k (au_users s)))"
proof -
  let ?E = "createAuthEnv fk cfg"
  have plain: "plain_part (encodeURIComponent u)" using assms(2,3) by (rule encoded_plain)
  note paths = user_paths [OF plain] decode_encoded decode_words
  have tok: "authHeaders p = Some tok" using assms(4,5) by (simp add: authHeaders_def truthy_text_def)
  note run = exchange_def user_route_def send_def auth_request_def tok paths answer_arrives_def answered_def delivered_def
    concluded_def res_ok_def reported_def set_message_def showToast_def logAuditEvent_def loadUsers_def truthy_text_def
    authHeaders_def assms(4,5) gate_open [OF assms(8)] okOr404_def confirmed_def audit_entry_def Let_def
  from assms(1) consider "ev = ClickActive u was" | "ev = ClickCanCreate u was" | "ev = ClickGlobalAdmin u was" "u \<noteq> caller" by blast
  then show ?thesis
  proof cases
    case 1
    with switch_operation(3) [OF assms(6,7), where fk = fk and cfg = cfg and b = "\<not> was"] show ?thesis
      by (cases was) (auto simp: run toggleUser_def active_toggled_def post_deactivate_def post_reactivate_def)
  next
    case 2
    with switch_operation(2) [OF assms(6,7), where fk = fk and cfg = cfg and b = "\<not> was"] show ?thesis
      by (cases was) (auto simp: run toggleCanCreateRepos_def canCreate_toggled_def post_canCreateRepos_def delete_canCreateRepos_def)
  next
    case 3
    with switch_operation(1) [OF assms(6,7), where fk = fk and cfg = cfg and b = "\<not> was"] show ?thesis
      by (cases was) (auto simp: run toggleGlobalAdmin_def globalAdmin_toggled_def post_globalAdmin_def delete_globalAdmin_gated)
  qed
qed

lemma lets_through_switched:
  assumes "lets_through (createAuthEnv fk cfg) tok caller s" and "sql_users_get u (au_users s) = Some row"
    and "\<forall>k. sql_users_get k (au_users s') = (if k = u then Some (switched ev row) else sql_users_get k (au_users s))"
    and "ev = ClickActive u was \<or> ev = ClickCanCreate u was \<or> ev = ClickGlobalAdmin u was \<and> u \<noteq> caller"
  shows "lets_through (createAuthEnv fk cfg) tok caller s'"
  using assms by (auto simp: lets_through_def auth_isGlobalAdmin_def split: if_splits option.splits)

lemma listed_user:
  assumes "auth_ok s" and "sql_users_get u (au_users s) = Some row"
  shows "\<exists>a \<in> set (auth_listUsers (createAuthEnv fk cfg) now s). us_username a = u \<and> us_active a = u_active row \<and>
    us_isGlobalAdmin a = u_isGlobalAdmin row \<and> us_canCreateRepos a = u_canCreateRepos row"
proof -
  have "row \<in> set (db_users (au_users s))" "u_username row = u"
    using assms by (auto simp: auth_ok_def user_db_ok_def sql_users_get_def sql_get_Some_iff)
  then show ?thesis by (auto simp: auth_listUsers_def sql_users_list_def)
qed

text \<open>
  C3. End to end: an administrator who is signed in clicks one of the switches in the row of an account, and the
  server answers that request and then the reload of the table that follows it, whatever else is in
  flight. The server changes that flag of that account and nothing else of any account, the page logs the
  action once, and the table shows, row by row, the accounts that the server holds, among them the
  account with its new flags. Left out are accounts of the names \<open>.\<close> and \<open>..\<close>, whose requests go
  elsewhere (below), and the operator's own switch for global administrators, after which the reload is
  refused.
\<close>

theorem operator_sees_server:
  assumes click: "ev = ClickActive u was \<or> ev = ClickCanCreate u was \<or> ev = ClickGlobalAdmin u was \<and> u \<noteq> caller"
    and name: "u \<noteq> ''.''" "u \<noteq> ''..''"
    and page: "pg_accessToken p = Some tok" "tok \<noteq> []"
    and server: "auth_ok s" "sql_users_get u (au_users s) = Some row"
    and admin: "authenticateBearerToken (Some (''Bearer '' @ tok)) (ae_jwtVerify cfg) = Some caller"
      "auth_isGlobalAdmin (createAuthEnv fk cfg) caller s"
    and first: "exchange (createAuthEnv fk cfg) now date (length (pg_inflight p)) (ui_step date p ev, s) = (p2, s2)"
    and second: "exchange (createAuthEnv fk cfg) now' date (length (pg_inflight p)) (p2, s2) = (p3, s3)"
  shows "sql_users_get u (au_users s3) = Some (switched ev row) \<and>
     {k. k \<noteq> u \<and> sql_users_get k (au_users s3) \<noteq> sql_users_get k (au_users s)} = {} \<and>
     pg_auditEvents p3 = audit_entry (pg_currentUsername p) (fst (switch_audit ev)) (snd (switch_audit ev)) # pg_auditEvents p \<and>
     pg_users p3 = Rows (map (\<lambda>a. user_row date (user_json a)) (auth_listUsers (createAuthEnv fk cfg) now' s3)) \<and>
     (\<exists>a \<in> set (auth_listUsers (createAuthEnv fk cfg) now' s3). us_username a = u \<and>
        us_active a = u_active (switched ev row) \<and> us_isGlobalAdmin a = u_isGlobalAdmin (switched ev row) \<and>
        us_canCreateRepos a = u_canCreateRepos (switched ev row))"
proof -
  let ?E = "createAuthEnv fk cfg"
  have gate: "lets_through ?E tok caller s" using admin by (simp add: lets_through_def)
  from switch_exchange [OF click name page server gate, of now date] first
  have c: "confirmed ev p p2" and ok: "auth_ok s2"
    and upd: "\<forall>k. sql_users_get k (au_users s2) = (if k = u then Some (switched ev row) else sql_users_get k (au_users s))"
    by auto
  have "authHeaders p = Some tok" using page by (simp add: authHeaders_def truthy_text_def)
  then have fl: "pg_inflight p2 = pg_inflight p @ [(PUsers, \<lparr>rq_method = ''GET'', rq_path = ''/api/v1/auth/users'', rq_token = Some tok, rq_body = None\<rparr>)]"
    using c by (simp add: confirmed_def auth_request_def)
  from list_exchange [OF fl lets_through_switched [OF gate server(2) upd click], of now' date] second
  have p3: "p3 = renderUsers date (map user_json (auth_listUsers ?E now' s2)) (p2\<lparr>pg_inflight := pg_inflight p\<rparr>)" and s3: "s3 = s2"
    by auto
  have u2: "sql_users_get u (au_users s2) = Some (switched ev row)" using upd by simp
  note listed = listed_user [OF ok u2, of fk cfg now']
  then have "auth_listUsers ?E now' s2 \<noteq> []" by auto
  note shown = users_shown [OF this, of date "p2\<lparr>pg_inflight := pg_inflight p\<rparr>"]
  have "pg_auditEvents p3 = audit_entry (pg_currentUsername p) (fst (switch_audit ev)) (snd (switch_audit ev)) # pg_auditEvents p"
    using c by (simp add: p3 shown(2) confirmed_def)
  moreover have "{k. k \<noteq> u \<and> sql_users_get k (au_users s3) \<noteq> sql_users_get k (au_users s)} = {}" using upd s3 by auto
  ultimately show ?thesis using u2 listed shown(1) unfolding s3 p3 by blast
qed

definition signed_in_page :: page where
  "signed_in_page = (blank_page False)\<lparr>pg_accessToken := Some ''jwt:ann'', pg_currentUsername := Some ''ann'', pg_isGlobalAdmin := True,
     pg_inflight := [(PRepos, \<lparr>rq_method = ''GET'', rq_path = ''/api/v1/versioning/repos'', rq_token = Some ''jwt:ann'', rq_body = None\<rparr>)]\<rparr>"

theorem operator_sees_server_witness:
  "\<exists>p3 s3. exchange (createAuthEnv True sample_cfg) 2 (\<lambda>_. []) 1
       (exchange (createAuthEnv True sample_cfg) 1 (\<lambda>_. []) 1 (ui_step (\<lambda>_. []) signed_in_page (ClickActive ''bob'' True), sample_db)) = (p3, s3) \<and>
     sql_users_get ''bob'' (au_users s3) = Some ((sample_user ''bob'' False)\<lparr>u_active := False\<rparr>) \<and>
     map ae_action (pg_auditEvents p3) = [''User active status toggled'']"
proof -
  let ?E = "createAuthEnv True sample_cfg" and ?d = "\<lambda>_. []" and ?ev = "ClickActive ''bob'' True"
  obtain p2 s2 where 1: "exchange ?E 1 ?d (length (pg_inflight signed_in_page)) (ui_step ?d signed_in_page ?ev, sample_db) = (p2, s2)" by fastforce
  obtain p3 s3 where 2: "exchange ?E 2 ?d (length (pg_inflight signed_in_page)) (p2, s2) = (p3, s3)" by fastforce
  have one: "length (pg_inflight signed_in_page) = 1" by (simp add: signed_in_page_def)
  have page: "pg_accessToken signed_in_page = Some ''jwt:ann''" "''jwt:ann'' \<noteq> []"
    by (simp_all add: signed_in_page_def blank_page_def)
  have row: "sql_users_get ''bob'' (au_users sample_db) = Some (sample_user ''bob'' False)" by simp
  have auth: "authenticateBearerToken (Some (''Bearer '' @ ''jwt:ann'')) (ae_jwtVerify sample_cfg) = Some ''ann''"
    using sample_authenticated(1) by (simp add: sample_request_def)
  have adm: "auth_isGlobalAdmin ?E ''ann'' sample_db" by (simp add: auth_isGlobalAdmin_def)
  have click: "?ev = ClickActive ''bob'' True \<or> ?ev = ClickCanCreate ''bob'' True \<or> ?ev = ClickGlobalAdmin ''bob'' True \<and> ''bob'' \<noteq> ''ann''"
    and name: "''bob'' \<noteq> ''.''" "''bob'' \<noteq> ''..''" by simp_all
  have fresh: "pg_auditEvents signed_in_page = []" by (simp add: signed_in_page_def blank_page_def)
  from operator_sees_server [OF click name page sample_ok row auth adm 1 2] fresh 1 2 one
  show ?thesis by (intro exI [of _ p3] exI [of _ s3]) (auto simp: audit_entry_def)
qed

text \<open>The request that is to delete the account \<open>..\<close> reaches no route of user management.\<close>

lemma dot_user_no_route:
  "user_route now \<lparr>rq_method = ''DELETE'', rq_path = user_path ''..'' [], rq_token = t, rq_body = None\<rparr> = None"
  by (simp add: user_route_def dot_user_unreachable)

text \<open>
  On an account of the name \<open>.\<close> the switch for global administrators deletes another account: the browser
  drops the one-dot part of the path, and what is left is the path of the account \<open>global-admin\<close>.
\<close>

lemma dot_user_deletes_other:
  "user_route now \<lparr>rq_method = ''DELETE'', rq_path = user_path ''.'' ''/global-admin'', rq_token = t, rq_body = None\<rparr> =
     Some (RDeleteUser ''global-admin'' now)"
proof -
  have "path_parts (user_path ''.'' ''/global-admin'') = [''api'', ''v1'', ''auth'', ''users'', ''global-admin'']" by code_simp
  then show ?thesis by (simp add: user_route_def decode_words)
qed

text \<open>What the login route answers opens a session the way the page expects it, or opens none.\<close>

lemma login_answers_open:
  assumes "post_login E secureCookies c token tm s = (r, s')"
    and "\<And>u i e t. ae_sign E u i e = Inr t \<Longrightarrow> t \<noteq> []"
  shows "opens_ok (delivered r)"
proof (cases "loginBodySchema (body_or_null (rq_json c))")
  case None
  with assms(1) show ?thesis by (auto simp: post_login_def delivered_def opens_ok_def res_ok_def)
next
  case (Some up)
  obtain u pw where up: "up = (u, pw)" by (cases up)
  with Some have u: "u \<noteq> []" by (auto simp: loginBodySchema_def z_string_def split: option.splits json.splits if_splits)
  show ?thesis
  proof (cases "auth_login E u pw token tm s")
    case (Pair res s'')
    show ?thesis
    proof (cases res)
      case (Inr l)
      from login_Inr [OF Pair [unfolded Inr]] have "lr_username l = u" "lr_accessToken l \<noteq> []"
        by (auto simp: issueAccessToken_def Let_def dest: assms(2))
      with Pair Inr Some up u assms(1) show ?thesis
        by (auto simp: post_login_def delivered_def opens_ok_def res_ok_def login_data_def readable_def text_of_def truthy_text_def
            split: option.splits)
    next
      case (Inl e)
      with Pair Some up assms(1) show ?thesis
        by (cases e) (auto simp: post_login_def delivered_def opens_ok_def res_ok_def)
    qed
  qed
qed

end
