(* ===== verification/Spec2Isabelle.thy ===== *)
theory Spec2Isabelle
  imports AuthRouter TransferRouter Boot TlsDiscovery EnvSchema ExportRoundtrip ServerEdge AdminFlow Scripts
begin

text \<open>
  \<^bold>\<open>Verification of the Deltix server\<close>

  Deltix-Server is the control plane of a version control system for databases: users log in over
  HTTP, get short-lived tickets, transfer repository data over gRPC, and branch, merge, push and
  read Dolt repositories. The sources are TypeScript under \<open>src/\<close>; this development models the
  server as HOL functions on explicit state and proves what the parts promise each other.

  \<^bold>\<open>How code becomes definitions.\<close> An asynchronous method that may throw is a function from the state to
  an outcome (\<open>Inl\<close> the error, \<open>Inr\<close> the value) and the state it leaves, also when it throws. A class
  with injected collaborators takes a record of their functions, as the constructor does; a table of
  libSQL is the list of its rows. Interfaces (stores, limiters) are locales whose laws are proved of
  the libSQL models by interpretation. Strings are lists of code units below 256, numbers and
  milliseconds are unbounded integers, each reading of the clock and each random value is an argument.
  Parameters stand for what is not in the repository: password hashing, JWT signing, SHA-256, Ed25519,
  \<open>JSON.parse\<close>, \<open>Date.parse\<close>, the file system (which calls succeed where), the \<open>dolt\<close> binary (a function from an argument
  vector and the state of the repositories) and what an addon does when it is activated.

  \<^bold>\<open>The theories.\<close>
  \<^item> \<open>Prelude\<close>: operations that may throw, string functions of the language, SQL statements on tables.
  \<^item> \<open>AuthTypes\<close>, \<open>Sessions\<close>, \<open>RateLimiter\<close>, \<open>UserStore\<close>, \<open>AuthService\<close>, \<open>Http\<close>, \<open>AuthRouter\<close>
    (\<open>contexts/auth\<close>): refresh sessions, the fixed-window limiters, the user and role tables, the
    service with login, refresh, first-administrator setup and roles, and every route. Shown: when login
    succeeds, how many attempts get through, that the tables stay keyed under every sequence of calls,
    that one of many racing setups wins, that the user routes are closed to everybody but global
    administrators, and that one of them remains while requests to withdraw the flag do not overlap.
  \<^item> \<open>Tickets\<close>, \<open>TransferRouter\<close> (\<open>contexts/transfer\<close>): ticket statements, service and routes. Shown:
    a ticket is used at most once under every interleaving, only moves forward, is issued, consumed and
    renewed exactly under the stated conditions, and dies with the role it was issued for.
  \<^item> \<open>Jobs\<close>, \<open>PushSession\<close> (\<open>contexts/storage\<close>): the job table, the copy to the NAS and its worker;
    the push, pull and heartbeat calls of the transfer engine. Shown: claims are exclusive, retries are
    bounded, the worker loop ends, a synced job has its file, a push call whose stream ends is answered
    once unless its staging file cannot be removed, and a successful one stages exactly the bytes that were sent.
  \<^item> \<open>RepoStore\<close>, \<open>DoltCli\<close>, \<open>SyncPlan\<close>, \<open>Mutex\<close>, \<open>Branches\<close>, \<open>Merge\<close>, \<open>CommitIO\<close>, \<open>History\<close>,
    \<open>VersioningRouter\<close> (\<open>contexts/versioning\<close>): the registry and provisioning, the commands and the CSV
    reader, table selections closed under foreign keys, the queue per repository, branches, merges,
    import and export of commits, log and diff, and every route with its gate and error handler. Shown:
    the closure is reachability, actions of one repository do not overlap and all run, commands stay
    inside the registered directory with safe names, conflicts are aborted before they are reported, and
    no route acts for a caller without the role it asks for.
  \<^item> \<open>Licensing\<close>, \<open>AddonTrust\<close>, \<open>Addons\<close>, \<open>TlsDiscovery\<close> (\<open>contexts/licensing\<close>, \<open>contexts/addons\<close>,
    \<open>packages/addon-sdk\<close>, \<open>contexts/tls-discovery\<close>): license keys and the check at boot, trusted author
    keys, the loading of addons and the circuit breaker around their routes, certificate discovery.
    Shown: exactly which licenses and which addons are accepted, that the trust store refines a map,
    that the breaker opens exactly after the configured run of failures, bounds on what is loaded and
    served.
  \<^item> \<open>Boot\<close> (\<open>index.ts\<close>): the order of the boot, the rescue of repositories without roles, the hooks
    through which the transfer engine calls the versioning services. Shown: when the server listens,
    what the rescue changes, and what a first push creates.
  \<^item> \<open>Json\<close>, \<open>EnvSchema\<close>, \<open>ConfigSchema\<close> (\<open>shared/env.ts\<close>, \<open>config/schema.ts\<close>): JSON values with the number
    texts and coercions of the language, the two schemas of settings, the layers of the configuration and
    its redaction. Shown: accepted settings are well-typed, the highest layer that decides a path wins,
    the sanitized form tells nothing about secrets, and where the two readers of a switch agree.
  \<^item> \<open>ErrorReporter\<close>, \<open>Bootstrap\<close>, \<open>Cli\<close>, \<open>ExportRoundtrip\<close> (\<open>shared/error-reporter.ts\<close>, \<open>bootstrap/init.ts\<close>,
    \<open>cli/commands.ts\<close>): reports of errors; directories, permission probe, ports, key pair and database of
    an installation; the commands status, config export and doctor with the environment file they read.
    Shown: which port is chosen, that the key pair is made once, what a bootstrap that succeeds leaves
    behind, with the statements it ran on the database, when the doctor succeeds and what it checks, that a redacted export depends on no secret, and what an unredacted
    one restores.
  \<^item> \<open>ServerEdge\<close> (\<open>shared/security-middleware.ts\<close>, \<open>contexts/admin-ui/admin-ui.router.ts\<close>,
    \<open>shared/logger.ts\<close>, \<open>shared/build-info.ts\<close>, the routes and the port of \<open>index.ts\<close>): the headers of every
    response, the pages of the admin interface and which of them is served, the settings of the logger.
    Shown: which origins are allowed, and that the setup form is served while there is no account.
  \<^item> \<open>WebText\<close>, \<open>AdminUi\<close> (\<open>contexts/admin-ui/assets/app.js\<close>): escaping for HTML and for paths with the
    readings that the browser and the server make of them; the page of the administrator with its session,
    timers, requests in flight, tables, messages and audit log, one function per event and per answer.
    Shown: escaped text is inert, a request reaches the account it names, the log holds exactly the
    confirmed actions (and every revocation of an addon's key, confirmed or not), retries are bounded, and a session that is open has its renewal on the way.
  \<^item> \<open>AdminFlow\<close>: the page and the routes of user management together, one exchange after the other. Shown:
    after a click on a switch the server has changed that flag of that account only, and the page logs it
    and shows the accounts as the server holds them (for names other than \<open>.\<close> and \<open>..\<close>).
  \<^item> \<open>Scripts\<close> (\<open>scripts/*.ts\<close>): the tools that mint a community license, make the keys of authors and of
    access tokens, and write a certificate. Shown: a minted license passes the validation at boot exactly
    when its licensee is not empty and the history allows it, a printed author key can be trusted and
    verifies what its author signs, and which names a certificate covers.
  \<^item> This theory holds the property that spans the transfer engine, the hooks, the registry and the roles.

  \<^bold>\<open>Concurrency.\<close> Where requests interleave at suspension points the steps are separate: statements
  on tickets, jobs and the first-administrator setup, the gate, the count and the update of a request to
  withdraw the flag of an administrator, the calls, entries and releases of the queue, the
  check and the import of a push, the entry and the end of a wrapped addon handler, and on the admin page
  the sending of each request, the arrival of its answer and the firing of a timer.

  \<^bold>\<open>Loops and bounds.\<close> Every recursive definition is total: loops over lists are structural, the
  closure over foreign keys, the chunks of a file, the removal of a literal, the merge of objects and the
  digits of a number have measures, as have the retries of a fetch and the two readers of escaped text, and
  the scan for a port counts its fifty attempts. No definition uses fuel but the
  worker's \<open>drain\<close>, whose bound (the remaining retries of the waiting jobs) is proved to be enough.

  \<^bold>\<open>Weaknesses of the code\<close> that the model made visible are lemmas too, among them
  \<open>reader_pushes_with_pull_ticket\<close>, \<open>rejected_push_leaks_staging\<close>, \<open>mismatch_is_published\<close>,
  \<open>push_call_left_open\<close>, \<open>delete_user_can_remove_last_admin\<close>, \<open>overlapping_demotions\<close>, \<open>refresh_ignores_deactivation\<close>, \<open>schema_only_push_is_empty\<close>,
  \<open>merge_conflict_left_open\<close>, \<open>stale_push_accepted\<close>, \<open>unreadable_head_accepted\<close>, \<open>push_branch_is_option\<close>,
  \<open>multiline_message_breaks_log\<close>, \<open>global_admin_implicit_role\<close>, \<open>bootstrap_limit_evaded\<close>,
  \<open>dunder_never_camel\<close>, \<open>secret_list_leaks\<close>, \<open>ports_can_collide\<close>, \<open>lone_key_replaced\<close>, \<open>half_configured_key\<close>,
  \<open>doctor_throws_on_bad_config\<close>, \<open>config_option_refused\<close>, \<open>configured_port_not_used\<close>,
  \<open>silent_level_refused\<close>, \<open>renewal_can_lapse\<close>, \<open>token_after_sign_out\<close>, \<open>refused_revocation_logged\<close>,
  \<open>grant_logged_for_other_repo\<close>, \<open>dot_user_unreachable\<close>, \<open>dot_user_deletes_other\<close>, \<open>empty_licensee_minted\<close> and \<open>generated_keys_misread\<close>.

  \<^bold>\<open>Not modelled.\<close> The shell scripts of the installation and the local demo drive other programs. Of the
  logger, its redaction and output are options of its library. The texts of messages and the layout of
  what the commands print are left out, except where a property reads them. Of the boot, opening ports
  and starting workers are left out; of the license, the timer of the periodic validation; of the stream
  of \<open>pull-commits\<close>, the keep-alive lines; of the admin page, the onboarding tours, view transitions,
  tabs, the layout and the version badge. JSON numbers are integers, and text outside the first 256 code
  units does not occur. A write to an open staging file is taken to succeed at once, and a rejected queue
  of a push call to end with the call (what the runtime does about an unhandled rejection is left out).
\<close>

section \<open>A push through the whole server\<close>

text \<open>
  C2. What a push that the transfer engine answers with a result leaves of the registry and the roles, with
  the hooks that the entry point gives the engine. The client sent one header whose ticket could be
  consumed. If its repository did not exist and its id is one that Deltix can provision, the owner of the
  ticket was allowed to create repositories, the repository is registered under the root with that user
  as creator, and the user is its administrator. Otherwise registry and roles are as before: the push
  went to a repository that exists, or to an id that can never be provisioned (as \<open>org/repo\<close>), which
  stays unregistered although the push succeeds. The registry keeps its invariant.
\<close>

theorem pushed_repo_registered:
  assumes "\<forall>xs. pe_join P xs \<noteq> []"
    and "pe_onBeforePush P = onBeforePush V t" and "pe_onPushCommitted P = onPushCommitted V run"
    and "re_store (ve_repos V) = libsqlRepoStore fk" and "ve_auth V = createAuthEnv fk' cfg"
    and "pw_ext w = (a, d, u)" and "auth_ok a" and "registry_ok (re_rootPath (ve_repos V)) d"
    and "gp_replies (fst (push_call P ms newJobId now w)) = [RResult res]"
  shows "\<exists>i opn repo x a' d' u'. headers ms = [(i, opn, repo)] \<and> consumable P (pw_tickets w) i opn repo x \<and>
     pw_ext (snd (snd (push_call P ms newJobId now w))) = (a', d', u') \<and>
     registry_ok (re_rootPath (ve_repos V)) d' \<and>
     (sql_rp_get repo d' \<noteq> None \<longleftrightarrow> sql_rp_get repo d \<noteq> None \<or> VALID_REPO_ID repo) \<and>
     (if sql_rp_get repo d = None \<and> VALID_REPO_ID repo
      then auth_canUserCreateRepos (ve_auth V) (tk_username x) a \<and>
        sql_rp_get repo d' = Some \<lparr>rp_repoId = repo, rp_doltPath = path_join (re_rootPath (ve_repos V)) repo,
          rp_createdAt = t, rp_createdBy = tk_username x\<rparr> \<and>
        auth_getRepoRole (ve_auth V) (tk_username x) repo a' = Some Admin
      else a' = a \<and> d' = d)"
proof -
  let ?c = "process_all P ms (new_call, new_session, w)"
  note inv = call_inv_all [OF assms(1), of ms w]
  from endStream_outcome [OF inv, of newJobId now] assms(9)
  obtain h w1 h2 w2 where o: "snd ?c = (h, w1)" "\<not> gp_aborted (fst ?c)" "gp_headerReceived (fst ?c)"
    "push_finish P newJobId now (h, w1) = (Inr res, (h2, w2))" "snd (snd (push_call P ms newJobId now w)) = w2"
    by (auto simp: push_call_def)
  from inv o(1-3) assms(6) obtain i opn repo x where x: "headers ms = [(i, opn, repo)]"
    "consumable P (pw_tickets w) i opn repo x" "ps_repo h = Some repo" "ps_username h = Some (tk_username x)" "pw_ext w1 = (a, d, u)"
    by (cases ?c) (auto simp: call_inv_def)
  obtain prep y where hooks: "onBeforePush V t repo (tk_username x) (the (ps_stagingFilePath h)) (ps_syncOptions h) (a, d, u) = (Inr prep, y)"
    and after: "pw_ext w2 = y \<or> (\<exists>cs. pw_ext w2 =
      snd (onPushCommitted V run (pp_repo prep) (pp_username prep) newJobId cs (pp_resolvedTables prep) y))"
    by (rule push_finish_hooks [OF o(4)]) (simp add: assms(2,3) x)
  obtain a1 d1 u1 where y: "y = (a1, d1, u1)" by (cases y)
  obtain a2 d2 u2 where w2: "pw_ext w2 = (a2, d2, u2)" by (cases "pw_ext w2")
  have keep: "a2 = a1 \<and> d2 = d1"
    using after onPushCommitted_keeps [of V run _ _ newJobId _ _ a1 d1 u1 a2 d2 u2] unfolding y w2 by auto
  note reg = onBeforePush_registry [OF assms(4,5,7,8) hooks [unfolded y]]
  have "if sql_rp_get repo d = None \<and> VALID_REPO_ID repo
      then auth_canUserCreateRepos (ve_auth V) (tk_username x) a \<and>
        sql_rp_get repo d1 = Some \<lparr>rp_repoId = repo, rp_doltPath = path_join (re_rootPath (ve_repos V)) repo,
          rp_createdAt = t, rp_createdBy = tk_username x\<rparr> \<and>
        auth_getRepoRole (ve_auth V) (tk_username x) repo a1 = Some Admin
      else a1 = a \<and> d1 = d"
    using reg by (auto split: if_splits)
  then show ?thesis
    using x(1,2) reg keep o(5) w2
    by (intro exI [of _ i] exI [of _ opn] exI [of _ repo] exI [of _ x] exI [of _ a2] exI [of _ d2] exI [of _ u2])
      (auto split: if_splits)
qed

definition demo_push_env :: "(user_db, session_row list, repo_db, unit) hook_state push_env" where
  "demo_push_env =
     \<lparr>pe_verifyRole = Some (\<lambda>u r. Some Writer), pe_ttl = 60, pe_stagingRoot = ''/ssd'', pe_maxRetries = 3,
      pe_join = (\<lambda>xs. CHR ''/'' # js_join ''/'' xs), pe_sha256 = (\<lambda>b. b),
      pe_onBeforePush = onBeforePush sample_vr_env 7,
      pe_onPushCommitted = onPushCommitted sample_vr_env (\<lambda>_ _ _ _ _. ret ''h''),
      pe_mkdir_ok = (\<lambda>p. True), pe_rm_ok = (\<lambda>p. True)\<rparr>"

definition demo_push_world :: "(user_db, session_row list, repo_db, unit) hook_state push_world" where
  "demo_push_world =
     \<lparr>pw_tickets = [sample_ticket\<lparr>tk_username := ''bob'', tk_repo := ''shop''\<rparr>], pw_jobs = [], pw_fs = Map.empty,
      pw_ext = sample_vr_state\<rparr>"

theorem pushed_repo_registered_witness:
  "\<exists>a' d' u'. pw_ext (snd (snd (push_call demo_push_env [(''u'', 1, MHeader ''t1'' Push ''shop''), (''u'', 2, MChunk ''ab'')] ''j'' 3
       demo_push_world))) = (a', d', u') \<and> sql_rp_get ''shop'' d' \<noteq> None"
proof -
  let ?ms = "[(''u'', 1, MHeader ''t1'' Push ''shop''), (''u'', 2, MChunk ''ab'')]"
  have j: "\<forall>xs. pe_join demo_push_env xs \<noteq> []"
    and h: "pe_onBeforePush demo_push_env = onBeforePush sample_vr_env 7"
      "pe_onPushCommitted demo_push_env = onPushCommitted sample_vr_env (\<lambda>_ _ _ _ _. ret ''h'')"
    and e: "pw_ext demo_push_world = (sample_db, sample_repo_db, ())"
    by (simp_all add: demo_push_env_def demo_push_world_def)
  have st: "re_store (ve_repos sample_vr_env) = libsqlRepoStore True" by (simp add: sample_vr_env_def)
  have reg: "registry_ok (re_rootPath (ve_repos sample_vr_env)) sample_repo_db" by code_simp
  have run: "gp_replies (fst (push_call demo_push_env ?ms ''j'' 3 demo_push_world)) =
      [RResult \<lparr>pr_jobId = ''j'', pr_checksum = ''ab'', pr_bytesReceived = 2, pr_dryRun = False\<rparr>]"
    by code_simp
  have v: "VALID_REPO_ID ''shop''" by code_simp
  show ?thesis
    using pushed_repo_registered [OF j h st sample_vr_auth e sample_ok reg run] v by auto
qed

end
